(* ===== verification/Prelude.thy ===== *)
theory Prelude
  imports Complex_Main "HOL-Library.Word" "HOL-Library.Sublist" "HOL-Library.AList"
begin

text \<open>
  Shared vocabulary of the development: machine integers with the saturating, checked and
  wrapping operations of Rust's standard library, UTF-8 strings with \<open>trim\<close>, hash maps as
  association lists, results as sums, the build features of the workspace, and the generic
  lemmas the component theories use.

  Conventions. A Rust \<open>u64\<close> is a \<open>64 word\<close>; an \<open>i64\<close> or \<open>i32\<close> is an \<open>int\<close> whose
  arithmetic goes through \<open>i64_add\<close>, \<open>i64_sub\<close> and \<open>i64_mul\<close>, which wrap as a release
  build does. A \<open>String\<close> is the list of its UTF-8 bytes (type \<open>string\<close>). A \<open>HashMap\<close> or
  \<open>DashMap\<close> is an association list without duplicate keys, listed in iteration order.
  \<open>Result<T, E>\<close> is \<open>'e + 't\<close> with \<open>Inl\<close> the error.
\<close>

section \<open>Collections of facts\<close>

named_theorems hmap_simps \<open>lookup, membership and key laws of the hash-map operations\<close>
named_theorems sat_simps \<open>saturating arithmetic read through unat\<close>

section \<open>Machine integers\<close>

type_synonym u8 = "8 word"
type_synonym u32 = "32 word"
type_synonym u64 = "64 word"
type_synonym i32 = int
type_synonym i64 = int

definition sat_add :: "'a::len word \<Rightarrow> 'a word \<Rightarrow> 'a word" where
  "sat_add a b = (if a \<le> - 1 - b then a + b else - 1)"

definition sat_sub :: "'a::len word \<Rightarrow> 'a word \<Rightarrow> 'a word" where
  "sat_sub a b = (if b \<le> a then a - b else 0)"

definition sat_mul :: "'a::len word \<Rightarrow> 'a word \<Rightarrow> 'a word" where
  "sat_mul a b = (if b = 0 \<or> a \<le> - 1 div b then a * b else - 1)"

lemma unat_max_word: "unat (- 1 :: 'a::len word) = 2 ^ LENGTH('a) - 1"
  by (simp add: unsigned_minus_1_eq_mask mask_eq_exp_minus_1)

lemma unat_bound: "unat a \<le> 2 ^ LENGTH('a) - 1" for a :: "'a::len word"
proof -
  have "unat a < 2 ^ LENGTH('a)" by (rule unsigned_less)
  then show ?thesis by linarith
qed

lemma unat_sat_add [sat_simps]:
  "unat (sat_add a b) = min (unat a + unat b) (2 ^ LENGTH('a) - 1)"
  for a b :: "'a::len word"
proof -
  have "unat (- 1 - b) = 2 ^ LENGTH('a) - 1 - unat b"
    using unat_bound [of b] by (simp add: unat_sub unat_max_word word_le_nat_alt)
  moreover have "x \<le> y - 1 - z \<longleftrightarrow> x + z < y" if "z \<le> y - 1" "0 < y" for x y z :: nat
    using that by linarith
  ultimately have "a \<le> - 1 - b \<longleftrightarrow> unat a + unat b < 2 ^ LENGTH('a)"
    using unat_bound [of b] by (simp only: word_le_nat_alt zero_less_power zero_less_numeral)
  then show ?thesis
    by (auto simp: sat_add_def unat_word_ariths unat_max_word min_def)
qed

lemma unat_sat_sub [sat_simps]: "unat (sat_sub a b) = unat a - unat b"
  by (auto simp: sat_sub_def unat_sub word_le_nat_alt)

lemma unat_sat_mul [sat_simps]:
  "unat (sat_mul a b) = min (unat a * unat b) (2 ^ LENGTH('a) - 1)"
  for a b :: "'a::len word"
proof -
  have "unat (- 1 div b) = (2 ^ LENGTH('a) - 1) div unat b"
    by (simp add: unat_div unat_max_word)
  then have le: "a \<le> - 1 div b \<longleftrightarrow> unat a * unat b \<le> 2 ^ LENGTH('a) - 1" if "b \<noteq> 0"
    using that by (simp add: word_le_nat_alt less_eq_div_iff_mult_less_eq word_neq_0_conv
        unat_gt_0 mult.commute)
  have "x \<le> y - Suc 0 \<Longrightarrow> x mod y = x" if "0 < y" for x y :: nat
    using that by simp
  note this [of "2 ^ LENGTH('a)", simplified, simp]
  show ?thesis
    by (cases "b = 0") (auto simp: sat_mul_def le unat_word_ariths unat_max_word min_def)
qed

lemma sat_add_ge: "a \<le> sat_add a b"
  using unat_bound [of a] by (simp add: word_le_nat_alt unat_sat_add)

lemma sat_add_mono: "a \<le> b \<Longrightarrow> sat_add a c \<le> sat_add b c"
  by (simp add: word_le_nat_alt unat_sat_add)

lemma sat_add_gt:
  fixes a :: "'a::len word"
  assumes "a \<noteq> - 1"
  shows "a < sat_add a 1"
proof -
  have "unat a \<noteq> unat (- 1 :: 'a word)"
    using assms by (simp only: word_unat_eq_iff [symmetric] not_False_eq_True)
  then have "unat a < 2 ^ LENGTH('a) - 1"
    using unat_bound [of a] by (simp add: unat_max_word)
  then show ?thesis by (simp add: word_less_nat_alt unat_sat_add)
qed

definition i64_min :: int where "i64_min = - (2 ^ 63)"
definition i64_max :: int where "i64_max = 2 ^ 63 - 1"

definition is_i64 :: "int \<Rightarrow> bool" where
  "is_i64 x \<longleftrightarrow> i64_min \<le> x \<and> x \<le> i64_max"

definition wrap_i64 :: "int \<Rightarrow> int" where
  "wrap_i64 x = (x + 2 ^ 63) mod 2 ^ 64 - 2 ^ 63"

definition i64_add :: "int \<Rightarrow> int \<Rightarrow> int" where "i64_add a b = wrap_i64 (a + b)"
definition i64_sub :: "int \<Rightarrow> int \<Rightarrow> int" where "i64_sub a b = wrap_i64 (a - b)"
definition i64_mul :: "int \<Rightarrow> int \<Rightarrow> int" where "i64_mul a b = wrap_i64 (a * b)"

definition i64_checked_add :: "int \<Rightarrow> int \<Rightarrow> int option" where
  "i64_checked_add a b = (if is_i64 (a + b) then Some (a + b) else None)"

lemmas i64_bounds = is_i64_def i64_min_def i64_max_def

lemma wrap_i64_exact: "is_i64 x \<Longrightarrow> wrap_i64 x = x"
  by (simp add: i64_bounds wrap_i64_def)

lemma is_i64_wrap: "is_i64 (wrap_i64 x)"
proof -
  have "0 \<le> (x + 2 ^ 63) mod 2 ^ 64" "(x + 2 ^ 63) mod 2 ^ 64 < 2 ^ 64" by simp_all
  then show ?thesis unfolding i64_bounds wrap_i64_def by simp
qed

lemma i64_sub_exact: "is_i64 (a - b) \<Longrightarrow> i64_sub a b = a - b"
  by (simp add: i64_sub_def wrap_i64_exact)

lemma i64_add_exact: "is_i64 (a + b) \<Longrightarrow> i64_add a b = a + b"
  by (simp add: i64_add_def wrap_i64_exact)

lemma i64_mul_exact: "is_i64 (a * b) \<Longrightarrow> i64_mul a b = a * b"
  by (simp add: i64_mul_def wrap_i64_exact)

section \<open>Results\<close>

type_synonym ('e, 'a) result = "'e + 'a"

definition ok_or :: "'a option \<Rightarrow> 'e \<Rightarrow> ('e, 'a) result" where
  "ok_or x e = (case x of None \<Rightarrow> Inl e | Some v \<Rightarrow> Inr v)"

fun is_ok :: "('e, 'a) result \<Rightarrow> bool" where
  "is_ok (Inl _) = False"
| "is_ok (Inr _) = True"

lemma ok_or_Inl [simp]: "ok_or x e = Inl e' \<longleftrightarrow> x = None \<and> e' = e"
  by (auto simp: ok_or_def split: option.splits)

lemma ok_or_Inr [simp]: "ok_or x e = Inr v \<longleftrightarrow> x = Some v"
  by (auto simp: ok_or_def split: option.splits)

lemma is_ok_iff: "is_ok r \<longleftrightarrow> (\<exists>v. r = Inr v)"
  by (cases r) auto

section \<open>Strings\<close>

text \<open>
  The UTF-8 encodings of the Unicode \<open>White_Space\<close> characters, which \<open>str::trim\<close> removes
  at both ends.
\<close>

definition whitespace_encodings :: "string list" where
  "whitespace_encodings = map (map char_of)
     ([[9], [10], [11], [12], [13], [32], [194, 133], [194, 160], [225, 154, 128],
       [226, 128, 168], [226, 128, 169], [226, 128, 175], [226, 129, 159], [227, 128, 128]]
      @ map (\<lambda>b. [226, 128, b]) [128, 129, 130, 131, 132, 133, 134, 135, 136, 137, 138 :: nat])"

lemma whitespace_encodings_nonempty: "w \<in> set whitespace_encodings \<Longrightarrow> w \<noteq> []"
  by (auto simp: whitespace_encodings_def)

function strip_front :: "string list \<Rightarrow> string \<Rightarrow> string" where
  "strip_front ws s =
     (case find (\<lambda>w. w \<noteq> [] \<and> prefix w s) ws of
        None \<Rightarrow> s
      | Some w \<Rightarrow> strip_front ws (drop (length w) s))"
  by pat_completeness auto
termination
  by (relation "measure (\<lambda>(ws, s). length s)")
    (auto simp: find_Some_iff prefix_def)

declare strip_front.simps [simp del]

definition trim :: "string \<Rightarrow> string" where
  "trim s = rev (strip_front (map rev whitespace_encodings)
                   (rev (strip_front whitespace_encodings s)))"

definition blank :: "string \<Rightarrow> bool" where
  "blank s \<longleftrightarrow> trim s = []"

definition is_ascii_alphanumeric :: "char \<Rightarrow> bool" where
  "is_ascii_alphanumeric c \<longleftrightarrow>
     (let n = (of_char c :: nat) in
      48 \<le> n \<and> n \<le> 57 \<or> 65 \<le> n \<and> n \<le> 90 \<or> 97 \<le> n \<and> n \<le> 122)"

definition to_ascii_lowercase :: "string \<Rightarrow> string" where
  "to_ascii_lowercase = map (\<lambda>c. let n = (of_char c :: nat) in
     if 65 \<le> n \<and> n \<le> 90 then char_of (n + 32) else c)"

definition contains :: "string \<Rightarrow> string \<Rightarrow> bool" where
  "contains s t \<longleftrightarrow> list_ex (prefix t) (suffixes s)"

text \<open>Decimal numerals, as \<open>format!\<close> prints them.\<close>

fun dec_nat :: "nat \<Rightarrow> string" where
  "dec_nat n = (if n < 10 then [char_of (48 + n)] else dec_nat (n div 10) @ [char_of (48 + n mod 10)])"

declare dec_nat.simps [simp del]

definition dec_int :: "int \<Rightarrow> string" where
  "dec_int i = (if i < 0 then ''-'' @ dec_nat (nat (- i)) else dec_nat (nat i))"

lemma strip_front_Nil [simp]: "strip_front ws [] = []"
proof -
  have "find (\<lambda>w. w \<noteq> [] \<and> prefix w []) ws = None"
    by (auto simp: find_None_iff)
  then show ?thesis by (simp add: strip_front.simps)
qed

lemma blank_Nil [simp]: "blank []"
  by (simp add: blank_def trim_def)

lemma not_blank_nonempty: "\<not> blank s \<Longrightarrow> s \<noteq> []"
  by auto

lemma strip_front_eq_Nil:
  "strip_front ws s = [] \<Longrightarrow> s \<noteq> [] \<Longrightarrow> \<exists>w \<in> set ws. w \<noteq> [] \<and> last w = last s"
proof (induction ws s rule: strip_front.induct)
  case (1 ws s)
  show ?case
  proof (cases "find (\<lambda>w. w \<noteq> [] \<and> prefix w s) ws")
    case None
    with "1.prems" show ?thesis by (simp add: strip_front.simps [of ws s])
  next
    case (Some w)
    then have w: "w \<in> set ws" "w \<noteq> []" "prefix w s" by (auto simp: find_Some_iff)
    then obtain r where s: "s = w @ r" by (auto simp: prefix_def)
    have "strip_front ws s = strip_front ws (drop (length w) s)"
      using Some by (simp add: strip_front.simps [of ws s])
    then have "strip_front ws r = []" using "1.prems"(1) s by simp
    with w s "1.IH" [OF Some] show ?thesis by (cases "r = []") auto
  qed
qed

lemma not_blank_head:
  assumes "c \<notin> hd ` set whitespace_encodings"
  shows "\<not> blank (c # s)"
proof
  assume b: "blank (c # s)"
  have "find (\<lambda>w. w \<noteq> [] \<and> prefix w (c # s)) whitespace_encodings = None"
    using assms by (auto simp: find_None_iff prefix_def image_iff) (metis append_is_Nil_conv hd_append2 list.sel(1))
  then have "strip_front whitespace_encodings (c # s) = c # s"
    by (simp add: strip_front.simps)
  then have "strip_front (map rev whitespace_encodings) (rev (c # s)) = []"
    using b by (simp add: blank_def trim_def)
  from strip_front_eq_Nil [OF this] assms show False
    by (auto simp: image_iff last_rev)
qed

lemma not_blank_ascii [simp]:
  "c \<notin> {CHR 0x09, CHR 0x0A, CHR 0x0B, CHR 0x0C, CHR 0x0D, CHR '' '', CHR 0xC2, CHR 0xE1, CHR 0xE2, CHR 0xE3}
   \<Longrightarrow> \<not> blank (c # s)"
  by (rule not_blank_head) (simp add: whitespace_encodings_def char_of_def bit_0)

text \<open>A string that begins and ends with printable ASCII characters is not changed by \<open>trim\<close>.\<close>

definition graphic :: "char \<Rightarrow> bool" where
  "graphic c \<longleftrightarrow> 33 \<le> (of_char c :: nat) \<and> (of_char c :: nat) < 128"

lemma whitespace_not_graphic:
  assumes "w \<in> set whitespace_encodings"
  shows "\<not> graphic (hd w) \<and> \<not> graphic (last w)"
proof -
  have "list_all (\<lambda>w. \<not> graphic (hd w) \<and> \<not> graphic (last w)) whitespace_encodings" by code_simp
  then show ?thesis using assms by (simp add: list_all_iff)
qed

lemma strip_front_graphic:
  assumes "\<And>w. w \<in> set ws \<Longrightarrow> w \<noteq> [] \<Longrightarrow> \<not> graphic (hd w)" and "s = [] \<or> graphic (hd s)"
  shows "strip_front ws s = s"
proof -
  have "\<not> prefix w s" if "w \<in> set ws" "w \<noteq> []" for w
    using assms(1) [OF that] assms(2) that(2) by (auto simp: prefix_def)
  then have "find (\<lambda>w. w \<noteq> [] \<and> prefix w s) ws = None" by (auto simp: find_None_iff)
  then show ?thesis by (simp add: strip_front.simps [of ws s])
qed

lemma trim_graphic: "s = [] \<or> graphic (hd s) \<and> graphic (last s) \<Longrightarrow> trim s = s"
proof (cases "s = []")
  case False
  assume "s = [] \<or> graphic (hd s) \<and> graphic (last s)"
  then have g: "graphic (hd s)" "graphic (last s)" using False by auto
  have "strip_front whitespace_encodings s = s"
    using whitespace_not_graphic g(1) by (intro strip_front_graphic) auto
  moreover have "strip_front (map rev whitespace_encodings) (rev s) = rev s"
    using whitespace_not_graphic whitespace_encodings_nonempty g(2) False
    by (intro strip_front_graphic) (auto simp: hd_rev)
  ultimately show ?thesis by (simp add: trim_def)
qed (simp add: trim_def)

section \<open>Hash maps\<close>

type_synonym ('k, 'v) hmap = "('k \<times> 'v) list"

definition hm_get :: "('k, 'v) hmap \<Rightarrow> 'k \<Rightarrow> 'v option" where
  "hm_get m k = map_of m k"

definition hm_insert :: "'k \<Rightarrow> 'v \<Rightarrow> ('k, 'v) hmap \<Rightarrow> ('k, 'v) hmap" where
  "hm_insert k v m = AList.update k v m"

definition hm_remove :: "'k \<Rightarrow> ('k, 'v) hmap \<Rightarrow> ('k, 'v) hmap" where
  "hm_remove k m = filter (\<lambda>(k', _). k' \<noteq> k) m"

definition hm_retain :: "('k \<Rightarrow> bool) \<Rightarrow> ('k, 'v) hmap \<Rightarrow> ('k, 'v) hmap" where
  "hm_retain P m = filter (\<lambda>(k, _). P k) m"

definition hm_keys :: "('k, 'v) hmap \<Rightarrow> 'k list" where
  "hm_keys m = map fst m"

definition hm_values :: "('k, 'v) hmap \<Rightarrow> 'v list" where
  "hm_values m = map snd m"

definition hm_contains :: "('k, 'v) hmap \<Rightarrow> 'k \<Rightarrow> bool" where
  "hm_contains m k \<longleftrightarrow> hm_get m k \<noteq> None"

definition hm_wf :: "('k, 'v) hmap \<Rightarrow> bool" where
  "hm_wf m \<longleftrightarrow> distinct (hm_keys m)"

lemma hm_get_Nil [simp, hmap_simps]: "hm_get [] k = None"
  by (simp add: hm_get_def)

lemma hm_get_insert [simp, hmap_simps]:
  "hm_get (hm_insert k v m) k' = (if k' = k then Some v else hm_get m k')"
  by (simp add: hm_get_def hm_insert_def update_conv')

lemma hm_get_remove [simp, hmap_simps]:
  "hm_get (hm_remove k m) k' = (if k' = k then None else hm_get m k')"
  by (induction m) (auto simp: hm_get_def hm_remove_def)

lemma hm_get_retain [simp, hmap_simps]:
  "hm_get (hm_retain P m) k = (if P k then hm_get m k else None)"
  by (induction m) (auto simp: hm_get_def hm_retain_def)

lemma set_hm_keys_iff [hmap_simps]: "k \<in> set (hm_keys m) \<longleftrightarrow> hm_get m k \<noteq> None"
  by (simp add: hm_keys_def hm_get_def map_of_eq_None_iff)

lemma hm_wf_Nil [simp]: "hm_wf []"
  by (simp add: hm_wf_def hm_keys_def)

lemma hm_wf_insert [simp]: "hm_wf m \<Longrightarrow> hm_wf (hm_insert k v m)"
  by (simp add: hm_wf_def hm_keys_def hm_insert_def distinct_update)

lemma hm_wf_remove [simp]: "hm_wf m \<Longrightarrow> hm_wf (hm_remove k m)"
  by (simp add: hm_wf_def hm_keys_def hm_remove_def distinct_map_filter)

lemma hm_wf_retain [simp]: "hm_wf m \<Longrightarrow> hm_wf (hm_retain P m)"
  by (simp add: hm_wf_def hm_keys_def hm_retain_def distinct_map_filter)

lemma hm_keys_Nil [simp]: "hm_keys [] = []"
  by (simp add: hm_keys_def)

lemma set_hm_keys_insert [simp]: "set (hm_keys (hm_insert k v m)) = insert k (set (hm_keys m))"
  by (auto simp: set_hm_keys_iff split: if_splits)

lemma set_hm_keys_remove [simp]: "set (hm_keys (hm_remove k m)) = set (hm_keys m) - {k}"
  by (auto simp: set_hm_keys_iff split: if_splits)

lemma set_hm_keys_retain [simp]:
  "set (hm_keys (hm_retain P m)) = {k \<in> set (hm_keys m). P k}"
  by (auto simp: set_hm_keys_iff split: if_splits)

lemma length_hm_insert:
  "hm_wf m \<Longrightarrow> length (hm_insert k v m) = (if hm_get m k = None then Suc (length m) else length m)"
  by (induction m) (auto simp: hm_insert_def hm_get_def hm_wf_def hm_keys_def)

lemma length_hm_remove: "length (hm_remove k m) \<le> length m"
  by (simp add: hm_remove_def)

lemma hm_mem_get: "hm_wf m \<Longrightarrow> (k, v) \<in> set m \<longleftrightarrow> hm_get m k = Some v"
  by (simp add: hm_wf_def hm_keys_def hm_get_def)

text \<open>
  The interface a hash map promises to its clients: reading after each write, and that a
  write keeps the keys distinct. The association-list operations provide it.
\<close>

locale hash_map =
  fixes get :: "'m \<Rightarrow> 'k \<Rightarrow> 'v option"
    and insert :: "'k \<Rightarrow> 'v \<Rightarrow> 'm \<Rightarrow> 'm"
    and remove :: "'k \<Rightarrow> 'm \<Rightarrow> 'm"
    and empty :: 'm
    and wf :: "'m \<Rightarrow> bool"
  assumes get_empty: "get empty k = None"
    and get_insert: "get (insert k v m) k' = (if k' = k then Some v else get m k')"
    and get_remove: "get (remove k m) k' = (if k' = k then None else get m k')"
    and wf_empty: "wf empty"
    and wf_insert: "wf m \<Longrightarrow> wf (insert k v m)"
    and wf_remove: "wf m \<Longrightarrow> wf (remove k m)"
begin

lemma get_fold_remove: "get (fold remove ks m) k = (if k \<in> set ks then None else get m k)"
  by (induction ks arbitrary: m) (auto simp: get_remove)

lemma get_fold_insert:
  "get (fold (\<lambda>(k, v). insert k v) kvs m) k =
     (case map_of (rev kvs) k of None \<Rightarrow> get m k | Some v \<Rightarrow> Some v)"
  by (induction kvs arbitrary: m)
    (auto simp: get_insert map_add_def split: option.splits)

lemma wf_fold_insert: "wf m \<Longrightarrow> wf (fold (\<lambda>(k, v). insert k v) kvs m)"
  by (induction kvs arbitrary: m) (auto simp: wf_insert)

end

interpretation hm: hash_map hm_get hm_insert hm_remove "[]" hm_wf
  by unfold_locales simp_all

section \<open>Build features\<close>

text \<open>
  The cargo features \<open>official\<close>, \<open>local\<close> and \<open>standalone\<close> (game-server/Cargo.toml), which the
  sources test with \<open>#[cfg(feature = ...)]\<close>; \<open>standalone\<close> implies \<open>local\<close>.
\<close>

record features =
  official :: bool
  local_mode :: bool
  standalone :: bool

definition features_ok :: "features \<Rightarrow> bool" where
  "features_ok ft \<longleftrightarrow> (standalone ft \<longrightarrow> local_mode ft)"

section \<open>Lists\<close>

text \<open>\<open>iter_mut().find(p)\<close> followed by an assignment: the first matching element is replaced.\<close>

fun update_first :: "('a \<Rightarrow> bool) \<Rightarrow> ('a \<Rightarrow> 'a) \<Rightarrow> 'a list \<Rightarrow> 'a list" where
  "update_first P f [] = []"
| "update_first P f (x # xs) = (if P x then f x # xs else x # update_first P f xs)"

lemma map_update_first:
  "(\<And>x. P x \<Longrightarrow> g (f x) = g x) \<Longrightarrow> map g (update_first P f xs) = map g xs"
  by (induction xs) auto

lemma length_update_first [simp]: "length (update_first P f xs) = length xs"
  by (induction xs) auto

lemma set_update_first: "set (update_first P f xs) \<subseteq> set xs \<union> f ` {x \<in> set xs. P x}"
  by (induction xs) auto

lemma update_first_id: "\<not> list_ex P xs \<Longrightarrow> update_first P f xs = xs"
  by (induction xs) auto

text \<open>\<open>iter().position(p)\<close> followed by \<open>remove(position)\<close>: the first match is dropped.\<close>

fun remove_first :: "('a \<Rightarrow> bool) \<Rightarrow> 'a list \<Rightarrow> 'a list" where
  "remove_first P [] = []"
| "remove_first P (x # xs) = (if P x then xs else x # remove_first P xs)"

lemma remove_first_filter:
  "distinct (map g xs) \<Longrightarrow> remove_first (\<lambda>x. g x = k) xs = filter (\<lambda>x. g x \<noteq> k) xs"
proof (induction xs)
  case (Cons x xs)
  have "filter (\<lambda>y. g y \<noteq> g x) xs = xs"
    using Cons.prems by (intro filter_True) (auto simp: image_iff)
  with Cons show ?case by auto
qed simp

text \<open>\<open>slice::partition_point\<close> on a slice that is partitioned by the predicate.\<close>

definition partition_point :: "('a \<Rightarrow> bool) \<Rightarrow> 'a list \<Rightarrow> nat" where
  "partition_point P xs = length (takeWhile P xs)"

text \<open>\<open>Iterator::max_by_key\<close>: the last of the elements with the greatest key.\<close>

definition max_by_key :: "('a \<Rightarrow> 'k::linorder) \<Rightarrow> 'a list \<Rightarrow> 'a option" where
  "max_by_key f xs =
     (case xs of [] \<Rightarrow> None
      | y # ys \<Rightarrow> Some (foldl (\<lambda>a b. if f b < f a then a else b) y ys))"

lemma foldl_max_key:
  "let r = foldl (\<lambda>a b. if f b < f a then a else b) y ys
   in r \<in> insert y (set ys) \<and> (\<forall>z \<in> insert y (set ys). f z \<le> f r)"
  for f :: "'a \<Rightarrow> 'k::linorder"
proof (induction ys arbitrary: y)
  case (Cons b ys)
  show ?case
    using Cons.IH [of "if f b < f y then y else b"]
    by (auto simp: Let_def split: if_splits intro: order.trans less_imp_le)
qed simp

lemma max_by_key_Some:
  "max_by_key f xs = Some r \<Longrightarrow> r \<in> set xs \<and> (\<forall>z \<in> set xs. f z \<le> f r)"
  for f :: "'a \<Rightarrow> 'k::linorder"
  using foldl_max_key [of f] by (auto simp: max_by_key_def Let_def split: list.splits)

lemma max_by_key_None [simp]: "max_by_key f xs = None \<longleftrightarrow> xs = []"
  by (simp add: max_by_key_def split: list.splits)

end
