(* ===== verification/Ieee.thy ===== *)
theory Ieee
  imports Prelude "HOL-Library.Log_Nat"
begin

text \<open>
  IEEE-754 binary floating point as Rust's \<open>f32\<close> and \<open>f64\<close> use it: values are the not-a-number
  class, the infinities and the finite numbers; the arithmetic operations round the exact
  result to nearest, ties to even, and overflow to an infinity. The sign of a zero is not
  represented: no modelled code observes it (comparisons, \<open>max\<close>, \<open>min\<close> and \<open>clamp\<close> treat the
  two zeros alike, and no modelled division has a zero divisor).

  The locale \<open>rounding\<close> states what the clients need of a rounding function (monotone, odd,
  exact on small integers); it is interpreted on both formats.
\<close>

section \<open>Values and formats\<close>

datatype fp = NaN | PInf | NInf | Fin rat

record float_format =
  prec :: nat
  emin :: int
  emax :: int

definition binary32 :: float_format where
  "binary32 = \<lparr>prec = 24, emin = - 126, emax = 127\<rparr>"

definition binary64 :: float_format where
  "binary64 = \<lparr>prec = 53, emin = - 1022, emax = 1023\<rparr>"

section \<open>Rounding\<close>

definition rne :: "rat \<Rightarrow> int" where
  "rne x = (let f = \<lfloor>x\<rfloor>; d = x - of_int f
            in if d < 1 / 2 \<or> d = 1 / 2 \<and> even f then f else f + 1)"

definition ilog2 :: "rat \<Rightarrow> int" where
  "ilog2 x = (let (a, b) = quotient_of x; k = bitlen a - bitlen b
              in if 2 powi k \<le> x then k else k - 1)"

definition quantum_exp :: "float_format \<Rightarrow> rat \<Rightarrow> int" where
  "quantum_exp fmt x = max (ilog2 \<bar>x\<bar>) (emin fmt) - int (prec fmt) + 1"

definition round_rat :: "float_format \<Rightarrow> rat \<Rightarrow> rat" where
  "round_rat fmt x =
     (if x = 0 then 0
      else let q = 2 powi quantum_exp fmt x in of_int (rne (x / q)) * q)"

definition fp_round :: "float_format \<Rightarrow> rat \<Rightarrow> fp" where
  "fp_round fmt x =
     (let y = round_rat fmt x
      in if 2 powi (emax fmt + 1) \<le> y then PInf
         else if y \<le> - (2 powi (emax fmt + 1)) then NInf
         else Fin y)"

section \<open>Comparisons and selections\<close>

fun fp_lt :: "fp \<Rightarrow> fp \<Rightarrow> bool" where
  "fp_lt NaN _ = False"
| "fp_lt _ NaN = False"
| "fp_lt PInf _ = False"
| "fp_lt _ NInf = False"
| "fp_lt NInf _ = True"
| "fp_lt _ PInf = True"
| "fp_lt (Fin a) (Fin b) = (a < b)"

definition fp_le :: "fp \<Rightarrow> fp \<Rightarrow> bool" where
  "fp_le x y \<longleftrightarrow> x \<noteq> NaN \<and> y \<noteq> NaN \<and> \<not> fp_lt y x"

definition fp_eq :: "fp \<Rightarrow> fp \<Rightarrow> bool" where
  "fp_eq x y \<longleftrightarrow> x = y \<and> x \<noteq> NaN"

definition fp_max :: "fp \<Rightarrow> fp \<Rightarrow> fp" where
  "fp_max x y = (if x = NaN then y else if y = NaN then x else if fp_lt x y then y else x)"

definition fp_min :: "fp \<Rightarrow> fp \<Rightarrow> fp" where
  "fp_min x y = (if x = NaN then y else if y = NaN then x else if fp_lt y x then y else x)"

definition fp_clamp :: "fp \<Rightarrow> fp \<Rightarrow> fp \<Rightarrow> fp" where
  "fp_clamp lo hi x =
     (let x' = (if fp_lt x lo then lo else x) in if fp_lt hi x' then hi else x')"

fun is_finite_fp :: "fp \<Rightarrow> bool" where
  "is_finite_fp (Fin _) = True"
| "is_finite_fp _ = False"

section \<open>Arithmetic\<close>

fun fp_neg :: "fp \<Rightarrow> fp" where
  "fp_neg NaN = NaN"
| "fp_neg PInf = NInf"
| "fp_neg NInf = PInf"
| "fp_neg (Fin a) = Fin (- a)"

definition fp_abs :: "fp \<Rightarrow> fp" where
  "fp_abs x = (if fp_lt x (Fin 0) then fp_neg x else x)"

fun fp_add :: "float_format \<Rightarrow> fp \<Rightarrow> fp \<Rightarrow> fp" where
  "fp_add fmt NaN _ = NaN"
| "fp_add fmt _ NaN = NaN"
| "fp_add fmt PInf NInf = NaN"
| "fp_add fmt NInf PInf = NaN"
| "fp_add fmt PInf _ = PInf"
| "fp_add fmt _ PInf = PInf"
| "fp_add fmt NInf _ = NInf"
| "fp_add fmt _ NInf = NInf"
| "fp_add fmt (Fin a) (Fin b) = fp_round fmt (a + b)"

definition fp_sub :: "float_format \<Rightarrow> fp \<Rightarrow> fp \<Rightarrow> fp" where
  "fp_sub fmt x y = fp_add fmt x (fp_neg y)"

definition signed_inf :: "rat \<Rightarrow> fp" where
  "signed_inf a = (if a = 0 then NaN else if 0 < a then PInf else NInf)"

fun fp_mul :: "float_format \<Rightarrow> fp \<Rightarrow> fp \<Rightarrow> fp" where
  "fp_mul fmt NaN _ = NaN"
| "fp_mul fmt _ NaN = NaN"
| "fp_mul fmt PInf (Fin b) = signed_inf b"
| "fp_mul fmt NInf (Fin b) = signed_inf (- b)"
| "fp_mul fmt (Fin a) PInf = signed_inf a"
| "fp_mul fmt (Fin a) NInf = signed_inf (- a)"
| "fp_mul fmt PInf PInf = PInf"
| "fp_mul fmt NInf NInf = PInf"
| "fp_mul fmt PInf NInf = NInf"
| "fp_mul fmt NInf PInf = NInf"
| "fp_mul fmt (Fin a) (Fin b) = fp_round fmt (a * b)"

fun fp_div :: "float_format \<Rightarrow> fp \<Rightarrow> fp \<Rightarrow> fp" where
  "fp_div fmt NaN _ = NaN"
| "fp_div fmt _ NaN = NaN"
| "fp_div fmt (Fin a) (Fin b) = (if b = 0 then signed_inf a else fp_round fmt (a / b))"
| "fp_div fmt (Fin a) _ = Fin 0"
| "fp_div fmt PInf (Fin b) = (if b < 0 then NInf else PInf)"
| "fp_div fmt NInf (Fin b) = (if b < 0 then PInf else NInf)"
| "fp_div fmt _ _ = NaN"

section \<open>Conversions\<close>

text \<open>\<open>x as f32\<close> and \<open>x as f64\<close> for an integer \<open>x\<close>; \<open>as\<close> back to an integer truncates and saturates.\<close>

definition fp_of_int :: "float_format \<Rightarrow> int \<Rightarrow> fp" where
  "fp_of_int fmt n = fp_round fmt (of_int n)"

definition fp_convert :: "float_format \<Rightarrow> fp \<Rightarrow> fp" where
  "fp_convert fmt x = (case x of Fin a \<Rightarrow> fp_round fmt a | _ \<Rightarrow> x)"

definition trunc_rat :: "rat \<Rightarrow> int" where
  "trunc_rat a = (if 0 \<le> a then \<lfloor>a\<rfloor> else \<lceil>a\<rceil>)"

definition fp_to_int :: "int \<Rightarrow> int \<Rightarrow> fp \<Rightarrow> int" where
  "fp_to_int lo hi x =
     (case x of NaN \<Rightarrow> 0 | PInf \<Rightarrow> hi | NInf \<Rightarrow> lo
      | Fin a \<Rightarrow> max lo (min hi (trunc_rat a)))"

definition fp_to_u64 :: "fp \<Rightarrow> u64" where
  "fp_to_u64 x = of_int (fp_to_int 0 (2 ^ 64 - 1) x)"

definition fp_to_u32 :: "fp \<Rightarrow> u32" where
  "fp_to_u32 x = of_int (fp_to_int 0 (2 ^ 32 - 1) x)"

definition fp_to_i32 :: "fp \<Rightarrow> i32" where
  "fp_to_i32 x = fp_to_int (- (2 ^ 31)) (2 ^ 31 - 1) x"

text \<open>\<open>round()\<close>: to the nearest integer, halves away from zero.\<close>

definition fp_round_int :: "fp \<Rightarrow> fp" where
  "fp_round_int x =
     (case x of Fin a \<Rightarrow> Fin (of_int (if 0 \<le> a then \<lfloor>a + 1 / 2\<rfloor> else \<lceil>a - 1 / 2\<rceil>))
      | _ \<Rightarrow> x)"

abbreviation f32 :: "rat \<Rightarrow> fp" where "f32 r \<equiv> fp_round binary32 r"
abbreviation f64 :: "rat \<Rightarrow> fp" where "f64 r \<equiv> fp_round binary64 r"

section \<open>Rounding to an integer\<close>

lemma rne_of_int [simp]: "rne (of_int n) = n"
  by (simp add: rne_def)

lemma rne_bounds: "of_int (rne x) - 1 / 2 \<le> x \<and> x \<le> of_int (rne x) + 1 / 2"
  by (auto simp: rne_def Let_def) linarith+

lemma rne_mono:
  assumes "x \<le> y"
  shows "rne x \<le> rne y"
proof (cases "\<lfloor>x\<rfloor> = \<lfloor>y\<rfloor>")
  case True
  with assms show ?thesis by (auto simp: rne_def Let_def)
next
  case False
  with assms have "\<lfloor>x\<rfloor> + 1 \<le> \<lfloor>y\<rfloor>" using floor_mono [OF assms] by linarith
  moreover have "rne x \<le> \<lfloor>x\<rfloor> + 1" "\<lfloor>y\<rfloor> \<le> rne y" by (auto simp: rne_def Let_def)
  ultimately show ?thesis by linarith
qed

lemma rne_minus: "rne (- x) = - rne x"
proof (cases "x = of_int \<lfloor>x\<rfloor>")
  case True
  then show ?thesis by (metis of_int_minus rne_of_int)
next
  case False
  have fl: "\<lfloor>- x\<rfloor> = - \<lfloor>x\<rfloor> - 1"
    using False by (simp add: floor_minus ceiling_altdef)
  show ?thesis
    by (auto simp: rne_def Let_def fl)
qed

section \<open>Binary exponents\<close>

lemma ilog2_bounds:
  assumes "0 < x"
  shows "2 powi ilog2 x \<le> x \<and> x < 2 powi (ilog2 x + 1)"
proof -
  obtain a b where ab: "quotient_of x = (a, b)" by fastforce
  have x: "x = of_int a / of_int b" using quotient_of_div [OF ab] .
  have b: "0 < b" using quotient_of_denom_pos [OF ab] .
  then have a: "0 < a" using assms x by (simp add: zero_less_divide_iff)
  have bnd: "2 powi (bitlen n - 1) \<le> (of_int n :: rat) \<and> (of_int n :: rat) < 2 powi bitlen n"
    if n: "0 < n" for n
  proof -
    have l: "0 < bitlen n"
      using n bitlen_nonneg [of n] bitlen_eq_zero_iff [of n] by linarith
    have "2 ^ nat (bitlen n - 1) \<le> n \<and> n < 2 ^ nat (bitlen n)"
      using bitlen_bounds [OF n] .
    then have "of_int (2 ^ nat (bitlen n - 1)) \<le> (of_int n :: rat)
        \<and> (of_int n :: rat) < of_int (2 ^ nat (bitlen n))"
      by (simp only: of_int_le_iff of_int_less_iff)
    with l show ?thesis by (simp add: power_int_def)
  qed
  let ?k = "bitlen a - bitlen b"
  have up: "x < 2 powi (?k + 1)"
  proof -
    have "(of_int a :: rat) < 2 powi bitlen a" "2 powi (bitlen b - 1) \<le> (of_int b :: rat)"
      using bnd a b by auto
    then have "x < 2 powi bitlen a / 2 powi (bitlen b - 1)"
      unfolding x using a b by (intro frac_less) (auto simp: zero_less_power_int)
    then show ?thesis by (simp add: power_int_diff [symmetric] algebra_simps)
  qed
  have lo: "2 powi (?k - 1) \<le> x"
  proof -
    have "2 powi (bitlen a - 1) \<le> (of_int a :: rat)" "(of_int b :: rat) < 2 powi bitlen b"
      using bnd a b by auto
    then have "2 powi (bitlen a - 1) / 2 powi bitlen b \<le> x"
      unfolding x using a b by (intro frac_le) (auto simp: zero_less_power_int)
    then show ?thesis by (simp add: power_int_diff [symmetric] algebra_simps)
  qed
  show ?thesis using up lo by (auto simp: ilog2_def ab Let_def)
qed

lemma powi_less_iff: "(2 :: rat) powi m < 2 powi n \<longleftrightarrow> m < n"
  using power_int_strict_increasing [of m n "2::rat"]
    power_int_increasing [of n m "2::rat"] by force

lemma powi_le_iff: "(2 :: rat) powi m \<le> 2 powi n \<longleftrightarrow> m \<le> n"
  using powi_less_iff [of n m] by force

lemma ilog2_mono:
  assumes "0 < x" "x \<le> y"
  shows "ilog2 x \<le> ilog2 y"
proof -
  have "2 powi ilog2 x \<le> x" "y < 2 powi (ilog2 y + 1)"
    using ilog2_bounds assms by auto
  then have "(2::rat) powi ilog2 x < 2 powi (ilog2 y + 1)" using assms by linarith
  then show ?thesis by (simp add: powi_less_iff)
qed

section \<open>Rounding to a format\<close>

definition format_ok :: "float_format \<Rightarrow> bool" where
  "format_ok fmt \<longleftrightarrow> 1 \<le> prec fmt \<and> emin fmt \<le> 0"

lemma quantum_exp_minus [simp]: "quantum_exp fmt (- x) = quantum_exp fmt x"
  by (simp add: quantum_exp_def)

lemma round_rat_0 [simp]: "round_rat fmt 0 = 0"
  by (simp add: round_rat_def)

lemma round_rat_minus: "round_rat fmt (- x) = - round_rat fmt x"
  by (simp add: round_rat_def Let_def rne_minus)

lemma powi_pos [simp]: "0 < (2::rat) powi k"
  by (simp add: zero_less_power_int)

lemma round_rat_multiple:
  "x = of_int n * 2 powi k \<Longrightarrow> quantum_exp fmt x \<le> k \<Longrightarrow> round_rat fmt x = x"
proof (cases "x = 0")
  case False
  assume x: "x = of_int n * 2 powi k" and k: "quantum_exp fmt x \<le> k"
  let ?q = "quantum_exp fmt x"
  have "x / 2 powi ?q = of_int n * 2 powi (k - ?q)"
    by (simp add: x power_int_diff)
  also have "\<dots> = of_int (n * 2 ^ nat (k - ?q))"
    using k by (simp add: power_int_def)
  finally have q: "x / 2 powi ?q = of_int (n * 2 ^ nat (k - ?q))" .
  have "of_int (rne (x / 2 powi ?q)) * 2 powi ?q = x / 2 powi ?q * 2 powi ?q"
    unfolding q rne_of_int ..
  then show ?thesis using False by (simp add: round_rat_def Let_def)
qed simp

text \<open>Powers of two at a binade's ends divide evenly by its quantum.\<close>

lemma rne_powi:
  assumes "0 \<le> k"
  shows "of_int (rne (2 powi k)) = (2 powi k :: rat)"
proof -
  have "(2::rat) powi k = of_int (2 ^ nat k)" using assms by (simp add: power_int_def)
  then show ?thesis by (simp only: rne_of_int)
qed

lemma rne_scaled_mono:
  assumes "x \<le> y"
  shows "of_int (rne (x / 2 powi k)) * 2 powi k \<le> (of_int (rne (y / 2 powi k)) * 2 powi k :: rat)"
proof -
  have "x / 2 powi k \<le> y / 2 powi k" using assms by (simp add: divide_right_mono less_imp_le)
  then show ?thesis by (intro mult_right_mono) (auto intro: rne_mono less_imp_le)
qed

lemma rne_scaled_powi:
  assumes "k \<le> m"
  shows "of_int (rne (2 powi m / 2 powi k)) * 2 powi k = (2 powi m :: rat)"
proof -
  have "(2::rat) powi m / 2 powi k = 2 powi (m - k)" by (simp add: power_int_diff)
  then show ?thesis using assms rne_powi [of "m - k"] by (simp add: power_int_diff)
qed

lemma round_rat_mono_pos:
  assumes ok: "format_ok fmt" and "0 < x" "x \<le> y"
  shows "round_rat fmt x \<le> round_rat fmt y"
proof -
  let ?ex = "max (ilog2 x) (emin fmt)" and ?ey = "max (ilog2 y) (emin fmt)"
  let ?qx = "quantum_exp fmt x" and ?qy = "quantum_exp fmt y"
  have pos: "0 < y" using assms by linarith
  have p: "1 \<le> int (prec fmt)" using ok by (simp add: format_ok_def)
  have qx: "?qx = ?ex - int (prec fmt) + 1" and qy: "?qy = ?ey - int (prec fmt) + 1"
    using assms pos by (simp_all add: quantum_exp_def)
  have e: "?ex \<le> ?ey" using ilog2_mono [of x y] assms by linarith
  have rx: "round_rat fmt x = of_int (rne (x / 2 powi ?qx)) * 2 powi ?qx"
    and ry: "round_rat fmt y = of_int (rne (y / 2 powi ?qy)) * 2 powi ?qy"
    using assms pos by (simp_all add: round_rat_def Let_def)
  show ?thesis
  proof (cases "?ex = ?ey")
    case True
    then have "?qx = ?qy" using qx qy by simp
    then show ?thesis unfolding rx ry using rne_scaled_mono [OF \<open>x \<le> y\<close>] by simp
  next
    case False
    then have less: "?ex + 1 \<le> ?ey" using e by linarith
    have "x < 2 powi (ilog2 x + 1)" using ilog2_bounds assms by blast
    also have "\<dots> \<le> 2 powi (?ex + 1)" by (simp add: powi_le_iff)
    finally have "x \<le> 2 powi (?ex + 1)" by simp
    then have "round_rat fmt x \<le> of_int (rne (2 powi (?ex + 1) / 2 powi ?qx)) * 2 powi ?qx"
      unfolding rx by (rule rne_scaled_mono)
    also have "\<dots> = 2 powi (?ex + 1)"
      using p by (intro rne_scaled_powi) (simp add: qx)
    also have "\<dots> \<le> 2 powi ?ey" using less by (simp add: powi_le_iff)
    also have "\<dots> = of_int (rne (2 powi ?ey / 2 powi ?qy)) * 2 powi ?qy"
      using p by (intro rne_scaled_powi [symmetric]) (simp add: qy)
    also have "\<dots> \<le> round_rat fmt y"
    proof -
      have "?ey = ilog2 y" using less by linarith
      then have "2 powi ?ey \<le> y" using ilog2_bounds [OF pos] by simp
      then show ?thesis unfolding ry by (rule rne_scaled_mono)
    qed
    finally show ?thesis .
  qed
qed

lemma round_rat_nonneg: "0 \<le> x \<Longrightarrow> 0 \<le> round_rat fmt x"
proof -
  assume "0 \<le> x"
  then have "0 \<le> x / 2 powi quantum_exp fmt x" by (simp add: less_imp_le)
  then have "rne 0 \<le> rne (x / 2 powi quantum_exp fmt x)" by (rule rne_mono)
  then have "0 \<le> rne (x / 2 powi quantum_exp fmt x)"
    using rne_of_int [of 0] by simp
  then show ?thesis by (simp add: round_rat_def Let_def less_imp_le)
qed

lemma round_rat_mono:
  assumes ok: "format_ok fmt" and "x \<le> y"
  shows "round_rat fmt x \<le> round_rat fmt y"
proof -
  consider "0 < x" | "x \<le> 0" "0 \<le> y" | "y < 0" by linarith
  then show ?thesis
  proof cases
    case 1
    with assms show ?thesis by (intro round_rat_mono_pos)
  next
    case 2
    then have "0 \<le> round_rat fmt (- x)" by (intro round_rat_nonneg) simp
    with 2 round_rat_nonneg [of y fmt] show ?thesis by (simp add: round_rat_minus)
  next
    case 3
    with assms have "round_rat fmt (- y) \<le> round_rat fmt (- x)"
      by (intro round_rat_mono_pos) auto
    then show ?thesis by (simp add: round_rat_minus)
  qed
qed

lemma round_rat_small_int:
  assumes ok: "format_ok fmt" and n: "\<bar>n\<bar> \<le> 2 ^ prec fmt"
  shows "round_rat fmt (of_int n) = of_int n"
proof (cases "\<bar>n\<bar> = 2 ^ prec fmt")
  case False
  show ?thesis
  proof (cases "n = 0")
    case nz: False
    have "2 powi ilog2 \<bar>of_int n\<bar> \<le> (\<bar>of_int n\<bar> :: rat)"
      using ilog2_bounds [of "\<bar>of_int n\<bar>"] nz by simp
    also have "\<dots> < of_int (2 ^ prec fmt)"
      using n False by (simp only: of_int_abs [symmetric] of_int_less_iff)
    also have "\<dots> = 2 powi int (prec fmt)" by simp
    finally have "ilog2 \<bar>of_int n :: rat\<bar> < int (prec fmt)" by (simp only: powi_less_iff)
    then have "quantum_exp fmt (of_int n) \<le> 0"
      using ok unfolding quantum_exp_def format_ok_def by (auto simp: max_def)
    then show ?thesis by (intro round_rat_multiple [where n = n and k = 0]) auto
  qed simp
next
  case True
  then have "n \<noteq> 0" by (metis abs_zero power_not_zero zero_neq_numeral)
  then have "2 powi ilog2 \<bar>of_int n\<bar> \<le> (\<bar>of_int n\<bar> :: rat)"
    using ilog2_bounds [of "\<bar>of_int n\<bar>"] by simp
  also have "\<dots> = of_int (2 ^ prec fmt)"
    using True by (simp only: of_int_abs [symmetric])
  also have "\<dots> = 2 powi int (prec fmt)" by simp
  finally have "ilog2 \<bar>of_int n :: rat\<bar> \<le> int (prec fmt)" by (simp only: powi_le_iff)
  then have q: "quantum_exp fmt (of_int n) \<le> 1"
    using ok unfolding quantum_exp_def format_ok_def by (auto simp: max_def)
  have "n = sgn n * 2 ^ prec fmt" using True by (metis abs_mult_sgn mult.commute)
  then have "(of_int n :: rat) = of_int (sgn n * 2 ^ (prec fmt - 1)) * 2 powi 1"
    using ok by (metis (no_types, lifting) format_ok_def mult.assoc of_int_mult of_int_numeral
        power_int_1_right power_minus_mult not_one_le_zero not_gr_zero)
  with q show ?thesis by (intro round_rat_multiple)
qed

lemma round_rat_pow2:
  assumes ok: "format_ok fmt"
  shows "round_rat fmt (2 ^ n) = 2 ^ n"
proof -
  have "2 powi ilog2 (2 ^ n) \<le> (2 ^ n :: rat)" using ilog2_bounds [of "2 ^ n"] by simp
  also have "\<dots> = 2 powi int n" by simp
  finally have "ilog2 (2 ^ n) \<le> int n" by (simp only: powi_le_iff)
  then have "quantum_exp fmt (2 ^ n) \<le> int n"
    using ok unfolding quantum_exp_def format_ok_def by (auto simp: max_def)
  then show ?thesis by (intro round_rat_multiple [where n = 1 and k = "int n"]) auto
qed

text \<open>What the clients rely on.\<close>

locale rounding =
  fixes rnd :: "rat \<Rightarrow> rat" and p :: nat
  assumes rnd_mono: "x \<le> y \<Longrightarrow> rnd x \<le> rnd y"
    and rnd_minus: "rnd (- x) = - rnd x"
    and rnd_small_int: "\<bar>n\<bar> \<le> 2 ^ p \<Longrightarrow> rnd (of_int n) = of_int n"
    and rnd_pow2: "rnd (2 ^ k) = 2 ^ k"
begin

lemma rnd_less_pow2: "\<bar>x\<bar> \<le> 2 ^ k \<Longrightarrow> \<bar>rnd x\<bar> \<le> 2 ^ k"
  using rnd_mono [of x "2 ^ k"] rnd_mono [of "- x" "2 ^ k"]
  by (simp add: rnd_pow2 rnd_minus abs_le_iff)

lemma rnd_0: "rnd 0 = 0"
  using rnd_small_int [of 0] by simp

lemma rnd_1: "rnd 1 = 1"
  using rnd_small_int [of 1] by simp

lemma rnd_nonneg: "0 \<le> x \<Longrightarrow> 0 \<le> rnd x"
  using rnd_mono [of 0 x] by (simp add: rnd_0)

lemma rnd_ge_int: "\<bar>n\<bar> \<le> 2 ^ p \<Longrightarrow> of_int n \<le> x \<Longrightarrow> of_int n \<le> rnd x"
  using rnd_mono [of "of_int n" x] by (simp add: rnd_small_int)

lemma rnd_le_int: "\<bar>n\<bar> \<le> 2 ^ p \<Longrightarrow> x \<le> of_int n \<Longrightarrow> rnd x \<le> of_int n"
  using rnd_mono [of x "of_int n"] by (simp add: rnd_small_int)

lemma rnd_unit: "0 \<le> x \<Longrightarrow> x \<le> 1 \<Longrightarrow> 0 \<le> rnd x \<and> rnd x \<le> 1"
  using rnd_ge_int [of 0 x] rnd_le_int [of 1 x] by simp

end

lemma format_ok_binary32: "format_ok binary32"
  by (simp add: format_ok_def binary32_def)

lemma format_ok_binary64: "format_ok binary64"
  by (simp add: format_ok_def binary64_def)

interpretation single: rounding "round_rat binary32" 24
  by unfold_locales
    (use round_rat_mono [OF format_ok_binary32] round_rat_small_int [OF format_ok_binary32]
     round_rat_pow2 [OF format_ok_binary32]
     in \<open>auto simp: round_rat_minus binary32_def\<close>)

interpretation double: rounding "round_rat binary64" 53
  by unfold_locales
    (use round_rat_mono [OF format_ok_binary64] round_rat_small_int [OF format_ok_binary64]
     round_rat_pow2 [OF format_ok_binary64]
     in \<open>auto simp: round_rat_minus binary64_def\<close>)

section \<open>Facts about the operations\<close>

lemma fp_le_simps [simp]:
  "fp_le (Fin a) (Fin b) \<longleftrightarrow> a \<le> b"
  "\<not> fp_le NaN y" "\<not> fp_le x NaN"
  "x \<noteq> NaN \<Longrightarrow> fp_le x PInf" "y \<noteq> NaN \<Longrightarrow> fp_le NInf y"
  by (auto simp: fp_le_def not_less) (cases x; cases y; simp)+

lemma fp_lt_NaN [simp]: "\<not> fp_lt x NaN"
  by (cases x) auto

lemma fp_lt_irrefl [simp]: "\<not> fp_lt x x"
  by (cases x) auto

lemma fp_lt_trans: "fp_lt x y \<Longrightarrow> fp_lt y z \<Longrightarrow> fp_lt x z"
  by (cases x; cases y; cases z) auto

lemma fp_lt_linear: "x \<noteq> NaN \<Longrightarrow> y \<noteq> NaN \<Longrightarrow> fp_lt x y \<or> x = y \<or> fp_lt y x"
  by (cases x; cases y) auto

lemma fp_lt_asym: "fp_lt x y \<Longrightarrow> \<not> fp_lt y x"
  by (cases x; cases y) auto

lemma fp_lt_not_nan: "fp_lt x y \<Longrightarrow> x \<noteq> NaN \<and> y \<noteq> NaN"
  by (cases x; cases y) auto

lemma fp_clamp_range:
  "fp_le lo hi \<Longrightarrow> x \<noteq> NaN \<Longrightarrow> fp_le lo (fp_clamp lo hi x) \<and> fp_le (fp_clamp lo hi x) hi"
  by (cases lo; cases hi; cases x) (auto simp: fp_clamp_def fp_le_def)

lemma fp_clamp_NaN [simp]: "fp_clamp lo hi NaN = NaN"
  by (simp add: fp_clamp_def)

lemma fp_clamp_id: "fp_le lo x \<Longrightarrow> fp_le x hi \<Longrightarrow> fp_clamp lo hi x = x"
  by (auto simp: fp_clamp_def fp_le_def)

lemma fp_max_lower: "y \<noteq> NaN \<Longrightarrow> fp_le y (fp_max x y)"
  by (cases x; cases y) (auto simp: fp_max_def fp_le_def)

lemma fp_round_Fin:
  assumes "\<bar>round_rat fmt x\<bar> < 2 powi (emax fmt + 1)"
  shows "fp_round fmt x = Fin (round_rat fmt x)"
  using assms by (auto simp: fp_round_def Let_def abs_less_iff)

lemma single_round_Fin:
  assumes "\<bar>x\<bar> \<le> 2 ^ 127"
  shows "f32 x = Fin (round_rat binary32 x)"
proof (rule fp_round_Fin)
  have "\<bar>round_rat binary32 x\<bar> \<le> 2 ^ 127" using single.rnd_less_pow2 [OF assms] .
  also have "\<dots> < 2 powi (emax binary32 + 1)" by (simp add: binary32_def)
  finally show "\<bar>round_rat binary32 x\<bar> < 2 powi (emax binary32 + 1)" .
qed

lemma double_round_Fin:
  assumes "\<bar>x\<bar> \<le> 2 ^ 1023"
  shows "f64 x = Fin (round_rat binary64 x)"
proof (rule fp_round_Fin)
  have "\<bar>round_rat binary64 x\<bar> \<le> 2 ^ 1023" using double.rnd_less_pow2 [OF assms] .
  also have "\<dots> = 2 powi int 1023" by (simp only: power_int_of_nat)
  also have "\<dots> < 2 powi (emax binary64 + 1)"
    by (simp only: powi_less_iff) (simp add: binary64_def)
  finally show "\<bar>round_rat binary64 x\<bar> < 2 powi (emax binary64 + 1)" .
qed

lemma fp_to_int_range: "lo \<le> 0 \<Longrightarrow> 0 \<le> hi \<Longrightarrow> lo \<le> fp_to_int lo hi x \<and> fp_to_int lo hi x \<le> hi"
  by (auto simp: fp_to_int_def split: fp.splits)

end
