(* ===== verification/Race_Config_Domain.thy ===== *)
theory Race_Config_Domain
  imports Ieee
begin

text \<open>
  The race schedule of game-server/src/domain/race_config.rs: the validation of a draft and
  of a persisted schedule. Both loops stop at the first entry that breaks a rule; the locale
  \<open>entry_scan\<close> proves what such a loop reports and is interpreted on both.
\<close>

section \<open>Data\<close>

datatype start_placement_mode = PlacementUnspecified | Random | Scoreboard | ReversedScoreboard

datatype race_time_of_day_preset = TimeOfDayUnspecified | Morning | Noon | Evening | Night

record race_config_input =
  race_name :: string
  race_starts_at_ms :: i64
  race_ends_at_ms :: i64
  race_map_id :: string
  start_placement_mode :: start_placement_mode
  points_multiplier_fixed :: fp
  time_of_day_preset :: race_time_of_day_preset

record schedule_entry =
  race_id :: string
  race_config :: race_config_input

datatype race_config_domain_error =
  EmptyRaceId nat
| EmptyRaceName nat
| EmptyMapId nat
| UnspecifiedStartPlacementMode nat
| UnspecifiedTimeOfDayPreset nat
| InvalidPointsMultiplier nat
| InvalidTimeWindow nat i64 i64
| NonIncreasingStartTime nat i64 i64
| OverlappingTimeWindow nat i64 i64
| DuplicateRaceId nat string

section \<open>Validation\<close>

definition validate_input ::
  "nat \<Rightarrow> race_config_input \<Rightarrow> (race_config_domain_error, unit) result" where
  "validate_input index entry =
     (if blank (race_name entry) then Inl (EmptyRaceName index)
      else if blank (race_map_id entry) then Inl (EmptyMapId index)
      else if start_placement_mode entry = PlacementUnspecified
      then Inl (UnspecifiedStartPlacementMode index)
      else if time_of_day_preset entry = TimeOfDayUnspecified
      then Inl (UnspecifiedTimeOfDayPreset index)
      else if \<not> (is_finite_fp (points_multiplier_fixed entry) \<and>
                 fp_lt (Fin 0) (points_multiplier_fixed entry))
      then Inl (InvalidPointsMultiplier index)
      else if race_starts_at_ms entry \<ge> race_ends_at_ms entry
      then Inl (InvalidTimeWindow index (race_starts_at_ms entry) (race_ends_at_ms entry))
      else Inr ())"

definition validate_ordering_and_overlap ::
  "nat \<Rightarrow> i64 \<Rightarrow> i64 \<Rightarrow> i64 option \<Rightarrow> i64 option \<Rightarrow> (race_config_domain_error, unit) result" where
  "validate_ordering_and_overlap index starts ends prev_start prev_end =
     (case (case prev_start of
              Some prev \<Rightarrow> if starts \<le> prev then Some (NonIncreasingStartTime index prev starts) else None
            | None \<Rightarrow> None) of
        Some err \<Rightarrow> Inl err
      | None \<Rightarrow>
          (case prev_end of
             Some p_end \<Rightarrow> if starts < p_end then Inl (OverlappingTimeWindow index p_end starts) else Inr ()
           | None \<Rightarrow> Inr ()))"

fun validate_inputs_from ::
  "nat \<Rightarrow> i64 option \<times> i64 option \<Rightarrow> race_config_input list \<Rightarrow> (race_config_domain_error, unit) result" where
  "validate_inputs_from idx prev [] = Inr ()"
| "validate_inputs_from idx (prev_start, prev_end) (entry # rest) =
     (case validate_input idx entry of
        Inl err \<Rightarrow> Inl err
      | Inr _ \<Rightarrow>
          (case validate_ordering_and_overlap idx (race_starts_at_ms entry) (race_ends_at_ms entry)
                  prev_start prev_end of
             Inl err \<Rightarrow> Inl err
           | Inr _ \<Rightarrow> validate_inputs_from (idx + 1)
                        (Some (race_starts_at_ms entry), Some (race_ends_at_ms entry)) rest))"

definition validate_inputs :: "race_config_input list \<Rightarrow> (race_config_domain_error, unit) result" where
  "validate_inputs entries = validate_inputs_from 0 (None, None) entries"

definition validate_draft_schedule ::
  "race_config_input list \<Rightarrow> (race_config_domain_error, unit) result" where
  "validate_draft_schedule entries = validate_inputs entries"

fun validate_entries_from ::
  "nat \<Rightarrow> string list \<times> i64 option \<times> i64 option \<Rightarrow> schedule_entry list
    \<Rightarrow> (race_config_domain_error, unit) result" where
  "validate_entries_from idx st [] = Inr ()"
| "validate_entries_from idx (seen, prev_start, prev_end) (entry # rest) =
     (if blank (race_id entry) then Inl (EmptyRaceId idx)
      else if race_id entry \<in> set seen then Inl (DuplicateRaceId idx (race_id entry))
      else
        case validate_input idx (race_config entry) of
          Inl err \<Rightarrow> Inl err
        | Inr _ \<Rightarrow>
            (case validate_ordering_and_overlap idx (race_starts_at_ms (race_config entry))
                    (race_ends_at_ms (race_config entry)) prev_start prev_end of
               Inl err \<Rightarrow> Inl err
             | Inr _ \<Rightarrow> validate_entries_from (idx + 1)
                          (race_id entry # seen, Some (race_starts_at_ms (race_config entry)),
                           Some (race_ends_at_ms (race_config entry))) rest))"

definition validate_race_schedule ::
  "schedule_entry list \<Rightarrow> (race_config_domain_error, unit) result" where
  "validate_race_schedule entries = validate_entries_from 0 ([], None, None) entries"

section \<open>Scans that stop at the first error\<close>

locale entry_scan =
  fixes scan :: "nat \<Rightarrow> 's \<Rightarrow> 'e list \<Rightarrow> ('err, unit) result"
    and check :: "nat \<Rightarrow> 's \<Rightarrow> 'e \<Rightarrow> ('err, unit) result"
    and advance :: "'s \<Rightarrow> 'e \<Rightarrow> 's"
  assumes scan_Nil: "scan idx st [] = Inr ()"
    and scan_Cons: "scan idx st (e # es) =
      (case check idx st e of Inl err \<Rightarrow> Inl err | Inr _ \<Rightarrow> scan (idx + 1) (advance st e) es)"
begin

lemma scan_append:
  "scan idx st (xs @ ys) =
     (case scan idx st xs of
        Inl err \<Rightarrow> Inl err | Inr _ \<Rightarrow> scan (idx + length xs) (foldl advance st xs) ys)"
  by (induction xs arbitrary: idx st) (auto simp: scan_Nil scan_Cons split: sum.splits)

lemma scan_ok_iff:
  "scan idx st es = Inr () \<longleftrightarrow>
     (\<forall>i < length es. check (idx + i) (foldl advance st (take i es)) (es ! i) = Inr ())"
proof (induction es arbitrary: idx st)
  case (Cons e es)
  show ?case by (simp add: scan_Cons Cons.IH All_less_Suc2 split: sum.splits)
qed (simp add: scan_Nil)

lemma scan_first_error:
  "scan idx st es = Inl err \<Longrightarrow>
   \<exists>i < length es. scan idx st (take i es) = Inr () \<and>
     check (idx + i) (foldl advance st (take i es)) (es ! i) = Inl err"
proof (induction es arbitrary: idx st)
  case (Cons e es)
  show ?case
  proof (cases "check idx st e")
    case (Inl err')
    with Cons.prems show ?thesis by (intro exI [of _ 0]) (simp add: scan_Nil scan_Cons)
  next
    case (Inr u)
    then obtain i where "i < length es" "scan (idx + 1) (advance st e) (take i es) = Inr ()"
      "check (idx + 1 + i) (foldl advance (advance st e) (take i es)) (es ! i) = Inl err"
      using Cons.IH [of "idx + 1" "advance st e"] Cons.prems by (auto simp: scan_Cons)
    with Inr show ?thesis by (intro exI [of _ "Suc i"]) (simp add: scan_Cons)
  qed
qed (simp add: scan_Nil)

end

definition check_input ::
  "nat \<Rightarrow> i64 option \<times> i64 option \<Rightarrow> race_config_input \<Rightarrow> (race_config_domain_error, unit) result" where
  "check_input idx prev c =
     (case validate_input idx c of
        Inl err \<Rightarrow> Inl err
      | Inr _ \<Rightarrow> validate_ordering_and_overlap idx (race_starts_at_ms c) (race_ends_at_ms c) (fst prev) (snd prev))"

definition next_prev :: "i64 option \<times> i64 option \<Rightarrow> race_config_input \<Rightarrow> i64 option \<times> i64 option" where
  "next_prev prev c = (Some (race_starts_at_ms c), Some (race_ends_at_ms c))"

definition check_entry ::
  "nat \<Rightarrow> string list \<times> i64 option \<times> i64 option \<Rightarrow> schedule_entry \<Rightarrow> (race_config_domain_error, unit) result" where
  "check_entry idx st e =
     (if blank (race_id e) then Inl (EmptyRaceId idx)
      else if race_id e \<in> set (fst st) then Inl (DuplicateRaceId idx (race_id e))
      else check_input idx (snd st) (race_config e))"

definition next_seen ::
  "string list \<times> i64 option \<times> i64 option \<Rightarrow> schedule_entry \<Rightarrow> string list \<times> i64 option \<times> i64 option" where
  "next_seen st e = (race_id e # fst st, next_prev (snd st) (race_config e))"

interpretation draft: entry_scan validate_inputs_from check_input next_prev
proof
  fix idx :: nat and st :: "i64 option \<times> i64 option" and e es
  show "validate_inputs_from idx st (e # es) =
      (case check_input idx st e of
         Inl err \<Rightarrow> Inl err | Inr _ \<Rightarrow> validate_inputs_from (idx + 1) (next_prev st e) es)"
    by (cases st) (auto simp: check_input_def next_prev_def split: sum.splits)
qed simp

interpretation sched: entry_scan validate_entries_from check_entry next_seen
proof
  fix idx :: nat and st :: "string list \<times> i64 option \<times> i64 option" and e es
  show "validate_entries_from idx st (e # es) =
      (case check_entry idx st e of
         Inl err \<Rightarrow> Inl err | Inr _ \<Rightarrow> validate_entries_from (idx + 1) (next_seen st e) es)"
    by (cases st) (auto simp: check_entry_def check_input_def next_seen_def next_prev_def split: sum.splits)
qed simp

section \<open>The specification of a schedule\<close>

definition valid_config :: "race_config_input \<Rightarrow> bool" where
  "valid_config c \<longleftrightarrow> \<not> blank (race_name c) \<and> \<not> blank (race_map_id c) \<and>
     start_placement_mode c \<noteq> PlacementUnspecified \<and> time_of_day_preset c \<noteq> TimeOfDayUnspecified \<and>
     (\<exists>q > 0. points_multiplier_fixed c = Fin q) \<and> race_starts_at_ms c < race_ends_at_ms c"

definition race_before :: "race_config_input \<Rightarrow> race_config_input \<Rightarrow> bool" where
  "race_before a b \<longleftrightarrow> race_ends_at_ms a \<le> race_starts_at_ms b"

lemma validate_input_ok: "validate_input idx c = Inr () \<longleftrightarrow> valid_config c"
  by (cases "points_multiplier_fixed c") (auto simp: validate_input_def valid_config_def)

lemma validate_input_index: "validate_input idx c = Inl err \<Longrightarrow> validate_input idx' c \<noteq> Inr ()"
  by (auto simp: validate_input_def split: if_splits)

lemma foldl_next_prev:
  "foldl next_prev st cs = (if cs = [] then st
     else (Some (race_starts_at_ms (last cs)), Some (race_ends_at_ms (last cs))))"
  by (induction cs arbitrary: st) (auto simp: next_prev_def)

lemma foldl_next_seen:
  "foldl next_seen st es =
     (rev (map race_id es) @ fst st, foldl next_prev (snd st) (map race_config es))"
  by (induction es arbitrary: st) (auto simp: next_seen_def)

lemma ordering_ok:
  "validate_ordering_and_overlap idx s e ps pe = Inr () \<longleftrightarrow>
     (\<forall>p. ps = Some p \<longrightarrow> p < s) \<and> (\<forall>p. pe = Some p \<longrightarrow> p \<le> s)"
  by (auto simp: validate_ordering_and_overlap_def split: option.splits if_splits)


lemma check_input_ok:
  "check_input idx prev c = Inr () \<longleftrightarrow> valid_config c \<and>
     (\<forall>p. fst prev = Some p \<longrightarrow> p < race_starts_at_ms c) \<and>
     (\<forall>p. snd prev = Some p \<longrightarrow> p \<le> race_starts_at_ms c)"
proof (cases "validate_input idx c")
  case (Inl err)
  then have "\<not> valid_config c" using validate_input_ok [of idx c] by simp
  with Inl show ?thesis by (simp add: check_input_def)
next
  case (Inr u)
  then have "valid_config c" using validate_input_ok [of idx c] by simp
  with Inr show ?thesis by (simp add: check_input_def ordering_ok)
qed

lemma case_result_ok:
  "(case r of Inl err \<Rightarrow> Inl err | Inr _ \<Rightarrow> k) = Inr () \<longleftrightarrow> r = Inr () \<and> k = Inr ()"
  for r :: "('e, unit) result"
  by (cases r) auto

lemma inputs_ok:
  "validate_inputs_from idx (None, None) cs = Inr () \<longleftrightarrow>
     (\<forall>c \<in> set cs. valid_config c) \<and> sorted_wrt race_before cs"
proof (induction cs rule: rev_induct)
  case (snoc c cs)
  let ?prev = "foldl next_prev (None, None) cs"
  have one: "check_input i ?prev c = Inr () \<longleftrightarrow> valid_config c \<and> (\<forall>x \<in> set cs. race_before x c)"
    if ok: "\<forall>c \<in> set cs. valid_config c" "sorted_wrt race_before cs" for i
  proof (cases cs rule: rev_cases)
    case Nil
    then show ?thesis by (simp add: check_input_ok)
  next
    case (snoc xs x)
    have x: "race_starts_at_ms x < race_ends_at_ms x" using ok snoc by (simp add: valid_config_def)
    moreover have "race_before y c" if "race_before x c" "y \<in> set xs" for y
      using that ok snoc x by (auto simp: race_before_def sorted_wrt_append)
    ultimately show ?thesis
      using snoc by (auto simp: check_input_ok next_prev_def race_before_def)
  qed
  show ?case
    unfolding draft.scan_append case_result_ok draft.scan_Cons draft.scan_Nil snoc.IH
    using one by (auto simp: sorted_wrt_append)
qed simp

lemma entries_ok:
  "validate_entries_from idx ([], None, None) es = Inr () \<longleftrightarrow>
     (\<forall>e \<in> set es. \<not> blank (race_id e)) \<and> distinct (map race_id es) \<and>
     validate_inputs_from idx (None, None) (map race_config es) = Inr ()"
proof (induction es rule: rev_induct)
  case (snoc e es)
  show ?case
    unfolding sched.scan_append case_result_ok sched.scan_Cons sched.scan_Nil snoc.IH
      map_append list.map draft.scan_append draft.scan_Cons draft.scan_Nil
    by (auto simp: check_entry_def foldl_next_seen)
qed simp

lemma check_entry_error:
  "check_entry idx st e = Inl err \<Longrightarrow>
     err = EmptyRaceId idx \<and> blank (race_id e) \<or>
     err = DuplicateRaceId idx (race_id e) \<and> race_id e \<in> set (fst st) \<or>
     check_input idx (snd st) (race_config e) = Inl err"
  by (auto simp: check_entry_def split: if_splits)

section \<open>Properties\<close>

text \<open>
  C5. A persisted schedule is accepted exactly when every race identifier is non-blank and
  used once, every configuration is valid (names and map given, placement mode and time of
  day specified, a finite positive multiplier, a non-empty window) and every race ends
  before any later one starts.
\<close>

theorem validate_race_schedule_accepts:
  "validate_race_schedule entries = Inr () \<longleftrightarrow>
     (\<forall>e \<in> set entries. \<not> blank (race_id e) \<and> valid_config (race_config e)) \<and>
     distinct (map race_id entries) \<and> sorted_wrt race_before (map race_config entries)"
  by (auto simp: validate_race_schedule_def entries_ok inputs_ok)

definition sample_race :: "string \<Rightarrow> i64 \<Rightarrow> i64 \<Rightarrow> schedule_entry" where
  "sample_race i s e = \<lparr>race_id = i, race_config =
     \<lparr>race_name = ''Cup'', race_starts_at_ms = s, race_ends_at_ms = e, race_map_id = ''map'',
      start_placement_mode = Random, points_multiplier_fixed = Fin 1, time_of_day_preset = Noon\<rparr>\<rparr>"

lemmas race_eval = validate_race_schedule_def sample_race_def validate_input_def
  validate_ordering_and_overlap_def

theorem validate_race_schedule_accepts_witness:
  "valid_config (race_config (sample_race ''b'' 10 20)) \<and>
   race_before (race_config (sample_race ''a'' 0 10)) (race_config (sample_race ''b'' 10 20)) \<and>
   validate_race_schedule [sample_race ''a'' 0 10, sample_race ''b'' 10 20] = Inr ()"
proof -
  have "validate_race_schedule [sample_race ''a'' 0 10, sample_race ''b'' 10 20] = Inr ()"
    by (simp add: race_eval)
  then show ?thesis
    using validate_race_schedule_accepts [of "[sample_race ''a'' 0 10, sample_race ''b'' 10 20]"]
    by auto
qed

text \<open>
  When a persisted schedule is refused, the error names the first entry that breaks a
  rule: the entries before it are accepted, and the error matches the rule broken there,
  with the two times that clash.
\<close>

theorem validate_race_schedule_first_error:
  assumes "validate_race_schedule entries = Inl err"
  shows "\<exists>i < length entries. validate_race_schedule (take i entries) = Inr () \<and>
     (let e = entries ! i; c = race_config e; prev = race_config (entries ! (i - 1)) in
      err = EmptyRaceId i \<and> blank (race_id e) \<or>
      err = DuplicateRaceId i (race_id e) \<and> race_id e \<in> race_id ` set (take i entries) \<or>
      validate_input i c = Inl err \<and> \<not> valid_config c \<or>
      err = NonIncreasingStartTime i (race_starts_at_ms prev) (race_starts_at_ms c) \<and>
        race_starts_at_ms c \<le> race_starts_at_ms prev \<or>
      err = OverlappingTimeWindow i (race_ends_at_ms prev) (race_starts_at_ms c) \<and>
        race_starts_at_ms prev < race_starts_at_ms c \<and> race_starts_at_ms c < race_ends_at_ms prev)"
proof -
  obtain i where i: "i < length entries" "validate_race_schedule (take i entries) = Inr ()"
    "check_entry i (foldl next_seen ([], None, None) (take i entries)) (entries ! i) = Inl err"
    using sched.scan_first_error [of 0 "([], None, None)" entries err] assms
    unfolding validate_race_schedule_def by auto
  let ?e = "entries ! i" and ?prev = "foldl next_prev (None, None) (map race_config (take i entries))"
  have prev: "?prev = (if i = 0 then (None, None) else
      (Some (race_starts_at_ms (race_config (entries ! (i - 1)))),
       Some (race_ends_at_ms (race_config (entries ! (i - 1))))))"
    using i(1) by (cases i) (auto simp: next_prev_def take_Suc_conv_app_nth)
  consider "err = EmptyRaceId i" "blank (race_id ?e)"
    | "err = DuplicateRaceId i (race_id ?e)" "race_id ?e \<in> race_id ` set (take i entries)"
    | "check_input i ?prev (race_config ?e) = Inl err"
    using check_entry_error [OF i(3)] unfolding foldl_next_seen by auto
  then show ?thesis
  proof cases
    case 3
    then show ?thesis
      using i(1,2) prev validate_input_ok [of i "race_config ?e"]
      by (intro exI [of _ i])
        (auto simp: check_input_def validate_ordering_and_overlap_def Let_def split: sum.splits if_splits)
  qed (use i in \<open>auto simp: Let_def\<close>)
qed

theorem validate_race_schedule_first_error_witness:
  "validate_race_schedule [sample_race ''a'' 0 10, sample_race ''b'' 5 20] =
     Inl (OverlappingTimeWindow 1 10 5) \<and>
   (\<exists>i < 2. validate_race_schedule (take i [sample_race ''a'' 0 10, sample_race ''b'' 5 20]) = Inr ())"
proof -
  have "validate_race_schedule [sample_race ''a'' 0 10, sample_race ''b'' 5 20] =
     Inl (OverlappingTimeWindow 1 10 5)"
    by (simp add: race_eval)
  with validate_race_schedule_first_error [OF this] show ?thesis by (auto simp: numeral_2_eq_2)
qed

end
