(* ===== verification/Boink_Model.thy ===== *)
theory Boink_Model
  imports Ieee
begin

unbundle bit_operations_syntax

text \<open>
  The data of the simulation wrapper, game-engine/boink/src/model and error.rs,
  native/version.rs and native/strings.rs: the conversions between the native C structures
  and the wrapper's types, the mapping of native status codes to errors, the version check,
  and the two-call string query. A C structure with the same fields as its wrapper type
  shares the record; enumerations of the C interface keep their own constructors.
\<close>

section \<open>Status codes and errors\<close>

definition BOINK_OK :: i32 where "BOINK_OK = 0"
definition BOINK_NO_DATA :: i32 where "BOINK_NO_DATA = 1"
definition BOINK_CONDITION_NOT_MET :: i32 where "BOINK_CONDITION_NOT_MET = 2"
definition BOINK_ERR_INVALID_ARG :: i32 where "BOINK_ERR_INVALID_ARG = - 1"
definition BOINK_ERR_BUFFER_TOO_SMALL :: i32 where "BOINK_ERR_BUFFER_TOO_SMALL = - 2"
definition BOINK_ERR_NOT_FOUND :: i32 where "BOINK_ERR_NOT_FOUND = - 3"
definition BOINK_ERR_UNSUPPORTED_FORMAT :: i32 where "BOINK_ERR_UNSUPPORTED_FORMAT = - 4"
definition BOINK_ERR_IO :: i32 where "BOINK_ERR_IO = - 5"
definition BOINK_ERR_INTERNAL :: i32 where "BOINK_ERR_INTERNAL = - 100"

lemmas boink_codes = BOINK_OK_def BOINK_NO_DATA_def BOINK_CONDITION_NOT_MET_def
  BOINK_ERR_INVALID_ARG_def BOINK_ERR_BUFFER_TOO_SMALL_def BOINK_ERR_NOT_FOUND_def
  BOINK_ERR_UNSUPPORTED_FORMAT_def BOINK_ERR_IO_def BOINK_ERR_INTERNAL_def

record version =
  ver_major :: u32
  ver_minor :: u32
  ver_patch :: u32

datatype boink_error =
  NullHandle string
| InvalidCarModel string
| InvalidString string
| InvalidArg
| BufferTooSmall
| NotFound
| NoData
| ConditionNotMet
| UnsupportedFormat
| Io
| Internal string
| FfiStatus i32 string
| IncompatibleVersion version version
| Native i32

definition from_ffi_status :: "i32 \<Rightarrow> string \<Rightarrow> boink_error" where
  "from_ffi_status code func =
     (if code = BOINK_NO_DATA then NoData
      else if code = BOINK_CONDITION_NOT_MET then ConditionNotMet
      else if code = BOINK_ERR_INVALID_ARG then InvalidArg
      else if code = BOINK_ERR_BUFFER_TOO_SMALL then BufferTooSmall
      else if code = BOINK_ERR_NOT_FOUND then NotFound
      else if code = BOINK_ERR_UNSUPPORTED_FORMAT then UnsupportedFormat
      else if code = BOINK_ERR_IO then Io
      else if code = BOINK_ERR_INTERNAL then Internal (func @ '' reported an internal error'')
      else FfiStatus code func)"

definition from_null_handle :: "string \<Rightarrow> boink_error" where
  "from_null_handle func = NullHandle func"

section \<open>Versions\<close>

definition REQUIRED_C_API_VERSION :: version where
  "REQUIRED_C_API_VERSION = \<lparr>ver_major = 1, ver_minor = 0, ver_patch = 0\<rparr>"

definition is_compatible :: "version \<Rightarrow> version \<Rightarrow> bool" where
  "is_compatible required actual =
     (if ver_major actual \<noteq> ver_major required then False
      else if ver_minor actual > ver_minor required then True
      else if ver_minor actual < ver_minor required then False
      else ver_patch actual \<ge> ver_patch required)"

definition query_c_api_version :: "i32 \<times> u32 \<times> u32 \<times> u32 \<Rightarrow> (boink_error, version) result" where
  "query_c_api_version native =
     (case native of (code, major, minor, patch) \<Rightarrow>
        if code = BOINK_OK
        then Inr \<lparr>ver_major = major, ver_minor = minor, ver_patch = patch\<rparr>
        else Inl (from_ffi_status code ''boink_get_c_api_version''))"

definition ensure_c_api_compatible :: "i32 \<times> u32 \<times> u32 \<times> u32 \<Rightarrow> (boink_error, unit) result" where
  "ensure_c_api_compatible native =
     (case query_c_api_version native of
        Inr actual \<Rightarrow>
          if is_compatible REQUIRED_C_API_VERSION actual then Inr ()
          else Inl (IncompatibleVersion REQUIRED_C_API_VERSION actual)
      | Inl err \<Rightarrow> Inl err)"

section \<open>Native strings\<close>

text \<open>
  \<open>String::from_utf8_lossy\<close>: \<open>utf8_step\<close> reads one sequence and says whether it is
  well-formed and how many bytes it takes; an ill-formed one becomes U+FFFD.
\<close>

definition cont_byte :: "u8 \<Rightarrow> bool" where
  "cont_byte b \<longleftrightarrow> 128 \<le> b \<and> b \<le> 191"

definition second_byte :: "u8 \<Rightarrow> u8 \<Rightarrow> bool" where
  "second_byte b0 b1 \<longleftrightarrow>
     (if b0 = 224 then 160 \<le> b1 \<and> b1 \<le> 191
      else if b0 = 237 then 128 \<le> b1 \<and> b1 \<le> 159
      else if b0 = 240 then 144 \<le> b1 \<and> b1 \<le> 191
      else if b0 = 244 then 128 \<le> b1 \<and> b1 \<le> 143
      else cont_byte b1)"

definition utf8_width :: "u8 \<Rightarrow> nat" where
  "utf8_width b =
     (if b < 128 then 1 else if b < 194 then 0 else if b < 224 then 2
      else if b < 240 then 3 else if b < 245 then 4 else 0)"

definition nth_byte :: "u8 list \<Rightarrow> nat \<Rightarrow> u8" where
  "nth_byte bs i = (if i < length bs then bs ! i else 0)"

definition utf8_step :: "u8 list \<Rightarrow> bool \<times> nat" where
  "utf8_step bs =
     (let w = utf8_width (nth_byte bs 0) in
      if w = 0 then (False, 1)
      else if w = 1 then (True, 1)
      else if \<not> second_byte (nth_byte bs 0) (nth_byte bs 1) then (False, 1)
      else if w = 2 then (True, 2)
      else if \<not> cont_byte (nth_byte bs 2) then (False, 2)
      else if w = 3 then (True, 3)
      else if \<not> cont_byte (nth_byte bs 3) then (False, 3)
      else (True, 4))"

definition string_of_bytes :: "u8 list \<Rightarrow> string" where
  "string_of_bytes = map (\<lambda>b. char_of (unat b))"

lemma utf8_step_pos: "utf8_step bs = (ok, n) \<Longrightarrow> 0 < n"
  by (auto simp: utf8_step_def Let_def split: if_splits)

function from_utf8_lossy :: "u8 list \<Rightarrow> string" where
  "from_utf8_lossy [] = []"
| "from_utf8_lossy (b # bs) =
     (let (ok, n) = utf8_step (b # bs) in
      (if ok then string_of_bytes (take n (b # bs)) else string_of_bytes [239, 191, 189]) @
      from_utf8_lossy (drop n (b # bs)))"
  by pat_completeness auto
termination
  by (relation "measure length") (auto dest!: sym [of "(_, _)" "utf8_step _"] dest: utf8_step_pos)

function utf8_valid :: "u8 list \<Rightarrow> bool" where
  "utf8_valid [] = True"
| "utf8_valid (b # bs) =
     (let (ok, n) = utf8_step (b # bs) in ok \<and> utf8_valid (drop n (b # bs)))"
  by pat_completeness auto
termination
  by (relation "measure length") (auto dest!: sym [of "(_, _)" "utf8_step _"] dest: utf8_step_pos)

declare from_utf8_lossy.simps(2) [simp del] utf8_valid.simps(2) [simp del]

text \<open>
  A native string getter maps the buffer it is given (none on the first call) to the status,
  the length it reports and the buffer's new contents.
\<close>

type_synonym string_getter = "u8 list option \<Rightarrow> u32 \<Rightarrow> i32 \<times> u32 \<times> u8 list"

definition query_string ::
  "string_getter \<Rightarrow> (i32, string option) result" where
  "query_string func =
     (let (code, len, _) = func None 0 in
      if code = BOINK_ERR_INVALID_ARG then Inl code
      else if code = BOINK_ERR_BUFFER_TOO_SMALL \<and> len > 0 then
        (let (code', _, buf) = func (Some (replicate (unat len) 0)) len in
         if code' = BOINK_OK then Inr (Some (from_utf8_lossy (takeWhile (\<lambda>b. b \<noteq> 0) buf)))
         else Inl code')
      else if code = BOINK_OK then Inr None
      else Inl code)"

section \<open>Controls\<close>

datatype gear_shift = NoShift | Upshift | Downshift

datatype ffi_gear_shift =
  BOINK_GEAR_SHIFT_NONE | BOINK_GEAR_SHIFT_UPSHIFT | BOINK_GEAR_SHIFT_DOWNSHIFT

fun gear_shift_to_ffi :: "gear_shift \<Rightarrow> ffi_gear_shift" where
  "gear_shift_to_ffi NoShift = BOINK_GEAR_SHIFT_NONE"
| "gear_shift_to_ffi Upshift = BOINK_GEAR_SHIFT_UPSHIFT"
| "gear_shift_to_ffi Downshift = BOINK_GEAR_SHIFT_DOWNSHIFT"

fun gear_shift_from_ffi :: "ffi_gear_shift \<Rightarrow> (boink_error, gear_shift) result" where
  "gear_shift_from_ffi BOINK_GEAR_SHIFT_NONE = Inr NoShift"
| "gear_shift_from_ffi BOINK_GEAR_SHIFT_UPSHIFT = Inr Upshift"
| "gear_shift_from_ffi BOINK_GEAR_SHIFT_DOWNSHIFT = Inr Downshift"

record controls =
  ctl_throttle :: fp
  ctl_brake :: fp
  ctl_brake_balancer :: fp
  ctl_differential_lock :: fp
  ctl_steer :: fp
  ctl_gear_shift :: gear_shift

record ffi_controls =
  fctl_throttle :: fp
  fctl_brake :: fp
  fctl_brake_balancer :: fp
  fctl_differential_lock :: fp
  fctl_steer :: fp
  fctl_gear_shift :: ffi_gear_shift

record accepted_controls =
  accepted_shift :: gear_shift

definition controls_new :: "fp \<Rightarrow> fp \<Rightarrow> fp \<Rightarrow> fp \<Rightarrow> fp \<Rightarrow> gear_shift \<Rightarrow> controls" where
  "controls_new throttle brake brake_balancer differential_lock steer gear_shift =
     \<lparr>ctl_throttle = fp_clamp (Fin 0) (Fin 1) throttle,
      ctl_brake = fp_clamp (Fin 0) (Fin 1) brake,
      ctl_brake_balancer = fp_clamp (Fin 0) (Fin 1) brake_balancer,
      ctl_differential_lock = fp_clamp (Fin 0) (Fin 1) differential_lock,
      ctl_steer = fp_clamp (Fin (- 1)) (Fin 1) steer,
      ctl_gear_shift = gear_shift\<rparr>"

definition controls_as_ffi :: "controls \<Rightarrow> ffi_controls" where
  "controls_as_ffi c =
     \<lparr>fctl_throttle = ctl_throttle c, fctl_brake = ctl_brake c,
      fctl_brake_balancer = ctl_brake_balancer c,
      fctl_differential_lock = ctl_differential_lock c, fctl_steer = ctl_steer c,
      fctl_gear_shift = gear_shift_to_ffi (ctl_gear_shift c)\<rparr>"

definition accepted_controls_try_from :: "ffi_gear_shift \<Rightarrow> (boink_error, accepted_controls) result" where
  "accepted_controls_try_from raw =
     (case gear_shift_from_ffi raw of
        Inl err \<Rightarrow> Inl err | Inr s \<Rightarrow> Inr \<lparr>accepted_shift = s\<rparr>)"

section \<open>Vectors, weather and ghost mode\<close>

record vec3 =
  vec_x :: fp
  vec_y :: fp
  vec_z :: fp

record quaternion =
  quat_x :: fp
  quat_y :: fp
  quat_z :: fp
  quat_w :: fp

definition quaternion_identity :: quaternion where
  "quaternion_identity = \<lparr>quat_x = Fin 0, quat_y = Fin 0, quat_z = Fin 0, quat_w = Fin 1\<rparr>"

record weather_params =
  wp_cloudiness :: fp
  wp_temperature_c :: fp
  wp_rain_intensity :: fp

record ghost_mode_settings =
  ghost_enabled :: bool
  enter_speed_max_mps :: fp
  exit_speed_min_mps :: fp
  enter_delay_ms :: u32
  exit_delay_ms :: u32
  until_completed_laps :: u32
  vehicle_overlap_exit_delay_ms :: u32

datatype ghost_mode_phase = GhostInactive | GhostPendingEnter | GhostActive | GhostPendingExit

datatype ffi_ghost_mode_phase =
  BOINK_GHOST_MODE_PHASE_INACTIVE | BOINK_GHOST_MODE_PHASE_PENDING_ENTER
| BOINK_GHOST_MODE_PHASE_ACTIVE | BOINK_GHOST_MODE_PHASE_PENDING_EXIT

fun ghost_mode_phase_from :: "ffi_ghost_mode_phase \<Rightarrow> ghost_mode_phase" where
  "ghost_mode_phase_from BOINK_GHOST_MODE_PHASE_INACTIVE = GhostInactive"
| "ghost_mode_phase_from BOINK_GHOST_MODE_PHASE_PENDING_ENTER = GhostPendingEnter"
| "ghost_mode_phase_from BOINK_GHOST_MODE_PHASE_ACTIVE = GhostActive"
| "ghost_mode_phase_from BOINK_GHOST_MODE_PHASE_PENDING_EXIT = GhostPendingExit"

record ghost_mode_runtime_state =
  can_collide_now :: bool
  ghost_phase :: ghost_mode_phase
  blockers_mask :: u32
  enter_delay_remaining_ms :: u32
  exit_delay_remaining_ms :: u32

record ffi_ghost_mode_runtime_state =
  fghost_can_collide_now :: bool
  fghost_phase :: ffi_ghost_mode_phase
  fghost_blockers_mask :: u32
  fghost_enter_delay_remaining_ms :: u32
  fghost_exit_delay_remaining_ms :: u32

definition ghost_mode_runtime_state_default :: ghost_mode_runtime_state where
  "ghost_mode_runtime_state_default =
     \<lparr>can_collide_now = True, ghost_phase = GhostInactive, blockers_mask = 0,
      enter_delay_remaining_ms = 0, exit_delay_remaining_ms = 0\<rparr>"

definition has_blocker :: "ghost_mode_runtime_state \<Rightarrow> u32 \<Rightarrow> bool" where
  "has_blocker g blocker_mask \<longleftrightarrow> blockers_mask g AND blocker_mask \<noteq> 0"

definition ghost_mode_runtime_state_from ::
  "ffi_ghost_mode_runtime_state \<Rightarrow> ghost_mode_runtime_state" where
  "ghost_mode_runtime_state_from raw =
     \<lparr>can_collide_now = fghost_can_collide_now raw,
      ghost_phase = ghost_mode_phase_from (fghost_phase raw),
      blockers_mask = fghost_blockers_mask raw,
      enter_delay_remaining_ms = fghost_enter_delay_remaining_ms raw,
      exit_delay_remaining_ms = fghost_exit_delay_remaining_ms raw\<rparr>"

section \<open>Gears and tyres\<close>

datatype gear = Reverse | Neutral | Forward u8

definition gear_from_c :: "i32 \<Rightarrow> (boink_error, gear) result" where
  "gear_from_c value =
     (if value = - 1 then Inr Reverse
      else if value = 0 then Inr Neutral
      else if 1 \<le> value \<and> value \<le> 8 then Inr (Forward (word_of_int value))
      else Inl InvalidArg)"

fun gear_to_c :: "gear \<Rightarrow> i32" where
  "gear_to_c Reverse = - 1"
| "gear_to_c Neutral = 0"
| "gear_to_c (Forward n) = uint n"

datatype tyre_type = Soft | Hard | Wet

datatype ffi_tyre_type = BOINK_TYRE_TYPE_SOFT | BOINK_TYRE_TYPE_HARD | BOINK_TYRE_TYPE_WET

fun tyre_type_try_from :: "ffi_tyre_type \<Rightarrow> (boink_error, tyre_type) result" where
  "tyre_type_try_from BOINK_TYRE_TYPE_SOFT = Inr Soft"
| "tyre_type_try_from BOINK_TYRE_TYPE_HARD = Inr Hard"
| "tyre_type_try_from BOINK_TYRE_TYPE_WET = Inr Wet"

fun tyre_type_to_ffi :: "tyre_type \<Rightarrow> ffi_tyre_type" where
  "tyre_type_to_ffi Soft = BOINK_TYRE_TYPE_SOFT"
| "tyre_type_to_ffi Hard = BOINK_TYRE_TYPE_HARD"
| "tyre_type_to_ffi Wet = BOINK_TYRE_TYPE_WET"

section \<open>Pitstop zones, metrics and laps\<close>

datatype pitstop_zone = ZoneNone | ZoneEnter | ZoneFix | ZoneExit

fun zone_bits :: "pitstop_zone \<Rightarrow> u32" where
  "zone_bits ZoneNone = 0"
| "zone_bits ZoneEnter = 1"
| "zone_bits ZoneFix = 2"
| "zone_bits ZoneExit = 4"

record vehicle_pitstop_state =
  zone_mask :: u32
  wheels_in_pitstop :: u8

definition vehicle_pitstop_state_default :: vehicle_pitstop_state where
  "vehicle_pitstop_state_default = \<lparr>zone_mask = 0, wheels_in_pitstop = 0\<rparr>"

definition has_zone :: "vehicle_pitstop_state \<Rightarrow> pitstop_zone \<Rightarrow> bool" where
  "has_zone s zone \<longleftrightarrow> zone_mask s AND zone_bits zone \<noteq> 0"

definition is_in_any_zone :: "vehicle_pitstop_state \<Rightarrow> bool" where
  "is_in_any_zone s \<longleftrightarrow> zone_mask s \<noteq> 0"

definition pitstop_state_try_from_ffi :: "u32 \<Rightarrow> i32 \<Rightarrow> (boink_error, vehicle_pitstop_state) result" where
  "pitstop_state_try_from_ffi raw_mask wheels_num =
     (if wheels_num < 0 then Inl (Internal (''invalid pitstop wheels count: '' @ dec_int wheels_num))
      else Inr \<lparr>zone_mask = raw_mask, wheels_in_pitstop = word_of_int (min wheels_num 4)\<rparr>)"

record vehicle_race_metrics =
  completed_laps :: u32
  lap_progress_m :: fp
  current_lap_time_ms :: u32
  last_lap_time_ms :: "u32 option"

record ffi_vehicle_race_metrics =
  fm_completed_laps :: u32
  fm_lap_progress_m :: fp
  fm_current_lap_time_ms :: u32
  fm_has_last_lap_time :: bool
  fm_last_lap_time_ms :: u32

definition vehicle_race_metrics_from :: "ffi_vehicle_race_metrics \<Rightarrow> vehicle_race_metrics" where
  "vehicle_race_metrics_from raw =
     \<lparr>completed_laps = fm_completed_laps raw, lap_progress_m = fm_lap_progress_m raw,
      current_lap_time_ms = fm_current_lap_time_ms raw,
      last_lap_time_ms =
        (if fm_has_last_lap_time raw then Some (fm_last_lap_time_ms raw) else None)\<rparr>"

record vehicle_best_lap =
  vbl_lap :: u32
  vbl_lap_time_ms :: u32

record race_best_lap =
  rbl_vehicle_id :: u64
  rbl_lap :: u32
  rbl_lap_time_ms :: u32

section \<open>Vehicle state\<close>

text \<open>The arrays of the C structure have fixed lengths; they are lists here.\<close>

record vehicle_state =
  vs_vehicle_id :: u64
  chassis_position :: vec3
  vehicle_orientation :: quaternion
  vs_speed :: fp
  engine_rpm :: fp
  vs_gear :: gear
  throttle_applied :: fp
  brake_applied :: fp
  wheel_position :: "vec3 list"
  wheel_speeds :: "fp list"
  front_wheel_orientation_rad :: "fp list"
  tyre_health :: "fp list"
  tyre_temperature_celsius :: "fp list"
  tyre_slip :: "fp list"
  vs_tyre_type :: tyre_type
  are_all_wheels_on_ground :: bool
  ghost_mode_runtime :: ghost_mode_runtime_state
  vs_pitstop_state :: vehicle_pitstop_state

record ffi_vehicle_state =
  fvs_vehicle_id :: u64
  fvs_chassis_position :: vec3
  fvs_vehicle_orientation :: quaternion
  fvs_speed :: fp
  fvs_engine_rpm :: fp
  fvs_gear :: i32
  fvs_throttle_applied :: fp
  fvs_brake_applied :: fp
  fvs_wheel_position :: "vec3 list"
  fvs_wheel_speeds :: "fp list"
  fvs_front_wheel_orientation_rad :: "fp list"
  fvs_tyre_health :: "fp list"
  fvs_tyre_temperature_celsius :: "fp list"
  fvs_tyre_slip :: "fp list"
  fvs_tyre_type :: ffi_tyre_type
  fvs_are_all_wheels_on_ground :: bool

definition vehicle_state_try_from :: "ffi_vehicle_state \<Rightarrow> (boink_error, vehicle_state) result" where
  "vehicle_state_try_from raw =
     (case gear_from_c (fvs_gear raw) of
        Inl err \<Rightarrow> Inl err
      | Inr g \<Rightarrow>
          (case tyre_type_try_from (fvs_tyre_type raw) of
             Inl err \<Rightarrow> Inl err
           | Inr tt \<Rightarrow> Inr
               \<lparr>vs_vehicle_id = fvs_vehicle_id raw,
                chassis_position = fvs_chassis_position raw,
                vehicle_orientation = fvs_vehicle_orientation raw,
                vs_speed = fvs_speed raw, engine_rpm = fvs_engine_rpm raw, vs_gear = g,
                throttle_applied = fvs_throttle_applied raw,
                brake_applied = fvs_brake_applied raw,
                wheel_position = fvs_wheel_position raw, wheel_speeds = fvs_wheel_speeds raw,
                front_wheel_orientation_rad = fvs_front_wheel_orientation_rad raw,
                tyre_health = fvs_tyre_health raw,
                tyre_temperature_celsius = fvs_tyre_temperature_celsius raw,
                tyre_slip = fvs_tyre_slip raw, vs_tyre_type = tt,
                are_all_wheels_on_ground = fvs_are_all_wheels_on_ground raw,
                ghost_mode_runtime = ghost_mode_runtime_state_default,
                vs_pitstop_state = vehicle_pitstop_state_default\<rparr>))"

section \<open>Track geometry\<close>

text \<open>A C pointer is \<open>None\<close> when null, or the memory behind it.\<close>

datatype ground_type = Asphalt | Grass | Sand | Gravel | Wall | Kerb

datatype ffi_ground_type =
  BOINK_GROUND_TYPE_ASPHALT | BOINK_GROUND_TYPE_GRASS | BOINK_GROUND_TYPE_SAND
| BOINK_GROUND_TYPE_GRAVEL | BOINK_GROUND_TYPE_WALL | BOINK_GROUND_TYPE_KERB

fun ground_type_from :: "ffi_ground_type \<Rightarrow> ground_type" where
  "ground_type_from BOINK_GROUND_TYPE_ASPHALT = Asphalt"
| "ground_type_from BOINK_GROUND_TYPE_GRASS = Grass"
| "ground_type_from BOINK_GROUND_TYPE_SAND = Sand"
| "ground_type_from BOINK_GROUND_TYPE_GRAVEL = Gravel"
| "ground_type_from BOINK_GROUND_TYPE_WALL = Wall"
| "ground_type_from BOINK_GROUND_TYPE_KERB = Kerb"

record ground_width =
  gw_width :: fp
  gw_ground_type :: ground_type

record ffi_ground_width =
  fgw_width :: fp
  fgw_type :: ffi_ground_type

definition ground_width_from :: "ffi_ground_width \<Rightarrow> ground_width" where
  "ground_width_from raw =
     \<lparr>gw_width = fgw_width raw, gw_ground_type = ground_type_from (fgw_type raw)\<rparr>"

record centerline_sample =
  s_m :: fp
  cs_position :: vec3
  cs_tangent :: vec3
  cs_normal :: vec3
  cs_right :: vec3
  left_width_m :: fp
  right_width_m :: fp
  max_left_width_m :: fp
  left_grounds :: "ground_width list"
  max_right_width_m :: fp
  right_grounds :: "ground_width list"
  curvature_1pm :: fp
  grade_rad :: fp
  bank_rad :: fp

record ffi_centerline_sample =
  fcs_s_m :: fp
  fcs_position :: vec3
  fcs_tangent :: vec3
  fcs_normal :: vec3
  fcs_right :: vec3
  fcs_left_width_m :: fp
  fcs_right_width_m :: fp
  fcs_max_left_width_m :: fp
  fcs_left_grounds :: "ffi_ground_width list option"
  fcs_left_grounds_count :: u32
  fcs_max_right_width_m :: fp
  fcs_right_grounds :: "ffi_ground_width list option"
  fcs_right_grounds_count :: u32
  fcs_curvature_1pm :: fp
  fcs_grade_rad :: fp
  fcs_bank_rad :: fp

fun collect_results :: "('a \<Rightarrow> ('e, 'b) result) \<Rightarrow> 'a list \<Rightarrow> ('e, 'b list) result" where
  "collect_results f [] = Inr []"
| "collect_results f (x # xs) =
     (case f x of
        Inl err \<Rightarrow> Inl err
      | Inr y \<Rightarrow> (case collect_results f xs of Inl err \<Rightarrow> Inl err | Inr ys \<Rightarrow> Inr (y # ys)))"

definition collect_ground_widths ::
  "ffi_ground_width list option \<Rightarrow> u32 \<Rightarrow> string \<Rightarrow> (boink_error, ground_width list) result" where
  "collect_ground_widths ptr count field_name =
     (if unat count = 0 then Inr []
      else case ptr of
        None \<Rightarrow> Inl (Internal (''boink_get_track_data returned null '' @ field_name))
      | Some mem \<Rightarrow> Inr (map ground_width_from (take (unat count) mem)))"

definition centerline_sample_try_from_ffi ::
  "ffi_centerline_sample \<Rightarrow> (boink_error, centerline_sample) result" where
  "centerline_sample_try_from_ffi raw =
     (case collect_ground_widths (fcs_left_grounds raw) (fcs_left_grounds_count raw)
             ''centerline_samples.left_grounds'' of
        Inl err \<Rightarrow> Inl err
      | Inr left \<Rightarrow>
          (case collect_ground_widths (fcs_right_grounds raw) (fcs_right_grounds_count raw)
                  ''centerline_samples.right_grounds'' of
             Inl err \<Rightarrow> Inl err
           | Inr right \<Rightarrow> Inr
               \<lparr>s_m = fcs_s_m raw, cs_position = fcs_position raw, cs_tangent = fcs_tangent raw,
                cs_normal = fcs_normal raw, cs_right = fcs_right raw,
                left_width_m = fcs_left_width_m raw, right_width_m = fcs_right_width_m raw,
                max_left_width_m = fcs_max_left_width_m raw, left_grounds = left,
                max_right_width_m = fcs_max_right_width_m raw, right_grounds = right,
                curvature_1pm = fcs_curvature_1pm raw, grade_rad = fcs_grade_rad raw,
                bank_rad = fcs_bank_rad raw\<rparr>))"

definition collect_centerline_samples ::
  "ffi_centerline_sample list option \<Rightarrow> u32 \<Rightarrow> string
    \<Rightarrow> (boink_error, centerline_sample list) result" where
  "collect_centerline_samples ptr count field_name =
     (if unat count = 0 then Inr []
      else case ptr of
        None \<Rightarrow> Inl (Internal (''boink_get_track_data returned null '' @ field_name))
      | Some mem \<Rightarrow> collect_results centerline_sample_try_from_ffi (take (unat count) mem))"

record pitstop_data =
  enter_centerline_samples :: "centerline_sample list"
  fix_centerline_samples :: "centerline_sample list"
  exit_centerline_samples :: "centerline_sample list"
  pit_length_m :: fp

record track_data =
  td_map_id :: string
  td_version :: u32
  lap_length_m :: fp
  centerline_samples :: "centerline_sample list"
  td_pitstop_data :: pitstop_data

record ffi_pitstop_data =
  fpit_enter :: "ffi_centerline_sample list option"
  fpit_enter_count :: u32
  fpit_fix :: "ffi_centerline_sample list option"
  fpit_fix_count :: u32
  fpit_exit :: "ffi_centerline_sample list option"
  fpit_exit_count :: u32
  fpit_length_m :: fp

record ffi_track_data =
  ftd_map_id :: "u8 list option"
  ftd_version :: u32
  ftd_lap_length_m :: fp
  ftd_centerline_samples :: "ffi_centerline_sample list option"
  ftd_centerline_sample_count :: u32
  ftd_pitstop_data :: ffi_pitstop_data

definition track_data_try_from_ffi :: "ffi_track_data \<Rightarrow> (boink_error, track_data) result" where
  "track_data_try_from_ffi raw =
     (case ftd_map_id raw of
        None \<Rightarrow> Inl (Internal ''boink_get_track_data returned null map_id'')
      | Some mem \<Rightarrow>
          let map_id_bytes = takeWhile (\<lambda>b. b \<noteq> 0) mem;
              map_id = (if utf8_valid map_id_bytes then string_of_bytes map_id_bytes
                        else from_utf8_lossy map_id_bytes);
              pit = ftd_pitstop_data raw
          in (case collect_centerline_samples (ftd_centerline_samples raw)
                     (ftd_centerline_sample_count raw) ''centerline_samples'' of
                Inl err \<Rightarrow> Inl err
              | Inr samples \<Rightarrow>
             (case collect_centerline_samples (fpit_enter pit) (fpit_enter_count pit)
                     ''pitstop_data.enter_centerline_samples'' of
                Inl err \<Rightarrow> Inl err
              | Inr enter \<Rightarrow>
             (case collect_centerline_samples (fpit_fix pit) (fpit_fix_count pit)
                     ''pitstop_data.fix_centerline_samples'' of
                Inl err \<Rightarrow> Inl err
              | Inr fix_samples \<Rightarrow>
             (case collect_centerline_samples (fpit_exit pit) (fpit_exit_count pit)
                     ''pitstop_data.exit_centerline_samples'' of
                Inl err \<Rightarrow> Inl err
              | Inr exit_samples \<Rightarrow> Inr
                  \<lparr>td_map_id = map_id, td_version = ftd_version raw,
                   lap_length_m = ftd_lap_length_m raw, centerline_samples = samples,
                   td_pitstop_data =
                     \<lparr>enter_centerline_samples = enter, fix_centerline_samples = fix_samples,
                      exit_centerline_samples = exit_samples,
                      pit_length_m = fpit_length_m pit\<rparr>\<rparr>)))))"

section \<open>Lemmas\<close>

lemma from_ffi_status_inj:
  assumes "from_ffi_status c f = from_ffi_status c' f'"
  shows "c = c'"
  using assms by (auto simp: from_ffi_status_def boink_codes split: if_splits)

lemma from_ffi_status_condition_not_met [simp]:
  "from_ffi_status c f = ConditionNotMet \<longleftrightarrow> c = BOINK_CONDITION_NOT_MET"
  by (auto simp: from_ffi_status_def boink_codes)

lemma gear_from_c_Inr:
  "gear_from_c v = Inr g \<Longrightarrow> gear_to_c g = v \<and> - 1 \<le> v \<and> v \<le> 8"
  by (auto simp: gear_from_c_def uint_word_of_int split: if_splits)

lemma gear_from_to_c:
  assumes "\<And>n. g = Forward n \<Longrightarrow> 1 \<le> n \<and> n \<le> 8"
  shows "gear_from_c (gear_to_c g) = Inr g"
proof (cases g)
  case (Forward n)
  then have "1 \<le> uint n" "uint n \<le> 8" using assms by (auto simp: word_le_def)
  with Forward show ?thesis by (simp add: gear_from_c_def)
qed (auto simp: gear_from_c_def)

lemma pitstop_wheels_le:
  "pitstop_state_try_from_ffi m w = Inr s \<Longrightarrow> wheels_in_pitstop s \<le> 4 \<and> zone_mask s = m"
  by (auto simp: pitstop_state_try_from_ffi_def word_le_def uint_word_of_int split: if_splits)

lemma collect_results_Inr:
  "collect_results f xs = Inr ys \<Longrightarrow> list_all2 (\<lambda>x y. f x = Inr y) xs ys"
  by (induction xs arbitrary: ys) (auto split: sum.splits)

lemma collect_results_total:
  "\<forall>x \<in> set xs. \<exists>y. f x = Inr y \<Longrightarrow> \<exists>ys. collect_results f xs = Inr ys"
  by (induction xs) (auto split: sum.splits)

lemma from_utf8_lossy_valid: "utf8_valid bs \<Longrightarrow> from_utf8_lossy bs = string_of_bytes bs"
proof (induction bs rule: utf8_valid.induct)
  case (2 b bs)
  obtain ok n where st: "utf8_step (b # bs) = (ok, n)" by fastforce
  with "2.prems" have "ok" "utf8_valid (drop n (b # bs))" by (simp_all add: utf8_valid.simps)
  with 2 st have "from_utf8_lossy (b # bs) =
      string_of_bytes (take n (b # bs)) @ string_of_bytes (drop n (b # bs))"
    by (simp add: from_utf8_lossy.simps(2))
  also have "\<dots> = string_of_bytes (b # bs)"
    unfolding string_of_bytes_def map_append [symmetric] append_take_drop_id ..
  finally show ?case .
qed (simp add: string_of_bytes_def)

lemma is_compatible_lex:
  "is_compatible r a \<longleftrightarrow> ver_major a = ver_major r \<and>
     (ver_minor r < ver_minor a \<or> ver_minor r = ver_minor a \<and> ver_patch r \<le> ver_patch a)"
  by (auto simp: is_compatible_def)

definition in_range :: "fp \<Rightarrow> rat \<Rightarrow> rat \<Rightarrow> fp \<Rightarrow> bool" where
  "in_range raw lo hi v \<longleftrightarrow>
     (if raw = NaN then v = NaN else \<exists>q. v = Fin q \<and> lo \<le> q \<and> q \<le> hi \<and>
        (\<forall>r. raw = Fin r \<and> lo \<le> r \<and> r \<le> hi \<longrightarrow> q = r))"

lemma fp_clamp_in_range: "lo \<le> hi \<Longrightarrow> in_range raw lo hi (fp_clamp (Fin lo) (Fin hi) raw)"
  by (cases raw) (auto simp: in_range_def fp_clamp_def)

section \<open>Properties\<close>

text \<open>
  Whatever numbers a driver sends, the controls built from them are in the ranges the
  engine documents (0 to 1, steering -1 to 1), values already in range are kept, infinities
  are cut to a bound, and only a NaN stays a NaN; the shift reaches the native structure
  unchanged.
\<close>

theorem controls_new_in_range:
  "let c = controls_new throttle brake balancer diff_lock steer shift in
     in_range throttle 0 1 (ctl_throttle c) \<and> in_range brake 0 1 (ctl_brake c) \<and>
     in_range balancer 0 1 (ctl_brake_balancer c) \<and>
     in_range diff_lock 0 1 (ctl_differential_lock c) \<and>
     in_range steer (- 1) 1 (ctl_steer c) \<and>
     fctl_steer (controls_as_ffi c) = ctl_steer c \<and>
     gear_shift_from_ffi (fctl_gear_shift (controls_as_ffi c)) = Inr shift"
  by (cases shift) (simp_all add: controls_new_def controls_as_ffi_def fp_clamp_in_range)

end
