(* ===== verification/Boink_Engine.thy ===== *)
theory Boink_Engine
  imports Boink_Model
begin

text \<open>
  The safe wrapper of the simulation, game-engine/boink/src/engine/core.rs and builder.rs.
  The native C library is the parameter \<open>api\<close>, one field per C function; \<open>'n\<close> is the native
  state behind a race handle, which the wrapper owns alone. A call returns the new native
  state even when it fails, so a wrapper operation returns its result with the engine. The
  calls that create a mesh or a race depend on their path alone: the asset files do not
  change while the process runs.
\<close>

section \<open>The native library\<close>

record ffi_vehicle_model =
  fvm_mesh :: nat
  fvm_center_of_mass :: vec3
  fvm_wheel_radius :: fp
  fvm_suspension_rest_length :: fp
  fvm_mass :: fp
  fvm_max_steer_angle :: fp

record 'n native =
  n_get_c_api_version :: "i32 \<times> u32 \<times> u32 \<times> u32"
  n_init :: "bool \<Rightarrow> i32"
  n_create_vehicle_mesh :: "string \<Rightarrow> i32 \<times> nat"
  n_create_race :: "string \<Rightarrow> 'n option"
  n_step_race :: "'n \<Rightarrow> fp \<Rightarrow> 'n \<times> i32 \<times> fp"
  n_get_race_duration :: "'n \<Rightarrow> i32 \<times> fp"
  n_get_track_data :: "'n \<Rightarrow> i32 \<times> ffi_track_data"
  n_spawn_vehicle :: "'n \<Rightarrow> ffi_vehicle_model \<Rightarrow> 'n \<times> i32 \<times> u64"
  n_despawn_vehicle :: "'n \<Rightarrow> u64 \<Rightarrow> 'n \<times> i32"
  n_set_controls :: "'n \<Rightarrow> u64 \<Rightarrow> ffi_controls \<Rightarrow> 'n \<times> i32 \<times> ffi_gear_shift"
  n_set_weather :: "'n \<Rightarrow> weather_params \<Rightarrow> 'n \<times> i32"
  n_set_ghost_mode_settings :: "'n \<Rightarrow> ghost_mode_settings \<Rightarrow> 'n \<times> i32"
  n_disable_ghost_mode :: "'n \<Rightarrow> 'n \<times> i32"
  n_set_vehicle_position :: "'n \<Rightarrow> u64 \<Rightarrow> vec3 \<Rightarrow> 'n \<times> i32"
  n_set_vehicle_before_point :: "'n \<Rightarrow> u64 \<Rightarrow> vec3 \<Rightarrow> 'n \<times> i32"
  n_set_vehicle_before_finish_line :: "'n \<Rightarrow> u64 \<Rightarrow> 'n \<times> i32"
  n_set_vehicle_random_pos :: "'n \<Rightarrow> u64 \<Rightarrow> 'n \<times> i32"
  n_set_vehicle_back_to_track :: "'n \<Rightarrow> u64 \<Rightarrow> 'n \<times> i32"
  n_set_vehicle_to_pitstop :: "'n \<Rightarrow> u64 \<Rightarrow> 'n \<times> i32"
  n_set_vehicle_tyre_type :: "'n \<Rightarrow> u64 \<Rightarrow> ffi_tyre_type \<Rightarrow> 'n \<times> i32"
  n_force_set_vehicle_tyre_type :: "'n \<Rightarrow> u64 \<Rightarrow> ffi_tyre_type \<Rightarrow> 'n \<times> i32"
  n_get_vehicle_dimensions :: "'n \<Rightarrow> u64 \<Rightarrow> i32 \<times> fp \<times> fp"
  n_set_vehicle_at_start_pos :: "'n \<Rightarrow> u64 \<Rightarrow> u64 \<Rightarrow> 'n \<times> i32"
  n_get_number_of_start_pos :: "'n \<Rightarrow> i32 \<times> u64"
  n_set_vehicle_orientation :: "'n \<Rightarrow> u64 \<Rightarrow> quaternion \<Rightarrow> 'n \<times> i32"
  n_read_vehicle_state :: "'n \<Rightarrow> u64 \<Rightarrow> i32 \<times> ffi_vehicle_state"
  n_read_vehicle_race_metrics :: "'n \<Rightarrow> u64 \<Rightarrow> i32 \<times> ffi_vehicle_race_metrics"
  n_get_vehicle_pitstop_zone :: "'n \<Rightarrow> u64 \<Rightarrow> i32 \<times> u32 \<times> i32"
  n_get_vehicle_personal_best_lap :: "'n \<Rightarrow> u64 \<Rightarrow> i32 \<times> u32 \<times> u32"
  n_get_best_lap :: "'n \<Rightarrow> i32 \<times> u64 \<times> u32 \<times> u32"
  n_read_vehicle_ghost_mode_state :: "'n \<Rightarrow> u64 \<Rightarrow> i32 \<times> ffi_ghost_mode_runtime_state"
  n_should_close_debug :: "'n \<Rightarrow> bool"

section \<open>Vehicle models, meshes and initialization\<close>

record vehicle_model_config =
  vm_mesh :: nat
  vm_center_of_mass :: vec3
  vm_wheel_radius :: fp
  vm_suspension_rest_length :: fp
  vm_mass :: fp
  vm_max_steer_angle_deg :: fp

record 'n engine =
  eng_race :: 'n
  eng_vehicle_model :: ffi_vehicle_model
  eng_debug_drawer_enabled :: bool

fun first_nul :: "string \<Rightarrow> nat \<Rightarrow> nat option" where
  "first_nul [] i = None"
| "first_nul (c # cs) i = (if c = CHR 0x00 then Some i else first_nul cs (i + 1))"

definition to_cstring :: "string \<Rightarrow> (boink_error, string) result" where
  "to_cstring path =
     (case first_nul path 0 of
        None \<Rightarrow> Inr path
      | Some i \<Rightarrow> Inl (InvalidString (''nul byte found in provided data at position: '' @ dec_nat i)))"

text \<open>A mesh handle is a number; 0 is the null handle.\<close>

definition vehicle_mesh_load :: "'n native \<Rightarrow> string \<Rightarrow> (boink_error, nat) result" where
  "vehicle_mesh_load api path =
     (case to_cstring path of
        Inl err \<Rightarrow> Inl err
      | Inr c_path \<Rightarrow>
          let (code, handle) = n_create_vehicle_mesh api c_path in
          if code = BOINK_OK then
            (if handle = 0 then Inl (from_null_handle ''boink_create_vehicle_mesh'') else Inr handle)
          else Inl (from_ffi_status code ''boink_create_vehicle_mesh''))"

text \<open>The cell \<open>INIT\<close>, a \<open>OnceLock\<close>: empty, or the outcome of the first initialization.\<close>

type_synonym init_cell = "(boink_error, bool) result option"

definition ensure_initialized ::
  "'n native \<Rightarrow> bool \<Rightarrow> init_cell \<Rightarrow> (boink_error, bool) result \<times> init_cell" where
  "ensure_initialized api debug_drawer_enabled cell =
     (let outcome = (case cell of
            Some r \<Rightarrow> r
          | None \<Rightarrow>
              let code = n_init api debug_drawer_enabled in
              if code = BOINK_OK then Inr debug_drawer_enabled
              else Inl (from_ffi_status code ''boink_init''))
      in ((case outcome of
             Inr d \<Rightarrow>
               if d \<noteq> debug_drawer_enabled
               then Inl (Internal ''boink_init called with a different debug drawer setting'')
               else Inr d
           | Inl err \<Rightarrow> Inl err), Some outcome))"

definition initialize_runtime ::
  "'n native \<Rightarrow> bool \<Rightarrow> init_cell \<Rightarrow> (boink_error, unit) result \<times> init_cell" where
  "initialize_runtime api debug_drawer_enabled cell =
     (case ensure_c_api_compatible (n_get_c_api_version api) of
        Inl err \<Rightarrow> (Inl err, cell)
      | Inr _ \<Rightarrow>
          (case ensure_initialized api debug_drawer_enabled cell of
             (Inl err, cell') \<Rightarrow> (Inl err, cell')
           | (Inr _, cell') \<Rightarrow> (Inr (), cell')))"

definition finite_vec3 :: "vec3 \<Rightarrow> bool" where
  "finite_vec3 v \<longleftrightarrow> is_finite_fp (vec_x v) \<and> is_finite_fp (vec_y v) \<and> is_finite_fp (vec_z v)"

definition validate_vehicle_model :: "vehicle_model_config \<Rightarrow> (boink_error, unit) result" where
  "validate_vehicle_model model =
     (if vm_mesh model = 0 \<or> \<not> finite_vec3 (vm_center_of_mass model)
         \<or> \<not> is_finite_fp (vm_wheel_radius model)
         \<or> \<not> is_finite_fp (vm_suspension_rest_length model)
         \<or> \<not> is_finite_fp (vm_mass model)
         \<or> \<not> is_finite_fp (vm_max_steer_angle_deg model)
      then Inl (InvalidCarModel ''VehicleModel contains invalid values'')
      else Inr ())"

definition to_ffi_vehicle_model :: "vehicle_model_config \<Rightarrow> ffi_vehicle_model" where
  "to_ffi_vehicle_model model =
     \<lparr>fvm_mesh = vm_mesh model, fvm_center_of_mass = vm_center_of_mass model,
      fvm_wheel_radius = vm_wheel_radius model,
      fvm_suspension_rest_length = vm_suspension_rest_length model,
      fvm_mass = vm_mass model, fvm_max_steer_angle = vm_max_steer_angle_deg model\<rparr>"

definition engine_new ::
  "'n native \<Rightarrow> string \<Rightarrow> vehicle_model_config \<Rightarrow> bool \<Rightarrow> init_cell
    \<Rightarrow> (boink_error, 'n engine) result \<times> init_cell" where
  "engine_new api track_glb_filename vehicle_model debug_drawer_enabled cell =
     (case initialize_runtime api debug_drawer_enabled cell of
        (Inl err, cell') \<Rightarrow> (Inl err, cell')
      | (Inr _, cell') \<Rightarrow>
          ((case validate_vehicle_model vehicle_model of
              Inl err \<Rightarrow> Inl err
            | Inr _ \<Rightarrow>
                (case to_cstring track_glb_filename of
                   Inl err \<Rightarrow> Inl err
                 | Inr c_path \<Rightarrow>
                     (case n_create_race api c_path of
                        None \<Rightarrow> Inl (from_null_handle ''boink_create_race'')
                      | Some race \<Rightarrow> Inr
                          \<lparr>eng_race = race,
                           eng_vehicle_model = to_ffi_vehicle_model vehicle_model,
                           eng_debug_drawer_enabled = debug_drawer_enabled\<rparr>))), cell'))"

record engine_builder =
  eb_track_glb_filename :: string
  eb_vehicle_model :: vehicle_model_config
  eb_debug_drawer_enabled :: bool

definition engine_builder_new :: "string \<Rightarrow> vehicle_model_config \<Rightarrow> engine_builder" where
  "engine_builder_new track model =
     \<lparr>eb_track_glb_filename = track, eb_vehicle_model = model, eb_debug_drawer_enabled = False\<rparr>"

definition with_debug_drawer :: "bool \<Rightarrow> engine_builder \<Rightarrow> engine_builder" where
  "with_debug_drawer enabled b = b\<lparr>eb_debug_drawer_enabled := enabled\<rparr>"

definition engine_build ::
  "'n native \<Rightarrow> engine_builder \<Rightarrow> init_cell \<Rightarrow> (boink_error, 'n engine) result \<times> init_cell" where
  "engine_build api b cell =
     engine_new api (eb_track_glb_filename b) (eb_vehicle_model b) (eb_debug_drawer_enabled b) cell"

section \<open>Operations on a race\<close>

type_synonym ('n, 'a) engine_op = "'n engine \<Rightarrow> (boink_error, 'a) result \<times> 'n engine"

text \<open>How every operation reports the status of its native call.\<close>

definition status_result :: "i32 \<Rightarrow> string \<Rightarrow> 'a \<Rightarrow> (boink_error, 'a) result" where
  "status_result code func v =
     (if code = BOINK_OK then Inr v else Inl (from_ffi_status code func))"

definition native_unit :: "string \<Rightarrow> ('n \<Rightarrow> 'n \<times> i32) \<Rightarrow> ('n, unit) engine_op" where
  "native_unit func call e =
     (let (race, code) = call (eng_race e)
      in (status_result code func (), e\<lparr>eng_race := race\<rparr>))"

definition engine_step :: "'n native \<Rightarrow> fp \<Rightarrow> ('n, unit) engine_op" where
  "engine_step api dt_seconds e =
     (let (race, code, _) = n_step_race api (eng_race e) dt_seconds;
          e' = e\<lparr>eng_race := race\<rparr>
      in if code \<noteq> BOINK_OK then (Inl (from_ffi_status code ''boink_step_race''), e')
         else (Inr (), e'))"

definition race_duration :: "'n native \<Rightarrow> 'n engine \<Rightarrow> (boink_error, fp) result" where
  "race_duration api e =
     (let (code, dur) = n_get_race_duration api (eng_race e)
      in if code = BOINK_OK then Inr dur else Inl (from_ffi_status code ''boink_get_race_duration''))"

definition engine_track_data :: "'n native \<Rightarrow> 'n engine \<Rightarrow> (boink_error, track_data) result" where
  "engine_track_data api e =
     (let (code, raw) = n_get_track_data api (eng_race e)
      in if code = BOINK_OK then track_data_try_from_ffi raw
         else Inl (from_ffi_status code ''boink_get_track_data''))"

definition spawn_vehicle :: "'n native \<Rightarrow> ('n, u64) engine_op" where
  "spawn_vehicle api e =
     (let (race, code, vid) = n_spawn_vehicle api (eng_race e) (eng_vehicle_model e);
          e' = e\<lparr>eng_race := race\<rparr>
      in if code \<noteq> BOINK_OK then (Inl (from_ffi_status code ''boink_spawn_vehicle''), e')
         else (Inr vid, e'))"

definition despawn_vehicle :: "'n native \<Rightarrow> u64 \<Rightarrow> ('n, unit) engine_op" where
  "despawn_vehicle api vid =
     native_unit ''boink_despawn_vehicle'' (\<lambda>r. n_despawn_vehicle api r vid)"

definition engine_set_controls :: "'n native \<Rightarrow> u64 \<Rightarrow> controls \<Rightarrow> ('n, accepted_controls) engine_op" where
  "engine_set_controls api vid c e =
     (let (race, code, raw) = n_set_controls api (eng_race e) vid (controls_as_ffi c);
          e' = e\<lparr>eng_race := race\<rparr>
      in if code = BOINK_OK then (accepted_controls_try_from raw, e')
         else (Inl (from_ffi_status code ''boink_set_controls''), e'))"

definition engine_set_weather :: "'n native \<Rightarrow> weather_params \<Rightarrow> ('n, unit) engine_op" where
  "engine_set_weather api w =
     native_unit ''boink_set_weather'' (\<lambda>r. n_set_weather api r w)"

definition engine_set_ghost_mode_settings ::
  "'n native \<Rightarrow> ghost_mode_settings \<Rightarrow> ('n, unit) engine_op" where
  "engine_set_ghost_mode_settings api settings =
     (if ghost_enabled settings
      then native_unit ''boink_set_ghost_mode_settings''
             (\<lambda>r. n_set_ghost_mode_settings api r settings)
      else native_unit ''boink_disable_ghost_mode'' (n_disable_ghost_mode api))"

definition engine_set_vehicle_position :: "'n native \<Rightarrow> u64 \<Rightarrow> vec3 \<Rightarrow> ('n, unit) engine_op" where
  "engine_set_vehicle_position api vid p =
     native_unit ''boink_set_vehicle_position'' (\<lambda>r. n_set_vehicle_position api r vid p)"

definition engine_set_vehicle_before_point :: "'n native \<Rightarrow> u64 \<Rightarrow> vec3 \<Rightarrow> ('n, unit) engine_op" where
  "engine_set_vehicle_before_point api vid p =
     native_unit ''boink_set_vehicle_before_point'' (\<lambda>r. n_set_vehicle_before_point api r vid p)"

definition engine_set_vehicle_before_finish_line :: "'n native \<Rightarrow> u64 \<Rightarrow> ('n, unit) engine_op" where
  "engine_set_vehicle_before_finish_line api vid =
     native_unit ''boink_set_vehicle_before_finish_line'' (\<lambda>r. n_set_vehicle_before_finish_line api r vid)"

definition engine_set_vehicle_random_pos :: "'n native \<Rightarrow> u64 \<Rightarrow> ('n, unit) engine_op" where
  "engine_set_vehicle_random_pos api vid =
     native_unit ''boink_set_vehicle_random_pos'' (\<lambda>r. n_set_vehicle_random_pos api r vid)"

definition engine_set_vehicle_back_to_track :: "'n native \<Rightarrow> u64 \<Rightarrow> ('n, unit) engine_op" where
  "engine_set_vehicle_back_to_track api vid =
     native_unit ''boink_set_vehicle_back_to_track'' (\<lambda>r. n_set_vehicle_back_to_track api r vid)"

definition engine_set_vehicle_to_pitstop :: "'n native \<Rightarrow> u64 \<Rightarrow> ('n, unit) engine_op" where
  "engine_set_vehicle_to_pitstop api vid =
     native_unit ''boink_set_vehicle_to_pitstop'' (\<lambda>r. n_set_vehicle_to_pitstop api r vid)"

definition engine_set_vehicle_tyre_type :: "'n native \<Rightarrow> u64 \<Rightarrow> tyre_type \<Rightarrow> ('n, unit) engine_op" where
  "engine_set_vehicle_tyre_type api vid tt =
     native_unit ''boink_set_vehicle_tyre_type'' (\<lambda>r. n_set_vehicle_tyre_type api r vid (tyre_type_to_ffi tt))"

definition engine_force_set_vehicle_tyre_type :: "'n native \<Rightarrow> u64 \<Rightarrow> tyre_type \<Rightarrow> ('n, unit) engine_op" where
  "engine_force_set_vehicle_tyre_type api vid tt =
     native_unit ''boink_force_set_vehicle_tyre_type'' (\<lambda>r. n_force_set_vehicle_tyre_type api r vid (tyre_type_to_ffi tt))"

definition engine_set_vehicle_at_start_pos :: "'n native \<Rightarrow> u64 \<Rightarrow> u64 \<Rightarrow> ('n, unit) engine_op" where
  "engine_set_vehicle_at_start_pos api vid position_index =
     native_unit ''boink_set_vehicle_at_start_pos'' (\<lambda>r. n_set_vehicle_at_start_pos api r vid position_index)"

definition engine_set_vehicle_orientation :: "'n native \<Rightarrow> u64 \<Rightarrow> quaternion \<Rightarrow> ('n, unit) engine_op" where
  "engine_set_vehicle_orientation api vid q =
     native_unit ''boink_set_vehicle_orientation'' (\<lambda>r. n_set_vehicle_orientation api r vid q)"

definition engine_get_vehicle_dimensions ::
  "'n native \<Rightarrow> u64 \<Rightarrow> 'n engine \<Rightarrow> (boink_error, fp \<times> fp) result" where
  "engine_get_vehicle_dimensions api vid e =
     (let (code, dims) = n_get_vehicle_dimensions api (eng_race e) vid
      in status_result code ''boink_get_vehicle_dimensions'' dims)"

definition engine_get_number_of_start_pos :: "'n native \<Rightarrow> 'n engine \<Rightarrow> (boink_error, u64) result" where
  "engine_get_number_of_start_pos api e =
     (let (code, n) = n_get_number_of_start_pos api (eng_race e)
      in status_result code ''boink_get_number_of_start_pos'' n)"

definition read_vehicle_race_metrics ::
  "'n native \<Rightarrow> u64 \<Rightarrow> 'n engine \<Rightarrow> (boink_error, vehicle_race_metrics) result" where
  "read_vehicle_race_metrics api vid e =
     (let (code, raw) = n_read_vehicle_race_metrics api (eng_race e) vid
      in status_result code ''boink_read_vehicle_race_metrics'' (vehicle_race_metrics_from raw))"

definition read_vehicle_pitstop_state ::
  "'n native \<Rightarrow> u64 \<Rightarrow> 'n engine \<Rightarrow> (boink_error, vehicle_pitstop_state) result" where
  "read_vehicle_pitstop_state api vid e =
     (let (code, raw_zone, wheels_num) = n_get_vehicle_pitstop_zone api (eng_race e) vid
      in if code = BOINK_OK then pitstop_state_try_from_ffi raw_zone wheels_num
         else Inl (from_ffi_status code ''boink_get_vehicle_pitstop_zone''))"

definition get_vehicle_personal_best_lap ::
  "'n native \<Rightarrow> u64 \<Rightarrow> 'n engine \<Rightarrow> (boink_error, vehicle_best_lap option) result" where
  "get_vehicle_personal_best_lap api vid e =
     (let (code, lap, t) = n_get_vehicle_personal_best_lap api (eng_race e) vid
      in if code = BOINK_OK then Inr (Some \<lparr>vbl_lap = lap, vbl_lap_time_ms = t\<rparr>)
         else if code = BOINK_NO_DATA then Inr None
         else Inl (from_ffi_status code ''boink_get_vehicle_personal_best_lap''))"

definition get_best_lap :: "'n native \<Rightarrow> 'n engine \<Rightarrow> (boink_error, race_best_lap option) result" where
  "get_best_lap api e =
     (let (code, vid, lap, t) = n_get_best_lap api (eng_race e)
      in if code = BOINK_OK
         then Inr (Some \<lparr>rbl_vehicle_id = vid, rbl_lap = lap, rbl_lap_time_ms = t\<rparr>)
         else if code = BOINK_NO_DATA then Inr None
         else Inl (from_ffi_status code ''boink_get_best_lap''))"

definition read_vehicle_ghost_mode_runtime_state ::
  "'n native \<Rightarrow> u64 \<Rightarrow> 'n engine \<Rightarrow> ghost_mode_runtime_state" where
  "read_vehicle_ghost_mode_runtime_state api vid e =
     (let (code, raw) = n_read_vehicle_ghost_mode_state api (eng_race e) vid
      in if code = BOINK_OK then ghost_mode_runtime_state_from raw
         else ghost_mode_runtime_state_default)"

definition read_vehicle_pitstop_state_with_fallback ::
  "'n native \<Rightarrow> u64 \<Rightarrow> 'n engine \<Rightarrow> vehicle_pitstop_state" where
  "read_vehicle_pitstop_state_with_fallback api vid e =
     (case read_vehicle_pitstop_state api vid e of
        Inr state \<Rightarrow> state
      | Inl err \<Rightarrow> vehicle_pitstop_state_default)"

definition read_vehicle_state ::
  "'n native \<Rightarrow> u64 \<Rightarrow> 'n engine \<Rightarrow> (boink_error, vehicle_state) result" where
  "read_vehicle_state api vid e =
     (let (code, raw) = n_read_vehicle_state api (eng_race e) vid
      in if code = BOINK_OK then
           (case vehicle_state_try_from raw of
              Inl err \<Rightarrow> Inl err
            | Inr state \<Rightarrow> Inr (state
                \<lparr>ghost_mode_runtime := read_vehicle_ghost_mode_runtime_state api vid e,
                 vs_pitstop_state := read_vehicle_pitstop_state_with_fallback api vid e\<rparr>))
         else Inl (from_ffi_status code ''boink_read_vehicle_state''))"

definition should_close_debug :: "'n native \<Rightarrow> 'n engine \<Rightarrow> bool" where
  "should_close_debug api e \<longleftrightarrow>
     eng_debug_drawer_enabled e \<and> n_should_close_debug api (eng_race e)"

section \<open>Lemmas\<close>

lemma status_result_Inr [simp]:
  "status_result code func v = Inr w \<longleftrightarrow> code = BOINK_OK \<and> w = v"
  by (auto simp: status_result_def)

lemma native_unit_keeps [simp]:
  "eng_vehicle_model (snd (native_unit func call e)) = eng_vehicle_model e"
  "eng_debug_drawer_enabled (snd (native_unit func call e)) = eng_debug_drawer_enabled e"
  by (simp_all add: native_unit_def split: prod.split)

lemma vehicle_state_gear:
  "vehicle_state_try_from raw = Inr st \<Longrightarrow> gear_to_c (vs_gear st) = fvs_gear raw \<and> - 1 \<le> fvs_gear raw \<and> fvs_gear raw \<le> 8"
  by (auto simp: vehicle_state_try_from_def dest: gear_from_c_Inr split: sum.splits)

lemma vehicle_state_of_gear:
  "- 1 \<le> fvs_gear raw \<Longrightarrow> fvs_gear raw \<le> 8 \<Longrightarrow> \<exists>st. vehicle_state_try_from raw = Inr st"
  by (cases "fvs_tyre_type raw") (auto simp: vehicle_state_try_from_def gear_from_c_def)

lemma pitstop_fallback_wheels: "wheels_in_pitstop (read_vehicle_pitstop_state_with_fallback api vid e) \<le> 4"
  by (auto simp: read_vehicle_pitstop_state_with_fallback_def read_vehicle_pitstop_state_def
      vehicle_pitstop_state_default_def pitstop_wheels_le split: sum.splits prod.splits if_splits)

lemma ensure_initialized_set:
  "ensure_initialized api d (Some r) =
     ((case r of Inl err \<Rightarrow> Inl err
       | Inr d' \<Rightarrow> if d' \<noteq> d then Inl (Internal ''boink_init called with a different debug drawer setting'')
                   else Inr d'), Some r)"
  by (simp add: ensure_initialized_def)

definition samples_readable :: "ffi_centerline_sample list option \<Rightarrow> u32 \<Rightarrow> bool" where
  "samples_readable ptr count \<longleftrightarrow>
     count = 0 \<or> (\<exists>mem. ptr = Some mem \<and> unat count \<le> length mem \<and>
       (\<forall>s \<in> set (take (unat count) mem).
          (fcs_left_grounds_count s = 0 \<or> fcs_left_grounds s \<noteq> None) \<and>
          (fcs_right_grounds_count s = 0 \<or> fcs_right_grounds s \<noteq> None)))"

lemma collect_ground_widths_ok:
  "count = 0 \<or> ptr \<noteq> None \<Longrightarrow> \<exists>ws. collect_ground_widths ptr count f = Inr ws"
  by (auto simp: collect_ground_widths_def unat_eq_zero split: option.splits)

lemma centerline_sample_ok:
  assumes "fcs_left_grounds_count s = 0 \<or> fcs_left_grounds s \<noteq> None"
    and "fcs_right_grounds_count s = 0 \<or> fcs_right_grounds s \<noteq> None"
  shows "\<exists>c. centerline_sample_try_from_ffi s = Inr c"
proof -
  obtain l where "collect_ground_widths (fcs_left_grounds s) (fcs_left_grounds_count s)
      ''centerline_samples.left_grounds'' = Inr l"
    using collect_ground_widths_ok [OF assms(1)] by blast
  moreover obtain r where "collect_ground_widths (fcs_right_grounds s) (fcs_right_grounds_count s)
      ''centerline_samples.right_grounds'' = Inr r"
    using collect_ground_widths_ok [OF assms(2)] by blast
  ultimately show ?thesis by (simp add: centerline_sample_try_from_ffi_def)
qed

lemma collect_samples_ok:
  assumes "samples_readable ptr count"
  shows "\<exists>ss. collect_centerline_samples ptr count f = Inr ss \<and> length ss = unat count"
proof (cases "count = 0")
  case False
  then obtain mem where mem: "ptr = Some mem" "unat count \<le> length mem"
    "\<forall>s \<in> set (take (unat count) mem). \<exists>c. centerline_sample_try_from_ffi s = Inr c"
    using assms unfolding samples_readable_def by (auto intro!: centerline_sample_ok)
  then obtain ss where ss: "collect_results centerline_sample_try_from_ffi (take (unat count) mem) = Inr ss"
    using collect_results_total by blast
  then have "length ss = length (take (unat count) mem)"
    by (metis collect_results_Inr list_all2_lengthD)
  with ss mem False show ?thesis by (simp add: collect_centerline_samples_def unat_eq_zero)
qed (simp add: collect_centerline_samples_def)

section \<open>A small native library\<close>

text \<open>
  An instance of the parameter, to apply the properties to: the native state is the list of
  the vehicles on the track, every call that names an unknown vehicle reports
  \<open>BOINK_ERR_NOT_FOUND\<close>, and the vehicles do not move.
\<close>

definition zero3 :: vec3 where "zero3 = \<lparr>vec_x = Fin 0, vec_y = Fin 0, vec_z = Fin 0\<rparr>"

definition sample_on :: "u64 \<Rightarrow> u64 list \<Rightarrow> i32" where
  "sample_on vid vs = (if vid \<in> set vs then BOINK_OK else BOINK_ERR_NOT_FOUND)"

definition sample_vehicle :: "u64 \<Rightarrow> ffi_vehicle_state" where
  "sample_vehicle vid =
     \<lparr>fvs_vehicle_id = vid, fvs_chassis_position = zero3,
      fvs_vehicle_orientation = quaternion_identity, fvs_speed = Fin 0, fvs_engine_rpm = Fin 900,
      fvs_gear = 1, fvs_throttle_applied = Fin 0, fvs_brake_applied = Fin 0,
      fvs_wheel_position = replicate 4 zero3, fvs_wheel_speeds = replicate 4 (Fin 0),
      fvs_front_wheel_orientation_rad = replicate 2 (Fin 0), fvs_tyre_health = replicate 4 (Fin 1),
      fvs_tyre_temperature_celsius = replicate 4 (Fin 20), fvs_tyre_slip = replicate 4 (Fin 0),
      fvs_tyre_type = BOINK_TYRE_TYPE_SOFT, fvs_are_all_wheels_on_ground = True\<rparr>"

definition sample_track :: ffi_track_data where
  "sample_track =
     \<lparr>ftd_map_id = Some [109, 49, 0], ftd_version = 1, ftd_lap_length_m = Fin 100,
      ftd_centerline_samples = None, ftd_centerline_sample_count = 0,
      ftd_pitstop_data = \<lparr>fpit_enter = None, fpit_enter_count = 0, fpit_fix = None,
        fpit_fix_count = 0, fpit_exit = None, fpit_exit_count = 0, fpit_length_m = Fin 0\<rparr>\<rparr>"

definition sample_api :: "u64 list native" where
  "sample_api =
     \<lparr>n_get_c_api_version = (BOINK_OK, 1, 0, 0), n_init = (\<lambda>_. BOINK_OK),
      n_create_vehicle_mesh = (\<lambda>_. (BOINK_OK, 1)), n_create_race = (\<lambda>_. Some []),
      n_step_race = (\<lambda>vs dt. (vs, BOINK_OK, dt)), n_get_race_duration = (\<lambda>_. (BOINK_OK, Fin 0)),
      n_get_track_data = (\<lambda>_. (BOINK_OK, sample_track)),
      n_spawn_vehicle = (\<lambda>vs _. let v = of_nat (length vs + 1) in (v # vs, BOINK_OK, v)),
      n_despawn_vehicle = (\<lambda>vs v. (removeAll v vs, sample_on v vs)),
      n_set_controls = (\<lambda>vs v c. (vs, sample_on v vs, fctl_gear_shift c)),
      n_set_weather = (\<lambda>vs _. (vs, BOINK_OK)),
      n_set_ghost_mode_settings = (\<lambda>vs _. (vs, BOINK_OK)),
      n_disable_ghost_mode = (\<lambda>vs. (vs, BOINK_OK)),
      n_set_vehicle_position = (\<lambda>vs v _. (vs, sample_on v vs)),
      n_set_vehicle_before_point = (\<lambda>vs v _. (vs, sample_on v vs)),
      n_set_vehicle_before_finish_line = (\<lambda>vs v. (vs, sample_on v vs)),
      n_set_vehicle_random_pos = (\<lambda>vs v. (vs, sample_on v vs)),
      n_set_vehicle_back_to_track = (\<lambda>vs v. (vs, sample_on v vs)),
      n_set_vehicle_to_pitstop = (\<lambda>vs v. (vs, sample_on v vs)),
      n_set_vehicle_tyre_type = (\<lambda>vs v _. (vs, sample_on v vs)),
      n_force_set_vehicle_tyre_type = (\<lambda>vs v _. (vs, sample_on v vs)),
      n_get_vehicle_dimensions = (\<lambda>vs v. (sample_on v vs, Fin 2, Fin 4)),
      n_set_vehicle_at_start_pos = (\<lambda>vs v _. (vs, sample_on v vs)),
      n_get_number_of_start_pos = (\<lambda>_. (BOINK_OK, 8)),
      n_set_vehicle_orientation = (\<lambda>vs v _. (vs, sample_on v vs)),
      n_read_vehicle_state = (\<lambda>vs v. (sample_on v vs, sample_vehicle v)),
      n_read_vehicle_race_metrics = (\<lambda>vs v. (sample_on v vs,
        \<lparr>fm_completed_laps = 0, fm_lap_progress_m = Fin 0, fm_current_lap_time_ms = 0,
         fm_has_last_lap_time = False, fm_last_lap_time_ms = 0\<rparr>)),
      n_get_vehicle_pitstop_zone = (\<lambda>vs v. (BOINK_ERR_NOT_FOUND, 0, 0)),
      n_get_vehicle_personal_best_lap = (\<lambda>vs v. (BOINK_NO_DATA, 0, 0)),
      n_get_best_lap = (\<lambda>_. (BOINK_NO_DATA, 0, 0, 0)),
      n_read_vehicle_ghost_mode_state = (\<lambda>vs v. (BOINK_ERR_NOT_FOUND,
        \<lparr>fghost_can_collide_now = False, fghost_phase = BOINK_GHOST_MODE_PHASE_ACTIVE,
         fghost_blockers_mask = 0, fghost_enter_delay_remaining_ms = 0,
         fghost_exit_delay_remaining_ms = 0\<rparr>)),
      n_should_close_debug = (\<lambda>_. False)\<rparr>"

definition sample_model :: vehicle_model_config where
  "sample_model =
     \<lparr>vm_mesh = 1, vm_center_of_mass = zero3, vm_wheel_radius = Fin (1 / 2),
      vm_suspension_rest_length = Fin (1 / 2), vm_mass = Fin 800, vm_max_steer_angle_deg = Fin 30\<rparr>"

definition sample_engine :: "u64 list engine" where
  "sample_engine =
     \<lparr>eng_race = [1], eng_vehicle_model = to_ffi_vehicle_model sample_model,
      eng_debug_drawer_enabled = False\<rparr>"

section \<open>Properties\<close>

text \<open>
  Initialization happens once: whatever sequence of calls follows the first one, the
  stored outcome never changes, a failed first call makes every later call fail with the
  same error, and after a success a call succeeds exactly when it asks for the same debug
  drawer setting.
\<close>

theorem ensure_initialized_once:
  assumes "ensure_initialized api first None = (r, Some outcome)"
  shows "foldl (\<lambda>cell d. snd (ensure_initialized api d cell)) (Some outcome) flags = Some outcome \<and>
     (outcome = Inr first \<and> r = Inr first \<and> n_init api first = BOINK_OK \<or>
      (\<exists>err. outcome = Inl err \<and> r = Inl err)) \<and>
     (\<forall>d. fst (ensure_initialized api d (Some outcome)) =
        (case outcome of
           Inl err \<Rightarrow> Inl err
         | Inr _ \<Rightarrow> if d = first then Inr first
                    else Inl (Internal ''boink_init called with a different debug drawer setting'')))"
proof -
  have "foldl (\<lambda>cell d. snd (ensure_initialized api d cell)) (Some outcome) flags = Some outcome"
    by (induction flags) (simp_all add: ensure_initialized_set)
  moreover have "outcome = Inr first \<and> r = Inr first \<and> n_init api first = BOINK_OK \<or>
      (\<exists>err. outcome = Inl err \<and> r = Inl err)"
    using assms by (auto simp: ensure_initialized_def Let_def split: if_splits)
  ultimately show ?thesis
    by (auto simp: ensure_initialized_set)
qed

theorem ensure_initialized_once_witness:
  "foldl (\<lambda>cell d. snd (ensure_initialized sample_api d cell)) (Some (Inr True)) [False, True] =
     Some (Inr True)"
proof -
  have "ensure_initialized sample_api True None = (Inr True, Some (Inr True))" by code_simp
  from ensure_initialized_once [OF this, of "[False, True]"] show ?thesis by blast
qed

text \<open>
  C7. Reading a vehicle state succeeds exactly if the native library reports success for it and
  the native gear is one of reverse, neutral and 1 to 8; whatever the queries for the ghost mode
  and the pitstop answer, they never make it fail. The state that is returned carries the native
  gear, at most four wheels are in the pitstop, and a failing ghost-mode or pitstop query is
  replaced by the default state.
\<close>

theorem read_vehicle_state_well_formed:
  "((\<exists>st. read_vehicle_state api vid e = Inr st) \<longleftrightarrow>
      fst (n_read_vehicle_state api (eng_race e) vid) = BOINK_OK \<and>
      fvs_gear (snd (n_read_vehicle_state api (eng_race e) vid)) \<in> {- 1 .. 8}) \<and>
   (\<forall>st. read_vehicle_state api vid e = Inr st \<longrightarrow>
      gear_to_c (vs_gear st) = fvs_gear (snd (n_read_vehicle_state api (eng_race e) vid)) \<and>
      wheels_in_pitstop (vs_pitstop_state st) \<le> 4 \<and>
      (fst (n_read_vehicle_ghost_mode_state api (eng_race e) vid) \<noteq> BOINK_OK \<longrightarrow>
         ghost_mode_runtime st = ghost_mode_runtime_state_default) \<and>
      (fst (n_get_vehicle_pitstop_zone api (eng_race e) vid) \<noteq> BOINK_OK \<longrightarrow>
         vs_pitstop_state st = vehicle_pitstop_state_default))"
proof -
  obtain code raw where n: "n_read_vehicle_state api (eng_race e) vid = (code, raw)" by fastforce
  let ?gh = "read_vehicle_ghost_mode_runtime_state api vid e"
  let ?pit = "read_vehicle_pitstop_state_with_fallback api vid e"
  have st: "read_vehicle_state api vid e = Inr st \<longleftrightarrow> code = BOINK_OK \<and>
      (\<exists>st0. vehicle_state_try_from raw = Inr st0 \<and> st = st0\<lparr>ghost_mode_runtime := ?gh, vs_pitstop_state := ?pit\<rparr>)" for st
    using n by (auto simp: read_vehicle_state_def split: sum.splits)
  have gh: "?gh = ghost_mode_runtime_state_default"
    if "fst (n_read_vehicle_ghost_mode_state api (eng_race e) vid) \<noteq> BOINK_OK"
    using that by (auto simp: read_vehicle_ghost_mode_runtime_state_def split: prod.split)
  have pit: "?pit = vehicle_pitstop_state_default"
    if "fst (n_get_vehicle_pitstop_zone api (eng_race e) vid) \<noteq> BOINK_OK"
    using that by (auto simp: read_vehicle_pitstop_state_with_fallback_def
        read_vehicle_pitstop_state_def split: prod.split sum.split)
  show ?thesis
    using n gh pit pitstop_fallback_wheels [of api vid e] vehicle_state_gear [of raw] vehicle_state_of_gear [of raw]
    by (auto simp: st)
qed

theorem read_vehicle_state_well_formed_witness:
  "\<exists>st. read_vehicle_state sample_api 1 sample_engine = Inr st \<and>
     wheels_in_pitstop (vs_pitstop_state st) \<le> 4 \<and>
     ghost_mode_runtime st = ghost_mode_runtime_state_default"
proof -
  have "is_ok (read_vehicle_state sample_api 1 sample_engine)" by code_simp
  then obtain st where st: "read_vehicle_state sample_api 1 sample_engine = Inr st"
    by (auto simp: is_ok_iff)
  have "fst (n_read_vehicle_ghost_mode_state sample_api (eng_race sample_engine) 1) \<noteq> BOINK_OK"
    by code_simp
  with read_vehicle_state_well_formed [of sample_api 1 sample_engine] st show ?thesis by blast
qed

text \<open>
  When the native library reports success and every non-empty array of the track comes
  with memory for all its elements, reading the track succeeds and no sample is lost; the
  map name is the lossy decoding of the bytes before the terminating zero.
\<close>

theorem track_data_complete:
  assumes "n_get_track_data api (eng_race e) = (BOINK_OK, raw)" "ftd_map_id raw = Some name"
    and "samples_readable (ftd_centerline_samples raw) (ftd_centerline_sample_count raw)"
    and "samples_readable (fpit_enter (ftd_pitstop_data raw)) (fpit_enter_count (ftd_pitstop_data raw))"
    and "samples_readable (fpit_fix (ftd_pitstop_data raw)) (fpit_fix_count (ftd_pitstop_data raw))"
    and "samples_readable (fpit_exit (ftd_pitstop_data raw)) (fpit_exit_count (ftd_pitstop_data raw))"
  shows "\<exists>td. engine_track_data api e = Inr td \<and>
     length (centerline_samples td) = unat (ftd_centerline_sample_count raw) \<and>
     length (fix_centerline_samples (td_pitstop_data td)) = unat (fpit_fix_count (ftd_pitstop_data raw)) \<and>
     td_map_id td = from_utf8_lossy (takeWhile (\<lambda>b. b \<noteq> 0) name)"
proof -
  note ok = collect_samples_ok [OF assms(3), of "''centerline_samples''"]
    collect_samples_ok [OF assms(4), of "''pitstop_data.enter_centerline_samples''"]
    collect_samples_ok [OF assms(5), of "''pitstop_data.fix_centerline_samples''"]
    collect_samples_ok [OF assms(6), of "''pitstop_data.exit_centerline_samples''"]
  from ok show ?thesis
    using assms(1,2)
    by (auto simp: engine_track_data_def track_data_try_from_ffi_def Let_def from_utf8_lossy_valid)
qed

theorem track_data_complete_witness:
  "\<exists>td. engine_track_data sample_api sample_engine = Inr td \<and> td_map_id td = ''m1''"
proof -
  have "from_utf8_lossy (takeWhile (\<lambda>b. b \<noteq> 0) [109, 49, 0]) = ''m1''" by code_simp
  then show ?thesis
    using track_data_complete [of sample_api sample_engine sample_track "[109, 49, 0]"]
    by (auto simp: sample_api_def sample_track_def samples_readable_def)
qed

end
