(* ===== verification/Weather_Domain.thy ===== *)
theory Weather_Domain
  imports Ieee "HOL-Library.Product_Lexorder"
begin

text \<open>
  The weather schedule of game-server/src/domain/weather.rs: what the schedule says at a
  time, the rain probability, the dominant type and the average temperature of a window,
  the validation of a schedule, and the projection of a forecast.

  The three window functions are one loop with three accumulators. The locale \<open>window_walk\<close>
  proves once that the loop visits the segments of the schedule in the window, in order;
  it is interpreted on the three loops. The specification they are measured against is
  the schedule read at every millisecond of the window.
\<close>

section \<open>Data\<close>

datatype weather_type =
  WeatherUnspecified | Clear | PartlyCloudy | Overcast | LightRain | MediumRain | HeavyRain

datatype forecast_preset =
  PresetUnspecified | Preset1HourStep15Min | Preset12HoursStep1Hour

datatype app_env = Development | Preprod | Production

record weather_entry =
  starts_at_ms :: i64
  weather_type_of :: weather_type
  temperature_c :: i32

record forecast_point =
  time_ms :: i64
  point_type :: weather_type

record engine_weather_params =
  cloudiness :: fp
  params_temperature_c :: fp
  rain_intensity :: fp

definition HOUR_MS :: i64 where "HOUR_MS = 60 * 60 * 1000"
definition MINUTE_MS :: i64 where "MINUTE_MS = 60 * 1000"
definition SCHEDULE_TEMPERATURE_MIN_C :: i32 where "SCHEDULE_TEMPERATURE_MIN_C = 1"
definition SCHEDULE_TEMPERATURE_MAX_C :: i32 where "SCHEDULE_TEMPERATURE_MAX_C = 30"

datatype weather_domain_error =
  UnspecifiedPreset
| UnspecifiedNotTail nat
| NonIncreasingTimestamp nat i64 i64
| TimestampOverflow

datatype unspecified_policy = AllowAnywhere | AllowOnlyTail

section \<open>Engine parameters and temperatures\<close>

fun engine_params_for_weather_type :: "weather_type \<Rightarrow> engine_weather_params" where
  "engine_params_for_weather_type PartlyCloudy =
     \<lparr>cloudiness = f32 (1 / 2), params_temperature_c = f32 18, rain_intensity = f32 0\<rparr>"
| "engine_params_for_weather_type Overcast =
     \<lparr>cloudiness = f32 1, params_temperature_c = f32 16, rain_intensity = f32 0\<rparr>"
| "engine_params_for_weather_type LightRain =
     \<lparr>cloudiness = f32 (8 / 10), params_temperature_c = f32 15, rain_intensity = f32 (3 / 10)\<rparr>"
| "engine_params_for_weather_type MediumRain =
     \<lparr>cloudiness = f32 (95 / 100), params_temperature_c = f32 14, rain_intensity = f32 (6 / 10)\<rparr>"
| "engine_params_for_weather_type HeavyRain =
     \<lparr>cloudiness = f32 1, params_temperature_c = f32 13, rain_intensity = f32 (85 / 100)\<rparr>"
| "engine_params_for_weather_type _ =
     \<lparr>cloudiness = f32 0, params_temperature_c = f32 20, rain_intensity = f32 0\<rparr>"

definition temperature_c_for_weather_type :: "weather_type \<Rightarrow> i32" where
  "temperature_c_for_weather_type wt =
     fp_to_i32 (fp_round_int (params_temperature_c (engine_params_for_weather_type wt)))"

definition is_valid_schedule_temperature_c :: "i32 \<Rightarrow> bool" where
  "is_valid_schedule_temperature_c t \<longleftrightarrow>
     SCHEDULE_TEMPERATURE_MIN_C \<le> t \<and> t \<le> SCHEDULE_TEMPERATURE_MAX_C"

definition clamp_schedule_temperature_c :: "i32 \<Rightarrow> i32" where
  "clamp_schedule_temperature_c t =
     max SCHEDULE_TEMPERATURE_MIN_C (min SCHEDULE_TEMPERATURE_MAX_C t)"

fun is_rain_type :: "weather_type \<Rightarrow> bool" where
  "is_rain_type LightRain = True"
| "is_rain_type MediumRain = True"
| "is_rain_type HeavyRain = True"
| "is_rain_type _ = False"

section \<open>The schedule at a time\<close>

definition weather_at :: "weather_entry list \<Rightarrow> i64 \<Rightarrow> weather_entry option" where
  "weather_at entries t =
     (if entries = [] then None
      else let idx = partition_point (\<lambda>e. starts_at_ms e \<le> t) entries
           in if idx = 0 then None else Some (entries ! (idx - 1)))"

definition weather_type_at :: "weather_entry list \<Rightarrow> i64 \<Rightarrow> weather_type option" where
  "weather_type_at entries t = map_option weather_type_of (weather_at entries t)"

section \<open>Windows\<close>

text \<open>
  In the loops below \<open>rest\<close> is \<open>entries[next_idx..]\<close>: advancing \<open>next_idx\<close> drops its head.
\<close>

definition next_change :: "weather_entry list \<Rightarrow> i64 \<Rightarrow> i64" where
  "next_change rest end_ms =
     (case rest of [] \<Rightarrow> end_ms | e # _ \<Rightarrow> min (starts_at_ms e) end_ms)"

fun rain_walk :: "weather_entry list \<Rightarrow> i64 \<Rightarrow> i64 \<Rightarrow> weather_type \<Rightarrow> i64 \<Rightarrow> i64" where
  "rain_walk rest end_ms cursor current_type rain_ms =
     (if cursor < end_ms then
        let nc = next_change rest end_ms;
            rain_ms' = (if nc > cursor \<and> is_rain_type current_type
                        then i64_add rain_ms (i64_sub nc cursor) else rain_ms)
        in if nc \<ge> end_ms then rain_ms'
           else (case rest of [] \<Rightarrow> rain_ms'
                 | e # rest' \<Rightarrow> rain_walk rest' end_ms nc (weather_type_of e) rain_ms')
      else rain_ms)"

declare rain_walk.simps [simp del]

definition rain_probability_for_window :: "weather_entry list \<Rightarrow> i64 \<Rightarrow> i64 \<Rightarrow> fp" where
  "rain_probability_for_window entries start_ms end_ms =
     (if end_ms \<le> start_ms then Fin 0
      else if entries = [] then Fin 0
      else
        let next_idx = partition_point (\<lambda>e. starts_at_ms e \<le> start_ms) entries;
            current_type = (if next_idx = 0 then WeatherUnspecified
                            else weather_type_of (entries ! (next_idx - 1)));
            rain_ms = rain_walk (drop next_idx entries) end_ms start_ms current_type 0;
            total_ms = fp_of_int binary32 (i64_sub end_ms start_ms)
        in fp_clamp (Fin 0) (Fin 1) (fp_div binary32 (fp_of_int binary32 rain_ms) total_ms))"

type_synonym window_stats = "(weather_type, i64 \<times> i64) hmap"

fun dominant_walk ::
  "weather_entry list \<Rightarrow> i64 \<Rightarrow> i64 \<Rightarrow> weather_type \<Rightarrow> window_stats \<Rightarrow> window_stats" where
  "dominant_walk rest end_ms cursor current_type stats =
     (if cursor < end_ms then
        let nc = next_change rest end_ms;
            stats' = (if nc > cursor then
                        let slot = (case hm_get stats current_type of
                                      None \<Rightarrow> (0, cursor) | Some v \<Rightarrow> v)
                        in hm_insert current_type
                             (i64_add (fst slot) (i64_sub nc cursor), snd slot) stats
                      else stats)
        in if nc \<ge> end_ms then stats'
           else (case rest of [] \<Rightarrow> stats'
                 | e # rest' \<Rightarrow> dominant_walk rest' end_ms nc (weather_type_of e) stats')
      else stats)"

declare dominant_walk.simps [simp del]

text \<open>
  The last component of the key compares the enum itself; its numbering comes from the
  generated protobuf code and is the parameter \<open>rank\<close>.
\<close>

definition dominant_weather_type_for_window ::
  "(weather_type \<Rightarrow> int) \<Rightarrow> weather_entry list \<Rightarrow> i64 \<Rightarrow> i64 \<Rightarrow> weather_type" where
  "dominant_weather_type_for_window rank entries start_ms end_ms =
     (if end_ms \<le> start_ms \<or> entries = [] then WeatherUnspecified
      else
        let next_idx = partition_point (\<lambda>e. starts_at_ms e \<le> start_ms) entries;
            current_type = (if next_idx = 0 then WeatherUnspecified
                            else weather_type_of (entries ! (next_idx - 1)));
            stats = dominant_walk (drop next_idx entries) end_ms start_ms current_type []
        in (case max_by_key (\<lambda>(wt, duration_ms, first_seen).
                               (duration_ms, - first_seen, - rank wt)) stats of
              Some (wt, _) \<Rightarrow> wt
            | None \<Rightarrow> WeatherUnspecified))"

fun average_walk ::
  "weather_entry list \<Rightarrow> i64 \<Rightarrow> i64 \<Rightarrow> i32 \<Rightarrow> i64 \<times> i64 \<Rightarrow> i64 \<times> i64" where
  "average_walk rest end_ms cursor current_temp totals =
     (if cursor < end_ms then
        let nc = next_change rest end_ms;
            totals' = (if nc > cursor then
                         let duration_ms = i64_sub nc cursor
                         in (i64_add (fst totals) (i64_mul current_temp duration_ms),
                             i64_add (snd totals) duration_ms)
                       else totals)
        in if nc \<ge> end_ms then totals'
           else (case rest of [] \<Rightarrow> totals'
                 | e # rest' \<Rightarrow> average_walk rest' end_ms nc (temperature_c e) totals')
      else totals)"

declare average_walk.simps [simp del]

definition average_temperature_c_for_window ::
  "weather_entry list \<Rightarrow> i64 \<Rightarrow> i64 \<Rightarrow> i32 option" where
  "average_temperature_c_for_window entries start_ms end_ms =
     (if end_ms \<le> start_ms \<or> entries = [] then None
      else
        let next_idx = partition_point (\<lambda>e. starts_at_ms e \<le> start_ms) entries
        in if next_idx = 0 then None
           else
             let current_temp = temperature_c (entries ! (next_idx - 1));
                 (total_weighted_temp, total_duration_ms) =
                   average_walk (drop next_idx entries) end_ms start_ms current_temp (0, 0)
             in if total_duration_ms \<le> 0 then None
                else Some (clamp_schedule_temperature_c (fp_to_i32 (fp_round_int
                       (fp_div binary64 (fp_of_int binary64 total_weighted_temp)
                          (fp_of_int binary64 total_duration_ms))))))"

section \<open>Validation\<close>

fun unspecified_policy_for_env :: "app_env \<Rightarrow> unspecified_policy" where
  "unspecified_policy_for_env Production = AllowOnlyTail"
| "unspecified_policy_for_env Development = AllowAnywhere"
| "unspecified_policy_for_env Preprod = AllowAnywhere"

fun validate_from ::
  "unspecified_policy \<Rightarrow> nat \<Rightarrow> nat \<Rightarrow> i64 option \<Rightarrow> weather_entry list
    \<Rightarrow> (weather_domain_error, unit) result" where
  "validate_from policy len idx prev [] = Inr ()"
| "validate_from policy len idx prev (entry # rest) =
     (if weather_type_of entry = WeatherUnspecified \<and> policy = AllowOnlyTail \<and> idx + 1 \<noteq> len
      then Inl (UnspecifiedNotTail idx)
      else case prev of
        Some prev_ts \<Rightarrow>
          if starts_at_ms entry \<le> prev_ts
          then Inl (NonIncreasingTimestamp idx prev_ts (starts_at_ms entry))
          else validate_from policy len (idx + 1) (Some (starts_at_ms entry)) rest
      | None \<Rightarrow> validate_from policy len (idx + 1) (Some (starts_at_ms entry)) rest)"

definition validate_schedule ::
  "weather_entry list \<Rightarrow> unspecified_policy \<Rightarrow> (weather_domain_error, unit) result" where
  "validate_schedule entries policy = validate_from policy (length entries) 0 None entries"

section \<open>Forecasts\<close>

fun preset_window :: "forecast_preset \<Rightarrow> (weather_domain_error, i64 \<times> i64) result" where
  "preset_window Preset1HourStep15Min = Inr (HOUR_MS, 15 * MINUTE_MS)"
| "preset_window Preset12HoursStep1Hour = Inr (12 * HOUR_MS, HOUR_MS)"
| "preset_window PresetUnspecified = Inl UnspecifiedPreset"

definition align_start_to_preset_slot ::
  "i64 \<Rightarrow> forecast_preset \<Rightarrow> (weather_domain_error, i64) result" where
  "align_start_to_preset_slot t preset =
     (case preset_window preset of
        Inl e \<Rightarrow> Inl e
      | Inr (_, step_ms) \<Rightarrow> Inr (i64_sub t (t mod step_ms)))"

definition next_aligned_bucket_start :: "i64 \<Rightarrow> i64 \<Rightarrow> (weather_domain_error, i64) result" where
  "next_aligned_bucket_start t step_ms =
     (let r = t mod step_ms; delta = (if r = 0 then step_ms else step_ms - r)
      in ok_or (i64_checked_add t delta) TimestampOverflow)"

text \<open>
  The loop of \<open>project_forecast\<close>. The step is a constant of the preset; it is looked up in
  the loop instead of once before it, so that the recursion is seen to end.
\<close>

lemma preset_window_pos: "preset_window preset = Inr (h, step) \<Longrightarrow> 0 < step \<and> step \<le> h"
  by (cases preset) (auto simp: HOUR_MS_def MINUTE_MS_def)

lemma next_aligned_gt: "next_aligned_bucket_start t step = Inr n \<Longrightarrow> 0 < step \<Longrightarrow> t < n"
  using pos_mod_bound [of step t]
  by (auto simp: next_aligned_bucket_start_def i64_checked_add_def Let_def split: if_splits)

definition next_bucket :: "bool \<Rightarrow> i64 \<Rightarrow> i64 \<Rightarrow> (weather_domain_error, i64) result" where
  "next_bucket is_first t step_ms =
     (if is_first then next_aligned_bucket_start t step_ms
      else ok_or (i64_checked_add t step_ms) TimestampOverflow)"

lemma next_bucket_gt: "next_bucket is_first t step = Inr n \<Longrightarrow> 0 < step \<Longrightarrow> t < n"
  by (auto simp: next_bucket_def i64_checked_add_def split: if_splits dest: next_aligned_gt)

function forecast_loop ::
  "weather_entry list \<Rightarrow> forecast_preset \<Rightarrow> i64 \<Rightarrow> i64 \<Rightarrow> bool \<Rightarrow> forecast_point list
    \<Rightarrow> (weather_domain_error, forecast_point list) result" where
  "forecast_loop entries preset end_ms t is_first points =
     (if t \<le> end_ms then
        case preset_window preset of
          Inl e \<Rightarrow> Inl e
        | Inr (_, step_ms) \<Rightarrow>
            let points' = (case weather_type_at entries t of
                             Some wt \<Rightarrow> points @ [\<lparr>time_ms = t, point_type = wt\<rparr>]
                           | None \<Rightarrow> points)
            in (case next_bucket is_first t step_ms of
                  Inl e \<Rightarrow> Inl e
                | Inr nxt \<Rightarrow> if nxt > end_ms then Inr points'
                             else forecast_loop entries preset end_ms nxt False points')
      else Inr points)"
  by pat_completeness auto
termination
  by (relation "measure (\<lambda>(_, _, e, t, _, _). nat (e - t))")
    (auto dest!: preset_window_pos next_bucket_gt)

declare forecast_loop.simps [simp del]

definition project_forecast ::
  "weather_entry list \<Rightarrow> i64 \<Rightarrow> forecast_preset
    \<Rightarrow> (weather_domain_error, forecast_point list) result" where
  "project_forecast entries start_ms preset =
     (case validate_schedule entries AllowAnywhere of
        Inl e \<Rightarrow> Inl e
      | Inr _ \<Rightarrow>
          case preset_window preset of
            Inl e \<Rightarrow> Inl e
          | Inr (horizon_ms, _) \<Rightarrow>
              case i64_checked_add start_ms horizon_ms of
                None \<Rightarrow> Inl TimestampOverflow
              | Some end_ms \<Rightarrow> forecast_loop entries preset end_ms start_ms True [])"

section \<open>The segments of a window\<close>

text \<open>
  \<open>segments\<close> lists the pieces \<open>(from, to, value)\<close> that the loops visit; \<open>value_at\<close> is the
  value in force at a time, for a schedule tail \<open>rest\<close> and the value \<open>cur\<close> before it.
\<close>

fun segments ::
  "(weather_entry \<Rightarrow> 'c) \<Rightarrow> weather_entry list \<Rightarrow> int \<Rightarrow> int \<Rightarrow> 'c \<Rightarrow> (int \<times> int \<times> 'c) list" where
  "segments proj rest end_ms cursor cur =
     (if cursor < end_ms then
        let nc = next_change rest end_ms
        in (cursor, nc, cur) #
           (if nc \<ge> end_ms then []
            else case rest of [] \<Rightarrow> [] | e # rest' \<Rightarrow> segments proj rest' end_ms nc (proj e))
      else [])"

declare segments.simps [simp del]

fun value_at :: "(weather_entry \<Rightarrow> 'c) \<Rightarrow> weather_entry list \<Rightarrow> 'c \<Rightarrow> int \<Rightarrow> 'c" where
  "value_at proj [] cur t = cur"
| "value_at proj (e # rest) cur t =
     (if starts_at_ms e \<le> t then value_at proj rest (proj e) t else cur)"

fun chain :: "int \<Rightarrow> (int \<times> int \<times> 'c) list \<Rightarrow> int \<Rightarrow> bool" where
  "chain s [] e \<longleftrightarrow> s = e"
| "chain s ((a, b, _) # segs) e \<longleftrightarrow> a = s \<and> a < b \<and> chain b segs e"

definition increasing :: "weather_entry list \<Rightarrow> bool" where
  "increasing entries \<longleftrightarrow> sorted_wrt (<) (map starts_at_ms entries)"

lemma increasing_Cons [simp]:
  "increasing (e # es) \<longleftrightarrow> (\<forall>x \<in> set es. starts_at_ms e < starts_at_ms x) \<and> increasing es"
  by (auto simp: increasing_def)

lemma increasing_Nil [simp]: "increasing []"
  by (simp add: increasing_def)

lemma increasing_append:
  "increasing (xs @ ys) \<longleftrightarrow>
     increasing xs \<and> increasing ys \<and> (\<forall>x \<in> set xs. \<forall>y \<in> set ys. starts_at_ms x < starts_at_ms y)"
  by (auto simp: increasing_def sorted_wrt_append)

locale window_walk =
  fixes walk :: "weather_entry list \<Rightarrow> int \<Rightarrow> int \<Rightarrow> 'c \<Rightarrow> 'acc \<Rightarrow> 'acc"
    and visit :: "int \<Rightarrow> int \<Rightarrow> 'c \<Rightarrow> 'acc \<Rightarrow> 'acc"
    and proj :: "weather_entry \<Rightarrow> 'c"
  assumes walk_unfold:
    "walk rest end_ms cursor cur acc =
       (if cursor < end_ms then
          let nc = next_change rest end_ms;
              acc' = (if nc > cursor then visit cursor nc cur acc else acc)
          in if nc \<ge> end_ms then acc'
             else (case rest of [] \<Rightarrow> acc' | e # rest' \<Rightarrow> walk rest' end_ms nc (proj e) acc')
        else acc)"
begin

lemma walk_visits_segments:
  "walk rest end_ms cursor cur acc =
     fold (\<lambda>(a, b, c) acc. if b > a then visit a b c acc else acc)
       (segments proj rest end_ms cursor cur) acc"
proof (induction rest arbitrary: cursor cur acc)
  case Nil
  show ?case by (simp add: walk_unfold [of "[]"] segments.simps [of proj "[]"] next_change_def)
next
  case (Cons e rest)
  show ?case
    by (simp add: walk_unfold [of "e # rest"] segments.simps [of proj "e # rest"] Let_def Cons.IH)
qed

lemma fold_chain_visit:
  assumes "chain s segs e"
  shows "fold (\<lambda>(a, b, c) acc. if b > a then visit a b c acc else acc) segs acc =
         fold (\<lambda>(a, b, c). visit a b c) segs acc"
  using assms by (induction s segs e arbitrary: acc rule: chain.induct) auto

end

lemma chain_segments:
  assumes "cursor < end_ms" "increasing rest" "\<forall>e \<in> set rest. cursor < starts_at_ms e"
  shows "chain cursor (segments proj rest end_ms cursor cur) end_ms"
  using assms
proof (induction rest arbitrary: cursor cur)
  case Nil
  then show ?case by (simp add: segments.simps next_change_def)
next
  case (Cons e rest)
  show ?case
  proof (cases "starts_at_ms e < end_ms")
    case True
    have "chain (starts_at_ms e) (segments proj rest end_ms (starts_at_ms e) (proj e)) end_ms"
      using Cons.prems True by (intro Cons.IH) auto
    with True Cons.prems show ?thesis
      by (simp add: segments.simps [of proj "e # rest"] next_change_def Let_def)
  next
    case False
    with Cons.prems show ?thesis
      by (simp add: segments.simps [of proj "e # rest"] next_change_def)
  qed
qed

text \<open>A segment holds exactly the times of the window at which its value is in force.\<close>

lemma value_at_before: "\<forall>e \<in> set rest. t < starts_at_ms e \<Longrightarrow> value_at proj rest cur t = cur"
  by (cases rest) auto

lemma sum_segments:
  fixes g :: "'c \<Rightarrow> int"
  assumes "cursor < end_ms" "increasing rest" "\<forall>e \<in> set rest. cursor < starts_at_ms e"
  shows "(\<Sum>(a, b, c) \<leftarrow> segments proj rest end_ms cursor cur. g c * (b - a)) =
         (\<Sum>t \<in> {cursor..<end_ms}. g (value_at proj rest cur t))"
  using assms
proof (induction rest arbitrary: cursor cur)
  case Nil
  then show ?case by (simp add: segments.simps next_change_def mult.commute)
next
  case (Cons e rest)
  let ?s = "starts_at_ms e"
  have before: "value_at proj (e # rest) cur t = cur" if "t < ?s" for t
    using that by simp
  show ?case
  proof (cases "?s < end_ms")
    case True
    have "(\<Sum>t \<in> {cursor..<end_ms}. g (value_at proj (e # rest) cur t)) =
        (\<Sum>t \<in> {cursor..<?s}. g (value_at proj (e # rest) cur t)) +
        (\<Sum>t \<in> {?s..<end_ms}. g (value_at proj (e # rest) cur t))"
      using Cons.prems True by (subst sum.union_disjoint [symmetric]) (auto intro!: sum.cong)
    also have "(\<Sum>t \<in> {cursor..<?s}. g (value_at proj (e # rest) cur t)) = g cur * (?s - cursor)"
      using Cons.prems by (simp add: before mult.commute)
    also have "(\<Sum>t \<in> {?s..<end_ms}. g (value_at proj (e # rest) cur t)) =
        (\<Sum>(a, b, c) \<leftarrow> segments proj rest end_ms ?s (proj e). g c * (b - a))"
      using Cons.prems True by (subst Cons.IH) (auto intro!: sum.cong)
    finally show ?thesis
      using Cons.prems True
      by (simp add: segments.simps [of proj "e # rest"] next_change_def Let_def)
  next
    case False
    then have "(\<Sum>t \<in> {cursor..<end_ms}. g (value_at proj (e # rest) cur t)) =
        (\<Sum>t \<in> {cursor..<end_ms}. g cur)"
      by (intro sum.cong) auto
    with False Cons.prems show ?thesis
      by (simp add: segments.simps [of proj "e # rest"] next_change_def mult.commute)
  qed
qed

text \<open>The value in force when a walk starts, and the schedule at any later time.\<close>

definition tail_from :: "weather_entry list \<Rightarrow> i64 \<Rightarrow> weather_entry list" where
  "tail_from entries t = drop (partition_point (\<lambda>e. starts_at_ms e \<le> t) entries) entries"

lemma tail_from_dropWhile: "tail_from entries t = dropWhile (\<lambda>e. starts_at_ms e \<le> t) entries"
  by (simp add: tail_from_def partition_point_def dropWhile_eq_drop)

lemma tail_from_later:
  "increasing entries \<Longrightarrow> e \<in> set (tail_from entries t) \<Longrightarrow> t < starts_at_ms e"
  unfolding tail_from_dropWhile by (induction entries) (auto split: if_splits)

lemma increasing_tail_from: "increasing entries \<Longrightarrow> increasing (tail_from entries t)"
  unfolding tail_from_dropWhile by (induction entries) auto

lemma weather_at_last:
  "weather_at entries t =
     (let before = takeWhile (\<lambda>e. starts_at_ms e \<le> t) entries
      in if before = [] then None else Some (last before))"
proof -
  let ?b = "takeWhile (\<lambda>e. starts_at_ms e \<le> t) entries"
  have "entries ! (length ?b - 1) = last ?b" if "?b \<noteq> []"
    using that by (metis last_conv_nth length_greater_0_conv diff_less zero_less_one takeWhile_nth)
  then show ?thesis by (auto simp: weather_at_def partition_point_def Let_def)
qed

lemma weather_at_value:
  assumes "increasing entries" "s \<le> t"
  shows "weather_at entries t = value_at Some (tail_from entries s) (weather_at entries s) t"
proof -
  have "value_at Some rest cur t =
      (let b = takeWhile (\<lambda>e. starts_at_ms e \<le> t) rest in if b = [] then cur else Some (last b))"
    for rest cur
    by (induction rest arbitrary: cur) (auto simp: Let_def)
  moreover have "takeWhile (\<lambda>e. starts_at_ms e \<le> t) entries =
      takeWhile (\<lambda>e. starts_at_ms e \<le> s) entries @
      takeWhile (\<lambda>e. starts_at_ms e \<le> t) (tail_from entries s)"
    using assms(2) unfolding tail_from_dropWhile by (induction entries) auto
  ultimately show ?thesis by (auto simp: weather_at_last Let_def)
qed

lemma value_at_map: "value_at (\<lambda>e. f (proj e)) rest (f cur) t = f (value_at proj rest cur t)"
  by (induction rest arbitrary: cur) auto

section \<open>The three loops\<close>

definition rain_visit :: "int \<Rightarrow> int \<Rightarrow> weather_type \<Rightarrow> int \<Rightarrow> int" where
  "rain_visit a b c acc = (if is_rain_type c then i64_add acc (i64_sub b a) else acc)"

definition dominant_visit :: "int \<Rightarrow> int \<Rightarrow> weather_type \<Rightarrow> window_stats \<Rightarrow> window_stats" where
  "dominant_visit a b c stats =
     (let slot = (case hm_get stats c of None \<Rightarrow> (0, a) | Some v \<Rightarrow> v)
      in hm_insert c (i64_add (fst slot) (i64_sub b a), snd slot) stats)"

definition average_visit :: "int \<Rightarrow> int \<Rightarrow> int \<Rightarrow> int \<times> int \<Rightarrow> int \<times> int" where
  "average_visit a b c totals =
     (i64_add (fst totals) (i64_mul c (i64_sub b a)), i64_add (snd totals) (i64_sub b a))"

interpretation rain: window_walk rain_walk rain_visit weather_type_of
  by unfold_locales (subst rain_walk.simps, auto simp: rain_visit_def Let_def split: list.split)

interpretation dominant: window_walk dominant_walk dominant_visit weather_type_of
  by unfold_locales (subst dominant_walk.simps, auto simp: dominant_visit_def Let_def split: list.split)

interpretation average: window_walk average_walk average_visit temperature_c
  by unfold_locales (subst average_walk.simps, auto simp: average_visit_def Let_def split: list.split)

text \<open>
  What a schedule says at each millisecond: the type in force (unspecified before the first
  entry) and the milliseconds of a window with a given type.
\<close>

definition type_at :: "weather_entry list \<Rightarrow> i64 \<Rightarrow> weather_type" where
  "type_at entries t =
     (case weather_type_at entries t of None \<Rightarrow> WeatherUnspecified | Some c \<Rightarrow> c)"

definition temp_at :: "weather_entry list \<Rightarrow> i64 \<Rightarrow> i32" where
  "temp_at entries t = (case weather_at entries t of None \<Rightarrow> 0 | Some e \<Rightarrow> temperature_c e)"

definition ms_where :: "(weather_type \<Rightarrow> bool) \<Rightarrow> weather_entry list \<Rightarrow> i64 \<Rightarrow> i64 \<Rightarrow> i64" where
  "ms_where P entries s e = int (card {t \<in> {s..<e}. P (type_at entries t)})"

lemma initial_type:
  "(let i = partition_point (\<lambda>x. starts_at_ms x \<le> s) entries
    in if i = 0 then WeatherUnspecified else weather_type_of (entries ! (i - 1))) = type_at entries s"
  by (auto simp: type_at_def weather_type_at_def weather_at_def partition_point_def Let_def)

lemma type_at_value:
  assumes "increasing entries" "s \<le> t"
  shows "type_at entries t = value_at weather_type_of (tail_from entries s) (type_at entries s) t"
proof -
  let ?f = "\<lambda>x. case map_option weather_type_of x of None \<Rightarrow> WeatherUnspecified | Some c \<Rightarrow> c"
  have "type_at entries t = ?f (value_at Some (tail_from entries s) (weather_at entries s) t)"
    using weather_at_value [OF assms] by (simp add: type_at_def weather_type_at_def)
  also have "\<dots> = value_at (\<lambda>e. ?f (Some e)) (tail_from entries s) (?f (weather_at entries s)) t"
    by (rule value_at_map [symmetric])
  finally show ?thesis by (simp add: type_at_def weather_type_at_def)
qed

lemma temp_at_value:
  assumes "increasing entries" "s \<le> t"
  shows "temp_at entries t = value_at temperature_c (tail_from entries s) (temp_at entries s) t"
proof -
  let ?f = "\<lambda>x. case x of None \<Rightarrow> 0 | Some e \<Rightarrow> temperature_c e"
  have "temp_at entries t = ?f (value_at Some (tail_from entries s) (weather_at entries s) t)"
    using weather_at_value [OF assms] by (simp add: temp_at_def)
  also have "\<dots> = value_at (\<lambda>e. ?f (Some e)) (tail_from entries s) (?f (weather_at entries s)) t"
    by (rule value_at_map [symmetric])
  finally show ?thesis by (simp add: temp_at_def)
qed

lemma chain_le: "chain s segs e \<Longrightarrow> s \<le> e"
  by (induction s segs e rule: chain.induct) auto

lemma sum_segments_types:
  assumes "s < e" "increasing entries"
  shows "(\<Sum>(a, b, c) \<leftarrow> segments weather_type_of (tail_from entries s) e s (type_at entries s).
            (if P c then 1 else 0) * (b - a)) = ms_where P entries s e"
proof -
  have "(\<Sum>(a, b, c) \<leftarrow> segments weather_type_of (tail_from entries s) e s (type_at entries s).
            (if P c then 1 else 0) * (b - a)) =
        (\<Sum>t \<in> {s..<e}. if P (value_at weather_type_of (tail_from entries s) (type_at entries s) t)
                        then 1 else 0)"
    using assms
    by (subst sum_segments) (auto simp: increasing_tail_from dest: tail_from_later)
  also have "\<dots> = (\<Sum>t \<in> {s..<e}. if P (type_at entries t) then 1 else 0)"
    using assms(2) by (intro sum.cong) (auto simp: type_at_value)
  also have "\<dots> = ms_where P entries s e"
    by (simp add: ms_where_def sum.If_cases Int_def)
  finally show ?thesis .
qed

lemma segments_chain_window:
  assumes "s < e" "increasing entries"
  shows "chain s (segments proj (tail_from entries s) e s cur) e"
  using assms by (intro chain_segments) (auto simp: increasing_tail_from dest: tail_from_later)

lemma fold_rain_visit:
  assumes "chain a segs e" "0 \<le> acc" "acc \<le> a - s" "e - s \<le> i64_max"
  shows "fold (\<lambda>(a, b, c). rain_visit a b c) segs acc =
         acc + (\<Sum>(a, b, c) \<leftarrow> segs. (if is_rain_type c then 1 else 0) * (b - a))"
  using assms
proof (induction a segs e arbitrary: acc rule: chain.induct)
  case (2 s' a b c segs e)
  have le: "b \<le> e" using "2.prems" chain_le by auto
  have "rain_visit a b c acc = acc + (if is_rain_type c then 1 else 0) * (b - a)"
    using "2.prems" le
    by (auto simp: rain_visit_def i64_add_exact i64_sub_exact i64_bounds)
  moreover have "fold (\<lambda>(a, b, c). rain_visit a b c) segs (rain_visit a b c acc) =
      rain_visit a b c acc + (\<Sum>(a, b, c) \<leftarrow> segs. (if is_rain_type c then 1 else 0) * (b - a))"
    using "2.prems" calculation by (intro "2.IH") auto
  ultimately show ?case by simp
qed simp

lemma rain_walk_counts:
  assumes "s < e" "increasing entries" "e - s \<le> i64_max"
  shows "rain_walk (tail_from entries s) e s (type_at entries s) 0 =
         ms_where is_rain_type entries s e"
proof -
  let ?segs = "segments weather_type_of (tail_from entries s) e s (type_at entries s)"
  have ch: "chain s ?segs e" by (rule segments_chain_window [OF assms(1,2)])
  have "rain_walk (tail_from entries s) e s (type_at entries s) 0 =
      fold (\<lambda>(a, b, c). rain_visit a b c) ?segs 0"
    by (simp add: rain.walk_visits_segments rain.fold_chain_visit [OF ch])
  also have "\<dots> = (\<Sum>(a, b, c) \<leftarrow> ?segs. (if is_rain_type c then 1 else 0) * (b - a))"
    using fold_rain_visit [OF ch, of 0 s] assms by simp
  finally show ?thesis using assms by (simp only: sum_segments_types)
qed

lemma ms_where_bounds: "s \<le> e \<Longrightarrow> 0 \<le> ms_where P entries s e \<and> ms_where P entries s e \<le> e - s"
proof -
  assume "s \<le> e"
  have "card {t \<in> {s..<e}. P (type_at entries t)} \<le> card {s..<e}"
    by (rule card_mono) auto
  with \<open>s \<le> e\<close> show ?thesis by (simp add: ms_where_def)
qed

text \<open>A quotient of two millisecond counts, rounded in single precision.\<close>

lemma single_ratio:
  assumes "0 \<le> n" "n \<le> d" "0 < d" "d \<le> i64_max"
  shows "\<exists>q. fp_div binary32 (fp_of_int binary32 n) (fp_of_int binary32 d) = Fin q
             \<and> 0 \<le> q \<and> q \<le> 1 \<and> (n = 0 \<longrightarrow> q = 0) \<and> (n = d \<longrightarrow> q = 1)"
proof -
  let ?r = "round_rat binary32"
  have big: "\<bar>of_int k :: rat\<bar> \<le> 2 ^ 127" if "0 \<le> k" "k \<le> i64_max" for k
  proof -
    have "\<bar>of_int k :: rat\<bar> \<le> of_int i64_max" using that by simp
    also have "\<dots> \<le> 2 ^ 127" by (simp add: i64_max_def)
    finally show ?thesis .
  qed
  have n: "fp_of_int binary32 n = Fin (?r (of_int n))" and d: "fp_of_int binary32 d = Fin (?r (of_int d))"
    unfolding fp_of_int_def using assms by (auto intro!: single_round_Fin big)
  have pos: "1 \<le> ?r (of_int d)" using single.rnd_ge_int [of 1 "of_int d"] assms by simp
  have le: "0 \<le> ?r (of_int n)" "?r (of_int n) \<le> ?r (of_int d)"
    using assms single.rnd_nonneg single.rnd_mono by auto
  let ?q = "?r (of_int n) / ?r (of_int d)"
  have q: "0 \<le> ?q" "?q \<le> 1" using pos le by (simp_all add: divide_le_eq_1)
  then have "\<bar>?q\<bar> \<le> 2 ^ 127" by simp
  then have "f32 ?q = Fin (?r ?q)" by (rule single_round_Fin)
  moreover have "n = 0 \<longrightarrow> ?r ?q = 0" by simp
  moreover have "n = d \<longrightarrow> ?r ?q = 1" using pos by (simp add: single.rnd_1)
  ultimately show ?thesis using pos single.rnd_unit [OF q] by (simp add: n d)
qed

lemma rain_probability_ratio:
  assumes "s < e" "increasing entries" "e - s \<le> i64_max" "entries \<noteq> []"
  shows "rain_probability_for_window entries s e =
           fp_div binary32 (fp_of_int binary32 (ms_where is_rain_type entries s e))
             (fp_of_int binary32 (e - s))"
proof -
  let ?n = "ms_where is_rain_type entries s e"
  have "i64_sub e s = e - s" using assms by (simp add: i64_sub_exact i64_bounds)
  moreover have "rain_walk (drop (partition_point (\<lambda>x. starts_at_ms x \<le> s) entries) entries) e s
      (type_at entries s) 0 = ?n"
    using rain_walk_counts [OF assms(1-3)] by (simp add: tail_from_def)
  moreover obtain q where "fp_div binary32 (fp_of_int binary32 ?n) (fp_of_int binary32 (e - s)) = Fin q"
      "0 \<le> q" "q \<le> 1"
    using single_ratio [of ?n "e - s"] ms_where_bounds [of s e is_rain_type entries] assms by auto
  ultimately show ?thesis
    using assms initial_type [of s entries]
    by (simp add: rain_probability_for_window_def Let_def fp_clamp_id)
qed

section \<open>Dominant type\<close>

definition seg_ms :: "'c \<Rightarrow> (int \<times> int \<times> 'c) list \<Rightarrow> int" where
  "seg_ms c segs = (\<Sum>(a, b, c') \<leftarrow> segs. (if c' = c then 1 else 0) * (b - a))"

fun seg_first :: "'c \<Rightarrow> (int \<times> int \<times> 'c) list \<Rightarrow> int option" where
  "seg_first c [] = None"
| "seg_first c ((a, _, c') # segs) = (if c' = c then Some a else seg_first c segs)"

lemma seg_ms_simps [simp]:
  "seg_ms c [] = 0"
  "seg_ms c ((a, b, c') # segs) = (if c' = c then b - a else 0) + seg_ms c segs"
  by (simp_all add: seg_ms_def)

lemma fold_dominant_visit:
  assumes "chain a segs e" "s \<le> a" "e - s \<le> i64_max"
    and "\<And>c d f. hm_get st c = Some (d, f) \<Longrightarrow> 0 \<le> d \<and> d \<le> a - s"
  shows "hm_get (fold (\<lambda>(a, b, c). dominant_visit a b c) segs st) c =
     (case hm_get st c of
        Some (d, f) \<Rightarrow> Some (d + seg_ms c segs, f)
      | None \<Rightarrow> map_option (\<lambda>f. (seg_ms c segs, f)) (seg_first c segs))"
  using assms
proof (induction a segs e arbitrary: st rule: chain.induct)
  case (1 a e)
  then show ?case by (auto split: option.splits)
next
  case (2 s' a b c' segs e)
  let ?slot = "case hm_get st c' of None \<Rightarrow> (0, a) | Some v \<Rightarrow> v"
  have le: "b \<le> e" using "2.prems" chain_le by auto
  have slot: "0 \<le> fst ?slot" "fst ?slot \<le> a - s"
    using "2.prems" by (auto split: option.splits)
  have "i64_add (fst ?slot) (i64_sub b a) = fst ?slot + (b - a)"
    using "2.prems" le slot by (simp add: i64_add_exact i64_sub_exact i64_bounds)
  then have visit: "hm_get (dominant_visit a b c' st) k =
      (if k = c' then Some (fst ?slot + (b - a), snd ?slot) else hm_get st k)" for k
    by (simp add: dominant_visit_def Let_def)
  have "hm_get (fold (\<lambda>(a, b, c). dominant_visit a b c) segs (dominant_visit a b c' st)) c =
     (case hm_get (dominant_visit a b c' st) c of
        Some (d, f) \<Rightarrow> Some (d + seg_ms c segs, f)
      | None \<Rightarrow> map_option (\<lambda>f. (seg_ms c segs, f)) (seg_first c segs))"
  proof (rule "2.IH")
    fix k d f
    assume "hm_get (dominant_visit a b c' st) k = Some (d, f)"
    then show "0 \<le> d \<and> d \<le> b - s"
      using slot "2.prems"(1) "2.prems"(4) [of k d f] by (auto simp: visit split: if_splits)
  qed (use "2.prems" in auto)
  then show ?case by (auto simp: visit split: option.splits)
qed

lemma hm_wf_fold_dominant:
  "hm_wf st \<Longrightarrow> hm_wf (fold (\<lambda>(a, b, c). dominant_visit a b c) segs st)"
  by (induction segs arbitrary: st) (auto simp: dominant_visit_def Let_def)

lemma chain_start_le: "chain s segs e \<Longrightarrow> (a, b, c) \<in> set segs \<Longrightarrow> s \<le> a"
  by (induction s segs e rule: chain.induct) auto

lemma chain_covers:
  "chain s segs e \<Longrightarrow> s \<le> t \<Longrightarrow> t < e \<Longrightarrow> \<exists>a b c. (a, b, c) \<in> set segs \<and> a \<le> t \<and> t < b"
proof (induction s segs e rule: chain.induct)
  case (2 s a b c segs e)
  show ?case
  proof (cases "t < b")
    case True
    with "2.prems" show ?thesis by auto
  next
    case False
    with "2.prems" have "\<exists>a b c. (a, b, c) \<in> set segs \<and> a \<le> t \<and> t < b"
      by (intro "2.IH") auto
    then show ?thesis by auto
  qed
qed simp

lemma chain_nonempty: "chain s segs e \<Longrightarrow> (a, b, c) \<in> set segs \<Longrightarrow> a < b \<and> b \<le> e"
  by (induction s segs e rule: chain.induct) (auto dest: chain_le)

lemma seg_first_Some:
  assumes "chain s segs e" "seg_first c segs = Some f"
  shows "(\<exists>b. (f, b, c) \<in> set segs) \<and> (\<forall>a b. (a, b, c) \<in> set segs \<longrightarrow> f \<le> a)"
  using assms
  by (induction s segs e rule: chain.induct)
    (auto split: if_splits dest: chain_start_le order.strict_implies_order)

lemma seg_first_None: "seg_first c segs = None \<Longrightarrow> (a, b, c) \<notin> set segs"
  by (induction c segs rule: seg_first.induct) (auto split: if_splits)

lemma segment_value:
  assumes "cursor < end_ms" "increasing rest" "\<forall>e \<in> set rest. cursor < starts_at_ms e"
    and "(a, b, c) \<in> set (segments proj rest end_ms cursor cur)" "a \<le> t" "t < b"
  shows "value_at proj rest cur t = c"
  using assms
proof (induction rest arbitrary: cursor cur)
  case Nil
  then show ?case by (simp add: segments.simps next_change_def)
next
  case (Cons e rest)
  show ?case
  proof (cases "(a, b, c) = (cursor, next_change (e # rest) end_ms, cur)")
    case True
    with Cons.prems show ?thesis by (auto simp: next_change_def)
  next
    case False
    with Cons.prems have in_tail: "(a, b, c) \<in> set (segments proj rest end_ms (starts_at_ms e) (proj e))"
      and lt: "starts_at_ms e < end_ms"
      by (auto simp: segments.simps [of proj "e # rest"] next_change_def Let_def split: if_splits)
    have "chain (starts_at_ms e) (segments proj rest end_ms (starts_at_ms e) (proj e)) end_ms"
      using Cons.prems lt by (intro chain_segments) auto
    then have "starts_at_ms e \<le> a" using in_tail by (rule chain_start_le)
    with Cons.prems lt in_tail show ?thesis by (simp add: Cons.IH)
  qed
qed

text \<open>What the statistics of a window hold, in terms of the schedule at each millisecond.\<close>

definition window_stats_of :: "weather_entry list \<Rightarrow> i64 \<Rightarrow> i64 \<Rightarrow> window_stats" where
  "window_stats_of entries s e = dominant_walk (tail_from entries s) e s (type_at entries s) []"

lemma window_stats_get:
  assumes "s < e" "increasing entries" "e - s \<le> i64_max"
  shows "(hm_get (window_stats_of entries s e) c = None \<longrightarrow>
            (\<forall>t. s \<le> t \<and> t < e \<longrightarrow> type_at entries t \<noteq> c)) \<and>
         (\<forall>d f. hm_get (window_stats_of entries s e) c = Some (d, f) \<longrightarrow>
            d = ms_where (\<lambda>c'. c' = c) entries s e \<and> s \<le> f \<and> f < e \<and> type_at entries f = c \<and>
            (\<forall>t. s \<le> t \<and> t < e \<and> type_at entries t = c \<longrightarrow> f \<le> t))"
proof -
  let ?segs = "segments weather_type_of (tail_from entries s) e s (type_at entries s)"
  have ch: "chain s ?segs e" by (rule segments_chain_window [OF assms(1,2)])
  have walk: "window_stats_of entries s e = fold (\<lambda>(a, b, c). dominant_visit a b c) ?segs []"
    by (simp add: window_stats_of_def dominant.walk_visits_segments dominant.fold_chain_visit [OF ch])
  have get: "hm_get (window_stats_of entries s e) c =
      map_option (\<lambda>f. (seg_ms c ?segs, f)) (seg_first c ?segs)"
    unfolding walk using fold_dominant_visit [OF ch, of s "[]" c] assms by simp
  have val: "type_at entries t = c'" if "(a, b, c') \<in> set ?segs" "a \<le> t" "t < b" for a b c' t
  proof -
    have "s \<le> t" using chain_start_le [OF ch that(1)] that(2) by simp
    then show ?thesis
      using segment_value [OF _ _ _ that] assms type_at_value [of entries s t]
      by (simp add: increasing_tail_from tail_from_later)
  qed
  have seg_at: "\<exists>a b. (a, b, type_at entries t) \<in> set ?segs \<and> a \<le> t \<and> t < b" if "s \<le> t" "t < e" for t
    using chain_covers [OF ch that] val by blast
  show ?thesis
  proof (cases "seg_first c ?segs")
    case None
    have "type_at entries t \<noteq> c" if "s \<le> t" "t < e" for t
      using seg_at [OF that] seg_first_None [OF None] by auto
    then show ?thesis using get None by simp
  next
    case (Some f)
    obtain b where b: "(f, b, c) \<in> set ?segs" and min: "\<And>a b. (a, b, c) \<in> set ?segs \<Longrightarrow> f \<le> a"
      using seg_first_Some [OF ch Some] by blast
    have fb: "s \<le> f" "f < b" "b \<le> e"
      using chain_start_le [OF ch b] chain_nonempty [OF ch b] by auto
    have "seg_ms c ?segs = ms_where (\<lambda>c'. c' = c) entries s e"
      using sum_segments_types [OF assms(1,2), of "\<lambda>c'. c' = c"] by (simp add: seg_ms_def)
    moreover have "f \<le> t" if "s \<le> t" "t < e" "type_at entries t = c" for t
      using seg_at [OF that(1,2)] min that(3) by fastforce
    ultimately show ?thesis using get Some fb val [OF b, of f] by simp
  qed
qed

lemma hm_wf_window_stats:
  assumes "s < e" "increasing entries"
  shows "hm_wf (window_stats_of entries s e)"
  using assms
  by (simp add: window_stats_of_def dominant.walk_visits_segments hm_wf_fold_dominant
      dominant.fold_chain_visit [OF segments_chain_window])

lemma dominant_of_stats:
  assumes "s < e" "increasing entries" "e - s \<le> i64_max" "entries \<noteq> []"
    and r: "dominant_weather_type_for_window rank entries s e = r"
  shows "\<exists>d f. hm_get (window_stats_of entries s e) r = Some (d, f) \<and>
           (\<forall>c d' f'. hm_get (window_stats_of entries s e) c = Some (d', f') \<longrightarrow>
              d' < d \<or> d' = d \<and> f \<le> f')"
proof -
  let ?st = "window_stats_of entries s e"
  let ?key = "\<lambda>(wt, duration_ms, first_seen). (duration_ms, - first_seen, - rank wt)"
  have wf: "hm_wf ?st" using assms by (simp add: hm_wf_window_stats)
  have "type_at entries s = type_at entries s" by simp
  then have "hm_get ?st (type_at entries s) \<noteq> None"
    using window_stats_get [OF assms(1-3), of "type_at entries s"] assms(1) by blast
  then have "?st \<noteq> []" by auto
  then obtain wt d f where m: "max_by_key ?key ?st = Some (wt, d, f)"
    by (metis max_by_key_None not_Some_eq prod_cases3)
  then have "r = wt"
    using r assms initial_type [of s entries]
    by (simp add: dominant_weather_type_for_window_def window_stats_of_def tail_from_def Let_def)
  moreover have "hm_get ?st wt = Some (d, f)"
    using max_by_key_Some [OF m] hm_mem_get [OF wf] by simp
  moreover have "d' < d \<or> d' = d \<and> f \<le> f'" if "hm_get ?st c = Some (d', f')" for c d' f'
  proof -
    have "(c, d', f') \<in> set ?st" using that hm_mem_get [OF wf] by simp
    then have "?key (c, d', f') \<le> ?key (wt, d, f)" using max_by_key_Some [OF m] by blast
    then show ?thesis by auto
  qed
  ultimately show ?thesis by blast
qed

section \<open>Average temperature\<close>

lemma fold_average_visit:
  assumes "chain a segs e" "s \<le> a" "30 * (e - s) \<le> i64_max"
    and "\<And>a b c. (a, b, c) \<in> set segs \<Longrightarrow> 1 \<le> c \<and> c \<le> 30"
    and "0 \<le> w" "w \<le> 30 * (a - s)" "d = a - s"
  shows "fold (\<lambda>(a, b, c). average_visit a b c) segs (w, d) =
         (w + (\<Sum>(a, b, c) \<leftarrow> segs. c * (b - a)), e - s)"
  using assms
proof (induction a segs e arbitrary: w d rule: chain.induct)
  case (2 s' a b c segs e)
  have le: "b \<le> e" and ab: "a = s'" "a < b" using "2.prems" chain_le by auto
  have c: "1 \<le> c" "c \<le> 30" using "2.prems"(4) [of a b c] by auto
  have "0 \<le> c * (b - a)" "c * (b - a) \<le> 30 * (b - a)"
    using ab c mult_right_mono [of c 30 "b - a"] by simp_all
  moreover from this have sum: "w + c * (b - a) \<le> 30 * (b - s)"
    using "2.prems" ab by (simp add: algebra_simps)
  moreover have "30 * (b - s) \<le> i64_max"
    using mult_left_mono [of "b - s" "e - s" 30] "2.prems"(3) le by simp
  ultimately have v: "average_visit a b c (w, d) = (w + c * (b - a), b - s)"
    using "2.prems" ab le
    by (simp add: average_visit_def i64_add_exact i64_mul_exact i64_sub_exact i64_bounds)
  have "fold (\<lambda>(a, b, c). average_visit a b c) segs (w + c * (b - a), b - s) =
      (w + c * (b - a) + (\<Sum>(a, b, c) \<leftarrow> segs. c * (b - a)), e - s)"
    using "2.prems" sum \<open>0 \<le> c * (b - a)\<close> ab by (intro "2.IH") auto
  then show ?case by (simp add: v)
qed simp

lemma value_at_in:
  "value_at proj rest cur t \<in> insert cur (proj ` set rest)"
  by (induction rest arbitrary: cur) auto

lemma segment_colour_in:
  "(a, b, c) \<in> set (segments proj rest end_ms cursor cur) \<Longrightarrow> c \<in> insert cur (proj ` set rest)"
proof (induction rest arbitrary: cursor cur)
  case (Cons e rest)
  from Cons.prems have "c = cur \<or>
      (a, b, c) \<in> set (segments proj rest end_ms (next_change (e # rest) end_ms) (proj e))"
    by (auto simp: segments.simps [of proj "e # rest"] Let_def split: if_splits)
  with Cons.IH show ?case by fastforce
qed (auto simp: segments.simps Let_def split: if_splits)

lemma set_tail_from: "set (tail_from entries t) \<subseteq> set entries"
  by (simp add: tail_from_def set_drop_subset)

lemma weather_at_mem: "weather_at entries t = Some x \<Longrightarrow> x \<in> set entries"
  by (auto simp: weather_at_last Let_def split: if_splits
      dest: set_takeWhileD [OF last_in_set])

lemma average_walk_totals:
  assumes "s < e" "increasing entries" "30 * (e - s) \<le> i64_max"
    and "weather_at entries s \<noteq> None"
    and temps: "\<forall>x \<in> set entries. 1 \<le> temperature_c x \<and> temperature_c x \<le> 30"
  shows "average_walk (tail_from entries s) e s (temp_at entries s) (0, 0) =
         (\<Sum>t \<in> {s..<e}. temp_at entries t, e - s)"
proof -
  let ?segs = "segments temperature_c (tail_from entries s) e s (temp_at entries s)"
  have ch: "chain s ?segs e" by (rule segments_chain_window [OF assms(1,2)])
  have start: "1 \<le> temp_at entries s \<and> temp_at entries s \<le> 30"
    using assms weather_at_mem [of entries s] by (auto simp: temp_at_def)
  have "1 \<le> c \<and> c \<le> 30" if "(a, b, c) \<in> set ?segs" for a b c
    using segment_colour_in [OF that] start temps set_tail_from [of entries s] by auto
  then have "fold (\<lambda>(a, b, c). average_visit a b c) ?segs (0, 0) =
      (\<Sum>(a, b, c) \<leftarrow> ?segs. c * (b - a), e - s)"
    using fold_average_visit [OF ch, of s 0 0] assms by simp
  also have "(\<Sum>(a, b, c) \<leftarrow> ?segs. c * (b - a)) =
      (\<Sum>t \<in> {s..<e}. value_at temperature_c (tail_from entries s) (temp_at entries s) t)"
    using assms
    by (subst sum_segments [of _ _ _ "\<lambda>c. c", symmetric])
      (auto simp: increasing_tail_from dest: tail_from_later)
  also have "\<dots> = (\<Sum>t \<in> {s..<e}. temp_at entries t)"
    using assms(2) by (intro sum.cong) (auto simp: temp_at_value)
  finally show ?thesis
    by (simp add: average.walk_visits_segments average.fold_chain_visit [OF ch])
qed

text \<open>A mean of integers between two bounds, computed in double precision and rounded.\<close>

lemma double_mean:
  assumes "0 < d" "d \<le> 2 ^ 47" "lo * d \<le> w" "w \<le> hi * d" "1 \<le> lo" "lo \<le> hi" "hi \<le> 30"
  shows "lo \<le> fp_to_i32 (fp_round_int
             (fp_div binary64 (fp_of_int binary64 w) (fp_of_int binary64 d))) \<and>
         fp_to_i32 (fp_round_int
             (fp_div binary64 (fp_of_int binary64 w) (fp_of_int binary64 d))) \<le> hi"
proof -
  have "hi * d \<le> 30 * 2 ^ 47" using assms by (intro mult_mono) auto
  also have "\<dots> \<le> (2::int) ^ 53" by simp
  finally have "hi * d \<le> 2 ^ 53" .
  moreover have "0 \<le> lo * d" using assms by simp
  ultimately have wb: "0 \<le> w" "w \<le> 2 ^ 53" using assms(3,4) by linarith+
  have fin: "fp_of_int binary64 k = Fin (of_int k)" if "0 \<le> k" "k \<le> 2 ^ 53" for k
  proof -
    have "(of_int k :: rat) \<le> of_int (2 ^ 53)" using that by (simp only: of_int_le_iff)
    also have "\<dots> \<le> 2 ^ 1023" by (simp add: of_int_power)
    finally have "\<bar>of_int k :: rat\<bar> \<le> 2 ^ 1023" using that by simp
    then show ?thesis
      using double.rnd_small_int [of k] that by (simp add: fp_of_int_def double_round_Fin)
  qed
  have fw: "fp_of_int binary64 w = Fin (of_int w)" and fd: "fp_of_int binary64 d = Fin (of_int d)"
    using wb assms by (auto intro!: fin)
  let ?q = "of_int w / of_int d :: rat"
  have ge: "of_int lo \<le> ?q" and le: "?q \<le> of_int hi"
    using assms by (simp_all add: pos_le_divide_eq pos_divide_le_eq flip: of_int_mult)
  have "\<bar>?q\<bar> \<le> 2 ^ 1023"
  proof -
    have "(of_int hi :: rat) \<le> 30" using assms by simp
    also have "\<dots> \<le> 2 ^ 1023" by simp
    finally show ?thesis using ge le assms by simp
  qed
  then have div: "fp_div binary64 (fp_of_int binary64 w) (fp_of_int binary64 d) =
      Fin (round_rat binary64 ?q)"
    using assms by (simp add: fw fd double_round_Fin)
  have "of_int lo \<le> round_rat binary64 ?q" "round_rat binary64 ?q \<le> of_int hi"
    using double.rnd_ge_int [of lo ?q] double.rnd_le_int [of hi ?q] ge le assms by auto
  moreover from this have "lo \<le> \<lfloor>round_rat binary64 ?q + 1 / 2\<rfloor>"
      "\<lfloor>round_rat binary64 ?q + 1 / 2\<rfloor> \<le> hi"
    by (simp_all add: le_floor_iff floor_le_iff)
  ultimately show ?thesis
    using assms
    by (simp add: div fp_round_int_def fp_to_i32_def fp_to_int_def trunc_rat_def)
qed

section \<open>Schedule validation\<close>

lemma validate_from_ok:
  "validate_from policy len idx prev entries = Inr () \<longleftrightarrow>
     increasing entries \<and> (\<forall>p. prev = Some p \<longrightarrow> (\<forall>x \<in> set entries. p < starts_at_ms x)) \<and>
     (policy = AllowOnlyTail \<longrightarrow>
       (\<forall>i < length entries. weather_type_of (entries ! i) = WeatherUnspecified \<longrightarrow> idx + i + 1 = len))"
proof (induction policy len idx prev entries rule: validate_from.induct)
  case (2 policy len idx prev entry rest)
  show ?case
  proof (cases prev)
    case None
    with 2 show ?thesis by (auto simp: All_less_Suc2)
  next
    case (Some p)
    with 2 show ?thesis by (auto simp: All_less_Suc2)
  qed
qed simp

lemma validate_schedule_increasing: "validate_schedule entries policy = Inr () \<Longrightarrow> increasing entries"
  by (simp add: validate_schedule_def validate_from_ok)

lemma validate_from_error:
  "validate_from policy len idx prev entries = Inl err \<Longrightarrow>
   \<exists>i < length entries. validate_from policy len idx prev (take i entries) = Inr () \<and>
     (if policy = AllowOnlyTail \<and> weather_type_of (entries ! i) = WeatherUnspecified \<and> idx + i + 1 \<noteq> len
      then err = UnspecifiedNotTail (idx + i)
      else \<exists>p. (if i = 0 then prev else Some (starts_at_ms (entries ! (i - 1)))) = Some p \<and>
             starts_at_ms (entries ! i) \<le> p \<and>
             err = NonIncreasingTimestamp (idx + i) p (starts_at_ms (entries ! i)))"
proof (induction policy len idx prev entries rule: validate_from.induct)
  case (2 policy len idx prev entry rest)
  show ?case
  proof (cases "(weather_type_of entry = WeatherUnspecified \<and> policy = AllowOnlyTail \<and> idx + 1 \<noteq> len)
      \<or> (\<exists>p. prev = Some p \<and> starts_at_ms entry \<le> p)")
    case True
    with "2.prems" show ?thesis by (intro exI [of _ 0]) auto
  next
    case False
    let ?ok = "\<lambda>xs. validate_from policy len (idx + 1) (Some (starts_at_ms entry)) xs"
    from False have step: "validate_from policy len idx prev (entry # xs) = ?ok xs" for xs
      by (auto split: option.splits)
    have "?ok rest = Inl err" using step [of rest] "2.prems" by simp
    then obtain i where i: "i < length rest" "?ok (take i rest) = Inr ()"
      and e: "if policy = AllowOnlyTail \<and> weather_type_of (rest ! i) = WeatherUnspecified \<and> idx + 1 + i + 1 \<noteq> len
        then err = UnspecifiedNotTail (idx + 1 + i)
        else \<exists>p. (if i = 0 then Some (starts_at_ms entry) else Some (starts_at_ms (rest ! (i - 1)))) = Some p \<and>
             starts_at_ms (rest ! i) \<le> p \<and>
             err = NonIncreasingTimestamp (idx + 1 + i) p (starts_at_ms (rest ! i))"
      using "2.IH" False by (cases prev) fastforce+
    show ?thesis
      using i e step [of "take i rest"]
      by (intro exI [of _ "Suc i"]) (auto simp: nth_Cons' split: if_splits)
  qed
qed simp

section \<open>Forecast buckets\<close>

lemma next_bucket_ok:
  assumes "0 < step" "i64_min \<le> t" "t + step \<le> i64_max" "\<not> is_first \<longrightarrow> step dvd t"
  shows "\<exists>n. next_bucket is_first t step = Inr n \<and> t < n \<and> n \<le> t + step \<and> step dvd n \<and>
           (\<forall>m. t < m \<and> m < n \<longrightarrow> \<not> step dvd m)"
proof -
  let ?n = "t + (if t mod step = 0 then step else step - t mod step)"
  have r: "0 \<le> t mod step" "t mod step < step" using assms by simp_all
  then have bounds: "t < ?n" "?n \<le> t + step" by auto
  have "t + (step - t mod step) = (t div step + 1) * step"
    using div_mult_mod_eq [of t step] by (simp add: algebra_simps)
  then have n: "?n = (t div step + 1) * step"
    using div_mult_mod_eq [of t step] by (auto simp: algebra_simps)
  have none: "\<not> step dvd m" if "t < m" "m < ?n" for m
  proof
    assume "step dvd m"
    then obtain k where k: "m = k * step" by (metis dvd_def mult.commute)
    have "t div step * step < m + 0" using that(1) div_mult_mod_eq [of t step] r by linarith
    then have "t div step < k" using assms(1) by (simp add: k)
    moreover have "k < t div step + 1" using that(2) assms(1) unfolding n k by simp
    ultimately show False by simp
  qed
  have "next_bucket is_first t step = Inr ?n"
    using assms bounds
    by (auto simp: next_bucket_def next_aligned_bucket_start_def i64_checked_add_def Let_def
        is_i64_def dvd_eq_mod_eq_0)
  moreover have "step dvd ?n" unfolding n by simp
  ultimately show ?thesis using bounds none by blast
qed

definition forecast_points_spec ::
  "weather_entry list \<Rightarrow> i64 \<Rightarrow> i64 \<Rightarrow> i64 \<Rightarrow> forecast_point set" where
  "forecast_points_spec entries start_ms end_ms step =
     {\<lparr>time_ms = t, point_type = wt\<rparr> | t wt.
        (t = start_ms \<or> start_ms < t \<and> t \<le> end_ms \<and> step dvd t) \<and> weather_type_at entries t = Some wt}"

lemma forecast_points_spec_time:
  "p \<in> forecast_points_spec entries s e step \<Longrightarrow> s \<le> time_ms p"
  by (auto simp: forecast_points_spec_def)

lemma forecast_loop_points:
  assumes "preset_window preset = Inr (h, step)" "i64_min \<le> t" "t \<le> end_ms"
    and "end_ms + step \<le> i64_max" "\<not> is_first \<longrightarrow> step dvd t"
  shows "\<exists>new. forecast_loop entries preset end_ms t is_first points = Inr (points @ new) \<and>
           sorted_wrt (<) (map time_ms new) \<and> set new = forecast_points_spec entries t end_ms step"
  using assms
proof (induction entries preset end_ms t is_first points rule: forecast_loop.induct)
  case (1 entries preset end_ms t is_first points)
  let ?here = "case weather_type_at entries t of
    Some wt \<Rightarrow> [\<lparr>time_ms = t, point_type = wt\<rparr>] | None \<Rightarrow> []"
  have pos: "0 < step" using preset_window_pos [OF "1.prems"(1)] by simp
  obtain n where n: "next_bucket is_first t step = Inr n" "t < n" "n \<le> t + step" "step dvd n"
    and gap: "\<And>m. t < m \<Longrightarrow> m < n \<Longrightarrow> \<not> step dvd m"
    using next_bucket_ok [OF pos "1.prems"(2) _ "1.prems"(5)] "1.prems" by auto
  have here: "set ?here = {\<lparr>time_ms = t, point_type = wt\<rparr> | wt. weather_type_at entries t = Some wt}"
    by (auto split: option.splits)
  have points': "(case weather_type_at entries t of
      Some wt \<Rightarrow> points @ [\<lparr>time_ms = t, point_type = wt\<rparr>] | None \<Rightarrow> points) = points @ ?here"
    by (simp split: option.splits)
  show ?case
  proof (cases "n > end_ms")
    case True
    then have "set ?here = forecast_points_spec entries t end_ms step"
      unfolding here forecast_points_spec_def using gap by fastforce
    with True "1.prems" n show ?thesis
      by (intro exI [of _ ?here])
        (simp add: forecast_loop.simps [of entries preset end_ms t] points' split: option.splits)
  next
    case False
    obtain new where new: "forecast_loop entries preset end_ms n False (points @ ?here) =
        Inr ((points @ ?here) @ new)" "sorted_wrt (<) (map time_ms new)"
        "set new = forecast_points_spec entries n end_ms step"
      using "1.IH" [OF "1.prems"(3,1) refl refl n(1) _ "1.prems"(1)] False n "1.prems"
      unfolding points' by auto
    have "set (?here @ new) = forecast_points_spec entries t end_ms step"
      unfolding set_append here new(3) forecast_points_spec_def
      using gap n False by (fastforce simp: not_less)
    moreover have "sorted_wrt (<) (map time_ms (?here @ new))"
      using new n(2) by (auto simp: sorted_wrt_append dest: forecast_points_spec_time split: option.splits)
    ultimately show ?thesis
      using new(1) False n "1.prems"
      by (intro exI [of _ "?here @ new"])
        (simp add: forecast_loop.simps [of entries preset end_ms t] points')
  qed
qed

lemma forecast_loop_error:
  assumes "preset \<noteq> PresetUnspecified"
  shows "forecast_loop entries preset end_ms t f pts = Inl e \<Longrightarrow> e = TimestampOverflow"
  using assms
proof (induction entries preset end_ms t f pts rule: forecast_loop.induct)
  case (1 entries preset end_ms t f pts)
  obtain h step where p: "preset_window preset = Inr (h, step)"
    using "1.prems" by (cases preset) auto
  show ?case
  proof (cases "next_bucket f t step")
    case (Inl err)
    then have "err = TimestampOverflow"
      by (auto simp: next_bucket_def next_aligned_bucket_start_def ok_or_def Let_def
          split: if_splits option.splits)
    with Inl p "1.prems" show ?thesis
      by (simp add: forecast_loop.simps [of entries preset end_ms t] split: if_splits)
  next
    case (Inr n)
    with p "1.prems" show ?thesis
      using "1.IH" [OF _ p refl refl Inr]
      by (auto simp: forecast_loop.simps [of entries preset end_ms t] Let_def split: if_splits)
  qed
qed

section \<open>Properties\<close>

text \<open>
  On an accepted schedule the rain probability of a window is the single-precision
  quotient of the window's rainy milliseconds by its length; it lies in [0, 1], is 0 when no
  millisecond is rainy and 1 when every one is.
\<close>

theorem rain_probability_is_rainy_share:
  assumes "validate_schedule entries policy = Inr ()" "entries \<noteq> []"
    and "s < e" "e - s \<le> i64_max"
  shows "\<exists>p. rain_probability_for_window entries s e = Fin p \<and> 0 \<le> p \<and> p \<le> 1 \<and>
     Fin p = fp_div binary32 (fp_of_int binary32 (ms_where is_rain_type entries s e))
               (fp_of_int binary32 (e - s)) \<and>
     (ms_where is_rain_type entries s e = 0 \<longrightarrow> p = 0) \<and>
     (ms_where is_rain_type entries s e = e - s \<longrightarrow> p = 1)"
proof -
  have "increasing entries" using assms(1) by (rule validate_schedule_increasing)
  then show ?thesis
    using assms single_ratio [of "ms_where is_rain_type entries s e" "e - s"]
      ms_where_bounds [of s e is_rain_type entries]
    by (auto simp: rain_probability_ratio)
qed

definition sample_schedule :: "weather_entry list" where
  "sample_schedule =
     [\<lparr>starts_at_ms = 0, weather_type_of = Clear, temperature_c = 20\<rparr>,
      \<lparr>starts_at_ms = 10, weather_type_of = HeavyRain, temperature_c = 13\<rparr>,
      \<lparr>starts_at_ms = 14, weather_type_of = Overcast, temperature_c = 16\<rparr>]"

lemma sample_schedule_valid: "validate_schedule sample_schedule AllowOnlyTail = Inr ()"
  "validate_schedule sample_schedule AllowAnywhere = Inr ()"
  "sample_schedule \<noteq> []"
  by code_simp+

lemma i64_max_large: "2 ^ 48 \<le> i64_max"
  by (simp add: i64_max_def)

theorem rain_probability_is_rainy_share_witness:
  "\<exists>p. rain_probability_for_window sample_schedule 6 16 = Fin p \<and> 0 \<le> p \<and> p \<le> 1"
  using rain_probability_is_rainy_share [OF sample_schedule_valid(1,3), of 6 16] i64_max_large
  by auto

text \<open>
  C4. On an accepted schedule the dominant type of a window is in force somewhere in it,
  holds at least as many of its milliseconds as any other type, and appears before every
  other type that holds as many; the numbering of the enum never decides.
\<close>

theorem dominant_type_holds_most_time:
  assumes "validate_schedule entries policy = Inr ()" "entries \<noteq> []"
    and "s < e" "e - s \<le> i64_max"
    and r: "dominant_weather_type_for_window rank entries s e = r"
  shows "\<exists>f. s \<le> f \<and> f < e \<and> type_at entries f = r \<and>
     (\<forall>c. ms_where (\<lambda>c'. c' = c) entries s e \<le> ms_where (\<lambda>c'. c' = r) entries s e) \<and>
     (\<forall>t. s \<le> t \<and> t < f \<longrightarrow>
        ms_where (\<lambda>c'. c' = type_at entries t) entries s e < ms_where (\<lambda>c'. c' = r) entries s e)"
proof -
  have inc: "increasing entries" using assms(1) by (rule validate_schedule_increasing)
  note get = window_stats_get [OF assms(3) inc assms(4)]
  obtain d f where df: "hm_get (window_stats_of entries s e) r = Some (d, f)"
    and best: "\<And>c d' f'. hm_get (window_stats_of entries s e) c = Some (d', f') \<Longrightarrow>
                 d' < d \<or> d' = d \<and> f \<le> f'"
    using dominant_of_stats [OF assms(3) inc assms(4,2) r] by blast
  have d: "d = ms_where (\<lambda>c'. c' = r) entries s e" and f: "s \<le> f" "f < e" "type_at entries f = r"
    using get [of r] df by auto
  have le: "ms_where (\<lambda>c'. c' = c) entries s e \<le> d" for c
  proof (cases "hm_get (window_stats_of entries s e) c")
    case None
    then have none: "{t \<in> {s..<e}. type_at entries t = c} = {}" using get [of c] by auto
    show ?thesis unfolding d ms_where_def none by simp
  next
    case (Some v)
    then show ?thesis using best [of c "fst v" "snd v"] get [of c] by (cases v) auto
  qed
  have lt: "ms_where (\<lambda>c'. c' = type_at entries t) entries s e < d" if t: "s \<le> t" "t < f" for t
  proof -
    obtain d' f' where v: "hm_get (window_stats_of entries s e) (type_at entries t) = Some (d', f')"
      using get [of "type_at entries t"] t f by (cases "hm_get (window_stats_of entries s e) (type_at entries t)") auto
    then have "f' \<le> t" "d' = ms_where (\<lambda>c'. c' = type_at entries t) entries s e"
      using get [of "type_at entries t"] t f by auto
    with best [OF v] t show ?thesis by auto
  qed
  show ?thesis using f le lt unfolding d by blast
qed

theorem dominant_type_holds_most_time_witness:
  "\<exists>f. 6 \<le> f \<and> f < 14 \<and>
     type_at sample_schedule f = dominant_weather_type_for_window (\<lambda>_. 0) sample_schedule 6 14 \<and>
     dominant_weather_type_for_window (\<lambda>_. 0) sample_schedule 6 14 = Clear"
proof -
  have "dominant_weather_type_for_window (\<lambda>_. 0) sample_schedule 6 14 = Clear" by code_simp
  then show ?thesis
    using dominant_type_holds_most_time [OF sample_schedule_valid(1,3), of 6 14 "\<lambda>_. 0"] i64_max_large
    by fastforce
qed

text \<open>
  On an accepted schedule with temperatures in 1..30 the average of a window that
  starts inside the schedule is defined, lies between the lowest and the highest
  temperature in force, and is the rounded double-precision mean over its milliseconds.
\<close>

theorem average_temperature_is_mean:
  assumes "validate_schedule entries policy = Inr ()" "weather_at entries s \<noteq> None"
    and "s < e" "e - s \<le> 2 ^ 47"
    and temps: "\<forall>x \<in> set entries. is_valid_schedule_temperature_c (temperature_c x)"
    and lo: "1 \<le> lo" "lo \<le> hi" "hi \<le> 30"
    and range: "\<forall>t. s \<le> t \<and> t < e \<longrightarrow> lo \<le> temp_at entries t \<and> temp_at entries t \<le> hi"
  shows "\<exists>avg. average_temperature_c_for_window entries s e = Some avg \<and> lo \<le> avg \<and> avg \<le> hi \<and>
     avg = fp_to_i32 (fp_round_int (fp_div binary64
             (fp_of_int binary64 (\<Sum>t \<in> {s..<e}. temp_at entries t)) (fp_of_int binary64 (e - s))))"
proof -
  let ?w = "\<Sum>t \<in> {s..<e}. temp_at entries t"
  have inc: "increasing entries" using assms(1) by (rule validate_schedule_increasing)
  have t30: "\<forall>x \<in> set entries. 1 \<le> temperature_c x \<and> temperature_c x \<le> 30"
    using temps by (simp add: is_valid_schedule_temperature_c_def SCHEDULE_TEMPERATURE_MIN_C_def
        SCHEDULE_TEMPERATURE_MAX_C_def)
  have "30 * (e - s) \<le> i64_max"
    using mult_left_mono [OF assms(4), of 30] by (simp add: i64_max_def)
  then have walk: "average_walk (tail_from entries s) e s (temp_at entries s) (0, 0) = (?w, e - s)"
    using average_walk_totals [OF assms(3) inc _ assms(2) t30] by simp
  have "lo * (e - s) \<le> ?w"
    using sum_bounded_below [of "{s..<e}" lo "temp_at entries"] range assms(3)
    by (simp add: mult.commute)
  moreover have "?w \<le> hi * (e - s)"
    using sum_bounded_above [of "{s..<e}" "temp_at entries" hi] range assms(3)
    by (simp add: mult.commute)
  ultimately have mean: "lo \<le> fp_to_i32 (fp_round_int
             (fp_div binary64 (fp_of_int binary64 ?w) (fp_of_int binary64 (e - s))))"
    "fp_to_i32 (fp_round_int
             (fp_div binary64 (fp_of_int binary64 ?w) (fp_of_int binary64 (e - s)))) \<le> hi"
    using double_mean [of "e - s" lo ?w hi] assms by auto
  obtain x where x: "weather_at entries s = Some x" using assms(2) by blast
  then have start: "entries \<noteq> []" "partition_point (\<lambda>e. starts_at_ms e \<le> s) entries \<noteq> 0"
    "temperature_c (entries ! (partition_point (\<lambda>e. starts_at_ms e \<le> s) entries - 1)) = temp_at entries s"
    by (auto simp: weather_at_def temp_at_def Let_def split: if_splits)
  have "clamp_schedule_temperature_c k = k" if "lo \<le> k" "k \<le> hi" for k
    using that lo by (simp add: clamp_schedule_temperature_c_def SCHEDULE_TEMPERATURE_MIN_C_def
        SCHEDULE_TEMPERATURE_MAX_C_def)
  then show ?thesis
    using walk start mean assms(3)
    by (simp add: average_temperature_c_for_window_def Let_def tail_from_def)
qed

theorem average_temperature_is_mean_witness:
  "\<exists>avg. average_temperature_c_for_window sample_schedule 6 16 = Some avg \<and> 13 \<le> avg \<and> avg \<le> 20"
proof -
  have w: "weather_at sample_schedule 6 \<noteq> None" by code_simp
  have v: "\<forall>x \<in> set sample_schedule. is_valid_schedule_temperature_c (temperature_c x)"
    by code_simp
  have "temp_at sample_schedule t \<in> {20, 13, 16}" if "6 \<le> t" for t
    using that
    by (auto simp: temp_at_def weather_at_def sample_schedule_def partition_point_def Let_def)
  then have r: "\<forall>t. 6 \<le> t \<and> t < 16 \<longrightarrow>
      13 \<le> temp_at sample_schedule t \<and> temp_at sample_schedule t \<le> 20"
    by fastforce
  show ?thesis
    using average_temperature_is_mean [OF sample_schedule_valid(1) w _ _ v _ _ _ r] by auto
qed

text \<open>
  A schedule is accepted exactly when its timestamps strictly increase and, under the
  tail-only policy, an unspecified type is its last entry; a rejection names the first
  entry that breaks a rule, with the two timestamps that are out of order.
\<close>

theorem validate_schedule_verdict:
  "case validate_schedule entries policy of
     Inr _ \<Rightarrow> increasing entries \<and>
       (policy = AllowOnlyTail \<longrightarrow> (\<forall>i < length entries.
          weather_type_of (entries ! i) = WeatherUnspecified \<longrightarrow> i + 1 = length entries))
   | Inl (UnspecifiedNotTail i) \<Rightarrow>
       policy = AllowOnlyTail \<and> i + 1 < length entries \<and> increasing (take i entries) \<and>
       weather_type_of (entries ! i) = WeatherUnspecified
   | Inl (NonIncreasingTimestamp i p n) \<Rightarrow>
       0 < i \<and> i < length entries \<and> increasing (take i entries) \<and>
       p = starts_at_ms (entries ! (i - 1)) \<and> n = starts_at_ms (entries ! i) \<and> n \<le> p
   | Inl _ \<Rightarrow> False"
proof (cases "validate_schedule entries policy")
  case (Inr u)
  then have "validate_from policy (length entries) 0 None entries = Inr ()"
    by (simp add: validate_schedule_def)
  with Inr show ?thesis by (simp add: validate_from_ok)
next
  case (Inl err)
  then show ?thesis
    using validate_from_error [of policy "length entries" 0 None entries err]
    by (fastforce simp: validate_schedule_def validate_from_ok split: if_splits)
qed

theorem validate_schedule_verdict_witness:
  "validate_schedule sample_schedule AllowOnlyTail = Inr () \<and> increasing sample_schedule"
  using validate_schedule_verdict [of AllowOnlyTail sample_schedule] sample_schedule_valid(1) by simp

text \<open>
  The forecast of an accepted schedule, for a preset whose window fits in 64 bits, is
  returned: its points are in increasing time order and are exactly the start and the
  multiples of the preset's step within the horizon at which the schedule is defined, each
  with the type in force there.
\<close>

theorem project_forecast_points:
  assumes "validate_schedule entries AllowAnywhere = Inr ()"
    and "preset_window preset = Inr (horizon, step)"
    and "i64_min \<le> start_ms" "start_ms + horizon + step \<le> i64_max"
  shows "\<exists>points. project_forecast entries start_ms preset = Inr points \<and>
     sorted_wrt (<) (map time_ms points) \<and>
     set points = forecast_points_spec entries start_ms (start_ms + horizon) step"
proof -
  have "0 < step" "step \<le> horizon" using preset_window_pos [OF assms(2)] by auto
  then show ?thesis
    using assms forecast_loop_points [of preset horizon step start_ms "start_ms + horizon" True entries "[]"]
    by (simp add: project_forecast_def i64_checked_add_def is_i64_def)
qed

theorem project_forecast_points_witness:
  "\<exists>points. project_forecast sample_schedule 600000 Preset1HourStep15Min = Inr points \<and>
     sorted_wrt (<) (map time_ms points)"
  using project_forecast_points [OF sample_schedule_valid(2),
      of Preset1HourStep15Min HOUR_MS "15 * MINUTE_MS" 600000]
  by (auto simp: HOUR_MS_def MINUTE_MS_def i64_min_def i64_max_def)

text \<open>
  A forecast is refused only for an invalid schedule, an unspecified preset, or a window
  whose last bucket does not fit in 64 bits, and each refusal carries the matching error.
\<close>

theorem project_forecast_errors:
  assumes "i64_min \<le> start_ms"
  shows "project_forecast entries start_ms preset = Inl err \<Longrightarrow>
     validate_schedule entries AllowAnywhere = Inl err \<or>
     validate_schedule entries AllowAnywhere = Inr () \<and>
       (preset = PresetUnspecified \<and> err = UnspecifiedPreset \<or>
        (\<exists>horizon step. preset_window preset = Inr (horizon, step) \<and> err = TimestampOverflow \<and>
           i64_max < start_ms + horizon + step))"
proof -
  assume r: "project_forecast entries start_ms preset = Inl err"
  show ?thesis
  proof (cases "validate_schedule entries AllowAnywhere")
    case (Inr u)
    show ?thesis
    proof (cases "preset = PresetUnspecified")
      case True
      with r Inr show ?thesis by (simp add: project_forecast_def)
    next
      case False
      then obtain h step where p: "preset_window preset = Inr (h, step)" by (cases preset) auto
      have "0 < step" using preset_window_pos [OF p] by simp
      moreover have "\<not> start_ms + h + step \<le> i64_max"
        using forecast_loop_points [OF p, of start_ms "start_ms + h" True entries "[]"]
          preset_window_pos [OF p] Inr p r assms
        by (auto simp: project_forecast_def i64_checked_add_def is_i64_def)
      moreover have "err = TimestampOverflow"
        using r Inr p forecast_loop_error False by (auto simp: project_forecast_def split: option.splits)
      ultimately show ?thesis using Inr p by auto
    qed
  qed (use r in \<open>simp add: project_forecast_def\<close>)
qed

theorem project_forecast_errors_witness:
  "project_forecast sample_schedule 0 PresetUnspecified = Inl UnspecifiedPreset \<and>
   validate_schedule sample_schedule AllowAnywhere = Inr ()"
proof -
  have "project_forecast sample_schedule 0 PresetUnspecified = Inl UnspecifiedPreset" by code_simp
  then show ?thesis
    using project_forecast_errors [of 0 sample_schedule PresetUnspecified UnspecifiedPreset]
      sample_schedule_valid(2)
    by (simp add: i64_min_def)
qed

end
