(* ===== verification/Engine_Worker.thy ===== *)
theory Engine_Worker
  imports Boink_Engine Weather_Domain
begin

text \<open>
  The engine worker, game-server/src/runtime/engine_worker.rs, commands.rs and
  weather_sync.rs: the single owner of the simulation worlds (one official race, one
  standalone local race, any number of sandboxes), its runtime metadata guarded by a
  revision, and the commands that reach the worlds.

  The worker and the per-world loops are tasks of one thread; between two awaits a task runs
  alone, so each turn of a loop is one event here (\<open>worker_event\<close>). The clock and the rows
  of the weather table are read at each event and are part of it. A reply channel is the
  reply returned with the new state.
\<close>

section \<open>Data\<close>

datatype activity_kind = ActNone | ActOfficialRace | ActLocalRace | ActSandbox

datatype command_target =
  TargetOfficialRace
| TargetLocalRace string
| TargetSandbox string

datatype time_of_day = TodUnspecified | TodMorning | TodNoon | TodEvening | TodNight

datatype runtime_weather_type = RtClear | RtPartlyCloudy | RtOvercast | RtLightRain | RtMediumRain | RtHeavyRain

record runtime_weather_now =
  rw_weather_type :: runtime_weather_type
  rw_temperature_c :: i32

record pending_sandbox_activation =
  pd_activate :: bool
  pd_sandbox_id :: string
  pd_execute_at_unix_ms :: i64
  pd_map_id :: "string option"
  pd_time_of_day_preset :: "time_of_day option"
  pd_ghost_mode_settings :: "ghost_mode_settings option"

record active_sandbox_state =
  sb_sandbox_id :: string
  sb_map_id :: string
  sb_time_of_day_preset :: time_of_day
  sb_weather_now :: "runtime_weather_now option"

record active_local_race_state =
  lr_race_id :: string
  lr_map_id :: string
  lr_time_of_day_preset :: time_of_day
  lr_weather_now :: "runtime_weather_now option"

record 'n world_slot =
  slot_engine :: "'n engine"
  slot_ghost_mode_settings :: ghost_mode_settings

record runtime_state =
  rt_revision :: u64
  rt_activity_kind :: activity_kind
  rt_map_id :: string
  rt_active_local_race :: "active_local_race_state option"
  rt_active_sandboxes :: "active_sandbox_state list"
  rt_time_of_day_preset :: time_of_day
  rt_pending :: "pending_sandbox_activation list"

datatype worker_error =
  WorkerStopped
| EngineError boink_error
| InvalidArgument string
| RevisionMismatch u64 u64

definition DEFAULT_MAP_ID :: string where "DEFAULT_MAP_ID = ''test''"

definition DEFAULT_GHOST_MODE_SETTINGS :: ghost_mode_settings where
  "DEFAULT_GHOST_MODE_SETTINGS =
     \<lparr>ghost_enabled = False, enter_speed_max_mps = Fin 0, exit_speed_min_mps = Fin 0,
      enter_delay_ms = 0, exit_delay_ms = 0, until_completed_laps = 0,
      vehicle_overlap_exit_delay_ms = 0\<rparr>"

text \<open>
  The worker's state: the worlds, the metadata, the process-wide initialization cell of the
  native library and the weather type applied last, which all loops share.
\<close>

record 'n worker =
  w_official :: "'n world_slot option"
  w_local :: "(string, 'n world_slot) hmap"
  w_runtime :: runtime_state
  w_sandboxes :: "(string, 'n world_slot) hmap"
  w_init :: init_cell
  w_last_weather :: "weather_type option"
  w_running :: bool

text \<open>
  What the worker is started with: the build features, the native library, the configuration
  and the file system below the track directory. A directory entry may be unreadable, have
  no readable type, or a name that is not Unicode.
\<close>

datatype dir_entry =
  UnreadableEntry string
| DirEntry "(string, bool) result" "string option"

record 'n worker_env =
  env_features :: features
  env_api :: "'n native"
  env_tracks_dir :: string
  env_local_tracks_cache_dir :: string
  env_bolids_dir :: string
  env_debug_drawer_enabled :: bool
  env_dt :: fp
  env_is_dir :: "string \<Rightarrow> (string, bool) result"
  env_read_dir :: "string \<Rightarrow> (string, dir_entry list) result"
  env_is_file :: "string \<Rightarrow> bool"

section \<open>Map identifiers and engine construction\<close>

definition validate_map_id :: "features \<Rightarrow> string \<Rightarrow> (worker_error, unit) result" where
  "validate_map_id fs map_id =
     (if blank map_id then Inl (InvalidArgument ''map_id must be non-empty'')
      else if official fs \<or> standalone fs then
        (if \<not> list_all is_ascii_alphanumeric map_id
         then Inl (InvalidArgument ''map_id(storage_key) must be alphanumeric'')
         else Inr ())
      else
        (if \<not> list_all (\<lambda>c. is_ascii_alphanumeric c \<or> c = CHR ''-'' \<or> c = CHR ''_'') map_id
         then Inl (InvalidArgument ''map_id contains invalid characters'')
         else Inr ()))"

definition path_join :: "string \<Rightarrow> string \<Rightarrow> string" where
  "path_join a b =
     (if prefix ''/'' b then b
      else if a = [] \<or> last a = CHR ''/'' then a @ b
      else a @ ''/'' @ b)"

definition quoted :: "string \<Rightarrow> string" where
  "quoted s = [CHR 0x27] @ s @ [CHR 0x27]"

definition bundle_dir_error :: "string \<Rightarrow> string \<Rightarrow> worker_error" where
  "bundle_dir_error storage_key what =
     InvalidArgument (''map bundle directory for storage key '' @ quoted storage_key @ what)"

definition bundle_error :: "string \<Rightarrow> string \<Rightarrow> worker_error" where
  "bundle_error storage_key what =
     InvalidArgument (''map bundle for storage key '' @ quoted storage_key @ what)"

definition is_map_name_char :: "char \<Rightarrow> bool" where
  "is_map_name_char c \<longleftrightarrow> is_ascii_alphanumeric c \<or> c = CHR ''-'' \<or> c = CHR ''_''"

text \<open>One turn of the listing loop: the entry's error, or the candidate it adds.\<close>

definition glb_candidate :: "string \<Rightarrow> dir_entry \<Rightarrow> (worker_error, string option) result" where
  "glb_candidate storage_key entry =
     (case entry of
        UnreadableEntry e \<Rightarrow> Inl (bundle_dir_error storage_key ('' contains unreadable entry: '' @ e))
      | DirEntry (Inl e) _ \<Rightarrow> Inl (bundle_dir_error storage_key ('' contains unsupported entry: '' @ e))
      | DirEntry (Inr is_file) name \<Rightarrow>
          if \<not> is_file then Inr None
          else case name of
            None \<Rightarrow> Inr None
          | Some file_name \<Rightarrow>
              if \<not> suffix ''.glb'' file_name \<or> suffix ''.animation.glb'' file_name then Inr None
              else
                let internal_map_id = take (length file_name - length ''.glb'') file_name in
                if internal_map_id = [] \<or> \<not> list_all is_map_name_char internal_map_id
                then Inr None
                else Inr (Some internal_map_id))"

fun glb_candidates :: "string \<Rightarrow> dir_entry list \<Rightarrow> (worker_error, string list) result" where
  "glb_candidates storage_key [] = Inr []"
| "glb_candidates storage_key (entry # entries) =
     (case glb_candidate storage_key entry of
        Inl err \<Rightarrow> Inl err
      | Inr c \<Rightarrow>
          (case glb_candidates storage_key entries of
             Inl err \<Rightarrow> Inl err
           | Inr cs \<Rightarrow> Inr (case c of None \<Rightarrow> cs | Some m \<Rightarrow> m # cs)))"

definition resolve_official_track_glb_path ::
  "'n worker_env \<Rightarrow> string \<Rightarrow> (worker_error, string) result" where
  "resolve_official_track_glb_path env storage_key =
     (let bundle_dir = path_join (env_tracks_dir env) storage_key in
      case env_is_dir env bundle_dir of
        Inl e \<Rightarrow> Inl (bundle_dir_error storage_key ('' cannot be read: '' @ e))
      | Inr is_dir \<Rightarrow>
          if \<not> is_dir then Inl (bundle_dir_error storage_key '' does not exist'')
          else
            case env_read_dir env bundle_dir of
              Inl e \<Rightarrow> Inl (bundle_dir_error storage_key ('' cannot be listed: '' @ e))
            | Inr entries \<Rightarrow>
                (case glb_candidates storage_key entries of
                   Inl err \<Rightarrow> Inl err
                 | Inr [] \<Rightarrow> Inl (bundle_error storage_key '' has no main glb'')
                 | Inr [internal_map_id] \<Rightarrow>
                     let track_glb = path_join bundle_dir (internal_map_id @ ''.glb'') in
                     if \<not> env_is_file env track_glb
                     then Inl (bundle_error storage_key '' is missing main glb file'')
                     else Inr track_glb
                 | Inr _ \<Rightarrow> Inl (bundle_error storage_key '' has multiple main glb files'')))"

definition engine_err :: "(boink_error, 'a) result \<Rightarrow> (worker_error, 'a) result" where
  "engine_err r = (case r of Inl e \<Rightarrow> Inl (EngineError e) | Inr v \<Rightarrow> Inr v)"

definition car_model :: "nat \<Rightarrow> vehicle_model_config" where
  "car_model mesh =
     \<lparr>vm_mesh = mesh,
      vm_center_of_mass = \<lparr>vec_x = Fin 0, vec_y = Fin (- 1), vec_z = Fin 0\<rparr>,
      vm_wheel_radius = f32 (38 / 100), vm_suspension_rest_length = f32 (1 / 100),
      vm_mass = Fin 800, vm_max_steer_angle_deg = Fin 20\<rparr>"

definition build_engine ::
  "'n worker_env \<Rightarrow> string \<Rightarrow> init_cell \<Rightarrow> (worker_error, 'n engine) result \<times> init_cell" where
  "build_engine env map_id cell =
     (case validate_map_id (env_features env) map_id of
        Inl err \<Rightarrow> (Inl err, cell)
      | Inr _ \<Rightarrow>
          (case (if official (env_features env) \<or> standalone (env_features env)
                 then resolve_official_track_glb_path env map_id
                 else Inr (path_join (env_local_tracks_cache_dir env) (map_id @ ''.glb''))) of
             Inl err \<Rightarrow> (Inl err, cell)
           | Inr track_glb \<Rightarrow>
               (case initialize_runtime (env_api env) (env_debug_drawer_enabled env) cell of
                  (Inl e, cell') \<Rightarrow> (Inl (EngineError e), cell')
                | (Inr _, cell') \<Rightarrow>
                    (case vehicle_mesh_load (env_api env) (path_join (env_bolids_dir env) ''F1_CAR_06.glb'') of
                       Inl e \<Rightarrow> (Inl (EngineError e), cell')
                     | Inr mesh \<Rightarrow>
                         (let (r, cell'') = engine_build (env_api env)
                                (with_debug_drawer (env_debug_drawer_enabled env)
                                   (engine_builder_new track_glb (car_model mesh))) cell'
                          in (engine_err r, cell''))))))"

text \<open>An engine for a map with its ghost-mode settings applied, as every activation builds it.\<close>

definition build_world ::
  "'n worker_env \<Rightarrow> string \<Rightarrow> ghost_mode_settings \<Rightarrow> init_cell
    \<Rightarrow> (worker_error, 'n world_slot) result \<times> init_cell" where
  "build_world env map_id settings cell =
     (case build_engine env map_id cell of
        (Inl err, cell') \<Rightarrow> (Inl err, cell')
      | (Inr e, cell') \<Rightarrow>
          (case engine_set_ghost_mode_settings (env_api env) settings e of
             (Inl err, _) \<Rightarrow> (Inl (EngineError err), cell')
           | (Inr _, e') \<Rightarrow>
               (Inr \<lparr>slot_engine = e', slot_ghost_mode_settings = settings\<rparr>, cell')))"

section \<open>Runtime metadata\<close>

definition upsert_active_sandbox ::
  "active_sandbox_state list \<Rightarrow> active_sandbox_state \<Rightarrow> active_sandbox_state list" where
  "upsert_active_sandbox sandboxes nxt =
     (if list_ex (\<lambda>e. sb_sandbox_id e = sb_sandbox_id nxt) sandboxes
      then update_first (\<lambda>e. sb_sandbox_id e = sb_sandbox_id nxt) (\<lambda>_. nxt) sandboxes
      else sandboxes @ [nxt])"

definition is_sandbox_active :: "runtime_state \<Rightarrow> string \<Rightarrow> bool" where
  "is_sandbox_active rt sandbox_id \<longleftrightarrow>
     list_ex (\<lambda>e. sb_sandbox_id e = sandbox_id) (rt_active_sandboxes rt)"

definition drop_pending :: "string \<Rightarrow> runtime_state \<Rightarrow> runtime_state" where
  "drop_pending sandbox_id rt =
     rt\<lparr>rt_pending := filter (\<lambda>p. pd_sandbox_id p \<noteq> sandbox_id) (rt_pending rt)\<rparr>"

definition next_revision :: "runtime_state \<Rightarrow> runtime_state" where
  "next_revision rt = rt\<lparr>rt_revision := sat_add (rt_revision rt) 1\<rparr>"

type_synonym 'n runtime_op = "'n worker \<Rightarrow> (worker_error, runtime_state) result \<times> 'n worker"

text \<open>The result of an operation that replaced the metadata: the new metadata, cloned.\<close>

definition committed :: "runtime_state \<Rightarrow> 'n worker \<Rightarrow> (worker_error, runtime_state) result \<times> 'n worker" where
  "committed rt w = (Inr rt, w\<lparr>w_runtime := rt\<rparr>)"

definition bump_revision :: "u64 \<Rightarrow> 'n runtime_op" where
  "bump_revision expected_revision w =
     (let rt = w_runtime w in
      if rt_revision rt \<noteq> expected_revision
      then (Inl (RevisionMismatch expected_revision (rt_revision rt)), w)
      else committed (next_revision rt) w)"

definition set_runtime_time_of_day :: "string option \<Rightarrow> time_of_day \<Rightarrow> u64 \<Rightarrow> 'n runtime_op" where
  "set_runtime_time_of_day sandbox_id preset expected_revision w =
     (let rt = w_runtime w in
      if rt_revision rt \<noteq> expected_revision
      then (Inl (RevisionMismatch expected_revision (rt_revision rt)), w)
      else if rt_activity_kind rt \<noteq> ActSandbox
      then (Inl (InvalidArgument ''sandbox time-of-day override requires active sandbox runtime''), w)
      else if preset = TodUnspecified
      then (Inl (InvalidArgument ''time-of-day preset must be specified''), w)
      else
        case (case sandbox_id of
                Some sid \<Rightarrow>
                  if blank sid
                  then Inl (InvalidArgument ''sandbox_id must be non-empty when provided'')
                  else Inr sid
              | None \<Rightarrow>
                  if length (rt_active_sandboxes rt) = 1
                  then Inr (sb_sandbox_id (rt_active_sandboxes rt ! 0))
                  else Inl (InvalidArgument
                    ''sandbox_id is required when multiple sandbox sessions are active'')) of
          Inl err \<Rightarrow> (Inl err, w)
        | Inr target \<Rightarrow>
            if \<not> list_ex (\<lambda>e. sb_sandbox_id e = target) (rt_active_sandboxes rt)
            then (Inl (InvalidArgument ''sandbox_id does not match active sandbox session''), w)
            else committed (next_revision
                   (rt\<lparr>rt_active_sandboxes :=
                         update_first (\<lambda>e. sb_sandbox_id e = target)
                           (\<lambda>e. e\<lparr>sb_time_of_day_preset := preset\<rparr>) (rt_active_sandboxes rt),
                       rt_time_of_day_preset := preset\<rparr>)) w)"

definition check_pending ::
  "runtime_state \<Rightarrow> pending_sandbox_activation \<Rightarrow> (worker_error, unit) result" where
  "check_pending rt p =
     (if blank (pd_sandbox_id p)
      then Inl (InvalidArgument ''sandbox_id must be non-empty for pending activation/deactivation'')
      else if pd_activate p then
        (if is_sandbox_active rt (pd_sandbox_id p)
         then Inl (InvalidArgument ''sandbox_id is already active'')
         else case pd_map_id p of
           None \<Rightarrow> Inl (InvalidArgument ''map_id must be set for scheduled activation'')
         | Some m \<Rightarrow>
             if blank m then Inl (InvalidArgument ''map_id must be non-empty for scheduled activation'')
             else case pd_time_of_day_preset p of
               None \<Rightarrow> Inl (InvalidArgument ''time_of_day_preset must be set for scheduled activation'')
             | Some t \<Rightarrow>
                 if t = TodUnspecified
                 then Inl (InvalidArgument ''time_of_day_preset must be specified for scheduled activation'')
                 else if pd_ghost_mode_settings p = None
                 then Inl (InvalidArgument ''ghost_mode_settings must be set for scheduled activation'')
                 else Inr ())
      else if pd_map_id p \<noteq> None \<or> pd_time_of_day_preset p \<noteq> None \<or> pd_ghost_mode_settings p \<noteq> None
      then Inl (InvalidArgument ''scheduled deactivation must not include activation payload'')
      else Inr ())"

definition set_pending_sandbox_activation :: "pending_sandbox_activation \<Rightarrow> u64 \<Rightarrow> 'n runtime_op" where
  "set_pending_sandbox_activation p expected_revision w =
     (let rt = w_runtime w in
      if rt_revision rt \<noteq> expected_revision
      then (Inl (RevisionMismatch expected_revision (rt_revision rt)), w)
      else case check_pending rt p of
        Inl err \<Rightarrow> (Inl err, w)
      | Inr _ \<Rightarrow>
          committed ((next_revision rt)
            \<lparr>rt_pending :=
               (if list_ex (\<lambda>e. pd_sandbox_id e = pd_sandbox_id p) (rt_pending rt)
                then update_first (\<lambda>e. pd_sandbox_id e = pd_sandbox_id p) (\<lambda>_. p) (rt_pending rt)
                else rt_pending rt @ [p])\<rparr>) w)"

definition cancel_pending_sandbox_activation ::
  "string \<Rightarrow> u64 \<Rightarrow> 'n worker \<Rightarrow> (worker_error, runtime_state \<times> bool) result \<times> 'n worker" where
  "cancel_pending_sandbox_activation sandbox_id expected_revision w =
     (let rt = w_runtime w in
      if rt_revision rt \<noteq> expected_revision
      then (Inl (RevisionMismatch expected_revision (rt_revision rt)), w)
      else if blank sandbox_id
      then (Inl (InvalidArgument ''sandbox_id must be non-empty for pending cancellation''), w)
      else
        let before_len = length (rt_pending rt);
            rt1 = drop_pending sandbox_id rt;
            canceled = (length (rt_pending rt1) \<noteq> before_len);
            rt2 = (if canceled then next_revision rt1 else rt1)
        in (Inr (rt2, canceled), w\<lparr>w_runtime := rt2\<rparr>))"

section \<open>Activations\<close>

text \<open>The worlds of a switch are built before anything is changed.\<close>

definition switch_runtime ::
  "'n worker_env \<Rightarrow> activity_kind \<Rightarrow> string \<Rightarrow> string option \<Rightarrow> time_of_day
    \<Rightarrow> ghost_mode_settings option \<Rightarrow> u64 \<Rightarrow> 'n runtime_op" where
  "switch_runtime env kind map_id sandbox_id preset settings expected_revision w =
     (let rt = w_runtime w in
      if rt_revision rt \<noteq> expected_revision
      then (Inl (RevisionMismatch expected_revision (rt_revision rt)), w)
      else case kind of
        ActNone \<Rightarrow>
          (case validate_map_id (env_features env) map_id of
             Inl err \<Rightarrow> (Inl err, w)
           | Inr _ \<Rightarrow>
               committed (next_revision
                 (rt\<lparr>rt_activity_kind := ActNone, rt_map_id := map_id,
                     rt_active_sandboxes := [], rt_time_of_day_preset := preset\<rparr>))
                 (w\<lparr>w_official := None, w_sandboxes := []\<rparr>))
      | ActOfficialRace \<Rightarrow>
          (case validate_map_id (env_features env) map_id of
             Inl err \<Rightarrow> (Inl err, w)
           | Inr _ \<Rightarrow>
               let current = (case w_official w of
                                None \<Rightarrow> DEFAULT_GHOST_MODE_SETTINGS
                              | Some slot \<Rightarrow> slot_ghost_mode_settings slot);
                   target = (case settings of None \<Rightarrow> current | Some g \<Rightarrow> g)
               in (case build_world env map_id target (w_init w) of
                     (Inl err, cell) \<Rightarrow> (Inl err, w\<lparr>w_init := cell\<rparr>)
                   | (Inr slot, cell) \<Rightarrow>
                       committed (next_revision
                         (rt\<lparr>rt_activity_kind := ActOfficialRace, rt_map_id := map_id,
                             rt_active_sandboxes := [], rt_time_of_day_preset := preset\<rparr>))
                         (w\<lparr>w_official := Some slot, w_sandboxes := [], w_init := cell\<rparr>)))
      | ActSandbox \<Rightarrow>
          (case sandbox_id of
             None \<Rightarrow> (Inl (InvalidArgument ''sandbox_id is required for sandbox runtime''), w)
           | Some sid \<Rightarrow>
               if blank sid
               then (Inl (InvalidArgument ''sandbox_id must be non-empty for sandbox runtime''), w)
               else if preset = TodUnspecified
               then (Inl (InvalidArgument ''time_of_day_preset must be specified for sandbox runtime''), w)
               else case validate_map_id (env_features env) map_id of
                 Inl err \<Rightarrow> (Inl err, w)
               | Inr _ \<Rightarrow>
                   if is_sandbox_active rt sid
                   then (Inl (InvalidArgument ''sandbox_id is already active''), w)
                   else
                     let target = (case settings of None \<Rightarrow> DEFAULT_GHOST_MODE_SETTINGS | Some g \<Rightarrow> g)
                     in (case build_world env map_id target (w_init w) of
                           (Inl err, cell) \<Rightarrow> (Inl err, w\<lparr>w_init := cell\<rparr>)
                         | (Inr slot, cell) \<Rightarrow>
                             committed (next_revision (drop_pending sid
                               (rt\<lparr>rt_active_sandboxes := upsert_active_sandbox (rt_active_sandboxes rt)
                                     \<lparr>sb_sandbox_id = sid, sb_map_id = map_id,
                                      sb_time_of_day_preset = preset, sb_weather_now = None\<rparr>,
                                   rt_activity_kind := ActSandbox,
                                   rt_time_of_day_preset := preset\<rparr>)))
                               (w\<lparr>w_sandboxes := hm_insert sid slot (w_sandboxes w), w_init := cell\<rparr>)))
      | ActLocalRace \<Rightarrow>
          (Inl (InvalidArgument ''local race runtime must be activated with ActivateLocalRace''), w))"

definition deactivate_sandbox :: "string \<Rightarrow> u64 \<Rightarrow> 'n runtime_op" where
  "deactivate_sandbox sandbox_id expected_revision w =
     (let rt = w_runtime w in
      if rt_revision rt \<noteq> expected_revision
      then (Inl (RevisionMismatch expected_revision (rt_revision rt)), w)
      else if blank sandbox_id
      then (Inl (InvalidArgument ''sandbox_id must be non-empty for deactivation''), w)
      else
        let rt1 = drop_pending sandbox_id
                    (rt\<lparr>rt_active_sandboxes :=
                          remove_first (\<lambda>e. sb_sandbox_id e = sandbox_id) (rt_active_sandboxes rt)\<rparr>);
            w1 = w\<lparr>w_sandboxes := hm_remove sandbox_id (w_sandboxes w)\<rparr>
        in if rt_active_sandboxes rt1 = [] \<and> rt_activity_kind rt1 = ActSandbox then
             let rt2 = (case rt_active_local_race rt1 of
                          Some race \<Rightarrow>
                            rt1\<lparr>rt_activity_kind := ActLocalRace, rt_map_id := lr_map_id race,
                                rt_time_of_day_preset := lr_time_of_day_preset race\<rparr>
                        | None \<Rightarrow>
                            rt1\<lparr>rt_activity_kind := ActNone, rt_time_of_day_preset := TodUnspecified\<rparr>)
             in committed (next_revision rt2) (w1\<lparr>w_official := None\<rparr>)
           else committed (next_revision rt1) w1)"

definition activate_local_race ::
  "'n worker_env \<Rightarrow> string \<Rightarrow> string \<Rightarrow> time_of_day \<Rightarrow> ghost_mode_settings option \<Rightarrow> u64
    \<Rightarrow> 'n runtime_op" where
  "activate_local_race env race_id map_id preset settings expected_revision w =
     (let rt = w_runtime w in
      if rt_revision rt \<noteq> expected_revision
      then (Inl (RevisionMismatch expected_revision (rt_revision rt)), w)
      else if blank race_id then (Inl (InvalidArgument ''race_id must be non-empty''), w)
      else if rt_active_local_race rt \<noteq> None
      then (Inl (InvalidArgument ''local race is already active''), w)
      else if preset = TodUnspecified
      then (Inl (InvalidArgument ''time_of_day_preset must be specified for local race''), w)
      else case validate_map_id (env_features env) map_id of
        Inl err \<Rightarrow> (Inl err, w)
      | Inr _ \<Rightarrow>
          let target = (case settings of None \<Rightarrow> DEFAULT_GHOST_MODE_SETTINGS | Some g \<Rightarrow> g)
          in (case build_world env map_id target (w_init w) of
                (Inl err, cell) \<Rightarrow> (Inl err, w\<lparr>w_init := cell\<rparr>)
              | (Inr slot, cell) \<Rightarrow>
                  let rt1 = rt\<lparr>rt_active_local_race := Some
                        \<lparr>lr_race_id = race_id, lr_map_id = map_id, lr_time_of_day_preset = preset,
                         lr_weather_now = None\<rparr>\<rparr>;
                      rt2 = (if rt_active_sandboxes rt1 = [] \<and> rt_activity_kind rt1 \<noteq> ActOfficialRace
                             then rt1\<lparr>rt_activity_kind := ActLocalRace, rt_map_id := map_id,
                                      rt_time_of_day_preset := preset\<rparr>
                             else rt1)
                  in committed (next_revision rt2)
                       (w\<lparr>w_local := hm_insert race_id slot (w_local w), w_init := cell\<rparr>)))"

definition deactivate_local_race :: "string \<Rightarrow> u64 \<Rightarrow> 'n runtime_op" where
  "deactivate_local_race race_id expected_revision w =
     (let rt = w_runtime w in
      if rt_revision rt \<noteq> expected_revision
      then (Inl (RevisionMismatch expected_revision (rt_revision rt)), w)
      else if map_option lr_race_id (rt_active_local_race rt) \<noteq> Some race_id
      then (Inl (InvalidArgument ''race_id does not match active local race session''), w)
      else
        let rt1 = rt\<lparr>rt_active_local_race := None\<rparr>;
            rt2 = (if rt_active_sandboxes rt1 = [] \<and> rt_activity_kind rt1 = ActLocalRace
                   then rt1\<lparr>rt_activity_kind := ActNone, rt_time_of_day_preset := TodUnspecified\<rparr>
                   else rt1)
        in committed (next_revision rt2) (w\<lparr>w_local := hm_remove race_id (w_local w)\<rparr>))"

section \<open>Scheduled activations\<close>

fun execute_due ::
  "'n worker_env \<Rightarrow> pending_sandbox_activation list \<Rightarrow> 'n worker
    \<Rightarrow> (worker_error, unit) result \<times> 'n worker" where
  "execute_due env [] w = (Inr (), w)"
| "execute_due env (p # due) w =
     (let rt = w_runtime w;
          drop = (\<lambda>w. w\<lparr>w_runtime := drop_pending (pd_sandbox_id p) (w_runtime w)\<rparr>)
      in if pd_activate p then
           (if is_sandbox_active rt (pd_sandbox_id p) then execute_due env due (drop w)
            else case pd_map_id p of
              None \<Rightarrow> (Inl (InvalidArgument ''scheduled activation is missing map_id''), w)
            | Some map_id \<Rightarrow>
                (case pd_time_of_day_preset p of
                   None \<Rightarrow> (Inl (InvalidArgument ''scheduled activation is missing time_of_day_preset''), w)
                 | Some preset \<Rightarrow>
                     (case pd_ghost_mode_settings p of
                        None \<Rightarrow> (Inl (InvalidArgument ''scheduled activation is missing ghost_mode_settings''), w)
                      | Some settings \<Rightarrow>
                          (case switch_runtime env ActSandbox map_id (Some (pd_sandbox_id p)) preset
                                  (Some settings) (rt_revision rt) w of
                             (Inl err, w') \<Rightarrow> (Inl err, w')
                           | (Inr _, w') \<Rightarrow> execute_due env due (drop w')))))
         else
           (case deactivate_sandbox (pd_sandbox_id p) (rt_revision rt) w of
              (Inl err, w') \<Rightarrow> (Inl err, w')
            | (Inr _, w') \<Rightarrow> execute_due env due (drop w')))"

definition due_entries :: "i64 \<Rightarrow> pending_sandbox_activation list \<Rightarrow> pending_sandbox_activation list" where
  "due_entries now pending =
     sort_key pd_execute_at_unix_ms (filter (\<lambda>p. pd_execute_at_unix_ms p \<le> now) pending)"

definition maybe_execute_due_pending_sandbox_activation ::
  "'n worker_env \<Rightarrow> i64 \<Rightarrow> 'n worker \<Rightarrow> (worker_error, unit) result \<times> 'n worker" where
  "maybe_execute_due_pending_sandbox_activation env now w =
     (if rt_pending (w_runtime w) = [] then (Inr (), w)
      else let due = due_entries now (rt_pending (w_runtime w))
           in if due = [] then (Inr (), w) else execute_due env due w)"

section \<open>Commands on a world\<close>

type_synonym ('n, 'a) slot_op = "'n world_slot \<Rightarrow> (worker_error, 'a) result \<times> 'n world_slot"

text \<open>The slot a target names, or the error of the request.\<close>

definition target_slot :: "command_target \<Rightarrow> 'n worker \<Rightarrow> (worker_error, 'n world_slot) result" where
  "target_slot target w =
     (case target of
        TargetOfficialRace \<Rightarrow>
          if rt_activity_kind (w_runtime w) \<noteq> ActOfficialRace
          then Inl (InvalidArgument ''official race runtime is not active'')
          else ok_or (w_official w) (InvalidArgument ''official race runtime is not active'')
      | TargetLocalRace race_id \<Rightarrow>
          if blank race_id then Inl (InvalidArgument ''race_id must be non-empty'')
          else if map_option lr_race_id (rt_active_local_race (w_runtime w)) \<noteq> Some race_id
          then Inl (InvalidArgument ''race_id does not match active local race session'')
          else ok_or (hm_get (w_local w) race_id) (InvalidArgument ''local race runtime is not active'')
      | TargetSandbox sandbox_id \<Rightarrow>
          if blank sandbox_id then Inl (InvalidArgument ''sandbox_id must be non-empty'')
          else ok_or (hm_get (w_sandboxes w) sandbox_id)
                 (InvalidArgument ''sandbox_id does not match active sandbox session''))"

fun put_slot :: "command_target \<Rightarrow> 'n world_slot \<Rightarrow> 'n worker \<Rightarrow> 'n worker" where
  "put_slot TargetOfficialRace slot w = w\<lparr>w_official := Some slot\<rparr>"
| "put_slot (TargetLocalRace race_id) slot w = w\<lparr>w_local := hm_insert race_id slot (w_local w)\<rparr>"
| "put_slot (TargetSandbox sandbox_id) slot w =
     w\<lparr>w_sandboxes := hm_insert sandbox_id slot (w_sandboxes w)\<rparr>"

definition with_target_slot_mut ::
  "command_target \<Rightarrow> ('n, 'a) slot_op \<Rightarrow> 'n worker \<Rightarrow> (worker_error, 'a) result \<times> 'n worker" where
  "with_target_slot_mut target op w =
     (case target_slot target w of
        Inl err \<Rightarrow> (Inl err, w)
      | Inr slot \<Rightarrow> (let (r, slot') = op slot in (r, put_slot target slot' w)))"

definition on_engine :: "('n, 'a) engine_op \<Rightarrow> ('n, 'a) slot_op" where
  "on_engine op slot =
     (let (r, e) = op (slot_engine slot) in (engine_err r, slot\<lparr>slot_engine := e\<rparr>))"

definition reading :: "('n engine \<Rightarrow> (boink_error, 'a) result) \<Rightarrow> ('n, 'a) slot_op" where
  "reading op slot = (engine_err (op (slot_engine slot)), slot)"

text \<open>
  Spawning sets hard tyres in the official build; a failure there is only logged, so the
  native state it leaves is kept and the car is still reported.
\<close>

definition spawn_car_op :: "'n worker_env \<Rightarrow> ('n, u64) slot_op" where
  "spawn_car_op env slot =
     (case spawn_vehicle (env_api env) (slot_engine slot) of
        (Inl err, e) \<Rightarrow> (Inl (EngineError err), slot\<lparr>slot_engine := e\<rparr>)
      | (Inr car_id, e) \<Rightarrow>
          (let e' = (if official (env_features env)
                     then snd (engine_force_set_vehicle_tyre_type (env_api env) car_id Hard e) else e)
           in (Inr car_id, slot\<lparr>slot_engine := e'\<rparr>)))"

definition set_ghost_mode_op :: "'n worker_env \<Rightarrow> ghost_mode_settings \<Rightarrow> ('n, unit) slot_op" where
  "set_ghost_mode_op env settings slot =
     (case engine_set_ghost_mode_settings (env_api env) settings (slot_engine slot) of
        (Inl err, e) \<Rightarrow> (Inl (EngineError err), slot\<lparr>slot_engine := e\<rparr>)
      | (Inr _, e) \<Rightarrow> (Inr (), slot\<lparr>slot_engine := e, slot_ghost_mode_settings := settings\<rparr>))"

definition set_weather_command ::
  "'n worker_env \<Rightarrow> string \<Rightarrow> weather_params \<Rightarrow> runtime_weather_now \<Rightarrow> 'n worker
    \<Rightarrow> (worker_error, unit) result \<times> 'n worker" where
  "set_weather_command env sandbox_id weather weather_now w =
     (case with_target_slot_mut (TargetSandbox sandbox_id)
             (on_engine (engine_set_weather (env_api env) weather)) w of
        (Inl err, w') \<Rightarrow> (Inl err, w')
      | (Inr _, w') \<Rightarrow>
          (let rt = w_runtime w' in
           if \<not> list_ex (\<lambda>e. sb_sandbox_id e = sandbox_id) (rt_active_sandboxes rt)
           then (Inl (InvalidArgument ''sandbox_id does not match active sandbox session''), w')
           else (Inr (), w'\<lparr>w_runtime := rt\<lparr>rt_active_sandboxes :=
                   update_first (\<lambda>e. sb_sandbox_id e = sandbox_id)
                     (\<lambda>e. e\<lparr>sb_weather_now := Some weather_now\<rparr>) (rt_active_sandboxes rt)\<rparr>\<rparr>)))"

datatype engine_command =
  SpawnCar command_target
| SetControls command_target u64 controls
| ReadCarState command_target u64
| ReadCarRaceMetrics command_target u64
| ReadCarDimensions command_target u64
| SetCarBackToTrack command_target u64
| SetCarBeforeFinishLine command_target u64
| SetCarRandomOnTrack command_target u64
| SetCarAtStartPos command_target u64 u64
| SetCarToPitstop command_target u64
| SetCarTyreType command_target u64 tyre_type
| ForceSetCarTyreType command_target u64 tyre_type
| GetNumberOfStartPos command_target
| GetTrackData command_target
| GetRaceDuration command_target
| GetRuntimeState
| SwitchRuntime u64 activity_kind string "string option" "time_of_day option" "ghost_mode_settings option"
| SetRuntimeTimeOfDay u64 "string option" time_of_day
| SetPendingSandboxActivation u64 pending_sandbox_activation
| CancelPendingSandboxActivation u64 string
| DeactivateSandbox u64 string
| ActivateLocalRace u64 string string time_of_day "ghost_mode_settings option"
| DeactivateLocalRace u64 string
| BumpRevision u64
| SetGhostModeSettings command_target ghost_mode_settings
| SetWeather string weather_params runtime_weather_now
| DespawnCar command_target u64

datatype reply =
  ReplyCar "(worker_error, u64) result"
| ReplyControls "(worker_error, accepted_controls) result"
| ReplyState "(worker_error, vehicle_state) result"
| ReplyMetrics "(worker_error, vehicle_race_metrics) result"
| ReplyDimensions "(worker_error, fp \<times> fp) result"
| ReplyUnit "(worker_error, unit) result"
| ReplyCount "(worker_error, u64) result"
| ReplyTrack "(worker_error, track_data) result"
| ReplyDuration "(worker_error, fp) result"
| ReplyRuntime "(worker_error, runtime_state) result"
| ReplyCancel "(worker_error, runtime_state \<times> bool) result"

definition answer :: "('r \<Rightarrow> reply) \<Rightarrow> 'r \<times> 'n worker \<Rightarrow> reply \<times> 'n worker" where
  "answer c rw = (c (fst rw), snd rw)"

primrec handle_command :: "'n worker_env \<Rightarrow> engine_command \<Rightarrow> 'n worker \<Rightarrow> reply \<times> 'n worker" where
  "handle_command env (SpawnCar target) w =
     answer ReplyCar (with_target_slot_mut target (spawn_car_op env) w)"
| "handle_command env (SetControls target car_id c) w =
     answer ReplyControls
       (with_target_slot_mut target (on_engine (engine_set_controls (env_api env) car_id c)) w)"
| "handle_command env (ReadCarState target car_id) w =
     answer ReplyState
       (with_target_slot_mut target (reading (read_vehicle_state (env_api env) car_id)) w)"
| "handle_command env (ReadCarRaceMetrics target car_id) w =
     answer ReplyMetrics
       (with_target_slot_mut target (reading (read_vehicle_race_metrics (env_api env) car_id)) w)"
| "handle_command env (ReadCarDimensions target car_id) w =
     answer ReplyDimensions
       (with_target_slot_mut target (reading (engine_get_vehicle_dimensions (env_api env) car_id)) w)"
| "handle_command env (SetCarBackToTrack target car_id) w =
     answer ReplyUnit
       (with_target_slot_mut target (on_engine (engine_set_vehicle_back_to_track (env_api env) car_id)) w)"
| "handle_command env (SetCarBeforeFinishLine target car_id) w =
     answer ReplyUnit
       (with_target_slot_mut target (on_engine (engine_set_vehicle_before_finish_line (env_api env) car_id)) w)"
| "handle_command env (SetCarRandomOnTrack target car_id) w =
     answer ReplyUnit
       (with_target_slot_mut target (on_engine (engine_set_vehicle_random_pos (env_api env) car_id)) w)"
| "handle_command env (SetCarAtStartPos target car_id position_index) w =
     answer ReplyUnit
       (with_target_slot_mut target
          (on_engine (engine_set_vehicle_at_start_pos (env_api env) car_id position_index)) w)"
| "handle_command env (SetCarToPitstop target car_id) w =
     answer ReplyUnit
       (with_target_slot_mut target (on_engine (engine_set_vehicle_to_pitstop (env_api env) car_id)) w)"
| "handle_command env (SetCarTyreType target car_id tt) w =
     answer ReplyUnit
       (with_target_slot_mut target (on_engine (engine_set_vehicle_tyre_type (env_api env) car_id tt)) w)"
| "handle_command env (ForceSetCarTyreType target car_id tt) w =
     answer ReplyUnit
       (with_target_slot_mut target (on_engine (engine_force_set_vehicle_tyre_type (env_api env) car_id tt)) w)"
| "handle_command env (GetNumberOfStartPos target) w =
     answer ReplyCount
       (with_target_slot_mut target (reading (engine_get_number_of_start_pos (env_api env))) w)"
| "handle_command env (GetTrackData target) w =
     answer ReplyTrack (with_target_slot_mut target (reading (engine_track_data (env_api env))) w)"
| "handle_command env (GetRaceDuration target) w =
     answer ReplyDuration (with_target_slot_mut target (reading (race_duration (env_api env))) w)"
| "handle_command env GetRuntimeState w = (ReplyRuntime (Inr (w_runtime w)), w)"
| "handle_command env (SwitchRuntime expected kind map_id sandbox_id preset settings) w =
     answer ReplyRuntime
       (switch_runtime env kind map_id sandbox_id
          (case preset of None \<Rightarrow> rt_time_of_day_preset (w_runtime w) | Some t \<Rightarrow> t) settings expected w)"
| "handle_command env (SetRuntimeTimeOfDay expected sandbox_id preset) w =
     answer ReplyRuntime (set_runtime_time_of_day sandbox_id preset expected w)"
| "handle_command env (SetPendingSandboxActivation expected p) w =
     answer ReplyRuntime (set_pending_sandbox_activation p expected w)"
| "handle_command env (CancelPendingSandboxActivation expected sandbox_id) w =
     answer ReplyCancel (cancel_pending_sandbox_activation sandbox_id expected w)"
| "handle_command env (DeactivateSandbox expected sandbox_id) w =
     answer ReplyRuntime (deactivate_sandbox sandbox_id expected w)"
| "handle_command env (ActivateLocalRace expected race_id map_id preset settings) w =
     answer ReplyRuntime (activate_local_race env race_id map_id preset settings expected w)"
| "handle_command env (DeactivateLocalRace expected race_id) w =
     answer ReplyRuntime (deactivate_local_race race_id expected w)"
| "handle_command env (BumpRevision expected) w = answer ReplyRuntime (bump_revision expected w)"
| "handle_command env (SetGhostModeSettings target settings) w =
     answer ReplyUnit (with_target_slot_mut target (set_ghost_mode_op env settings) w)"
| "handle_command env (SetWeather sandbox_id weather weather_now) w =
     answer ReplyUnit (set_weather_command env sandbox_id weather weather_now w)"
| "handle_command env (DespawnCar target car_id) w =
     answer ReplyUnit (with_target_slot_mut target (on_engine (despawn_vehicle (env_api env) car_id)) w)"

section \<open>Ticks and the worker loop\<close>

text \<open>
  The schedule is \<open>None\<close> when the weather table cannot be read. The type applied last is
  shared by all worlds, so the change is applied to the first world that sees it.
\<close>

definition apply_weather_from_schedule ::
  "'n worker_env \<Rightarrow> weather_entry list option \<Rightarrow> i64 \<Rightarrow> 'n engine \<Rightarrow> weather_type option
    \<Rightarrow> 'n engine \<times> weather_type option" where
  "apply_weather_from_schedule env schedule now e last_applied =
     (if \<not> official (env_features env) then (e, last_applied)
      else case schedule of
        None \<Rightarrow> (e, last_applied)
      | Some entries \<Rightarrow>
          let wt = (case weather_type_at entries now of None \<Rightarrow> Clear | Some t \<Rightarrow> t) in
          if last_applied = Some wt then (e, last_applied)
          else
            let params = engine_params_for_weather_type wt in
            (case engine_set_weather (env_api env)
                    \<lparr>wp_cloudiness = cloudiness params, wp_temperature_c = params_temperature_c params,
                     wp_rain_intensity = rain_intensity params\<rparr> e of
               (Inl err, e') \<Rightarrow> (e', last_applied)
             | (Inr _, e') \<Rightarrow> (e', Some wt)))"

definition weather_slot ::
  "'n worker_env \<Rightarrow> weather_entry list option \<Rightarrow> i64 \<Rightarrow> command_target \<Rightarrow> 'n world_slot \<Rightarrow> 'n worker
    \<Rightarrow> 'n worker" where
  "weather_slot env schedule now target slot w =
     (let (e, last) = apply_weather_from_schedule env schedule now (slot_engine slot) (w_last_weather w)
      in put_slot target (slot\<lparr>slot_engine := e\<rparr>) (w\<lparr>w_last_weather := last\<rparr>))"

definition stop_worker :: "'n worker \<Rightarrow> 'n worker" where
  "stop_worker w = w\<lparr>w_sandboxes := [], w_local := [], w_running := False\<rparr>"

definition worker_tick :: "'n worker_env \<Rightarrow> i64 \<Rightarrow> 'n worker \<Rightarrow> 'n worker" where
  "worker_tick env now w =
     (let (should_stop, w1) =
        (case rt_activity_kind (w_runtime w) of
           ActOfficialRace \<Rightarrow>
             (case w_official w of
                None \<Rightarrow> (False, w)
              | Some slot \<Rightarrow>
                  let e = snd (engine_step (env_api env) (env_dt env) (slot_engine slot))
                  in (should_close_debug (env_api env) e,
                      w\<lparr>w_official := Some (slot\<lparr>slot_engine := e\<rparr>)\<rparr>))
         | _ \<Rightarrow> (False, w))
      in if should_stop then stop_worker w1
         else snd (maybe_execute_due_pending_sandbox_activation env now w1))"

definition worker_weather_tick ::
  "'n worker_env \<Rightarrow> weather_entry list option \<Rightarrow> i64 \<Rightarrow> 'n worker \<Rightarrow> 'n worker" where
  "worker_weather_tick env schedule now w =
     (case rt_activity_kind (w_runtime w) of
        ActOfficialRace \<Rightarrow>
          (case w_official w of
             None \<Rightarrow> w
           | Some slot \<Rightarrow> weather_slot env schedule now TargetOfficialRace slot w)
      | _ \<Rightarrow> w)"

definition run_sandbox_loop_tick :: "'n worker_env \<Rightarrow> command_target \<Rightarrow> 'n world_slot \<Rightarrow> 'n worker \<Rightarrow> 'n worker" where
  "run_sandbox_loop_tick env target slot w =
     put_slot target
       (slot\<lparr>slot_engine := snd (engine_step (env_api env) (env_dt env) (slot_engine slot))\<rparr>) w"

text \<open>
  The loop of a world runs as long as its handle is in the map of its kind: an abort removes
  both together.
\<close>

fun loop_slot :: "command_target \<Rightarrow> 'n worker \<Rightarrow> 'n world_slot option" where
  "loop_slot TargetOfficialRace w = None"
| "loop_slot (TargetLocalRace race_id) w = hm_get (w_local w) race_id"
| "loop_slot (TargetSandbox sandbox_id) w = hm_get (w_sandboxes w) sandbox_id"

datatype worker_event =
  ShutdownReceived
| Tick i64
| WeatherTick "weather_entry list option" i64
| CommandReceived engine_command i64
| CommandChannelClosed
| LoopTick command_target
| LoopWeatherTick command_target "weather_entry list option" i64

definition handle_event :: "'n worker_env \<Rightarrow> worker_event \<Rightarrow> 'n worker \<Rightarrow> reply option \<times> 'n worker" where
  "handle_event env ev w =
     (if \<not> w_running w then (None, w)
      else case ev of
        ShutdownReceived \<Rightarrow> (None, stop_worker w)
      | CommandChannelClosed \<Rightarrow> (None, stop_worker w)
      | Tick now \<Rightarrow> (None, worker_tick env now w)
      | WeatherTick schedule now \<Rightarrow> (None, worker_weather_tick env schedule now w)
      | CommandReceived cmd now \<Rightarrow>
          (let (r, w1) = handle_command env cmd w
           in (Some r, snd (maybe_execute_due_pending_sandbox_activation env now w1)))
      | LoopTick target \<Rightarrow>
          (None, case loop_slot target w of
                   None \<Rightarrow> w | Some slot \<Rightarrow> run_sandbox_loop_tick env target slot w)
      | LoopWeatherTick target schedule now \<Rightarrow>
          (None, case loop_slot target w of
                   None \<Rightarrow> w | Some slot \<Rightarrow> weather_slot env schedule now target slot w))"

definition spawn_worker :: "init_cell \<Rightarrow> 'n worker" where
  "spawn_worker cell =
     \<lparr>w_official = None, w_local = [],
      w_runtime = \<lparr>rt_revision = 0, rt_activity_kind = ActNone, rt_map_id = DEFAULT_MAP_ID,
        rt_active_local_race = None, rt_active_sandboxes = [],
        rt_time_of_day_preset = TodUnspecified, rt_pending = []\<rparr>,
      w_sandboxes = [], w_init = cell, w_last_weather = None, w_running = True\<rparr>"

inductive reachable :: "'n worker_env \<Rightarrow> 'n worker \<Rightarrow> bool" for env where
  reach_init: "reachable env (spawn_worker cell)"
| reach_event: "reachable env w \<Longrightarrow> handle_event env ev w = (r, w') \<Longrightarrow> reachable env w'"

end
