(* ===== verification/Engine_Worker_Safety.thy ===== *)
theory Engine_Worker_Safety
  imports Engine_Worker
begin

text \<open>
  What the engine worker keeps true: the invariant that ties the runtime metadata to the
  worlds, its preservation by every command, by the execution of scheduled activations and
  by every event of the loop, and the contract of the operations that compare the revision.
\<close>

section \<open>The invariant\<close>

text \<open>
  The sandboxes the metadata lists are the ones with a world; the activity is a sandbox
  exactly when some sandbox is active; an official or local activity has its world; pending
  entries carry what their execution needs.
\<close>

definition sandbox_ids :: "runtime_state \<Rightarrow> string list" where
  "sandbox_ids rt = map sb_sandbox_id (rt_active_sandboxes rt)"

definition sandboxes_ok :: "'n worker \<Rightarrow> bool" where
  "sandboxes_ok w \<longleftrightarrow>
     hm_wf (w_sandboxes w) \<and> distinct (sandbox_ids (w_runtime w)) \<and>
     set (hm_keys (w_sandboxes w)) = set (sandbox_ids (w_runtime w)) \<and>
     (\<forall>e \<in> set (rt_active_sandboxes (w_runtime w)).
        \<not> blank (sb_sandbox_id e) \<and> sb_time_of_day_preset e \<noteq> TodUnspecified)"

definition activity_ok :: "'n worker \<Rightarrow> bool" where
  "activity_ok w \<longleftrightarrow>
     (rt_activity_kind (w_runtime w) = ActSandbox \<longleftrightarrow> rt_active_sandboxes (w_runtime w) \<noteq> []) \<and>
     (rt_activity_kind (w_runtime w) = ActOfficialRace \<longrightarrow> w_official w \<noteq> None) \<and>
     (rt_activity_kind (w_runtime w) = ActLocalRace \<longrightarrow> rt_active_local_race (w_runtime w) \<noteq> None)"

definition local_ok :: "'n worker \<Rightarrow> bool" where
  "local_ok w \<longleftrightarrow>
     hm_wf (w_local w) \<and>
     set (hm_keys (w_local w)) = lr_race_id ` set_option (rt_active_local_race (w_runtime w)) \<and>
     (\<forall>r \<in> set_option (rt_active_local_race (w_runtime w)). \<not> blank (lr_race_id r))"

definition payload_ok :: "pending_sandbox_activation \<Rightarrow> bool" where
  "payload_ok p \<longleftrightarrow> \<not> blank (pd_sandbox_id p) \<and>
     (if pd_activate p
      then (\<exists>m. pd_map_id p = Some m \<and> \<not> blank m) \<and>
           (\<exists>t. pd_time_of_day_preset p = Some t \<and> t \<noteq> TodUnspecified) \<and>
           pd_ghost_mode_settings p \<noteq> None
      else pd_map_id p = None \<and> pd_time_of_day_preset p = None \<and> pd_ghost_mode_settings p = None)"

definition pending_ok :: "runtime_state \<Rightarrow> bool" where
  "pending_ok rt \<longleftrightarrow>
     distinct (map pd_sandbox_id (rt_pending rt)) \<and>
     (\<forall>p \<in> set (rt_pending rt). payload_ok p \<and>
        (pd_activate p \<longrightarrow> pd_sandbox_id p \<notin> set (sandbox_ids rt)))"

definition worker_ok :: "'n worker \<Rightarrow> bool" where
  "worker_ok w \<longleftrightarrow> sandboxes_ok w \<and> activity_ok w \<and> local_ok w \<and> pending_ok (w_runtime w)"

lemmas worker_ok_defs = worker_ok_def sandboxes_ok_def activity_ok_def local_ok_def pending_ok_def
  sandbox_ids_def

lemma is_sandbox_active_iff [simp]: "is_sandbox_active rt sid \<longleftrightarrow> sid \<in> set (sandbox_ids rt)"
  by (auto simp: is_sandbox_active_def sandbox_ids_def list_ex_iff)

lemma next_revision_simps [simp]:
  "rt_revision (next_revision rt) = sat_add (rt_revision rt) 1"
  "rt_activity_kind (next_revision rt) = rt_activity_kind rt"
  "rt_map_id (next_revision rt) = rt_map_id rt"
  "rt_active_local_race (next_revision rt) = rt_active_local_race rt"
  "rt_active_sandboxes (next_revision rt) = rt_active_sandboxes rt"
  "rt_time_of_day_preset (next_revision rt) = rt_time_of_day_preset rt"
  "rt_pending (next_revision rt) = rt_pending rt"
  by (simp_all add: next_revision_def)

lemma drop_pending_simps [simp]:
  "rt_revision (drop_pending sid rt) = rt_revision rt"
  "rt_activity_kind (drop_pending sid rt) = rt_activity_kind rt"
  "rt_map_id (drop_pending sid rt) = rt_map_id rt"
  "rt_active_local_race (drop_pending sid rt) = rt_active_local_race rt"
  "rt_active_sandboxes (drop_pending sid rt) = rt_active_sandboxes rt"
  "rt_time_of_day_preset (drop_pending sid rt) = rt_time_of_day_preset rt"
  "rt_pending (drop_pending sid rt) = filter (\<lambda>p. pd_sandbox_id p \<noteq> sid) (rt_pending rt)"
  by (simp_all add: drop_pending_def)

lemma upsert_new:
  "sb_sandbox_id e \<notin> set (map sb_sandbox_id es) \<Longrightarrow> upsert_active_sandbox es e = es @ [e]"
proof -
  assume "sb_sandbox_id e \<notin> set (map sb_sandbox_id es)"
  then have "\<not> list_ex (\<lambda>x. sb_sandbox_id x = sb_sandbox_id e) es"
    unfolding list_ex_iff by (metis image_eqI list.set_map)
  then show ?thesis by (simp add: upsert_active_sandbox_def)
qed

lemma worker_ok_init [simp]: "worker_ok (w\<lparr>w_init := c\<rparr>) \<longleftrightarrow> worker_ok w"
  by (simp add: worker_ok_defs)

lemma check_pending_ok:
  "check_pending rt p = Inr () \<longleftrightarrow>
     payload_ok p \<and> (pd_activate p \<longrightarrow> pd_sandbox_id p \<notin> set (sandbox_ids rt))"
  by (auto simp: check_pending_def payload_ok_def split: option.splits)

text \<open>What a switch has done when it succeeded, and that it changed no world when it failed.\<close>

lemma switch_runtime_Inl:
  "switch_runtime env kind map_id sid preset settings rv w = (Inl err, w') \<Longrightarrow>
   w' = w\<lparr>w_init := w_init w'\<rparr>"
  by (auto simp: switch_runtime_def committed_def Let_def
      split: if_splits activity_kind.splits option.splits sum.splits prod.splits)

lemma switch_runtime_None:
  "switch_runtime env ActNone map_id sid preset settings rv w = (Inr rt', w') \<Longrightarrow>
   w' = w\<lparr>w_official := None, w_sandboxes := [], w_runtime := rt'\<rparr> \<and>
   rt' = next_revision ((w_runtime w)\<lparr>rt_activity_kind := ActNone, rt_map_id := map_id,
           rt_active_sandboxes := [], rt_time_of_day_preset := preset\<rparr>)"
  by (auto simp: switch_runtime_def committed_def Let_def split: if_splits sum.splits)

lemma switch_runtime_Official:
  "switch_runtime env ActOfficialRace map_id sid preset settings rv w = (Inr rt', w') \<Longrightarrow>
   \<exists>slot cell. w' = w\<lparr>w_official := Some slot, w_sandboxes := [], w_init := cell, w_runtime := rt'\<rparr> \<and>
     rt' = next_revision ((w_runtime w)\<lparr>rt_activity_kind := ActOfficialRace, rt_map_id := map_id,
             rt_active_sandboxes := [], rt_time_of_day_preset := preset\<rparr>)"
  by (auto simp: switch_runtime_def committed_def Let_def split: if_splits sum.splits prod.splits)

lemma switch_runtime_Sandbox:
  "switch_runtime env ActSandbox map_id sid preset settings rv w = (Inr rt', w') \<Longrightarrow>
   \<exists>s slot cell. sid = Some s \<and> \<not> blank s \<and> preset \<noteq> TodUnspecified \<and>
     s \<notin> set (sandbox_ids (w_runtime w)) \<and>
     build_world env map_id (case settings of None \<Rightarrow> DEFAULT_GHOST_MODE_SETTINGS | Some g \<Rightarrow> g) (w_init w) =
       (Inr slot, cell) \<and>
     w' = w\<lparr>w_sandboxes := hm_insert s slot (w_sandboxes w), w_init := cell, w_runtime := rt'\<rparr> \<and>
     rt' = next_revision (drop_pending s ((w_runtime w)
          \<lparr>rt_active_sandboxes := rt_active_sandboxes (w_runtime w) @
             [\<lparr>sb_sandbox_id = s, sb_map_id = map_id, sb_time_of_day_preset = preset, sb_weather_now = None\<rparr>],
           rt_activity_kind := ActSandbox, rt_time_of_day_preset := preset\<rparr>))"
  by (auto simp: switch_runtime_def committed_def Let_def upsert_new sandbox_ids_def
      split: if_splits option.splits sum.splits prod.splits)

lemma switch_runtime_LocalRace:
  "switch_runtime env ActLocalRace map_id sid preset settings rv w \<noteq> (Inr rt', w')"
  by (simp add: switch_runtime_def Let_def)

lemma switch_runtime_ok:
  assumes "worker_ok w" "switch_runtime env kind map_id sid preset settings rv w = (r, w')"
  shows "worker_ok w'"
proof (cases r)
  case (Inl err)
  with assms show ?thesis using switch_runtime_Inl worker_ok_init by metis
next
  case (Inr rt)
  show ?thesis
  proof (cases kind)
    case ActNone
    show ?thesis
      using assms(1) switch_runtime_None [OF assms(2) [unfolded Inr ActNone]]
      by (simp add: worker_ok_defs)
  next
    case ActOfficialRace
    show ?thesis
      using assms(1) switch_runtime_Official [OF assms(2) [unfolded Inr ActOfficialRace]]
      by (auto simp: worker_ok_defs)
  next
    case ActLocalRace
    show ?thesis using switch_runtime_LocalRace assms(2) [unfolded Inr ActLocalRace] by blast
  next
    case ActSandbox
    obtain s slot cell where
      s: "\<not> blank s" "preset \<noteq> TodUnspecified" "s \<notin> set (sandbox_ids (w_runtime w))"
      and w': "w' = w\<lparr>w_sandboxes := hm_insert s slot (w_sandboxes w), w_init := cell, w_runtime := rt\<rparr>"
      and rt: "rt = next_revision (drop_pending s ((w_runtime w)
          \<lparr>rt_active_sandboxes := rt_active_sandboxes (w_runtime w) @
             [\<lparr>sb_sandbox_id = s, sb_map_id = map_id, sb_time_of_day_preset = preset, sb_weather_now = None\<rparr>],
           rt_activity_kind := ActSandbox, rt_time_of_day_preset := preset\<rparr>))"
      using switch_runtime_Sandbox [OF assms(2) [unfolded Inr ActSandbox]] by blast
    have "sandboxes_ok w'"
      using assms(1) s unfolding w' rt by (simp add: worker_ok_defs ball_Un)
    moreover have "activity_ok w'" "local_ok w'"
      using assms(1) unfolding w' rt by (simp_all add: worker_ok_defs)
    moreover have "pending_ok (w_runtime w')"
      using assms(1) unfolding w' rt by (simp add: worker_ok_defs distinct_map_filter)
    ultimately show ?thesis by (simp add: worker_ok_def)
  qed
qed

lemma deactivate_sandbox_Inr:
  assumes "deactivate_sandbox sid rv w = (Inr rt', w')" "distinct (sandbox_ids (w_runtime w))"
  shows "rt_active_sandboxes rt' = filter (\<lambda>e. sb_sandbox_id e \<noteq> sid) (rt_active_sandboxes (w_runtime w)) \<and>
     w_runtime w' = rt' \<and> w_sandboxes w' = hm_remove sid (w_sandboxes w) \<and>
     rt_pending rt' = filter (\<lambda>p. pd_sandbox_id p \<noteq> sid) (rt_pending (w_runtime w)) \<and>
     rt_active_local_race rt' = rt_active_local_race (w_runtime w) \<and>
     rt_revision rt' = sat_add (rt_revision (w_runtime w)) 1 \<and>
     w_local w' = w_local w \<and> w_init w' = w_init w \<and> w_running w' = w_running w \<and>
     (if rt_active_sandboxes rt' = [] \<and> rt_activity_kind (w_runtime w) = ActSandbox
      then w_official w' = None \<and>
        rt_activity_kind rt' = (if rt_active_local_race (w_runtime w) = None then ActNone else ActLocalRace)
      else w_official w' = w_official w \<and> rt_activity_kind rt' = rt_activity_kind (w_runtime w))"
proof -
  let ?es = "rt_active_sandboxes (w_runtime w)"
  have rem: "remove_first (\<lambda>e. sb_sandbox_id e = sid) ?es = filter (\<lambda>e. sb_sandbox_id e \<noteq> sid) ?es"
    using assms(2) by (intro remove_first_filter) (simp add: sandbox_ids_def)
  show ?thesis
    using assms(1) unfolding deactivate_sandbox_def
    by (auto simp: rem committed_def Let_def split: if_splits option.splits)
qed

lemma deactivate_sandbox_Inl:
  "deactivate_sandbox sid rv w = (Inl err, w') \<Longrightarrow> w' = w"
  by (auto simp: deactivate_sandbox_def committed_def Let_def split: if_splits)

lemma deactivate_sandbox_ok:
  assumes "worker_ok w" "deactivate_sandbox sid rv w = (r, w')"
  shows "worker_ok w'"
proof (cases r)
  case (Inl err)
  with assms deactivate_sandbox_Inl show ?thesis by metis
next
  case (Inr rt)
  have "distinct (sandbox_ids (w_runtime w))" using assms(1) by (simp add: worker_ok_defs)
  note d = deactivate_sandbox_Inr [OF assms(2) [unfolded Inr] this]
  have "sandboxes_ok w'"
    using assms(1) d by (auto simp: worker_ok_def sandboxes_ok_def sandbox_ids_def distinct_map_filter)
  moreover have "activity_ok w'"
    using assms(1) d by (auto simp: worker_ok_def activity_ok_def split: if_splits)
  moreover have "local_ok w'" using assms(1) d by (simp add: worker_ok_def local_ok_def)
  moreover have "pending_ok (w_runtime w')"
    using assms(1) d by (auto simp: worker_ok_def pending_ok_def sandbox_ids_def distinct_map_filter)
  ultimately show ?thesis by (simp add: worker_ok_def)
qed

lemma activate_local_race_Inl:
  "activate_local_race env race_id map_id preset settings rv w = (Inl err, w') \<Longrightarrow>
   w' = w\<lparr>w_init := w_init w'\<rparr>"
  by (auto simp: activate_local_race_def committed_def Let_def
      split: if_splits option.splits sum.splits prod.splits)

lemma activate_local_race_Inr:
  "activate_local_race env race_id map_id preset settings rv w = (Inr rt', w') \<Longrightarrow>
   \<exists>slot cell. \<not> blank race_id \<and> rt_active_local_race (w_runtime w) = None \<and>
     w' = w\<lparr>w_local := hm_insert race_id slot (w_local w), w_init := cell, w_runtime := rt'\<rparr> \<and>
     rt_active_local_race rt' = Some \<lparr>lr_race_id = race_id, lr_map_id = map_id,
       lr_time_of_day_preset = preset, lr_weather_now = None\<rparr> \<and>
     rt_active_sandboxes rt' = rt_active_sandboxes (w_runtime w) \<and>
     rt_pending rt' = rt_pending (w_runtime w) \<and>
     rt_revision rt' = sat_add (rt_revision (w_runtime w)) 1 \<and>
     rt_activity_kind rt' =
       (if rt_active_sandboxes (w_runtime w) = [] \<and> rt_activity_kind (w_runtime w) \<noteq> ActOfficialRace
        then ActLocalRace else rt_activity_kind (w_runtime w))"
  by (auto simp: activate_local_race_def committed_def Let_def
      split: if_splits sum.splits prod.splits)

lemma activate_local_race_ok:
  assumes "worker_ok w" "activate_local_race env race_id map_id preset settings rv w = (r, w')"
  shows "worker_ok w'"
proof (cases r)
  case (Inl err)
  with assms show ?thesis using activate_local_race_Inl worker_ok_init by metis
next
  case (Inr rt)
  then obtain slot cell where "\<not> blank race_id" "rt_active_local_race (w_runtime w) = None"
    and w': "w' = w\<lparr>w_local := hm_insert race_id slot (w_local w), w_init := cell, w_runtime := rt\<rparr>"
    and rt: "rt_active_local_race rt = Some \<lparr>lr_race_id = race_id, lr_map_id = map_id,
       lr_time_of_day_preset = preset, lr_weather_now = None\<rparr>"
     "rt_active_sandboxes rt = rt_active_sandboxes (w_runtime w)"
     "rt_pending rt = rt_pending (w_runtime w)"
     "rt_activity_kind rt =
       (if rt_active_sandboxes (w_runtime w) = [] \<and> rt_activity_kind (w_runtime w) \<noteq> ActOfficialRace
        then ActLocalRace else rt_activity_kind (w_runtime w))"
    using activate_local_race_Inr [OF assms(2) [unfolded Inr]] by blast
  then show ?thesis using assms(1) by (simp add: worker_ok_defs)
qed

lemma deactivate_local_race_ok:
  assumes "worker_ok w" "deactivate_local_race race_id rv w = (r, w')"
  shows "worker_ok w'"
  using assms
  by (auto simp: deactivate_local_race_def committed_def Let_def worker_ok_defs split: if_splits)

lemma bump_revision_ok:
  assumes "worker_ok w" "bump_revision rv w = (r, w')"
  shows "worker_ok w'"
  using assms by (auto simp: bump_revision_def committed_def Let_def worker_ok_defs split: if_splits)

lemma map_id_update [simp]:
  "map sb_sandbox_id (update_first P (\<lambda>e. e\<lparr>sb_time_of_day_preset := t\<rparr>) es) = map sb_sandbox_id es"
  "map sb_sandbox_id (update_first P (\<lambda>e. e\<lparr>sb_weather_now := n\<rparr>) es) = map sb_sandbox_id es"
  by (simp_all add: map_update_first)

lemma update_first_Nil [simp]: "update_first P f xs = [] \<longleftrightarrow> xs = []"
  by (cases xs) auto

lemma set_id_update [simp]:
  "sb_sandbox_id ` set (update_first P (\<lambda>e. e\<lparr>sb_time_of_day_preset := t\<rparr>) es) = sb_sandbox_id ` set es"
  "sb_sandbox_id ` set (update_first P (\<lambda>e. e\<lparr>sb_weather_now := n\<rparr>) es) = sb_sandbox_id ` set es"
  by (metis list.set_map map_id_update)+

lemma ball_update_first:
  "(\<And>x. x \<in> set xs \<Longrightarrow> Q x) \<Longrightarrow> (\<And>x. x \<in> set xs \<Longrightarrow> Q (f x)) \<Longrightarrow> x \<in> set (update_first P f xs) \<Longrightarrow> Q x"
  using set_update_first [of P f xs] by blast

lemma with_sandboxes_ok:
  assumes "worker_ok w" "\<And>e. sb_sandbox_id (f e) = sb_sandbox_id e"
    and "\<And>e. e \<in> set (rt_active_sandboxes (w_runtime w)) \<Longrightarrow> sb_time_of_day_preset (f e) \<noteq> TodUnspecified"
    and "rt' = (w_runtime w)\<lparr>rt_active_sandboxes := update_first P f (rt_active_sandboxes (w_runtime w)),
           rt_time_of_day_preset := t, rt_revision := v\<rparr>"
  shows "worker_ok (w\<lparr>w_runtime := rt'\<rparr>)"
proof -
  let ?es = "rt_active_sandboxes (w_runtime w)"
  have ids: "map sb_sandbox_id (update_first P f ?es) = map sb_sandbox_id ?es"
    using assms(2) by (simp add: map_update_first)
  then have set_ids: "sb_sandbox_id ` set (update_first P f ?es) = sb_sandbox_id ` set ?es"
    by (metis list.set_map)
  have "\<not> blank (sb_sandbox_id e) \<and> sb_time_of_day_preset e \<noteq> TodUnspecified"
    if "e \<in> set (update_first P f ?es)" for e
    by (rule ball_update_first [OF _ _ that]) (use assms in \<open>auto simp: worker_ok_defs\<close>)
  then show ?thesis
    using assms(1,4) ids set_ids by (simp add: worker_ok_defs)
qed

lemma set_runtime_time_of_day_ok:
  assumes "worker_ok w" "set_runtime_time_of_day sid preset rv w = (r, w')"
  shows "worker_ok w'"
proof (cases r)
  case (Inl err)
  with assms show ?thesis
    by (auto simp: set_runtime_time_of_day_def committed_def Let_def
        split: if_splits option.splits sum.splits)
next
  case (Inr rt)
  with assms(2) obtain tgt where "preset \<noteq> TodUnspecified"
    and "w' = w\<lparr>w_runtime := (w_runtime w)\<lparr>rt_active_sandboxes :=
        update_first (\<lambda>e. sb_sandbox_id e = tgt) (\<lambda>e. e\<lparr>sb_time_of_day_preset := preset\<rparr>)
          (rt_active_sandboxes (w_runtime w)), rt_time_of_day_preset := preset,
        rt_revision := sat_add (rt_revision (w_runtime w)) 1\<rparr>\<rparr>"
    by (auto simp: set_runtime_time_of_day_def committed_def next_revision_def Let_def
        split: if_splits option.splits sum.splits)
  with assms(1) show ?thesis
    using with_sandboxes_ok [OF assms(1), of "\<lambda>e. e\<lparr>sb_time_of_day_preset := preset\<rparr>"] by simp
qed

lemma worker_ok_pending:
  assumes "worker_ok w" "pending_ok rt" "rt_activity_kind rt = rt_activity_kind (w_runtime w)"
    "rt_active_sandboxes rt = rt_active_sandboxes (w_runtime w)"
    "rt_active_local_race rt = rt_active_local_race (w_runtime w)"
  shows "worker_ok (w\<lparr>w_runtime := rt\<rparr>)"
  using assms by (simp add: worker_ok_def sandboxes_ok_def activity_ok_def local_ok_def sandbox_ids_def)

lemma set_pending_ok:
  assumes "worker_ok w" "set_pending_sandbox_activation p rv w = (r, w')"
  shows "worker_ok w'"
proof (cases r)
  case (Inl err)
  with assms show ?thesis
    by (auto simp: set_pending_sandbox_activation_def committed_def Let_def split: if_splits sum.splits)
next
  case (Inr rt)
  let ?ps = "rt_pending (w_runtime w)"
  let ?qs = "if list_ex (\<lambda>e. pd_sandbox_id e = pd_sandbox_id p) ?ps
    then update_first (\<lambda>e. pd_sandbox_id e = pd_sandbox_id p) (\<lambda>_. p) ?ps else ?ps @ [p]"
  from assms(2) Inr have chk: "check_pending (w_runtime w) p = Inr ()"
    and w': "w' = w\<lparr>w_runtime := (next_revision (w_runtime w))\<lparr>rt_pending := ?qs\<rparr>\<rparr>"
    by (auto simp: set_pending_sandbox_activation_def committed_def Let_def split: if_splits sum.splits)
  have "map pd_sandbox_id (update_first (\<lambda>e. pd_sandbox_id e = pd_sandbox_id p) (\<lambda>_. p) ?ps) =
      map pd_sandbox_id ?ps" by (simp add: map_update_first)
  then have "distinct (map pd_sandbox_id ?qs)"
    using assms(1) by (auto simp: worker_ok_defs list_ex_iff)
  moreover have "set ?qs \<subseteq> insert p (set ?ps)"
    using set_update_first [of "\<lambda>e. pd_sandbox_id e = pd_sandbox_id p" "\<lambda>_. p" ?ps] by auto
  moreover have "pending_ok (w_runtime w)" using assms(1) by (simp add: worker_ok_def)
  ultimately have "\<forall>q \<in> set ?qs. payload_ok q \<and> (pd_activate q \<longrightarrow> pd_sandbox_id q \<notin> set (sandbox_ids (w_runtime w)))"
    using chk unfolding check_pending_ok pending_ok_def by blast
  with \<open>distinct (map pd_sandbox_id ?qs)\<close> show ?thesis
    unfolding w' by (intro worker_ok_pending [OF assms(1)]) (simp_all add: pending_ok_def sandbox_ids_def)
qed

lemma cancel_pending_ok:
  assumes "worker_ok w" "cancel_pending_sandbox_activation sid rv w = (r, w')"
  shows "worker_ok w'"
proof -
  have p: "pending_ok (drop_pending sid (w_runtime w))" "pending_ok (next_revision (drop_pending sid (w_runtime w)))"
    using assms(1) by (auto simp: worker_ok_def pending_ok_def sandbox_ids_def distinct_map_filter)
  show ?thesis
    using assms worker_ok_pending [OF assms(1) p(1)] worker_ok_pending [OF assms(1) p(2)]
    by (simp add: cancel_pending_sandbox_activation_def Let_def split: if_splits)
qed

lemma put_slot_ok:
  assumes "worker_ok w" "target_slot target w = Inr slot"
  shows "worker_ok (put_slot target slot' w)"
proof (cases target)
  case (TargetSandbox sid)
  with assms have "sid \<in> set (hm_keys (w_sandboxes w))"
    by (auto simp: target_slot_def set_hm_keys_iff split: if_splits)
  with assms TargetSandbox show ?thesis by (auto simp: worker_ok_defs)
next
  case (TargetLocalRace rid)
  with assms have "rid \<in> set (hm_keys (w_local w))"
    by (auto simp: target_slot_def set_hm_keys_iff split: if_splits)
  with assms TargetLocalRace show ?thesis by (auto simp: worker_ok_defs)
qed (use assms in \<open>auto simp: worker_ok_defs\<close>)

lemma with_target_slot_ok:
  assumes "worker_ok w" "with_target_slot_mut target op w = (r, w')"
  shows "worker_ok w'"
  using assms put_slot_ok by (auto simp: with_target_slot_mut_def split: sum.splits prod.splits)

lemma w_runtime_put_slot [simp]: "w_runtime (put_slot target slot w) = w_runtime w"
  by (cases target) auto

lemma w_runtime_with_target_slot: "with_target_slot_mut target op w = (r, w') \<Longrightarrow> w_runtime w' = w_runtime w"
  by (auto simp: with_target_slot_mut_def split: sum.splits prod.splits)

lemma set_weather_command_ok:
  assumes "worker_ok w" "set_weather_command env sid weather now w = (r, w')"
  shows "worker_ok w'"
proof -
  let ?op = "on_engine (engine_set_weather (env_api env) weather)"
  obtain r1 w1 where w1: "with_target_slot_mut (TargetSandbox sid) ?op w = (r1, w1)" by fastforce
  then have ok: "worker_ok w1" by (rule with_target_slot_ok [OF assms(1)])
  have "worker_ok (w1\<lparr>w_runtime := (w_runtime w1)\<lparr>rt_active_sandboxes :=
          update_first (\<lambda>e. sb_sandbox_id e = sid) (\<lambda>e. e\<lparr>sb_weather_now := Some now\<rparr>)
            (rt_active_sandboxes (w_runtime w1))\<rparr>\<rparr>)"
    by (rule with_sandboxes_ok [OF ok, where t = "rt_time_of_day_preset (w_runtime w1)" and v = "rt_revision (w_runtime w1)"])
      (use ok in \<open>auto simp: worker_ok_defs\<close>)
  with assms(2) w1 ok show ?thesis
    by (auto simp: set_weather_command_def Let_def split: sum.splits if_splits)
qed

lemma snd_ok_intros:
  assumes "worker_ok w"
  shows "worker_ok (snd (with_target_slot_mut target op w))"
    "worker_ok (snd (switch_runtime env kind map_id sid preset settings rv w))"
    "worker_ok (snd (deactivate_sandbox s rv w))"
    "worker_ok (snd (activate_local_race env race_id map_id preset settings rv w))"
    "worker_ok (snd (deactivate_local_race race_id rv w))"
    "worker_ok (snd (bump_revision rv w))"
    "worker_ok (snd (set_runtime_time_of_day sid preset rv w))"
    "worker_ok (snd (set_pending_sandbox_activation p rv w))"
    "worker_ok (snd (cancel_pending_sandbox_activation s rv w))"
    "worker_ok (snd (set_weather_command env s weather now w))"
  using assms
  by (auto intro: with_target_slot_ok switch_runtime_ok deactivate_sandbox_ok activate_local_race_ok
        deactivate_local_race_ok bump_revision_ok set_runtime_time_of_day_ok set_pending_ok
        cancel_pending_ok set_weather_command_ok prod.collapse [symmetric])

lemma handle_command_ok: "worker_ok w \<Longrightarrow> worker_ok (snd (handle_command env cmd w))"
  by (cases cmd) (simp_all add: answer_def snd_ok_intros)

section \<open>Scheduled activations and events\<close>

lemma pending_ok_drop: "pending_ok rt \<Longrightarrow> pending_ok (drop_pending sid rt)"
  by (auto simp: pending_ok_def sandbox_ids_def distinct_map_filter)

lemma worker_ok_drop: "worker_ok w \<Longrightarrow> worker_ok (w\<lparr>w_runtime := drop_pending sid (w_runtime w)\<rparr>)"
  by (rule worker_ok_pending) (auto simp: worker_ok_def intro: pending_ok_drop)

lemma execute_due_ok: "worker_ok w \<Longrightarrow> execute_due env due w = (r, w') \<Longrightarrow> worker_ok w'"
proof (induction due arbitrary: w)
  case (Cons p due)
  have sw: "worker_ok w1" if "switch_runtime env k m s t g rv w = (r1, w1)" for k m s t g rv r1 w1
    using that Cons.prems(1) by (rule switch_runtime_ok [rotated])
  have de: "worker_ok w1" if "deactivate_sandbox s rv w = (r1, w1)" for s rv r1 w1
    using that Cons.prems(1) by (rule deactivate_sandbox_ok [rotated])
  show ?case
    using Cons.prems
    by (auto simp: Let_def split: if_splits option.splits prod.splits sum.splits
        dest: sw de intro: Cons.IH worker_ok_drop)
qed simp

lemma maybe_execute_ok:
  "worker_ok w \<Longrightarrow> worker_ok (snd (maybe_execute_due_pending_sandbox_activation env now w))"
  by (auto simp: maybe_execute_due_pending_sandbox_activation_def Let_def
      intro: execute_due_ok prod.collapse [symmetric])

lemma loop_slot_put_ok:
  assumes "worker_ok w" "loop_slot target w = Some slot"
  shows "worker_ok (put_slot target slot' w)"
proof (cases target)
  case (TargetSandbox sid)
  with assms have "sid \<in> set (hm_keys (w_sandboxes w))" by (simp add: set_hm_keys_iff)
  with assms(1) TargetSandbox show ?thesis by (auto simp: worker_ok_defs)
next
  case (TargetLocalRace rid)
  with assms have "rid \<in> set (hm_keys (w_local w))" by (simp add: set_hm_keys_iff)
  with assms(1) TargetLocalRace show ?thesis by (auto simp: worker_ok_defs)
qed (use assms in simp)

lemma worker_ok_misc [simp]:
  "worker_ok (w\<lparr>w_last_weather := t\<rparr>) \<longleftrightarrow> worker_ok w"
  "worker_ok w \<Longrightarrow> worker_ok (w\<lparr>w_official := Some slot\<rparr>)"
  by (simp_all add: worker_ok_defs)

lemma loop_slot_last_weather [simp]: "loop_slot target (w\<lparr>w_last_weather := t\<rparr>) = loop_slot target w"
  by (cases target) auto

lemma weather_slot_ok:
  assumes "worker_ok w" "target = TargetOfficialRace \<or> loop_slot target w \<noteq> None"
  shows "worker_ok (weather_slot env schedule now target slot w)"
proof (cases "target = TargetOfficialRace")
  case True
  then show ?thesis using assms(1) by (simp add: weather_slot_def split: prod.split)
next
  case False
  then obtain slot0 where "loop_slot target w = Some slot0" using assms(2) by blast
  then show ?thesis
    using assms(1)
    by (auto simp: weather_slot_def split: prod.split intro!: loop_slot_put_ok [where slot = slot0])
qed

lemma worker_tick_ok:
  "worker_ok w \<Longrightarrow> w_running (worker_tick env now w) \<Longrightarrow> worker_ok (worker_tick env now w)"
  by (auto simp: worker_tick_def Let_def stop_worker_def intro!: maybe_execute_ok
      split: activity_kind.splits option.splits if_splits)

lemma handle_event_ok:
  assumes "w_running w \<longrightarrow> worker_ok w" "handle_event env ev w = (r, w')"
  shows "w_running w' \<longrightarrow> worker_ok w'"
proof (cases "w_running w")
  case True
  with assms(1) have ok: "worker_ok w" by simp
  show ?thesis
  proof (cases ev)
    case (CommandReceived cmd now)
    then have "w' = snd (maybe_execute_due_pending_sandbox_activation env now (snd (handle_command env cmd w)))"
      using assms(2) True by (auto simp: handle_event_def split: prod.splits)
    then show ?thesis using maybe_execute_ok [OF handle_command_ok [OF ok]] by simp
  next
    case (WeatherTick schedule now)
    then show ?thesis
      using assms(2) True ok
      by (auto simp: handle_event_def worker_weather_tick_def weather_slot_ok
          split: activity_kind.splits option.splits)
  qed (use assms(2) True ok in \<open>auto simp: handle_event_def stop_worker_def worker_tick_ok
        run_sandbox_loop_tick_def loop_slot_put_ok weather_slot_ok split: option.splits\<close>)
next
  case False
  with assms(2) show ?thesis by (simp add: handle_event_def)
qed

lemma worker_ok_spawn: "worker_ok (spawn_worker cell)"
  by (simp add: spawn_worker_def worker_ok_defs)

lemma reachable_worker_ok: "reachable env w \<Longrightarrow> w_running w \<longrightarrow> worker_ok w"
proof (induction rule: reachable.induct)
  case (reach_init cell)
  show ?case by (simp add: worker_ok_spawn)
next
  case (reach_event w ev r w')
  then show ?case by (rule_tac handle_event_ok)
qed

end
