(* ===== verification/Engine_Worker_Contract.thy ===== *)
theory Engine_Worker_Contract
  imports Engine_Worker_Safety "HOL-Library.Multiset"
begin

text \<open>
  The contract of the engine worker towards its clients: the operations guarded by a
  revision (the locales \<open>cas_guard\<close> and \<open>cas_op\<close>, interpreted on every one of them), the
  revision along a run, the isolation of the worlds, and what executing the scheduled
  activations does.
\<close>

section \<open>Revision-guarded operations\<close>

lemma sat_add_1_neq: "v \<noteq> - 1 \<Longrightarrow> sat_add v 1 \<noteq> v" for v :: u64
  by (metis sat_add_gt order.irrefl)

definition err_of :: "(worker_error, 'a) result \<Rightarrow> worker_error option" where
  "err_of r = (case r of Inl e \<Rightarrow> Some e | Inr _ \<Rightarrow> None)"

lemma err_of_simps [simp]: "err_of (Inl e) = Some e" "err_of (Inr v) = None"
  by (simp_all add: err_of_def)

lemma err_of_None: "err_of r = None \<longleftrightarrow> (\<exists>v. r = Inr v)"
  by (cases r) auto

text \<open>
  The contract of an operation that takes the revision its caller has seen: on a mismatch it
  changes nothing and names both revisions; when it fails it changes no world and no
  metadata (the initialization cell of the native library may be filled); when it succeeds
  the revision advances.
\<close>

locale cas_guard =
  fixes op :: "u64 \<Rightarrow> 'n worker \<Rightarrow> (worker_error, 'r) result \<times> 'n worker"
  assumes mismatch: "rt_revision (w_runtime w) \<noteq> e \<Longrightarrow>
      op e w = (Inl (RevisionMismatch e (rt_revision (w_runtime w))), w)"
    and failure: "op e w = (Inl err, w') \<Longrightarrow> w' = w\<lparr>w_init := w_init w'\<rparr>"
begin

lemma matched: "op e w = (Inr r, w') \<Longrightarrow> rt_revision (w_runtime w) = e"
  using mismatch [of w e] by force

lemma failure_runtime: "op e w = (Inl err, w') \<Longrightarrow> w_runtime w' = w_runtime w"
  using failure [of e w err w'] by (metis worker.select_convs(3) worker.update_convs(5) worker.surjective)

lemma failure_reply:
  assumes "err_of (fst (op e w)) \<noteq> None"
  shows "snd (op e w) = w\<lparr>w_init := w_init (snd (op e w))\<rparr>"
proof -
  obtain r w' where o: "op e w = (r, w')" by fastforce
  with assms obtain err where "r = Inl err" by (cases r) auto
  with o failure show ?thesis by simp
qed

end

locale cas_op = cas_guard +
  assumes success: "op e w = (Inr r, w') \<Longrightarrow>
      rt_revision (w_runtime w') = sat_add (rt_revision (w_runtime w)) 1"
begin

lemma revision_mono: "op e w = (r, w') \<Longrightarrow> rt_revision (w_runtime w) \<le> rt_revision (w_runtime w')"
  by (cases r) (auto simp: success failure_runtime sat_add_ge)

lemma success_reply:
  assumes "err_of (fst (op e w)) = None"
  shows "rt_revision (w_runtime w) = e" "rt_revision (w_runtime (snd (op e w))) = sat_add e 1"
proof -
  obtain r w' where o: "op e w = (r, w')" by fastforce
  with assms obtain v where "r = Inr v" by (auto simp: err_of_None)
  with o success matched show "rt_revision (w_runtime w) = e"
    "rt_revision (w_runtime (snd (op e w))) = sat_add e 1" by auto
qed

lemma moved_on:
  assumes "op e w = (Inr r, w')" "rt_revision (w_runtime w) \<noteq> - 1"
  shows "rt_revision (w_runtime w') \<noteq> e"
proof
  assume "rt_revision (w_runtime w') = e"
  then have "sat_add e 1 = e" using success [OF assms(1)] matched [OF assms(1)] by simp
  then show False using sat_add_1_neq assms matched [OF assms(1)] by auto
qed

end

interpretation sw: cas_op "switch_runtime env kind map_id sid preset settings"
  for env kind map_id sid preset settings
proof
  fix w :: "'a worker" and e r w'
  assume "switch_runtime env kind map_id sid preset settings e w = (Inr r, w')"
  then show "rt_revision (w_runtime w') = sat_add (rt_revision (w_runtime w)) 1"
    by (cases kind) (auto dest: switch_runtime_None switch_runtime_Official switch_runtime_Sandbox
        simp: switch_runtime_LocalRace)
next
  fix w :: "'a worker" and e
  assume "rt_revision (w_runtime w) \<noteq> e"
  then show "switch_runtime env kind map_id sid preset settings e w =
      (Inl (RevisionMismatch e (rt_revision (w_runtime w))), w)"
    by (simp add: switch_runtime_def)
qed (auto dest: switch_runtime_Inl)

interpretation da: cas_op "deactivate_sandbox sid" for sid
  by unfold_locales
    (auto simp: deactivate_sandbox_def committed_def Let_def split: if_splits option.splits)

interpretation al: cas_op "activate_local_race env race_id map_id preset settings"
  for env race_id map_id preset settings
proof
  fix w :: "'a worker" and e
  assume "rt_revision (w_runtime w) \<noteq> e"
  then show "activate_local_race env race_id map_id preset settings e w =
      (Inl (RevisionMismatch e (rt_revision (w_runtime w))), w)"
    by (simp add: activate_local_race_def)
qed (auto dest: activate_local_race_Inl activate_local_race_Inr)

interpretation dl: cas_op "deactivate_local_race race_id" for race_id
  by unfold_locales
    (auto simp: deactivate_local_race_def committed_def Let_def split: if_splits)

interpretation bump: cas_op bump_revision
  by unfold_locales (auto simp: bump_revision_def committed_def Let_def split: if_splits)

interpretation tod: cas_op "set_runtime_time_of_day sid preset" for sid preset
  by unfold_locales
    (auto simp: set_runtime_time_of_day_def committed_def Let_def split: if_splits option.splits sum.splits)

interpretation pend: cas_op "set_pending_sandbox_activation p" for p
  by unfold_locales
    (auto simp: set_pending_sandbox_activation_def committed_def Let_def split: if_splits sum.splits)

interpretation cancel: cas_guard "cancel_pending_sandbox_activation sid" for sid
  by unfold_locales
    (auto simp: cancel_pending_sandbox_activation_def Let_def split: if_splits)

section \<open>Commands read as requests\<close>

primrec reply_error :: "reply \<Rightarrow> worker_error option" where
  "reply_error (ReplyCar r) = err_of r"
| "reply_error (ReplyControls r) = err_of r"
| "reply_error (ReplyState r) = err_of r"
| "reply_error (ReplyMetrics r) = err_of r"
| "reply_error (ReplyDimensions r) = err_of r"
| "reply_error (ReplyUnit r) = err_of r"
| "reply_error (ReplyCount r) = err_of r"
| "reply_error (ReplyTrack r) = err_of r"
| "reply_error (ReplyDuration r) = err_of r"
| "reply_error (ReplyRuntime r) = err_of r"
| "reply_error (ReplyCancel r) = err_of r"

definition guarded_revision :: "engine_command \<Rightarrow> u64 option" where
  "guarded_revision cmd =
     (case cmd of
        SwitchRuntime e _ _ _ _ _ \<Rightarrow> Some e
      | SetRuntimeTimeOfDay e _ _ \<Rightarrow> Some e
      | SetPendingSandboxActivation e _ \<Rightarrow> Some e
      | CancelPendingSandboxActivation e _ \<Rightarrow> Some e
      | DeactivateSandbox e _ \<Rightarrow> Some e
      | ActivateLocalRace e _ _ _ _ \<Rightarrow> Some e
      | DeactivateLocalRace e _ \<Rightarrow> Some e
      | BumpRevision e \<Rightarrow> Some e
      | _ \<Rightarrow> None)"

definition world_of :: "engine_command \<Rightarrow> command_target option" where
  "world_of cmd =
     (case cmd of
        SpawnCar t \<Rightarrow> Some t | SetControls t _ _ \<Rightarrow> Some t | ReadCarState t _ \<Rightarrow> Some t
      | ReadCarRaceMetrics t _ \<Rightarrow> Some t | ReadCarDimensions t _ \<Rightarrow> Some t
      | SetCarBackToTrack t _ \<Rightarrow> Some t | SetCarBeforeFinishLine t _ \<Rightarrow> Some t
      | SetCarRandomOnTrack t _ \<Rightarrow> Some t | SetCarAtStartPos t _ _ \<Rightarrow> Some t
      | SetCarToPitstop t _ \<Rightarrow> Some t | SetCarTyreType t _ _ \<Rightarrow> Some t
      | ForceSetCarTyreType t _ _ \<Rightarrow> Some t | GetNumberOfStartPos t \<Rightarrow> Some t
      | GetTrackData t \<Rightarrow> Some t | GetRaceDuration t \<Rightarrow> Some t
      | SetGhostModeSettings t _ \<Rightarrow> Some t | DespawnCar t _ \<Rightarrow> Some t
      | SetWeather sid _ _ \<Rightarrow> Some (TargetSandbox sid)
      | _ \<Rightarrow> None)"

lemmas guarded_mismatch = sw.mismatch da.mismatch al.mismatch dl.mismatch bump.mismatch
  tod.mismatch pend.mismatch cancel.mismatch

lemma guarded_command_mismatch:
  assumes "guarded_revision cmd = Some e" "rt_revision (w_runtime w) \<noteq> e"
  shows "snd (handle_command env cmd w) = w \<and>
     reply_error (fst (handle_command env cmd w)) = Some (RevisionMismatch e (rt_revision (w_runtime w)))"
  using assms by (cases cmd) (simp_all add: guarded_revision_def answer_def guarded_mismatch)

lemmas guarded_success = sw.success_reply da.success_reply al.success_reply dl.success_reply
  bump.success_reply tod.success_reply pend.success_reply

lemmas guarded_failure = sw.failure_reply da.failure_reply al.failure_reply dl.failure_reply
  bump.failure_reply tod.failure_reply pend.failure_reply cancel.failure_reply

lemma guarded_command_success:
  assumes "guarded_revision cmd = Some e" "\<forall>e s. cmd \<noteq> CancelPendingSandboxActivation e s"
    and "reply_error (fst (handle_command env cmd w)) = None"
  shows "rt_revision (w_runtime w) = e \<and>
     rt_revision (w_runtime (snd (handle_command env cmd w))) = sat_add e 1"
  using assms by (cases cmd) (simp_all add: guarded_revision_def answer_def guarded_success)

lemma guarded_command_failure:
  assumes "guarded_revision cmd = Some e" "reply_error (fst (handle_command env cmd w)) \<noteq> None"
  shows "snd (handle_command env cmd w) = w\<lparr>w_init := w_init (snd (handle_command env cmd w))\<rparr>"
  using assms by (cases cmd) (auto simp: guarded_revision_def answer_def intro!: guarded_failure)

lemma sat_add_1: "sat_add v 1 = (if v = - 1 then - 1 else v + 1)" for v :: u64
proof (cases "v = - 1")
  case True
  have "sat_add (- 1) 1 = (- 1 :: u64)" by code_simp
  with True show ?thesis by simp
next
  case False
  then have "1 + v \<noteq> 0" by (metis add.commute eq_neg_iff_add_eq_0)
  then have s: "unat (1 + v) = Suc (unat v)" by (rule unatSuc)
  have b: "unat v + 1 \<le> 2 ^ LENGTH(64) - 1" using unat_bound [of "1 + v"] s by (metis Suc_eq_plus1)
  have "unat (sat_add v 1) = unat v + 1" by (simp only: unat_sat_add unat_1 min_absorb1 [OF b])
  with s False show ?thesis by (metis Suc_eq_plus1 add.commute word_unat_eq_iff)
qed

lemma drop_pending_absent: "s \<notin> pd_sandbox_id ` set (rt_pending rt) \<Longrightarrow> drop_pending s rt = rt"
proof -
  assume "s \<notin> pd_sandbox_id ` set (rt_pending rt)"
  then have "filter (\<lambda>p. pd_sandbox_id p \<noteq> s) (rt_pending rt) = rt_pending rt" by (intro filter_True) auto
  then show ?thesis by (simp add: drop_pending_def)
qed

lemma drop_pending_length:
  "length (rt_pending (drop_pending s rt)) = length (rt_pending rt) \<longleftrightarrow> s \<notin> pd_sandbox_id ` set (rt_pending rt)"
proof
  assume len: "length (rt_pending (drop_pending s rt)) = length (rt_pending rt)"
  show "s \<notin> pd_sandbox_id ` set (rt_pending rt)"
  proof
    assume "s \<in> pd_sandbox_id ` set (rt_pending rt)"
    then obtain p where "p \<in> set (rt_pending rt)" "\<not> pd_sandbox_id p \<noteq> s" by auto
    then have "length (filter (\<lambda>p. pd_sandbox_id p \<noteq> s) (rt_pending rt)) < length (rt_pending rt)"
      by (rule length_filter_less)
    with len show False by simp
  qed
qed (simp add: drop_pending_absent)

lemma cancel_accepted:
  assumes "cancel_pending_sandbox_activation s e w = (Inr r, w')"
  shows "rt_revision (w_runtime w) = e \<and>
    (if s \<notin> pd_sandbox_id ` set (rt_pending (w_runtime w)) then w' = w
     else rt_revision (w_runtime w') = sat_add e 1)"
  using assms drop_pending_length [of s "w_runtime w"]
  by (auto simp: cancel_pending_sandbox_activation_def Let_def drop_pending_absent split: if_splits)

lemma guarded_command_accepted:
  assumes "guarded_revision cmd = Some e" "reply_error (fst (handle_command env cmd w)) = None"
  shows "rt_revision (w_runtime w) = e \<and>
     (if \<exists>s. cmd = CancelPendingSandboxActivation e s \<and> s \<notin> pd_sandbox_id ` set (rt_pending (w_runtime w))
      then snd (handle_command env cmd w) = w
      else rt_revision (w_runtime (snd (handle_command env cmd w))) = sat_add e 1)"
proof (cases "\<exists>e s. cmd = CancelPendingSandboxActivation e s")
  case True
  then obtain s where c: "cmd = CancelPendingSandboxActivation e s" using assms(1) by (auto simp: guarded_revision_def)
  obtain r w' where o: "cancel_pending_sandbox_activation s e w = (r, w')" by (metis prod.exhaust)
  with assms(2) c obtain v where "r = Inr v" by (auto simp: answer_def err_of_None)
  with cancel_accepted [of s e w v w'] o c show ?thesis by (simp add: answer_def)
next
  case False
  then show ?thesis using guarded_command_success [OF assms(1) _ assms(2)] by auto
qed

section \<open>The revision along a run\<close>

lemma rt_put_slot_revision: "with_target_slot_mut t op w = (r, w') \<Longrightarrow>
   rt_revision (w_runtime w) \<le> rt_revision (w_runtime w')"
  by (simp add: w_runtime_with_target_slot)

lemma set_weather_revision:
  "set_weather_command env sid weather now w = (r, w') \<Longrightarrow> rt_revision (w_runtime w') = rt_revision (w_runtime w)"
  by (auto simp: set_weather_command_def Let_def dest!: w_runtime_with_target_slot
      split: prod.splits sum.splits if_splits)

lemma cancel_revision:
  "cancel_pending_sandbox_activation sid rv w = (r, w') \<Longrightarrow> rt_revision (w_runtime w) \<le> rt_revision (w_runtime w')"
  by (auto simp: cancel_pending_sandbox_activation_def Let_def sat_add_ge split: if_splits)

lemma handle_command_revision:
  "rt_revision (w_runtime w) \<le> rt_revision (w_runtime (snd (handle_command env cmd w)))"
proof -
  note mono = sw.revision_mono da.revision_mono al.revision_mono dl.revision_mono bump.revision_mono
    tod.revision_mono pend.revision_mono cancel_revision rt_put_slot_revision
  show ?thesis
    by (cases cmd)
      (auto simp: answer_def set_weather_revision [OF prod.collapse [symmetric]]
        intro: mono [OF prod.collapse [symmetric]])
qed

lemma execute_due_revision:
  "execute_due env due w = (r, w') \<Longrightarrow> rt_revision (w_runtime w) \<le> rt_revision (w_runtime w')"
proof (induction due arbitrary: w)
  case (Cons p due)
  have step: "rt_revision (w_runtime w) \<le> rt_revision (w_runtime w')"
    if "rt_revision (w_runtime w) \<le> rt_revision (w_runtime w1)"
       "execute_due env due (w1\<lparr>w_runtime := drop_pending s (w_runtime w1)\<rparr>) = (r, w')" for w1 s
    using Cons.IH [OF that(2)] that(1) by simp
  show ?case
    using Cons.prems
    by (auto simp: Let_def split: if_splits option.splits prod.splits sum.splits
        intro: step sw.revision_mono da.revision_mono)
qed simp

lemma maybe_execute_revision:
  "rt_revision (w_runtime w) \<le>
   rt_revision (w_runtime (snd (maybe_execute_due_pending_sandbox_activation env now w)))"
  by (auto simp: maybe_execute_due_pending_sandbox_activation_def Let_def
      intro: execute_due_revision prod.collapse [symmetric])

lemma handle_event_revision:
  "rt_revision (w_runtime w) \<le> rt_revision (w_runtime (snd (handle_event env ev w)))"
proof (cases ev)
  case (CommandReceived cmd now)
  then show ?thesis
    by (auto simp: handle_event_def case_prod_unfold Let_def
        intro!: order.trans [OF handle_command_revision maybe_execute_revision])
next
  case (Tick now)
  have "rt_revision (w_runtime w) \<le> rt_revision (w_runtime (worker_tick env now w))"
    by (auto simp: worker_tick_def stop_worker_def Let_def
        split: activity_kind.splits option.splits intro: order.trans [OF _ maybe_execute_revision])
  with Tick show ?thesis by (simp add: handle_event_def)
qed (auto simp: handle_event_def stop_worker_def worker_weather_tick_def weather_slot_def
    run_sandbox_loop_tick_def split: activity_kind.splits option.splits prod.splits)

section \<open>Worlds\<close>

fun world :: "command_target \<Rightarrow> 'n worker \<Rightarrow> 'n world_slot option" where
  "world TargetOfficialRace w = w_official w"
| "world (TargetLocalRace race_id) w = hm_get (w_local w) race_id"
| "world (TargetSandbox sandbox_id) w = hm_get (w_sandboxes w) sandbox_id"

lemma world_put_slot: "world t (put_slot t' slot w) = (if t = t' then Some slot else world t w)"
  by (cases t; cases t') auto

lemma with_target_slot_frame:
  "with_target_slot_mut t op w = (r, w') \<Longrightarrow>
   w_runtime w' = w_runtime w \<and> (\<forall>t'. t' \<noteq> t \<longrightarrow> world t' w' = world t' w)"
  by (auto simp: with_target_slot_mut_def world_put_slot split: sum.splits prod.splits)

lemma update_first_split:
  "list_ex P xs \<Longrightarrow> \<exists>ys y zs. xs = ys @ y # zs \<and> P y \<and> update_first P f xs = ys @ f y # zs"
proof (induction xs)
  case (Cons a xs)
  show ?case
  proof (cases "P a")
    case True
    then show ?thesis by (intro exI [of _ "[]"] exI [of _ a] exI [of _ xs]) simp
  next
    case False
    with Cons obtain ys y zs where "xs = ys @ y # zs" "P y" "update_first P f xs = ys @ f y # zs" by auto
    with False show ?thesis by (intro exI [of _ "a # ys"] exI [of _ y] exI [of _ zs]) simp
  qed
qed simp

lemma set_weather_frame:
  assumes "set_weather_command env sid params now w = (r, w')"
  shows "(\<forall>t. t \<noteq> TargetSandbox sid \<longrightarrow> world t w' = world t w) \<and>
    (case r of
       Inl _ \<Rightarrow> w_runtime w' = w_runtime w
     | Inr _ \<Rightarrow> \<exists>xs x ys. rt_active_sandboxes (w_runtime w) = xs @ x # ys \<and> sb_sandbox_id x = sid \<and>
         w_runtime w' = (w_runtime w)\<lparr>rt_active_sandboxes := xs @ x\<lparr>sb_weather_now := Some now\<rparr> # ys\<rparr>)"
proof -
  obtain r1 w1 where o: "with_target_slot_mut (TargetSandbox sid) (on_engine (engine_set_weather (env_api env) params)) w = (r1, w1)"
    by (metis prod.exhaust)
  have rt: "world t (w1\<lparr>w_runtime := rt\<rparr>) = world t w1" for t rt by (cases t) simp_all
  note f = with_target_slot_frame [OF o]
  show ?thesis
  proof (cases "\<exists>u. r1 = Inr u \<and> list_ex (\<lambda>e. sb_sandbox_id e = sid) (rt_active_sandboxes (w_runtime w))")
    case True
    then obtain u where u: "r1 = Inr u" and ex: "list_ex (\<lambda>e. sb_sandbox_id e = sid) (rt_active_sandboxes (w_runtime w))" by blast
    obtain xs x ys where sp: "rt_active_sandboxes (w_runtime w) = xs @ x # ys" "sb_sandbox_id x = sid"
      "update_first (\<lambda>e. sb_sandbox_id e = sid) (\<lambda>e. e\<lparr>sb_weather_now := Some now\<rparr>) (rt_active_sandboxes (w_runtime w)) =
         xs @ x\<lparr>sb_weather_now := Some now\<rparr> # ys"
      using update_first_split [OF ex, of "\<lambda>e. e\<lparr>sb_weather_now := Some now\<rparr>"] by (elim exE conjE)
    have "r = Inr ()" "w' = w1\<lparr>w_runtime := (w_runtime w)\<lparr>rt_active_sandboxes := xs @ x\<lparr>sb_weather_now := Some now\<rparr> # ys\<rparr>\<rparr>"
      using assms o u f ex sp(3) by (simp_all add: set_weather_command_def Let_def)
    with f rt sp show ?thesis by (simp; blast)
  next
    case False
    then show ?thesis
      using assms o f rt by (cases r1) (auto simp: set_weather_command_def Let_def)
  qed
qed

lemma handle_command_frame:
  assumes "world_of cmd = Some t" "\<not> (\<exists>sid params now. cmd = SetWeather sid params now)"
  shows "w_runtime (snd (handle_command env cmd w)) = w_runtime w \<and>
     (\<forall>t'. t' \<noteq> t \<longrightarrow> world t' (snd (handle_command env cmd w)) = world t' w)"
proof -
  have "w_runtime (snd (with_target_slot_mut t op w)) = w_runtime w \<and>
     (\<forall>t'. t' \<noteq> t \<longrightarrow> world t' (snd (with_target_slot_mut t op w)) = world t' w)" for op :: "('a, 'b) slot_op"
    by (rule with_target_slot_frame) (rule prod.collapse [symmetric])
  then show ?thesis
    using assms by (cases cmd) (simp_all add: world_of_def answer_def with_target_slot_frame [OF prod.collapse [symmetric]])
qed

lemma target_slot_sandbox:
  assumes "worker_ok w"
  shows "target_slot (TargetSandbox sid) w =
    (if sid \<in> set (sandbox_ids (w_runtime w)) then Inr (the (hm_get (w_sandboxes w) sid))
     else if blank sid then Inl (InvalidArgument ''sandbox_id must be non-empty'')
     else Inl (InvalidArgument ''sandbox_id does not match active sandbox session''))"
proof -
  have keys: "sid \<in> set (sandbox_ids (w_runtime w)) \<longleftrightarrow> hm_get (w_sandboxes w) sid \<noteq> None"
    using assms set_hm_keys_iff [of sid "w_sandboxes w"] by (simp add: worker_ok_def sandboxes_ok_def)
  have "\<not> blank sid" if "sid \<in> set (sandbox_ids (w_runtime w))"
    using that assms by (auto simp: worker_ok_defs)
  with keys show ?thesis by (auto simp: target_slot_def ok_or_def split: option.splits)
qed

section \<open>Scheduled activations\<close>

text \<open>
  When every due entry executes, none is left, the others are untouched, and each sandbox is
  in the state its entry asked for.
\<close>

lemma sandbox_ids_next [simp]:
  "sandbox_ids (next_revision rt) = sandbox_ids rt" "sandbox_ids (drop_pending s rt) = sandbox_ids rt"
  by (simp_all add: sandbox_ids_def)

text \<open>The effect of one executed entry on the sandboxes and on the queue.\<close>

lemma execute_entry:
  assumes ok: "worker_ok w" and p: "p \<in> set (rt_pending (w_runtime w))"
    and run: "execute_due env (p # due) w = (r, w')"
  shows "(\<exists>err. r = Inl err \<and> w' = w\<lparr>w_init := w_init w'\<rparr> \<and> pd_activate p) \<or>
     (\<exists>w1. worker_ok w1 \<and> execute_due env due w1 = (r, w') \<and>
        rt_pending (w_runtime w1) = filter (\<lambda>q. pd_sandbox_id q \<noteq> pd_sandbox_id p) (rt_pending (w_runtime w)) \<and>
        set (sandbox_ids (w_runtime w1)) =
          (if pd_activate p then insert (pd_sandbox_id p) (set (sandbox_ids (w_runtime w)))
           else set (sandbox_ids (w_runtime w)) - {pd_sandbox_id p}))"
proof (cases "pd_activate p")
  case True
  have pl: "payload_ok p" "pd_sandbox_id p \<notin> set (sandbox_ids (w_runtime w))"
    using ok p True by (auto simp: worker_ok_def pending_ok_def)
  then obtain m t g where v: "pd_map_id p = Some m" "pd_time_of_day_preset p = Some t"
    "pd_ghost_mode_settings p = Some g"
    using True by (auto simp: payload_ok_def)
  let ?sw = "switch_runtime env ActSandbox m (Some (pd_sandbox_id p)) t (Some g) (rt_revision (w_runtime w)) w"
  obtain r1 w1 where sw: "?sw = (r1, w1)" by fastforce
  have ok1: "worker_ok w1" by (rule switch_runtime_ok [OF ok sw])
  show ?thesis
  proof (cases r1)
    case (Inl err)
    then have "r = Inl err" "w' = w1" using run True pl v sw by (simp_all add: Let_def)
    with Inl sw switch_runtime_Inl True show ?thesis by fastforce
  next
    case (Inr rt1)
    let ?w2 = "w1\<lparr>w_runtime := drop_pending (pd_sandbox_id p) (w_runtime w1)\<rparr>"
    have run2: "execute_due env due ?w2 = (r, w')"
      using run True pl v sw Inr by (simp add: Let_def)
    have "w_runtime w1 = rt1" "rt_pending rt1 = filter (\<lambda>q. pd_sandbox_id q \<noteq> pd_sandbox_id p) (rt_pending (w_runtime w))"
      "set (sandbox_ids rt1) = insert (pd_sandbox_id p) (set (sandbox_ids (w_runtime w)))"
      using switch_runtime_Sandbox [OF sw [unfolded Inr]] by (auto simp: sandbox_ids_def)
    then show ?thesis
      using run2 worker_ok_drop [OF ok1] True by (intro disjI2 exI [of _ ?w2]) simp
  qed
next
  case False
  have "\<not> blank (pd_sandbox_id p)" using ok p by (auto simp: worker_ok_def pending_ok_def payload_ok_def)
  obtain r1 w1 where de: "deactivate_sandbox (pd_sandbox_id p) (rt_revision (w_runtime w)) w = (r1, w1)"
    by fastforce
  have ok1: "worker_ok w1" by (rule deactivate_sandbox_ok [OF ok de])
  obtain rt1 where Inr: "r1 = Inr rt1"
    using de \<open>\<not> blank (pd_sandbox_id p)\<close>
    by (auto simp: deactivate_sandbox_def committed_def Let_def split: if_splits)
  let ?w2 = "w1\<lparr>w_runtime := drop_pending (pd_sandbox_id p) (w_runtime w1)\<rparr>"
  have "distinct (sandbox_ids (w_runtime w))" using ok by (simp add: worker_ok_def sandboxes_ok_def)
  note d = deactivate_sandbox_Inr [OF de [unfolded Inr] this]
  have run2: "execute_due env due ?w2 = (r, w')" using run False de Inr by (simp add: Let_def)
  have "set (sandbox_ids rt1) = set (sandbox_ids (w_runtime w)) - {pd_sandbox_id p}"
    using d by (auto simp: sandbox_ids_def)
  then show ?thesis
    using run2 worker_ok_drop [OF ok1] False d by (intro disjI2 exI [of _ ?w2]) simp
qed

lemma execute_due_effect:
  assumes "worker_ok w" "set due \<subseteq> set (rt_pending (w_runtime w))" "distinct (map pd_sandbox_id due)"
    and "execute_due env due w = (Inr (), w')"
  shows "rt_pending (w_runtime w') = filter (\<lambda>q. pd_sandbox_id q \<notin> pd_sandbox_id ` set due) (rt_pending (w_runtime w)) \<and>
     set (sandbox_ids (w_runtime w')) =
       {s \<in> set (sandbox_ids (w_runtime w)). s \<notin> pd_sandbox_id ` set due} \<union>
       pd_sandbox_id ` {q \<in> set due. pd_activate q}"
  using assms
proof (induction due arbitrary: w)
  case (Cons p due)
  obtain w1 where w1: "worker_ok w1" "execute_due env due w1 = (Inr (), w')"
    "rt_pending (w_runtime w1) = filter (\<lambda>q. pd_sandbox_id q \<noteq> pd_sandbox_id p) (rt_pending (w_runtime w))"
    "set (sandbox_ids (w_runtime w1)) =
       (if pd_activate p then insert (pd_sandbox_id p) (set (sandbox_ids (w_runtime w)))
        else set (sandbox_ids (w_runtime w)) - {pd_sandbox_id p})"
    using execute_entry [OF Cons.prems(1) _ Cons.prems(4)] Cons.prems(2) by auto
  have sub: "set due \<subseteq> set (rt_pending (w_runtime w1))"
    using Cons.prems(2,3) unfolding w1(3) by (auto simp: image_iff)
  note IH = Cons.IH [OF w1(1) sub _ w1(2)]
  have "rt_pending (w_runtime w') =
      filter (\<lambda>q. pd_sandbox_id q \<notin> pd_sandbox_id ` set (p # due)) (rt_pending (w_runtime w))"
    using IH Cons.prems(3) unfolding w1(3) by (auto intro!: filter_cong)
  moreover have "set (sandbox_ids (w_runtime w')) =
      {s \<in> set (sandbox_ids (w_runtime w)). s \<notin> pd_sandbox_id ` set (p # due)} \<union>
       pd_sandbox_id ` {q \<in> set (p # due). pd_activate q}"
    using IH Cons.prems(3) unfolding w1(4) by (auto split: if_splits)
  ultimately show ?case ..
qed auto

section \<open>Failing scheduled activations\<close>

lemma execute_due_error:
  assumes "worker_ok w" "set due \<subseteq> set (rt_pending (w_runtime w))" "distinct (map pd_sandbox_id due)"
    and "execute_due env due w = (Inl err, w')"
  shows "\<exists>executed p rest. due = executed @ p # rest \<and> pd_activate p \<and>
     rt_pending (w_runtime w') =
       filter (\<lambda>q. pd_sandbox_id q \<notin> pd_sandbox_id ` set executed) (rt_pending (w_runtime w)) \<and>
     set (p # rest) \<subseteq> set (rt_pending (w_runtime w'))"
  using assms
proof (induction due arbitrary: w)
  case (Cons p due)
  from execute_entry [OF Cons.prems(1) _ Cons.prems(4)] Cons.prems(2)
  consider "w' = w\<lparr>w_init := w_init w'\<rparr>" "pd_activate p"
    | w1 where "worker_ok w1" "execute_due env due w1 = (Inl err, w')"
      "rt_pending (w_runtime w1) = filter (\<lambda>q. pd_sandbox_id q \<noteq> pd_sandbox_id p) (rt_pending (w_runtime w))"
    by auto
  then show ?case
  proof cases
    case 1
    then have "w_runtime w' = w_runtime w"
      by (metis worker.select_convs(3) worker.surjective worker.update_convs(5))
    with 1 Cons.prems(2) show ?thesis by (intro exI [of _ "[]"]) auto
  next
    case (2 w1)
    have sub: "set due \<subseteq> set (rt_pending (w_runtime w1))"
      using Cons.prems(2,3) unfolding 2(3) by (auto simp: image_iff)
    obtain executed q rest where IH: "due = executed @ q # rest" "pd_activate q"
      "rt_pending (w_runtime w') =
         filter (\<lambda>q. pd_sandbox_id q \<notin> pd_sandbox_id ` set executed) (rt_pending (w_runtime w1))"
      "set (q # rest) \<subseteq> set (rt_pending (w_runtime w'))"
      using Cons.IH [OF 2(1) sub _ 2(2)] Cons.prems(3) by auto
    have "rt_pending (w_runtime w') =
        filter (\<lambda>q. pd_sandbox_id q \<notin> pd_sandbox_id ` set (p # executed)) (rt_pending (w_runtime w))"
      unfolding IH(3) 2(3) by (auto intro!: filter_cong)
    with IH show ?thesis by (intro exI [of _ "p # executed"]) auto
  qed
qed simp

lemma due_entries_facts:
  assumes "worker_ok w"
  shows "set (due_entries now (rt_pending (w_runtime w))) \<subseteq> set (rt_pending (w_runtime w))"
    "distinct (map pd_sandbox_id (due_entries now (rt_pending (w_runtime w))))"
    "set (due_entries now (rt_pending (w_runtime w))) =
       {p \<in> set (rt_pending (w_runtime w)). pd_execute_at_unix_ms p \<le> now}"
proof -
  let ?f = "filter (\<lambda>p. pd_execute_at_unix_ms p \<le> now) (rt_pending (w_runtime w))"
  have "distinct (map pd_sandbox_id ?f)"
    using assms by (simp add: worker_ok_def pending_ok_def distinct_map_filter)
  moreover have "mset (map pd_sandbox_id (due_entries now (rt_pending (w_runtime w)))) = mset (map pd_sandbox_id ?f)"
    by (simp add: due_entries_def)
  ultimately show "distinct (map pd_sandbox_id (due_entries now (rt_pending (w_runtime w))))"
    by (metis mset_eq_imp_distinct_iff)
qed (auto simp: due_entries_def)

section \<open>A small worker\<close>

definition sample_env :: "u64 list worker_env" where
  "sample_env =
     \<lparr>env_features = \<lparr>official = False, local_mode = True, standalone = False\<rparr>,
      env_api = sample_api, env_tracks_dir = ''tracks'', env_local_tracks_cache_dir = ''cache'',
      env_bolids_dir = ''bolids'', env_debug_drawer_enabled = False, env_dt = Fin (1 / 64),
      env_is_dir = (\<lambda>_. Inr True), env_read_dir = (\<lambda>_. Inr []), env_is_file = (\<lambda>_. True)\<rparr>"

definition sample_activation :: "engine_command" where
  "sample_activation = SwitchRuntime 0 ActSandbox ''m1'' (Some ''s1'') (Some TodNoon) None"


lemma sample_env_sel [simp]:
  "env_features sample_env = \<lparr>official = False, local_mode = True, standalone = False\<rparr>"
  "env_api sample_env = sample_api" "env_local_tracks_cache_dir sample_env = ''cache''"
  "env_bolids_dir sample_env = ''bolids''" "env_debug_drawer_enabled sample_env = False"
  by (simp_all add: sample_env_def)

lemma sample_api_sel [simp]:
  "n_get_c_api_version sample_api = (BOINK_OK, 1, 0, 0)" "n_init sample_api d = BOINK_OK"
  "n_create_vehicle_mesh sample_api p = (BOINK_OK, 1)" "n_create_race sample_api p = Some []"
  "n_disable_ghost_mode sample_api vs = (vs, BOINK_OK)"
  by (simp_all add: sample_api_def)

lemma sample_map_ok: "validate_map_id (env_features sample_env) ''m1'' = Inr ()"
  by (simp add: validate_map_id_def is_ascii_alphanumeric_def Let_def)

lemma car_model_valid: "validate_vehicle_model (car_model 1) = Inr ()"
  by code_simp

lemma sample_init:
  "initialize_runtime sample_api False None = (Inr (), Some (Inr False))"
  "initialize_runtime sample_api False (Some (Inr False)) = (Inr (), Some (Inr False))"
  by code_simp+

lemma sample_path: "to_cstring (path_join ''bolids'' ''F1_CAR_06.glb'') = Inr ''bolids/F1_CAR_06.glb''"
  "to_cstring (path_join ''cache'' ''m1.glb'') = Inr ''cache/m1.glb''"
  by (simp_all add: to_cstring_def path_join_def)

lemma sample_build:
  "\<exists>slot. build_world sample_env ''m1'' DEFAULT_GHOST_MODE_SETTINGS None = (Inr slot, Some (Inr False))"
  using sample_map_ok
  by (simp add: car_model_valid [simplified] build_world_def build_engine_def sample_init vehicle_mesh_load_def sample_path engine_build_def
      with_debug_drawer_def engine_builder_new_def engine_new_def engine_err_def
      engine_set_ghost_mode_settings_def DEFAULT_GHOST_MODE_SETTINGS_def native_unit_def status_result_def)

definition sample_worker :: "u64 list worker" where
  "sample_worker = snd (handle_event sample_env (CommandReceived sample_activation 0) (spawn_worker None))"

lemma sample_worker_run:
  "\<exists>slot. sample_worker = (spawn_worker None)
     \<lparr>w_runtime := \<lparr>rt_revision = 1, rt_activity_kind = ActSandbox, rt_map_id = ''test'',
        rt_active_local_race = None,
        rt_active_sandboxes = [\<lparr>sb_sandbox_id = ''s1'', sb_map_id = ''m1'',
          sb_time_of_day_preset = TodNoon, sb_weather_now = None\<rparr>],
        rt_time_of_day_preset = TodNoon, rt_pending = []\<rparr>,
      w_sandboxes := [(''s1'', slot)], w_init := Some (Inr False)\<rparr>"
proof -
  obtain slot where b: "build_world sample_env ''m1'' DEFAULT_GHOST_MODE_SETTINGS None =
      (Inr slot, Some (Inr False))"
    using sample_build by blast
  have "sat_add 0 1 = (1 :: u64)" by code_simp
  then show ?thesis
    by (auto simp: sample_worker_def handle_event_def sample_activation_def spawn_worker_def
        switch_runtime_def committed_def answer_def sample_map_ok [simplified] upsert_active_sandbox_def
        maybe_execute_due_pending_sandbox_activation_def sandbox_ids_def next_revision_def
        drop_pending_def is_sandbox_active_def b Let_def DEFAULT_MAP_ID_def hm_insert_def
        simp del: is_sandbox_active_iff)
qed

lemma sample_worker_state:
  "sandbox_ids (w_runtime sample_worker) = [''s1'']" "rt_revision (w_runtime sample_worker) = 1"
  "rt_activity_kind (w_runtime sample_worker) = ActSandbox" "rt_pending (w_runtime sample_worker) = []"
  "w_running sample_worker" "w_init sample_worker = Some (Inr False)"
proof -
  obtain slot where eq: "sample_worker = (spawn_worker None)
     \<lparr>w_runtime := \<lparr>rt_revision = 1, rt_activity_kind = ActSandbox, rt_map_id = ''test'',
        rt_active_local_race = None,
        rt_active_sandboxes = [\<lparr>sb_sandbox_id = ''s1'', sb_map_id = ''m1'',
          sb_time_of_day_preset = TodNoon, sb_weather_now = None\<rparr>],
        rt_time_of_day_preset = TodNoon, rt_pending = []\<rparr>,
      w_sandboxes := [(''s1'', slot)], w_init := Some (Inr False)\<rparr>"
    using sample_worker_run by blast
  show "sandbox_ids (w_runtime sample_worker) = [''s1'']" "rt_revision (w_runtime sample_worker) = 1"
    "rt_activity_kind (w_runtime sample_worker) = ActSandbox" "rt_pending (w_runtime sample_worker) = []"
    "w_running sample_worker" "w_init sample_worker = Some (Inr False)"
    by (simp_all add: eq sandbox_ids_def spawn_worker_def)
qed

lemma sample_worker_reachable: "reachable sample_env sample_worker"
  unfolding sample_worker_def
  by (rule reach_event [OF reach_init prod.collapse [symmetric]])

text \<open>The same worker with one entry scheduled for time 100.\<close>

definition sample_deactivation :: pending_sandbox_activation where
  "sample_deactivation =
     \<lparr>pd_activate = False, pd_sandbox_id = ''s1'', pd_execute_at_unix_ms = 100, pd_map_id = None,
      pd_time_of_day_preset = None, pd_ghost_mode_settings = None\<rparr>"

definition sample_bad_activation :: pending_sandbox_activation where
  "sample_bad_activation =
     \<lparr>pd_activate = True, pd_sandbox_id = ''s2'', pd_execute_at_unix_ms = 100, pd_map_id = Some ''m/1'',
      pd_time_of_day_preset = Some TodNoon, pd_ghost_mode_settings = Some DEFAULT_GHOST_MODE_SETTINGS\<rparr>"

definition sample_scheduled :: "pending_sandbox_activation \<Rightarrow> u64 list worker" where
  "sample_scheduled p = snd (handle_event sample_env
     (CommandReceived (SetPendingSandboxActivation 1 p) 0) sample_worker)"

lemma sample_scheduled_reachable: "reachable sample_env (sample_scheduled p)"
  unfolding sample_scheduled_def
  by (rule reach_event [OF sample_worker_reachable prod.collapse [symmetric]])

lemma sample_scheduled_eq:
  assumes "payload_ok p" "pd_activate p \<longrightarrow> pd_sandbox_id p \<noteq> ''s1''" "pd_execute_at_unix_ms p = 100"
  shows "sample_scheduled p =
     sample_worker\<lparr>w_runtime := (w_runtime sample_worker)\<lparr>rt_revision := sat_add 1 1, rt_pending := [p]\<rparr>\<rparr>"
proof -
  have "check_pending (w_runtime sample_worker) p = Inr ()"
    using assms by (simp add: check_pending_ok sample_worker_state)
  then show ?thesis
    using assms(3)
    by (simp add: sample_scheduled_def handle_event_def sample_worker_state answer_def
        set_pending_sandbox_activation_def committed_def Let_def next_revision_def
        maybe_execute_due_pending_sandbox_activation_def due_entries_def)
qed

section \<open>Properties\<close>

text \<open>
  C1. In every reachable state of a running worker the metadata and the worlds agree: the
  listed sandboxes have distinct, non-blank identifiers and a specified time of day and are
  exactly those with a world; the activity is a sandbox exactly when one is active, an official
  activity has its world and a local activity an active local race; the local worlds are exactly
  the world of the active local race. A sandbox has at most one pending entry; an entry that
  activates carries a map, a specified time of day and ghost settings and names a sandbox that is
  not active, one that deactivates carries none of them.
\<close>

theorem reachable_worker_consistent:
  assumes "reachable env w" "w_running w"
  shows "sandboxes_ok w \<and> activity_ok w \<and> local_ok w \<and> pending_ok (w_runtime w)"
  using reachable_worker_ok [OF assms(1)] assms(2) by (simp add: worker_ok_def)

theorem reachable_worker_consistent_witness:
  "sandboxes_ok sample_worker \<and> sandbox_ids (w_runtime sample_worker) = [''s1'']"
  using reachable_worker_consistent [OF sample_worker_reachable sample_worker_state(5)]
    sample_worker_state(1) by simp

text \<open>
  C2. A command that carries a revision is refused when the worker has another one: nothing
  changes and the reply names both revisions. When it is accepted the revision was the
  expected one and is now the next one (or still the largest number, once that is reached),
  except for a cancellation that finds no entry for its sandbox: it is accepted and changes
  nothing. When a command fails for another reason no world and no metadata has changed.
\<close>

theorem guarded_command_compare_and_swap:
  assumes "guarded_revision cmd = Some e"
  shows "(rt_revision (w_runtime w) \<noteq> e \<longrightarrow>
      snd (handle_command env cmd w) = w \<and>
      reply_error (fst (handle_command env cmd w)) =
        Some (RevisionMismatch e (rt_revision (w_runtime w)))) \<and>
    (reply_error (fst (handle_command env cmd w)) = None \<longrightarrow>
      rt_revision (w_runtime w) = e \<and>
      (if \<exists>s. cmd = CancelPendingSandboxActivation e s \<and> s \<notin> pd_sandbox_id ` set (rt_pending (w_runtime w))
       then snd (handle_command env cmd w) = w
       else rt_revision (w_runtime (snd (handle_command env cmd w))) = (if e = - 1 then - 1 else e + 1))) \<and>
    (reply_error (fst (handle_command env cmd w)) \<noteq> None \<longrightarrow>
      snd (handle_command env cmd w) = w\<lparr>w_init := w_init (snd (handle_command env cmd w))\<rparr>)"
  unfolding sat_add_1 [of e, symmetric]
  by (intro conjI [of "_ \<longrightarrow> _"] impI) (rule guarded_command_mismatch [OF assms] guarded_command_accepted [OF assms]
      guarded_command_failure [OF assms], assumption)+

theorem guarded_command_compare_and_swap_witness:
  "reply_error (fst (handle_command sample_env (BumpRevision 7) sample_worker)) =
     Some (RevisionMismatch 7 1)"
  using guarded_command_compare_and_swap [of "BumpRevision 7" 7 sample_worker sample_env]
  by (simp add: guarded_revision_def sample_worker_state)

text \<open>
  Of two clients that read the same revision at most one wins: once a guarded command
  other than a cancellation has been accepted, any guarded command with the same revision is
  refused, as long as the revision counter has not reached its maximum.
\<close>

theorem guarded_commands_exclude:
  assumes "guarded_revision c1 = Some e" "guarded_revision c2 = Some e"
    and "\<forall>e s. c1 \<noteq> CancelPendingSandboxActivation e s"
    and "reply_error (fst (handle_command env c1 w)) = None" "rt_revision (w_runtime w) \<noteq> - 1"
  shows "reply_error (fst (handle_command env c2 (snd (handle_command env c1 w)))) =
      Some (RevisionMismatch e (sat_add e 1)) \<and>
    snd (handle_command env c2 (snd (handle_command env c1 w))) = snd (handle_command env c1 w)"
  using guarded_command_success [OF assms(1,3,4)] assms(5) sat_add_1_neq [of e]
    guarded_command_mismatch [OF assms(2), of "snd (handle_command env c1 w)" env]
  by simp

theorem guarded_commands_exclude_witness:
  "reply_error (fst (handle_command sample_env (BumpRevision 1)
      (snd (handle_command sample_env (BumpRevision 1) sample_worker)))) =
     Some (RevisionMismatch 1 (sat_add 1 1))"
  using guarded_commands_exclude [of "BumpRevision 1" 1 "BumpRevision 1" sample_env sample_worker]
  by (simp add: guarded_revision_def sample_worker_state answer_def bump_revision_def committed_def Let_def)

text \<open>
  The revision a client sees never goes back: whatever event the worker handles, the
  revision afterwards is at least the revision before.
\<close>

theorem revision_never_decreases:
  "rt_revision (w_runtime w) \<le> rt_revision (w_runtime (snd (handle_event env ev w)))"
  by (rule handle_event_revision)

text \<open>
  C6. A command addressed to one world changes no other world, whatever it does and however it
  fails. It leaves the metadata as it is, but for a command that sets the weather of a sandbox:
  when it is accepted, the weather of that sandbox in the metadata becomes the new one and
  nothing else changes there.
\<close>

theorem command_touches_only_its_world:
  assumes "world_of cmd = Some target" "other \<noteq> target"
  shows "world other (snd (handle_command env cmd w)) = world other w \<and>
    (case cmd of
       SetWeather sid params weather_now \<Rightarrow>
         (if reply_error (fst (handle_command env cmd w)) = None
          then \<exists>xs x ys. rt_active_sandboxes (w_runtime w) = xs @ x # ys \<and> sb_sandbox_id x = sid \<and>
                 w_runtime (snd (handle_command env cmd w)) =
                   (w_runtime w)\<lparr>rt_active_sandboxes := xs @ x\<lparr>sb_weather_now := Some weather_now\<rparr> # ys\<rparr>
          else w_runtime (snd (handle_command env cmd w)) = w_runtime w)
     | _ \<Rightarrow> w_runtime (snd (handle_command env cmd w)) = w_runtime w)"
proof (cases "\<exists>sid params weather_now. cmd = SetWeather sid params weather_now")
  case True
  then obtain sid params now where c: "cmd = SetWeather sid params now" by blast
  obtain r w' where o: "set_weather_command env sid params now w = (r, w')" by (metis prod.exhaust)
  have t: "target = TargetSandbox sid" using assms(1) c by (simp add: world_of_def)
  show ?thesis
    using set_weather_frame [OF o] assms(2) c o t by (cases r) (simp_all add: answer_def)
next
  case False
  then show ?thesis
    using handle_command_frame [OF assms(1) False, of env w] assms(2) by (cases cmd) auto
qed

theorem command_touches_only_its_world_witness:
  "world (TargetSandbox ''s1'') (snd (handle_command sample_env (SpawnCar TargetOfficialRace) sample_worker)) =
   world (TargetSandbox ''s1'') sample_worker"
  using command_touches_only_its_world [of "SpawnCar TargetOfficialRace" TargetOfficialRace
      "TargetSandbox ''s1''" sample_env sample_worker]
  by (simp add: world_of_def)

text \<open>
  In a reachable state a sandbox the metadata lists can be addressed, and a request for
  any other sandbox is refused with the error for an unknown or a blank identifier; no
  error of the worker's own says that the sandbox runtime is not active.
\<close>

theorem sandbox_requests_reach_listed_sandboxes:
  assumes "reachable env w" "w_running w"
  shows "(case target_slot (TargetSandbox sid) w of
      Inr _ \<Rightarrow> sid \<in> set (sandbox_ids (w_runtime w))
    | Inl err \<Rightarrow> sid \<notin> set (sandbox_ids (w_runtime w)) \<and>
        (\<exists>msg. err = InvalidArgument msg \<and>
           msg \<in> {''sandbox_id must be non-empty'', ''sandbox_id does not match active sandbox session''} \<and>
           \<not> contains msg ''sandbox runtime is not active''))"
proof -
  have ok: "worker_ok w" using reachable_worker_ok [OF assms(1)] assms(2) by simp
  have "\<not> contains ''sandbox_id must be non-empty'' ''sandbox runtime is not active''"
    "\<not> contains ''sandbox_id does not match active sandbox session'' ''sandbox runtime is not active''"
    by (simp_all add: contains_def)
  then show ?thesis by (simp add: target_slot_sandbox [OF ok])
qed

theorem sandbox_requests_reach_listed_sandboxes_witness:
  "(\<exists>slot. target_slot (TargetSandbox ''s1'') sample_worker = Inr slot) \<and>
   (\<exists>err. target_slot (TargetSandbox ''s2'') sample_worker = Inl err)"
  using sandbox_requests_reach_listed_sandboxes [OF sample_worker_reachable sample_worker_state(5), of "''s1''"]
    sandbox_requests_reach_listed_sandboxes [OF sample_worker_reachable sample_worker_state(5), of "''s2''"]
  by (auto simp: sample_worker_state split: sum.splits)

text \<open>
  C3. When the scheduled activations that are due execute, none of them stays pending, the
  entries that are not due are kept in order, and the active sandboxes are those active
  before, without the ones a due entry names, and with the ones a due entry activates.
\<close>

theorem due_activations_executed:
  assumes "reachable env w" "w_running w"
    and "maybe_execute_due_pending_sandbox_activation env now w = (Inr (), w')"
  shows "rt_pending (w_runtime w') = filter (\<lambda>p. now < pd_execute_at_unix_ms p) (rt_pending (w_runtime w)) \<and>
     (let due = {p \<in> set (rt_pending (w_runtime w)). pd_execute_at_unix_ms p \<le> now} in
      set (sandbox_ids (w_runtime w')) =
        (set (sandbox_ids (w_runtime w)) - pd_sandbox_id ` due) \<union>
        pd_sandbox_id ` {p \<in> due. pd_activate p})"
proof -
  let ?ps = "rt_pending (w_runtime w)"
  have ok: "worker_ok w" using reachable_worker_ok [OF assms(1)] assms(2) by simp
  note due = due_entries_facts [OF ok, of now]
  have inj: "pd_sandbox_id p \<in> pd_sandbox_id ` {q \<in> set ?ps. pd_execute_at_unix_ms q \<le> now} \<longleftrightarrow>
      pd_execute_at_unix_ms p \<le> now" if "p \<in> set ?ps" for p
    using ok that by (auto simp: worker_ok_def pending_ok_def distinct_map dest: inj_onD)
  have run: "execute_due env (due_entries now ?ps) w = (Inr (), w')"
    using assms(3) by (auto simp: maybe_execute_due_pending_sandbox_activation_def Let_def due_entries_def
        split: if_splits)
  have "rt_pending (w_runtime w') = filter (\<lambda>p. now < pd_execute_at_unix_ms p) ?ps"
    using execute_due_effect [OF ok due(1,2) run] filter_cong [OF refl, of ?ps] inj
    unfolding due(3) by (metis (no_types, lifting) not_le)
  moreover have "set (sandbox_ids (w_runtime w')) =
      (set (sandbox_ids (w_runtime w)) - pd_sandbox_id ` set (due_entries now ?ps)) \<union>
      pd_sandbox_id ` {p \<in> set (due_entries now ?ps). pd_activate p}"
    using execute_due_effect [OF ok due(1,2) run] by auto
  ultimately show ?thesis unfolding due(3) Let_def by simp
qed

theorem due_activations_executed_witness:
  "\<exists>w'. maybe_execute_due_pending_sandbox_activation sample_env 100 (sample_scheduled sample_deactivation) =
     (Inr (), w') \<and> rt_pending (w_runtime w') = [] \<and> sandbox_ids (w_runtime w') = []"
proof -
  let ?w = "sample_scheduled sample_deactivation"
  have eq: "?w = sample_worker\<lparr>w_runtime := (w_runtime sample_worker)
      \<lparr>rt_revision := sat_add 1 1, rt_pending := [sample_deactivation]\<rparr>\<rparr>"
    by (rule sample_scheduled_eq) (simp_all add: sample_deactivation_def payload_ok_def)
  have "\<exists>w'. maybe_execute_due_pending_sandbox_activation sample_env 100 ?w = (Inr (), w')"
    unfolding eq
    by (simp add: maybe_execute_due_pending_sandbox_activation_def due_entries_def sample_deactivation_def
        deactivate_sandbox_def committed_def Let_def)
  then obtain w' where w': "maybe_execute_due_pending_sandbox_activation sample_env 100 ?w = (Inr (), w')"
    by blast
  have "w_running ?w" unfolding eq by (simp add: sample_worker_state)
  note effect = due_activations_executed [OF sample_scheduled_reachable this w']
  have st: "rt_pending (w_runtime ?w) = [sample_deactivation]" "sandbox_ids (w_runtime ?w) = [''s1'']"
    unfolding eq using sample_worker_state(1) by (simp_all add: sandbox_ids_def)
  have p: "pd_sandbox_id sample_deactivation = ''s1''" "\<not> pd_activate sample_deactivation"
    "pd_execute_at_unix_ms sample_deactivation = 100"
    by (simp_all add: sample_deactivation_def)
  have none: "{p \<in> set [sample_deactivation]. pd_execute_at_unix_ms p \<le> 100} = {sample_deactivation}"
    using p by auto
  have "rt_pending (w_runtime w') = [] \<and> set (sandbox_ids (w_runtime w')) = {}"
    using effect p unfolding st none Let_def by simp
  with w' show ?thesis by auto
qed

text \<open>
  When a due activation fails, the entries due before it have been executed and removed,
  and it stays pending together with every entry due after it, so a failing activation holds
  the later ones back until it is cancelled or succeeds.
\<close>

theorem failing_due_activation_blocks_later_ones:
  assumes "reachable env w" "w_running w"
    and "maybe_execute_due_pending_sandbox_activation env now w = (Inl err, w')"
  shows "\<exists>executed p rest. due_entries now (rt_pending (w_runtime w)) = executed @ p # rest \<and>
     pd_activate p \<and> set (p # rest) \<subseteq> set (rt_pending (w_runtime w')) \<and>
     rt_pending (w_runtime w') =
       filter (\<lambda>q. pd_sandbox_id q \<notin> pd_sandbox_id ` set executed) (rt_pending (w_runtime w))"
proof -
  have ok: "worker_ok w" using reachable_worker_ok [OF assms(1)] assms(2) by simp
  have run: "execute_due env (due_entries now (rt_pending (w_runtime w))) w = (Inl err, w')"
    using assms(3)
    by (auto simp: maybe_execute_due_pending_sandbox_activation_def Let_def split: if_splits)
  show ?thesis using execute_due_error [OF ok due_entries_facts(1,2) [OF ok] run] by blast
qed

theorem failing_due_activation_blocks_later_ones_witness:
  "\<exists>err w'. maybe_execute_due_pending_sandbox_activation sample_env 100 (sample_scheduled sample_bad_activation) =
     (Inl err, w') \<and> rt_pending (w_runtime w') \<noteq> []"
proof -
  let ?w = "sample_scheduled sample_bad_activation"
  have eq: "?w = sample_worker\<lparr>w_runtime := (w_runtime sample_worker)
      \<lparr>rt_revision := sat_add 1 1, rt_pending := [sample_bad_activation]\<rparr>\<rparr>"
    by (rule sample_scheduled_eq) (simp_all add: sample_bad_activation_def payload_ok_def)
  have "\<not> is_sandbox_active (w_runtime ?w) ''s2''"
    unfolding eq using sample_worker_state(1) by (simp add: sandbox_ids_def del: set_map flip: list.set_map)
  then have idle: "\<not> is_sandbox_active (w_runtime (sample_worker\<lparr>w_runtime := (w_runtime sample_worker)
      \<lparr>rt_revision := sat_add 1 1, rt_pending := [sample_bad_activation]\<rparr>\<rparr>)) ''s2''"
    by (simp add: eq)
  have bad: "validate_map_id (env_features sample_env) ''m/1'' =
      Inl (InvalidArgument ''map_id contains invalid characters'')"
    by (simp add: validate_map_id_def is_ascii_alphanumeric_def Let_def)
  have "\<exists>err w'. maybe_execute_due_pending_sandbox_activation sample_env 100 ?w = (Inl err, w')"
    unfolding eq
    using idle bad
    by (simp add: maybe_execute_due_pending_sandbox_activation_def due_entries_def sample_bad_activation_def
        switch_runtime_def Let_def del: is_sandbox_active_iff)
  then obtain err w' where w': "maybe_execute_due_pending_sandbox_activation sample_env 100 ?w = (Inl err, w')"
    by blast
  have "w_running ?w" unfolding eq by (simp add: sample_worker_state)
  from failing_due_activation_blocks_later_ones [OF sample_scheduled_reachable this w']
  obtain p rest where "set (p # rest) \<subseteq> set (rt_pending (w_runtime w'))" by blast
  then have "rt_pending (w_runtime w') \<noteq> []" by auto
  with w' show ?thesis by blast
qed

end
