(* ===== verification/Local_Race_State.thy ===== *)
theory Local_Race_State
  imports Engine_Worker
begin

text \<open>
  The state of the standalone local race, game-server/src/local/local_race_state.rs: the race
  with its phase and its timeline, and the participants that joined it. Every method takes
  the lock of the store for its whole body, so it is one step here. The clock the code reads
  is an argument of the method that reads it.

  The phase and the preset of a race travel as the integers of protocol enumerations. They are
  written only as constants of the enumeration and read back through its decoder, so the
  model keeps the enumeration. Equality of two races is the derived one of the code, which
  compares floating-point fields as such, so a value that is not a number differs from itself.
\<close>

section \<open>Data\<close>

datatype local_race_phase =
  PhaseUnspecified | PhaseStaging | PhaseCountdown | PhaseRunning | PhaseFinished | PhaseAborted

datatype proto_time_of_day = ProtoUnspecified | ProtoMorning | ProtoNoon | ProtoEvening | ProtoNight

record timestamp =
  ts_seconds :: int
  ts_nanos :: int

record local_time_of_day_settings =
  lt_mode :: i32
  lt_fixed_preset :: i32

record local_weather_settings =
  lw_weather_type :: i32
  lw_temperature_c :: i32

record local_race_settings =
  ri_race_id :: string
  ri_race_name :: string
  ri_map_id :: string
  ri_race_duration_sec :: u32
  ri_time_of_day :: "local_time_of_day_settings option"
  ri_active_time_of_day_preset :: proto_time_of_day
  ri_ghost_mode :: "ghost_mode_settings option"
  ri_weather :: "local_weather_settings option"

record local_race_runtime_info = local_race_settings +
  ri_phase :: local_race_phase
  ri_created_at_utc :: "timestamp option"
  ri_countdown_end_at_utc :: "timestamp option"
  ri_running_started_at_utc :: "timestamp option"
  ri_planned_end_at_utc :: "timestamp option"
  ri_joined_participant_count :: u32
  ri_max_participants :: u32

record participant_record =
  pr_car_id :: u64
  pr_display_name :: string
  pr_participant_index :: u32

record participant_identity =
  pi_display_name :: string
  pi_participant_index :: u32

record local_race_state =
  ra_active :: "local_race_runtime_info option"
  ra_participants :: "(u64, participant_record) hmap"
  ra_next_participant_index :: u32
  ra_finish_soft_freeze_applied :: bool

datatype local_race_error = NoActiveRace | RaceMismatch | JoinClosed | ParticipantLimitReached

record reconcile_outcome =
  ro_race :: local_race_runtime_info
  ro_previous_phase :: local_race_phase
  ro_current_phase :: local_race_phase

definition local_race_state_default :: local_race_state where
  "local_race_state_default =
     \<lparr>ra_active = None, ra_participants = [], ra_next_participant_index = 0,
      ra_finish_soft_freeze_applied = False\<rparr>"

section \<open>Time stamps\<close>

definition timestamp_from_ms :: "u64 \<Rightarrow> timestamp" where
  "timestamp_from_ms ms =
     \<lparr>ts_seconds = min (uint (ms div 1000)) i64_max, ts_nanos = uint ((ms mod 1000) * 1000000)\<rparr>"

definition timestamp_ms :: "timestamp option \<Rightarrow> u64 option" where
  "timestamp_ms v =
     (case v of
        None \<Rightarrow> None
      | Some t \<Rightarrow>
          if ts_seconds t < 0 then None
          else if ts_nanos t < 0 then None
          else Some (sat_add (sat_mul (of_int (ts_seconds t)) 1000) (of_int (ts_nanos t div 1000000))))"

section \<open>Phases\<close>

definition reached :: "timestamp option \<Rightarrow> u64 \<Rightarrow> bool" where
  "reached t now_ms \<longleftrightarrow> (case timestamp_ms t of None \<Rightarrow> False | Some end \<Rightarrow> end \<le> now_ms)"

definition normalize_race_phase_at :: "local_race_runtime_info \<Rightarrow> u64 \<Rightarrow> local_race_runtime_info" where
  "normalize_race_phase_at race now_ms =
     (case ri_phase race of
        PhaseCountdown \<Rightarrow>
          (if reached (ri_countdown_end_at_utc race) now_ms then
             let r1 = race\<lparr>ri_phase := PhaseRunning\<rparr>;
                 r2 = (if ri_running_started_at_utc r1 = None
                       then r1\<lparr>ri_running_started_at_utc := ri_countdown_end_at_utc r1\<rparr> else r1)
             in if ri_planned_end_at_utc r2 = None then
                  let started = (case timestamp_ms (ri_running_started_at_utc r2) of None \<Rightarrow> now_ms | Some s \<Rightarrow> s)
                  in r2\<lparr>ri_planned_end_at_utc := Some (timestamp_from_ms
                          (sat_add started (ucast (ri_race_duration_sec r2) * 1000)))\<rparr>
                else r2
           else race)
      | PhaseRunning \<Rightarrow>
          (if reached (ri_planned_end_at_utc race) now_ms then race\<lparr>ri_phase := PhaseFinished\<rparr> else race)
      | _ \<Rightarrow> race)"

definition ghost_settings_eq :: "ghost_mode_settings \<Rightarrow> ghost_mode_settings \<Rightarrow> bool" where
  "ghost_settings_eq g h \<longleftrightarrow>
     ghost_enabled g = ghost_enabled h \<and> fp_eq (enter_speed_max_mps g) (enter_speed_max_mps h) \<and>
     fp_eq (exit_speed_min_mps g) (exit_speed_min_mps h) \<and> enter_delay_ms g = enter_delay_ms h \<and>
     exit_delay_ms g = exit_delay_ms h \<and> until_completed_laps g = until_completed_laps h \<and>
     vehicle_overlap_exit_delay_ms g = vehicle_overlap_exit_delay_ms h"

definition race_eq :: "local_race_runtime_info \<Rightarrow> local_race_runtime_info \<Rightarrow> bool" where
  "race_eq r r' \<longleftrightarrow>
     r\<lparr>ri_ghost_mode := None\<rparr> = r'\<lparr>ri_ghost_mode := None\<rparr> \<and>
     (case (ri_ghost_mode r, ri_ghost_mode r') of
        (None, None) \<Rightarrow> True | (Some g, Some h) \<Rightarrow> ghost_settings_eq g h | _ \<Rightarrow> False)"

definition clamped_len :: "('k, 'v) hmap \<Rightarrow> u32" where
  "clamped_len m = of_nat (min (length m) (unat (- 1 :: u32)))"

definition joined_count_for_race :: "local_race_state \<Rightarrow> string \<Rightarrow> u32" where
  "joined_count_for_race st race_id =
     (if map_option ri_race_id (ra_active st) \<noteq> Some race_id then 0 else clamped_len (ra_participants st))"

definition with_joined_count :: "local_race_state \<Rightarrow> local_race_runtime_info \<Rightarrow> local_race_runtime_info" where
  "with_joined_count st race = race\<lparr>ri_joined_participant_count := joined_count_for_race st (ri_race_id race)\<rparr>"

section \<open>The store\<close>

definition active_race :: "u64 \<Rightarrow> local_race_state \<Rightarrow> local_race_runtime_info option" where
  "active_race now_ms st =
     (case ra_active st of
        None \<Rightarrow> None
      | Some race \<Rightarrow> Some (with_joined_count st (normalize_race_phase_at race now_ms)))"

definition set_active_race :: "u64 \<Rightarrow> local_race_runtime_info \<Rightarrow> local_race_state \<Rightarrow> local_race_state" where
  "set_active_race now_ms race st =
     st\<lparr>ra_active := Some (normalize_race_phase_at race now_ms), ra_participants := [],
        ra_next_participant_index := 1, ra_finish_soft_freeze_applied := False\<rparr>"

text \<open>The two readings of the clock before and after the caller's update are separate arguments.\<close>

definition update_active_race ::
  "u64 \<Rightarrow> u64 \<Rightarrow> string \<Rightarrow> (local_race_runtime_info \<Rightarrow> local_race_runtime_info) \<Rightarrow> local_race_state
    \<Rightarrow> (local_race_error, local_race_runtime_info) result \<times> local_race_state" where
  "update_active_race now1 now2 race_id update st =
     (case ra_active st of
        None \<Rightarrow> (Inl NoActiveRace, st)
      | Some race \<Rightarrow>
          if ri_race_id race \<noteq> race_id then (Inl RaceMismatch, st)
          else
            let race1 = normalize_race_phase_at (update (normalize_race_phase_at race now1)) now2;
                st1 = st\<lparr>ra_active := Some race1\<rparr>
            in (Inr (with_joined_count st1 race1), st1))"

definition clear_active_race ::
  "string \<Rightarrow> local_race_state \<Rightarrow> (local_race_error, unit) result \<times> local_race_state" where
  "clear_active_race race_id st =
     (case ra_active st of
        None \<Rightarrow> (Inl NoActiveRace, st)
      | Some race \<Rightarrow>
          if ri_race_id race \<noteq> race_id then (Inl RaceMismatch, st)
          else (Inr (), st\<lparr>ra_active := None, ra_participants := [], ra_next_participant_index := 1,
                           ra_finish_soft_freeze_applied := False\<rparr>))"

definition set_stored_count :: "u32 \<Rightarrow> local_race_state \<Rightarrow> local_race_state" where
  "set_stored_count n st =
     st\<lparr>ra_active := map_option (\<lambda>race. race\<lparr>ri_joined_participant_count := n\<rparr>) (ra_active st)\<rparr>"

text \<open>The normalized phase is stored even when the registration is then refused.\<close>

definition register_participant ::
  "u64 \<Rightarrow> string \<Rightarrow> u64 \<Rightarrow> string \<Rightarrow> local_race_state
    \<Rightarrow> (local_race_error, participant_record) result \<times> local_race_state" where
  "register_participant now_ms race_id car_id display_name st =
     (case ra_active st of
        None \<Rightarrow> (Inl NoActiveRace, st)
      | Some race0 \<Rightarrow>
          if ri_race_id race0 \<noteq> race_id then (Inl RaceMismatch, st)
          else
            let race = normalize_race_phase_at race0 now_ms;
                st1 = st\<lparr>ra_active := Some race\<rparr>
            in if ri_phase race \<noteq> PhaseStaging then (Inl JoinClosed, st1)
               else if ri_max_participants race > 0 \<and>
                       clamped_len (ra_participants st1) \<ge> ri_max_participants race
               then (Inl ParticipantLimitReached, st1)
               else
                 let participant_index = max (ra_next_participant_index st1) 1;
                     record = \<lparr>pr_car_id = car_id, pr_display_name = display_name,
                               pr_participant_index = participant_index\<rparr>;
                     st2 = st1\<lparr>ra_next_participant_index := sat_add participant_index 1,
                               ra_participants := hm_insert car_id record (ra_participants st1)\<rparr>
                 in (Inr record, set_stored_count (clamped_len (ra_participants st2)) st2))"

definition participant_identity :: "u64 \<Rightarrow> local_race_state \<Rightarrow> participant_identity option" where
  "participant_identity car_id st =
     map_option (\<lambda>p. \<lparr>pi_display_name = pr_display_name p, pi_participant_index = pr_participant_index p\<rparr>)
       (hm_get (ra_participants st) car_id)"

definition remove_participant :: "u64 \<Rightarrow> local_race_state \<Rightarrow> local_race_state" where
  "remove_participant car_id st =
     (let st1 = st\<lparr>ra_participants := hm_remove car_id (ra_participants st)\<rparr>
      in set_stored_count (clamped_len (ra_participants st1)) st1)"

definition reconcile_active_race ::
  "u64 \<Rightarrow> local_race_state \<Rightarrow> reconcile_outcome option \<times> local_race_state" where
  "reconcile_active_race now_ms st =
     (case ra_active st of
        None \<Rightarrow> (None, st)
      | Some race \<Rightarrow>
          let previous_phase = ri_phase race;
              normalized = normalize_race_phase_at race now_ms
          in if race_eq race normalized then (None, st)
             else
               let current_phase = ri_phase normalized;
                   st1 = st\<lparr>ra_active := Some normalized\<rparr>;
                   st2 = (if current_phase = PhaseFinished
                          then st1\<lparr>ra_finish_soft_freeze_applied := False\<rparr> else st1)
               in (Some \<lparr>ro_race = with_joined_count st2 normalized, ro_previous_phase = previous_phase,
                         ro_current_phase = current_phase\<rparr>, st2))"

definition finished_race_pending_soft_freeze ::
  "u64 \<Rightarrow> local_race_state \<Rightarrow> local_race_runtime_info option" where
  "finished_race_pending_soft_freeze now_ms st =
     (case ra_active st of
        None \<Rightarrow> None
      | Some race0 \<Rightarrow>
          if ra_finish_soft_freeze_applied st then None
          else
            let race = normalize_race_phase_at race0 now_ms in
            if ri_phase race \<noteq> PhaseFinished then None else Some (with_joined_count st race))"

definition mark_finish_soft_freeze_applied ::
  "string \<Rightarrow> local_race_state \<Rightarrow> (local_race_error, unit) result \<times> local_race_state" where
  "mark_finish_soft_freeze_applied race_id st =
     (case ra_active st of
        None \<Rightarrow> (Inl NoActiveRace, st)
      | Some race \<Rightarrow>
          if ri_race_id race \<noteq> race_id then (Inl RaceMismatch, st)
          else (Inr (), st\<lparr>ra_finish_soft_freeze_applied := True\<rparr>))"

definition gameplay_commands_closed :: "u64 \<Rightarrow> string \<Rightarrow> local_race_state \<Rightarrow> bool" where
  "gameplay_commands_closed now_ms race_id st =
     (case ra_active st of
        None \<Rightarrow> False
      | Some race \<Rightarrow>
          if ri_race_id race \<noteq> race_id then False
          else ri_phase (normalize_race_phase_at race now_ms) \<noteq> PhaseRunning)"

end
