(* ===== verification/Runtime_Store.thy ===== *)
theory Runtime_Store
  imports Engine_Worker
begin

text \<open>
  The runtime store of the race service,
  game-server/src/services/race/runtime_store.rs: the cars the service knows, their engine
  identifiers and worlds, the commands' cooldowns, the choice of the next tyre, the pit
  history and the state of the official race. The concurrent maps of the code are maps
  here, and a method that holds one entry is one step.
\<close>

section \<open>Data\<close>

definition PIT_HISTORY_MAX_ENTRIES :: nat where "PIT_HISTORY_MAX_ENTRIES = 32"
definition COMMAND_COOLDOWN_MS :: u64 where "COMMAND_COOLDOWN_MS = 30000"
definition EMERGENCY_PIT_LOCK_MS :: u64 where "EMERGENCY_PIT_LOCK_MS = 30000"
definition TELEPORT_IDLE_WINDOW_MS :: u64 where "TELEPORT_IDLE_WINDOW_MS = 500"

record runtime_car_identity =
  id_subject :: "string option"
  id_team_id :: "string option"
  id_instance_uuid :: "string option"
  id_local_bot_index :: "u32 option"
  id_local_race_display_name :: "string option"
  id_local_race_participant_index :: "u32 option"
  id_official_race_start_position_index :: "u64 option"
  id_active_bot_slot :: "int option"
  id_bot_switch_in_progress :: bool

datatype pit_tire_type = TireUnspecified | TireHard | TireSoft | TireWet

datatype next_tire_mode = AutoMode | ManualMode

datatype pit_entry_source = BotDecision | Requested | Emergency

record pit_history_entry =
  ph_pit_time_ms :: u64
  ph_lap :: u32
  ph_source :: pit_entry_source
  ph_tire_type_after :: pit_tire_type
  ph_tire_type_before :: pit_tire_type
  ph_tire_wear_before_repair :: "fp list"
  ph_tire_temperature_before_celsius :: "fp list"
  ph_tire_temperature_after_celsius :: "fp list"
  ph_bot_slot_before :: u32
  ph_bot_slot_after :: u32

record active_fix_session =
  fx_entry_time_ms :: u64
  fx_entry_lap :: u32
  fx_source :: pit_entry_source
  fx_tire_type_before :: pit_tire_type
  fx_tire_wear_before_repair :: "fp list"
  fx_tire_temperature_before_celsius :: "fp list"
  fx_bot_slot_before :: u32

record pit_state_snapshot =
  sn_pit_request_active :: bool
  sn_emergency_lock_remaining_ms :: u32
  sn_back_to_track_remaining_ms :: u32
  sn_emergency_pitstop_remaining_ms :: u32
  sn_force_idle :: bool
  sn_last_pit_time_ms :: u64
  sn_last_pit_source :: pit_entry_source
  sn_last_pit_lap :: u32
  sn_frontend_next_pit_tire_override :: pit_tire_type
  sn_next_pit_tire_type :: pit_tire_type
  sn_history :: "pit_history_entry list"

record control_input_snapshot =
  in_throttle :: fp
  in_brake :: fp
  in_brake_balancer :: fp
  in_differential_lock :: fp

record official_race_public_state =
  op_race_name :: string
  op_map_id :: string
  op_prepared_at_ms :: u64

definition control_input_default :: control_input_snapshot where
  "control_input_default =
     \<lparr>in_throttle = Fin 0, in_brake = Fin 0, in_brake_balancer = Fin (1 / 2), in_differential_lock = Fin 0\<rparr>"

text \<open>
  The fix-zone flag and the open session exist in the official build only; elsewhere they
  keep their initial values. The front of the history queue is the head of the list.
  The struct is declared in three layers of record extension, in the order of its fields.
\<close>

record pit_timers =
  ps_pit_request_active :: bool
  ps_emergency_lock_until_ms :: u64
  ps_back_to_track_cooldown_until_ms :: u64
  ps_emergency_pitstop_cooldown_until_ms :: u64
  ps_force_idle_until_ms :: u64

record pit_tires = pit_timers +
  ps_last_pit_time_ms :: u64
  ps_last_pit_source :: pit_entry_source
  ps_last_pit_lap :: u32
  ps_next_tire_mode :: next_tire_mode
  ps_bot_cached_next_tire_type :: "pit_tire_type option"
  ps_active_next_tire_type :: pit_tire_type
  ps_next_pit_tire_revision :: u64

record pit_state = pit_tires +
  ps_history :: "pit_history_entry list"
  ps_was_in_fix_zone :: bool
  ps_active_fix_session :: "active_fix_session option"
  ps_was_fix_stationary_full_pit :: bool
  ps_last_applied_tyre :: "pit_tire_type option"
  ps_last_applied_tire_revision :: "u64 option"
  ps_emergency_intent_pending :: bool
  ps_in_stationary_fix :: bool

definition pit_state_default :: pit_state where
  "pit_state_default =
     \<lparr>ps_pit_request_active = False, ps_emergency_lock_until_ms = 0,
      ps_back_to_track_cooldown_until_ms = 0, ps_emergency_pitstop_cooldown_until_ms = 0,
      ps_force_idle_until_ms = 0, ps_last_pit_time_ms = 0, ps_last_pit_source = BotDecision,
      ps_last_pit_lap = 0, ps_next_tire_mode = AutoMode, ps_bot_cached_next_tire_type = None,
      ps_active_next_tire_type = TireUnspecified, ps_next_pit_tire_revision = 0, ps_history = [],
      ps_was_in_fix_zone = False, ps_active_fix_session = None,
      ps_was_fix_stationary_full_pit = False, ps_last_applied_tyre = None,
      ps_last_applied_tire_revision = None, ps_emergency_intent_pending = False,
      ps_in_stationary_fix = False\<rparr>"

record store_cars =
  st_next_public_car_id :: u64
  st_known_cars :: "(u64, unit) hmap"
  st_last_client_seq :: "(u64, u64) hmap"
  st_instance_cars :: "(string, u64) hmap"
  st_car_owners :: "(u64, string) hmap"
  st_car_engine_ids :: "(u64, u64) hmap"
  st_car_targets :: "(u64, command_target) hmap"

record store_car_data = store_cars +
  st_car_identity :: "(u64, runtime_car_identity) hmap"
  st_car_pit_state :: "(u64, pit_state) hmap"
  st_car_controls_input :: "(u64, control_input_snapshot) hmap"
  st_local_bot_next_index :: "(string \<times> string, u32) hmap"

record runtime_store = store_car_data +
  st_official_race_started :: bool
  st_official_race_started_at_ms :: u64
  st_official_race_duration_sec :: u64
  st_official_race_public_state :: "official_race_public_state option"

definition store_new :: runtime_store where
  "store_new =
     \<lparr>st_next_public_car_id = 1, st_known_cars = [], st_last_client_seq = [], st_instance_cars = [],
      st_car_owners = [], st_car_engine_ids = [], st_car_targets = [], st_car_identity = [],
      st_car_pit_state = [], st_car_controls_input = [], st_local_bot_next_index = [],
      st_official_race_started = False, st_official_race_started_at_ms = 0,
      st_official_race_duration_sec = 0, st_official_race_public_state = None\<rparr>"

section \<open>Remaining times and snapshots\<close>

definition remaining_u32 :: "u64 \<Rightarrow> u64 \<Rightarrow> u32" where
  "remaining_u32 until_ms now_ms =
     (if until_ms \<le> now_ms then 0
      else of_nat (min (unat (until_ms - now_ms)) (unat (- 1 :: u32))))"

fun runtime_tire_type_from_engine :: "tyre_type \<Rightarrow> pit_tire_type" where
  "runtime_tire_type_from_engine Hard = TireHard"
| "runtime_tire_type_from_engine Soft = TireSoft"
| "runtime_tire_type_from_engine Wet = TireWet"

definition snapshot :: "pit_state \<Rightarrow> u64 \<Rightarrow> pit_state_snapshot" where
  "snapshot s now_ms =
     (let lock = remaining_u32 (ps_emergency_lock_until_ms s) now_ms in
      \<lparr>sn_pit_request_active = ps_pit_request_active s,
       sn_emergency_lock_remaining_ms = lock,
       sn_back_to_track_remaining_ms = remaining_u32 (ps_back_to_track_cooldown_until_ms s) now_ms,
       sn_emergency_pitstop_remaining_ms = remaining_u32 (ps_emergency_pitstop_cooldown_until_ms s) now_ms,
       sn_force_idle = (ps_force_idle_until_ms s > now_ms \<or> lock > 0),
       sn_last_pit_time_ms = ps_last_pit_time_ms s, sn_last_pit_source = ps_last_pit_source s,
       sn_last_pit_lap = ps_last_pit_lap s,
       sn_frontend_next_pit_tire_override =
         (case ps_next_tire_mode s of
            AutoMode \<Rightarrow> TireUnspecified | ManualMode \<Rightarrow> ps_active_next_tire_type s),
       sn_next_pit_tire_type =
         (case ps_bot_cached_next_tire_type s of None \<Rightarrow> TireUnspecified | Some t \<Rightarrow> t),
       sn_history = ps_history s\<rparr>)"

definition snapshot_default :: pit_state_snapshot where
  "snapshot_default =
     \<lparr>sn_pit_request_active = False, sn_emergency_lock_remaining_ms = 0,
      sn_back_to_track_remaining_ms = 0, sn_emergency_pitstop_remaining_ms = 0,
      sn_force_idle = False, sn_last_pit_time_ms = 0, sn_last_pit_source = BotDecision,
      sn_last_pit_lap = 0, sn_frontend_next_pit_tire_override = TireUnspecified,
      sn_next_pit_tire_type = TireUnspecified, sn_history = []\<rparr>"

section \<open>Identifiers, identities and counts\<close>

definition allocate_public_car_id :: "runtime_store \<Rightarrow> u64 \<times> runtime_store" where
  "allocate_public_car_id st =
     (st_next_public_car_id st, st\<lparr>st_next_public_car_id := st_next_public_car_id st + 1\<rparr>)"

definition allocate_local_bot_index :: "string \<Rightarrow> string \<Rightarrow> runtime_store \<Rightarrow> u32 \<times> runtime_store" where
  "allocate_local_bot_index sandbox_id user_id st =
     (let key = (sandbox_id, user_id);
          index = (case hm_get (st_local_bot_next_index st) key of None \<Rightarrow> 1 | Some v \<Rightarrow> v)
      in (index, st\<lparr>st_local_bot_next_index :=
                      hm_insert key (sat_add index 1) (st_local_bot_next_index st)\<rparr>))"

definition set_car_identity :: "u64 \<Rightarrow> runtime_car_identity \<Rightarrow> runtime_store \<Rightarrow> runtime_store" where
  "set_car_identity car_id identity st =
     st\<lparr>st_car_identity := hm_insert car_id identity (st_car_identity st)\<rparr>"

definition car_identity :: "u64 \<Rightarrow> runtime_store \<Rightarrow> runtime_car_identity option" where
  "car_identity car_id st = hm_get (st_car_identity st) car_id"

definition car_target :: "u64 \<Rightarrow> runtime_store \<Rightarrow> command_target option" where
  "car_target car_id st = hm_get (st_car_targets st) car_id"

definition car_engine_id :: "u64 \<Rightarrow> runtime_store \<Rightarrow> u64 option" where
  "car_engine_id car_id st = hm_get (st_car_engine_ids st) car_id"

definition car_last_client_seq :: "u64 \<Rightarrow> runtime_store \<Rightarrow> u64" where
  "car_last_client_seq car_id st =
     (case hm_get (st_last_client_seq st) car_id of None \<Rightarrow> 0 | Some s \<Rightarrow> s)"

definition known_car_ids :: "runtime_store \<Rightarrow> u64 list" where
  "known_car_ids st = sort (hm_keys (st_known_cars st))"

definition count_up :: "string \<Rightarrow> (string, u32) hmap \<Rightarrow> (string, u32) hmap" where
  "count_up key counts =
     hm_insert key (sat_add (case hm_get counts key of None \<Rightarrow> 0 | Some c \<Rightarrow> c) 1) counts"

definition active_car_counts_by_sandbox :: "runtime_store \<Rightarrow> (string, u32) hmap" where
  "active_car_counts_by_sandbox st =
     fold (\<lambda>(_, t) counts. case t of TargetSandbox sid \<Rightarrow> count_up sid counts | _ \<Rightarrow> counts)
       (st_car_targets st) []"

definition active_car_counts_by_local_race :: "runtime_store \<Rightarrow> (string, u32) hmap" where
  "active_car_counts_by_local_race st =
     fold (\<lambda>(_, t) counts. case t of TargetLocalRace rid \<Rightarrow> count_up rid counts | _ \<Rightarrow> counts)
       (st_car_targets st) []"

definition joined_sandbox_ids_for_team :: "string \<Rightarrow> runtime_store \<Rightarrow> string set" where
  "joined_sandbox_ids_for_team team_id st =
     (let team = trim team_id in
      if team = [] then {}
      else fold (\<lambda>(car_id, t) ids.
             case t of
               TargetSandbox sid \<Rightarrow>
                 (case hm_get (st_car_identity st) car_id of
                    None \<Rightarrow> ids
                  | Some i \<Rightarrow>
                      (case id_team_id i of
                         None \<Rightarrow> ids
                       | Some v \<Rightarrow> if trim v = team then insert sid ids else ids))
             | _ \<Rightarrow> ids) (st_car_targets st) {})"

definition remove_car :: "u64 \<Rightarrow> runtime_store \<Rightarrow> runtime_store" where
  "remove_car car_id st =
     (let st1 = st\<lparr>st_known_cars := hm_remove car_id (st_known_cars st),
                   st_last_client_seq := hm_remove car_id (st_last_client_seq st),
                   st_car_engine_ids := hm_remove car_id (st_car_engine_ids st),
                   st_car_targets := hm_remove car_id (st_car_targets st),
                   st_car_identity := hm_remove car_id (st_car_identity st),
                   st_car_pit_state := hm_remove car_id (st_car_pit_state st),
                   st_car_controls_input := hm_remove car_id (st_car_controls_input st)\<rparr>
      in case hm_get (st_car_owners st1) car_id of
           None \<Rightarrow> st1
         | Some owner \<Rightarrow>
             (let st2 = st1\<lparr>st_car_owners := hm_remove car_id (st_car_owners st1)\<rparr> in
              if hm_get (st_instance_cars st2) owner = Some car_id
              then st2\<lparr>st_instance_cars := hm_remove owner (st_instance_cars st2)\<rparr>
              else st2))"

definition with_identity :: "u64 \<Rightarrow> (runtime_car_identity \<Rightarrow> runtime_car_identity) \<Rightarrow> runtime_store \<Rightarrow> runtime_store" where
  "with_identity car_id f st =
     (case hm_get (st_car_identity st) car_id of
        None \<Rightarrow> st
      | Some i \<Rightarrow> st\<lparr>st_car_identity := hm_insert car_id (f i) (st_car_identity st)\<rparr>)"

definition set_active_bot_slot :: "u64 \<Rightarrow> int \<Rightarrow> runtime_store \<Rightarrow> runtime_store" where
  "set_active_bot_slot car_id slot_index = with_identity car_id (\<lambda>i. i\<lparr>id_active_bot_slot := Some slot_index\<rparr>)"

definition clear_active_bot_slot :: "u64 \<Rightarrow> runtime_store \<Rightarrow> runtime_store" where
  "clear_active_bot_slot car_id = with_identity car_id (\<lambda>i. i\<lparr>id_active_bot_slot := None\<rparr>)"

definition set_bot_switch_in_progress :: "u64 \<Rightarrow> bool \<Rightarrow> runtime_store \<Rightarrow> runtime_store" where
  "set_bot_switch_in_progress car_id b = with_identity car_id (\<lambda>i. i\<lparr>id_bot_switch_in_progress := b\<rparr>)"

definition active_bot_slot :: "u64 \<Rightarrow> runtime_store \<Rightarrow> int option" where
  "active_bot_slot car_id st =
     (case hm_get (st_car_identity st) car_id of None \<Rightarrow> None | Some i \<Rightarrow> id_active_bot_slot i)"

definition is_bot_switch_in_progress :: "u64 \<Rightarrow> runtime_store \<Rightarrow> bool" where
  "is_bot_switch_in_progress car_id st =
     (case hm_get (st_car_identity st) car_id of None \<Rightarrow> False | Some i \<Rightarrow> id_bot_switch_in_progress i)"

section \<open>Controls, tyres and cooldowns\<close>

definition set_controls_input :: "u64 \<Rightarrow> fp \<Rightarrow> fp \<Rightarrow> fp \<Rightarrow> fp \<Rightarrow> runtime_store \<Rightarrow> runtime_store" where
  "set_controls_input car_id throttle brake brake_balancer differential_lock st =
     st\<lparr>st_car_controls_input := hm_insert car_id
          \<lparr>in_throttle = throttle, in_brake = brake, in_brake_balancer = brake_balancer,
           in_differential_lock = differential_lock\<rparr> (st_car_controls_input st)\<rparr>"

definition controls_input_snapshot :: "u64 \<Rightarrow> runtime_store \<Rightarrow> control_input_snapshot" where
  "controls_input_snapshot car_id st =
     (case hm_get (st_car_controls_input st) car_id of None \<Rightarrow> control_input_default | Some c \<Rightarrow> c)"

text \<open>\<open>car_pit_state.entry(car_id).or_default()\<close> and an update of the entry.\<close>

definition pit_of :: "u64 \<Rightarrow> runtime_store \<Rightarrow> pit_state" where
  "pit_of car_id st =
     (case hm_get (st_car_pit_state st) car_id of None \<Rightarrow> pit_state_default | Some s \<Rightarrow> s)"

definition with_pit :: "u64 \<Rightarrow> (pit_state \<Rightarrow> pit_state) \<Rightarrow> runtime_store \<Rightarrow> runtime_store" where
  "with_pit car_id f st =
     st\<lparr>st_car_pit_state := hm_insert car_id (f (pit_of car_id st)) (st_car_pit_state st)\<rparr>"

definition set_pit_request_active :: "u64 \<Rightarrow> bool \<Rightarrow> runtime_store \<Rightarrow> runtime_store" where
  "set_pit_request_active car_id active = with_pit car_id (\<lambda>s. s\<lparr>ps_pit_request_active := active\<rparr>)"

definition next_tire_from_frontend :: "pit_tire_type \<Rightarrow> pit_state \<Rightarrow> pit_state" where
  "next_tire_from_frontend tire s =
     (let s1 = (case tire of
                  TireUnspecified \<Rightarrow>
                    s\<lparr>ps_next_tire_mode := AutoMode,
                      ps_active_next_tire_type :=
                        (case ps_bot_cached_next_tire_type s of None \<Rightarrow> TireUnspecified | Some t \<Rightarrow> t)\<rparr>
                | _ \<Rightarrow> s\<lparr>ps_next_tire_mode := ManualMode, ps_active_next_tire_type := tire\<rparr>)
      in s1\<lparr>ps_next_pit_tire_revision := sat_add (ps_next_pit_tire_revision s1) 1\<rparr>)"

definition set_next_tire_from_frontend :: "u64 \<Rightarrow> pit_tire_type \<Rightarrow> runtime_store \<Rightarrow> runtime_store" where
  "set_next_tire_from_frontend car_id tire = with_pit car_id (next_tire_from_frontend tire)"

definition next_tire_from_bot :: "pit_tire_type \<Rightarrow> pit_state \<Rightarrow> pit_state" where
  "next_tire_from_bot tire s =
     (let s1 = s\<lparr>ps_bot_cached_next_tire_type := Some tire\<rparr> in
      if ps_next_tire_mode s1 = AutoMode
      then s1\<lparr>ps_active_next_tire_type := tire,
              ps_next_pit_tire_revision := sat_add (ps_next_pit_tire_revision s1) 1\<rparr>
      else s1)"

definition set_next_tire_from_bot :: "u64 \<Rightarrow> pit_tire_type \<Rightarrow> runtime_store \<Rightarrow> runtime_store" where
  "set_next_tire_from_bot car_id tire = with_pit car_id (next_tire_from_bot tire)"

definition clear_applied :: "pit_state \<Rightarrow> pit_state" where
  "clear_applied s = s\<lparr>ps_last_applied_tyre := None, ps_last_applied_tire_revision := None\<rparr>"

definition plan_pit_fix_tire_apply ::
  "u64 \<Rightarrow> pit_tire_type \<Rightarrow> bool \<Rightarrow> runtime_store \<Rightarrow> pit_tire_type option \<times> runtime_store" where
  "plan_pit_fix_tire_apply car_id current_tire in_stationary_fix st =
     (if \<not> in_stationary_fix then (None, with_pit car_id clear_applied st)
      else
        let st1 = with_pit car_id (\<lambda>s. s) st;
            s = pit_of car_id st1;
            desired = (case ps_active_next_tire_type s of TireUnspecified \<Rightarrow> current_tire | t \<Rightarrow> t);
            tire_changed = (ps_last_applied_tyre s \<noteq> Some desired);
            revision_changed = (ps_last_applied_tire_revision s \<noteq> Some (ps_next_pit_tire_revision s))
        in (if \<not> tire_changed \<and> \<not> revision_changed then None else Some desired, st1))"

definition mark_pit_fix_tire_applied :: "u64 \<Rightarrow> pit_tire_type \<Rightarrow> runtime_store \<Rightarrow> runtime_store" where
  "mark_pit_fix_tire_applied car_id tire =
     with_pit car_id (\<lambda>s. s\<lparr>ps_last_applied_tyre := Some tire,
                            ps_last_applied_tire_revision := Some (ps_next_pit_tire_revision s)\<rparr>)"

definition back_to_track_applied :: "u64 \<Rightarrow> pit_state \<Rightarrow> pit_state" where
  "back_to_track_applied now_ms s =
     s\<lparr>ps_back_to_track_cooldown_until_ms :=
         max (ps_back_to_track_cooldown_until_ms s) (sat_add now_ms COMMAND_COOLDOWN_MS),
       ps_force_idle_until_ms := max (ps_force_idle_until_ms s) (sat_add now_ms TELEPORT_IDLE_WINDOW_MS)\<rparr>"

definition mark_back_to_track_applied :: "u64 \<Rightarrow> u64 \<Rightarrow> runtime_store \<Rightarrow> runtime_store" where
  "mark_back_to_track_applied car_id now_ms = with_pit car_id (back_to_track_applied now_ms)"

text \<open>The last addition does not saturate in the code; in a release build it wraps.\<close>

definition emergency_pitstop_requested :: "u64 \<Rightarrow> pit_state \<Rightarrow> pit_state" where
  "emergency_pitstop_requested now_ms s =
     s\<lparr>ps_emergency_intent_pending := True,
       ps_emergency_pitstop_cooldown_until_ms :=
         max (ps_emergency_pitstop_cooldown_until_ms s) (sat_add now_ms COMMAND_COOLDOWN_MS),
       ps_emergency_lock_until_ms :=
         max (ps_emergency_lock_until_ms s) (sat_add now_ms EMERGENCY_PIT_LOCK_MS),
       ps_force_idle_until_ms := max (ps_force_idle_until_ms s) (now_ms + TELEPORT_IDLE_WINDOW_MS)\<rparr>"

definition mark_emergency_pitstop_requested :: "u64 \<Rightarrow> u64 \<Rightarrow> runtime_store \<Rightarrow> runtime_store" where
  "mark_emergency_pitstop_requested car_id now_ms = with_pit car_id (emergency_pitstop_requested now_ms)"

definition store_pit_state_snapshot :: "u64 \<Rightarrow> u64 \<Rightarrow> runtime_store \<Rightarrow> pit_state_snapshot" where
  "store_pit_state_snapshot car_id now_ms st =
     (case hm_get (st_car_pit_state st) car_id of
        None \<Rightarrow> snapshot_default | Some s \<Rightarrow> snapshot s now_ms)"

definition back_to_track_cooldown_remaining_ms :: "u64 \<Rightarrow> u64 \<Rightarrow> runtime_store \<Rightarrow> u32" where
  "back_to_track_cooldown_remaining_ms car_id now_ms st =
     (case hm_get (st_car_pit_state st) car_id of
        None \<Rightarrow> 0 | Some s \<Rightarrow> remaining_u32 (ps_back_to_track_cooldown_until_ms s) now_ms)"

definition emergency_pitstop_cooldown_remaining_ms :: "u64 \<Rightarrow> u64 \<Rightarrow> runtime_store \<Rightarrow> u32" where
  "emergency_pitstop_cooldown_remaining_ms car_id now_ms st =
     (case hm_get (st_car_pit_state st) car_id of
        None \<Rightarrow> 0 | Some s \<Rightarrow> remaining_u32 (ps_emergency_pitstop_cooldown_until_ms s) now_ms)"

definition store_is_in_stationary_fix :: "u64 \<Rightarrow> runtime_store \<Rightarrow> bool" where
  "store_is_in_stationary_fix car_id st =
     (case hm_get (st_car_pit_state st) car_id of None \<Rightarrow> False | Some s \<Rightarrow> ps_in_stationary_fix s)"

section \<open>The official race\<close>

definition set_official_race_prepared :: "string \<Rightarrow> string \<Rightarrow> u32 \<Rightarrow> u64 \<Rightarrow> runtime_store \<Rightarrow> runtime_store" where
  "set_official_race_prepared name map_id race_duration_sec prepared_at_ms st =
     st\<lparr>st_official_race_duration_sec := ucast race_duration_sec,
        st_official_race_started_at_ms := 0, st_official_race_started := False,
        st_official_race_public_state := Some
          \<lparr>op_race_name = name, op_map_id = map_id, op_prepared_at_ms = prepared_at_ms\<rparr>\<rparr>"

definition mark_official_race_started :: "u64 \<Rightarrow> runtime_store \<Rightarrow> runtime_store" where
  "mark_official_race_started started_at_ms st =
     st\<lparr>st_official_race_started_at_ms := started_at_ms, st_official_race_started := True\<rparr>"

definition clear_official_race_session :: "runtime_store \<Rightarrow> runtime_store" where
  "clear_official_race_session st =
     st\<lparr>st_official_race_started := False, st_official_race_started_at_ms := 0,
        st_official_race_duration_sec := 0, st_official_race_public_state := None\<rparr>"

definition official_race_remaining_sec :: "u64 \<Rightarrow> runtime_store \<Rightarrow> fp option" where
  "official_race_remaining_sec now_ms st =
     (if \<not> st_official_race_started st then None
      else if st_official_race_started_at_ms st = 0 \<or> st_official_race_duration_sec st = 0 then None
      else
        let end_ms = sat_add (st_official_race_started_at_ms st)
                       (sat_mul (st_official_race_duration_sec st) 1000);
            remaining_ms = sat_sub end_ms now_ms
        in Some (fp_div binary32 (fp_of_int binary32 (uint remaining_ms)) (Fin 1000)))"

definition official_race_duration_sec :: "runtime_store \<Rightarrow> u32 option" where
  "official_race_duration_sec st =
     (let value = st_official_race_duration_sec st in
      if value = 0 then None
      else if unat value \<le> unat (- 1 :: u32) then Some (ucast value) else None)"

definition official_race_started_at_ms :: "runtime_store \<Rightarrow> u64 option" where
  "official_race_started_at_ms st =
     (if st_official_race_started_at_ms st = 0 then None else Some (st_official_race_started_at_ms st))"

section \<open>The pit state and the frames of the simulation\<close>

definition completed_pit :: "vehicle_state \<Rightarrow> bool" where
  "completed_pit v \<longleftrightarrow> has_zone (vs_pitstop_state v) ZoneFix \<and>
     wheels_in_pitstop (vs_pitstop_state v) = 4 \<and> fp_eq (vs_speed v) (Fin 0)"

definition pit_source :: "pit_state \<Rightarrow> pit_entry_source" where
  "pit_source s =
     (if ps_emergency_intent_pending s then Emergency
      else if ps_pit_request_active s then Requested else BotDecision)"

definition push_history :: "pit_history_entry \<Rightarrow> pit_state \<Rightarrow> pit_state" where
  "push_history h s = s\<lparr>ps_history := take PIT_HISTORY_MAX_ENTRIES (h # ps_history s)\<rparr>"

definition bot_slot_for_history :: "u64 \<Rightarrow> runtime_store \<Rightarrow> u32" where
  "bot_slot_for_history car_id st =
     (case active_bot_slot car_id st of None \<Rightarrow> 1 | Some v \<Rightarrow> of_int (max v 1))"

definition enter_fix_zone :: "vehicle_state \<Rightarrow> vehicle_race_metrics option \<Rightarrow> u64 \<Rightarrow> u32 \<Rightarrow> pit_state \<Rightarrow> pit_state" where
  "enter_fix_zone v metrics now_ms slot s =
     s\<lparr>ps_active_fix_session := Some
         \<lparr>fx_entry_time_ms = now_ms,
          fx_entry_lap = (case metrics of None \<Rightarrow> ps_last_pit_lap s | Some m \<Rightarrow> completed_laps m),
          fx_source = pit_source s,
          fx_tire_type_before = runtime_tire_type_from_engine (vs_tyre_type v),
          fx_tire_wear_before_repair = tyre_health v,
          fx_tire_temperature_before_celsius = tyre_temperature_celsius v,
          fx_bot_slot_before = slot\<rparr>,
       ps_emergency_intent_pending := False, ps_pit_request_active := False\<rparr>"

definition leave_fix_zone :: "vehicle_state \<Rightarrow> u64 \<Rightarrow> u32 \<Rightarrow> pit_state \<Rightarrow> pit_state" where
  "leave_fix_zone v now_ms slot s =
     (case ps_active_fix_session s of
        None \<Rightarrow> s
      | Some x \<Rightarrow>
          (push_history
             \<lparr>ph_pit_time_ms = fx_entry_time_ms x, ph_lap = fx_entry_lap x, ph_source = fx_source x,
              ph_tire_type_after = runtime_tire_type_from_engine (vs_tyre_type v),
              ph_tire_type_before = fx_tire_type_before x,
              ph_tire_wear_before_repair = fx_tire_wear_before_repair x,
              ph_tire_temperature_before_celsius = fx_tire_temperature_before_celsius x,
              ph_tire_temperature_after_celsius = tyre_temperature_celsius v,
              ph_bot_slot_before = fx_bot_slot_before x, ph_bot_slot_after = slot\<rparr>
             (s\<lparr>ps_active_fix_session := None\<rparr>))
          \<lparr>ps_last_pit_time_ms := now_ms, ps_last_pit_source := fx_source x,
           ps_last_pit_lap := fx_entry_lap x\<rparr>)"

definition official_pit_update ::
  "vehicle_state \<Rightarrow> vehicle_race_metrics option \<Rightarrow> u64 \<Rightarrow> u32 \<Rightarrow> pit_state \<Rightarrow> pit_state" where
  "official_pit_update v metrics now_ms slot s =
     (let in_fix_zone = has_zone (vs_pitstop_state v) ZoneFix;
          s1 = (if in_fix_zone \<and> \<not> ps_was_in_fix_zone s then enter_fix_zone v metrics now_ms slot s else s);
          s2 = (if \<not> in_fix_zone \<and> ps_was_in_fix_zone s1 then leave_fix_zone v now_ms slot s1 else s1)
      in s2\<lparr>ps_was_in_fix_zone := in_fix_zone\<rparr>)"

definition local_pit_update ::
  "vehicle_state \<Rightarrow> vehicle_race_metrics option \<Rightarrow> u64 \<Rightarrow> pit_state \<Rightarrow> pit_state" where
  "local_pit_update v metrics now_ms s =
     (if completed_pit v \<and> \<not> ps_was_fix_stationary_full_pit s then
        let source = pit_source s;
            lap = (case metrics of None \<Rightarrow> 0 | Some m \<Rightarrow> completed_laps m)
        in (push_history
              \<lparr>ph_pit_time_ms = now_ms, ph_lap = lap, ph_source = source,
               ph_tire_type_after = ps_active_next_tire_type s,
               ph_tire_type_before = runtime_tire_type_from_engine (vs_tyre_type v),
               ph_tire_wear_before_repair = tyre_health v,
               ph_tire_temperature_before_celsius = tyre_temperature_celsius v,
               ph_tire_temperature_after_celsius = tyre_temperature_celsius v,
               ph_bot_slot_before = 1, ph_bot_slot_after = 1\<rparr> s)
           \<lparr>ps_last_pit_time_ms := now_ms, ps_last_pit_source := source, ps_last_pit_lap := lap,
            ps_emergency_intent_pending := False, ps_pit_request_active := False\<rparr>
      else s)"

definition stationary_update :: "vehicle_state \<Rightarrow> pit_state \<Rightarrow> pit_state" where
  "stationary_update v s =
     (let s1 = (if \<not> completed_pit v
                then clear_applied (s\<lparr>ps_was_fix_stationary_full_pit := False\<rparr>)
                else s\<lparr>ps_was_fix_stationary_full_pit := True\<rparr>)
      in s1\<lparr>ps_in_stationary_fix := completed_pit v\<rparr>)"

definition pit_update ::
  "features \<Rightarrow> vehicle_state \<Rightarrow> vehicle_race_metrics option \<Rightarrow> u64 \<Rightarrow> u32 \<Rightarrow> pit_state \<Rightarrow> pit_state" where
  "pit_update fs v metrics now_ms slot s =
     stationary_update v
       (if official fs then official_pit_update v metrics now_ms slot s
        else local_pit_update v metrics now_ms s)"

definition update_pit_state_from_runtime ::
  "features \<Rightarrow> u64 \<Rightarrow> vehicle_state \<Rightarrow> vehicle_race_metrics option \<Rightarrow> u64 \<Rightarrow> runtime_store
    \<Rightarrow> pit_state_snapshot \<times> runtime_store" where
  "update_pit_state_from_runtime fs car_id v metrics now_ms st =
     (let s = pit_update fs v metrics now_ms (bot_slot_for_history car_id st) (pit_of car_id st)
      in (snapshot s now_ms, with_pit car_id (\<lambda>_. s) st))"

end
