(* ===== verification/Engine_Client.thy ===== *)
theory Engine_Client
  imports Engine_Worker
begin

text \<open>
  The client of the engine worker, the methods of \<open>EngineClient\<close> in
  game-server/src/runtime/engine_worker.rs. A method sends a command and awaits the reply of
  the worker; a worker that has stopped answers nothing, which is the error \<open>WorkerStopped\<close>.
  The client acts on any system that contains the worker: the services extend the record
  \<open>client_system\<close> by their own state.
\<close>

record 'n client_system =
  sys_worker :: "'n worker"

definition client_call ::
  "'n worker_env \<Rightarrow> engine_command \<Rightarrow> (reply \<Rightarrow> (worker_error, 'a) result) \<Rightarrow> ('n, 'x) client_system_scheme
    \<Rightarrow> (worker_error, 'a) result \<times> ('n, 'x) client_system_scheme" where
  "client_call env cmd get sys =
     (if \<not> w_running (sys_worker sys) then (Inl WorkerStopped, sys)
      else let (r, w) = handle_command env cmd (sys_worker sys) in (get r, sys\<lparr>sys_worker := w\<rparr>))"

text \<open>The reply of a command as the method's result; the channel of a command carries one type.\<close>

fun car_reply :: "reply \<Rightarrow> (worker_error, u64) result" where
  "car_reply (ReplyCar r) = r"
| "car_reply _ = Inl WorkerStopped"

fun controls_reply :: "reply \<Rightarrow> (worker_error, accepted_controls) result" where
  "controls_reply (ReplyControls r) = r"
| "controls_reply _ = Inl WorkerStopped"

fun state_reply :: "reply \<Rightarrow> (worker_error, vehicle_state) result" where
  "state_reply (ReplyState r) = r"
| "state_reply _ = Inl WorkerStopped"

fun metrics_reply :: "reply \<Rightarrow> (worker_error, vehicle_race_metrics) result" where
  "metrics_reply (ReplyMetrics r) = r"
| "metrics_reply _ = Inl WorkerStopped"

fun dimensions_reply :: "reply \<Rightarrow> (worker_error, fp \<times> fp) result" where
  "dimensions_reply (ReplyDimensions r) = r"
| "dimensions_reply _ = Inl WorkerStopped"

fun unit_reply :: "reply \<Rightarrow> (worker_error, unit) result" where
  "unit_reply (ReplyUnit r) = r"
| "unit_reply _ = Inl WorkerStopped"

fun count_reply :: "reply \<Rightarrow> (worker_error, u64) result" where
  "count_reply (ReplyCount r) = r"
| "count_reply _ = Inl WorkerStopped"

fun track_reply :: "reply \<Rightarrow> (worker_error, track_data) result" where
  "track_reply (ReplyTrack r) = r"
| "track_reply _ = Inl WorkerStopped"

fun duration_reply :: "reply \<Rightarrow> (worker_error, fp) result" where
  "duration_reply (ReplyDuration r) = r"
| "duration_reply _ = Inl WorkerStopped"

fun runtime_reply :: "reply \<Rightarrow> (worker_error, runtime_state) result" where
  "runtime_reply (ReplyRuntime r) = r"
| "runtime_reply _ = Inl WorkerStopped"

fun cancel_reply :: "reply \<Rightarrow> (worker_error, runtime_state \<times> bool) result" where
  "cancel_reply (ReplyCancel r) = r"
| "cancel_reply _ = Inl WorkerStopped"

section \<open>Methods that send a command\<close>

definition client_spawn_car_in ::
  "'n worker_env \<Rightarrow> command_target
    \<Rightarrow> ('n, 'x) client_system_scheme \<Rightarrow> (worker_error, u64) result \<times> ('n, 'x) client_system_scheme" where
  "client_spawn_car_in env target = client_call env (SpawnCar target) car_reply"

definition client_set_controls_in ::
  "'n worker_env \<Rightarrow> command_target \<Rightarrow> u64 \<Rightarrow> controls
    \<Rightarrow> ('n, 'x) client_system_scheme \<Rightarrow> (worker_error, accepted_controls) result \<times> ('n, 'x) client_system_scheme" where
  "client_set_controls_in env target car_id c = client_call env (SetControls target car_id c) controls_reply"

definition client_read_car_state_in ::
  "'n worker_env \<Rightarrow> command_target \<Rightarrow> u64
    \<Rightarrow> ('n, 'x) client_system_scheme \<Rightarrow> (worker_error, vehicle_state) result \<times> ('n, 'x) client_system_scheme" where
  "client_read_car_state_in env target car_id = client_call env (ReadCarState target car_id) state_reply"

definition client_read_car_race_metrics_in ::
  "'n worker_env \<Rightarrow> command_target \<Rightarrow> u64
    \<Rightarrow> ('n, 'x) client_system_scheme \<Rightarrow> (worker_error, vehicle_race_metrics) result \<times> ('n, 'x) client_system_scheme" where
  "client_read_car_race_metrics_in env target car_id = client_call env (ReadCarRaceMetrics target car_id) metrics_reply"

definition client_read_car_dimensions_in ::
  "'n worker_env \<Rightarrow> command_target \<Rightarrow> u64
    \<Rightarrow> ('n, 'x) client_system_scheme \<Rightarrow> (worker_error, fp \<times> fp) result \<times> ('n, 'x) client_system_scheme" where
  "client_read_car_dimensions_in env target car_id = client_call env (ReadCarDimensions target car_id) dimensions_reply"

definition client_set_car_back_to_track_in ::
  "'n worker_env \<Rightarrow> command_target \<Rightarrow> u64
    \<Rightarrow> ('n, 'x) client_system_scheme \<Rightarrow> (worker_error, unit) result \<times> ('n, 'x) client_system_scheme" where
  "client_set_car_back_to_track_in env target car_id = client_call env (SetCarBackToTrack target car_id) unit_reply"

definition client_set_car_before_finish_line_in ::
  "'n worker_env \<Rightarrow> command_target \<Rightarrow> u64
    \<Rightarrow> ('n, 'x) client_system_scheme \<Rightarrow> (worker_error, unit) result \<times> ('n, 'x) client_system_scheme" where
  "client_set_car_before_finish_line_in env target car_id = client_call env (SetCarBeforeFinishLine target car_id) unit_reply"

definition client_set_car_random_on_track_in ::
  "'n worker_env \<Rightarrow> command_target \<Rightarrow> u64
    \<Rightarrow> ('n, 'x) client_system_scheme \<Rightarrow> (worker_error, unit) result \<times> ('n, 'x) client_system_scheme" where
  "client_set_car_random_on_track_in env target car_id = client_call env (SetCarRandomOnTrack target car_id) unit_reply"

definition client_set_car_at_start_pos_in ::
  "'n worker_env \<Rightarrow> command_target \<Rightarrow> u64 \<Rightarrow> u64
    \<Rightarrow> ('n, 'x) client_system_scheme \<Rightarrow> (worker_error, unit) result \<times> ('n, 'x) client_system_scheme" where
  "client_set_car_at_start_pos_in env target car_id position_index = client_call env (SetCarAtStartPos target car_id position_index) unit_reply"

definition client_set_car_to_pitstop_in ::
  "'n worker_env \<Rightarrow> command_target \<Rightarrow> u64
    \<Rightarrow> ('n, 'x) client_system_scheme \<Rightarrow> (worker_error, unit) result \<times> ('n, 'x) client_system_scheme" where
  "client_set_car_to_pitstop_in env target car_id = client_call env (SetCarToPitstop target car_id) unit_reply"

definition client_set_car_tyre_type_in ::
  "'n worker_env \<Rightarrow> command_target \<Rightarrow> u64 \<Rightarrow> tyre_type
    \<Rightarrow> ('n, 'x) client_system_scheme \<Rightarrow> (worker_error, unit) result \<times> ('n, 'x) client_system_scheme" where
  "client_set_car_tyre_type_in env target car_id tt = client_call env (SetCarTyreType target car_id tt) unit_reply"

definition client_force_set_car_tyre_type_in ::
  "'n worker_env \<Rightarrow> command_target \<Rightarrow> u64 \<Rightarrow> tyre_type
    \<Rightarrow> ('n, 'x) client_system_scheme \<Rightarrow> (worker_error, unit) result \<times> ('n, 'x) client_system_scheme" where
  "client_force_set_car_tyre_type_in env target car_id tt = client_call env (ForceSetCarTyreType target car_id tt) unit_reply"

definition client_get_number_of_start_pos_in ::
  "'n worker_env \<Rightarrow> command_target
    \<Rightarrow> ('n, 'x) client_system_scheme \<Rightarrow> (worker_error, u64) result \<times> ('n, 'x) client_system_scheme" where
  "client_get_number_of_start_pos_in env target = client_call env (GetNumberOfStartPos target) count_reply"

definition client_track_data_in ::
  "'n worker_env \<Rightarrow> command_target
    \<Rightarrow> ('n, 'x) client_system_scheme \<Rightarrow> (worker_error, track_data) result \<times> ('n, 'x) client_system_scheme" where
  "client_track_data_in env target = client_call env (GetTrackData target) track_reply"

definition client_race_duration_in ::
  "'n worker_env \<Rightarrow> command_target
    \<Rightarrow> ('n, 'x) client_system_scheme \<Rightarrow> (worker_error, fp) result \<times> ('n, 'x) client_system_scheme" where
  "client_race_duration_in env target = client_call env (GetRaceDuration target) duration_reply"

definition client_runtime_state ::
  "'n worker_env
    \<Rightarrow> ('n, 'x) client_system_scheme \<Rightarrow> (worker_error, runtime_state) result \<times> ('n, 'x) client_system_scheme" where
  "client_runtime_state env = client_call env GetRuntimeState runtime_reply"

definition client_switch_runtime ::
  "'n worker_env \<Rightarrow> u64 \<Rightarrow> activity_kind \<Rightarrow> string \<Rightarrow> string option \<Rightarrow> time_of_day option \<Rightarrow> ghost_mode_settings option
    \<Rightarrow> ('n, 'x) client_system_scheme \<Rightarrow> (worker_error, runtime_state) result \<times> ('n, 'x) client_system_scheme" where
  "client_switch_runtime env expected kind map_id sandbox_id preset settings = client_call env (SwitchRuntime expected kind map_id sandbox_id preset settings) runtime_reply"

definition client_activate_local_race ::
  "'n worker_env \<Rightarrow> u64 \<Rightarrow> string \<Rightarrow> string \<Rightarrow> time_of_day \<Rightarrow> ghost_mode_settings option
    \<Rightarrow> ('n, 'x) client_system_scheme \<Rightarrow> (worker_error, runtime_state) result \<times> ('n, 'x) client_system_scheme" where
  "client_activate_local_race env expected race_id map_id preset settings = client_call env (ActivateLocalRace expected race_id map_id preset settings) runtime_reply"

definition client_deactivate_local_race ::
  "'n worker_env \<Rightarrow> u64 \<Rightarrow> string
    \<Rightarrow> ('n, 'x) client_system_scheme \<Rightarrow> (worker_error, runtime_state) result \<times> ('n, 'x) client_system_scheme" where
  "client_deactivate_local_race env expected race_id = client_call env (DeactivateLocalRace expected race_id) runtime_reply"

definition client_bump_revision ::
  "'n worker_env \<Rightarrow> u64
    \<Rightarrow> ('n, 'x) client_system_scheme \<Rightarrow> (worker_error, runtime_state) result \<times> ('n, 'x) client_system_scheme" where
  "client_bump_revision env expected = client_call env (BumpRevision expected) runtime_reply"

definition client_set_runtime_time_of_day ::
  "'n worker_env \<Rightarrow> u64 \<Rightarrow> string option \<Rightarrow> time_of_day
    \<Rightarrow> ('n, 'x) client_system_scheme \<Rightarrow> (worker_error, runtime_state) result \<times> ('n, 'x) client_system_scheme" where
  "client_set_runtime_time_of_day env expected sandbox_id preset = client_call env (SetRuntimeTimeOfDay expected sandbox_id preset) runtime_reply"

definition client_set_pending_sandbox_activation ::
  "'n worker_env \<Rightarrow> u64 \<Rightarrow> pending_sandbox_activation
    \<Rightarrow> ('n, 'x) client_system_scheme \<Rightarrow> (worker_error, runtime_state) result \<times> ('n, 'x) client_system_scheme" where
  "client_set_pending_sandbox_activation env expected p = client_call env (SetPendingSandboxActivation expected p) runtime_reply"

definition client_cancel_pending_sandbox_activation ::
  "'n worker_env \<Rightarrow> u64 \<Rightarrow> string
    \<Rightarrow> ('n, 'x) client_system_scheme \<Rightarrow> (worker_error, runtime_state \<times> bool) result \<times> ('n, 'x) client_system_scheme" where
  "client_cancel_pending_sandbox_activation env expected sandbox_id = client_call env (CancelPendingSandboxActivation expected sandbox_id) cancel_reply"

definition client_deactivate_sandbox ::
  "'n worker_env \<Rightarrow> u64 \<Rightarrow> string
    \<Rightarrow> ('n, 'x) client_system_scheme \<Rightarrow> (worker_error, runtime_state) result \<times> ('n, 'x) client_system_scheme" where
  "client_deactivate_sandbox env expected sandbox_id = client_call env (DeactivateSandbox expected sandbox_id) runtime_reply"

definition client_set_ghost_mode_settings_in ::
  "'n worker_env \<Rightarrow> command_target \<Rightarrow> ghost_mode_settings
    \<Rightarrow> ('n, 'x) client_system_scheme \<Rightarrow> (worker_error, unit) result \<times> ('n, 'x) client_system_scheme" where
  "client_set_ghost_mode_settings_in env target settings = client_call env (SetGhostModeSettings target settings) unit_reply"

definition client_set_sandbox_weather ::
  "'n worker_env \<Rightarrow> string \<Rightarrow> weather_params \<Rightarrow> runtime_weather_now
    \<Rightarrow> ('n, 'x) client_system_scheme \<Rightarrow> (worker_error, unit) result \<times> ('n, 'x) client_system_scheme" where
  "client_set_sandbox_weather env sandbox_id weather weather_now = client_call env (SetWeather sandbox_id weather weather_now) unit_reply"

definition client_despawn_car_in ::
  "'n worker_env \<Rightarrow> command_target \<Rightarrow> u64
    \<Rightarrow> ('n, 'x) client_system_scheme \<Rightarrow> (worker_error, unit) result \<times> ('n, 'x) client_system_scheme" where
  "client_despawn_car_in env target car_id = client_call env (DespawnCar target car_id) unit_reply"

section \<open>Methods for a fixed world\<close>

definition client_spawn_car ::
  "'n worker_env
    \<Rightarrow> ('n, 'x) client_system_scheme \<Rightarrow> (worker_error, u64) result \<times> ('n, 'x) client_system_scheme" where
  "client_spawn_car env = client_spawn_car_in env TargetOfficialRace"

definition client_spawn_sandbox_car ::
  "'n worker_env \<Rightarrow> string
    \<Rightarrow> ('n, 'x) client_system_scheme \<Rightarrow> (worker_error, u64) result \<times> ('n, 'x) client_system_scheme" where
  "client_spawn_sandbox_car env sandbox_id = client_spawn_car_in env (TargetSandbox sandbox_id)"

definition client_spawn_local_race_car ::
  "'n worker_env \<Rightarrow> string
    \<Rightarrow> ('n, 'x) client_system_scheme \<Rightarrow> (worker_error, u64) result \<times> ('n, 'x) client_system_scheme" where
  "client_spawn_local_race_car env race_id = client_spawn_car_in env (TargetLocalRace race_id)"

definition client_set_controls ::
  "'n worker_env \<Rightarrow> u64 \<Rightarrow> controls
    \<Rightarrow> ('n, 'x) client_system_scheme \<Rightarrow> (worker_error, accepted_controls) result \<times> ('n, 'x) client_system_scheme" where
  "client_set_controls env car_id c = client_set_controls_in env TargetOfficialRace car_id c"

definition client_set_sandbox_controls ::
  "'n worker_env \<Rightarrow> string \<Rightarrow> u64 \<Rightarrow> controls
    \<Rightarrow> ('n, 'x) client_system_scheme \<Rightarrow> (worker_error, accepted_controls) result \<times> ('n, 'x) client_system_scheme" where
  "client_set_sandbox_controls env sandbox_id car_id c = client_set_controls_in env (TargetSandbox sandbox_id) car_id c"

definition client_read_car_state ::
  "'n worker_env \<Rightarrow> u64
    \<Rightarrow> ('n, 'x) client_system_scheme \<Rightarrow> (worker_error, vehicle_state) result \<times> ('n, 'x) client_system_scheme" where
  "client_read_car_state env car_id = client_read_car_state_in env TargetOfficialRace car_id"

definition client_read_sandbox_car_state ::
  "'n worker_env \<Rightarrow> string \<Rightarrow> u64
    \<Rightarrow> ('n, 'x) client_system_scheme \<Rightarrow> (worker_error, vehicle_state) result \<times> ('n, 'x) client_system_scheme" where
  "client_read_sandbox_car_state env sandbox_id car_id = client_read_car_state_in env (TargetSandbox sandbox_id) car_id"

definition client_read_car_race_metrics ::
  "'n worker_env \<Rightarrow> u64
    \<Rightarrow> ('n, 'x) client_system_scheme \<Rightarrow> (worker_error, vehicle_race_metrics) result \<times> ('n, 'x) client_system_scheme" where
  "client_read_car_race_metrics env car_id = client_read_car_race_metrics_in env TargetOfficialRace car_id"

definition client_read_sandbox_car_race_metrics ::
  "'n worker_env \<Rightarrow> string \<Rightarrow> u64
    \<Rightarrow> ('n, 'x) client_system_scheme \<Rightarrow> (worker_error, vehicle_race_metrics) result \<times> ('n, 'x) client_system_scheme" where
  "client_read_sandbox_car_race_metrics env sandbox_id car_id = client_read_car_race_metrics_in env (TargetSandbox sandbox_id) car_id"

definition client_track_data ::
  "'n worker_env
    \<Rightarrow> ('n, 'x) client_system_scheme \<Rightarrow> (worker_error, track_data) result \<times> ('n, 'x) client_system_scheme" where
  "client_track_data env = client_track_data_in env TargetOfficialRace"

definition client_sandbox_track_data ::
  "'n worker_env \<Rightarrow> string
    \<Rightarrow> ('n, 'x) client_system_scheme \<Rightarrow> (worker_error, track_data) result \<times> ('n, 'x) client_system_scheme" where
  "client_sandbox_track_data env sandbox_id = client_track_data_in env (TargetSandbox sandbox_id)"

definition client_race_duration ::
  "'n worker_env
    \<Rightarrow> ('n, 'x) client_system_scheme \<Rightarrow> (worker_error, fp) result \<times> ('n, 'x) client_system_scheme" where
  "client_race_duration env = client_race_duration_in env TargetOfficialRace"

definition client_sandbox_race_duration ::
  "'n worker_env \<Rightarrow> string
    \<Rightarrow> ('n, 'x) client_system_scheme \<Rightarrow> (worker_error, fp) result \<times> ('n, 'x) client_system_scheme" where
  "client_sandbox_race_duration env sandbox_id = client_race_duration_in env (TargetSandbox sandbox_id)"

definition client_set_ghost_mode_settings ::
  "'n worker_env \<Rightarrow> ghost_mode_settings
    \<Rightarrow> ('n, 'x) client_system_scheme \<Rightarrow> (worker_error, unit) result \<times> ('n, 'x) client_system_scheme" where
  "client_set_ghost_mode_settings env settings = client_set_ghost_mode_settings_in env TargetOfficialRace settings"

definition client_set_sandbox_ghost_mode_settings ::
  "'n worker_env \<Rightarrow> string \<Rightarrow> ghost_mode_settings
    \<Rightarrow> ('n, 'x) client_system_scheme \<Rightarrow> (worker_error, unit) result \<times> ('n, 'x) client_system_scheme" where
  "client_set_sandbox_ghost_mode_settings env sandbox_id settings = client_set_ghost_mode_settings_in env (TargetSandbox sandbox_id) settings"

definition client_despawn_car ::
  "'n worker_env \<Rightarrow> u64
    \<Rightarrow> ('n, 'x) client_system_scheme \<Rightarrow> (worker_error, unit) result \<times> ('n, 'x) client_system_scheme" where
  "client_despawn_car env car_id = client_despawn_car_in env TargetOfficialRace car_id"

definition client_despawn_sandbox_car ::
  "'n worker_env \<Rightarrow> string \<Rightarrow> u64
    \<Rightarrow> ('n, 'x) client_system_scheme \<Rightarrow> (worker_error, unit) result \<times> ('n, 'x) client_system_scheme" where
  "client_despawn_sandbox_car env sandbox_id car_id = client_despawn_car_in env (TargetSandbox sandbox_id) car_id"

lemmas client_defs =
  client_spawn_car_in_def
  client_set_controls_in_def
  client_read_car_state_in_def
  client_read_car_race_metrics_in_def
  client_read_car_dimensions_in_def
  client_set_car_back_to_track_in_def
  client_set_car_before_finish_line_in_def
  client_set_car_random_on_track_in_def
  client_set_car_at_start_pos_in_def
  client_set_car_to_pitstop_in_def
  client_set_car_tyre_type_in_def
  client_force_set_car_tyre_type_in_def
  client_get_number_of_start_pos_in_def
  client_track_data_in_def
  client_race_duration_in_def
  client_runtime_state_def
  client_switch_runtime_def
  client_activate_local_race_def
  client_deactivate_local_race_def
  client_bump_revision_def
  client_set_runtime_time_of_day_def
  client_set_pending_sandbox_activation_def
  client_cancel_pending_sandbox_activation_def
  client_deactivate_sandbox_def
  client_set_ghost_mode_settings_in_def
  client_set_sandbox_weather_def
  client_despawn_car_in_def

lemmas client_world_defs =
  client_spawn_car_def
  client_spawn_sandbox_car_def
  client_spawn_local_race_car_def
  client_set_controls_def
  client_set_sandbox_controls_def
  client_read_car_state_def
  client_read_sandbox_car_state_def
  client_read_car_race_metrics_def
  client_read_sandbox_car_race_metrics_def
  client_track_data_def
  client_sandbox_track_data_def
  client_race_duration_def
  client_sandbox_race_duration_def
  client_set_ghost_mode_settings_def
  client_set_sandbox_ghost_mode_settings_def
  client_despawn_car_def
  client_despawn_sandbox_car_def

section \<open>What a call returns\<close>

text \<open>
  Every command is answered with the reply its method expects, so a method of a running
  worker returns the result of the operation the command stands for.
\<close>

definition on_worker :: "'n worker_env \<Rightarrow> ('n worker \<Rightarrow> (worker_error, 'a) result \<times> 'n worker)
    \<Rightarrow> ('n, 'x) client_system_scheme \<Rightarrow> (worker_error, 'a) result \<times> ('n, 'x) client_system_scheme" where
  "on_worker env f sys =
     (if w_running (sys_worker sys)
      then (fst (f (sys_worker sys)), sys\<lparr>sys_worker := snd (f (sys_worker sys))\<rparr>)
      else (Inl WorkerStopped, sys))"

lemma client_results:
  "client_spawn_car_in env target = on_worker env (with_target_slot_mut target (spawn_car_op env))"
  "client_set_controls_in env target car_id c =
     on_worker env (with_target_slot_mut target (on_engine (engine_set_controls (env_api env) car_id c)))"
  "client_read_car_state_in env target car_id =
     on_worker env (with_target_slot_mut target (reading (read_vehicle_state (env_api env) car_id)))"
  "client_read_car_race_metrics_in env target car_id =
     on_worker env (with_target_slot_mut target (reading (read_vehicle_race_metrics (env_api env) car_id)))"
  "client_set_car_tyre_type_in env target car_id tt =
     on_worker env (with_target_slot_mut target (on_engine (engine_set_vehicle_tyre_type (env_api env) car_id tt)))"
  "client_track_data_in env target =
     on_worker env (with_target_slot_mut target (reading (engine_track_data (env_api env))))"
  "client_race_duration_in env target =
     on_worker env (with_target_slot_mut target (reading (race_duration (env_api env))))"
  "client_runtime_state env = on_worker env (\<lambda>w. (Inr (w_runtime w), w))"
  "client_bump_revision env expected = on_worker env (bump_revision expected)"
  "client_activate_local_race env expected race_id map_id preset settings =
     on_worker env (activate_local_race env race_id map_id preset settings expected)"
  "client_deactivate_local_race env expected race_id = on_worker env (deactivate_local_race race_id expected)"
  "client_deactivate_sandbox env expected sandbox_id = on_worker env (deactivate_sandbox sandbox_id expected)"
  "client_despawn_car_in env target car_id =
     on_worker env (with_target_slot_mut target (on_engine (despawn_vehicle (env_api env) car_id)))"
  by (simp_all add: fun_eq_iff client_defs client_call_def on_worker_def answer_def)

lemma on_worker_more [simp]: "client_system.more (snd (on_worker env f sys)) = client_system.more sys"
  by (simp add: on_worker_def)

end
