(* ===== verification/Service_Status.thy ===== *)
theory Service_Status
  imports Engine_Worker
begin

text \<open>
  The errors the services answer with, and the mapping of the worker's errors to them in
  game-server/src/services/error_map.rs. Only the codes the services use are constructors.
\<close>

section \<open>Errors of the services\<close>

datatype status_code =
  CodeInvalidArgument | CodeNotFound | CodeFailedPrecondition | CodeResourceExhausted |
  CodeUnavailable | CodeUnimplemented | CodeInternal | CodeUnauthenticated | CodeDeadlineExceeded |
  CodePermissionDenied | CodeAlreadyExists | CodeAborted

datatype status = Status status_code string

fun boink_error_text :: "boink_error \<Rightarrow> string" where
  "boink_error_text (NullHandle f) = ''native call '' @ f @ '' returned a null handle''"
| "boink_error_text (InvalidCarModel s) = ''invalid car model: '' @ s"
| "boink_error_text (InvalidString s) = ''invalid string: '' @ s"
| "boink_error_text InvalidArg = ''invalid argument''"
| "boink_error_text BufferTooSmall = ''buffer too small''"
| "boink_error_text NotFound = ''resource not found''"
| "boink_error_text NoData = ''no data available''"
| "boink_error_text ConditionNotMet = ''condition not met''"
| "boink_error_text UnsupportedFormat = ''unsupported format''"
| "boink_error_text Io = ''I/O error''"
| "boink_error_text (Internal s) = ''internal error: '' @ s"
| "boink_error_text (FfiStatus code f) = f @ '' returned native error code '' @ dec_int code"
| "boink_error_text (IncompatibleVersion _ _) = ''incompatible native library version''"
| "boink_error_text (Native code) = ''native error code '' @ dec_int code"

definition map_engine_err :: "boink_error \<Rightarrow> status" where
  "map_engine_err e = Status CodeInternal (''engine error: '' @ boink_error_text e)"

definition revision_mismatch_text :: "u64 \<Rightarrow> u64 \<Rightarrow> string" where
  "revision_mismatch_text expected actual =
     ''runtime revision mismatch: expected '' @ dec_nat (unat expected) @ '', actual '' @ dec_nat (unat actual)"

fun map_worker_err :: "worker_error \<Rightarrow> status" where
  "map_worker_err (EngineError e) = map_engine_err e"
| "map_worker_err WorkerStopped = Status CodeUnavailable ''engine worker stopped''"
| "map_worker_err (InvalidArgument msg) = Status CodeInvalidArgument msg"
| "map_worker_err (RevisionMismatch expected actual) =
     Status CodeFailedPrecondition (revision_mismatch_text expected actual)"

definition invalid_argument :: "string \<Rightarrow> (status, 'a) result" where
  "invalid_argument msg = Inl (Status CodeInvalidArgument msg)"

end
