(* ===== verification/Local_Race_Admin.thy ===== *)
theory Local_Race_Admin
  imports Local_Race_State Runtime_Store Engine_Client Service_Status
begin

text \<open>
  The administration of the standalone local race: the four requests of
  game-server/src/services/local_race_admin.rs, the lifecycle tick of
  game-server/src/services/local_sandbox_admin.rs. The requests call the engine worker through its client.

  A request is not atomic: at every await other tasks may run. Their effect at the request's
  await number \<open>i\<close> is the argument \<open>other i\<close>, any function on the state of the system;
  \<open>undisturbed\<close> is a request that runs alone. The clock read number \<open>i\<close> is \<open>now i\<close>.
\<close>

section \<open>Errors of the race state\<close>

fun map_state_err :: "local_race_error \<Rightarrow> status" where
  "map_state_err NoActiveRace = Status CodeNotFound ''no active local race''"
| "map_state_err RaceMismatch = Status CodeNotFound ''active local race id does not match request''"
| "map_state_err JoinClosed = Status CodeFailedPrecondition ''local race join is allowed only in staging phase''"
| "map_state_err ParticipantLimitReached = Status CodeResourceExhausted ''local race participant limit reached''"

section \<open>The system\<close>

record 'n local_system = "'n client_system" +
  sys_race :: local_race_state
  sys_store :: runtime_store

type_synonym 'n others = "nat \<Rightarrow> 'n local_system \<Rightarrow> 'n local_system"

definition undisturbed :: "'n others" where "undisturbed = (\<lambda>_ sys. sys)"

section \<open>Configuration\<close>

datatype time_of_day_mode = ModeUnspecified | ModeFixedPreset | ModeAutoByLocalTime

text \<open>The integers of the protocol's enumerations, which its generated code defines.\<close>

record proto_codes =
  pc_mode :: "i32 \<Rightarrow> time_of_day_mode option"
  pc_mode_code :: "time_of_day_mode \<Rightarrow> i32"
  pc_preset :: "i32 \<Rightarrow> proto_time_of_day option"
  pc_preset_code :: "proto_time_of_day \<Rightarrow> i32"
  pc_weather_clear :: i32

record local_race_config =
  cf_race_name :: string
  cf_map_id :: string
  cf_race_duration_sec :: u32
  cf_time_of_day :: "local_time_of_day_settings option"
  cf_ghost_mode :: "ghost_mode_settings option"
  cf_weather :: "local_weather_settings option"
  cf_max_participants :: u32

definition DEFAULT_LOCAL_RACE_MAX_PARTICIPANTS :: u32 where "DEFAULT_LOCAL_RACE_MAX_PARTICIPANTS = 33"

definition normalize_config :: "proto_codes \<Rightarrow> local_race_config \<Rightarrow> (status, local_race_config) result" where
  "normalize_config pc config0 =
     (let name = trim (cf_race_name config0);
          config = config0\<lparr>cf_race_name := (if name = [] then ''Local race'' else name),
                           cf_map_id := trim (cf_map_id config0)\<rparr>
      in if cf_map_id config = [] then invalid_argument ''map_id must be non-empty''
         else if \<not> list_all is_ascii_alphanumeric (cf_map_id config)
         then invalid_argument ''map_id must be an alphanumeric standalone storage key''
         else if cf_race_duration_sec config = 0
         then invalid_argument ''race_duration_sec must be greater than zero''
         else
           let c1 = (if cf_time_of_day config = None
                     then config\<lparr>cf_time_of_day := Some
                            \<lparr>lt_mode = pc_mode_code pc ModeFixedPreset,
                             lt_fixed_preset = pc_preset_code pc ProtoNoon\<rparr>\<rparr> else config);
               c2 = (if cf_weather c1 = None
                     then c1\<lparr>cf_weather := Some \<lparr>lw_weather_type = pc_weather_clear pc, lw_temperature_c = 20\<rparr>\<rparr>
                     else c1);
               c3 = (if cf_max_participants c2 = 0
                     then c2\<lparr>cf_max_participants := DEFAULT_LOCAL_RACE_MAX_PARTICIPANTS\<rparr> else c2)
           in Inr c3)"

definition resolve_time_of_day_preset ::
  "proto_codes \<Rightarrow> local_time_of_day_settings \<Rightarrow> (status, time_of_day) result" where
  "resolve_time_of_day_preset pc v =
     (case pc_mode pc (lt_mode v) of
        None \<Rightarrow> invalid_argument ''invalid time_of_day.mode''
      | Some mode \<Rightarrow>
          if mode = ModeUnspecified then invalid_argument ''time_of_day.mode must be specified''
          else
            (case pc_preset pc (lt_fixed_preset v) of
               None \<Rightarrow> invalid_argument ''invalid time_of_day.fixed_preset''
             | Some ProtoMorning \<Rightarrow> Inr TodMorning
             | Some ProtoNoon \<Rightarrow> Inr TodNoon
             | Some ProtoEvening \<Rightarrow> Inr TodEvening
             | Some ProtoNight \<Rightarrow> Inr TodNight
             | Some ProtoUnspecified \<Rightarrow> invalid_argument ''time_of_day.fixed_preset must be specified''))"

fun runtime_time_of_day_preset_to_proto :: "time_of_day \<Rightarrow> proto_time_of_day" where
  "runtime_time_of_day_preset_to_proto TodMorning = ProtoMorning"
| "runtime_time_of_day_preset_to_proto TodNoon = ProtoNoon"
| "runtime_time_of_day_preset_to_proto TodEvening = ProtoEvening"
| "runtime_time_of_day_preset_to_proto TodNight = ProtoNight"
| "runtime_time_of_day_preset_to_proto TodUnspecified = ProtoUnspecified"

section \<open>Requests\<close>

text \<open>The new race as \<open>create_local_race\<close> builds it; the ghost settings are copied field by field.\<close>

definition created_race :: "string \<Rightarrow> local_race_config \<Rightarrow> time_of_day \<Rightarrow> u64 \<Rightarrow> local_race_runtime_info" where
  "created_race race_id config preset now_ms =
     \<lparr>ri_race_id = race_id, ri_race_name = cf_race_name config, ri_map_id = cf_map_id config,
      ri_race_duration_sec = cf_race_duration_sec config, ri_time_of_day = cf_time_of_day config,
      ri_active_time_of_day_preset = runtime_time_of_day_preset_to_proto preset,
      ri_ghost_mode = cf_ghost_mode config, ri_weather = cf_weather config,
      ri_phase = PhaseStaging, ri_created_at_utc = Some (timestamp_from_ms now_ms),
      ri_countdown_end_at_utc = None, ri_running_started_at_utc = None, ri_planned_end_at_utc = None,
      ri_joined_participant_count = 0, ri_max_participants = cf_max_participants config\<rparr>"

definition create_local_race ::
  "'n worker_env \<Rightarrow> proto_codes \<Rightarrow> string \<Rightarrow> (nat \<Rightarrow> u64) \<Rightarrow> 'n others \<Rightarrow> u64 \<Rightarrow> local_race_config option
    \<Rightarrow> 'n local_system \<Rightarrow> (status, u64 \<times> local_race_runtime_info) result \<times> 'n local_system" where
  "create_local_race env pc race_id now other expected_revision config sys =
     (case config of
        None \<Rightarrow> (invalid_argument ''config is required'', sys)
      | Some config \<Rightarrow>
          (case normalize_config pc config of
             Inl err \<Rightarrow> (Inl err, sys)
           | Inr normalized \<Rightarrow>
               (case cf_time_of_day normalized of
                  None \<Rightarrow> (invalid_argument ''time_of_day is required'', sys)
                | Some tod \<Rightarrow>
                    (case resolve_time_of_day_preset pc tod of
                       Inl err \<Rightarrow> (Inl err, sys)
                     | Inr preset \<Rightarrow>
                         (case client_activate_local_race env expected_revision race_id
                                 (cf_map_id normalized) preset (cf_ghost_mode normalized) (other 0 sys) of
                            (Inl err, sys1) \<Rightarrow> (Inl (map_worker_err err), sys1)
                          | (Inr runtime_after, sys1) \<Rightarrow>
                              (let race = created_race race_id normalized preset (now 0);
                                   sys2 = other 1 sys1
                               in (Inr (rt_revision runtime_after, race),
                                   sys2\<lparr>sys_race := set_active_race (now 1) race (sys_race sys2)\<rparr>)))))))"

text \<open>The update \<open>start_local_race_countdown\<close> makes to the race.\<close>

definition start_update :: "u32 \<Rightarrow> u64 \<Rightarrow> local_race_runtime_info \<Rightarrow> local_race_runtime_info" where
  "start_update countdown_seconds countdown_end_ms race =
     (let countdown_end = timestamp_from_ms countdown_end_ms;
          r1 = race\<lparr>ri_phase := (if countdown_seconds = 0 then PhaseRunning else PhaseCountdown),
                    ri_countdown_end_at_utc := Some countdown_end\<rparr>
      in if countdown_seconds = 0
         then r1\<lparr>ri_running_started_at_utc := Some countdown_end,
                 ri_planned_end_at_utc := Some (timestamp_from_ms
                   (sat_add countdown_end_ms (ucast (ri_race_duration_sec r1) * 1000)))\<rparr>
         else r1)"

definition start_local_race_countdown ::
  "'n worker_env \<Rightarrow> (nat \<Rightarrow> u64) \<Rightarrow> 'n others \<Rightarrow> u64 \<Rightarrow> string \<Rightarrow> u32
    \<Rightarrow> 'n local_system \<Rightarrow> (status, u64 \<times> timestamp) result \<times> 'n local_system" where
  "start_local_race_countdown env now other expected_revision race_id countdown_seconds sys =
     (case client_runtime_state env (other 0 sys) of
        (Inl err, sys1) \<Rightarrow> (Inl (map_worker_err err), sys1)
      | (Inr runtime_before, sys1) \<Rightarrow>
          if rt_revision runtime_before \<noteq> expected_revision
          then (Inl (Status CodeFailedPrecondition
                  (revision_mismatch_text expected_revision (rt_revision runtime_before))), sys1)
          else
            let sys2 = other 1 sys1 in
            case active_race (now 0) (sys_race sys2) of
              None \<Rightarrow> (Inl (Status CodeNotFound ''no active local race''), sys2)
            | Some active \<Rightarrow>
                if ri_race_id active \<noteq> race_id
                then (Inl (Status CodeNotFound ''active local race id does not match request''), sys2)
                else if ri_phase active \<noteq> PhaseStaging
                then (Inl (Status CodeFailedPrecondition
                        ''local race countdown can be started only in staging phase''), sys2)
                else
                  let countdown_end_ms = sat_add (now 1) (ucast countdown_seconds * 1000);
                      sys3 = other 2 sys2
                  in case update_active_race (now 2) (now 3) race_id
                            (start_update countdown_seconds countdown_end_ms) (sys_race sys3) of
                       (Inl err, st) \<Rightarrow> (Inl (map_state_err err), sys3\<lparr>sys_race := st\<rparr>)
                     | (Inr _, st) \<Rightarrow>
                         (case client_bump_revision env expected_revision (other 3 (sys3\<lparr>sys_race := st\<rparr>)) of
                            (Inl err, sys4) \<Rightarrow> (Inl (map_worker_err err), sys4)
                          | (Inr runtime_after, sys4) \<Rightarrow>
                              (Inr (rt_revision runtime_after, timestamp_from_ms countdown_end_ms), sys4)))"

definition abort_local_race ::
  "'n worker_env \<Rightarrow> (nat \<Rightarrow> u64) \<Rightarrow> 'n others \<Rightarrow> u64 \<Rightarrow> string
    \<Rightarrow> 'n local_system \<Rightarrow> (status, u64) result \<times> 'n local_system" where
  "abort_local_race env now other expected_revision race_id sys =
     (case client_runtime_state env (other 0 sys) of
        (Inl err, sys1) \<Rightarrow> (Inl (map_worker_err err), sys1)
      | (Inr runtime_before, sys1) \<Rightarrow>
          if rt_revision runtime_before \<noteq> expected_revision
          then (Inl (Status CodeFailedPrecondition
                  (revision_mismatch_text expected_revision (rt_revision runtime_before))), sys1)
          else
            let sys2 = other 1 sys1 in
            case update_active_race (now 0) (now 1) race_id (\<lambda>race. race\<lparr>ri_phase := PhaseAborted\<rparr>)
                   (sys_race sys2) of
              (Inl err, st) \<Rightarrow> (Inl (map_state_err err), sys2\<lparr>sys_race := st\<rparr>)
            | (Inr _, st) \<Rightarrow>
                (case client_deactivate_local_race env expected_revision race_id
                        (other 2 (sys2\<lparr>sys_race := st\<rparr>)) of
                   (Inl err, sys3) \<Rightarrow> (Inl (map_worker_err err), sys3)
                 | (Inr runtime_after, sys3) \<Rightarrow> (Inr (rt_revision runtime_after), sys3)))"

definition close_local_race ::
  "'n worker_env \<Rightarrow> (nat \<Rightarrow> u64) \<Rightarrow> 'n others \<Rightarrow> u64 \<Rightarrow> string
    \<Rightarrow> 'n local_system \<Rightarrow> (status, u64) result \<times> 'n local_system" where
  "close_local_race env now other expected_revision race_id sys =
     (let sys1 = other 0 sys in
      case active_race (now 0) (sys_race sys1) of
        None \<Rightarrow> (Inl (Status CodeNotFound ''no active local race''), sys1)
      | Some race \<Rightarrow>
          if ri_race_id race \<noteq> race_id
          then (Inl (Status CodeNotFound ''active local race id does not match request''), sys1)
          else if ri_phase race \<noteq> PhaseFinished \<and> ri_phase race \<noteq> PhaseAborted
          then (Inl (Status CodeFailedPrecondition
                  ''local race can be closed only when finished or aborted''), sys1)
          else
            case (if ri_phase race = PhaseFinished
                  then client_deactivate_local_race env expected_revision race_id (other 1 sys1)
                  else client_bump_revision env expected_revision (other 1 sys1)) of
              (Inl err, sys2) \<Rightarrow> (Inl (map_worker_err err), sys2)
            | (Inr runtime_after, sys2) \<Rightarrow>
                (let sys3 = other 2 sys2 in
                 case clear_active_race race_id (sys_race sys3) of
                   (Inl err, st) \<Rightarrow> (Inl (map_state_err err), sys3\<lparr>sys_race := st\<rparr>)
                 | (Inr _, st) \<Rightarrow> (Inr (rt_revision runtime_after), sys3\<lparr>sys_race := st\<rparr>)))"

section \<open>The lifecycle tick\<close>

definition bump_local_runtime_revision ::
  "'n worker_env \<Rightarrow> 'n others \<Rightarrow> string \<Rightarrow> 'n local_system \<Rightarrow> 'n local_system" where
  "bump_local_runtime_revision env other race_id sys =
     (case client_runtime_state env (other 1 sys) of
        (Inl _, sys1) \<Rightarrow> sys1
      | (Inr runtime, sys1) \<Rightarrow>
          if map_option lr_race_id (rt_active_local_race runtime) \<noteq> Some race_id then sys1
          else snd (client_bump_revision env (rt_revision runtime) (other 2 sys1)))"

definition finished_local_race_controls :: controls where
  "finished_local_race_controls = controls_new (Fin 0) (Fin 1) (Fin (1 / 2)) (Fin 0) (Fin 0) NoShift"

definition local_race_cars :: "string \<Rightarrow> runtime_store \<Rightarrow> (u64 \<times> u64) list" where
  "local_race_cars race_id st =
     List.map_filter (\<lambda>(car_id, target).
       if target = TargetLocalRace race_id
       then map_option (\<lambda>engine_id. (car_id, engine_id)) (hm_get (st_car_engine_ids st) car_id)
       else None) (st_car_targets st)"

fun freeze_cars ::
  "'n worker_env \<Rightarrow> 'n others \<Rightarrow> string \<Rightarrow> nat \<Rightarrow> (u64 \<times> u64) list \<Rightarrow> bool \<Rightarrow> 'n local_system
    \<Rightarrow> bool \<times> 'n local_system" where
  "freeze_cars env other race_id i [] all_applied sys = (all_applied, sys)"
| "freeze_cars env other race_id i ((car_id, engine_id) # cars) all_applied sys =
     (case client_set_controls_in env (TargetLocalRace race_id) engine_id finished_local_race_controls
             (other i sys) of
        (Inl _, sys1) \<Rightarrow> freeze_cars env other race_id (i + 1) cars False sys1
      | (Inr _, sys1) \<Rightarrow>
          freeze_cars env other race_id (i + 1) cars all_applied
            (sys1\<lparr>sys_store := set_controls_input car_id (Fin 0) (Fin 1) (Fin (1 / 2)) (Fin 0) (sys_store sys1)\<rparr>))"

definition apply_finished_local_race_soft_freeze ::
  "'n worker_env \<Rightarrow> 'n others \<Rightarrow> nat \<Rightarrow> string \<Rightarrow> 'n local_system \<Rightarrow> bool \<times> 'n local_system" where
  "apply_finished_local_race_soft_freeze env other i race_id sys =
     freeze_cars env other race_id i (local_race_cars race_id (sys_store sys)) True sys"

definition reconcile_local_race_lifecycle_tick ::
  "'n worker_env \<Rightarrow> (nat \<Rightarrow> u64) \<Rightarrow> 'n others \<Rightarrow> 'n local_system \<Rightarrow> 'n local_system" where
  "reconcile_local_race_lifecycle_tick env now other sys0 =
     (let sys = other 0 sys0;
          (outcome, st) = reconcile_active_race (now 0) (sys_race sys);
          sys1 = sys\<lparr>sys_race := st\<rparr>;
          sys2 = (case outcome of
                    None \<Rightarrow> sys1
                  | Some o1 \<Rightarrow> bump_local_runtime_revision env other (ri_race_id (ro_race o1)) sys1);
          sys3 = other 3 sys2
      in case finished_race_pending_soft_freeze (now 1) (sys_race sys3) of
           None \<Rightarrow> sys3
         | Some race \<Rightarrow>
             (let (applied, sys4) = apply_finished_local_race_soft_freeze env other 5 (ri_race_id race) sys3
              in if applied
                 then let sys5 = other 4 sys4
                      in sys5\<lparr>sys_race := snd (mark_finish_soft_freeze_applied (ri_race_id race) (sys_race sys5))\<rparr>
                 else sys4))"

end
