(* ===== verification/Local_Race_Contract.thy ===== *)
theory Local_Race_Contract
  imports Local_Race_Admin Engine_Worker_Safety
begin

text \<open>
  What the local race promises: its time stamps are exact, its participants are numbered and
  counted correctly under any interleaving of requests, its phases follow the clock, and its
  state agrees with the engine worker as long as requests do not interleave. The last
  section shows what the interleaving of an abort with another request leads to.
\<close>

section \<open>Time stamps\<close>

lemma timestamp_parts:
  "ts_seconds (timestamp_from_ms ms) = uint ms div 1000"
  "ts_nanos (timestamp_from_ms ms) = uint ms mod 1000 * 1000000"
proof -
  have "uint ms < 2 ^ 64" using uint_bounded [of ms] by simp
  hence "uint ms div 1000 \<le> i64_max" by (simp add: i64_max_def)
  thus "ts_seconds (timestamp_from_ms ms) = uint ms div 1000"
    by (simp add: timestamp_from_ms_def uint_div_distrib)
  have "uint ms mod 1000 < 1000" by simp
  hence "uint (ms mod 1000) * uint (1000000 :: u64) < 2 ^ LENGTH(64)" by (simp add: uint_mod_distrib)
  hence "uint (ms mod 1000 * 1000000) = uint (ms mod 1000) * uint (1000000 :: u64)"
    by (simp only: uint_mult_lem)
  thus "ts_nanos (timestamp_from_ms ms) = uint ms mod 1000 * 1000000"
    by (simp add: timestamp_from_ms_def uint_mod_distrib)
qed

lemma timestamp_ms_from_ms [simp]: "timestamp_ms (Some (timestamp_from_ms ms)) = Some ms"
proof -
  have "uint ms div 1000 = uint (ms div 1000)" "uint ms mod 1000 = uint (ms mod 1000)"
    by (simp_all add: uint_div_distrib uint_mod_distrib)
  hence s: "unat (of_int (uint ms div 1000) :: u64) = unat ms div 1000"
    and n: "unat (of_int (uint ms mod 1000) :: u64) = unat ms mod 1000"
    by (simp_all only: of_int_uint) (simp_all add: unat_div_distrib unat_mod_distrib)
  have "unat ms \<le> 2 ^ 64 - 1" using unat_bound [of ms] by simp
  hence "unat (sat_add (sat_mul (of_int (uint ms div 1000)) 1000) (of_int (uint ms mod 1000)) :: u64) = unat ms"
    by (simp add: sat_simps s n min_def) linarith
  hence "sat_add (sat_mul (of_int (uint ms div 1000)) 1000) (of_int (uint ms mod 1000)) = ms"
    by (simp only: word_unat_eq_iff)
  moreover have "0 \<le> uint ms div 1000" "0 \<le> uint ms mod 1000"
    by (simp_all add: pos_imp_zdiv_nonneg_iff)
  ultimately show ?thesis by (simp add: timestamp_ms_def timestamp_parts)
qed

lemma reached_timestamp [simp]: "reached (Some (timestamp_from_ms e)) now_ms \<longleftrightarrow> e \<le> now_ms"
  by (simp add: reached_def)

section \<open>Normalization\<close>

lemma normalize_frame [simp]:
  "ri_race_id (normalize_race_phase_at r t) = ri_race_id r"
  "ri_race_duration_sec (normalize_race_phase_at r t) = ri_race_duration_sec r"
  "ri_ghost_mode (normalize_race_phase_at r t) = ri_ghost_mode r"
  "ri_countdown_end_at_utc (normalize_race_phase_at r t) = ri_countdown_end_at_utc r"
  "ri_joined_participant_count (normalize_race_phase_at r t) = ri_joined_participant_count r"
  "ri_max_participants (normalize_race_phase_at r t) = ri_max_participants r"
  by (auto simp: normalize_race_phase_at_def Let_def split: local_race_phase.split)

lemma race_eq_normalize: "race_eq r (normalize_race_phase_at r t) \<Longrightarrow> normalize_race_phase_at r t = r"
proof -
  assume "race_eq r (normalize_race_phase_at r t)"
  hence "(normalize_race_phase_at r t)\<lparr>ri_ghost_mode := None\<rparr>\<lparr>ri_ghost_mode := ri_ghost_mode r\<rparr> =
      r\<lparr>ri_ghost_mode := None\<rparr>\<lparr>ri_ghost_mode := ri_ghost_mode r\<rparr>"
    by (simp only: race_eq_def)
  moreover have "(normalize_race_phase_at r t)\<lparr>ri_ghost_mode := ri_ghost_mode r\<rparr> = normalize_race_phase_at r t"
    by (rule local_race_runtime_info.equality) simp_all
  ultimately show ?thesis by simp
qed

lemma reconcile_active [simp]:
  "ra_active (snd (reconcile_active_race t st)) = map_option (\<lambda>r. normalize_race_phase_at r t) (ra_active st)"
  by (auto simp: reconcile_active_race_def Let_def race_eq_normalize split: option.split)

lemma reconcile_frame [simp]:
  "ra_participants (snd (reconcile_active_race t st)) = ra_participants st"
  "ra_next_participant_index (snd (reconcile_active_race t st)) = ra_next_participant_index st"
  by (auto simp: reconcile_active_race_def Let_def split: option.split)

section \<open>The timeline of a race\<close>

definition race_length_ms :: "local_race_runtime_info \<Rightarrow> u64" where
  "race_length_ms r = ucast (ri_race_duration_sec r) * 1000"

definition running_until :: "u64 \<Rightarrow> local_race_runtime_info \<Rightarrow> bool" where
  "running_until e r \<longleftrightarrow> ri_phase r = PhaseRunning \<and> ri_planned_end_at_utc r = Some (timestamp_from_ms e)"

definition counting_down_to :: "u64 \<Rightarrow> local_race_runtime_info \<Rightarrow> bool" where
  "counting_down_to e r \<longleftrightarrow> ri_phase r = PhaseCountdown \<and>
     ri_countdown_end_at_utc r = Some (timestamp_from_ms e) \<and> ri_running_started_at_utc r = None \<and>
     ri_planned_end_at_utc r = None"

definition ticks :: "u64 list \<Rightarrow> local_race_runtime_info \<Rightarrow> local_race_runtime_info" where
  "ticks ts r = fold (\<lambda>t r. normalize_race_phase_at r t) ts r"

lemma ticks_simps [simp]: "ticks [] r = r" "ticks (t # ts) r = ticks ts (normalize_race_phase_at r t)"
  by (simp_all add: ticks_def)

lemma normalize_stays:
  "ri_phase r \<notin> {PhaseCountdown, PhaseRunning} \<Longrightarrow> normalize_race_phase_at r t = r"
  by (cases "ri_phase r") (simp_all add: normalize_race_phase_at_def)

lemma ticks_stays: "ri_phase r \<notin> {PhaseCountdown, PhaseRunning} \<Longrightarrow> ticks ts r = r"
  by (induction ts arbitrary: r) (simp_all add: normalize_stays)

lemma normalize_running:
  "running_until e r \<Longrightarrow> normalize_race_phase_at r t = (if e \<le> t then r\<lparr>ri_phase := PhaseFinished\<rparr> else r)"
  by (simp add: running_until_def normalize_race_phase_at_def)

lemma ticks_running:
  "running_until e r \<Longrightarrow> ticks ts r = (if list_ex (\<lambda>t. e \<le> t) ts then r\<lparr>ri_phase := PhaseFinished\<rparr> else r)"
  by (induction ts arbitrary: r) (simp_all add: normalize_running ticks_stays)

definition race_begun :: "u64 \<Rightarrow> local_race_runtime_info \<Rightarrow> local_race_runtime_info" where
  "race_begun e r = r\<lparr>ri_phase := PhaseRunning, ri_running_started_at_utc := Some (timestamp_from_ms e),
     ri_planned_end_at_utc := Some (timestamp_from_ms (sat_add e (race_length_ms r)))\<rparr>"

lemma normalize_counting_down:
  "counting_down_to e r \<Longrightarrow> normalize_race_phase_at r t = (if e \<le> t then race_begun e r else r)"
  by (simp add: counting_down_to_def normalize_race_phase_at_def race_begun_def race_length_ms_def Let_def)

lemma race_begun_running: "running_until (sat_add e (race_length_ms r)) (race_begun e r)"
  by (simp add: running_until_def race_begun_def)

lemma ticks_counting_down:
  "counting_down_to e r \<Longrightarrow> ticks ts r =
     (case dropWhile (\<lambda>t. t < e) ts of
        [] \<Rightarrow> r
      | _ # later \<Rightarrow>
          if list_ex (\<lambda>t. sat_add e (race_length_ms r) \<le> t) later
          then (race_begun e r)\<lparr>ri_phase := PhaseFinished\<rparr> else race_begun e r)"
  by (induction ts arbitrary: r)
     (auto simp: normalize_counting_down ticks_running [OF race_begun_running] not_le not_less)

definition lifecycle_ticks :: "u64 list \<Rightarrow> local_race_state \<Rightarrow> local_race_state" where
  "lifecycle_ticks ts st = fold (\<lambda>t st. snd (reconcile_active_race t st)) ts st"

lemma lifecycle_active: "ra_active (lifecycle_ticks ts st) = map_option (ticks ts) (ra_active st)"
  by (induction ts arbitrary: st)
     (simp_all add: lifecycle_ticks_def ticks_def [abs_def] option.map_comp comp_def option.map_id)

section \<open>Participants\<close>

definition indices_ok :: "local_race_state \<Rightarrow> bool" where
  "indices_ok st \<longleftrightarrow>
     (\<forall>c p. hm_get (ra_participants st) c = Some p \<longrightarrow> pr_car_id p = c \<and> 1 \<le> pr_participant_index p) \<and>
     (ra_next_participant_index st = - 1 \<or>
      (\<forall>c p. hm_get (ra_participants st) c = Some p \<longrightarrow> pr_participant_index p < ra_next_participant_index st) \<and>
      (\<forall>c p c' p'. hm_get (ra_participants st) c = Some p \<longrightarrow> hm_get (ra_participants st) c' = Some p' \<longrightarrow>
         pr_participant_index p = pr_participant_index p' \<longrightarrow> c = c'))"

definition race_phase_ok :: "local_race_runtime_info \<Rightarrow> bool" where
  "race_phase_ok r \<longleftrightarrow>
     (ri_phase r = PhaseCountdown \<longrightarrow> ri_countdown_end_at_utc r \<noteq> None) \<and>
     (ri_phase r \<in> {PhaseRunning, PhaseFinished} \<longrightarrow>
        ri_running_started_at_utc r \<noteq> None \<and> ri_planned_end_at_utc r \<noteq> None)"

definition membership_ok :: "local_race_state \<Rightarrow> bool" where
  "membership_ok st \<longleftrightarrow>
     (case ra_active st of
        None \<Rightarrow> ra_participants st = []
      | Some r \<Rightarrow> ri_joined_participant_count r = clamped_len (ra_participants st) \<and>
          0 < ri_max_participants r \<and> length (ra_participants st) \<le> unat (ri_max_participants r) \<and>
          race_phase_ok r)"

definition race_state_ok :: "local_race_state \<Rightarrow> bool" where
  "race_state_ok st \<longleftrightarrow> hm_wf (ra_participants st) \<and> indices_ok st \<and> membership_ok st"

lemma race_state_ok_default: "race_state_ok local_race_state_default"
  by (simp add: race_state_ok_def indices_ok_def membership_ok_def local_race_state_default_def)

text \<open>
  The steps the requests, the lifecycle tick and the participants' joining and leaving make
  on the store, each under its lock.
\<close>

inductive race_step :: "proto_codes \<Rightarrow> local_race_state \<Rightarrow> local_race_state \<Rightarrow> bool" for pc where
  created: "normalize_config pc config = Inr c \<Longrightarrow>
    race_step pc st (set_active_race t2 (created_race race_id c preset t1) st)"
| started: "race_step pc st (snd (update_active_race t1 t2 race_id (start_update secs e) st))"
| aborted: "race_step pc st (snd (update_active_race t1 t2 race_id (\<lambda>r. r\<lparr>ri_phase := PhaseAborted\<rparr>) st))"
| cleared: "race_step pc st (snd (clear_active_race race_id st))"
| registered: "race_step pc st (snd (register_participant t race_id car_id name st))"
| unregistered: "race_step pc st (remove_participant car_id st)"
| reconciled: "race_step pc st (snd (reconcile_active_race t st))"
| marked: "race_step pc st (snd (mark_finish_soft_freeze_applied race_id st))"

lemma normalized_max: "normalize_config pc config = Inr c \<Longrightarrow> 0 < cf_max_participants c"
  by (auto simp: normalize_config_def invalid_argument_def Let_def DEFAULT_LOCAL_RACE_MAX_PARTICIPANTS_def
      word_gt_0 split: if_splits)

lemma clamped_len_Nil [simp]: "clamped_len [] = 0"
  by (simp add: clamped_len_def)

lemma phase_ok_normalize: "race_phase_ok r \<Longrightarrow> race_phase_ok (normalize_race_phase_at r t)"
  by (auto simp: race_phase_ok_def normalize_race_phase_at_def reached_def timestamp_ms_def Let_def
      split: local_race_phase.split option.splits if_splits)

lemma phase_ok_start: "race_phase_ok (start_update secs e r)"
  by (simp add: race_phase_ok_def start_update_def Let_def)

lemma start_update_frame [simp]:
  "ri_race_id (start_update secs e r) = ri_race_id r"
  "ri_joined_participant_count (start_update secs e r) = ri_joined_participant_count r"
  "ri_max_participants (start_update secs e r) = ri_max_participants r"
  by (simp_all add: start_update_def Let_def)

lemma indices_cong:
  "ra_participants st' = ra_participants st \<Longrightarrow> ra_next_participant_index st' = ra_next_participant_index st \<Longrightarrow>
   indices_ok st' = indices_ok st"
  by (simp add: indices_ok_def)

text \<open>An update of the race that keeps its counts and a good phase keeps the invariant.\<close>

lemma ok_update_race:
  assumes "race_state_ok st" "ra_active st = Some r"
    and "ri_joined_participant_count r' = ri_joined_participant_count r"
    and "ri_max_participants r' = ri_max_participants r" "race_phase_ok r'"
  shows "race_state_ok (st\<lparr>ra_active := Some r'\<rparr>)"
  using assms by (simp add: race_state_ok_def membership_ok_def indices_ok_def)

lemma ok_set_active:
  assumes "0 < ri_max_participants r" "ri_joined_participant_count r = 0" "race_phase_ok r"
  shows "race_state_ok (set_active_race t r st)"
  using assms phase_ok_normalize
  by (simp add: race_state_ok_def membership_ok_def indices_ok_def set_active_race_def)

lemma ok_update_active:
  assumes "race_state_ok st"
    and "\<And>r. ri_joined_participant_count (f r) = ri_joined_participant_count r"
    and "\<And>r. ri_max_participants (f r) = ri_max_participants r"
    and "\<And>r. race_phase_ok (f r)"
  shows "race_state_ok (snd (update_active_race t1 t2 race_id f st))"
proof (cases "ra_active st")
  case (Some r)
  show ?thesis using ok_update_race [OF assms(1) Some, of "normalize_race_phase_at (f (normalize_race_phase_at r t1)) t2"]
    assms by (simp add: update_active_race_def Some Let_def phase_ok_normalize)
qed (simp add: update_active_race_def assms)

lemma ok_clear: "race_state_ok st \<Longrightarrow> race_state_ok (snd (clear_active_race race_id st))"
  by (auto simp: clear_active_race_def race_state_ok_def membership_ok_def indices_ok_def split: option.splits)

lemma ok_reconcile: "race_state_ok st \<Longrightarrow> race_state_ok (snd (reconcile_active_race t st))"
  using phase_ok_normalize
  by (auto simp: race_state_ok_def membership_ok_def indices_cong [OF reconcile_frame] split: option.splits)

lemma ok_mark: "race_state_ok st \<Longrightarrow> race_state_ok (snd (mark_finish_soft_freeze_applied race_id st))"
  by (auto simp: mark_finish_soft_freeze_applied_def race_state_ok_def membership_ok_def indices_ok_def
      split: option.splits)

lemma unat_clamped_len: "unat (clamped_len m) = min (length m) (2 ^ 32 - 1)"
  by (simp add: clamped_len_def unat_of_nat unat_max_word take_bit_nat_eq_self min_less_iff_disj)

lemma set_stored_count_frame [simp]:
  "ra_participants (set_stored_count n st) = ra_participants st"
  "ra_next_participant_index (set_stored_count n st) = ra_next_participant_index st"
  by (simp_all add: set_stored_count_def)

lemma indices_remove:
  "indices_ok st \<Longrightarrow> indices_ok (st\<lparr>ra_participants := hm_remove car_id (ra_participants st)\<rparr>)"
  by (auto simp: indices_ok_def)

lemma membership_count:
  assumes "\<And>r. ra_active st = Some r \<Longrightarrow>
      0 < ri_max_participants r \<and> length ps \<le> unat (ri_max_participants r) \<and> race_phase_ok r"
    and "ra_active st = None \<Longrightarrow> ps = []" "ra_participants st = ps"
  shows "membership_ok (set_stored_count (clamped_len ps) st)"
  using assms by (cases "ra_active st") (simp_all add: membership_ok_def set_stored_count_def race_phase_ok_def)

lemma ok_remove: "race_state_ok st \<Longrightarrow> race_state_ok (remove_participant car_id st)"
proof -
  assume ok: "race_state_ok st"
  let ?st = "st\<lparr>ra_participants := hm_remove car_id (ra_participants st)\<rparr>"
  have "membership_ok (set_stored_count (clamped_len (ra_participants ?st)) ?st)"
    using ok length_hm_remove [of car_id "ra_participants st"]
    by (intro membership_count) (auto simp: race_state_ok_def membership_ok_def hm_remove_def [of _ "[]"])
  moreover have "indices_ok (set_stored_count (clamped_len (ra_participants ?st)) ?st)"
    using ok indices_remove [of st car_id] indices_cong [OF set_stored_count_frame]
    by (simp add: race_state_ok_def)
  ultimately show ?thesis using ok by (simp add: race_state_ok_def remove_participant_def Let_def)
qed

text \<open>The next index is positive, and above every index in use unless the counter is exhausted.\<close>

lemma indices_insert:
  assumes "indices_ok st"
  defines "i \<equiv> max (ra_next_participant_index st) 1"
  shows "indices_ok (st\<lparr>ra_next_participant_index := sat_add i 1,
           ra_participants := hm_insert c \<lparr>pr_car_id = c, pr_display_name = name, pr_participant_index = i\<rparr>
             (ra_participants st)\<rparr>)"
proof (cases "sat_add i 1 = - 1")
  case True
  thus ?thesis using assms by (auto simp: indices_ok_def split: if_splits)
next
  case False
  have le: "ra_next_participant_index st \<le> i" by (simp add: i_def)
  have i: "i \<noteq> - 1" using False sat_add_ge [of i 1] by (auto simp: word_order.extremum_unique)
  note less = sat_add_gt [OF i]
  have "ra_next_participant_index st \<noteq> - 1" using i le by (auto simp: word_order.extremum_unique)
  have "pr_participant_index p < i" if "hm_get (ra_participants st) d = Some p" for d p
    by (rule less_le_trans [OF _ le])
       (use assms(1) that \<open>ra_next_participant_index st \<noteq> - 1\<close> in \<open>auto simp: indices_ok_def\<close>)
  moreover have "1 \<le> i" by (simp add: i_def)
  ultimately show ?thesis using assms(1) less False \<open>ra_next_participant_index st \<noteq> - 1\<close>
    by (auto simp: indices_ok_def intro: less_trans split: if_splits)
qed

lemma ok_register: "race_state_ok st \<Longrightarrow> race_state_ok (snd (register_participant t race_id c name st))"
proof (cases "ra_active st")
  case None
  assume "race_state_ok st"
  thus ?thesis by (simp add: register_participant_def None)
next
  case (Some r)
  assume ok: "race_state_ok st"
  let ?r = "normalize_race_phase_at r t" and ?i = "max (ra_next_participant_index st) 1"
  let ?st1 = "st\<lparr>ra_active := Some ?r\<rparr>"
  let ?p = "\<lparr>pr_car_id = c, pr_display_name = name, pr_participant_index = ?i\<rparr>"
  let ?st2 = "?st1\<lparr>ra_next_participant_index := sat_add ?i 1, ra_participants := hm_insert c ?p (ra_participants st)\<rparr>"
  have r: "race_phase_ok r" using ok Some by (simp add: race_state_ok_def membership_ok_def)
  have ok1: "race_state_ok ?st1" using ok_update_race [OF ok Some, of ?r] r by (simp add: phase_ok_normalize)
  show ?thesis
  proof (cases "ri_race_id r = race_id \<and> ri_phase ?r = PhaseStaging \<and>
      \<not> ri_max_participants r \<le> clamped_len (ra_participants st)")
    case True
    have "unat (clamped_len (ra_participants st)) < unat (ri_max_participants r)"
      using True by (simp add: word_less_nat_alt not_le)
    hence "length (ra_participants st) < unat (ri_max_participants r)"
      using unat_bound [of "ri_max_participants r"] by (auto simp: unat_clamped_len min_def split: if_splits)
    hence "membership_ok (set_stored_count (clamped_len (ra_participants ?st2)) ?st2)"
      using ok1 by (intro membership_count) (auto simp: race_state_ok_def membership_ok_def length_hm_insert)
    moreover have "indices_ok (set_stored_count (clamped_len (ra_participants ?st2)) ?st2)"
      using ok1 indices_insert [of ?st1 c name] indices_cong [OF set_stored_count_frame]
      by (simp add: race_state_ok_def)
    ultimately show ?thesis using True ok
      by (simp add: register_participant_def Some race_state_ok_def Let_def)
  next
    case False
    thus ?thesis using ok ok1 Some
      by (auto simp: register_participant_def race_state_ok_def membership_ok_def Let_def)
  qed
qed

lemma race_step_ok: "race_step pc st st' \<Longrightarrow> race_state_ok st \<Longrightarrow> race_state_ok st'"
proof (induction rule: race_step.induct)
  case (created config c st t2 race_id preset t1)
  show ?case using normalized_max [OF created(1)]
    by (intro ok_set_active) (simp_all add: created_race_def race_phase_ok_def)
next
  case (aborted st t1 t2 race_id)
  thus ?case by (intro ok_update_active) (simp_all add: race_phase_ok_def)
next
  case (started st t1 t2 race_id secs e)
  thus ?case by (intro ok_update_active) (simp_all add: phase_ok_start)
qed (simp_all add: ok_clear ok_register ok_remove ok_reconcile ok_mark)

lemma race_steps_ok: "(race_step pc)\<^sup>*\<^sup>* local_race_state_default st \<Longrightarrow> race_state_ok st"
  by (induction rule: rtranclp_induct) (auto simp: race_state_ok_default intro: race_step_ok)

section \<open>Requests under interference\<close>

datatype race_request =
    CreateRace string u64 "local_race_config option"
  | StartCountdown u64 string u32
  | AbortRace u64 string
  | CloseRace u64 string
  | LifecycleTick
  | Join u64 string u64 string
  | Leave u64

fun run_request :: "'n worker_env \<Rightarrow> proto_codes \<Rightarrow> (nat \<Rightarrow> u64) \<Rightarrow> 'n others \<Rightarrow> race_request
    \<Rightarrow> 'n local_system \<Rightarrow> 'n local_system" where
  "run_request env pc now other (CreateRace race_id expected config) sys =
     snd (create_local_race env pc race_id now other expected config sys)"
| "run_request env pc now other (StartCountdown expected race_id secs) sys =
     snd (start_local_race_countdown env now other expected race_id secs sys)"
| "run_request env pc now other (AbortRace expected race_id) sys =
     snd (abort_local_race env now other expected race_id sys)"
| "run_request env pc now other (CloseRace expected race_id) sys =
     snd (close_local_race env now other expected race_id sys)"
| "run_request env pc now other LifecycleTick sys = reconcile_local_race_lifecycle_tick env now other sys"
| "run_request env pc now other (Join t race_id car_id name) sys =
     sys\<lparr>sys_race := snd (register_participant t race_id car_id name (sys_race sys))\<rparr>"
| "run_request env pc now other (Leave car_id) sys =
     sys\<lparr>sys_race := remove_participant car_id (sys_race sys)\<rparr>"

definition run_requests :: "'n worker_env \<Rightarrow> proto_codes \<Rightarrow> (nat \<Rightarrow> u64) \<Rightarrow> race_request list
    \<Rightarrow> 'n local_system \<Rightarrow> 'n local_system" where
  "run_requests env pc now reqs sys = fold (run_request env pc now undisturbed) reqs sys"

lemma client_call_race [simp]:
  "sys_race (snd (client_call env cmd get sys)) = sys_race sys"
  "sys_store (snd (client_call env cmd get sys)) = sys_store sys"
  by (simp_all add: client_call_def Let_def case_prod_beta)

lemma client_race_eq: "client_call env cmd get sys = (r, sys') \<Longrightarrow> sys_race sys' = sys_race sys"
  using client_call_race(1) [of env cmd get sys] by simp

lemma client_bump_race [simp]:
  "sys_race (snd (client_bump_revision env expected sys)) = sys_race sys"
  "sys_race (snd (client_deactivate_local_race env expected race_id sys)) = sys_race sys"
  "sys_race (snd (client_activate_local_race env expected race_id map_id preset settings sys)) = sys_race sys"
  "sys_race (snd (client_set_controls_in env target car_id c sys)) = sys_race sys"
  by (simp_all add: client_bump_revision_def client_deactivate_local_race_def client_activate_local_race_def
      client_set_controls_in_def)

text \<open>
  A property of the race's state that every step keeps, and that the other tasks keep at every
  await of a request, is kept by the request.
\<close>

locale race_rely =
  fixes pc :: proto_codes and P :: "local_race_state \<Rightarrow> bool" and other :: "'n others"
  assumes step_keeps: "race_step pc st st' \<Longrightarrow> P st \<Longrightarrow> P st'"
    and other_keeps: "P (sys_race sys) \<Longrightarrow> P (sys_race (other i sys))"
begin

lemmas race_keeps = other_keeps step_keeps [OF race_step.started] step_keeps [OF race_step.aborted]
  step_keeps [OF race_step.cleared] client_defs Let_def case_prod_beta

lemma create_keeps: "P (sys_race sys) \<Longrightarrow> P (sys_race (snd (create_local_race env pc race_id now other expected config sys)))"
  by (auto simp: create_local_race_def invalid_argument_def race_keeps step_keeps [OF race_step.created]
      split: option.split sum.split)

lemma start_keeps: "P (sys_race sys) \<Longrightarrow> P (sys_race (snd (start_local_race_countdown env now other expected race_id secs sys)))"
  by (simp add: start_local_race_countdown_def race_keeps split: option.split sum.split)

lemma abort_keeps: "P (sys_race sys) \<Longrightarrow> P (sys_race (snd (abort_local_race env now other expected race_id sys)))"
  by (simp add: abort_local_race_def race_keeps split: option.split sum.split)

lemma close_keeps: "P (sys_race sys) \<Longrightarrow> P (sys_race (snd (close_local_race env now other expected race_id sys)))"
  by (simp add: close_local_race_def race_keeps split: option.split sum.split)

lemma freeze_keeps: "P (sys_race sys) \<Longrightarrow> P (sys_race (snd (freeze_cars env other race_id i cars b sys)))"
  by (induction cars arbitrary: i b sys)
     (auto simp: client_defs other_keeps dest!: client_race_eq split: sum.split prod.split)

lemma bump_keeps: "P (sys_race sys) \<Longrightarrow> P (sys_race (bump_local_runtime_revision env other race_id sys))"
  by (auto simp: bump_local_runtime_revision_def client_defs other_keeps dest!: client_race_eq
      split: sum.split prod.split)

lemma tick_end_keeps:
  "P (sys_race sys) \<Longrightarrow> P (sys_race
     (case finished_race_pending_soft_freeze t (sys_race sys) of
        None \<Rightarrow> sys
      | Some race \<Rightarrow>
          (let (applied, sys4) = apply_finished_local_race_soft_freeze env other i (ri_race_id race) sys
           in if applied
              then let sys5 = other j sys4
                   in sys5\<lparr>sys_race := snd (mark_finish_soft_freeze_applied (ri_race_id race) (sys_race sys5))\<rparr>
              else sys4)))"
  by (auto simp: apply_finished_local_race_soft_freeze_def Let_def case_prod_beta
      intro!: step_keeps [OF race_step.marked] other_keeps freeze_keeps split: option.split)

lemma tick_keeps: "P (sys_race sys) \<Longrightarrow> P (sys_race (reconcile_local_race_lifecycle_tick env now other sys))"
proof -
  assume "P (sys_race sys)"
  hence r: "P (snd (reconcile_active_race (now 0) (sys_race (other 0 sys))))"
    using step_keeps [OF race_step.reconciled] other_keeps by blast
  show ?thesis unfolding reconcile_local_race_lifecycle_tick_def Let_def case_prod_beta
    by (rule tick_end_keeps [unfolded Let_def case_prod_beta])
       (auto simp: r intro!: other_keeps bump_keeps split: option.split)
qed

lemma run_request_keeps: "P (sys_race sys) \<Longrightarrow> P (sys_race (run_request env pc now other req sys))"
  by (cases req) (simp_all add: create_keeps start_keeps abort_keeps close_keeps tick_keeps
      step_keeps [OF race_step.registered] step_keeps [OF race_step.unregistered])

end

text \<open>
  Other tasks that only make steps of the race's state, at any await and in any number, are
  such an environment; what the request adds is again steps.
\<close>

locale race_tasks =
  fixes pc :: proto_codes and other :: "'n others"
  assumes tasks_step: "(race_step pc)\<^sup>*\<^sup>* (sys_race sys) (sys_race (other i sys))"

sublocale race_tasks \<subseteq> from_start: race_rely pc "(race_step pc)\<^sup>*\<^sup>* st0" other for st0
  by unfold_locales (blast intro: rtranclp.rtrancl_into_rtrancl rtranclp_trans tasks_step)+

context race_tasks
begin

lemma run_request_steps: "(race_step pc)\<^sup>*\<^sup>* (sys_race sys) (sys_race (run_request env pc now other req sys))"
  by (rule from_start.run_request_keeps) simp

end

interpretation alone: race_tasks pc undisturbed for pc
  by unfold_locales (simp add: undisturbed_def)

lemma run_requests_steps: "(race_step pc)\<^sup>*\<^sup>* (sys_race sys) (sys_race (run_requests env pc now reqs sys))"
proof (induction reqs arbitrary: sys)
  case (Cons r reqs)
  show ?case
    using rtranclp_trans [OF alone.run_request_steps Cons.IH] by (simp add: run_requests_def)
qed (simp add: run_requests_def)

interpretation queued: race_tasks pc "\<lambda>i. run_requests env pc now (reqs i)" for pc env now reqs
  by unfold_locales (rule run_requests_steps)

lemma race_steps_keep_ok: "(race_step pc)\<^sup>*\<^sup>* st st' \<Longrightarrow> race_state_ok st \<Longrightarrow> race_state_ok st'"
  by (induction rule: rtranclp_induct) (blast intro: race_step_ok)+

text \<open>What every command of the worker keeps is kept by the requests as well.\<close>

locale worker_rely =
  fixes env :: "'n worker_env" and W :: "'n worker \<Rightarrow> bool" and other :: "'n others"
  assumes command_keeps: "W w \<Longrightarrow> W (snd (handle_command env cmd w))"
    and tasks_keep: "W (sys_worker sys) \<Longrightarrow> W (sys_worker (other i sys))"
begin

lemma call_keeps: "W (sys_worker sys) \<Longrightarrow> W (sys_worker (snd (client_call env cmd get sys)))"
  by (simp add: client_call_def case_prod_beta Let_def command_keeps)

lemma call_eq: "client_call env cmd get sys = (r, sys') \<Longrightarrow> W (sys_worker sys) \<Longrightarrow> W (sys_worker sys')"
  using call_keeps [of sys cmd get] by simp

lemmas worker_keeps = tasks_keep call_keeps client_defs Let_def case_prod_beta

lemma request_keeps_worker: "W (sys_worker sys) \<Longrightarrow>
    W (sys_worker (snd (create_local_race env pc race_id now other expected config sys)))"
  "W (sys_worker sys) \<Longrightarrow> W (sys_worker (snd (start_local_race_countdown env now other expected race_id secs sys)))"
  "W (sys_worker sys) \<Longrightarrow> W (sys_worker (snd (abort_local_race env now other expected race_id sys)))"
  "W (sys_worker sys) \<Longrightarrow> W (sys_worker (snd (close_local_race env now other expected race_id sys)))"
  by (simp_all add: create_local_race_def start_local_race_countdown_def abort_local_race_def close_local_race_def
      worker_keeps split: option.split sum.split)

lemma freeze_keeps_worker: "W (sys_worker sys) \<Longrightarrow> W (sys_worker (snd (freeze_cars env other race_id i cars b sys)))"
  by (induction cars arbitrary: i b sys)
     (auto simp: client_defs tasks_keep dest!: call_eq split: sum.split prod.split)

lemma bump_keeps_worker: "W (sys_worker sys) \<Longrightarrow> W (sys_worker (bump_local_runtime_revision env other race_id sys))"
  by (auto simp: bump_local_runtime_revision_def client_defs tasks_keep call_keeps dest!: call_eq
      split: sum.split prod.split)

lemma tick_keeps_worker: "W (sys_worker sys) \<Longrightarrow> W (sys_worker (reconcile_local_race_lifecycle_tick env now other sys))"
  by (auto simp: reconcile_local_race_lifecycle_tick_def apply_finished_local_race_soft_freeze_def Let_def
      case_prod_beta intro!: tasks_keep freeze_keeps_worker bump_keeps_worker split: option.split)

lemma run_request_keeps_worker: "W (sys_worker sys) \<Longrightarrow> W (sys_worker (run_request env pc now other req sys))"
  by (cases req) (simp_all add: request_keeps_worker tick_keeps_worker)

end

interpretation worker_solo: worker_rely env worker_ok undisturbed for env
  by unfold_locales (auto simp: undisturbed_def handle_command_ok)

section \<open>Agreement with the engine worker\<close>

definition worker_race :: "'n local_system \<Rightarrow> string option" where
  "worker_race sys = map_option lr_race_id (rt_active_local_race (w_runtime (sys_worker sys)))"

definition live_race :: "local_race_state \<Rightarrow> string option" where
  "live_race st =
     (case ra_active st of
        None \<Rightarrow> None | Some r \<Rightarrow> if ri_phase r = PhaseAborted then None else Some (ri_race_id r))"

text \<open>The worker has a world for the race exactly while the store has a race that is not aborted.\<close>

definition agree :: "'n local_system \<Rightarrow> bool" where
  "agree sys \<longleftrightarrow> worker_race sys = live_race (sys_race sys)"

lemma worker_race_cong [simp]:
  "worker_race (sys\<lparr>sys_race := st\<rparr>) = worker_race sys"
  "worker_race (sys\<lparr>sys_store := s\<rparr>) = worker_race sys"
  by (simp_all add: worker_race_def)

lemma runtime_state_result:
  "client_runtime_state env sys =
     (if w_running (sys_worker sys) then Inr (w_runtime (sys_worker sys)) else Inl WorkerStopped, sys)"
  by (simp add: client_defs client_call_def)

lemma bump_result:
  "fst (client_bump_revision env expected sys) =
     (if \<not> w_running (sys_worker sys) then Inl WorkerStopped
      else if rt_revision (w_runtime (sys_worker sys)) \<noteq> expected
      then Inl (RevisionMismatch expected (rt_revision (w_runtime (sys_worker sys))))
      else Inr (next_revision (w_runtime (sys_worker sys))))"
  by (simp add: client_defs client_call_def answer_def bump_revision_def committed_def Let_def)

lemma bump_race: "worker_race (snd (client_bump_revision env expected sys)) = worker_race sys"
  by (simp add: worker_race_def client_defs client_call_def answer_def bump_revision_def committed_def
      next_revision_def Let_def)

lemma deactivate_result:
  "fst (client_deactivate_local_race env expected race_id sys) =
     (if \<not> w_running (sys_worker sys) then Inl WorkerStopped
      else if rt_revision (w_runtime (sys_worker sys)) \<noteq> expected
      then Inl (RevisionMismatch expected (rt_revision (w_runtime (sys_worker sys))))
      else if worker_race sys \<noteq> Some race_id
      then Inl (InvalidArgument ''race_id does not match active local race session'')
      else Inr (w_runtime (sys_worker (snd (client_deactivate_local_race env expected race_id sys)))))"
  by (auto simp: client_defs client_call_def answer_def deactivate_local_race_def committed_def worker_race_def Let_def)

lemma deactivate_race:
  "worker_race (snd (client_deactivate_local_race env expected race_id sys)) =
     (case fst (client_deactivate_local_race env expected race_id sys) of Inl _ \<Rightarrow> worker_race sys | Inr _ \<Rightarrow> None)"
  by (auto simp: client_defs client_call_def answer_def deactivate_local_race_def committed_def worker_race_def
      next_revision_def Let_def)

lemma activate_race:
  "worker_race (snd (client_activate_local_race env expected race_id map_id preset settings sys)) =
     (case fst (client_activate_local_race env expected race_id map_id preset settings sys) of
        Inl _ \<Rightarrow> worker_race sys | Inr _ \<Rightarrow> Some race_id)"
  by (simp add: client_defs client_call_def answer_def activate_local_race_def committed_def worker_race_def
      next_revision_def Let_def split: sum.split prod.split)

lemma slot_runtime: "w_runtime (snd (with_target_slot_mut target op w)) = w_runtime w"
  by (cases target) (simp_all add: with_target_slot_mut_def case_prod_beta Let_def split: sum.split)

lemma controls_race: "worker_race (snd (client_set_controls_in env target car_id c sys)) = worker_race sys"
  by (simp add: client_defs client_call_def answer_def worker_race_def slot_runtime)

lemma live_race_normalize [simp]:
  "ri_phase (normalize_race_phase_at r t) = PhaseAborted \<longleftrightarrow> ri_phase r = PhaseAborted"
  "ri_phase (normalize_race_phase_at r t) = PhaseStaging \<longleftrightarrow> ri_phase r = PhaseStaging"
  by (auto simp: normalize_race_phase_at_def Let_def split: local_race_phase.split)

lemma live_race_reconcile [simp]: "live_race (snd (reconcile_active_race t st)) = live_race st"
  by (simp add: live_race_def split: option.split)

lemma live_race_participants [simp]:
  "live_race (snd (register_participant t race_id car_id name st)) = live_race st"
  "live_race (remove_participant car_id st) = live_race st"
  "live_race (snd (mark_finish_soft_freeze_applied race_id st)) = live_race st"
  by (simp_all add: live_race_def register_participant_def remove_participant_def set_stored_count_def
      mark_finish_soft_freeze_applied_def Let_def split: option.split)

lemmas race_updates = update_active_race_def clear_active_race_def set_active_race_def active_race_def
  with_joined_count_def live_race_def

lemma agree_create:
  assumes "agree sys"
  shows "agree (snd (create_local_race env pc race_id now undisturbed expected config sys))"
  using assms
  by (auto simp: create_local_race_def agree_def undisturbed_def invalid_argument_def case_prod_beta activate_race
      race_updates created_race_def normalize_stays Let_def split: option.split sum.split)

lemma agree_start:
  assumes "agree sys"
  shows "agree (snd (start_local_race_countdown env now undisturbed expected race_id secs sys))"
  using assms
  by (auto simp: start_local_race_countdown_def agree_def undisturbed_def case_prod_beta runtime_state_result
      bump_race race_updates start_update_def Let_def split: option.splits sum.split if_splits)

lemma agree_abort:
  assumes "agree sys"
  shows "agree (snd (abort_local_race env now undisturbed expected race_id sys))"
  using assms
  by (auto simp: abort_local_race_def agree_def undisturbed_def case_prod_beta runtime_state_result
      deactivate_race deactivate_result race_updates Let_def split: option.splits sum.split if_splits)

lemma agree_close:
  assumes "agree sys"
  shows "agree (snd (close_local_race env now undisturbed expected race_id sys))"
  using assms
  by (auto simp: close_local_race_def agree_def undisturbed_def case_prod_beta bump_race
      deactivate_race race_updates Let_def split: option.splits sum.split if_splits)

lemma agree_freeze: "agree sys \<Longrightarrow> agree (snd (freeze_cars env undisturbed race_id i cars b sys))"
  by (induction cars arbitrary: i b sys)
     (auto simp: undisturbed_def case_prod_beta agree_def controls_race split: sum.split)

lemma agree_bump: "agree sys \<Longrightarrow> agree (bump_local_runtime_revision env undisturbed race_id sys)"
  by (simp add: bump_local_runtime_revision_def undisturbed_def runtime_state_result agree_def bump_race)

lemma agree_mark: "agree s \<Longrightarrow> agree (s\<lparr>sys_race := snd (mark_finish_soft_freeze_applied race_id (sys_race s))\<rparr>)"
  by (simp add: agree_def)

lemma agree_reconcile: "agree s \<Longrightarrow> agree (s\<lparr>sys_race := snd (reconcile_active_race t (sys_race s))\<rparr>)"
  by (simp add: agree_def)

lemma agree_tick: "agree sys \<Longrightarrow> agree (reconcile_local_race_lifecycle_tick env now undisturbed sys)"
  by (auto simp: reconcile_local_race_lifecycle_tick_def apply_finished_local_race_soft_freeze_def
      fun_cong [OF fun_cong [OF undisturbed_def]] Let_def case_prod_beta
      intro!: agree_mark agree_freeze agree_bump agree_reconcile split: option.split)

lemma agree_membership:
  "agree s \<Longrightarrow> agree (s\<lparr>sys_race := snd (register_participant t race_id car_id name (sys_race s))\<rparr>)"
  "agree s \<Longrightarrow> agree (s\<lparr>sys_race := remove_participant car_id (sys_race s)\<rparr>)"
  by (simp_all add: agree_def)

lemma agree_request: "agree sys \<Longrightarrow> agree (run_request env pc now undisturbed req sys)"
  by (cases req) (simp_all add: agree_create agree_start agree_abort agree_close agree_tick agree_membership)

text \<open>In a consistent worker the agreement extends to the worlds.\<close>

lemma agree_worlds: "agree sys \<and> worker_ok (sys_worker sys) \<Longrightarrow>
    set (hm_keys (w_local (sys_worker sys))) =
      (case ra_active (sys_race sys) of
         None \<Rightarrow> {}
       | Some r \<Rightarrow> if ri_phase r = PhaseAborted then {} else {ri_race_id r})"
  by (auto simp: agree_def worker_race_def live_race_def worker_ok_def local_ok_def split: option.splits if_splits)

section \<open>Properties\<close>

text \<open>
  Time stamps are exact: every 64-bit number of milliseconds survives the conversion to a
  protocol time stamp and back, and the stamp is a valid one, with seconds in the signed
  64-bit range and less than one second of nanoseconds.
\<close>

theorem timestamp_roundtrip:
  "timestamp_ms (Some (timestamp_from_ms ms)) = Some ms \<and>
   0 \<le> ts_seconds (timestamp_from_ms ms) \<and> ts_seconds (timestamp_from_ms ms) \<le> i64_max \<and>
   0 \<le> ts_nanos (timestamp_from_ms ms) \<and> ts_nanos (timestamp_from_ms ms) < 1000000000"
proof -
  have "uint ms < 2 ^ 64" "0 \<le> uint ms" using uint_bounded [of ms] by simp_all
  moreover have "0 \<le> uint ms mod 1000" "uint ms mod 1000 < 1000" by simp_all
  ultimately show ?thesis by (simp add: timestamp_parts i64_max_def pos_imp_zdiv_nonneg_iff)
qed

text \<open>
  C14. The lifecycle follows the clock. A race that counts down to time \<open>e\<close> stays in its
  countdown until a tick sees time \<open>e\<close>; it then runs, started at exactly \<open>e\<close> and planned to
  end at \<open>e\<close> plus its duration, whenever that tick came; and it is finished as soon as a
  later tick sees the planned end, never before.
\<close>

theorem lifecycle_follows_clock:
  assumes "ra_active st = Some r" "counting_down_to e r"
  shows "ra_active (lifecycle_ticks ts st) = Some
    (case dropWhile (\<lambda>t. t < e) ts of
       [] \<Rightarrow> r
     | _ # later \<Rightarrow>
         if list_ex (\<lambda>t. sat_add e (race_length_ms r) \<le> t) later
         then (race_begun e r)\<lparr>ri_phase := PhaseFinished\<rparr> else race_begun e r)"
  by (simp add: lifecycle_active assms(1) ticks_counting_down [OF assms(2)])

definition sample_config :: local_race_config where
  "sample_config = \<lparr>cf_race_name = ''Cup'', cf_map_id = ''m1'', cf_race_duration_sec = 60,
     cf_time_of_day = None, cf_ghost_mode = None, cf_weather = None, cf_max_participants = 2\<rparr>"

definition sample_counting :: local_race_runtime_info where
  "sample_counting = start_update 5 15000 (created_race ''r1'' sample_config TodNoon 1000)"

definition sample_counting_state :: local_race_state where
  "sample_counting_state = local_race_state_default\<lparr>ra_active := Some sample_counting\<rparr>"

lemma sample_counting_down: "counting_down_to 15000 sample_counting"
  by (simp add: counting_down_to_def sample_counting_def start_update_def created_race_def Let_def)

lemma sample_length: "race_length_ms sample_counting = 60000"
  by (simp add: race_length_ms_def sample_counting_def start_update_def created_race_def sample_config_def Let_def)

theorem lifecycle_follows_clock_witness:
  "ra_active (lifecycle_ticks [14000, 15400, 75000] sample_counting_state) =
     Some ((race_begun 15000 sample_counting)\<lparr>ri_phase := PhaseFinished\<rparr>)"
  using lifecycle_follows_clock [OF _ sample_counting_down, of sample_counting_state "[14000, 15400, 75000]"]
  by (simp add: sample_counting_state_def sample_length sat_add_def)

text \<open>
  C12. A request of the local race's administration, the lifecycle tick, a join or a leave may
  be interrupted at every await by other tasks that change the state of the local race by any
  number of its elementary updates (creating, starting, aborting and clearing a race,
  registering and removing a participant, reconciling the phase, marking the freeze), be they
  whole requests or parts of requests that overlap with this one. Then the whole effect on
  that state, of the request and of the others, is again a sequence of elementary updates, so
  overlapping requests are such an environment for each other, and it keeps the state
  consistent: participants are stored under their own cars with distinct indices from 1
  upwards (until the 32-bit counter is exhausted), there are never more of them than the race
  admits, the stored count is exact, nobody participates without a race, and a race in a
  phase has the times that phase needs.
\<close>

theorem local_race_state_consistent:
  fixes other :: "'n others"
  assumes "\<forall>i s. (race_step pc)\<^sup>*\<^sup>* (sys_race s) (sys_race (other i s))"
  shows "(race_step pc)\<^sup>*\<^sup>* (sys_race sys) (sys_race (run_request env pc now other req sys)) \<and>
    (race_state_ok (sys_race sys) \<longrightarrow> race_state_ok (sys_race (run_request env pc now other req sys)))"
proof -
  have "race_tasks pc other" using assms by unfold_locales blast
  then have "(race_step pc)\<^sup>*\<^sup>* (sys_race sys) (sys_race (run_request env pc now other req sys))"
    by (rule race_tasks.run_request_steps)
  then show ?thesis using race_steps_keep_ok by blast
qed

definition sample_codes :: proto_codes where
  "sample_codes = \<lparr>pc_mode = (\<lambda>i. if i = 1 then Some ModeFixedPreset else None), pc_mode_code = (\<lambda>_. 1),
     pc_preset = (\<lambda>i. if i = 2 then Some ProtoNoon else None), pc_preset_code = (\<lambda>_. 2), pc_weather_clear = 1\<rparr>"

definition sample_system :: "unit local_system" where
  "sample_system = \<lparr>sys_worker = spawn_worker None, sys_race = local_race_state_default, sys_store = store_new\<rparr>"

text \<open>
  While a race is being created, somebody joins at the first await, and an abort that
  overlaps has made its own update at the second.
\<close>

definition sample_others :: "unit others" where
  "sample_others i s = s\<lparr>sys_race :=
     (if i = 0 then snd (register_participant 0 ''r1'' 7 ''Ann'' (sys_race s))
      else snd (update_active_race 0 0 ''r1'' (\<lambda>r. r\<lparr>ri_phase := PhaseAborted\<rparr>) (sys_race s)))\<rparr>"

lemma sample_others_step: "\<forall>i s. (race_step pc)\<^sup>*\<^sup>* (sys_race s) (sys_race (sample_others i s))"
  by (simp add: sample_others_def r_into_rtranclp race_step.registered race_step.aborted)

theorem local_race_state_consistent_witness:
  "\<forall>env. race_state_ok (sys_race (run_request env sample_codes (\<lambda>_. 0) sample_others
     (CreateRace ''r1'' 0 (Some sample_config)) sample_system))"
  using local_race_state_consistent [OF sample_others_step, of _ sample_system]
  by (simp add: sample_system_def race_state_ok_default del: run_request.simps)

text \<open>
  C13. Requests that run one after the other, none overlapping another, keep the store and the
  engine worker in agreement, also when they fail: the worlds the worker has for local races
  are exactly the world of the race the store has, under the same identifier, and none if the
  store has no race or an aborted one; the worker's metadata names the same race. It is
  enough that this holds at the beginning, of a worker in a consistent state.
\<close>

theorem sequential_requests_keep_agreement:
  assumes "worker_ok (sys_worker sys)" "agree sys"
    and "sys' = run_requests env pc now reqs sys"
  shows "set (hm_keys (w_local (sys_worker sys'))) =
      (case ra_active (sys_race sys') of
         None \<Rightarrow> {}
       | Some r \<Rightarrow> if ri_phase r = PhaseAborted then {} else {ri_race_id r}) \<and>
    agree sys' \<and> worker_ok (sys_worker sys')"
proof -
  have "agree sys' \<and> worker_ok (sys_worker sys')"
    using assms(1,2) unfolding assms(3) run_requests_def
    by (induction reqs arbitrary: sys) (simp_all add: agree_request worker_solo.run_request_keeps_worker)
  thus ?thesis by (simp add: agree_worlds)
qed

theorem sequential_requests_keep_agreement_witness:
  "\<forall>env. agree (run_requests env sample_codes (\<lambda>_. 0)
     [CreateRace ''r1'' 0 (Some sample_config), StartCountdown 1 ''r1'' 5, AbortRace 2 ''r1''] sample_system)"
  using sequential_requests_keep_agreement [of sample_system]
  by (simp add: agree_def sample_system_def worker_race_def live_race_def spawn_worker_def local_race_state_default_def
      worker_ok_spawn [unfolded spawn_worker_def])

text \<open>The state a worker is in after a bump that matched its revision.\<close>

lemma bump_state:
  assumes "w_running (sys_worker sys)" "rt_revision (w_runtime (sys_worker sys)) = rv"
  shows "snd (client_bump_revision env rv sys) =
    sys\<lparr>sys_worker := (sys_worker sys)\<lparr>w_runtime := next_revision (w_runtime (sys_worker sys))\<rparr>\<rparr>"
  using assms by (simp add: client_defs client_call_def answer_def bump_revision_def committed_def Let_def)

lemma create_refused: "worker_race sys \<noteq> None \<Longrightarrow>
    \<not> is_ok (fst (create_local_race env pc race_id now undisturbed expected config sys))"
  by (auto simp: create_local_race_def undisturbed_def invalid_argument_def client_defs client_call_def answer_def
      activate_local_race_def worker_race_def case_prod_beta Let_def split: option.split sum.split)

definition bump_before_deactivation :: "'n worker_env \<Rightarrow> u64 \<Rightarrow> 'n others" where
  "bump_before_deactivation env rv i sys = (if i = 2 then snd (client_bump_revision env rv sys) else sys)"

lemma interrupted_abort:
  assumes "w_running (sys_worker sys)" "rt_revision (w_runtime (sys_worker sys)) = rv" "rv \<noteq> - 1"
    "ra_active (sys_race sys) = Some r" "ri_race_id r = race_id"
  shows "abort_local_race env now (bump_before_deactivation env rv) rv race_id sys =
    (Inl (Status CodeFailedPrecondition (revision_mismatch_text rv (sat_add rv 1))),
     sys\<lparr>sys_race := (sys_race sys)\<lparr>ra_active := Some ((normalize_race_phase_at r (now 0))\<lparr>ri_phase := PhaseAborted\<rparr>)\<rparr>,
         sys_worker := (sys_worker sys)\<lparr>w_runtime := next_revision (w_runtime (sys_worker sys))\<rparr>\<rparr>)"
proof -
  have "rv \<noteq> sat_add rv 1" using sat_add_gt [OF assms(3)] by auto
  thus ?thesis using assms
    by (simp add: abort_local_race_def bump_before_deactivation_def runtime_state_result update_active_race_def
        normalize_stays bump_state [of _ rv] client_deactivate_local_race_def client_call_def answer_def
        deactivate_local_race_def next_revision_def Let_def)
qed

lemma close_aborted:
  assumes "w_running (sys_worker sys)" "rt_revision (w_runtime (sys_worker sys)) = rv"
    "ra_active (sys_race sys) = Some r" "ri_race_id r = race_id" "ri_phase r = PhaseAborted"
  shows "is_ok (fst (close_local_race env now undisturbed rv race_id sys)) \<and>
    ra_active (sys_race (snd (close_local_race env now undisturbed rv race_id sys))) = None \<and>
    worker_race (snd (close_local_race env now undisturbed rv race_id sys)) = worker_race sys"
  using assms bump_race [of env rv sys] bump_result [of env rv sys]
  by (simp add: close_local_race_def undisturbed_def active_race_def with_joined_count_def normalize_stays
      clear_active_race_def case_prod_beta Let_def)

text \<open>
  An abort is not atomic. When another request bumps the runtime revision between the
  abort's update of the race and its command to the worker, the abort is refused, but the
  race is already marked aborted; closing it then succeeds without touching the worker, whose
  world for the race stays behind, and from then on every attempt to create a local race is
  refused.
\<close>

theorem interrupted_abort_leaves_world_behind:
  assumes "w_running (sys_worker sys)" "rt_revision (w_runtime (sys_worker sys)) = rv" "rv \<noteq> - 1"
    "worker_race sys = Some race_id" "ra_active (sys_race sys) = Some r" "ri_race_id r = race_id"
    "(res, sys1) = abort_local_race env now (bump_before_deactivation env rv) rv race_id sys"
    "(res', sys2) = close_local_race env now' undisturbed (sat_add rv 1) race_id sys1"
  shows "res = Inl (Status CodeFailedPrecondition (revision_mismatch_text rv (sat_add rv 1))) \<and>
    is_ok res' \<and> ra_active (sys_race sys2) = None \<and> worker_race sys2 = Some race_id \<and>
    \<not> is_ok (fst (create_local_race env pc new_id now'' undisturbed expected config sys2))"
proof -
  let ?sys = "sys\<lparr>sys_race := (sys_race sys)\<lparr>ra_active := Some ((normalize_race_phase_at r (now 0))\<lparr>ri_phase := PhaseAborted\<rparr>)\<rparr>,
         sys_worker := (sys_worker sys)\<lparr>w_runtime := next_revision (w_runtime (sys_worker sys))\<rparr>\<rparr>"
  have eq: "sys1 = ?sys" and res: "res = Inl (Status CodeFailedPrecondition (revision_mismatch_text rv (sat_add rv 1)))"
    using assms(7) interrupted_abort [OF assms(1, 2, 3, 5, 6)] by simp_all
  have run: "w_running (sys_worker ?sys)" "rt_revision (w_runtime (sys_worker ?sys)) = sat_add rv 1"
    and race: "worker_race ?sys = Some race_id"
    using assms(1, 2, 4) by (simp_all add: next_revision_def worker_race_def)
  have "ra_active (sys_race ?sys) = Some ((normalize_race_phase_at r (now 0))\<lparr>ri_phase := PhaseAborted\<rparr>)" by simp
  note close = close_aborted [OF run this, of race_id env now']
  have "fst (close_local_race env now' undisturbed (sat_add rv 1) race_id ?sys) = res'"
    "snd (close_local_race env now' undisturbed (sat_add rv 1) race_id ?sys) = sys2"
    using assms(8) [symmetric] by (simp_all only: eq fst_conv snd_conv)
  hence "is_ok res' \<and> ra_active (sys_race sys2) = None \<and> worker_race sys2 = Some race_id"
    using close assms(6) race by simp
  thus ?thesis using res create_refused [of sys2] by simp
qed

definition sample_racing :: "unit local_system" where
  "sample_racing = sample_system
     \<lparr>sys_worker := (spawn_worker None)\<lparr>w_runtime := (w_runtime (spawn_worker None :: unit worker))
        \<lparr>rt_revision := 4, rt_active_local_race := Some \<lparr>lr_race_id = ''r1'', lr_map_id = ''m1'',
           lr_time_of_day_preset = TodNoon, lr_weather_now = None\<rparr>\<rparr>\<rparr>,
      sys_race := sample_counting_state\<rparr>"

lemma sample_racing_facts:
  "w_running (sys_worker sample_racing)" "rt_revision (w_runtime (sys_worker sample_racing)) = 4"
  "worker_race sample_racing = Some ''r1''" "ra_active (sys_race sample_racing) = Some sample_counting"
  "ri_race_id sample_counting = ''r1''"
  by (simp_all add: sample_racing_def spawn_worker_def worker_race_def sample_counting_state_def
      sample_counting_def created_race_def)

theorem interrupted_abort_leaves_world_behind_witness:
  "\<forall>env. \<not> is_ok (fst (abort_local_race env (\<lambda>_. 0) (bump_before_deactivation env 4) 4 ''r1'' sample_racing)) \<and>
     worker_race (snd (close_local_race env (\<lambda>_. 0) undisturbed 5 ''r1''
       (snd (abort_local_race env (\<lambda>_. 0) (bump_before_deactivation env 4) 4 ''r1'' sample_racing)))) = Some ''r1''"
proof
  fix env :: "unit worker_env"
  have five: "sat_add 4 1 = (5 :: u64)" by code_simp
  show "\<not> is_ok (fst (abort_local_race env (\<lambda>_. 0) (bump_before_deactivation env 4) 4 ''r1'' sample_racing)) \<and>
     worker_race (snd (close_local_race env (\<lambda>_. 0) undisturbed 5 ''r1''
       (snd (abort_local_race env (\<lambda>_. 0) (bump_before_deactivation env 4) 4 ''r1'' sample_racing)))) = Some ''r1''"
    using interrupted_abort_leaves_world_behind [OF sample_racing_facts(1, 2) _ sample_racing_facts(3, 4, 5)
        surjective_pairing [symmetric] surjective_pairing [symmetric]]
    by (simp add: five)
qed

end
