(* ===== verification/Frame_Hub.thy ===== *)
theory Frame_Hub
  imports Runtime_Store Engine_Client
begin

text \<open>
  The frame hub, game-server/src/services/race/frame_hub.rs: once per tick it reads the worker
  and the runtime store, removes cars that no longer exist, applies tyres in the fix zone,
  updates the pit states, holds cars that must stand still and publishes a frame.

  Every call of the worker is an await. What the other tasks do just before the command is
  executed is \<open>other a False\<close>, and just after it \<open>other a True\<close>, where \<open>a\<close> names the await.
\<close>

section \<open>Data\<close>

record car_frame =
  cf_public_car_id :: u64
  cf_engine_car_id :: u64
  cf_target :: command_target
  cf_state :: vehicle_state
  cf_race_metrics :: "vehicle_race_metrics option"
  cf_best_lap_time_ms :: "u32 option"
  cf_last_client_seq :: u64
  cf_identity :: "runtime_car_identity option"
  cf_pit_state :: pit_state_snapshot
  cf_controls_input :: control_input_snapshot

record runtime_frame =
  fr_tick :: u64
  fr_server_time_ms :: u64
  fr_runtime_state :: "runtime_state option"
  fr_cars :: "(u64, car_frame) hmap"
  fr_official_race_duration_s :: "fp option"
  fr_local_race_duration_s :: "(string, fp) hmap"
  fr_sandbox_race_duration_s :: "(string, fp) hmap"
  fr_official_lap_length_m :: "fp option"
  fr_local_race_lap_length_m :: "(string, fp) hmap"
  fr_sandbox_lap_length_m :: "(string, fp) hmap"

record collector_cache =
  ca_official_map_id :: "string option"
  ca_official_lap_length_m :: "fp option"
  ca_sandbox_lap_length_m :: "(string, string \<times> fp) hmap"
  ca_local_race_lap_length_m :: "(string, string \<times> fp) hmap"
  ca_best_lap_time_ms :: "(u64, u32) hmap"

definition collector_cache_default :: collector_cache where
  "collector_cache_default =
     \<lparr>ca_official_map_id = None, ca_official_lap_length_m = None, ca_sandbox_lap_length_m = [],
      ca_local_race_lap_length_m = [], ca_best_lap_time_ms = []\<rparr>"

record 'n hub_system = "'n client_system" +
  hub_store :: runtime_store

record 'n collecting =
  col_sys :: "'n hub_system"
  col_frame :: runtime_frame
  col_cache :: collector_cache

datatype hub_await =
    AwaitRuntimeState | AwaitDuration command_target | AwaitTrack command_target
  | AwaitState u64 | AwaitMetrics u64 | AwaitTyre u64 | AwaitControls u64

type_synonym 'n hub_others = "hub_await \<Rightarrow> bool \<Rightarrow> 'n hub_system \<Rightarrow> 'n hub_system"

definition hub_alone :: "'n hub_others" where "hub_alone = (\<lambda>_ _ sys. sys)"

definition hub_call ::
  "'n hub_others \<Rightarrow> hub_await \<Rightarrow> ('n hub_system \<Rightarrow> 'r \<times> 'n hub_system) \<Rightarrow> 'n collecting \<Rightarrow> 'r \<times> 'n collecting" where
  "hub_call other a f c =
     (let (r, sys) = f (other a False (col_sys c)) in (r, c\<lparr>col_sys := other a True sys\<rparr>))"

definition col_store :: "'n collecting \<Rightarrow> runtime_store" where
  "col_store c = hub_store (col_sys c)"

definition put_store :: "runtime_store \<Rightarrow> 'n collecting \<Rightarrow> 'n collecting" where
  "put_store st c = c\<lparr>col_sys := (col_sys c)\<lparr>hub_store := st\<rparr>\<rparr>"

section \<open>Small functions\<close>

definition has_best_laps :: "features \<Rightarrow> bool" where
  "has_best_laps fs \<longleftrightarrow> official fs \<or> standalone fs"

definition invalidate_best_lap_cache :: "features \<Rightarrow> u64 \<Rightarrow> collector_cache \<Rightarrow> collector_cache" where
  "invalidate_best_lap_cache fs car_id cache =
     (if has_best_laps fs
      then cache\<lparr>ca_best_lap_time_ms := hm_remove car_id (ca_best_lap_time_ms cache)\<rparr> else cache)"

fun is_sandbox_runtime_not_active_invalid_argument :: "worker_error \<Rightarrow> bool" where
  "is_sandbox_runtime_not_active_invalid_argument (InvalidArgument message) =
     contains (to_ascii_lowercase message) ''sandbox runtime is not active''"
| "is_sandbox_runtime_not_active_invalid_argument _ = False"

fun engine_tire_type_from_runtime :: "pit_tire_type \<Rightarrow> tyre_type option" where
  "engine_tire_type_from_runtime TireHard = Some Hard"
| "engine_tire_type_from_runtime TireSoft = Some Soft"
| "engine_tire_type_from_runtime TireWet = Some Wet"
| "engine_tire_type_from_runtime TireUnspecified = None"

definition vehicle_race_metrics_default :: vehicle_race_metrics where
  "vehicle_race_metrics_default =
     \<lparr>completed_laps = 0, lap_progress_m = Fin 0, current_lap_time_ms = 0, last_lap_time_ms = None\<rparr>"

definition cached_lap_length :: "track_data \<Rightarrow> fp" where
  "cached_lap_length t = fp_convert binary32 (fp_max (lap_length_m t) (Fin 1))"

fun ok_value :: "('e, 'a) result \<Rightarrow> 'a option" where
  "ok_value (Inr v) = Some v"
| "ok_value (Inl _) = None"

definition reap :: "features \<Rightarrow> u64 \<Rightarrow> 'n collecting \<Rightarrow> 'n collecting" where
  "reap fs car_id c =
     (put_store (remove_car car_id (col_store c)) c)
     \<lparr>col_cache := invalidate_best_lap_cache fs car_id (col_cache c)\<rparr>"

section \<open>Races and worlds\<close>

definition collect_official ::
  "'n worker_env \<Rightarrow> 'n hub_others \<Rightarrow> runtime_state \<Rightarrow> 'n collecting \<Rightarrow> 'n collecting" where
  "collect_official env other rt c =
     (if rt_activity_kind rt \<noteq> ActOfficialRace then c
      else
        let (duration, c1) = hub_call other (AwaitDuration TargetOfficialRace)
                               (client_race_duration_in env TargetOfficialRace) c;
            c2 = c1\<lparr>col_frame := (col_frame c1)\<lparr>fr_official_race_duration_s := ok_value duration\<rparr>\<rparr>;
            c5 = (if ca_official_map_id (col_cache c2) \<noteq> Some (rt_map_id rt) then
                    let c3 = c2\<lparr>col_cache := (col_cache c2)\<lparr>ca_official_map_id := Some (rt_map_id rt)\<rparr>\<rparr>;
                        (track, c4) = hub_call other (AwaitTrack TargetOfficialRace)
                                        (client_track_data_in env TargetOfficialRace) c3
                    in c4\<lparr>col_cache := (col_cache c4)\<lparr>ca_official_lap_length_m :=
                            map_option cached_lap_length (ok_value track)\<rparr>\<rparr>
                  else c2)
        in c5\<lparr>col_frame := (col_frame c5)
                \<lparr>fr_official_lap_length_m := ca_official_lap_length_m (col_cache c5)\<rparr>\<rparr>)"

definition collect_local_race ::
  "'n worker_env \<Rightarrow> 'n hub_others \<Rightarrow> runtime_state \<Rightarrow> 'n collecting \<Rightarrow> 'n collecting" where
  "collect_local_race env other rt c0 =
     (let active = rt_active_local_race rt;
          c = c0\<lparr>col_cache := (col_cache c0)\<lparr>ca_local_race_lap_length_m :=
                 hm_retain (\<lambda>race_id. map_option lr_race_id active = Some race_id)
                   (ca_local_race_lap_length_m (col_cache c0))\<rparr>\<rparr>
      in case active of
           None \<Rightarrow> c
         | Some race \<Rightarrow>
             let race_id = lr_race_id race; target = TargetLocalRace race_id;
                 (duration, c1) = hub_call other (AwaitDuration target) (client_race_duration_in env target) c;
                 c2 = (case duration of
                         Inl _ \<Rightarrow> c1
                       | Inr d \<Rightarrow> c1\<lparr>col_frame := (col_frame c1)\<lparr>fr_local_race_duration_s :=
                                   hm_insert race_id d (fr_local_race_duration_s (col_frame c1))\<rparr>\<rparr>);
                 c4 = (if (case hm_get (ca_local_race_lap_length_m (col_cache c2)) race_id of
                             None \<Rightarrow> True | Some (m, _) \<Rightarrow> m \<noteq> lr_map_id race) then
                         let (track, c3) = hub_call other (AwaitTrack target) (client_track_data_in env target) c2
                         in (case track of
                               Inl _ \<Rightarrow> c3
                             | Inr t \<Rightarrow> c3\<lparr>col_cache := (col_cache c3)\<lparr>ca_local_race_lap_length_m :=
                                 hm_insert race_id (lr_map_id race, cached_lap_length t)
                                   (ca_local_race_lap_length_m (col_cache c3))\<rparr>\<rparr>)
                       else c2)
             in (case hm_get (ca_local_race_lap_length_m (col_cache c4)) race_id of
                   None \<Rightarrow> c4
                 | Some (_, l) \<Rightarrow> c4\<lparr>col_frame := (col_frame c4)\<lparr>fr_local_race_lap_length_m :=
                     hm_insert race_id l (fr_local_race_lap_length_m (col_frame c4))\<rparr>\<rparr>))"

definition active_sandbox_map :: "runtime_state \<Rightarrow> (string, string) hmap" where
  "active_sandbox_map rt =
     fold (\<lambda>e m. hm_insert (sb_sandbox_id e) (sb_map_id e) m) (rt_active_sandboxes rt) []"

definition collect_sandbox ::
  "'n worker_env \<Rightarrow> 'n hub_others \<Rightarrow> string \<times> string \<Rightarrow> 'n collecting \<Rightarrow> 'n collecting" where
  "collect_sandbox env other sm c =
     (let (sandbox_id, map_id) = sm; target = TargetSandbox sandbox_id;
          (duration, c1) = hub_call other (AwaitDuration target) (client_race_duration_in env target) c;
          c2 = (case duration of
                  Inl _ \<Rightarrow> c1
                | Inr d \<Rightarrow> c1\<lparr>col_frame := (col_frame c1)\<lparr>fr_sandbox_race_duration_s :=
                            hm_insert sandbox_id d (fr_sandbox_race_duration_s (col_frame c1))\<rparr>\<rparr>);
          c4 = (if (case hm_get (ca_sandbox_lap_length_m (col_cache c2)) sandbox_id of
                      None \<Rightarrow> True | Some (m, _) \<Rightarrow> m \<noteq> map_id) then
                  let (track, c3) = hub_call other (AwaitTrack target) (client_track_data_in env target) c2
                  in (case track of
                        Inl _ \<Rightarrow> c3
                      | Inr t \<Rightarrow> c3\<lparr>col_cache := (col_cache c3)\<lparr>ca_sandbox_lap_length_m :=
                          hm_insert sandbox_id (map_id, cached_lap_length t)
                            (ca_sandbox_lap_length_m (col_cache c3))\<rparr>\<rparr>)
                else c2)
      in (case hm_get (ca_sandbox_lap_length_m (col_cache c4)) sandbox_id of
            None \<Rightarrow> c4
          | Some (_, l) \<Rightarrow> c4\<lparr>col_frame := (col_frame c4)\<lparr>fr_sandbox_lap_length_m :=
              hm_insert sandbox_id l (fr_sandbox_lap_length_m (col_frame c4))\<rparr>\<rparr>))"

definition collect_sandboxes ::
  "'n worker_env \<Rightarrow> 'n hub_others \<Rightarrow> runtime_state \<Rightarrow> 'n collecting \<Rightarrow> 'n collecting" where
  "collect_sandboxes env other rt c0 =
     (let sandboxes = active_sandbox_map rt;
          c = c0\<lparr>col_cache := (col_cache c0)\<lparr>ca_sandbox_lap_length_m :=
                 hm_retain (hm_contains sandboxes) (ca_sandbox_lap_length_m (col_cache c0))\<rparr>\<rparr>
      in fold (collect_sandbox env other) sandboxes c)"

section \<open>Cars\<close>

text \<open>The metrics of a car, or \<open>None\<close> when the car was removed instead.\<close>

definition read_metrics ::
  "'n worker_env \<Rightarrow> 'n hub_others \<Rightarrow> u64 \<Rightarrow> command_target \<Rightarrow> u64 \<Rightarrow> 'n collecting
    \<Rightarrow> vehicle_race_metrics option option \<times> 'n collecting" where
  "read_metrics env other car_id target engine_id c =
     (if \<not> has_best_laps (env_features env) then (Some None, c)
      else case hub_call other (AwaitMetrics car_id) (client_read_car_race_metrics_in env target engine_id) c of
        (Inr metrics, c1) \<Rightarrow> (Some (Some metrics), c1)
      | (Inl err, c1) \<Rightarrow>
          if err = EngineError NoData then (Some (Some vehicle_race_metrics_default), c1)
          else if err = EngineError NotFound \<or> is_sandbox_runtime_not_active_invalid_argument err
          then (None, reap (env_features env) car_id c1)
          else (Some None, c1))"

definition best_lap ::
  "features \<Rightarrow> u64 \<Rightarrow> vehicle_race_metrics option \<Rightarrow> collector_cache \<Rightarrow> u32 option \<times> collector_cache" where
  "best_lap fs car_id metrics cache =
     (if \<not> has_best_laps fs then (None, cache)
      else case (case metrics of None \<Rightarrow> None | Some m \<Rightarrow> last_lap_time_ms m) of
        None \<Rightarrow> (hm_get (ca_best_lap_time_ms cache) car_id, cache)
      | Some lap \<Rightarrow>
          let next_best = (case hm_get (ca_best_lap_time_ms cache) car_id of
                             None \<Rightarrow> lap | Some best \<Rightarrow> min best lap)
          in (Some next_best,
              cache\<lparr>ca_best_lap_time_ms := hm_insert car_id next_best (ca_best_lap_time_ms cache)\<rparr>))"

text \<open>The tyre change in the fix zone; the result says whether the car is still there.\<close>

definition apply_tyre ::
  "'n worker_env \<Rightarrow> 'n hub_others \<Rightarrow> u64 \<Rightarrow> command_target \<Rightarrow> u64 \<Rightarrow> vehicle_state \<Rightarrow> 'n collecting
    \<Rightarrow> bool \<times> 'n collecting" where
  "apply_tyre env other car_id target engine_id v c =
     (let (planned, st) = plan_pit_fix_tire_apply car_id (runtime_tire_type_from_engine (vs_tyre_type v))
                            (completed_pit v) (col_store c);
          c1 = put_store st c
      in case planned of
           None \<Rightarrow> (True, c1)
         | Some desired \<Rightarrow>
             (case engine_tire_type_from_runtime desired of
                None \<Rightarrow> (True, c1)
              | Some tt \<Rightarrow>
                  (case hub_call other (AwaitTyre car_id) (client_set_car_tyre_type_in env target engine_id tt) c1 of
                     (Inr _, c2) \<Rightarrow> (True, put_store (mark_pit_fix_tire_applied car_id desired (col_store c2)) c2)
                   | (Inl err, c2) \<Rightarrow>
                       if err = EngineError NotFound then (False, reap (env_features env) car_id c2)
                       else (True, c2))))"

fun is_local_world :: "command_target \<Rightarrow> bool" where
  "is_local_world TargetOfficialRace = False"
| "is_local_world _ = True"

definition apply_tyres ::
  "'n worker_env \<Rightarrow> 'n hub_others \<Rightarrow> u64 \<Rightarrow> command_target \<Rightarrow> u64 \<Rightarrow> vehicle_state \<Rightarrow> 'n collecting
    \<Rightarrow> bool \<times> 'n collecting" where
  "apply_tyres env other car_id target engine_id v c =
     (let (there, c1) = (if official (env_features env)
                         then apply_tyre env other car_id target engine_id v c else (True, c))
      in if there \<and> local_mode (env_features env) \<and> is_local_world target
         then apply_tyre env other car_id target engine_id v c1
         else (there, c1))"

definition idle_controls :: "bool \<Rightarrow> controls" where
  "idle_controls brake_hold =
     controls_new (Fin 0) (if brake_hold then Fin 1 else Fin 0) (Fin (1 / 2)) (Fin 0) (Fin 0) NoShift"

definition idle_state :: "bool \<Rightarrow> vehicle_state \<Rightarrow> vehicle_state" where
  "idle_state brake_hold v =
     v\<lparr>vs_speed := Fin 0, engine_rpm := Fin 0, vs_gear := Neutral, throttle_applied := Fin 0,
       brake_applied := (if brake_hold then Fin 1 else Fin 0)\<rparr>"

definition finish_car ::
  "'n worker_env \<Rightarrow> 'n hub_others \<Rightarrow> u64 \<Rightarrow> command_target \<Rightarrow> u64 \<Rightarrow> vehicle_state
    \<Rightarrow> vehicle_race_metrics option \<Rightarrow> u32 option \<Rightarrow> 'n collecting \<Rightarrow> 'n collecting" where
  "finish_car env other car_id target engine_id v metrics best c =
     (let (pit, st) = update_pit_state_from_runtime (env_features env) car_id v metrics
                        (fr_server_time_ms (col_frame c)) (col_store c);
          c1 = put_store st c;
          brake_hold = (sn_emergency_lock_remaining_ms pit > 0);
          (v2, c2) = (if sn_force_idle pit
                      then (idle_state brake_hold v,
                            snd (hub_call other (AwaitControls car_id)
                                   (client_set_controls_in env target engine_id (idle_controls brake_hold)) c1))
                      else (v, c1));
          st2 = col_store c2
      in c2\<lparr>col_frame := (col_frame c2)\<lparr>fr_cars := hm_insert car_id
              \<lparr>cf_public_car_id = car_id, cf_engine_car_id = engine_id, cf_target = target, cf_state = v2,
               cf_race_metrics = metrics, cf_best_lap_time_ms = best,
               cf_last_client_seq = car_last_client_seq car_id st2, cf_identity = car_identity car_id st2,
               cf_pit_state = pit, cf_controls_input = controls_input_snapshot car_id st2\<rparr>
              (fr_cars (col_frame c2))\<rparr>\<rparr>)"

definition collect_car :: "'n worker_env \<Rightarrow> 'n hub_others \<Rightarrow> u64 \<Rightarrow> 'n collecting \<Rightarrow> 'n collecting" where
  "collect_car env other car_id c =
     (case car_target car_id (col_store c) of
        None \<Rightarrow> reap (env_features env) car_id c
      | Some target \<Rightarrow>
          (case car_engine_id car_id (col_store c) of
             None \<Rightarrow> reap (env_features env) car_id c
           | Some engine_id \<Rightarrow>
               (case hub_call other (AwaitState car_id) (client_read_car_state_in env target engine_id) c of
                  (Inl err, c1) \<Rightarrow>
                    if err = EngineError NotFound \<or> is_sandbox_runtime_not_active_invalid_argument err
                    then reap (env_features env) car_id c1 else c1
                | (Inr v, c1) \<Rightarrow>
                    (case read_metrics env other car_id target engine_id c1 of
                       (None, c2) \<Rightarrow> c2
                     | (Some metrics, c2) \<Rightarrow>
                         (let (best, cache) = best_lap (env_features env) car_id metrics (col_cache c2);
                              (there, c3) = apply_tyres env other car_id target engine_id v (c2\<lparr>col_cache := cache\<rparr>)
                          in if there then finish_car env other car_id target engine_id v metrics best c3
                             else c3)))))"

section \<open>A frame\<close>

definition empty_frame :: "u64 \<Rightarrow> u64 \<Rightarrow> runtime_frame" where
  "empty_frame tick now_ms =
     \<lparr>fr_tick = tick, fr_server_time_ms = now_ms, fr_runtime_state = None, fr_cars = [],
      fr_official_race_duration_s = None, fr_local_race_duration_s = [], fr_sandbox_race_duration_s = [],
      fr_official_lap_length_m = None, fr_local_race_lap_length_m = [], fr_sandbox_lap_length_m = []\<rparr>"

definition collect_worlds :: "'n worker_env \<Rightarrow> 'n hub_others \<Rightarrow> 'n collecting \<Rightarrow> 'n collecting" where
  "collect_worlds env other c =
     (case hub_call other AwaitRuntimeState (client_runtime_state env) c of
        (Inl _, c1) \<Rightarrow> c1
      | (Inr rt, c1) \<Rightarrow>
          collect_sandboxes env other rt (collect_local_race env other rt (collect_official env other rt
            (c1\<lparr>col_frame := (col_frame c1)\<lparr>fr_runtime_state := Some rt\<rparr>\<rparr>))))"

definition collect_cars :: "'n worker_env \<Rightarrow> 'n hub_others \<Rightarrow> 'n collecting \<Rightarrow> 'n collecting" where
  "collect_cars env other c = fold (collect_car env other) (known_car_ids (col_store c)) c"

definition collect_frame ::
  "'n worker_env \<Rightarrow> 'n hub_others \<Rightarrow> u64 \<Rightarrow> u64 \<Rightarrow> 'n hub_system \<Rightarrow> collector_cache \<Rightarrow> 'n collecting" where
  "collect_frame env other tick now_ms sys cache =
     collect_cars env other (collect_worlds env other
       \<lparr>col_sys = sys, col_frame = empty_frame tick now_ms, col_cache = cache\<rparr>)"

text \<open>One turn of the hub's loop: the tick counter wraps and the frame replaces the last one.\<close>

record 'n frame_hub =
  fh_tick :: u64
  fh_cache :: collector_cache
  fh_latest :: runtime_frame

definition spawn_frame_hub :: "'n worker_env \<Rightarrow> 'n hub_others \<Rightarrow> u64 \<Rightarrow> 'n hub_system \<Rightarrow> 'n frame_hub \<times> 'n hub_system" where
  "spawn_frame_hub env other now_ms sys =
     (let c = collect_frame env other 0 now_ms sys collector_cache_default
      in (\<lparr>fh_tick = 0, fh_cache = col_cache c, fh_latest = col_frame c\<rparr>, col_sys c))"

definition hub_tick ::
  "'n worker_env \<Rightarrow> 'n hub_others \<Rightarrow> u64 \<Rightarrow> 'n frame_hub \<times> 'n hub_system \<Rightarrow> 'n frame_hub \<times> 'n hub_system" where
  "hub_tick env other now_ms hs =
     (let (h, sys) = hs;
          tick = fh_tick h + 1;
          c = collect_frame env other tick now_ms sys (fh_cache h)
      in (\<lparr>fh_tick = tick, fh_cache = col_cache c, fh_latest = col_frame c\<rparr>, col_sys c))"

end
