(* ===== verification/Runtime_Store_Contract.thy ===== *)
theory Runtime_Store_Contract
  imports Runtime_Store
begin

text \<open>
  What the runtime store promises. Each operation on a car's pit state is an event of a
  machine that knows one car only (\<open>pit_step\<close>); the store refines a family of such machines,
  one for every car, whatever the other operations of the store do. The cooldowns, the
  choice of tyres and the pit history are then properties of the machine.
\<close>

section \<open>The machine of one car\<close>

datatype pit_event =
    RequestEv bool
  | FrontendTireEv pit_tire_type
  | BotTireEv pit_tire_type
  | PlanEv bool
  | AppliedEv pit_tire_type
  | BackToTrackEv u64
  | EmergencyEv u64
  | FrameEv vehicle_state "vehicle_race_metrics option" u64 u32

fun pit_step :: "features \<Rightarrow> pit_event \<Rightarrow> pit_state \<Rightarrow> pit_state" where
  "pit_step fs (RequestEv active) s = s\<lparr>ps_pit_request_active := active\<rparr>"
| "pit_step fs (FrontendTireEv t) s = next_tire_from_frontend t s"
| "pit_step fs (BotTireEv t) s = next_tire_from_bot t s"
| "pit_step fs (PlanEv stationary) s = (if stationary then s else clear_applied s)"
| "pit_step fs (AppliedEv t) s =
     s\<lparr>ps_last_applied_tyre := Some t, ps_last_applied_tire_revision := Some (ps_next_pit_tire_revision s)\<rparr>"
| "pit_step fs (BackToTrackEv now_ms) s = back_to_track_applied now_ms s"
| "pit_step fs (EmergencyEv now_ms) s = emergency_pitstop_requested now_ms s"
| "pit_step fs (FrameEv v metrics now_ms slot) s = pit_update fs v metrics now_ms slot s"

lemmas pit_update_simps = pit_update_def stationary_update_def official_pit_update_def
  local_pit_update_def enter_fix_zone_def leave_fix_zone_def push_history_def clear_applied_def Let_def

lemmas pit_simps = next_tire_from_frontend_def next_tire_from_bot_def back_to_track_applied_def
  emergency_pitstop_requested_def pit_update_simps

section \<open>Operations of the store as events of one car\<close>

lemma pit_of_with_pit [simp]:
  "pit_of c (with_pit car_id f st) = (if c = car_id then f (pit_of car_id st) else pit_of c st)"
  by (simp add: pit_of_def with_pit_def)

lemma with_pit_frame [simp]:
  "st_car_identity (with_pit car_id f st) = st_car_identity st"
  "st_car_targets (with_pit car_id f st) = st_car_targets st"
  "st_known_cars (with_pit car_id f st) = st_known_cars st"
  by (simp_all add: with_pit_def)

lemma pit_of_store_new [simp]: "pit_of c store_new = pit_state_default"
  by (simp add: pit_of_def store_new_def)

lemma pit_of_cong: "st_car_pit_state st' = st_car_pit_state st \<Longrightarrow> pit_of c st' = pit_of c st"
  by (simp add: pit_of_def)

lemma pit_of_remove_car [simp]:
  "pit_of c (remove_car car_id st) = (if c = car_id then pit_state_default else pit_of c st)"
  by (simp add: pit_of_def remove_car_def Let_def split: option.split)

text \<open>
  The interface of the operations that hold one entry of the pit-state map: the entry makes
  one step of the machine, the rest of the store stays as it is.
\<close>

locale pit_operation =
  fixes fs :: features
    and opn :: "runtime_store \<Rightarrow> runtime_store"
    and car_id :: u64
    and ev :: "runtime_store \<Rightarrow> pit_event"
  assumes opn_entry: "opn st = with_pit car_id (pit_step fs (ev st)) st"
begin

lemma own_state: "pit_of car_id (opn st) = pit_step fs (ev st) (pit_of car_id st)"
  by (simp add: opn_entry)

lemma other_cars: "c \<noteq> car_id \<Longrightarrow> pit_of c (opn st) = pit_of c st"
  by (simp add: opn_entry)

lemma other_maps:
  "st_car_identity (opn st) = st_car_identity st" "st_car_targets (opn st) = st_car_targets st"
  "st_known_cars (opn st) = st_known_cars st"
  by (simp_all add: opn_entry)

lemma keeps_all:
  assumes "\<And>e s. P s \<Longrightarrow> P (pit_step fs e s)" and "\<And>c. P (pit_of c st)"
  shows "P (pit_of c (opn st))"
  using assms own_state other_cars by (cases "c = car_id") auto

end

interpretation request_op: pit_operation fs "set_pit_request_active car_id active" car_id
    "\<lambda>_. RequestEv active" for fs car_id active
  by unfold_locales (simp add: set_pit_request_active_def with_pit_def)

interpretation frontend_tire_op: pit_operation fs "set_next_tire_from_frontend car_id t" car_id
    "\<lambda>_. FrontendTireEv t" for fs car_id t
  by unfold_locales (simp add: set_next_tire_from_frontend_def with_pit_def)

interpretation bot_tire_op: pit_operation fs "set_next_tire_from_bot car_id t" car_id
    "\<lambda>_. BotTireEv t" for fs car_id t
  by unfold_locales (simp add: set_next_tire_from_bot_def with_pit_def)

interpretation plan_op: pit_operation fs "\<lambda>st. snd (plan_pit_fix_tire_apply car_id current stationary st)"
    car_id "\<lambda>_. PlanEv stationary" for fs car_id current stationary
  by unfold_locales (simp add: plan_pit_fix_tire_apply_def with_pit_def Let_def)

interpretation applied_op: pit_operation fs "mark_pit_fix_tire_applied car_id t" car_id
    "\<lambda>_. AppliedEv t" for fs car_id t
  by unfold_locales (simp add: mark_pit_fix_tire_applied_def with_pit_def)

interpretation back_to_track_op: pit_operation fs "mark_back_to_track_applied car_id now_ms" car_id
    "\<lambda>_. BackToTrackEv now_ms" for fs car_id now_ms
  by unfold_locales (simp add: mark_back_to_track_applied_def with_pit_def)

interpretation emergency_op: pit_operation fs "mark_emergency_pitstop_requested car_id now_ms" car_id
    "\<lambda>_. EmergencyEv now_ms" for fs car_id now_ms
  by unfold_locales (simp add: mark_emergency_pitstop_requested_def with_pit_def)

interpretation frame_op: pit_operation fs
    "\<lambda>st. snd (update_pit_state_from_runtime fs car_id v metrics now_ms st)" car_id
    "\<lambda>st. FrameEv v metrics now_ms (bot_slot_for_history car_id st)" for fs car_id v metrics now_ms
  by unfold_locales (simp add: update_pit_state_from_runtime_def with_pit_def Let_def)

text \<open>The effect of each operation on the car it is called for.\<close>

lemmas op_states =
  request_op.own_state [where fs = fs, simplified] frontend_tire_op.own_state [where fs = fs, simplified]
  bot_tire_op.own_state [where fs = fs, simplified] plan_op.own_state [where fs = fs, simplified]
  applied_op.own_state [where fs = fs, simplified] back_to_track_op.own_state [where fs = fs, simplified]
  emergency_op.own_state [where fs = fs, simplified] for fs

section \<open>Runs of the store\<close>

text \<open>
  The map of pit states is private to the store; the other maps are handed out and written
  by the services, which a step \<open>OtherMaps\<close> allows without restriction.
\<close>

datatype store_label = CarEvent u64 pit_event | Removed u64 | OtherMaps

inductive store_step :: "features \<Rightarrow> store_label \<Rightarrow> runtime_store \<Rightarrow> runtime_store \<Rightarrow> bool" for fs where
  request: "store_step fs (CarEvent c (RequestEv a)) st (set_pit_request_active c a st)"
| frontend_tire: "store_step fs (CarEvent c (FrontendTireEv t)) st (set_next_tire_from_frontend c t st)"
| bot_tire: "store_step fs (CarEvent c (BotTireEv t)) st (set_next_tire_from_bot c t st)"
| plan: "store_step fs (CarEvent c (PlanEv b)) st (snd (plan_pit_fix_tire_apply c current b st))"
| applied: "store_step fs (CarEvent c (AppliedEv t)) st (mark_pit_fix_tire_applied c t st)"
| back_to_track: "store_step fs (CarEvent c (BackToTrackEv now_ms)) st (mark_back_to_track_applied c now_ms st)"
| emergency: "store_step fs (CarEvent c (EmergencyEv now_ms)) st (mark_emergency_pitstop_requested c now_ms st)"
| frame: "store_step fs (CarEvent c (FrameEv v metrics now_ms (bot_slot_for_history c st))) st
            (snd (update_pit_state_from_runtime fs c v metrics now_ms st))"
| removed: "store_step fs (Removed c) st (remove_car c st)"
| other_maps: "st_car_pit_state st' = st_car_pit_state st \<Longrightarrow> store_step fs OtherMaps st st'"

inductive store_run :: "features \<Rightarrow> store_label list \<Rightarrow> runtime_store \<Rightarrow> runtime_store \<Rightarrow> bool" for fs where
  run_Nil: "store_run fs [] st st"
| run_Cons: "store_step fs l st st1 \<Longrightarrow> store_run fs ls st1 st2 \<Longrightarrow> store_run fs (l # ls) st st2"

lemmas store_run_intros = run_Nil store_step.intros [THEN run_Cons]

inductive_cases store_run_NilE: "store_run fs [] st st'"
inductive_cases store_run_ConsE: "store_run fs (l # ls) st st'"

text \<open>What a step of the store means for the machine of car \<open>c\<close>.\<close>

fun car_view :: "features \<Rightarrow> u64 \<Rightarrow> store_label \<Rightarrow> pit_state \<Rightarrow> pit_state" where
  "car_view fs c (CarEvent c' e) s = (if c' = c then pit_step fs e s else s)"
| "car_view fs c (Removed c') s = (if c' = c then pit_state_default else s)"
| "car_view fs c OtherMaps s = s"

lemmas op_own_states = request_op.own_state frontend_tire_op.own_state bot_tire_op.own_state
  plan_op.own_state applied_op.own_state back_to_track_op.own_state emergency_op.own_state
  frame_op.own_state

lemmas op_other_cars = request_op.other_cars frontend_tire_op.other_cars bot_tire_op.other_cars
  plan_op.other_cars applied_op.other_cars back_to_track_op.other_cars emergency_op.other_cars
  frame_op.other_cars

lemma store_step_view: "store_step fs l st st' \<Longrightarrow> pit_of c st' = car_view fs c l (pit_of c st)"
  by (induction rule: store_step.induct)
     (auto simp: op_own_states op_other_cars simp del: pit_step.simps intro: pit_of_cong)

lemma store_run_view: "store_run fs ls st st' \<Longrightarrow> pit_of c st' = fold (car_view fs c) ls (pit_of c st)"
  by (induction rule: store_run.induct) (simp_all add: store_step_view)

lemma store_run_keeps:
  assumes "store_run fs ls st st'" and "P (pit_of c st)"
    and "\<And>l s. l \<in> set ls \<Longrightarrow> P s \<Longrightarrow> P (car_view fs c l s)"
  shows "P (pit_of c st')"
proof -
  have "P s \<Longrightarrow> (\<And>l s. l \<in> set ls' \<Longrightarrow> P s \<Longrightarrow> P (car_view fs c l s)) \<Longrightarrow> P (fold (car_view fs c) ls' s)" for s ls'
    by (induction ls' arbitrary: s) auto
  thus ?thesis using assms store_run_view [OF assms(1)] by simp
qed

section \<open>The invariant of a car's pit state\<close>

fun tire_or_unspecified :: "pit_tire_type option \<Rightarrow> pit_tire_type" where
  "tire_or_unspecified None = TireUnspecified"
| "tire_or_unspecified (Some t) = t"

definition tire_choice_ok :: "pit_state \<Rightarrow> bool" where
  "tire_choice_ok s \<longleftrightarrow>
     (case ps_next_tire_mode s of
        AutoMode \<Rightarrow> ps_active_next_tire_type s = tire_or_unspecified (ps_bot_cached_next_tire_type s)
      | ManualMode \<Rightarrow> ps_active_next_tire_type s \<noteq> TireUnspecified)"

definition applied_ok :: "pit_state \<Rightarrow> bool" where
  "applied_ok s \<longleftrightarrow>
     (case ps_last_applied_tire_revision s of
        None \<Rightarrow> ps_last_applied_tyre s = None
      | Some r \<Rightarrow> ps_last_applied_tyre s \<noteq> None \<and> r \<le> ps_next_pit_tire_revision s)"

definition fix_session_ok :: "features \<Rightarrow> pit_state \<Rightarrow> bool" where
  "fix_session_ok fs s \<longleftrightarrow>
     (ps_active_fix_session s \<noteq> None) = ps_was_in_fix_zone s \<and> (ps_was_in_fix_zone s \<longrightarrow> official fs) \<and>
     ps_in_stationary_fix s = ps_was_fix_stationary_full_pit s"

definition pit_ok :: "features \<Rightarrow> pit_state \<Rightarrow> bool" where
  "pit_ok fs s \<longleftrightarrow> length (ps_history s) \<le> PIT_HISTORY_MAX_ENTRIES \<and> tire_choice_ok s \<and>
     applied_ok s \<and> fix_session_ok fs s"

lemma pit_step_history: "length (ps_history s) \<le> PIT_HISTORY_MAX_ENTRIES \<Longrightarrow>
    length (ps_history (pit_step fs e s)) \<le> PIT_HISTORY_MAX_ENTRIES"
  by (cases e) (auto simp: pit_simps split: pit_tire_type.split option.split)

lemma pit_step_tire_choice: "tire_choice_ok s \<Longrightarrow> tire_choice_ok (pit_step fs e s)"
  by (cases e) (auto simp: tire_choice_ok_def pit_simps
      split: pit_tire_type.split option.split next_tire_mode.splits)

lemma pit_step_applied: "applied_ok s \<Longrightarrow> applied_ok (pit_step fs e s)"
  by (cases e) (auto simp: applied_ok_def pit_simps intro: order_trans [OF _ sat_add_ge]
      split: pit_tire_type.split option.splits)

lemma pit_step_fix_session: "fix_session_ok fs s \<Longrightarrow> fix_session_ok fs (pit_step fs e s)"
  by (cases e) (auto simp: fix_session_ok_def pit_simps split: pit_tire_type.split option.splits)

lemma pit_step_ok: "pit_ok fs s \<Longrightarrow> pit_ok fs (pit_step fs e s)"
  by (simp add: pit_ok_def pit_step_history pit_step_tire_choice pit_step_applied pit_step_fix_session
      del: pit_step.simps)

lemma pit_ok_default [simp]: "pit_ok fs pit_state_default"
  by (simp add: pit_ok_def tire_choice_ok_def applied_ok_def fix_session_ok_def pit_state_default_def)

lemma car_view_ok: "pit_ok fs s \<Longrightarrow> pit_ok fs (car_view fs c l s)"
  by (cases l) (auto simp: pit_step_ok simp del: pit_step.simps)

section \<open>Cooldowns\<close>

definition timers_from :: "pit_state \<Rightarrow> pit_state \<Rightarrow> bool" where
  "timers_from s s' \<longleftrightarrow>
     ps_emergency_lock_until_ms s \<le> ps_emergency_lock_until_ms s' \<and>
     ps_back_to_track_cooldown_until_ms s \<le> ps_back_to_track_cooldown_until_ms s' \<and>
     ps_emergency_pitstop_cooldown_until_ms s \<le> ps_emergency_pitstop_cooldown_until_ms s' \<and>
     ps_force_idle_until_ms s \<le> ps_force_idle_until_ms s'"

lemma timers_from_refl [simp]: "timers_from s s"
  by (simp add: timers_from_def)

lemma timers_from_trans: "timers_from s s' \<Longrightarrow> timers_from s' s'' \<Longrightarrow> timers_from s s''"
  by (auto simp: timers_from_def)

lemma pit_step_timers: "timers_from s (pit_step fs e s)"
  by (cases e) (auto simp: timers_from_def pit_simps split: pit_tire_type.split option.split)

lemma store_run_timers:
  assumes "store_run fs ls st st'" "Removed c \<notin> set ls"
  shows "timers_from (pit_of c st) (pit_of c st')"
proof (rule store_run_keeps [OF assms(1)])
  fix l s assume l: "l \<in> set ls" and s: "timers_from (pit_of c st) s"
  show "timers_from (pit_of c st) (car_view fs c l s)"
    using l s assms(2) timers_from_trans [OF s pit_step_timers]
    by (cases l rule: store_label.exhaust) (auto simp del: pit_step.simps)
qed simp

lemma unat_remaining_u32:
  "unat (remaining_u32 u t) = min (unat u - unat t) (2 ^ 32 - 1)"
proof (cases "u \<le> t")
  case False
  have "unat (u - t) = unat u - unat t" using False by (simp add: unat_sub)
  thus ?thesis using False
    by (simp add: remaining_u32_def unat_max_word unat_of_nat take_bit_nat_eq_self min_less_iff_disj)
qed (simp add: remaining_u32_def word_le_nat_alt)

lemma snapshot_of_default: "snapshot pit_state_default now_ms = snapshot_default"
  by (simp add: snapshot_def snapshot_default_def pit_state_default_def remaining_u32_def Let_def)

lemma store_snapshot: "store_pit_state_snapshot c t st = snapshot (pit_of c st) t"
  by (simp add: store_pit_state_snapshot_def pit_of_def snapshot_of_default split: option.split)

lemma back_to_track_remaining:
  "back_to_track_cooldown_remaining_ms c t st = remaining_u32 (ps_back_to_track_cooldown_until_ms (pit_of c st)) t"
  by (simp add: back_to_track_cooldown_remaining_ms_def pit_of_def pit_state_default_def remaining_u32_def
      split: option.split)

lemma emergency_remaining:
  "emergency_pitstop_cooldown_remaining_ms c t st =
     remaining_u32 (ps_emergency_pitstop_cooldown_until_ms (pit_of c st)) t"
  by (simp add: emergency_pitstop_cooldown_remaining_ms_def pit_of_def pit_state_default_def remaining_u32_def
      split: option.split)

lemma stationary_fix_of: "store_is_in_stationary_fix c st = ps_in_stationary_fix (pit_of c st)"
  by (simp add: store_is_in_stationary_fix_def pit_of_def pit_state_default_def split: option.split)

text \<open>A deadline at least 30 s after \<open>now\<close> still has that much left at a later time \<open>t\<close>.\<close>

lemma remaining_of_deadline:
  fixes now t u :: u64
  assumes "sat_add now 30000 \<le> u" "now \<le> t"
  shows "unat (sat_add now 30000) - unat t \<le> unat (remaining_u32 u t)"
proof -
  have "unat (sat_add now 30000) \<le> unat now + 30000" by (simp add: sat_simps)
  moreover have "unat (sat_add now 30000) \<le> unat u" "unat now \<le> unat t"
    using assms by (simp_all add: word_le_nat_alt)
  ultimately show ?thesis by (auto simp: unat_remaining_u32)
qed

section \<open>Pit visits\<close>

type_synonym pit_frame = "vehicle_state \<times> vehicle_race_metrics option \<times> u64 \<times> u32"

definition in_fix :: "pit_frame \<Rightarrow> bool" where
  "in_fix f \<longleftrightarrow> has_zone (vs_pitstop_state (fst f)) ZoneFix"

definition stopped :: "pit_frame \<Rightarrow> bool" where
  "stopped f \<longleftrightarrow> completed_pit (fst f)"

fun frames_of :: "pit_event list \<Rightarrow> pit_frame list" where
  "frames_of [] = []"
| "frames_of (FrameEv v m now_ms slot # es) = (v, m, now_ms, slot) # frames_of es"
| "frames_of (_ # es) = frames_of es"

lemma frames_of_append [simp]: "frames_of (es @ es') = frames_of es @ frames_of es'"
  by (induction es rule: frames_of.induct) simp_all

lemma dropWhile_shorter: "dropWhile P xs = y # ys \<Longrightarrow> length ys < length xs"
  by (metis length_dropWhile_le length_Cons Suc_le_eq)

text \<open>
  The specification of the official build: a visit is a maximal stay in the fix zone, given
  by the frame that enters it and the first frame after it.
\<close>

function pit_visits :: "pit_frame list \<Rightarrow> (pit_frame \<times> pit_frame) list" where
  "pit_visits fr =
     (case dropWhile (\<lambda>f. \<not> in_fix f) fr of
        [] \<Rightarrow> []
      | f0 # rest \<Rightarrow>
          (case dropWhile in_fix rest of
             [] \<Rightarrow> []
           | f1 # later \<Rightarrow> (f0, f1) # pit_visits later))"
  by auto

termination
proof (relation "measure length")
  fix fr f0 rest f1 later
  assume "dropWhile (\<lambda>f. \<not> in_fix f) fr = f0 # rest" "dropWhile in_fix rest = f1 # later"
  hence "length rest < length fr" "length later < length rest" by (simp_all only: dropWhile_shorter)
  thus "(later, fr) \<in> measure length" by simp
qed simp

declare pit_visits.simps [simp del]

definition records_visit :: "pit_history_entry \<Rightarrow> pit_frame \<times> pit_frame \<Rightarrow> bool" where
  "records_visit h p \<longleftrightarrow>
     (case p of ((v0, m0, t0, slot0), (v1, m1, t1, slot1)) \<Rightarrow>
        ph_pit_time_ms h = t0 \<and> (case m0 of None \<Rightarrow> True | Some m \<Rightarrow> ph_lap h = completed_laps m) \<and>
        ph_tire_type_before h = runtime_tire_type_from_engine (vs_tyre_type v0) \<and>
        ph_tire_wear_before_repair h = tyre_health v0 \<and>
        ph_tire_temperature_before_celsius h = tyre_temperature_celsius v0 \<and>
        ph_bot_slot_before h = slot0 \<and>
        ph_tire_type_after h = runtime_tire_type_from_engine (vs_tyre_type v1) \<and>
        ph_tire_temperature_after_celsius h = tyre_temperature_celsius v1 \<and>
        ph_bot_slot_after h = slot1)"

text \<open>The visits again, one frame at a time, with the frame that opened the current stay.\<close>

fun visit_scan :: "pit_frame option \<Rightarrow> pit_frame list \<Rightarrow> (pit_frame \<times> pit_frame) list" where
  "visit_scan g [] = []"
| "visit_scan None (f # fr) = (if in_fix f then visit_scan (Some f) fr else visit_scan None fr)"
| "visit_scan (Some g) (f # fr) = (if in_fix f then visit_scan (Some g) fr else (g, f) # visit_scan None fr)"

lemma scan_None: "visit_scan None fr =
    (case dropWhile (\<lambda>f. \<not> in_fix f) fr of [] \<Rightarrow> [] | f # rest \<Rightarrow> visit_scan (Some f) rest)"
  by (induction fr) auto

lemma scan_Some: "visit_scan (Some g) fr =
    (case dropWhile in_fix fr of [] \<Rightarrow> [] | f # rest \<Rightarrow> (g, f) # visit_scan None rest)"
  by (induction fr) auto

lemma visit_scan_visits: "visit_scan None fr = pit_visits fr"
proof (induction fr rule: pit_visits.induct)
  case (1 fr)
  show ?case
  proof (cases "dropWhile (\<lambda>f. \<not> in_fix f) fr")
    case Nil
    show ?thesis by (simp only: scan_None [of fr] pit_visits.simps [of fr] Nil list.case)
  next
    case (Cons f0 rest)
    show ?thesis
      by (cases "dropWhile in_fix rest")
         (simp_all only: scan_None [of fr] pit_visits.simps [of fr] Cons scan_Some [of f0 rest] 1 [OF Cons] list.case)
  qed
qed

definition opened_by :: "active_fix_session \<Rightarrow> pit_frame \<Rightarrow> bool" where
  "opened_by x g \<longleftrightarrow>
     (case g of (v0, m0, t0, slot0) \<Rightarrow>
        fx_entry_time_ms x = t0 \<and> (case m0 of None \<Rightarrow> True | Some m \<Rightarrow> fx_entry_lap x = completed_laps m) \<and>
        fx_tire_type_before x = runtime_tire_type_from_engine (vs_tyre_type v0) \<and>
        fx_tire_wear_before_repair x = tyre_health v0 \<and>
        fx_tire_temperature_before_celsius x = tyre_temperature_celsius v0 \<and>
        fx_bot_slot_before x = slot0)"

definition stay_of :: "pit_state \<Rightarrow> pit_frame option \<Rightarrow> bool" where
  "stay_of s g \<longleftrightarrow> ps_was_in_fix_zone s = (g \<noteq> None) \<and> rel_option opened_by (ps_active_fix_session s) g"

lemma take_insert_front: "take n (x # take n xs) = take n (x # xs)"
  by (cases n) (simp_all add: min_def)

lemma non_frame_history:
  assumes "frames_of [e] = []"
  shows "ps_history (pit_step fs e s) = ps_history s"
    and "ps_was_in_fix_zone (pit_step fs e s) = ps_was_in_fix_zone s"
    and "ps_active_fix_session (pit_step fs e s) = ps_active_fix_session s"
    and "ps_was_fix_stationary_full_pit (pit_step fs e s) = ps_was_fix_stationary_full_pit s"
  using assms by (cases e; auto simp: pit_simps split: pit_tire_type.split)+

lemma frame_event: "frames_of [e] = [] \<or> (\<exists>v m t slot. e = FrameEv v m t slot)"
  by (cases e) auto

lemma frame_outside:
  assumes "official fs" "stay_of s None" "\<not> in_fix (v, m, t, slot)"
  shows "ps_history (pit_step fs (FrameEv v m t slot) s) = ps_history s"
    and "stay_of (pit_step fs (FrameEv v m t slot) s) None"
  using assms by (simp_all add: stay_of_def in_fix_def pit_update_simps)

lemma frame_enters:
  assumes "official fs" "stay_of s None" "in_fix (v, m, t, slot)"
  shows "ps_history (pit_step fs (FrameEv v m t slot) s) = ps_history s"
    and "stay_of (pit_step fs (FrameEv v m t slot) s) (Some (v, m, t, slot))"
  using assms by (auto simp: stay_of_def in_fix_def opened_by_def pit_update_simps split: option.split)

lemma frame_stays:
  assumes "official fs" "stay_of s (Some g)" "in_fix (v, m, t, slot)"
  shows "ps_history (pit_step fs (FrameEv v m t slot) s) = ps_history s"
    and "stay_of (pit_step fs (FrameEv v m t slot) s) (Some g)"
  using assms by (simp_all add: stay_of_def in_fix_def pit_update_simps)

lemma frame_leaves:
  assumes "official fs" "stay_of s (Some g)" "\<not> in_fix (v, m, t, slot)"
  shows "\<exists>h. records_visit h (g, (v, m, t, slot)) \<and>
           ps_history (pit_step fs (FrameEv v m t slot) s) = take PIT_HISTORY_MAX_ENTRIES (h # ps_history s)"
    and "stay_of (pit_step fs (FrameEv v m t slot) s) None"
proof -
  obtain x where x: "ps_active_fix_session s = Some x" "opened_by x g" "ps_was_in_fix_zone s"
    using assms(2) by (auto simp: stay_of_def option_rel_Some2)
  let ?h = "\<lparr>ph_pit_time_ms = fx_entry_time_ms x, ph_lap = fx_entry_lap x, ph_source = fx_source x,
      ph_tire_type_after = runtime_tire_type_from_engine (vs_tyre_type v),
      ph_tire_type_before = fx_tire_type_before x,
      ph_tire_wear_before_repair = fx_tire_wear_before_repair x,
      ph_tire_temperature_before_celsius = fx_tire_temperature_before_celsius x,
      ph_tire_temperature_after_celsius = tyre_temperature_celsius v,
      ph_bot_slot_before = fx_bot_slot_before x, ph_bot_slot_after = slot\<rparr>"
  have "ps_history (pit_step fs (FrameEv v m t slot) s) = take PIT_HISTORY_MAX_ENTRIES (?h # ps_history s)"
    using assms(1, 3) x by (simp add: in_fix_def pit_update_simps)
  moreover have "records_visit ?h (g, (v, m, t, slot))"
    using x(2) by (cases g) (auto simp: records_visit_def opened_by_def split: option.splits)
  ultimately show "\<exists>h. records_visit h (g, (v, m, t, slot)) \<and>
      ps_history (pit_step fs (FrameEv v m t slot) s) = take PIT_HISTORY_MAX_ENTRIES (h # ps_history s)"
    by blast
  show "stay_of (pit_step fs (FrameEv v m t slot) s) None"
    using assms(1, 3) x by (simp add: stay_of_def in_fix_def pit_update_simps)
qed

lemma history_of_visits:
  assumes "official fs" "stay_of s g" "list_all2 records_visit (ps_history s) (take PIT_HISTORY_MAX_ENTRIES olds)"
  shows "list_all2 records_visit (ps_history (fold (pit_step fs) es s))
           (take PIT_HISTORY_MAX_ENTRIES (rev (visit_scan g (frames_of es)) @ olds))"
  using assms(2, 3)
proof (induction es arbitrary: s g olds)
  case (Cons e es)
  show ?case
  proof (cases "frames_of [e] = []")
    case True
    hence fr: "frames_of (e # es) = frames_of es" by (cases e) auto
    have "stay_of (pit_step fs e s) g" using Cons.prems(1) non_frame_history [OF True]
      by (simp add: stay_of_def del: pit_step.simps)
    thus ?thesis using Cons.IH [of "pit_step fs e s" g olds] Cons.prems(2) fr non_frame_history [OF True]
      by (simp del: pit_step.simps)
  next
    case False
    then obtain v m t slot where e: "e = FrameEv v m t slot" using frame_event by blast
    let ?s = "pit_step fs (FrameEv v m t slot) s" and ?f = "(v, m, t, slot)"
    consider (out) "g = None" "\<not> in_fix ?f" | (enter) "g = None" "in_fix ?f"
      | (stay) g0 where "g = Some g0" "in_fix ?f" | (leave) g0 where "g = Some g0" "\<not> in_fix ?f"
      by (cases g) auto
    thus ?thesis
    proof cases
      case out
      thus ?thesis using Cons.IH [of ?s None olds] Cons.prems frame_outside [OF assms(1), of s v m t slot]
        by (simp add: e del: pit_step.simps)
    next
      case enter
      thus ?thesis using Cons.IH [of ?s "Some ?f" olds] Cons.prems frame_enters [OF assms(1), of s v m t slot]
        by (simp add: e del: pit_step.simps)
    next
      case (stay g0)
      thus ?thesis using Cons.IH [of ?s g olds] Cons.prems frame_stays [OF assms(1), of s g0 v m t slot]
        by (simp add: e del: pit_step.simps)
    next
      case (leave g0)
      obtain h where h: "records_visit h (g0, ?f)"
        "ps_history ?s = take PIT_HISTORY_MAX_ENTRIES (h # ps_history s)"
        using frame_leaves(1) [OF assms(1)] Cons.prems(1) leave by blast
      have "list_all2 records_visit (h # ps_history s) ((g0, ?f) # take PIT_HISTORY_MAX_ENTRIES olds)"
        using h(1) Cons.prems(2) by simp
      hence "list_all2 records_visit (ps_history ?s) (take PIT_HISTORY_MAX_ENTRIES ((g0, ?f) # olds))"
        unfolding h(2) by (metis list_all2_takeI take_insert_front)
      thus ?thesis using Cons.IH [of ?s None "(g0, ?f) # olds"] Cons.prems(1) leave
          frame_leaves(2) [OF assms(1), of s g0 v m t slot]
        by (simp add: e del: pit_step.simps)
    qed
  qed
qed simp

text \<open>
  The specification of the other builds: a stop is a frame with the car at rest, all four
  wheels in the fix zone, that does not follow such a frame.
\<close>

definition stop_begins :: "pit_frame list \<Rightarrow> nat \<Rightarrow> bool" where
  "stop_begins fr i \<longleftrightarrow> stopped (fr ! i) \<and> (i = 0 \<or> \<not> stopped (fr ! (i - 1)))"

definition pit_stops :: "pit_frame list \<Rightarrow> pit_frame list" where
  "pit_stops fr = map (\<lambda>i. fr ! i) (filter (stop_begins fr) [0..<length fr])"

definition records_stop :: "pit_history_entry \<Rightarrow> pit_frame \<Rightarrow> bool" where
  "records_stop h f \<longleftrightarrow>
     (case f of (v, m, t, slot) \<Rightarrow>
        ph_pit_time_ms h = t \<and> ph_lap h = (case m of None \<Rightarrow> 0 | Some x \<Rightarrow> completed_laps x) \<and>
        ph_tire_type_before h = runtime_tire_type_from_engine (vs_tyre_type v) \<and>
        ph_tire_wear_before_repair h = tyre_health v \<and>
        ph_tire_temperature_before_celsius h = tyre_temperature_celsius v)"

lemma pit_stops_Nil [simp]: "pit_stops [] = []"
  by (simp add: pit_stops_def)

lemma pit_stops_snoc: "pit_stops (fr @ [f]) =
    pit_stops fr @ (if stopped f \<and> (fr = [] \<or> \<not> stopped (last fr)) then [f] else [])"
proof -
  have "stop_begins (fr @ [f]) i = stop_begins fr i" if "i < length fr" for i
    using that by (simp add: stop_begins_def nth_append less_imp_diff_less)
  hence "filter (stop_begins (fr @ [f])) [0..<length fr] = filter (stop_begins fr) [0..<length fr]"
    by (intro filter_cong) simp_all
  moreover have "stop_begins (fr @ [f]) (length fr) \<longleftrightarrow> stopped f \<and> (fr = [] \<or> \<not> stopped (last fr))"
    by (auto simp: stop_begins_def nth_append last_conv_nth)
  ultimately show ?thesis by (auto simp: pit_stops_def nth_append)
qed

lemma frame_stop:
  assumes "\<not> official fs" "stopped (v, m, t, slot)" "\<not> ps_was_fix_stationary_full_pit s"
  shows "\<exists>h. records_stop h (v, m, t, slot) \<and>
           ps_history (pit_step fs (FrameEv v m t slot) s) = take PIT_HISTORY_MAX_ENTRIES (h # ps_history s)"
proof -
  let ?h = "\<lparr>ph_pit_time_ms = t, ph_lap = (case m of None \<Rightarrow> 0 | Some x \<Rightarrow> completed_laps x),
      ph_source = pit_source s, ph_tire_type_after = ps_active_next_tire_type s,
      ph_tire_type_before = runtime_tire_type_from_engine (vs_tyre_type v),
      ph_tire_wear_before_repair = tyre_health v,
      ph_tire_temperature_before_celsius = tyre_temperature_celsius v,
      ph_tire_temperature_after_celsius = tyre_temperature_celsius v,
      ph_bot_slot_before = 1, ph_bot_slot_after = 1\<rparr>"
  have "ps_history (pit_step fs (FrameEv v m t slot) s) = take PIT_HISTORY_MAX_ENTRIES (?h # ps_history s)"
    using assms by (simp add: stopped_def pit_update_simps)
  moreover have "records_stop ?h (v, m, t, slot)" by (simp add: records_stop_def)
  ultimately show ?thesis by blast
qed

lemma history_of_stops:
  assumes "\<not> official fs"
  defines "s \<equiv> \<lambda>es. fold (pit_step fs) es pit_state_default"
  shows "ps_was_fix_stationary_full_pit (s es) = (frames_of es \<noteq> [] \<and> stopped (last (frames_of es))) \<and>
    list_all2 records_stop (ps_history (s es)) (take PIT_HISTORY_MAX_ENTRIES (rev (pit_stops (frames_of es))))"
proof (induction es rule: rev_induct)
  case Nil
  show ?case by (simp add: s_def pit_state_default_def)
next
  case (snoc e es)
  have s: "s (es @ [e]) = pit_step fs e (s es)" by (simp add: s_def)
  show ?case
  proof (cases "frames_of [e] = []")
    case True
    thus ?thesis using snoc non_frame_history [OF True] by (simp add: s del: pit_step.simps)
  next
    case False
    then obtain v m t slot where e: "e = FrameEv v m t slot" using frame_event by blast
    let ?f = "(v, m, t, slot)"
    have flag: "ps_was_fix_stationary_full_pit (s (es @ [e])) = stopped ?f"
      unfolding s unfolding e by (simp add: stopped_def pit_update_simps)
    show ?thesis
    proof (cases "stopped ?f \<and> \<not> ps_was_fix_stationary_full_pit (s es)")
      case True
      then obtain h where h: "records_stop h ?f"
        "ps_history (s (es @ [e])) = take PIT_HISTORY_MAX_ENTRIES (h # ps_history (s es))"
        using frame_stop [OF assms(1)] unfolding s unfolding e by blast
      have "list_all2 records_stop (h # ps_history (s es))
          (?f # take PIT_HISTORY_MAX_ENTRIES (rev (pit_stops (frames_of es))))"
        using h(1) snoc by simp
      hence "list_all2 records_stop (ps_history (s (es @ [e])))
          (take PIT_HISTORY_MAX_ENTRIES (?f # rev (pit_stops (frames_of es))))"
        unfolding h(2) by (metis list_all2_takeI take_insert_front)
      thus ?thesis using True snoc flag by (auto simp: e pit_stops_snoc)
    next
      case False
      hence "ps_history (s (es @ [e])) = ps_history (s es)"
        using assms(1) unfolding s unfolding e by (auto simp: stopped_def pit_update_simps)
      thus ?thesis using False snoc flag by (auto simp: e pit_stops_snoc)
    qed
  qed
qed

fun events_of :: "u64 \<Rightarrow> store_label list \<Rightarrow> pit_event list" where
  "events_of c [] = []"
| "events_of c (CarEvent c' e # ls) = (if c' = c then e # events_of c ls else events_of c ls)"
| "events_of c (_ # ls) = events_of c ls"

lemma fold_car_view: "Removed c \<notin> set ls \<Longrightarrow>
    fold (car_view fs c) ls s = fold (pit_step fs) (events_of c ls) s"
  by (induction c ls arbitrary: s rule: events_of.induct) (auto simp del: pit_step.simps)

lemma store_run_events:
  assumes "store_run fs ls store_new st" "Removed c \<notin> set ls"
  shows "sn_history (store_pit_state_snapshot c t st) =
     ps_history (fold (pit_step fs) (events_of c ls) pit_state_default)"
  by (simp add: store_snapshot snapshot_def Let_def store_run_view [OF assms(1)] fold_car_view [OF assms(2)])

section \<open>The tyre applied in the fix zone\<close>

definition desired_tire :: "pit_tire_type \<Rightarrow> pit_state \<Rightarrow> pit_tire_type" where
  "desired_tire current s =
     (case ps_active_next_tire_type s of TireUnspecified \<Rightarrow> current | t \<Rightarrow> t)"

definition tire_settled :: "pit_tire_type \<Rightarrow> pit_state \<Rightarrow> bool" where
  "tire_settled t s \<longleftrightarrow> desired_tire t s = t \<and> ps_last_applied_tyre s = Some t \<and>
     ps_last_applied_tire_revision s = Some (ps_next_pit_tire_revision s)"

lemma plan_result:
  "fst (plan_pit_fix_tire_apply c current True st) =
     (let s = pit_of c st; d = desired_tire current s in
      if ps_last_applied_tyre s = Some d \<and> ps_last_applied_tire_revision s = Some (ps_next_pit_tire_revision s)
      then None else Some d)"
  by (simp add: plan_pit_fix_tire_apply_def desired_tire_def Let_def split: pit_tire_type.split)

lemma plan_cong: "pit_of c st = pit_of c st' \<Longrightarrow>
    fst (plan_pit_fix_tire_apply c current b st) = fst (plan_pit_fix_tire_apply c current b st')"
  by (cases b) (simp_all add: plan_result, simp add: plan_pit_fix_tire_apply_def)

text \<open>Events that neither choose a tyre nor end the stop.\<close>

fun calm_event :: "pit_event \<Rightarrow> bool" where
  "calm_event (FrontendTireEv _) = False"
| "calm_event (BotTireEv _) = False"
| "calm_event (AppliedEv _) = False"
| "calm_event (PlanEv stationary) = stationary"
| "calm_event (FrameEv v _ _ _) = completed_pit v"
| "calm_event _ = True"

fun calm :: "u64 \<Rightarrow> store_label \<Rightarrow> bool" where
  "calm c (CarEvent c' e) = (c' \<noteq> c \<or> calm_event e)"
| "calm c (Removed c') = (c' \<noteq> c)"
| "calm c OtherMaps = True"

lemma calm_event_settled: "calm_event e \<Longrightarrow> tire_settled t s \<Longrightarrow> tire_settled t (pit_step fs e s)"
  by (cases e) (auto simp: tire_settled_def desired_tire_def pit_simps split: option.split)

lemma calm_settled: "calm c l \<Longrightarrow> tire_settled t s \<Longrightarrow> tire_settled t (car_view fs c l s)"
  by (cases l) (auto simp: calm_event_settled simp del: pit_step.simps)

section \<open>Identifiers\<close>

fun allocate_bot_indices :: "(string \<times> string) list \<Rightarrow> runtime_store \<Rightarrow> u32 list \<times> runtime_store" where
  "allocate_bot_indices [] st = ([], st)"
| "allocate_bot_indices ((sandbox_id, user_id) # ks) st =
     (let (i, st1) = allocate_local_bot_index sandbox_id user_id st;
          (is, st2) = allocate_bot_indices ks st1
      in (i # is, st2))"

definition next_bot_index :: "string \<times> string \<Rightarrow> runtime_store \<Rightarrow> nat" where
  "next_bot_index k st = (case hm_get (st_local_bot_next_index st) k of None \<Rightarrow> 1 | Some v \<Rightarrow> unat v)"

lemma allocate_next:
  assumes "allocate_local_bot_index sandbox_id user_id st = (i, st')"
  shows "unat i = next_bot_index (sandbox_id, user_id) st"
    and "next_bot_index k st' = (if k = (sandbox_id, user_id)
           then min (next_bot_index k st + 1) (2 ^ 32 - 1) else next_bot_index k st)"
  using assms
  by (auto simp: allocate_local_bot_index_def next_bot_index_def Let_def sat_simps split: option.splits)

lemma next_bot_index_bound: "next_bot_index k st \<le> 2 ^ 32 - 1"
  using unat_bound [where 'a = 32] by (auto simp: next_bot_index_def split: option.split)

lemma bot_indices_from:
  "i < length ks \<Longrightarrow> unat (fst (allocate_bot_indices ks st) ! i) =
     min (next_bot_index (ks ! i) st + count_list (take i ks) (ks ! i)) (2 ^ 32 - 1)"
proof (induction ks st arbitrary: i rule: allocate_bot_indices.induct)
  case (2 sandbox_id user_id ks st)
  obtain j st1 where a: "allocate_local_bot_index sandbox_id user_id st = (j, st1)" by fastforce
  note a1 = allocate_next(1) [OF a] and a2 = allocate_next(2) [OF a]
  show ?case
  proof (cases i)
    case 0
    thus ?thesis using next_bot_index_bound [of "(sandbox_id, user_id)" st] a1
      by (simp add: a Let_def case_prod_beta)
  next
    case (Suc n)
    thus ?thesis using 2 a2 by (simp add: a Let_def case_prod_beta) (simp add: min_def)
  qed
qed simp

section \<open>Properties\<close>

text \<open>
  What happened to car \<open>c\<close> in a run since the store last removed it.
\<close>

fun own_events :: "u64 \<Rightarrow> pit_event list \<Rightarrow> store_label list \<Rightarrow> pit_event list" where
  "own_events c es [] = es"
| "own_events c es (CarEvent c' e # ls) = own_events c (if c' = c then es @ [e] else es) ls"
| "own_events c es (Removed c' # ls) = own_events c (if c' = c then [] else es) ls"
| "own_events c es (OtherMaps # ls) = own_events c es ls"

lemma own_events_view:
  "fold (car_view fs c) ls (fold (pit_step fs) es pit_state_default) =
     fold (pit_step fs) (own_events c es ls) pit_state_default"
proof (induction c es ls rule: own_events.induct)
  case (2 c es c' e ls)
  thus ?case by (cases "c' = c") (simp_all del: pit_step.simps)
next
  case (3 c es c' ls)
  thus ?case by (cases "c' = c") (simp_all del: pit_step.simps)
qed (simp_all del: pit_step.simps)

lemma store_run_own_events:
  assumes "store_run fs ls store_new st"
  shows "pit_of c st = fold (pit_step fs) (own_events c [] ls) pit_state_default"
  using store_run_view [OF assms, of c] own_events_view [of fs c ls "[]"] by (simp del: pit_step.simps)

text \<open>
  C8. Cars do not interfere through the store. Take any two runs from a new store, with any
  operations on any number of cars, removals and arbitrary writes of the services to the
  handed-out maps. If the operations on car \<open>c\<close> since its last removal are the same in both
  (an update from a frame includes the slot of the bot it read), the store reports the same
  about \<open>c\<close> in both: its snapshot and both command cooldowns at every time, whether it is in
  a stationary fix, and the tyre to apply there.
\<close>

theorem cars_do_not_interfere:
  assumes "store_run fs ls store_new st" "store_run fs ls' store_new st'"
    and "own_events c [] ls = own_events c [] ls'"
  shows "store_pit_state_snapshot c t st = store_pit_state_snapshot c t st' \<and>
    back_to_track_cooldown_remaining_ms c t st = back_to_track_cooldown_remaining_ms c t st' \<and>
    emergency_pitstop_cooldown_remaining_ms c t st = emergency_pitstop_cooldown_remaining_ms c t st' \<and>
    store_is_in_stationary_fix c st = store_is_in_stationary_fix c st' \<and>
    fst (plan_pit_fix_tire_apply c current stationary st) = fst (plan_pit_fix_tire_apply c current stationary st')"
proof -
  have "pit_of c st = pit_of c st'"
    using store_run_own_events [OF assms(1)] store_run_own_events [OF assms(2)] assms(3) by simp
  thus ?thesis
    by (simp add: store_snapshot back_to_track_remaining emergency_remaining stationary_fix_of)
       (rule plan_cong)
qed

definition sample_fs :: features where
  "sample_fs = \<lparr>official = True, local_mode = False, standalone = False\<rparr>"

definition sample_run :: runtime_store where
  "sample_run = mark_emergency_pitstop_requested 1 5000 (remove_car 2 (mark_back_to_track_applied 1 1000 store_new))"

definition sample_labels :: "store_label list" where
  "sample_labels = [CarEvent 1 (BackToTrackEv 1000), Removed 2, CarEvent 1 (EmergencyEv 5000)]"

lemma sample_run_ok: "store_run fs sample_labels store_new sample_run"
  unfolding sample_labels_def sample_run_def by (intro store_run_intros)

lemma sample_reset_ok:
  "store_run fs [CarEvent 2 (RequestEv True), CarEvent 1 (RequestEv True), Removed 1, CarEvent 1 (BackToTrackEv 1000),
      CarEvent 1 (EmergencyEv 5000)] store_new
    (mark_emergency_pitstop_requested 1 5000 (mark_back_to_track_applied 1 1000
      (remove_car 1 (set_pit_request_active 1 True (set_pit_request_active 2 True store_new)))))"
  by (intro store_run_intros)

theorem cars_do_not_interfere_witness:
  "store_pit_state_snapshot 1 7000 sample_run = store_pit_state_snapshot 1 7000
    (mark_emergency_pitstop_requested 1 5000 (mark_back_to_track_applied 1 1000
      (remove_car 1 (set_pit_request_active 1 True (set_pit_request_active 2 True store_new)))))"
  using cars_do_not_interfere [OF sample_run_ok sample_reset_ok, of 1] by (simp add: sample_labels_def)

text \<open>
  C9. In every reachable store the pit state of every car is well formed: at most 32 history
  entries; in automatic mode the next tyre is the bot's cached choice and in manual mode it is
  a real tyre; the applied tyre and its revision are set together, and never for a revision
  still to come; a fix session is open exactly while the car was last seen in the fix zone,
  and only in the official build.
\<close>

theorem reachable_pit_states_ok:
  assumes "store_run fs ls store_new st"
  shows "pit_ok fs (pit_of c st)"
  by (rule store_run_keeps [OF assms]) (simp_all add: car_view_ok)

theorem reachable_pit_states_ok_witness:
  "pit_ok sample_fs (pit_of 1 sample_run)"
  by (rule reachable_pit_states_ok [OF sample_run_ok])

text \<open>
  Once a car was put back on the track at \<open>now\<close>, the cooldown of that command cannot be
  shortened: at every later time, after any further operations of the store that do not
  remove the car, at least what is left of the 30 seconds is reported as remaining.
\<close>

theorem back_to_track_cools_down:
  assumes "store_run fs ls (mark_back_to_track_applied c now_ms st) st'" "Removed c \<notin> set ls" "now_ms \<le> t"
  shows "unat (sat_add now_ms COMMAND_COOLDOWN_MS) - unat t \<le>
           unat (back_to_track_cooldown_remaining_ms c t st')"
proof -
  have "sat_add now_ms 30000 \<le> ps_back_to_track_cooldown_until_ms (pit_of c (mark_back_to_track_applied c now_ms st))"
    by (simp add: op_states back_to_track_applied_def COMMAND_COOLDOWN_MS_def)
  also have "\<dots> \<le> ps_back_to_track_cooldown_until_ms (pit_of c st')"
    using store_run_timers [OF assms(1, 2)] by (simp add: timers_from_def)
  finally show ?thesis
    using remaining_of_deadline assms(3) by (simp add: back_to_track_remaining COMMAND_COOLDOWN_MS_def)
qed

lemma sample_run_tail:
  "store_run fs [Removed 2, CarEvent 1 (EmergencyEv 5000)] (mark_back_to_track_applied 1 1000 store_new) sample_run"
  unfolding sample_run_def by (intro store_run_intros)

theorem back_to_track_cools_down_witness:
  "1000 \<le> unat (back_to_track_cooldown_remaining_ms 1 30000 sample_run)"
  using back_to_track_cools_down [OF sample_run_tail, of 30000]
  by (simp add: COMMAND_COOLDOWN_MS_def sat_add_def)

text \<open>
  An emergency pit stop requested at \<open>now\<close> locks the car: until 30 seconds have passed its
  snapshot forces the car idle, and both the lock and the command's cooldown report at least
  the time that is left, whatever the store does with the car short of removing it.
\<close>

theorem emergency_pitstop_locks:
  assumes "store_run fs ls (mark_emergency_pitstop_requested c now_ms st) st'" "Removed c \<notin> set ls"
    "now_ms \<le> t" "t < sat_add now_ms EMERGENCY_PIT_LOCK_MS"
  shows "sn_force_idle (store_pit_state_snapshot c t st') \<and>
    unat (sat_add now_ms EMERGENCY_PIT_LOCK_MS) - unat t \<le>
      unat (sn_emergency_lock_remaining_ms (store_pit_state_snapshot c t st')) \<and>
    unat (sat_add now_ms COMMAND_COOLDOWN_MS) - unat t \<le>
      unat (emergency_pitstop_cooldown_remaining_ms c t st')"
proof -
  have t: "timers_from (emergency_pitstop_requested now_ms (pit_of c st)) (pit_of c st')"
    using store_run_timers [OF assms(1, 2)] by (simp add: op_states)
  have lock: "sat_add now_ms 30000 \<le> ps_emergency_lock_until_ms (pit_of c st')"
    and cool: "sat_add now_ms 30000 \<le> ps_emergency_pitstop_cooldown_until_ms (pit_of c st')"
    using t by (auto simp: timers_from_def emergency_pitstop_requested_def EMERGENCY_PIT_LOCK_MS_def
        COMMAND_COOLDOWN_MS_def intro: order_trans)
  have left: "unat (sat_add now_ms 30000) - unat t \<le>
      unat (remaining_u32 (ps_emergency_lock_until_ms (pit_of c st')) t)"
    using remaining_of_deadline [OF lock assms(3)] .
  moreover have "0 < unat (sat_add now_ms 30000) - unat t"
    using assms(4) by (simp add: word_less_nat_alt EMERGENCY_PIT_LOCK_MS_def)
  ultimately have "0 < remaining_u32 (ps_emergency_lock_until_ms (pit_of c st')) t"
    by (simp add: word_less_nat_alt)
  thus ?thesis using left remaining_of_deadline [OF cool assms(3)]
    by (simp add: store_snapshot snapshot_def Let_def emergency_remaining EMERGENCY_PIT_LOCK_MS_def
        COMMAND_COOLDOWN_MS_def)
qed

theorem emergency_pitstop_locks_witness:
  "sn_force_idle (store_pit_state_snapshot 7 20000 (mark_emergency_pitstop_requested 7 1000 store_new)) \<and>
   11000 \<le> unat (emergency_pitstop_cooldown_remaining_ms 7 20000 (mark_emergency_pitstop_requested 7 1000 store_new))"
  using emergency_pitstop_locks [OF run_Nil, of 7 1000 20000 store_new]
  by (simp add: COMMAND_COOLDOWN_MS_def EMERGENCY_PIT_LOCK_MS_def sat_add_def)

text \<open>
  C11. A tyre is applied once per choice. When the planned tyre of a stop has been applied, the
  plan asks for nothing more for as long as the stop lasts and no new tyre is chosen, and a
  tyre then chosen on the front end is planned next, unless the counter of choices is
  exhausted.
\<close>

theorem tire_applied_once:
  assumes "plan_pit_fix_tire_apply c current True st = (Some t, st1)"
    "store_run fs ls (mark_pit_fix_tire_applied c t st1) st2" "\<forall>l \<in> set ls. calm c l"
  shows "fst (plan_pit_fix_tire_apply c t True st2) = None \<and>
    (u \<noteq> TireUnspecified \<and> ps_next_pit_tire_revision (pit_of c st2) \<noteq> - 1 \<longrightarrow>
     fst (plan_pit_fix_tire_apply c current' True (set_next_tire_from_frontend c u st2)) = Some u)"
proof -
  have "desired_tire current (pit_of c st) = t" and st1: "pit_of c st1 = pit_of c st"
    using assms(1) plan_result [of c current st] op_states(4) [of c current True st]
    by (auto simp: Let_def split: if_splits)
  hence "tire_settled t (pit_of c (mark_pit_fix_tire_applied c t st1))"
    by (auto simp: op_states tire_settled_def desired_tire_def
        split: pit_tire_type.splits)
  hence settled: "tire_settled t (pit_of c st2)"
    using store_run_keeps [OF assms(2), of "tire_settled t"] assms(3) calm_settled by blast
  have "fst (plan_pit_fix_tire_apply c current' True (set_next_tire_from_frontend c u st2)) = Some u"
    if u: "u \<noteq> TireUnspecified" and r: "ps_next_pit_tire_revision (pit_of c st2) \<noteq> - 1"
    using u settled sat_add_gt [OF r, THEN less_imp_neq]
    by (cases u) (simp_all add: plan_result op_states
        next_tire_from_frontend_def desired_tire_def tire_settled_def Let_def)
  thus ?thesis using settled by (simp add: plan_result tire_settled_def Let_def)
qed

definition sample_wet :: runtime_store where
  "sample_wet = set_next_tire_from_frontend 1 TireWet store_new"

definition sample_planned :: runtime_store where
  "sample_planned = snd (plan_pit_fix_tire_apply 1 TireSoft True sample_wet)"

lemma sample_wet_state: "pit_of 1 sample_wet =
    pit_state_default\<lparr>ps_next_tire_mode := ManualMode, ps_active_next_tire_type := TireWet, ps_next_pit_tire_revision := 1\<rparr>"
  by (simp add: sample_wet_def op_states next_tire_from_frontend_def
      pit_state_default_def sat_add_def)

lemma sample_plan: "plan_pit_fix_tire_apply 1 TireSoft True sample_wet = (Some TireWet, sample_planned)"
  by (rule prod_eqI) (simp_all add: plan_result sample_wet_state desired_tire_def sample_planned_def
      pit_state_default_def Let_def)

theorem tire_applied_once_witness:
  "fst (plan_pit_fix_tire_apply 1 TireWet True (mark_pit_fix_tire_applied 1 TireWet sample_planned)) = None"
  using tire_applied_once [OF sample_plan run_Nil] by simp

text \<open>
  C10. In the official build the history a car's snapshot shows is the list of its visits to
  the fix zone, newest first and at most 32 of them: one entry per maximal stay, with the
  time, the lap, the tyres, their wear and temperature and the bot slot of the frame that
  entered the zone, and the tyres, temperature and slot of the first frame after it, however
  the frames interleave with other operations and other cars.
\<close>

theorem official_history_lists_visits:
  assumes "official fs" "store_run fs ls store_new st" "Removed c \<notin> set ls"
  shows "list_all2 records_visit (sn_history (store_pit_state_snapshot c t st))
    (take PIT_HISTORY_MAX_ENTRIES (rev (pit_visits (frames_of (events_of c ls)))))"
proof -
  have "stay_of pit_state_default None" "list_all2 records_visit (ps_history pit_state_default) (take PIT_HISTORY_MAX_ENTRIES [])"
    by (simp_all add: stay_of_def pit_state_default_def)
  thus ?thesis using history_of_visits [OF assms(1), of pit_state_default None "[]"]
    by (simp add: store_run_events [OF assms(2, 3)] visit_scan_visits)
qed

definition sample_state :: "u32 \<Rightarrow> fp \<Rightarrow> tyre_type \<Rightarrow> vehicle_state" where
  "sample_state zones speed tyre =
     \<lparr>vs_vehicle_id = 1, chassis_position = \<lparr>vec_x = Fin 0, vec_y = Fin 0, vec_z = Fin 0\<rparr>,
      vehicle_orientation = quaternion_identity, vs_speed = speed, engine_rpm = Fin 900, vs_gear = Neutral,
      throttle_applied = Fin 0, brake_applied = Fin 0, wheel_position = [], wheel_speeds = [],
      front_wheel_orientation_rad = [], tyre_health = [Fin 1], tyre_temperature_celsius = [Fin 80],
      tyre_slip = [], vs_tyre_type = tyre, are_all_wheels_on_ground = True,
      ghost_mode_runtime = \<lparr>can_collide_now = True, ghost_phase = GhostInactive, blockers_mask = 0,
        enter_delay_remaining_ms = 0, exit_delay_remaining_ms = 0\<rparr>,
      vs_pitstop_state = \<lparr>zone_mask = zones, wheels_in_pitstop = 4\<rparr>\<rparr>"

definition sample_in_fix :: vehicle_state where "sample_in_fix = sample_state 2 (Fin 0) Soft"
definition sample_back_out :: vehicle_state where "sample_back_out = sample_state 0 (Fin 20) Wet"

definition sample_visit :: "features \<Rightarrow> runtime_store" where
  "sample_visit fs = snd (update_pit_state_from_runtime fs 1 sample_back_out None 200
     (snd (update_pit_state_from_runtime fs 1 sample_in_fix None 100 store_new)))"

definition sample_visit_labels :: "store_label list" where
  "sample_visit_labels = [CarEvent 1 (FrameEv sample_in_fix None 100 1), CarEvent 1 (FrameEv sample_back_out None 200 1)]"

lemma slot_1: "st_car_identity st = [] \<Longrightarrow> bot_slot_for_history 1 st = 1"
  by (simp add: bot_slot_for_history_def active_bot_slot_def)

lemma sample_visit_run: "store_run fs sample_visit_labels store_new (sample_visit fs)"
proof -
  have new: "st_car_identity store_new = []" by (simp add: store_new_def)
  let ?st = "snd (update_pit_state_from_runtime fs 1 sample_in_fix None 100 store_new)"
  have "bot_slot_for_history 1 ?st = 1" using frame_op.other_maps(1) new by (intro slot_1) simp
  thus ?thesis unfolding sample_visit_labels_def sample_visit_def
    using store_step.frame [of fs 1 sample_in_fix None 100 store_new] slot_1 [OF new]
      store_step.frame [of fs 1 sample_back_out None 200 ?st] by (auto intro: run_Cons run_Nil)
qed

lemma sample_frames: "frames_of (events_of 1 sample_visit_labels) = [(sample_in_fix, None, 100, 1), (sample_back_out, None, 200, 1)]"
  by (simp add: sample_visit_labels_def)

lemma sample_zones: "has_zone (vs_pitstop_state sample_in_fix) ZoneFix" "\<not> has_zone (vs_pitstop_state sample_back_out) ZoneFix"
  "completed_pit sample_in_fix" "\<not> completed_pit sample_back_out"
  by (simp_all add: completed_pit_def sample_in_fix_def sample_back_out_def sample_state_def has_zone_def fp_eq_def)

theorem official_history_lists_visits_witness:
  "list_all2 records_visit (sn_history (store_pit_state_snapshot 1 300 (sample_visit sample_fs)))
     [((sample_in_fix, None, 100, 1), (sample_back_out, None, 200, 1))]"
proof -
  have v: "pit_visits [(sample_in_fix, None, 100, 1), (sample_back_out, None, 200, 1)] =
      [((sample_in_fix, None, 100, 1), (sample_back_out, None, 200, 1))]"
    by (simp add: visit_scan_visits [symmetric] in_fix_def sample_zones)
  have "official sample_fs" "Removed 1 \<notin> set sample_visit_labels"
    by (simp_all add: sample_fs_def sample_visit_labels_def)
  from official_history_lists_visits [OF this(1) sample_visit_run this(2), of 300] show ?thesis
    unfolding sample_frames v by (simp add: PIT_HISTORY_MAX_ENTRIES_def)
qed

text \<open>
  In the other builds the history is the list of completed stops, newest first and at most
  32 of them: one entry for every frame in which the car comes to rest with all four wheels
  in the fix zone, with the time, lap, tyres, wear and temperature of that frame. A car that
  stays at rest is not counted again.
\<close>

theorem local_history_lists_stops:
  assumes "\<not> official fs" "store_run fs ls store_new st" "Removed c \<notin> set ls"
  shows "list_all2 records_stop (sn_history (store_pit_state_snapshot c t st))
    (take PIT_HISTORY_MAX_ENTRIES (rev (pit_stops (frames_of (events_of c ls)))))"
  using history_of_stops [OF assms(1)] by (simp add: store_run_events [OF assms(2, 3)])

theorem local_history_lists_stops_witness:
  "list_all2 records_stop (sn_history (store_pit_state_snapshot 1 300
     (sample_visit (sample_fs\<lparr>official := False, local_mode := True\<rparr>)))) [(sample_in_fix, None, 100, 1)]"
proof -
  have v: "pit_stops [(sample_in_fix, None, 100, 1), (sample_back_out, None, 200, 1)] = [(sample_in_fix, None, 100, 1)]"
    using pit_stops_snoc [of "[]"] pit_stops_snoc [of "[x]" for x] by (simp add: stopped_def sample_zones)
  have "\<not> official (sample_fs\<lparr>official := False, local_mode := True\<rparr>)" "Removed 1 \<notin> set sample_visit_labels"
    by (simp_all add: sample_visit_labels_def)
  from local_history_lists_stops [OF this(1) sample_visit_run this(2), of 300] show ?thesis
    unfolding sample_frames v by (simp add: PIT_HISTORY_MAX_ENTRIES_def)
qed

text \<open>
  The bots of a user in a sandbox are numbered 1, 2, 3 and so on in the order in which they
  come, whatever other users and sandboxes do in between; the numbers stop growing at the
  largest 32-bit integer.
\<close>

theorem bot_indices_count_per_user:
  assumes "i < length ks"
  shows "unat (fst (allocate_bot_indices ks store_new) ! i) = min (count_list (take (Suc i) ks) (ks ! i)) (2 ^ 32 - 1)"
proof -
  have "next_bot_index k store_new = 1" for k by (simp add: next_bot_index_def store_new_def)
  thus ?thesis using bot_indices_from [OF assms, of store_new] assms
    by (simp add: take_Suc_conv_app_nth)
qed

theorem bot_indices_count_per_user_witness:
  "unat (fst (allocate_bot_indices [(''s'', ''u''), (''s'', ''v''), (''s'', ''u'')] store_new) ! 2) = 2"
  using bot_indices_count_per_user [of 2 "[(''s'', ''u''), (''s'', ''v''), (''s'', ''u'')]"] by simp

end
