(* ===== verification/Frame_Hub_Contract.thy ===== *)
theory Frame_Hub_Contract
  imports Frame_Hub Runtime_Store_Contract
begin

text \<open>
  What a frame of the hub promises. The hub gives up control at every await, so the statements
  are about a hub among other tasks. The locale \<open>hub_rely\<close> says what the other tasks do: to
  the runtime store only operations of the store, with labels of a given set.
\<close>

section \<open>Calls of the worker\<close>

lemma hub_store_client_call [simp]: "hub_store (snd (client_call env cmd get sys)) = hub_store sys"
  by (simp add: client_call_def case_prod_beta Let_def)

lemma hub_store_clients [simp]:
  "hub_store (snd (client_runtime_state env sys)) = hub_store sys"
  "hub_store (snd (client_race_duration_in env target sys)) = hub_store sys"
  "hub_store (snd (client_track_data_in env target sys)) = hub_store sys"
  "hub_store (snd (client_read_car_state_in env target e sys)) = hub_store sys"
  "hub_store (snd (client_read_car_race_metrics_in env target e sys)) = hub_store sys"
  "hub_store (snd (client_set_car_tyre_type_in env target e tt sys)) = hub_store sys"
  "hub_store (snd (client_set_controls_in env target e ctl sys)) = hub_store sys"
  by (simp_all add: client_defs)

lemma hub_call_frame [simp]:
  "col_frame (snd (hub_call other a f c)) = col_frame c"
  "col_cache (snd (hub_call other a f c)) = col_cache c"
  by (simp_all add: hub_call_def case_prod_beta Let_def)

lemma col_store_call:
  "col_store (snd (hub_call other a f c)) =
     hub_store (other a True (snd (f (other a False (col_sys c)))))"
  by (simp add: col_store_def hub_call_def case_prod_beta Let_def)

lemma put_store_simps [simp]:
  "col_store (put_store st c) = st"
  "col_frame (put_store st c) = col_frame c"
  "col_cache (put_store st c) = col_cache c"
  by (simp_all add: put_store_def col_store_def)

lemma col_store_update [simp]:
  "col_store (c\<lparr>col_frame := f\<rparr>) = col_store c"
  "col_store (c\<lparr>col_cache := k\<rparr>) = col_store c"
  by (simp_all add: col_store_def)

lemma reap_simps [simp]:
  "col_store (reap fs car c) = remove_car car (col_store c)"
  "col_frame (reap fs car c) = col_frame c"
  "col_cache (reap fs car c) = invalidate_best_lap_cache fs car (col_cache c)"
  by (simp_all add: reap_def col_store_def put_store_def)

section \<open>Runs of the store with given labels\<close>

definition store_goes ::
  "features \<Rightarrow> store_label set \<Rightarrow> runtime_store \<Rightarrow> runtime_store \<Rightarrow> bool" where
  "store_goes fs A st st' \<longleftrightarrow>
     (\<exists>ls. store_run fs ls st st' \<and> set ls \<subseteq> A) \<and>
     (hm_wf (st_known_cars st) \<longrightarrow> hm_wf (st_known_cars st'))"

lemma store_run_append: "store_run fs ls st st' \<Longrightarrow> store_run fs ls' st' st'' \<Longrightarrow> store_run fs (ls @ ls') st st''"
  by (induction rule: store_run.induct) (auto intro: store_run.intros)

lemma store_goes_refl [simp]: "store_goes fs A st st"
  by (auto simp: store_goes_def intro: run_Nil exI [where x = "[]"])

lemma store_goes_trans:
  "store_goes fs A st st' \<Longrightarrow> store_goes fs A st' st'' \<Longrightarrow> store_goes fs A st st''"
  unfolding store_goes_def by (metis store_run_append set_append Un_least)

lemma store_goes_mono: "store_goes fs A st st' \<Longrightarrow> A \<subseteq> B \<Longrightarrow> store_goes fs B st st'"
  unfolding store_goes_def by blast

lemma store_goes_step:
  "store_step fs l st st' \<Longrightarrow> l \<in> A \<Longrightarrow> (hm_wf (st_known_cars st) \<Longrightarrow> hm_wf (st_known_cars st')) \<Longrightarrow>
     store_goes fs A st st'"
  by (auto simp: store_goes_def intro!: exI [where x = "[l]"] intro: store_run.intros)

lemma known_cars_of_ops [simp]:
  "st_known_cars (remove_car car st) = hm_remove car (st_known_cars st)"
  "st_known_cars (snd (plan_pit_fix_tire_apply car t b st)) = st_known_cars st"
  "st_known_cars (mark_pit_fix_tire_applied car t st) = st_known_cars st"
  "st_known_cars (snd (update_pit_state_from_runtime fs car v m now_ms st)) = st_known_cars st"
  by (simp_all add: remove_car_def plan_pit_fix_tire_apply_def mark_pit_fix_tire_applied_def
      update_pit_state_from_runtime_def Let_def split: option.split)

lemma store_goes_timers:
  "store_goes fs A st st' \<Longrightarrow> Removed car_id \<notin> A \<Longrightarrow> timers_from (pit_of car_id st) (pit_of car_id st')"
  unfolding store_goes_def using store_run_timers by blast

text \<open>
  Collecting one car, as far as the other cars and the frame are concerned: the store runs with
  events of the car or of the other tasks; a car that is given up (\<open>ok\<close> is false) is also
  removed, from the store and from the cached best laps.
\<close>

definition car_events :: "u64 \<Rightarrow> store_label set" where
  "car_events car = range (CarEvent car)"

definition car_goes ::
  "features \<Rightarrow> store_label set \<Rightarrow> u64 \<Rightarrow> bool \<Rightarrow> 'n collecting \<Rightarrow> 'n collecting \<Rightarrow> bool" where
  "car_goes fs allowed car ok c c' \<longleftrightarrow>
     col_frame c' = col_frame c \<and>
     store_goes fs ((if ok then {} else {Removed car}) \<union> car_events car \<union> allowed) (col_store c) (col_store c') \<and>
     col_cache c' = (if ok then col_cache c else invalidate_best_lap_cache fs car (col_cache c))"

lemma goes_refl [simp]: "car_goes fs allowed car True c c"
  by (simp add: car_goes_def)

lemma goes_reap [intro, simp]: "car_goes fs allowed car False c (reap fs car c)"
  by (auto simp: car_goes_def intro: store_goes_step store_step.removed)

lemma goes_trans:
  assumes "car_goes fs allowed car True c c'" "car_goes fs allowed car ok c' c''"
  shows "car_goes fs allowed car ok c c''"
proof -
  let ?B = "(if ok then {} else {Removed car}) \<union> car_events car \<union> allowed"
  have "store_goes fs ?B (col_store c) (col_store c')" "store_goes fs ?B (col_store c') (col_store c'')"
    using assms by (auto simp: car_goes_def elim: store_goes_mono)
  hence "store_goes fs ?B (col_store c) (col_store c'')" by (rule store_goes_trans)
  thus ?thesis using assms by (simp add: car_goes_def)
qed

lemma goes_put:
  "store_step fs l (col_store c) st \<Longrightarrow> l \<in> car_events car \<Longrightarrow> st_known_cars st = st_known_cars (col_store c) \<Longrightarrow>
     car_goes fs allowed car True c (put_store st c)"
  by (auto simp: car_goes_def intro: store_goes_step)

lemma goes_put_plan:
  "plan_pit_fix_tire_apply car t b (col_store c) = (r, st) \<Longrightarrow> car_goes fs allowed car True c (put_store st c)"
  using goes_put [OF store_step.plan [of fs car b "col_store c" t], of car allowed]
    known_cars_of_ops(2) [of car t b "col_store c"] by (simp add: car_events_def)

lemma goes_put_applied: "car_goes fs allowed car True c (put_store (mark_pit_fix_tire_applied car t (col_store c)) c)"
  by (rule goes_put [OF store_step.applied]) (simp_all add: car_events_def)

lemma goes_put_frame:
  "update_pit_state_from_runtime fs car v m t (col_store c) = (pit, st) \<Longrightarrow>
     car_goes fs allowed car True c (put_store st c)"
  using goes_put [OF store_step.frame [of fs car v m t "col_store c"], of car allowed]
    known_cars_of_ops(4) [of fs car v m t "col_store c"] by (simp add: car_events_def)

text \<open>
  The two outcomes of collecting a car. A reported car has the pit state of a store that was
  reached without removing it, its vehicle state is idle when the pit state says so, and its
  best lap comes from the cache, which is updated. A car that is skipped leaves the frame and
  the best laps of the other cars alone.
\<close>

definition pit_report :: "features \<Rightarrow> u64 \<Rightarrow> u64 \<Rightarrow> runtime_store \<Rightarrow> car_frame \<Rightarrow> bool" where
  "pit_report fs car now_ms st cf \<longleftrightarrow>
     cf_public_car_id cf = car \<and>
     (\<exists>v. cf_pit_state cf = fst (update_pit_state_from_runtime fs car v (cf_race_metrics cf) now_ms st) \<and>
          cf_state cf = (if sn_force_idle (cf_pit_state cf)
                         then idle_state (sn_emergency_lock_remaining_ms (cf_pit_state cf) > 0) v else v))"

definition car_reported ::
  "features \<Rightarrow> store_label set \<Rightarrow> u64 \<Rightarrow> 'n collecting \<Rightarrow> 'n collecting \<Rightarrow> car_frame \<Rightarrow> bool" where
  "car_reported fs allowed car c c' cf \<longleftrightarrow>
     col_frame c' = (col_frame c)\<lparr>fr_cars := hm_insert car cf (fr_cars (col_frame c))\<rparr> \<and>
     (cf_best_lap_time_ms cf, col_cache c') = best_lap fs car (cf_race_metrics cf) (col_cache c) \<and>
     store_goes fs (car_events car \<union> allowed) (col_store c) (col_store c') \<and>
     (\<exists>st. store_goes fs (car_events car \<union> allowed) (col_store c) st \<and>
           pit_report fs car (fr_server_time_ms (col_frame c)) st cf)"

definition car_skipped ::
  "features \<Rightarrow> store_label set \<Rightarrow> u64 \<Rightarrow> 'n collecting \<Rightarrow> 'n collecting \<Rightarrow> bool" where
  "car_skipped fs allowed car c c' \<longleftrightarrow>
     col_frame c' = col_frame c \<and>
     store_goes fs (insert (Removed car) (car_events car \<union> allowed)) (col_store c) (col_store c') \<and>
     (\<exists>best. col_cache c' = (col_cache c)\<lparr>ca_best_lap_time_ms := best\<rparr> \<and>
        (\<forall>k. k \<noteq> car \<longrightarrow> hm_get best k = hm_get (ca_best_lap_time_ms (col_cache c)) k))"

lemma best_lap_cache: "\<exists>best. snd (best_lap fs car m cache) = cache\<lparr>ca_best_lap_time_ms := best\<rparr> \<and>
    (\<forall>k. k \<noteq> car \<longrightarrow> hm_get best k = hm_get (ca_best_lap_time_ms cache) k)"
  by (auto simp: best_lap_def Let_def split: option.split intro: exI [where x = "ca_best_lap_time_ms cache"])

lemma best_lap_cong:
  assumes "hm_get (ca_best_lap_time_ms k) car = hm_get (ca_best_lap_time_ms k') car"
  shows "fst (best_lap fs car m k) = fst (best_lap fs car m k')"
    and "hm_get (ca_best_lap_time_ms (snd (best_lap fs car m k))) car =
         hm_get (ca_best_lap_time_ms (snd (best_lap fs car m k'))) car"
  using assms by (auto simp: best_lap_def Let_def split: option.split)

lemma invalidate_cache: "\<exists>best. invalidate_best_lap_cache fs car cache = cache\<lparr>ca_best_lap_time_ms := best\<rparr> \<and>
    (\<forall>k. k \<noteq> car \<longrightarrow> hm_get best k = hm_get (ca_best_lap_time_ms cache) k)"
  by (auto simp: invalidate_best_lap_cache_def intro: exI [where x = "ca_best_lap_time_ms cache"])

lemma goes_skipped: "car_goes fs allowed car ok c c' \<Longrightarrow> car_skipped fs allowed car c c'"
  using invalidate_cache [of fs car "col_cache c"]
  by (auto simp: car_goes_def car_skipped_def elim: store_goes_mono
      intro: exI [where x = "ca_best_lap_time_ms (col_cache c)"] split: if_splits)

lemma skipped_after_best:
  assumes "car_goes fs allowed car True c c2" "best_lap fs car m (col_cache c2) = (best, cache)"
    and "car_goes fs allowed car ok (c2\<lparr>col_cache := cache\<rparr>) c3"
  shows "car_skipped fs allowed car c c3"
proof -
  obtain b1 where b1: "cache = (col_cache c)\<lparr>ca_best_lap_time_ms := b1\<rparr>"
    "\<forall>k. k \<noteq> car \<longrightarrow> hm_get b1 k = hm_get (ca_best_lap_time_ms (col_cache c)) k"
    using best_lap_cache [of fs car m "col_cache c2"] assms(1, 2) by (auto simp: car_goes_def)
  have s: "car_skipped fs allowed car (c2\<lparr>col_cache := cache\<rparr>) c3" by (rule goes_skipped [OF assms(3)])
  then obtain b2 where "col_cache c3 = cache\<lparr>ca_best_lap_time_ms := b2\<rparr>"
    "\<forall>k. k \<noteq> car \<longrightarrow> hm_get b2 k = hm_get (ca_best_lap_time_ms cache) k"
    by (auto simp: car_skipped_def)
  hence "\<exists>b. col_cache c3 = (col_cache c)\<lparr>ca_best_lap_time_ms := b\<rparr> \<and>
      (\<forall>k. k \<noteq> car \<longrightarrow> hm_get b k = hm_get (ca_best_lap_time_ms (col_cache c)) k)"
    using b1 by auto
  moreover have "store_goes fs (insert (Removed car) (car_events car \<union> allowed)) (col_store c) (col_store c3)"
    using goes_skipped [OF assms(1)] s by (auto simp: car_skipped_def intro: store_goes_trans)
  ultimately show ?thesis using assms(1) s by (simp add: car_skipped_def car_goes_def)
qed

text \<open>
  What the rest of the frame does as far as one car is concerned: its entry in the frame, its
  cached best lap and its pit state are left to the others.
\<close>

definition others_go ::
  "features \<Rightarrow> store_label set \<Rightarrow> u64 \<Rightarrow> 'n collecting \<Rightarrow> 'n collecting \<Rightarrow> bool" where
  "others_go fs allowed car c c' \<longleftrightarrow>
     hm_get (fr_cars (col_frame c')) car = hm_get (fr_cars (col_frame c)) car \<and>
     fr_server_time_ms (col_frame c') = fr_server_time_ms (col_frame c) \<and>
     hm_get (ca_best_lap_time_ms (col_cache c')) car = hm_get (ca_best_lap_time_ms (col_cache c)) car \<and>
     store_goes fs (allowed \<union> - insert (Removed car) (car_events car)) (col_store c) (col_store c')"

lemma others_refl [simp]: "others_go fs allowed car c c"
  by (simp add: others_go_def)

lemma others_trans: "others_go fs allowed car c c' \<Longrightarrow> others_go fs allowed car c' c'' \<Longrightarrow> others_go fs allowed car c c''"
  unfolding others_go_def using store_goes_trans by (metis (no_types, lifting))

lemma others_skipped: "car_skipped fs allowed k c c' \<Longrightarrow> k \<noteq> car \<Longrightarrow> others_go fs allowed car c c'"
  by (auto simp: car_skipped_def others_go_def car_events_def elim!: store_goes_mono)

lemma others_reported:
  assumes "car_reported fs allowed k c c' cf" "k \<noteq> car" shows "others_go fs allowed car c c'"
  using assms best_lap_cache [of fs k "cf_race_metrics cf" "col_cache c"]
  by (auto simp: car_reported_def others_go_def car_events_def elim!: store_goes_mono dest!: arg_cong [where f = snd])

text \<open>Collecting the worlds changes no car.\<close>

definition worlds_go ::
  "features \<Rightarrow> store_label set \<Rightarrow> 'n collecting \<Rightarrow> 'n collecting \<Rightarrow> bool" where
  "worlds_go fs allowed c c' \<longleftrightarrow>
     fr_cars (col_frame c') = fr_cars (col_frame c) \<and>
     fr_server_time_ms (col_frame c') = fr_server_time_ms (col_frame c) \<and>
     ca_best_lap_time_ms (col_cache c') = ca_best_lap_time_ms (col_cache c) \<and>
     store_goes fs allowed (col_store c) (col_store c')"

lemma worlds_refl [simp]: "worlds_go fs allowed c c"
  by (simp add: worlds_go_def)

lemma worlds_frame [simp]:
  "fr_cars f = fr_cars (col_frame c) \<Longrightarrow> fr_server_time_ms f = fr_server_time_ms (col_frame c) \<Longrightarrow>
     worlds_go fs allowed c0 (c\<lparr>col_frame := f\<rparr>) = worlds_go fs allowed c0 c"
  "ca_best_lap_time_ms k = ca_best_lap_time_ms (col_cache c) \<Longrightarrow>
     worlds_go fs allowed c0 (c\<lparr>col_cache := k\<rparr>) = worlds_go fs allowed c0 c"
  by (simp_all add: worlds_go_def)

section \<open>The hub among other tasks\<close>

text \<open>
  Around an await, the other tasks run the store with labels of \<open>allowed\<close>.
\<close>

locale hub_rely =
  fixes env :: "'n worker_env" and other :: "'n hub_others" and allowed :: "store_label set"
  assumes rely: "store_goes (env_features env) allowed (hub_store sys) (hub_store (other a after sys))"
begin

lemma call_goes:
  assumes "\<And>sys. hub_store (snd (f sys)) = hub_store sys"
  shows "store_goes (env_features env) allowed (col_store c) (col_store (snd (hub_call other a f c)))"
proof -
  let ?sys = "other a False (col_sys c)"
  have "store_goes (env_features env) allowed (hub_store (snd (f ?sys))) (hub_store (other a True (snd (f ?sys))))" by (rule rely)
  thus ?thesis using store_goes_trans [OF rely] by (simp add: col_store_call assms) (simp add: col_store_def)
qed

lemma goes_call:
  assumes "hub_call other a f c = (r, c')" "\<And>sys. hub_store (snd (f sys)) = hub_store sys"
  shows "car_goes (env_features env) allowed car True c c'"
  using call_goes [OF assms(2), of c a] hub_call_frame [of other a f c] unfolding assms(1) car_goes_def
  by (auto intro: store_goes_mono)

lemma goes_metrics:
  assumes "read_metrics env other car target e c = (m, c')"
  shows "car_goes (env_features env) allowed car (m \<noteq> None) c c'"
  using assms
  by (auto simp: read_metrics_def split: if_splits prod.splits sum.splits
      dest!: goes_call [where car = car] intro: goes_trans)

lemma goes_tyre:
  assumes "apply_tyre env other car target e v c = (there, c')"
  shows "car_goes (env_features env) allowed car there c c'"
  using assms
  by (auto simp: apply_tyre_def Let_def split: if_splits prod.splits sum.splits option.splits
      dest!: goes_call [where car = car] goes_put_plan intro: goes_trans goes_trans [OF goes_trans goes_put_applied])

lemma goes_tyres:
  assumes "apply_tyres env other car target e v c = (there, c')"
  shows "car_goes (env_features env) allowed car there c c'"
  using assms
  by (auto simp: apply_tyres_def Let_def split: if_splits prod.splits intro: goes_trans goes_tyre)

lemma finish_reported:
  assumes "car_goes (env_features env) allowed car True c0 c"
  shows "\<exists>cf. cf_race_metrics cf = metrics \<and> cf_best_lap_time_ms cf = best \<and>
      col_frame (finish_car env other car target e v metrics best c) =
        (col_frame c0)\<lparr>fr_cars := hm_insert car cf (fr_cars (col_frame c0))\<rparr> \<and>
      col_cache (finish_car env other car target e v metrics best c) = col_cache c0 \<and>
      store_goes (env_features env) (car_events car \<union> allowed) (col_store c0)
        (col_store (finish_car env other car target e v metrics best c)) \<and>
      pit_report (env_features env) car (fr_server_time_ms (col_frame c0)) (col_store c) cf"
proof -
  obtain pit st where u: "update_pit_state_from_runtime (env_features env) car v metrics
      (fr_server_time_ms (col_frame c)) (col_store c) = (pit, st)" by fastforce
  define hold where "hold = (sn_emergency_lock_remaining_ms pit > 0)"
  define c2 where "c2 = (if sn_force_idle pit
    then snd (hub_call other (AwaitControls car) (client_set_controls_in env target e (idle_controls hold)) (put_store st c))
    else put_store st c)"
  define cf where "cf = \<lparr>cf_public_car_id = car, cf_engine_car_id = e, cf_target = target,
    cf_state = (if sn_force_idle pit then idle_state hold v else v), cf_race_metrics = metrics,
    cf_best_lap_time_ms = best, cf_last_client_seq = car_last_client_seq car (col_store c2),
    cf_identity = car_identity car (col_store c2), cf_pit_state = pit,
    cf_controls_input = controls_input_snapshot car (col_store c2)\<rparr>"
  have "car_goes (env_features env) allowed car True c (put_store st c)"
    using u by (rule goes_put_frame)
  moreover have "car_goes (env_features env) allowed car True (put_store st c) c2"
    by (auto simp: c2_def intro: goes_call [OF prod.collapse [symmetric]])
  ultimately have g: "car_goes (env_features env) allowed car True c0 c2" using assms goes_trans by blast
  have "finish_car env other car target e v metrics best c =
      c2\<lparr>col_frame := (col_frame c2)\<lparr>fr_cars := hm_insert car cf (fr_cars (col_frame c2))\<rparr>\<rparr>"
    by (simp add: finish_car_def u Let_def c2_def cf_def hold_def)
  thus ?thesis using g assms u
    by (intro exI [where x = cf]) (auto simp: car_goes_def pit_report_def cf_def hold_def intro: exI [where x = v])
qed

lemma collect_car_course:
  obtains (up) ok where "car_goes (env_features env) allowed car ok c (collect_car env other car c)"
    | (read) target e v metrics c2 best cache there c3 where
        "car_goes (env_features env) allowed car True c c2"
        "best_lap (env_features env) car metrics (col_cache c2) = (best, cache)"
        "car_goes (env_features env) allowed car there (c2\<lparr>col_cache := cache\<rparr>) c3"
        "collect_car env other car c = (if there then finish_car env other car target e v metrics best c3 else c3)"
proof (cases "car_target car (col_store c) = None \<or> car_engine_id car (col_store c) = None")
  case True thus thesis using up [of False] by (auto simp: collect_car_def split: option.split)
next
  case False
  then obtain target e where known: "car_target car (col_store c) = Some target" "car_engine_id car (col_store c) = Some e"
    by auto
  obtain r c1 where h: "hub_call other (AwaitState car) (client_read_car_state_in env target e) c = (r, c1)"
    by fastforce
  have g1: "car_goes (env_features env) allowed car True c c1" by (rule goes_call [OF h]) simp
  show thesis
  proof (cases r)
    case (Inl err) thus thesis
      using up [of "\<not> (err = EngineError NotFound \<or> is_sandbox_runtime_not_active_invalid_argument err)"] known h g1
        goes_trans [OF g1 goes_reap] by (simp add: collect_car_def split: if_splits)
  next
    case (Inr v)
    obtain m c2 where m: "read_metrics env other car target e c1 = (m, c2)" by fastforce
    have g2: "car_goes (env_features env) allowed car (m \<noteq> None) c c2"
      using goes_trans [OF g1 goes_metrics [OF m]] .
    show thesis
    proof (cases m)
      case None thus thesis using up g2 known h Inr m by (simp add: collect_car_def)
    next
      case (Some metrics)
      obtain best cache where b: "best_lap (env_features env) car metrics (col_cache c2) = (best, cache)" by fastforce
      obtain there c3 where t: "apply_tyres env other car target e v (c2\<lparr>col_cache := cache\<rparr>) = (there, c3)" by fastforce
      show thesis
        by (rule read [OF _ b goes_tyres [OF t], of target e v])
           (use g2 Some known h Inr m b t in \<open>simp_all add: collect_car_def\<close>)
    qed
  qed
qed

lemma collect_car_outcome:
  "(\<exists>cf. car_reported (env_features env) allowed car c (collect_car env other car c) cf) \<or>
   car_skipped (env_features env) allowed car c (collect_car env other car c)"
proof (cases rule: collect_car_course [of car c])
  case up thus ?thesis using goes_skipped by blast
next
  case (read target e v metrics c2 best cache there c3)
  let ?c' = "collect_car env other car c" and ?fs = "env_features env"
  show ?thesis
  proof (cases there)
    case True
    hence r3: "car_goes ?fs allowed car True (c2\<lparr>col_cache := cache\<rparr>) c3" using read(3) by simp
    obtain cf where "cf_race_metrics cf = metrics" "cf_best_lap_time_ms cf = best"
      "col_frame ?c' = (col_frame c2)\<lparr>fr_cars := hm_insert car cf (fr_cars (col_frame c2))\<rparr>"
      "col_cache ?c' = cache"
      "store_goes ?fs (car_events car \<union> allowed) (col_store c2) (col_store ?c')"
      "pit_report ?fs car (fr_server_time_ms (col_frame c2)) (col_store c3) cf"
      using finish_reported [OF r3, of metrics best target e v] read(4) True by auto
    moreover have "store_goes ?fs (car_events car \<union> allowed) (col_store c) (col_store c2)" "col_frame c2 = col_frame c"
      "col_cache c2 = col_cache c"
      "store_goes ?fs (car_events car \<union> allowed) (col_store c2) (col_store c3)"
      using read(1, 3) True by (simp_all add: car_goes_def)
    ultimately have "car_reported ?fs allowed car c ?c' cf"
      using read(2) unfolding car_reported_def by (auto intro: store_goes_trans)
    thus ?thesis by blast
  next
    case False
    thus ?thesis using skipped_after_best [OF read(1-3)] read(4) by simp
  qed
qed

lemma collect_other_car: "k \<noteq> car \<Longrightarrow> others_go (env_features env) allowed car c (collect_car env other k c)"
  using collect_car_outcome [of k c] others_skipped others_reported by blast

lemma collect_other_cars:
  "car \<notin> set ks \<Longrightarrow> others_go (env_features env) allowed car c (fold (collect_car env other) ks c)"
proof (induction ks arbitrary: c)
  case (Cons k ks)
  have "others_go (env_features env) allowed car c (collect_car env other k c)"
    using Cons.prems by (intro collect_other_car) auto
  thus ?case using Cons.IH [of "collect_car env other k c"] Cons.prems by (auto intro: others_trans)
qed simp

lemma collect_cars_of_car:
  assumes "hm_wf (st_known_cars (col_store c))"
  obtains (absent) "others_go (env_features env) allowed car c (collect_cars env other c)"
    | (present) c1 where "others_go (env_features env) allowed car c c1"
        "others_go (env_features env) allowed car (collect_car env other car c1) (collect_cars env other c)"
proof (cases "car \<in> set (known_car_ids (col_store c))")
  case True
  then obtain xs ys where split: "known_car_ids (col_store c) = xs @ car # ys" by (meson split_list)
  have "distinct (known_car_ids (col_store c))"
    using assms by (simp add: known_car_ids_def hm_wf_def hm_keys_def)
  hence "car \<notin> set xs" "car \<notin> set ys" using split by auto
  hence "others_go (env_features env) allowed car c (fold (collect_car env other) xs c)"
    "others_go (env_features env) allowed car (collect_car env other car (fold (collect_car env other) xs c))
      (collect_cars env other c)"
    using collect_other_cars by (simp_all add: collect_cars_def split)
  thus thesis by (rule present)
next
  case False thus thesis using absent collect_other_cars by (simp add: collect_cars_def)
qed

lemma worlds_call [simp]:
  assumes "worlds_go (env_features env) allowed c0 c" "\<And>sys. hub_store (snd (f sys)) = hub_store sys"
  shows "worlds_go (env_features env) allowed c0 (snd (hub_call other a f c))"
  using assms(1) call_goes [OF assms(2), of c a]
  by (auto simp: worlds_go_def intro: store_goes_trans)

lemmas world_splits = case_prod_beta Let_def

lemma collect_worlds_go: "worlds_go (env_features env) allowed c (collect_worlds env other c)"
proof -
  have official: "worlds_go (env_features env) allowed c0 (collect_official env other rt c)"
    if "worlds_go (env_features env) allowed c0 c" for c0 c rt
    using that by (simp add: collect_official_def world_splits)
  have race: "worlds_go (env_features env) allowed c0 (collect_local_race env other rt c)"
    if "worlds_go (env_features env) allowed c0 c" for c0 c rt
    using that by (simp add: collect_local_race_def world_splits split: option.split sum.split)
  have sandbox: "worlds_go (env_features env) allowed c0 (collect_sandbox env other sm c)"
    if "worlds_go (env_features env) allowed c0 c" for c0 c sm
    using that by (simp add: collect_sandbox_def world_splits split: option.split sum.split)
  have "worlds_go (env_features env) allowed c0 (fold (collect_sandbox env other) sms c)"
    if "worlds_go (env_features env) allowed c0 c" for c0 c sms
    using that by (induction sms arbitrary: c) (simp_all add: sandbox)
  hence "worlds_go (env_features env) allowed c0 (collect_sandboxes env other rt c)"
    if "worlds_go (env_features env) allowed c0 c" for c0 c rt
    using that by (simp add: collect_sandboxes_def Let_def)
  thus ?thesis by (simp add: collect_worlds_def case_prod_beta official race split: sum.split)
qed

lemma collect_cars_reported:
  assumes "hm_wf (st_known_cars (col_store w))" "hm_get (fr_cars (col_frame w)) car = None"
    and "hm_get (fr_cars (col_frame (collect_cars env other w))) car = Some cf"
  obtains c1 c2 where "others_go (env_features env) allowed car w c1"
    "car_reported (env_features env) allowed car c1 c2 cf"
    "others_go (env_features env) allowed car c2 (collect_cars env other w)"
  using assms(1)
proof (cases rule: collect_cars_of_car [of w car])
  case absent thus thesis using assms(2, 3) by (simp add: others_go_def)
next
  case (present c1)
  let ?c2 = "collect_car env other car c1"
  have "\<not> car_skipped (env_features env) allowed car c1 ?c2"
    using present assms(2, 3) by (auto simp: car_skipped_def others_go_def)
  then obtain cf' where r: "car_reported (env_features env) allowed car c1 ?c2 cf'"
    using collect_car_outcome by blast
  have "cf' = cf" using r present(2) assms(3) by (simp add: car_reported_def others_go_def)
  thus thesis using that present r by blast
qed

text \<open>The frame as one car sees it.\<close>

lemma collect_frame_of_car:
  assumes "hm_wf (st_known_cars (hub_store sys))"
    and "c = collect_frame env other tick now_ms sys cache"
    and "hm_get (fr_cars (col_frame c)) car = Some cf"
  obtains st where "store_goes (env_features env) (allowed \<union> - {Removed car}) (hub_store sys) st"
    "pit_report (env_features env) car now_ms st cf"
    "cf_best_lap_time_ms cf = fst (best_lap (env_features env) car (cf_race_metrics cf) cache)"
    "hm_get (ca_best_lap_time_ms (col_cache c)) car =
       hm_get (ca_best_lap_time_ms (snd (best_lap (env_features env) car (cf_race_metrics cf) cache))) car"
    "hm_wf (st_known_cars (col_store c))"
proof -
  let ?fs = "env_features env" and ?A = "allowed \<union> - {Removed car}"
  define c0 where "c0 = \<lparr>col_sys = sys, col_frame = empty_frame tick now_ms, col_cache = cache\<rparr>"
  define w where "w = collect_worlds env other c0"
  have c: "c = collect_cars env other w" by (simp add: assms(2) collect_frame_def w_def c0_def)
  have w: "fr_cars (col_frame w) = []" "fr_server_time_ms (col_frame w) = now_ms"
    "ca_best_lap_time_ms (col_cache w) = ca_best_lap_time_ms cache" "store_goes ?fs allowed (hub_store sys) (col_store w)"
    using collect_worlds_go [of c0] by (simp_all add: worlds_go_def w_def c0_def empty_frame_def col_store_def)
  have wf: "hm_wf (st_known_cars (col_store w))" using w(4) assms(1) by (simp add: store_goes_def)
  obtain c1 c2 where o: "others_go ?fs allowed car w c1" "car_reported ?fs allowed car c1 c2 cf"
    "others_go ?fs allowed car c2 c"
    by (rule collect_cars_reported [OF wf]) (use w(1) assms(3) in \<open>simp_all add: c\<close>)
  obtain st where st: "store_goes ?fs (car_events car \<union> allowed) (col_store c1) st"
    "pit_report ?fs car (fr_server_time_ms (col_frame c1)) st cf" using o(2) by (auto simp: car_reported_def)
  have "store_goes ?fs ?A (hub_store sys) (col_store w)" "store_goes ?fs ?A (col_store w) (col_store c1)"
    "store_goes ?fs ?A (col_store c1) st"
    using o(1) st(1) w(4) by (auto simp: others_go_def car_events_def elim!: store_goes_mono)
  hence goes: "store_goes ?fs ?A (hub_store sys) st" by (meson store_goes_trans)
  have best: "hm_get (ca_best_lap_time_ms (col_cache c1)) car = hm_get (ca_best_lap_time_ms cache) car"
    using o(1) w(3) by (simp add: others_go_def)
  have lap: "best_lap ?fs car (cf_race_metrics cf) (col_cache c1) = (cf_best_lap_time_ms cf, col_cache c2)"
    using o(2) by (simp add: car_reported_def)
  show thesis
    by (rule that [OF goes])
       (use st(2) o w wf lap best_lap_cong [OF best, of ?fs "cf_race_metrics cf"]
        in \<open>simp_all add: others_go_def car_reported_def store_goes_def\<close>)
qed

end

section \<open>Emergency stops\<close>

lemma emergency_lock_left:
  assumes "timers_from (emergency_pitstop_requested asked_ms s) s'"
    and "asked_ms \<le> now_ms" "now_ms < sat_add asked_ms EMERGENCY_PIT_LOCK_MS"
  shows "sn_force_idle (snapshot s' now_ms) \<and> 0 < sn_emergency_lock_remaining_ms (snapshot s' now_ms)"
proof -
  have "sat_add asked_ms 30000 \<le> ps_emergency_lock_until_ms s'"
    using assms(1) by (auto simp: timers_from_def emergency_pitstop_requested_def EMERGENCY_PIT_LOCK_MS_def
        intro: order_trans)
  hence "unat (sat_add asked_ms 30000) - unat now_ms \<le> unat (remaining_u32 (ps_emergency_lock_until_ms s') now_ms)"
    by (rule remaining_of_deadline [OF _ assms(2)])
  hence "0 < remaining_u32 (ps_emergency_lock_until_ms s') now_ms"
    using assms(3) by (simp add: word_less_nat_alt EMERGENCY_PIT_LOCK_MS_def)
  thus ?thesis by (simp add: snapshot_def Let_def)
qed

lemma update_pit_snapshot:
  "fst (update_pit_state_from_runtime fs car v m now_ms st) =
     snapshot (pit_step fs (FrameEv v m now_ms (bot_slot_for_history car st)) (pit_of car st)) now_ms"
  by (simp add: update_pit_state_from_runtime_def Let_def)

section \<open>Best laps\<close>

definition lap_of :: "car_frame \<Rightarrow> u32 option" where
  "lap_of cf = (case cf_race_metrics cf of None \<Rightarrow> None | Some m \<Rightarrow> last_lap_time_ms m)"

definition better_lap :: "u32 option \<Rightarrow> u32 option \<Rightarrow> u32 option" where
  "better_lap best lap = (case lap of None \<Rightarrow> best | Some l \<Rightarrow> Some (case best of None \<Rightarrow> l | Some b \<Rightarrow> min b l))"

lemma best_lap_better:
  assumes "has_best_laps fs"
  shows "fst (best_lap fs car (cf_race_metrics cf) cache) = better_lap (hm_get (ca_best_lap_time_ms cache) car) (lap_of cf)"
    and "hm_get (ca_best_lap_time_ms (snd (best_lap fs car (cf_race_metrics cf) cache))) car =
      better_lap (hm_get (ca_best_lap_time_ms cache) car) (lap_of cf)"
  using assms by (auto simp: best_lap_def better_lap_def lap_of_def Let_def split: option.split)

text \<open>The frames of a hub that is scheduled at the given times among the given other tasks.\<close>

fun hub_frames ::
  "'n worker_env \<Rightarrow> ('n hub_others \<times> u64) list \<Rightarrow> 'n frame_hub \<times> 'n hub_system \<Rightarrow> runtime_frame list" where
  "hub_frames env [] hs = []"
| "hub_frames env ((other, now_ms) # ts) hs =
     (let hs' = hub_tick env other now_ms hs in fh_latest (fst hs') # hub_frames env ts hs')"

definition reports_of :: "u64 \<Rightarrow> runtime_frame list \<Rightarrow> car_frame option list" where
  "reports_of car frames = map (\<lambda>f. hm_get (fr_cars f) car) frames"

lemma better_lap_simps [simp]:
  "better_lap b None = b" "better_lap None (Some l) = Some l" "better_lap (Some b') (Some l) = Some (min b' l)"
  by (simp_all add: better_lap_def)

lemma finite_these [simp]: "finite A \<Longrightarrow> finite (Option.these A)"
  by (simp add: Option.these_def)

lemma better_lap_Min:
  "fold (\<lambda>l b. better_lap b l) ls b =
     (let seen = Option.these (insert b (set ls)) in if seen = {} then None else Some (Min seen))"
proof (induction ls arbitrary: b)
  case Nil show ?case by (cases b) simp_all
next
  case (Cons l ls)
  show ?case
  proof (cases l)
    case None thus ?thesis by (simp add: Cons.IH insert_commute [of b])
  next
    case (Some y)
    show ?thesis
    proof (cases b)
      case None thus ?thesis by (simp add: Cons.IH Some)
    next
      case (Some z)
      have "Min (insert (min z y) (Option.these (set ls))) = Min (insert z (insert y (Option.these (set ls))))"
        by (cases "Option.these (set ls) = {}") (simp_all add: min.assoc)
      thus ?thesis using Some \<open>l = Some y\<close> by (simp add: Cons.IH insert_commute Let_def)
    qed
  qed
qed

lemma tick_of_car:
  assumes "hub_rely env other allowed" "has_best_laps (env_features env)" "hm_wf (st_known_cars (hub_store sys))"
    and "hub_tick env other now_ms (h, sys) = (h', sys')" "hm_get (fr_cars (fh_latest h')) car = Some cf"
  shows "cf_best_lap_time_ms cf = better_lap (hm_get (ca_best_lap_time_ms (fh_cache h)) car) (lap_of cf)"
    and "hm_get (ca_best_lap_time_ms (fh_cache h')) car = cf_best_lap_time_ms cf"
    and "hm_wf (st_known_cars (hub_store sys'))"
proof -
  define c where "c = collect_frame env other (fh_tick h + 1) now_ms sys (fh_cache h)"
  have t: "fh_latest h' = col_frame c" "fh_cache h' = col_cache c" "sys' = col_sys c"
    using assms(4) by (auto simp: hub_tick_def Let_def c_def)
  obtain st where "cf_best_lap_time_ms cf = fst (best_lap (env_features env) car (cf_race_metrics cf) (fh_cache h))"
    "hm_get (ca_best_lap_time_ms (col_cache c)) car =
       hm_get (ca_best_lap_time_ms (snd (best_lap (env_features env) car (cf_race_metrics cf) (fh_cache h)))) car"
    "hm_wf (st_known_cars (col_store c))"
    using hub_rely.collect_frame_of_car [OF assms(1, 3) c_def] assms(5) t(1) by metis
  thus "cf_best_lap_time_ms cf = better_lap (hm_get (ca_best_lap_time_ms (fh_cache h)) car) (lap_of cf)"
    "hm_get (ca_best_lap_time_ms (fh_cache h')) car = cf_best_lap_time_ms cf"
    "hm_wf (st_known_cars (hub_store sys'))"
    using assms(2) by (simp_all add: best_lap_better t col_store_def)
qed

lemma best_lap_folds:
  assumes "\<And>t. t \<in> set turns \<Longrightarrow> hub_rely env (fst t) UNIV" "has_best_laps (env_features env)"
    and "hm_wf (st_known_cars (hub_store sys))"
    and "reports_of car (hub_frames env turns (h, sys)) = map Some cfs" "cfs \<noteq> []"
  shows "cf_best_lap_time_ms (last cfs) =
    fold (\<lambda>l b. better_lap b l) (map lap_of cfs) (hm_get (ca_best_lap_time_ms (fh_cache h)) car)"
  using assms(1, 3-5)
proof (induction turns arbitrary: h sys cfs)
  case Nil thus ?case by (simp add: reports_of_def)
next
  case (Cons t turns)
  obtain other now_ms where t: "t = (other, now_ms)" by fastforce
  obtain h' sys' where tick: "hub_tick env other now_ms (h, sys) = (h', sys')" by fastforce
  obtain cf cfs' where cfs: "cfs = cf # cfs'" "hm_get (fr_cars (fh_latest h')) car = Some cf"
    "reports_of car (hub_frames env turns (h', sys')) = map Some cfs'"
    using Cons.prems(3, 4) tick by (cases cfs) (auto simp: t reports_of_def Let_def)
  have rely: "hub_rely env other UNIV" using Cons.prems(1) [of t] by (simp add: t)
  note step = tick_of_car [OF rely assms(2) Cons.prems(2) tick cfs(2)]
  show ?case
  proof (cases "cfs' = []")
    case True thus ?thesis using step(1) cfs(1) by simp
  next
    case False
    have "cf_best_lap_time_ms (last cfs') =
        fold (\<lambda>l b. better_lap b l) (map lap_of cfs') (hm_get (ca_best_lap_time_ms (fh_cache h')) car)"
      using Cons.IH [OF _ step(3) cfs(3) False] Cons.prems(1) by simp
    thus ?thesis using False step cfs(1) by simp
  qed
qed

section \<open>Cars of stopped sandboxes\<close>

definition stale :: "u64 \<Rightarrow> string \<Rightarrow> u64 \<Rightarrow> 'n hub_system \<Rightarrow> bool" where
  "stale car sid e sys \<longleftrightarrow>
     w_running (sys_worker sys) \<and> hm_get (w_sandboxes (sys_worker sys)) sid = None \<and>
     car \<in> set (hm_keys (st_known_cars (hub_store sys))) \<and>
     car_target car (hub_store sys) = Some (TargetSandbox sid) \<and> car_engine_id car (hub_store sys) = Some e"

lemma put_slot_stale:
  "target_slot t w = Inr slot \<Longrightarrow> w_running w \<Longrightarrow> hm_get (w_sandboxes w) sid = None \<Longrightarrow>
     w_running (put_slot t slot' w) \<and> hm_get (w_sandboxes (put_slot t slot' w)) sid = None"
  by (cases t rule: command_target.exhaust) (auto simp: target_slot_def split: if_splits)

lemma on_worker_stale: "stale car sid e sys \<Longrightarrow> stale car sid e (snd (on_worker env (with_target_slot_mut t op) sys))"
  by (auto simp: stale_def on_worker_def with_target_slot_mut_def case_prod_beta Let_def put_slot_stale split: sum.split)

lemma clients_stale:
  assumes "stale car sid e sys"
  shows "stale car sid e (snd (client_runtime_state env sys))"
    "stale car sid e (snd (client_race_duration_in env target sys))"
    "stale car sid e (snd (client_track_data_in env target sys))"
    "stale car sid e (snd (client_read_car_state_in env target e' sys))"
    "stale car sid e (snd (client_read_car_race_metrics_in env target e' sys))"
    "stale car sid e (snd (client_set_car_tyre_type_in env target e' tt sys))"
    "stale car sid e (snd (client_set_controls_in env target e' ctl sys))"
  using assms by (simp_all add: client_results on_worker_stale) (simp add: stale_def on_worker_def)

text \<open>The other tasks neither start the sandbox again nor change how the car is registered.\<close>

locale stale_rely =
  fixes other :: "'n hub_others" and car :: u64 and sid :: string and e :: u64
  assumes keeps: "stale car sid e sys \<Longrightarrow> stale car sid e (other a after sys)"
    and not_blank: "\<not> blank sid"
begin

lemma call_stale [simp]:
  assumes "stale car sid e (col_sys c)" "\<And>sys. stale car sid e sys \<Longrightarrow> stale car sid e (snd (f sys))"
  shows "stale car sid e (col_sys (snd (hub_call other a f c)))"
  using assms keeps by (simp add: hub_call_def case_prod_beta Let_def)

lemma put_stale [simp]:
  "st_known_cars st = st_known_cars (col_store c) \<Longrightarrow> st_car_targets st = st_car_targets (col_store c) \<Longrightarrow>
   st_car_engine_ids st = st_car_engine_ids (col_store c) \<Longrightarrow>
     stale car sid e (col_sys (put_store st c)) = stale car sid e (col_sys c)"
  by (simp add: put_store_def stale_def car_target_def car_engine_id_def col_store_def)

lemma reap_stale [simp]: "k \<noteq> car \<Longrightarrow> stale car sid e (col_sys (reap fs k c)) = stale car sid e (col_sys c)"
  by (simp add: reap_def put_store_def stale_def car_target_def car_engine_id_def col_store_def remove_car_def
      Let_def split: option.split)

lemma ops_registration [simp]:
  "st_car_targets (snd (plan_pit_fix_tire_apply k t b st)) = st_car_targets st"
  "st_car_engine_ids (snd (plan_pit_fix_tire_apply k t b st)) = st_car_engine_ids st"
  "st_car_targets (mark_pit_fix_tire_applied k t st) = st_car_targets st"
  "st_car_engine_ids (mark_pit_fix_tire_applied k t st) = st_car_engine_ids st"
  "st_car_targets (snd (update_pit_state_from_runtime fs k v m now_ms st)) = st_car_targets st"
  "st_car_engine_ids (snd (update_pit_state_from_runtime fs k v m now_ms st)) = st_car_engine_ids st"
  by (simp_all add: plan_pit_fix_tire_apply_def mark_pit_fix_tire_applied_def with_pit_def
      update_pit_state_from_runtime_def Let_def)

lemma other_car_stale:
  assumes "k \<noteq> car" "stale car sid e (col_sys c)"
  shows "stale car sid e (col_sys (collect_car env other k c))"
proof -
  have metrics: "stale car sid e (col_sys (snd (read_metrics env other k t e' c)))"
    if "stale car sid e (col_sys c)" for t e' c
    using that assms(1) by (simp add: clients_stale read_metrics_def case_prod_beta split: sum.split)
  have tyre: "stale car sid e (col_sys (snd (apply_tyre env other k t e' v c)))"
    if "stale car sid e (col_sys c)" for t e' v c
    using that assms(1)
    by (simp add: clients_stale apply_tyre_def case_prod_beta Let_def split: sum.split option.split)
  have tyres: "stale car sid e (col_sys (snd (apply_tyres env other k t e' v c)))"
    if "stale car sid e (col_sys c)" for t e' v c
    using that tyre by (simp add: apply_tyres_def case_prod_beta Let_def)
  have finish: "stale car sid e (col_sys (finish_car env other k t e' v m b c))"
    if "stale car sid e (col_sys c)" for t e' v m b c
    using that by (simp add: clients_stale finish_car_def case_prod_beta Let_def)
  show ?thesis using assms
    by (simp add: clients_stale collect_car_def case_prod_beta Let_def metrics tyres finish split: option.split sum.split)
qed

text \<open>The car itself: the worker answers with an error that the hub does not take for a missing car.\<close>

lemma stale_read:
  assumes "stale car sid e sys"
  shows "client_read_car_state_in env (TargetSandbox sid) e sys =
    (Inl (InvalidArgument ''sandbox_id does not match active sandbox session''), sys)"
  using assms not_blank
  by (simp add: client_results on_worker_def with_target_slot_mut_def target_slot_def stale_def ok_or_def)

lemma own_car_stale:
  assumes "stale car sid e (col_sys c)"
  shows "stale car sid e (col_sys (collect_car env other car c))"
    and "col_frame (collect_car env other car c) = col_frame c"
proof -
  have known: "car_target car (col_store c) = Some (TargetSandbox sid)" "car_engine_id car (col_store c) = Some e"
    using assms by (simp_all add: stale_def col_store_def)
  have message: "\<not> contains (to_ascii_lowercase ''sandbox_id does not match active sandbox session'')
      ''sandbox runtime is not active''" by code_simp
  show "stale car sid e (col_sys (collect_car env other car c))"
    and "col_frame (collect_car env other car c) = col_frame c"
    using assms keeps [OF assms] message
    by (simp_all add: collect_car_def known hub_call_def stale_read keeps)
qed

lemma cars_stale:
  assumes "stale car sid e (col_sys c)"
    and "hub_rely env other allowed" "hm_get (fr_cars (col_frame c)) car = None"
  shows "stale car sid e (col_sys (fold (collect_car env other) ks c)) \<and>
    hm_get (fr_cars (col_frame (fold (collect_car env other) ks c))) car = None"
  using assms
proof (induction ks arbitrary: c)
  case (Cons k ks)
  have "stale car sid e (col_sys (collect_car env other k c))"
    using Cons.prems(1) other_car_stale own_car_stale by (cases "k = car") auto
  moreover have "hm_get (fr_cars (col_frame (collect_car env other k c))) car = None"
    using Cons.prems own_car_stale(2) hub_rely.collect_other_car [OF Cons.prems(2), of k car c]
    by (cases "k = car") (auto simp: others_go_def)
  ultimately show ?case using Cons.IH Cons.prems(2) by simp
qed simp

lemma worlds_stale: "stale car sid e (col_sys c) \<Longrightarrow> stale car sid e (col_sys (collect_worlds env other c))"
proof -
  have sandbox: "stale car sid e (col_sys (collect_sandbox env other sm c))"
    if "stale car sid e (col_sys c)" for sm c
    using that by (simp add: clients_stale collect_sandbox_def case_prod_beta Let_def split: option.split sum.split)
  have "stale car sid e (col_sys (fold (collect_sandbox env other) sms c))"
    if "stale car sid e (col_sys c)" for sms c
    using that by (induction sms arbitrary: c) (simp_all add: sandbox)
  hence sandboxes: "stale car sid e (col_sys (collect_sandboxes env other rt c))"
    if "stale car sid e (col_sys c)" for rt c
    using that by (simp add: collect_sandboxes_def Let_def)
  have official: "stale car sid e (col_sys (collect_official env other rt c))"
    if "stale car sid e (col_sys c)" for rt c
    using that by (simp add: clients_stale collect_official_def case_prod_beta Let_def)
  have race: "stale car sid e (col_sys (collect_local_race env other rt c))"
    if "stale car sid e (col_sys c)" for rt c
    using that by (simp add: clients_stale collect_local_race_def case_prod_beta Let_def split: option.split sum.split)
  show "stale car sid e (col_sys c) \<Longrightarrow> stale car sid e (col_sys (collect_worlds env other c))"
    by (simp add: clients_stale collect_worlds_def case_prod_beta sandboxes official race split: sum.split)
qed

end

section \<open>Interpretations\<close>

text \<open>
  Three ways to run the hub: alone, among participants who press and release their pit button
  at any await, and above a simulation in which a car completes a lap before each frame.
\<close>

definition pit_buttons :: "(hub_await \<Rightarrow> bool \<Rightarrow> (u64 \<times> bool) list) \<Rightarrow> 'n hub_others" where
  "pit_buttons pressed = (\<lambda>a after sys.
     sys\<lparr>hub_store := fold (\<lambda>(car, active). set_pit_request_active car active) (pressed a after) (hub_store sys)\<rparr>)"

fun lap_completed :: "u64 \<Rightarrow> u64 list hub_others" where
  "lap_completed lap AwaitRuntimeState False sys =
     sys\<lparr>sys_worker := (sys_worker sys)\<lparr>w_sandboxes := map (\<lambda>(sid, slot). (sid, slot\<lparr>slot_engine :=
        (slot_engine slot)\<lparr>eng_race := [1, lap]\<rparr>\<rparr>)) (w_sandboxes (sys_worker sys))\<rparr>\<rparr>"
| "lap_completed lap a after sys = sys"

lemma set_pit_request_frame [simp]:
  "st_known_cars (set_pit_request_active car active st) = st_known_cars st"
  "car_target k (set_pit_request_active car active st) = car_target k st"
  "car_engine_id k (set_pit_request_active car active st) = car_engine_id k st"
  by (simp_all add: set_pit_request_active_def with_pit_def car_target_def car_engine_id_def)

definition button_events :: "store_label set" where
  "button_events = {l. \<exists>car active. l = CarEvent car (RequestEv active)}"

lemma buttons_go:
  "store_goes fs button_events st
     (fold (\<lambda>(car, active). set_pit_request_active car active) bs st)"
proof (induction bs arbitrary: st)
  case (Cons b bs)
  have "store_goes fs button_events st
      ((\<lambda>(car, active). set_pit_request_active car active) b st)"
    by (cases b) (auto simp: button_events_def intro!: store_goes_step [OF store_step.request])
  thus ?case using Cons.IH store_goes_trans by fastforce
qed simp

lemma buttons_frame:
  "st_known_cars (fold (\<lambda>(car, active). set_pit_request_active car active) bs st) = st_known_cars st"
  "car_target k (fold (\<lambda>(car, active). set_pit_request_active car active) bs st) = car_target k st"
  "car_engine_id k (fold (\<lambda>(car, active). set_pit_request_active car active) bs st) = car_engine_id k st"
  by (induction bs arbitrary: st) (simp_all add: case_prod_beta)

interpretation alone: hub_rely env hub_alone allowed for env :: "'n worker_env" and allowed
  by unfold_locales (simp add: hub_alone_def)

interpretation buttons: hub_rely env "pit_buttons pressed" button_events
  for env :: "'n worker_env" and pressed
  by unfold_locales (simp add: pit_buttons_def buttons_go)

lemma lap_completed_store [simp]: "hub_store (lap_completed lap a after sys) = hub_store sys"
  by (cases "(lap, a, after, sys)" rule: lap_completed.cases) simp_all

interpretation laps: hub_rely env "lap_completed lap" allowed for env :: "u64 list worker_env" and lap allowed
  by unfold_locales simp

interpretation stale_alone: stale_rely hub_alone car "''s1''" e for car e
  by unfold_locales (simp_all add: hub_alone_def)

interpretation stale_buttons: stale_rely "pit_buttons pressed" car "''s1''" e for pressed car e
  by unfold_locales (simp_all add: pit_buttons_def stale_def buttons_frame)

section \<open>A small hub\<close>

definition hub_env :: "u64 list worker_env" where
  "hub_env =
     \<lparr>env_features = \<lparr>official = False, local_mode = True, standalone = True\<rparr>,
      env_api = sample_api\<lparr>n_read_vehicle_race_metrics := (\<lambda>vs v. (sample_on v vs,
        \<lparr>fm_completed_laps = 1, fm_lap_progress_m = Fin 0, fm_current_lap_time_ms = 0,
         fm_has_last_lap_time = True, fm_last_lap_time_ms = ucast (last vs)\<rparr>))\<rparr>,
      env_tracks_dir = ''tracks'', env_local_tracks_cache_dir = ''cache'', env_bolids_dir = ''bolids'',
      env_debug_drawer_enabled = False, env_dt = Fin (1 / 64),
      env_is_dir = (\<lambda>_. Inr True), env_read_dir = (\<lambda>_. Inr []), env_is_file = (\<lambda>_. True)\<rparr>"

lemma hub_env_features [simp]:
  "env_features hub_env = \<lparr>official = False, local_mode = True, standalone = True\<rparr>"
  by (simp add: hub_env_def)

definition hub_worker :: "u64 list \<Rightarrow> u64 list worker" where
  "hub_worker race = (spawn_worker None)\<lparr>w_sandboxes := [(''s1'',
     \<lparr>slot_engine = sample_engine\<lparr>eng_race := race\<rparr>, slot_ghost_mode_settings = DEFAULT_GHOST_MODE_SETTINGS\<rparr>)]\<rparr>"

definition hub_registered :: runtime_store where
  "hub_registered = store_new\<lparr>st_known_cars := [(7, ())], st_car_targets := [(7, TargetSandbox ''s1'')],
     st_car_engine_ids := [(7, 1)]\<rparr>"

definition hub_racing :: "u64 list hub_system" where
  "hub_racing = \<lparr>sys_worker = hub_worker [1], hub_store = hub_registered\<rparr>"

definition hub_stopping :: "u64 list hub_system" where
  "hub_stopping = \<lparr>sys_worker = hub_worker [1], hub_store = mark_emergency_pitstop_requested 7 1000 hub_registered\<rparr>"

definition hub_fresh :: "u64 list frame_hub" where
  "hub_fresh = \<lparr>fh_tick = 0, fh_cache = collector_cache_default, fh_latest = empty_frame 0 0\<rparr>"

definition pressed_7 :: "hub_await \<Rightarrow> bool \<Rightarrow> (u64 \<times> bool) list" where
  "pressed_7 a after = [(7, after)]"

lemma sample_reads:
  assumes "1 \<in> set race"
  shows "\<exists>v. read_vehicle_state (env_api hub_env) 1 (sample_engine\<lparr>eng_race := race\<rparr>) = Inr v"
    and "read_vehicle_race_metrics (env_api hub_env) 1 (sample_engine\<lparr>eng_race := race\<rparr>) = Inr
      \<lparr>completed_laps = 1, lap_progress_m = Fin 0, current_lap_time_ms = 0, last_lap_time_ms = Some (ucast (last race))\<rparr>"
proof -
  have "is_ok (vehicle_state_try_from (sample_vehicle 1))" by code_simp
  then obtain v where "vehicle_state_try_from (sample_vehicle 1) = Inr v" by (auto simp: is_ok_iff)
  thus "\<exists>v. read_vehicle_state (env_api hub_env) 1 (sample_engine\<lparr>eng_race := race\<rparr>) = Inr v"
    using assms by (simp add: read_vehicle_state_def hub_env_def sample_api_def sample_on_def)
  show "read_vehicle_race_metrics (env_api hub_env) 1 (sample_engine\<lparr>eng_race := race\<rparr>) = Inr
      \<lparr>completed_laps = 1, lap_progress_m = Fin 0, current_lap_time_ms = 0, last_lap_time_ms = Some (ucast (last race))\<rparr>"
    using assms by (simp add: read_vehicle_race_metrics_def hub_env_def sample_api_def sample_on_def
        vehicle_race_metrics_from_def status_result_def)
qed

lemma sample_client:
  assumes "1 \<in> set race" "sys_worker sys = hub_worker race"
  shows "\<exists>v. client_read_car_state_in hub_env (TargetSandbox ''s1'') 1 sys = (Inr v, sys)"
    and "client_read_car_race_metrics_in hub_env (TargetSandbox ''s1'') 1 sys = (Inr
      \<lparr>completed_laps = 1, lap_progress_m = Fin 0, current_lap_time_ms = 0, last_lap_time_ms = Some (ucast (last race))\<rparr>, sys)"
    and "client_set_car_tyre_type_in hub_env (TargetSandbox ''s1'') 1 tt sys = (Inr (), sys)"
    and "sys_worker (snd (client_set_controls_in hub_env (TargetSandbox ''s1'') 1 ctl sys)) = hub_worker race"
    and "client_runtime_state hub_env sys = (Inr (w_runtime (spawn_worker None :: u64 list worker)), sys)"
proof -
  let ?slot = "\<lparr>slot_engine = sample_engine\<lparr>eng_race := race\<rparr>, slot_ghost_mode_settings = DEFAULT_GHOST_MODE_SETTINGS\<rparr>"
  have w: "w_running (hub_worker race)" "target_slot (TargetSandbox ''s1'') (hub_worker race) = Inr ?slot"
    "(hub_worker race)\<lparr>w_sandboxes := hm_insert ''s1'' ?slot (w_sandboxes (hub_worker race))\<rparr> = hub_worker race"
    "w_runtime (hub_worker race) = w_runtime (spawn_worker None)"
    by (simp_all add: target_slot_def hub_worker_def hm_get_def hm_insert_def ok_or_def spawn_worker_def)
  have same: "sys\<lparr>sys_worker := hub_worker race\<rparr> = sys" by (rule client_system.equality) (simp_all add: assms(2))
  note evals = client_results on_worker_def with_target_slot_mut_def w reading_def on_engine_def engine_err_def
    assms(2) same Let_def case_prod_beta
  note api = hub_env_def sample_api_def sample_on_def native_unit_def status_result_def
  obtain v where v: "read_vehicle_state (env_api hub_env) 1 (sample_engine\<lparr>eng_race := race\<rparr>) = Inr v"
    using sample_reads(1) [OF assms(1)] by blast
  show "\<exists>v. client_read_car_state_in hub_env (TargetSandbox ''s1'') 1 sys = (Inr v, sys)"
    using v by (simp add: evals)
  show "client_read_car_race_metrics_in hub_env (TargetSandbox ''s1'') 1 sys = (Inr
      \<lparr>completed_laps = 1, lap_progress_m = Fin 0, current_lap_time_ms = 0, last_lap_time_ms = Some (ucast (last race))\<rparr>, sys)"
    using sample_reads(2) [OF assms(1)] by (simp add: evals)
  show "client_set_car_tyre_type_in hub_env (TargetSandbox ''s1'') 1 tt sys = (Inr (), sys)"
    using assms(1) by (simp add: evals api engine_set_vehicle_tyre_type_def)
  show "sys_worker (snd (client_set_controls_in hub_env (TargetSandbox ''s1'') 1 ctl sys)) = hub_worker race"
    using assms(1) by (simp add: evals api engine_set_controls_def)
  show "client_runtime_state hub_env sys = (Inr (w_runtime (spawn_worker None :: u64 list worker)), sys)"
    by (simp add: evals)
qed

definition sample_ready :: "u64 list \<Rightarrow> u64 list hub_system \<Rightarrow> bool" where
  "sample_ready race sys \<longleftrightarrow> sys_worker sys = hub_worker race \<and> hm_keys (st_known_cars (hub_store sys)) = [7] \<and>
     car_target 7 (hub_store sys) = Some (TargetSandbox ''s1'') \<and> car_engine_id 7 (hub_store sys) = Some 1"

lemma ready_ops:
  "sample_ready race (col_sys (put_store (snd (plan_pit_fix_tire_apply 7 t b (col_store c))) c)) = sample_ready race (col_sys c)"
  "sample_ready race (col_sys (put_store (mark_pit_fix_tire_applied 7 t (col_store c)) c)) = sample_ready race (col_sys c)"
  "sample_ready race (col_sys (put_store (snd (update_pit_state_from_runtime fs 7 v m now_ms (col_store c))) c)) =
     sample_ready race (col_sys c)"
  by (simp_all add: sample_ready_def put_store_def col_store_def car_target_def car_engine_id_def
      plan_pit_fix_tire_apply_def mark_pit_fix_tire_applied_def update_pit_state_from_runtime_def with_pit_def Let_def)

lemma ready_call:
  assumes "\<And>after sys. sample_ready race sys \<Longrightarrow> sample_ready race (other a after sys)"
    and "sample_ready race (col_sys c)" and "\<And>sys. sample_ready race sys \<Longrightarrow> sample_ready race (snd (f sys))"
  shows "\<exists>sys. sample_ready race sys \<and> fst (hub_call other a f c) = fst (f sys)"
    and "sample_ready race (col_sys (snd (hub_call other a f c)))"
  using assms by (auto simp: hub_call_def case_prod_beta Let_def)

lemma ready_clients:
  assumes "1 \<in> set race" "sample_ready race sys"
  shows "\<exists>v. client_read_car_state_in hub_env (TargetSandbox ''s1'') 1 sys = (Inr v, sys)"
    and "client_read_car_race_metrics_in hub_env (TargetSandbox ''s1'') 1 sys = (Inr
      \<lparr>completed_laps = 1, lap_progress_m = Fin 0, current_lap_time_ms = 0, last_lap_time_ms = Some (ucast (last race))\<rparr>, sys)"
    and "client_set_car_tyre_type_in hub_env (TargetSandbox ''s1'') 1 tt sys = (Inr (), sys)"
    and "sample_ready race (snd (client_set_controls_in hub_env (TargetSandbox ''s1'') 1 ctl sys))"
  using assms sample_client [OF assms(1), of sys] by (auto simp: sample_ready_def)

lemma sample_tyre:
  assumes "1 \<in> set race" "sample_ready race (col_sys c)"
    and "\<And>a after sys. a \<noteq> AwaitRuntimeState \<Longrightarrow> sample_ready race sys \<Longrightarrow> sample_ready race (other a after sys)"
  shows "fst (apply_tyre hub_env other 7 (TargetSandbox ''s1'') 1 v c) \<and>
    sample_ready race (col_sys (snd (apply_tyre hub_env other 7 (TargetSandbox ''s1'') 1 v c)))"
proof -
  have call: "fst (hub_call other (AwaitTyre 7) (client_set_car_tyre_type_in hub_env (TargetSandbox ''s1'') 1 tt) c) = Inr ()"
      "sample_ready race (col_sys (snd (hub_call other (AwaitTyre 7)
         (client_set_car_tyre_type_in hub_env (TargetSandbox ''s1'') 1 tt) c)))"
    if "sample_ready race (col_sys c)" for tt c
    using ready_call [of race other "AwaitTyre 7" c "client_set_car_tyre_type_in hub_env (TargetSandbox ''s1'') 1 tt"]
      that assms(3) ready_clients(3) [OF assms(1)] by auto
  obtain planned st where p: "plan_pit_fix_tire_apply 7 (runtime_tire_type_from_engine (vs_tyre_type v)) (completed_pit v)
      (col_store c) = (planned, st)" by fastforce
  hence r: "sample_ready race (col_sys (put_store st c))" using assms(2) ready_ops(1) by (metis snd_conv)
  show ?thesis using r
    by (auto simp: apply_tyre_def p Let_def ready_ops case_prod_beta call [OF r] split: option.split)
qed

lemma sample_car:
  assumes "1 \<in> set race" "sample_ready race (col_sys c)"
    and "\<And>a after sys. a \<noteq> AwaitRuntimeState \<Longrightarrow> sample_ready race sys \<Longrightarrow> sample_ready race (other a after sys)"
  shows "\<exists>cf. hm_get (fr_cars (col_frame (collect_car hub_env other 7 c))) 7 = Some cf \<and>
      lap_of cf = Some (ucast (last race))" (is ?A)
    and "sample_ready race (col_sys (collect_car hub_env other 7 c))" (is ?B)
proof -
  let ?t = "TargetSandbox ''s1''"
  obtain v c1 where v: "hub_call other (AwaitState 7) (client_read_car_state_in hub_env ?t 1) c = (Inr v, c1)"
      and c1: "sample_ready race (col_sys c1)"
    using ready_call [of race other "AwaitState 7" c "client_read_car_state_in hub_env ?t 1"] assms
      ready_clients(1) [OF assms(1)] by (cases "hub_call other (AwaitState 7) (client_read_car_state_in hub_env ?t 1) c") fastforce
  define m where "m = \<lparr>completed_laps = 1, lap_progress_m = Fin 0, current_lap_time_ms = 0, last_lap_time_ms = Some (ucast (last race) :: u32)\<rparr>"
  obtain c2 where m: "hub_call other (AwaitMetrics 7) (client_read_car_race_metrics_in hub_env ?t 1) c1 = (Inr m, c2)"
      and c2: "sample_ready race (col_sys c2)"
    using ready_call [of race other "AwaitMetrics 7" c1 "client_read_car_race_metrics_in hub_env ?t 1"] assms c1
      ready_clients(2) [OF assms(1)] unfolding m_def
    by (cases "hub_call other (AwaitMetrics 7) (client_read_car_race_metrics_in hub_env ?t 1) c1") fastforce
  obtain best cache where b: "best_lap (env_features hub_env) 7 (Some m) (col_cache c2) = (best, cache)" by fastforce
  have tyre: "fst (apply_tyre hub_env other 7 ?t 1 v c) \<and> sample_ready race (col_sys (snd (apply_tyre hub_env other 7 ?t 1 v c)))"
    if "sample_ready race (col_sys c)" for c
    by (rule sample_tyre) (use assms that in auto)
  obtain c3 where t: "apply_tyres hub_env other 7 ?t 1 v (c2\<lparr>col_cache := cache\<rparr>) = (True, c3)"
      and c3: "sample_ready race (col_sys c3)"
    using tyre [of "c2\<lparr>col_cache := cache\<rparr>"] c2
    by (cases "apply_tyres hub_env other 7 ?t 1 v (c2\<lparr>col_cache := cache\<rparr>)")
       (auto simp: apply_tyres_def)
  have car: "collect_car hub_env other 7 c = finish_car hub_env other 7 ?t 1 v (Some m) best c3"
    using assms(2) v m b t
    by (simp add: collect_car_def read_metrics_def sample_ready_def col_store_def has_best_laps_def)
  show ?A unfolding car by (auto simp: finish_car_def case_prod_beta Let_def lap_of_def m_def)
  have "sample_ready race (col_sys (snd (hub_call other (AwaitControls 7) (client_set_controls_in hub_env ?t 1 ctl) c)))"
    if "sample_ready race (col_sys c)" for c ctl
    by (rule ready_call(2)) (use assms(3) ready_clients(4) [OF assms(1)] that in auto)
  thus ?B unfolding car using c3 by (simp add: finish_car_def case_prod_beta Let_def ready_ops)
qed

lemma sample_frame:
  assumes "1 \<in> set race" "sample_ready race (other AwaitRuntimeState False sys)"
    and "\<And>a after sys. (a, after) \<noteq> (AwaitRuntimeState, False) \<Longrightarrow> sample_ready race sys \<Longrightarrow> sample_ready race (other a after sys)"
    and "c = collect_frame hub_env other tick now_ms sys cache"
  shows "\<exists>cf. hm_get (fr_cars (col_frame c)) 7 = Some cf \<and> lap_of cf = Some (ucast (last race))"
    and "sample_ready race (col_sys c)"
proof -
  define w where "w = collect_worlds hub_env other
    \<lparr>col_sys = sys, col_frame = empty_frame tick now_ms, col_cache = cache\<rparr>"
  have "client_runtime_state hub_env (other AwaitRuntimeState False sys) =
      (Inr (w_runtime (spawn_worker None :: u64 list worker)), other AwaitRuntimeState False sys)"
    using assms(2) by (auto simp: sample_ready_def intro: sample_client(5) [OF assms(1)])
  hence w: "sample_ready race (col_sys w)"
    using assms(2, 3) by (simp add: w_def collect_worlds_def hub_call_def spawn_worker_def collect_official_def
        collect_local_race_def collect_sandboxes_def active_sandbox_map_def)
  hence "c = collect_car hub_env other 7 w"
    by (simp add: assms(4) collect_frame_def collect_cars_def w_def known_car_ids_def sample_ready_def col_store_def)
  thus "\<exists>cf. hm_get (fr_cars (col_frame c)) 7 = Some cf \<and> lap_of cf = Some (ucast (last race))"
    and "sample_ready race (col_sys c)"
    using sample_car [OF assms(1) w, of other] assms(3) by auto
qed

section \<open>Properties\<close>

text \<open>
  C15. A car that asked for an emergency stop is held in every frame of the next 30 seconds in
  which it is reported: the frame says that it is idle, stands still in neutral gear without
  throttle, and brakes. This holds whatever the other tasks do with the store at the awaits of
  the hub, short of removing the car.
\<close>

theorem emergency_holds_in_frames:
  assumes "hub_rely env other allowed" "Removed car \<notin> allowed"
    and "store_run (env_features env) ls (mark_emergency_pitstop_requested car asked_ms st0) (hub_store sys)"
      "Removed car \<notin> set ls" "hm_wf (st_known_cars (hub_store sys))"
    and "asked_ms \<le> now_ms" "now_ms < sat_add asked_ms EMERGENCY_PIT_LOCK_MS"
    and "hm_get (fr_cars (col_frame (collect_frame env other tick now_ms sys cache))) car = Some cf"
  shows "sn_force_idle (cf_pit_state cf) \<and> vs_speed (cf_state cf) = Fin 0 \<and> vs_gear (cf_state cf) = Neutral \<and>
    throttle_applied (cf_state cf) = Fin 0 \<and> brake_applied (cf_state cf) = Fin 1"
proof -
  obtain st where st: "store_goes (env_features env) (allowed \<union> - {Removed car}) (hub_store sys) st"
    "pit_report (env_features env) car now_ms st cf"
    using hub_rely.collect_frame_of_car [OF assms(1, 5) refl assms(8)] by metis
  obtain v where v: "cf_pit_state cf = snapshot (pit_step (env_features env)
        (FrameEv v (cf_race_metrics cf) now_ms (bot_slot_for_history car st)) (pit_of car st)) now_ms"
    "cf_state cf = (if sn_force_idle (cf_pit_state cf)
       then idle_state (sn_emergency_lock_remaining_ms (cf_pit_state cf) > 0) v else v)"
    using st(2) unfolding pit_report_def update_pit_snapshot by blast
  have "timers_from (emergency_pitstop_requested asked_ms (pit_of car st0)) (pit_of car (hub_store sys))"
    using store_run_timers [OF assms(3, 4)] by (simp add: op_states)
  moreover have "timers_from (pit_of car (hub_store sys)) (pit_of car st)"
    using store_goes_timers [OF st(1)] assms(2) by simp
  ultimately have "timers_from (emergency_pitstop_requested asked_ms (pit_of car st0))
      (pit_step (env_features env) (FrameEv v (cf_race_metrics cf) now_ms (bot_slot_for_history car st)) (pit_of car st))"
    using pit_step_timers timers_from_trans by blast
  thus ?thesis using emergency_lock_left [OF _ assms(6, 7)] v by (simp add: idle_state_def)
qed

theorem emergency_holds_in_frames_witness:
  "\<exists>cf. hm_get (fr_cars (col_frame (collect_frame hub_env (pit_buttons pressed_7) 1 20000 hub_stopping collector_cache_default))) 7 = Some cf \<and>
     vs_speed (cf_state cf) = Fin 0 \<and> brake_applied (cf_state cf) = Fin 1"
proof -
  have keep: "sample_ready [1] (pit_buttons pressed_7 a after sys)" if "sample_ready [1] sys" for a after sys
    using that by (simp add: sample_ready_def pit_buttons_def pressed_7_def)
  have start: "sample_ready [1] hub_stopping"
    by (simp add: sample_ready_def hub_stopping_def hub_registered_def mark_emergency_pitstop_requested_def with_pit_def
        hm_keys_def car_target_def car_engine_id_def hm_get_def)
  obtain cf where cf: "hm_get (fr_cars (col_frame (collect_frame hub_env (pit_buttons pressed_7) 1 20000 hub_stopping
      collector_cache_default))) 7 = Some cf"
    using sample_frame(1) [where race = "[1]" and other = "pit_buttons pressed_7" and sys = hub_stopping] keep start
    by fastforce
  have "sn_force_idle (cf_pit_state cf) \<and> vs_speed (cf_state cf) = Fin 0 \<and> vs_gear (cf_state cf) = Neutral \<and>
      throttle_applied (cf_state cf) = Fin 0 \<and> brake_applied (cf_state cf) = Fin 1"
    by (rule emergency_holds_in_frames [OF buttons.hub_rely_axioms _ _ _ _ _ _ cf, of "[]" 1000 hub_registered])
       (auto simp: button_events_def hub_stopping_def run_Nil hub_registered_def mark_emergency_pitstop_requested_def
         with_pit_def hm_wf_def hm_keys_def sat_add_def EMERGENCY_PIT_LOCK_MS_def)
  thus ?thesis using cf by blast
qed

text \<open>
  C16. The best lap that a frame reports for a car is the fastest of the last laps reported for
  it since its best lap was unknown, and is absent as long as no lap was completed. This holds
  for any number of frames, any clock and any interference of the other tasks, as long as the
  car is reported in every frame.
\<close>

theorem best_lap_is_fastest_reported:
  assumes "\<And>t. t \<in> set turns \<Longrightarrow> hub_rely env (fst t) UNIV" "has_best_laps (env_features env)"
    and "hm_wf (st_known_cars (hub_store sys))" "hm_get (ca_best_lap_time_ms (fh_cache h)) car = None"
    and "reports_of car (hub_frames env turns (h, sys)) = map Some cfs" "cfs \<noteq> []"
  shows "cf_best_lap_time_ms (last cfs) =
    (let laps = Option.these (lap_of ` set cfs) in if laps = {} then None else Some (Min laps))"
  using best_lap_folds [OF assms(1-3, 5, 6)] by (simp add: assms(4) better_lap_Min Let_def)

definition three_laps :: "(u64 list hub_others \<times> u64) list" where
  "three_laps = [(lap_completed 61000, 100), (lap_completed 59000, 200), (lap_completed 60000, 300)]"

lemma lap_ready:
  "sample_ready race sys \<Longrightarrow> sample_ready [1, lap] (lap_completed lap AwaitRuntimeState False sys)"
  "(a, after) \<noteq> (AwaitRuntimeState, False) \<Longrightarrow> lap_completed lap a after sys = sys"
  by (auto simp: sample_ready_def hub_worker_def)
     (cases "(lap, a, after, sys)" rule: lap_completed.cases, simp_all)

lemma lap_tick:
  assumes "sample_ready race sys" "hub_tick hub_env (lap_completed lap) now_ms (h, sys) = (h', sys')"
  shows "\<exists>cf. hm_get (fr_cars (fh_latest h')) 7 = Some cf \<and> lap_of cf = Some (ucast lap)"
    and "sample_ready [1, lap] sys'"
proof -
  define c where "c = collect_frame hub_env (lap_completed lap) (fh_tick h + 1) now_ms sys (fh_cache h)"
  have "h' = \<lparr>fh_tick = fh_tick h + 1, fh_cache = col_cache c, fh_latest = col_frame c\<rparr>" "sys' = col_sys c"
    using assms(2) by (simp_all add: hub_tick_def Let_def c_def)
  thus "\<exists>cf. hm_get (fr_cars (fh_latest h')) 7 = Some cf \<and> lap_of cf = Some (ucast lap)"
    and "sample_ready [1, lap] sys'"
    using sample_frame [OF _ lap_ready(1) [OF assms(1)] _ c_def] lap_ready(2) by auto
qed

theorem best_lap_is_fastest_reported_witness:
  "\<exists>cfs. reports_of 7 (hub_frames hub_env three_laps (hub_fresh, hub_racing)) = map Some cfs \<and>
     length cfs = 3 \<and> cf_best_lap_time_ms (last cfs) = Some 59000"
proof -
  have start: "sample_ready [1] hub_racing" "hm_wf (st_known_cars (hub_store hub_racing))"
    by (simp_all add: sample_ready_def hub_racing_def hub_registered_def hm_keys_def hm_wf_def car_target_def
        car_engine_id_def hm_get_def)
  obtain h1 s1 where 1: "hub_tick hub_env (lap_completed 61000) 100 (hub_fresh, hub_racing) = (h1, s1)" by fastforce
  obtain h2 s2 where 2: "hub_tick hub_env (lap_completed 59000) 200 (h1, s1) = (h2, s2)" by fastforce
  obtain h3 s3 where 3: "hub_tick hub_env (lap_completed 60000) 300 (h2, s2) = (h3, s3)" by fastforce
  note t1 = lap_tick [OF start(1) 1]
  note t2 = lap_tick [OF t1(2) 2]
  note t3 = lap_tick [OF t2(2) 3]
  obtain a b c where cfs: "reports_of 7 (hub_frames hub_env three_laps (hub_fresh, hub_racing)) = map Some [a, b, c]"
    and laps: "lap_of a = Some 61000" "lap_of b = Some 59000" "lap_of c = Some 60000"
    using t1(1) t2(1) t3(1) by (auto simp: reports_of_def three_laps_def 1 2 3)
  have "cf_best_lap_time_ms (last [a, b, c]) =
      (let laps = Option.these (lap_of ` set [a, b, c]) in if laps = {} then None else Some (Min laps))"
    by (rule best_lap_is_fastest_reported [OF _ _ start(2) _ cfs])
       (auto simp: three_laps_def has_best_laps_def hub_fresh_def collector_cache_default_def laps.hub_rely_axioms)
  hence "cf_best_lap_time_ms c = Some 59000" by (simp add: laps)
  thus ?thesis using cfs by (intro exI [where x = "[a, b, c]"]) simp
qed

text \<open>
  A car of a sandbox that was stopped is a leak. The worker answers for it with the error
  that the sandbox does not match, the hub waits for another text, and so the car is never
  reported and never removed: it stays among the known cars in every further frame, whatever
  the other tasks do short of removing it or starting the sandbox again.
\<close>

theorem stopped_sandbox_car_stays_known:
  assumes "hub_rely env other allowed" "stale_rely other car sid e" "stale car sid e sys"
    and "c = collect_frame env other tick now_ms sys cache"
  shows "hm_get (fr_cars (col_frame c)) car = None \<and> car \<in> set (known_car_ids (col_store c)) \<and>
    stale car sid e (col_sys c)"
proof -
  define w where "w = collect_worlds env other \<lparr>col_sys = sys, col_frame = empty_frame tick now_ms, col_cache = cache\<rparr>"
  have w: "stale car sid e (col_sys w)" "hm_get (fr_cars (col_frame w)) car = None"
    using stale_rely.worlds_stale [OF assms(2)] assms(3) hub_rely.collect_worlds_go [OF assms(1)]
    by (simp_all add: w_def worlds_go_def empty_frame_def)
  have "c = fold (collect_car env other) (known_car_ids (col_store w)) w"
    by (simp add: assms(4) collect_frame_def collect_cars_def w_def)
  thus ?thesis using stale_rely.cars_stale [OF assms(2) w(1) assms(1) w(2)]
    by (simp add: stale_def known_car_ids_def col_store_def)
qed

theorem stopped_sandbox_car_stays_known_witness:
  "7 \<in> set (known_car_ids (col_store (collect_frame hub_env (pit_buttons pressed_7) 1 100
     (hub_racing\<lparr>sys_worker := spawn_worker None\<rparr>) collector_cache_default)))"
proof -
  have "stale 7 ''s1'' 1 (hub_racing\<lparr>sys_worker := spawn_worker None\<rparr>)"
    by (simp add: stale_def hub_racing_def hub_registered_def spawn_worker_def hm_keys_def car_target_def
        car_engine_id_def hm_get_def)
  from stopped_sandbox_car_stays_known [OF buttons.hub_rely_axioms stale_buttons.stale_rely_axioms this refl,
      of hub_env pressed_7 1 100 collector_cache_default]
  show ?thesis by blast
qed

end
