(* ===== verification/Race_Table.thy ===== *)
theory Race_Table
  imports Frame_Hub Local_Race_Admin
begin

text \<open>
  The race table, game-server/src/services/race_table.rs: the standings of the official race,
  of a local race and the cars of a sandbox, computed from the latest frame. The table of the
  official race keeps a cache between requests: the distance each car had when it was first
  seen, the trajectories of the cars (distance over time), from which the gap to the leader is
  interpolated, and the rows of cars that have left the race.

  The messages come from the protocol crate, whose generated code is not in the repository:
  they are records with the fields the code sets, and \<open>code\<close> is the number of a status.
\<close>

section \<open>Sorting\<close>

datatype ordering = Less | Equal | Greater

definition cmp_u64 :: "u64 \<Rightarrow> u64 \<Rightarrow> ordering" where
  "cmp_u64 a b = (if a < b then Less else if a = b then Equal else Greater)"

definition partial_cmp :: "fp \<Rightarrow> fp \<Rightarrow> ordering option" where
  "partial_cmp x y = (if x = NaN \<or> y = NaN then None
     else Some (if fp_lt x y then Less else if x = y then Equal else Greater))"

fun then_with :: "ordering \<Rightarrow> ordering \<Rightarrow> ordering" where
  "then_with Equal o2 = o2"
| "then_with o1 _ = o1"

text \<open>
  The stable sort of the standard library. Its result is determined by the comparison as long
  as the comparison is a total preorder, so insertion stands for any stable sort.
\<close>

fun insert_by :: "('a \<Rightarrow> 'a \<Rightarrow> ordering) \<Rightarrow> 'a \<Rightarrow> 'a list \<Rightarrow> 'a list" where
  "insert_by cmp x [] = [x]"
| "insert_by cmp x (y # ys) = (if cmp x y = Greater then y # insert_by cmp x ys else x # y # ys)"

definition sort_by :: "('a \<Rightarrow> 'a \<Rightarrow> ordering) \<Rightarrow> 'a list \<Rightarrow> 'a list" where
  "sort_by cmp xs = foldr (insert_by cmp) xs []"

section \<open>Data\<close>

definition TRAJECTORY_MAX_AGE_MS_OFFICIAL :: u64 where "TRAJECTORY_MAX_AGE_MS_OFFICIAL = 24 * 60 * 60 * 1000"
definition GAP_DISABLED_LAPS_BEHIND_THRESHOLD :: u32 where "GAP_DISABLED_LAPS_BEHIND_THRESHOLD = 1"
definition TRAJECTORY_MIN_PROGRESS_DELTA_M :: fp where "TRAJECTORY_MIN_PROGRESS_DELTA_M = f64 (1 / 10)"
definition TRAJECTORY_PROGRESS_EPSILON_M :: fp where "TRAJECTORY_PROGRESS_EPSILON_M = f64 (1 / 1000)"
definition TRAJECTORY_RESET_BACKTRACK_M :: fp where "TRAJECTORY_RESET_BACKTRACK_M = Fin 5"
definition START_PROGRESS_MOVED_EPSILON_M :: fp where "START_PROGRESS_MOVED_EPSILON_M = Fin 1"

datatype table_target = TableSandbox string | TableOfficialRace | TableLocalRace string

datatype entry_status = EntryActive | EntryDnf

record team_identity =
  ti_team_id :: string
  ti_team_name :: string

record official_row =
  or_car_id :: u64
  or_team :: "team_identity option"
  or_position :: u32
  or_gap_to_leader_ms :: "u32 option"
  or_laps_behind :: u32
  or_in_pit :: bool
  or_status :: i32

record trajectory_sample =
  tr_progress_total_m :: fp
  tr_race_elapsed_ms :: u64

record official_cache =
  oc_session_marker :: "string option"
  oc_last_race_elapsed_ms :: "u64 option"
  oc_last_active_rows :: "(u64, official_row) hmap"
  oc_archived_dnf_rows :: "(u64, official_row) hmap"
  oc_car_trajectories :: "(u64, trajectory_sample list) hmap"
  oc_last_computed_gap_ms :: "(u64, u32) hmap"
  oc_car_start_progress_m :: "(u64, fp) hmap"

record active_sample =
  as_row :: official_row
  as_completed_laps :: u32
  as_progress_total_m :: fp
  as_hide_gap_to_leader :: bool

definition official_cache_default :: official_cache where
  "official_cache_default =
     \<lparr>oc_session_marker = None, oc_last_race_elapsed_ms = None, oc_last_active_rows = [],
      oc_archived_dnf_rows = [], oc_car_trajectories = [], oc_last_computed_gap_ms = [],
      oc_car_start_progress_m = []\<rparr>"

definition reset_runtime_progress :: "official_cache \<Rightarrow> official_cache" where
  "reset_runtime_progress cache =
     cache\<lparr>oc_last_race_elapsed_ms := None, oc_last_active_rows := [], oc_archived_dnf_rows := [],
           oc_car_trajectories := [], oc_last_computed_gap_ms := [], oc_car_start_progress_m := []\<rparr>"

definition reset_if_session_changed :: "string \<Rightarrow> official_cache \<Rightarrow> official_cache" where
  "reset_if_session_changed marker cache =
     (if oc_session_marker cache = Some marker then cache
      else reset_runtime_progress (cache\<lparr>oc_session_marker := Some marker\<rparr>))"

section \<open>Samples of the active cars\<close>

definition team_identity_for_official :: "runtime_car_identity option \<Rightarrow> team_identity" where
  "team_identity_for_official identity =
     (let team_id = (case Option.bind identity id_team_id of None \<Rightarrow> ''unknown'' | Some t \<Rightarrow> t)
      in \<lparr>ti_team_id = team_id, ti_team_name = team_id\<rparr>)"

definition progress_total :: "u32 \<Rightarrow> fp \<Rightarrow> fp \<Rightarrow> fp" where
  "progress_total laps lap_length lap_progress =
     fp_add binary64 (fp_mul binary64 (fp_of_int binary64 (uint laps)) lap_length)
       (fp_convert binary64 (fp_max lap_progress (Fin 0)))"

definition sample_to_official_entry ::
  "(entry_status \<Rightarrow> i32) \<Rightarrow> u64 \<Rightarrow> vehicle_race_metrics \<Rightarrow> fp \<Rightarrow> runtime_car_identity option \<Rightarrow> bool \<Rightarrow> active_sample" where
  "sample_to_official_entry code car_id metrics lap_length identity in_pit =
     \<lparr>as_row = \<lparr>or_car_id = car_id, or_team = Some (team_identity_for_official identity), or_position = 0,
        or_gap_to_leader_ms = None, or_laps_behind = 0, or_in_pit = in_pit, or_status = code EntryActive\<rparr>,
      as_completed_laps = completed_laps metrics,
      as_progress_total_m = progress_total (completed_laps metrics) lap_length (lap_progress_m metrics),
      as_hide_gap_to_leader = fp_lt (lap_progress_m metrics) (Fin 0)\<rparr>"

definition collect_official_active_entries ::
  "(entry_status \<Rightarrow> i32) \<Rightarrow> runtime_frame \<Rightarrow> fp \<Rightarrow> active_sample list" where
  "collect_official_active_entries code frame lap_length =
     List.map_filter (\<lambda>car. if cf_target car \<noteq> TargetOfficialRace then None
        else map_option (\<lambda>metrics. sample_to_official_entry code (cf_public_car_id car) metrics lap_length
               (cf_identity car) (has_zone (vs_pitstop_state (cf_state car)) ZoneFix)) (cf_race_metrics car))
       (hm_values (fr_cars frame))"

definition compare_progress :: "fp \<times> u64 \<Rightarrow> fp \<times> u64 \<Rightarrow> ordering" where
  "compare_progress left right =
     then_with (case partial_cmp (fst right) (fst left) of None \<Rightarrow> Equal | Some ord \<Rightarrow> ord)
       (cmp_u64 (snd left) (snd right))"

definition standing :: "active_sample \<Rightarrow> fp \<times> u64" where
  "standing s = (as_progress_total_m s, or_car_id (as_row s))"

definition sort_active_entries :: "active_sample list \<Rightarrow> active_sample list" where
  "sort_active_entries = sort_by (\<lambda>left right. compare_progress (standing left) (standing right))"

fun normalize_samples :: "active_sample list \<Rightarrow> (u64, fp) hmap \<Rightarrow> active_sample list \<times> (u64, fp) hmap" where
  "normalize_samples [] starts = ([], starts)"
| "normalize_samples (s # ss) starts =
     (let car_id = or_car_id (as_row s);
          starts1 = (if hm_get starts car_id = None then hm_insert car_id (as_progress_total_m s) starts else starts);
          baseline = (case hm_get starts1 car_id of None \<Rightarrow> as_progress_total_m s | Some b \<Rightarrow> b);
          s1 = s\<lparr>as_progress_total_m := fp_max (fp_sub binary64 (as_progress_total_m s) baseline) (Fin 0)\<rparr>;
          (ss1, starts2) = normalize_samples ss starts1
      in (s1 # ss1, starts2))"

definition normalize_active_progress_from_start ::
  "official_cache \<Rightarrow> active_sample list \<Rightarrow> u64 list \<Rightarrow> active_sample list \<times> official_cache" where
  "normalize_active_progress_from_start cache entries ids =
     (let starts = hm_retain (\<lambda>car_id. car_id \<in> set ids) (oc_car_start_progress_m cache);
          (entries1, starts1) = normalize_samples entries starts
      in (entries1, cache\<lparr>oc_car_start_progress_m := starts1\<rparr>))"

section \<open>Trajectories\<close>

definition backtracked :: "fp \<Rightarrow> trajectory_sample list \<Rightarrow> bool" where
  "backtracked progress t \<longleftrightarrow> t \<noteq> [] \<and>
     fp_lt (fp_add binary64 progress TRAJECTORY_PROGRESS_EPSILON_M) (tr_progress_total_m (last t)) \<and>
     fp_le TRAJECTORY_RESET_BACKTRACK_M (fp_sub binary64 (tr_progress_total_m (last t)) progress)"

definition should_append :: "u64 \<Rightarrow> fp \<Rightarrow> trajectory_sample list \<Rightarrow> bool" where
  "should_append race_elapsed_ms progress t \<longleftrightarrow> t = [] \<or>
     \<not> (race_elapsed_ms \<le> tr_race_elapsed_ms (last t) \<or> fp_le progress (tr_progress_total_m (last t))) \<and>
     fp_le TRAJECTORY_MIN_PROGRESS_DELTA_M (fp_sub binary64 progress (tr_progress_total_m (last t)))"

fun drop_old :: "u64 \<Rightarrow> trajectory_sample list \<Rightarrow> trajectory_sample list" where
  "drop_old min_keep_ms (p # q # t) =
     (if tr_race_elapsed_ms p < min_keep_ms then drop_old min_keep_ms (q # t) else p # q # t)"
| "drop_old min_keep_ms t = t"

definition update_trajectory :: "u64 \<Rightarrow> u64 \<Rightarrow> fp \<Rightarrow> trajectory_sample list \<Rightarrow> trajectory_sample list" where
  "update_trajectory min_keep_ms race_elapsed_ms progress t =
     (let t1 = (if backtracked progress t then [] else t);
          t2 = (if should_append race_elapsed_ms progress t1
                then t1 @ [\<lparr>tr_progress_total_m = progress, tr_race_elapsed_ms = race_elapsed_ms\<rparr>] else t1)
      in drop_old min_keep_ms t2)"

definition update_car_trajectories ::
  "official_cache \<Rightarrow> u64 \<Rightarrow> active_sample list \<Rightarrow> u64 list \<Rightarrow> official_cache" where
  "update_car_trajectories cache race_elapsed_ms entries ids =
     (let ts = hm_retain (\<lambda>car_id. car_id \<in> set ids) (oc_car_trajectories cache);
          min_keep_ms = sat_sub race_elapsed_ms TRAJECTORY_MAX_AGE_MS_OFFICIAL
      in cache\<lparr>oc_car_trajectories := fold (\<lambda>s ts.
           let car_id = or_car_id (as_row s);
               t = (case hm_get ts car_id of None \<Rightarrow> [] | Some t \<Rightarrow> t)
           in hm_insert car_id (update_trajectory min_keep_ms race_elapsed_ms (as_progress_total_m s) t) ts) entries ts\<rparr>)"

text \<open>\<open>VecDeque::get\<close>, and the binary search for the first point that is not below the distance.\<close>

definition get_at :: "'a list \<Rightarrow> nat \<Rightarrow> 'a option" where
  "get_at xs i = (if i < length xs then Some (xs ! i) else None)"

function search_upper :: "trajectory_sample list \<Rightarrow> fp \<Rightarrow> nat \<Rightarrow> nat \<Rightarrow> nat option" where
  "search_upper t progress lo hi =
     (if lo < hi then
        let mid = lo + (hi - lo) div 2
        in case get_at t mid of
             None \<Rightarrow> None
           | Some p \<Rightarrow> if fp_lt (tr_progress_total_m p) progress then search_upper t progress (mid + 1) hi
                       else search_upper t progress lo mid
      else Some lo)"
  by pat_completeness auto
termination
  by (relation "measure (\<lambda>(t, progress, lo, hi). hi - lo)") auto

definition elapsed_fp :: "u64 \<Rightarrow> fp" where
  "elapsed_fp e = fp_of_int binary64 (uint e)"

definition interpolate_between :: "trajectory_sample \<Rightarrow> trajectory_sample \<Rightarrow> fp \<Rightarrow> fp" where
  "interpolate_between lower upper progress =
     (let delta_progress = fp_sub binary64 (tr_progress_total_m upper) (tr_progress_total_m lower)
      in if fp_le delta_progress TRAJECTORY_PROGRESS_EPSILON_M then elapsed_fp (tr_race_elapsed_ms upper)
         else
           let ratio = fp_clamp (Fin 0) (Fin 1)
                 (fp_div binary64 (fp_sub binary64 progress (tr_progress_total_m lower)) delta_progress);
               delta_time_ms = sat_sub (tr_race_elapsed_ms upper) (tr_race_elapsed_ms lower)
           in fp_add binary64 (elapsed_fp (tr_race_elapsed_ms lower))
                (fp_mul binary64 ratio (elapsed_fp delta_time_ms)))"

definition interpolate_leader_time_ms :: "trajectory_sample list \<Rightarrow> fp \<Rightarrow> fp option" where
  "interpolate_leader_time_ms t progress =
     (if t = [] then None
      else if fp_lt progress (tr_progress_total_m (hd t)) \<or> fp_lt (tr_progress_total_m (last t)) progress then None
      else case search_upper t progress 0 (length t - 1) of
        None \<Rightarrow> None
      | Some upper_idx \<Rightarrow>
          (case get_at t upper_idx of
             None \<Rightarrow> None
           | Some upper \<Rightarrow>
               if fp_le (fp_abs (fp_sub binary64 (tr_progress_total_m upper) progress)) TRAJECTORY_PROGRESS_EPSILON_M
               then Some (elapsed_fp (tr_race_elapsed_ms upper))
               else if upper_idx = 0 then Some (elapsed_fp (tr_race_elapsed_ms upper))
               else map_option (\<lambda>lower. interpolate_between lower upper progress) (get_at t (upper_idx - 1))))"

section \<open>Rows of the official race\<close>

definition gap_from_leader_time :: "u64 \<Rightarrow> fp \<Rightarrow> u32" where
  "gap_from_leader_time race_elapsed_ms leader_time_ms =
     fp_to_u32 (fp_min (fp_max (fp_sub binary64 (elapsed_fp race_elapsed_ms) leader_time_ms) (Fin 0))
       (fp_of_int binary64 (2 ^ 32 - 1)))"

text \<open>The row of one car behind the leader, with the gaps computed last.\<close>

definition active_row ::
  "u64 \<Rightarrow> active_sample \<Rightarrow> trajectory_sample list option \<Rightarrow> bool \<Rightarrow> active_sample \<Rightarrow> (u64, u32) hmap
    \<Rightarrow> official_row \<times> (u64, u32) hmap" where
  "active_row race_elapsed_ms leader leader_trajectory leader_has_motion sample gaps =
     (let row = as_row sample; car_id = or_car_id row in
      if car_id = or_car_id (as_row leader)
      then (row\<lparr>or_laps_behind := 0, or_gap_to_leader_ms := Some 0\<rparr>, gaps)
      else
        let hide = as_hide_gap_to_leader sample;
            laps_behind = sat_sub (as_completed_laps leader) (as_completed_laps sample);
            gap_ms = (if hide then None
                      else if laps_behind > GAP_DISABLED_LAPS_BEHIND_THRESHOLD then None
                      else if \<not> leader_has_motion then Some 0
                      else case Option.bind leader_trajectory
                                  (\<lambda>t. interpolate_leader_time_ms t (as_progress_total_m sample)) of
                             Some leader_time_ms \<Rightarrow> Some (gap_from_leader_time race_elapsed_ms leader_time_ms)
                           | None \<Rightarrow> hm_get gaps car_id);
            gaps1 = (if hide then hm_remove car_id gaps else gaps);
            gaps2 = (case gap_ms of None \<Rightarrow> gaps1 | Some g \<Rightarrow> hm_insert car_id g gaps1)
        in (row\<lparr>or_laps_behind := laps_behind, or_gap_to_leader_ms := gap_ms\<rparr>, gaps2))"

fun active_rows_loop ::
  "(active_sample \<Rightarrow> (u64, u32) hmap \<Rightarrow> official_row \<times> (u64, u32) hmap) \<Rightarrow> active_sample list \<Rightarrow> (u64, u32) hmap
    \<Rightarrow> official_row list \<times> (u64, u32) hmap" where
  "active_rows_loop f [] gaps = ([], gaps)"
| "active_rows_loop f (s # ss) gaps =
     (let (row, gaps1) = f s gaps; (rows, gaps2) = active_rows_loop f ss gaps1 in (row # rows, gaps2))"

definition compute_active_rows ::
  "u64 \<Rightarrow> active_sample list \<Rightarrow> official_cache \<Rightarrow> official_row list \<times> official_cache" where
  "compute_active_rows race_elapsed_ms entries cache =
     (case entries of
        [] \<Rightarrow> ([], cache)
      | leader # _ \<Rightarrow>
          let leader_trajectory = hm_get (oc_car_trajectories cache) (or_car_id (as_row leader));
              leader_has_motion = ((case leader_trajectory of None \<Rightarrow> False | Some t \<Rightarrow> 2 \<le> length t) \<and>
                fp_lt START_PROGRESS_MOVED_EPSILON_M (as_progress_total_m leader));
              (rows, gaps) = active_rows_loop (active_row race_elapsed_ms leader leader_trajectory leader_has_motion)
                               entries (oc_last_computed_gap_ms cache)
          in (rows, cache\<lparr>oc_last_computed_gap_ms := gaps\<rparr>))"

definition archive_rows ::
  "(entry_status \<Rightarrow> i32) \<Rightarrow> u64 list \<Rightarrow> (u64, official_row) hmap \<Rightarrow> (u64, official_row) hmap \<Rightarrow> (u64, official_row) hmap" where
  "archive_rows code ids last_rows archived =
     fold (\<lambda>(car_id, row) m. if car_id \<in> set ids then m
            else if hm_get m car_id = None then hm_insert car_id (row\<lparr>or_status := code EntryDnf\<rparr>) m else m)
       last_rows (fold hm_remove ids archived)"

definition number_row :: "(entry_status \<Rightarrow> i32) \<Rightarrow> nat \<Rightarrow> nat \<Rightarrow> official_row \<Rightarrow> official_row" where
  "number_row code active_count idx row =
     (let row1 = row\<lparr>or_position := of_nat (idx + 1),
                     or_status := code (if idx < active_count then EntryActive else EntryDnf)\<rparr>
      in if active_count \<le> idx then row1\<lparr>or_in_pit := False\<rparr> else row1)"

definition forget_old_race :: "u64 \<Rightarrow> official_cache \<Rightarrow> official_cache" where
  "forget_old_race race_elapsed_ms cache =
     (let cache1 = (case oc_last_race_elapsed_ms cache of
                      None \<Rightarrow> cache
                    | Some prev \<Rightarrow> if race_elapsed_ms + 100 < prev then reset_runtime_progress cache else cache)
      in cache1\<lparr>oc_last_race_elapsed_ms := Some race_elapsed_ms\<rparr>)"

definition compute_official_rows_with_cache ::
  "(entry_status \<Rightarrow> i32) \<Rightarrow> string \<Rightarrow> u64 \<Rightarrow> active_sample list \<Rightarrow> official_cache \<Rightarrow> official_row list \<times> official_cache" where
  "compute_official_rows_with_cache code session_marker race_elapsed_ms entries cache =
     (let cache1 = forget_old_race race_elapsed_ms (reset_if_session_changed session_marker cache);
          ids = map (\<lambda>s. or_car_id (as_row s)) entries;
          (entries1, cache2) = normalize_active_progress_from_start cache1 entries ids;
          entries2 = sort_active_entries entries1;
          cache3 = update_car_trajectories cache2 race_elapsed_ms entries2 ids;
          (active_rows, cache4) = compute_active_rows race_elapsed_ms entries2 cache3;
          archived = archive_rows code ids (oc_last_active_rows cache4) (oc_archived_dnf_rows cache4);
          cache5 = cache4\<lparr>oc_last_computed_gap_ms := hm_retain (\<lambda>c. c \<in> set ids) (oc_last_computed_gap_ms cache4),
                          oc_car_start_progress_m := hm_retain (\<lambda>c. c \<in> set ids) (oc_car_start_progress_m cache4),
                          oc_archived_dnf_rows := archived,
                          oc_last_active_rows := fold (\<lambda>row m. hm_insert (or_car_id row) row m) active_rows []\<rparr>;
          dnf_rows = sort_by (\<lambda>left right. cmp_u64 (or_car_id left) (or_car_id right)) (hm_values archived);
          rows = active_rows @ dnf_rows
      in (map (\<lambda>(idx, row). number_row code (length active_rows) idx row) (zip [0..<length rows] rows), cache5))"

section \<open>Snapshots\<close>

record local_bot_identity =
  lb_user_id :: string
  lb_username :: string
  lb_bot_index :: u32

datatype sandbox_identity = TeamIdentity team_identity | LocalBotIdentity local_bot_identity

record sandbox_row =
  sr_car_id :: u64
  sr_identity :: "sandbox_identity option"

record local_row =
  lw_car_id :: u64
  lw_participant :: "participant_identity option"
  lw_position :: u32
  lw_gap_to_leader_ms :: "u32 option"
  lw_laps_behind :: u32
  lw_in_pit :: bool
  lw_status :: i32

datatype table_snapshot =
    SandboxSnapshot string "sandbox_row list" | OfficialSnapshot "official_row list" | LocalRaceSnapshot string "local_row list"

text \<open>What a request reads: the latest frame, the store, the local race and the team names, if they can be fetched.\<close>

record table_input =
  tin_frame :: runtime_frame
  tin_store :: runtime_store
  tin_race :: local_race_state
  tin_team_names :: "(string, string) hmap option"

fun matches_sandbox_target :: "string \<Rightarrow> command_target \<Rightarrow> bool" where
  "matches_sandbox_target sandbox_id (TargetSandbox car_sandbox_id) = (sandbox_id = car_sandbox_id)"
| "matches_sandbox_target sandbox_id _ = False"

definition car_label :: "u64 \<Rightarrow> string" where
  "car_label car_id = ''car-'' @ dec_nat (unat car_id)"

definition bot_identity :: "u64 \<Rightarrow> runtime_car_identity option \<Rightarrow> sandbox_identity" where
  "bot_identity car_id identity =
     (let user_id = (case Option.bind identity id_subject of None \<Rightarrow> car_label car_id | Some sub \<Rightarrow> sub);
          bot_index = (case Option.bind identity id_local_bot_index of
                         None \<Rightarrow> ucast (min car_id (2 ^ 32 - 1)) | Some i \<Rightarrow> i)
      in LocalBotIdentity \<lparr>lb_user_id = user_id, lb_username = user_id, lb_bot_index = bot_index\<rparr>)"

definition identity_for_sandbox_entry :: "features \<Rightarrow> u64 \<Rightarrow> runtime_car_identity option \<Rightarrow> sandbox_identity" where
  "identity_for_sandbox_entry fs car_id identity =
     (if local_mode fs \<and> \<not> official fs then bot_identity car_id identity
      else case Option.bind identity id_team_id of
             Some team_id \<Rightarrow> TeamIdentity \<lparr>ti_team_id = team_id, ti_team_name = team_id\<rparr>
           | None \<Rightarrow> bot_identity car_id identity)"

definition build_sandbox_snapshot :: "features \<Rightarrow> string \<Rightarrow> runtime_store \<Rightarrow> table_snapshot" where
  "build_sandbox_snapshot fs sandbox_id st =
     SandboxSnapshot sandbox_id
       (map (\<lambda>car_id. \<lparr>sr_car_id = car_id,
               sr_identity = Some (identity_for_sandbox_entry fs car_id (car_identity car_id st))\<rparr>)
         (filter (\<lambda>car_id. case car_target car_id st of
                     None \<Rightarrow> False | Some target \<Rightarrow> matches_sandbox_target sandbox_id target)
           (known_car_ids st)))"

definition lap_length_of :: "fp option \<Rightarrow> fp" where
  "lap_length_of l = fp_convert binary64 (fp_max (case l of None \<Rightarrow> Fin 1 | Some x \<Rightarrow> x) (Fin 1))"

definition race_elapsed_of :: "fp option \<Rightarrow> u64" where
  "race_elapsed_of d =
     (case d of None \<Rightarrow> 0 | Some duration_s \<Rightarrow> fp_to_u64 (fp_mul binary32 (fp_max duration_s (Fin 0)) (Fin 1000)))"

definition build_official_race_snapshot ::
  "(entry_status \<Rightarrow> i32) \<Rightarrow> runtime_state \<Rightarrow> runtime_frame \<Rightarrow> official_cache \<Rightarrow> table_snapshot \<times> official_cache" where
  "build_official_race_snapshot code rt frame cache =
     (let entries = collect_official_active_entries code frame (lap_length_of (fr_official_lap_length_m frame));
          (rows, cache1) = compute_official_rows_with_cache code (''official-race:'' @ rt_map_id rt)
                             (race_elapsed_of (fr_official_race_duration_s frame)) entries cache
      in (OfficialSnapshot rows, cache1))"

definition local_participant ::
  "features \<Rightarrow> local_race_state \<Rightarrow> u64 \<Rightarrow> runtime_car_identity option \<Rightarrow> participant_identity option" where
  "local_participant fs race car_id identity =
     (case identity of
        Some i \<Rightarrow> Some \<lparr>pi_display_name = (case id_local_race_display_name i of None \<Rightarrow> car_label car_id | Some n \<Rightarrow> n),
                        pi_participant_index = (case id_local_race_participant_index i of None \<Rightarrow> 0 | Some p \<Rightarrow> p)\<rparr>
      | None \<Rightarrow> if local_mode fs then Local_Race_State.participant_identity car_id race else None)"

definition local_entries ::
  "features \<Rightarrow> (entry_status \<Rightarrow> i32) \<Rightarrow> local_race_state \<Rightarrow> string \<Rightarrow> runtime_frame \<Rightarrow> (u32 \<times> fp \<times> local_row) list" where
  "local_entries fs code race race_id frame =
     (let lap_length = lap_length_of (hm_get (fr_local_race_lap_length_m frame) race_id)
      in List.map_filter (\<lambda>car. if cf_target car \<noteq> TargetLocalRace race_id then None
           else map_option (\<lambda>metrics.
             (completed_laps metrics, progress_total (completed_laps metrics) lap_length (lap_progress_m metrics),
              \<lparr>lw_car_id = cf_public_car_id car,
               lw_participant = local_participant fs race (cf_public_car_id car) (cf_identity car),
               lw_position = 0, lw_gap_to_leader_ms = None, lw_laps_behind = 0,
               lw_in_pit = has_zone (vs_pitstop_state (cf_state car)) ZoneFix, lw_status = code EntryActive\<rparr>))
             (cf_race_metrics car))
         (hm_values (fr_cars frame)))"

definition build_local_race_snapshot ::
  "features \<Rightarrow> (entry_status \<Rightarrow> i32) \<Rightarrow> local_race_state \<Rightarrow> string \<Rightarrow> runtime_frame \<Rightarrow> table_snapshot" where
  "build_local_race_snapshot fs code race race_id frame =
     (let entries = sort_by (\<lambda>(_, lp, lr) (_, rp, rr). compare_progress (lp, lw_car_id lr) (rp, lw_car_id rr))
                      (local_entries fs code race race_id frame);
          leader_laps = (case entries of [] \<Rightarrow> 0 | e # _ \<Rightarrow> fst e)
      in LocalRaceSnapshot race_id
           (map (\<lambda>(idx, laps, _, row).
               row\<lparr>lw_position := of_nat (idx + 1), lw_laps_behind := sat_sub leader_laps laps,
                   lw_gap_to_leader_ms := (if idx = 0 then Some 0 else None)\<rparr>)
             (zip [0..<length entries] entries)))"

definition TEAM_NAME_FETCH_FAILED :: string where "TEAM_NAME_FETCH_FAILED = ''failed to fetch''"

definition resolve_team_name :: "string \<Rightarrow> (string, string) hmap option \<Rightarrow> string" where
  "resolve_team_name team_id team_names =
     (case Option.bind team_names (\<lambda>m. hm_get m team_id) of None \<Rightarrow> TEAM_NAME_FETCH_FAILED | Some n \<Rightarrow> n)"

definition name_team :: "(string, string) hmap option \<Rightarrow> team_identity \<Rightarrow> team_identity" where
  "name_team team_names team = team\<lparr>ti_team_name := resolve_team_name (ti_team_id team) team_names\<rparr>"

fun apply_team_names :: "(string, string) hmap option \<Rightarrow> table_snapshot \<Rightarrow> table_snapshot" where
  "apply_team_names team_names (OfficialSnapshot rows) =
     OfficialSnapshot (map (\<lambda>row. row\<lparr>or_team := map_option (name_team team_names) (or_team row)\<rparr>) rows)"
| "apply_team_names team_names (SandboxSnapshot sandbox_id rows) =
     SandboxSnapshot sandbox_id (map (\<lambda>row. case sr_identity row of
         Some (TeamIdentity team) \<Rightarrow> row\<lparr>sr_identity := Some (TeamIdentity (name_team team_names team))\<rparr>
       | _ \<Rightarrow> row) rows)"
| "apply_team_names team_names (LocalRaceSnapshot race_id rows) = LocalRaceSnapshot race_id rows"

section \<open>Requests\<close>

text \<open>The target of a request; the message and the choice inside it are both optional.\<close>

definition parse_required_target :: "table_target option option \<Rightarrow> (status, table_target) result" where
  "parse_required_target target =
     (case target of
        Some (Some (TableSandbox sandbox_id)) \<Rightarrow>
          if trim sandbox_id = [] then invalid_argument ''race table sandbox target requires non-empty sandbox_id''
          else Inr (TableSandbox (trim sandbox_id))
      | Some (Some TableOfficialRace) \<Rightarrow> Inr TableOfficialRace
      | Some (Some (TableLocalRace race_id)) \<Rightarrow>
          if trim race_id = [] then invalid_argument ''race table local race target requires non-empty race_id''
          else Inr (TableLocalRace (trim race_id))
      | _ \<Rightarrow> invalid_argument ''race table target is required'')"

fun ensure_target_supported :: "features \<Rightarrow> table_target \<Rightarrow> (status, unit) result" where
  "ensure_target_supported fs TableOfficialRace =
     (if local_mode fs \<and> \<not> official fs
      then Inl (Status CodeUnimplemented ''official race-table target is not supported by local backend mode'') else Inr ())"
| "ensure_target_supported fs (TableLocalRace _) =
     (if \<not> local_mode fs
      then Inl (Status CodeUnimplemented ''local race-table target is supported only by local backend mode'') else Inr ())"
| "ensure_target_supported fs (TableSandbox _) = Inr ()"

fun ensure_target_active :: "runtime_state \<Rightarrow> table_target \<Rightarrow> (status, unit) result" where
  "ensure_target_active rt (TableSandbox sandbox_id) =
     (if list_ex (\<lambda>e. sb_sandbox_id e = sandbox_id) (rt_active_sandboxes rt) then Inr ()
      else Inl (Status CodeNotFound ''active sandbox session was not found for race-table target''))"
| "ensure_target_active rt TableOfficialRace =
     (if rt_activity_kind rt \<noteq> ActOfficialRace
      then Inl (Status CodeNotFound ''official race session is not active for race-table target'') else Inr ())"
| "ensure_target_active rt (TableLocalRace race_id) =
     (if map_option lr_race_id (rt_active_local_race rt) \<noteq> Some race_id
      then Inl (Status CodeNotFound ''active local race session was not found for race-table target'') else Inr ())"

definition build_target_snapshot ::
  "features \<Rightarrow> (entry_status \<Rightarrow> i32) \<Rightarrow> table_input \<Rightarrow> runtime_state \<Rightarrow> table_target \<Rightarrow> official_cache
    \<Rightarrow> table_snapshot \<times> official_cache" where
  "build_target_snapshot fs code i rt target cache =
     (case target of
        TableSandbox sandbox_id \<Rightarrow> (build_sandbox_snapshot fs sandbox_id (tin_store i), cache)
      | TableOfficialRace \<Rightarrow> build_official_race_snapshot code rt (tin_frame i) cache
      | TableLocalRace race_id \<Rightarrow> (build_local_race_snapshot fs code (tin_race i) race_id (tin_frame i), cache))"

definition build_snapshot ::
  "features \<Rightarrow> (entry_status \<Rightarrow> i32) \<Rightarrow> table_input \<Rightarrow> table_target \<Rightarrow> official_cache
    \<Rightarrow> (status, table_snapshot) result \<times> official_cache" where
  "build_snapshot fs code i target cache =
     (case ensure_target_supported fs target of
        Inl e \<Rightarrow> (Inl e, cache)
      | Inr _ \<Rightarrow>
          (case fr_runtime_state (tin_frame i) of
             None \<Rightarrow> (Inl (Status CodeNotFound ''runtime state is unavailable''), cache)
           | Some rt \<Rightarrow>
               (case ensure_target_active rt target of
                  Inl e \<Rightarrow> (Inl e, cache)
                | Inr _ \<Rightarrow>
                    let (snap, cache1) = build_target_snapshot fs code i rt target cache
                    in (Inr (if official fs then apply_team_names (tin_team_names i) snap else snap), cache1))))"

definition get_race_table ::
  "features \<Rightarrow> (entry_status \<Rightarrow> i32) \<Rightarrow> table_input \<Rightarrow> table_target option option \<Rightarrow> official_cache
    \<Rightarrow> (status, table_snapshot) result \<times> official_cache" where
  "get_race_table fs code i target cache =
     (case parse_required_target target of Inl e \<Rightarrow> (Inl e, cache) | Inr t \<Rightarrow> build_snapshot fs code i t cache)"

text \<open>
  The stream: a snapshot at once, and then at every tick one that differs from the last, until
  one fails. The inputs are those of the ticks until the client goes away.
\<close>

fun stream_loop ::
  "features \<Rightarrow> (entry_status \<Rightarrow> i32) \<Rightarrow> table_target \<Rightarrow> table_input list \<Rightarrow> table_snapshot option \<Rightarrow> official_cache
    \<Rightarrow> (status, table_snapshot) result list \<times> official_cache" where
  "stream_loop fs code target [] latest cache = ([], cache)"
| "stream_loop fs code target (i # is) latest cache =
     (case build_snapshot fs code i target cache of
        (Inl e, cache1) \<Rightarrow> ([Inl e], cache1)
      | (Inr snap, cache1) \<Rightarrow>
          if latest \<noteq> Some snap then
            let (events, cache2) = stream_loop fs code target is (Some snap) cache1 in (Inr snap # events, cache2)
          else stream_loop fs code target is latest cache1)"

definition stream_race_table ::
  "features \<Rightarrow> (entry_status \<Rightarrow> i32) \<Rightarrow> table_target option option \<Rightarrow> table_input list \<Rightarrow> official_cache
    \<Rightarrow> (status, (status, table_snapshot) result list) result \<times> official_cache" where
  "stream_race_table fs code target is cache =
     (case parse_required_target target of
        Inl e \<Rightarrow> (Inl e, cache)
      | Inr t \<Rightarrow> let (events, cache1) = stream_loop fs code t is None cache in (Inr events, cache1))"

end
