(* ===== verification/Race_Table_Contract.thy ===== *)
theory Race_Table_Contract
  imports Race_Table "HOL-Library.Multiset"
begin

text \<open>
  What the race table promises: the standings are ordered and list every car of the session
  once, the trajectories only ever grow, and the binary search over a trajectory finds what a
  linear scan finds.
\<close>

section \<open>Comparisons\<close>

text \<open>A comparison that orders the elements of a domain totally; the laws that sorting relies on.\<close>

locale cmp_order =
  fixes cmp :: "'a \<Rightarrow> 'a \<Rightarrow> ordering" and dom :: "'a \<Rightarrow> bool"
  assumes total: "dom x \<Longrightarrow> dom y \<Longrightarrow> cmp x y = Greater \<Longrightarrow> cmp y x \<noteq> Greater"
    and trans: "dom x \<Longrightarrow> dom y \<Longrightarrow> dom z \<Longrightarrow> cmp x y \<noteq> Greater \<Longrightarrow> cmp y z \<noteq> Greater \<Longrightarrow> cmp x z \<noteq> Greater"
begin

abbreviation le :: "'a \<Rightarrow> 'a \<Rightarrow> bool" where "le x y \<equiv> cmp x y \<noteq> Greater"

lemma mset_insert_by [simp]: "mset (insert_by cmp x xs) = add_mset x (mset xs)"
  by (induction xs) auto

lemma mset_sort_by [simp]: "mset (sort_by cmp xs) = mset xs"
  by (induction xs) (simp_all add: sort_by_def)

lemma set_sort_by [simp]: "set (sort_by cmp xs) = set xs"
  using mset_sort_by mset_eq_setD by blast

lemma insert_by_sorted:
  "sorted_wrt le xs \<Longrightarrow> dom x \<Longrightarrow> \<forall>y\<in>set xs. dom y \<Longrightarrow> sorted_wrt le (insert_by cmp x xs)"
proof (induction xs)
  case (Cons y ys)
  have set: "set (insert_by cmp x ys) = insert x (set ys)" using mset_insert_by by (metis set_mset_add_mset_insert set_mset_mset)
  show ?case
  proof (cases "cmp x y = Greater")
    case True thus ?thesis using Cons total by (auto simp: set)
  next
    case False
    have "le x z" if "z \<in> set ys" for z using trans [of x y z] Cons.prems False that by auto
    thus ?thesis using Cons.prems False by simp
  qed
qed simp

lemma sort_by_sorted: "\<forall>y\<in>set xs. dom y \<Longrightarrow> sorted_wrt le (sort_by cmp xs)"
proof (induction xs)
  case (Cons x xs)
  thus ?case using insert_by_sorted [of "sort_by cmp xs" x] by (simp add: sort_by_def [of _ "_ # _"] flip: sort_by_def)
qed (simp add: sort_by_def)

text \<open>Without ties, the sorted list depends on the elements only and not on their order.\<close>

lemma sorted_unique:
  assumes "sorted_wrt le xs" "sorted_wrt le ys" "mset xs = mset ys"
    and "\<And>x y. x \<in> set xs \<Longrightarrow> y \<in> set xs \<Longrightarrow> le x y \<Longrightarrow> le y x \<Longrightarrow> x = y"
  shows "xs = ys"
  using assms
proof (induction xs arbitrary: ys)
  case (Cons x xs)
  then obtain y ys' where ys: "ys = y # ys'" by (cases ys) auto
  have same: "set (x # xs) = set ys" using Cons.prems(3) mset_eq_setD by blast
  have "x = y"
  proof (rule ccontr)
    assume "x \<noteq> y"
    hence "x \<in> set ys'" "y \<in> set xs" using same ys by auto
    hence "le y x" "le x y" using Cons.prems(1, 2) ys by auto
    thus False using Cons.prems(4) [of x y] \<open>x \<noteq> y\<close> \<open>y \<in> set xs\<close> by auto
  qed
  moreover have "xs = ys'" using Cons.prems ys \<open>x = y\<close> by (intro Cons.IH) auto
  ultimately show ?case by (simp add: ys)
qed simp

end

lemma cmp_u64_le [simp]: "cmp_u64 a b \<noteq> Greater \<longleftrightarrow> a \<le> b"
  by (auto simp: cmp_u64_def)

lemma compare_progress_le:
  assumes "fst l \<noteq> NaN" "fst r \<noteq> NaN"
  shows "compare_progress l r \<noteq> Greater \<longleftrightarrow> fp_lt (fst r) (fst l) \<or> fst l = fst r \<and> snd l \<le> snd r"
proof -
  consider (lt) "fp_lt (fst l) (fst r)" | (eq) "fst l = fst r" | (gt) "fp_lt (fst r) (fst l)"
    using assms fp_lt_linear by blast
  thus ?thesis
  proof cases
    case lt
    hence "\<not> fp_lt (fst r) (fst l)" "fst l \<noteq> fst r" using fp_lt_asym by auto
    thus ?thesis using assms by (simp add: compare_progress_def partial_cmp_def)
  qed (use assms in \<open>simp_all add: compare_progress_def partial_cmp_def\<close>)
qed

definition ahead :: "active_sample \<Rightarrow> active_sample \<Rightarrow> bool" where
  "ahead l r \<longleftrightarrow> fp_lt (as_progress_total_m r) (as_progress_total_m l) \<or>
     as_progress_total_m l = as_progress_total_m r \<and> or_car_id (as_row l) \<le> or_car_id (as_row r)"

lemma standings_le:
  "as_progress_total_m l \<noteq> NaN \<Longrightarrow> as_progress_total_m r \<noteq> NaN \<Longrightarrow>
     compare_progress (standing l) (standing r) \<noteq> Greater \<longleftrightarrow> ahead l r"
  using compare_progress_le [of "standing l" "standing r"] by (simp add: standing_def ahead_def)

lemma ahead_total:
  "as_progress_total_m l \<noteq> NaN \<Longrightarrow> as_progress_total_m r \<noteq> NaN \<Longrightarrow> \<not> ahead l r \<Longrightarrow> ahead r l"
  using fp_lt_linear [of "as_progress_total_m l" "as_progress_total_m r"] by (auto simp: ahead_def)

lemma ahead_trans: "ahead x y \<Longrightarrow> ahead y z \<Longrightarrow> ahead x z"
  by (auto simp: ahead_def intro: fp_lt_trans)

lemma ahead_antisym: "ahead x y \<Longrightarrow> ahead y x \<Longrightarrow> or_car_id (as_row x) = or_car_id (as_row y)"
  by (auto simp: ahead_def dest: fp_lt_asym)

interpretation standings: cmp_order "\<lambda>l r. compare_progress (standing l) (standing r)" "\<lambda>s. as_progress_total_m s \<noteq> NaN"
proof
  fix x y z :: active_sample
  assume nan: "as_progress_total_m x \<noteq> NaN" "as_progress_total_m y \<noteq> NaN"
  thus "compare_progress (standing x) (standing y) = Greater \<Longrightarrow> compare_progress (standing y) (standing x) \<noteq> Greater"
    using standings_le [of x y] standings_le [of y x] ahead_total by blast
  assume "as_progress_total_m z \<noteq> NaN"
  thus "compare_progress (standing x) (standing y) \<noteq> Greater \<Longrightarrow> compare_progress (standing y) (standing z) \<noteq> Greater
      \<Longrightarrow> compare_progress (standing x) (standing z) \<noteq> Greater"
    using nan standings_le ahead_trans by metis
qed

interpretation by_id: cmp_order "\<lambda>l r. cmp_u64 (or_car_id l) (or_car_id r)" "\<lambda>_. True"
  by unfold_locales (auto simp: cmp_u64_def split: if_splits)

section \<open>Samples\<close>

abbreviation car_of :: "active_sample \<Rightarrow> u64" where "car_of s \<equiv> or_car_id (as_row s)"

lemma fp_max_zero: "fp_max x (Fin 0) \<noteq> NaN \<and> fp_le (Fin 0) (fp_max x (Fin 0))"
  by (cases x) (auto simp: fp_max_def fp_le_def)

lemma normalize_samples_keeps:
  "map as_row (fst (normalize_samples ss starts)) = map as_row ss"
  by (induction ss starts rule: normalize_samples.induct) (auto simp: Let_def case_prod_beta)

lemma normalize_samples_progress:
  "s \<in> set (fst (normalize_samples ss starts)) \<Longrightarrow> as_progress_total_m s \<noteq> NaN \<and> fp_le (Fin 0) (as_progress_total_m s)"
  by (induction ss starts rule: normalize_samples.induct) (auto simp: Let_def case_prod_beta fp_max_zero)

definition normalized :: "official_cache \<Rightarrow> active_sample list \<Rightarrow> active_sample list" where
  "normalized cache entries = fst (normalize_active_progress_from_start cache entries (map car_of entries))"

lemma normalized_samples: "normalized cache entries = fst (normalize_samples entries
    (hm_retain (\<lambda>car_id. car_id \<in> car_of ` set entries) (oc_car_start_progress_m cache)))"
  by (simp add: normalized_def normalize_active_progress_from_start_def case_prod_beta Let_def)

lemma normalized_cars: "map car_of (normalized cache entries) = map car_of entries"
  using arg_cong [OF normalize_samples_keeps, of "map or_car_id"] by (simp add: normalized_samples comp_def)

lemma normalized_progress:
  "s \<in> set (normalized cache entries) \<Longrightarrow> as_progress_total_m s \<noteq> NaN \<and> fp_le (Fin 0) (as_progress_total_m s)"
  by (simp add: normalized_samples normalize_samples_progress)

lemma sorted_standings:
  assumes "\<forall>s\<in>set ss. as_progress_total_m s \<noteq> NaN"
  shows "sorted_wrt ahead (sort_active_entries ss)" and "mset (sort_active_entries ss) = mset ss"
proof -
  show m: "mset (sort_active_entries ss) = mset ss" by (simp add: sort_active_entries_def)
  hence "set (sort_active_entries ss) = set ss" using mset_eq_setD by blast
  thus "sorted_wrt ahead (sort_active_entries ss)"
    using standings.sort_by_sorted [OF assms] assms standings_le
    unfolding sort_active_entries_def by (auto elim!: sorted_wrt_mono_rel [rotated])
qed

text \<open>
  The row of a sample: the leader has no gap, the others are behind by the difference in laps,
  and their gap is hidden before they cross the start line and beyond one lap.
\<close>

definition row_of_sample :: "active_sample \<Rightarrow> active_sample \<Rightarrow> official_row \<Rightarrow> bool" where
  "row_of_sample leader s row \<longleftrightarrow> or_car_id row = car_of s \<and> or_team row = or_team (as_row s) \<and>
     (if car_of s = car_of leader then or_laps_behind row = 0 \<and> or_gap_to_leader_ms row = Some 0
      else or_laps_behind row = sat_sub (as_completed_laps leader) (as_completed_laps s) \<and>
        (as_hide_gap_to_leader s \<or> 1 < or_laps_behind row \<longrightarrow> or_gap_to_leader_ms row = None))"

lemma active_row_of_sample: "row_of_sample leader s (fst (active_row e leader t m s gaps))"
  by (auto simp: row_of_sample_def active_row_def Let_def GAP_DISABLED_LAPS_BEHIND_THRESHOLD_def)

lemma active_rows_of_samples:
  "list_all2 (row_of_sample leader) ss (fst (active_rows_loop (active_row e leader t m) ss gaps))"
  by (induction ss arbitrary: gaps) (simp_all add: case_prod_beta Let_def active_row_of_sample)

lemma compute_active_rows_of_samples:
  "list_all2 (row_of_sample (hd ss)) ss (fst (compute_active_rows e ss cache))"
  by (cases ss) (simp_all add: compute_active_rows_def Let_def case_prod_beta active_rows_of_samples active_row_of_sample
      del: active_rows_loop.simps)

lemma rows_of_samples_cars: "list_all2 (row_of_sample leader) ss rows \<Longrightarrow> map or_car_id rows = map car_of ss"
  by (induction rule: list_all2_induct) (simp_all add: row_of_sample_def)

lemma compute_active_rows_cache:
  "\<exists>gaps. snd (compute_active_rows e ss cache) = cache\<lparr>oc_last_computed_gap_ms := gaps\<rparr>"
  by (auto simp: compute_active_rows_def Let_def case_prod_beta split: list.split
      intro: exI [where x = "oc_last_computed_gap_ms cache"])

section \<open>The cars of a session\<close>

definition keyed :: "(u64, official_row) hmap \<Rightarrow> bool" where
  "keyed m \<longleftrightarrow> hm_wf m \<and> (\<forall>k r. hm_get m k = Some r \<longrightarrow> or_car_id r = k)"

lemma keyed_Nil [simp]: "keyed []"
  by (simp add: keyed_def)

lemma keyed_insert: "keyed m \<Longrightarrow> or_car_id r = k \<Longrightarrow> keyed (hm_insert k r m)"
  by (auto simp: keyed_def)

lemma keyed_remove: "keyed m \<Longrightarrow> keyed (hm_remove k m)"
  by (auto simp: keyed_def split: if_splits)

lemma keyed_values: "keyed m \<Longrightarrow> map or_car_id (hm_values m) = hm_keys m"
  by (auto simp: keyed_def hm_values_def hm_keys_def hm_mem_get [symmetric] intro!: map_cong)

lemma hm_keys_Cons: "hm_keys (kv # m) = fst kv # hm_keys m"
  by (simp add: hm_keys_def)

lemma fold_remove_keyed: "keyed m \<Longrightarrow> keyed (fold hm_remove ks m)"
  by (induction ks arbitrary: m) (simp_all add: keyed_remove)

lemma fold_remove_keys: "set (hm_keys (fold hm_remove ks m)) = set (hm_keys m) - set ks"
  by (induction ks arbitrary: m) auto

lemma archive_rows_keyed:
  assumes "keyed last_rows" "keyed archived"
  shows "keyed (archive_rows code ids last_rows archived)" (is "keyed (?A last_rows)")
    and "set (hm_keys (archive_rows code ids last_rows archived)) =
      (set (hm_keys last_rows) \<union> set (hm_keys archived)) - set ids"
proof -
  define f :: "u64 \<times> official_row \<Rightarrow> (u64, official_row) hmap \<Rightarrow> (u64, official_row) hmap"
    where "f = (\<lambda>(car_id, row) m. if car_id \<in> set ids then m
    else if hm_get m car_id = None then hm_insert car_id (row\<lparr>or_status := code EntryDnf\<rparr>) m else m)"
  have step: "keyed (fold f rs m) \<and> set (hm_keys (fold f rs m)) = (set (hm_keys rs) - set ids) \<union> set (hm_keys m)"
    if "\<forall>(k, r)\<in>set rs. or_car_id r = k" "keyed m" for rs m
    using that
  proof (induction rs arbitrary: m)
    case (Cons kr rs)
    have "keyed (f kr m) \<and> set (hm_keys (f kr m)) = ({fst kr} - set ids) \<union> set (hm_keys m)"
      using Cons.prems by (auto simp: f_def keyed_insert set_hm_keys_iff split: prod.split)
    thus ?case using Cons.IH [of "f kr m"] Cons.prems(1) by (auto simp: hm_keys_Cons)
  qed simp
  have "\<forall>(k, r)\<in>set last_rows. or_car_id r = k"
    using assms(1) by (auto simp: keyed_def hm_mem_get)
  from step [OF this fold_remove_keyed [OF assms(2), of ids]]
  show "keyed (archive_rows code ids last_rows archived)"
    and "set (hm_keys (archive_rows code ids last_rows archived)) =
      (set (hm_keys last_rows) \<union> set (hm_keys archived)) - set ids"
    by (auto simp: archive_rows_def f_def fold_remove_keys)
qed

text \<open>
  The abstract table: the session, the clock of the race and the cars seen in the session. A
  request adds the cars that are active; another session or a clock that runs back by more
  than 100 ms starts over.
\<close>

type_synonym table_state = "string option \<times> u64 option \<times> u64 set"

definition table_abs :: "official_cache \<Rightarrow> table_state" where
  "table_abs cache = (oc_session_marker cache, oc_last_race_elapsed_ms cache,
     set (hm_keys (oc_last_active_rows cache)) \<union> set (hm_keys (oc_archived_dnf_rows cache)))"

definition starts_over :: "string \<Rightarrow> u64 \<Rightarrow> table_state \<Rightarrow> bool" where
  "starts_over marker elapsed ts \<longleftrightarrow>
     (case ts of (session, clock, _) \<Rightarrow> session \<noteq> Some marker \<or> (\<exists>prev. clock = Some prev \<and> elapsed + 100 < prev))"

definition table_request :: "string \<Rightarrow> u64 \<Rightarrow> u64 set \<Rightarrow> table_state \<Rightarrow> table_state" where
  "table_request marker elapsed active ts =
     (Some marker, Some elapsed, (if starts_over marker elapsed ts then {} else snd (snd ts)) \<union> active)"

definition fresh_cache :: "string \<Rightarrow> u64 \<Rightarrow> official_cache \<Rightarrow> official_cache" where
  "fresh_cache marker elapsed cache = forget_old_race elapsed (reset_if_session_changed marker cache)"

lemmas reset_defs = fresh_cache_def forget_old_race_def reset_if_session_changed_def reset_runtime_progress_def

definition rows_keyed :: "official_cache \<Rightarrow> bool" where
  "rows_keyed cache \<longleftrightarrow> keyed (oc_last_active_rows cache) \<and> keyed (oc_archived_dnf_rows cache)"

lemma fresh_cache_keyed: "rows_keyed cache \<Longrightarrow> rows_keyed (fresh_cache marker elapsed cache)"
  by (auto simp: rows_keyed_def reset_defs Let_def split: option.split)

lemma fresh_cache_abs: "table_abs (fresh_cache marker elapsed cache) = table_request marker elapsed {} (table_abs cache)"
  by (auto simp: table_abs_def table_request_def starts_over_def reset_defs Let_def hm_keys_def split: option.split)

text \<open>The parts of a request.\<close>

definition sorted_samples :: "string \<Rightarrow> u64 \<Rightarrow> active_sample list \<Rightarrow> official_cache \<Rightarrow> active_sample list" where
  "sorted_samples marker elapsed entries cache =
     sort_active_entries (normalized (fresh_cache marker elapsed cache) entries)"

definition dnf_rows :: "(entry_status \<Rightarrow> i32) \<Rightarrow> string \<Rightarrow> u64 \<Rightarrow> active_sample list \<Rightarrow> official_cache \<Rightarrow> (u64, official_row) hmap" where
  "dnf_rows code marker elapsed entries cache =
     (let c = fresh_cache marker elapsed cache
      in archive_rows code (map car_of entries) (oc_last_active_rows c) (oc_archived_dnf_rows c))"

lemma compute_parts:
  obtains active where
    "list_all2 (row_of_sample (hd (sorted_samples marker elapsed entries cache)))
       (sorted_samples marker elapsed entries cache) active"
    "fst (compute_official_rows_with_cache code marker elapsed entries cache) =
       (let rows = active @ sort_by (\<lambda>l r. cmp_u64 (or_car_id l) (or_car_id r)) (hm_values (dnf_rows code marker elapsed entries cache))
        in map (\<lambda>(idx, row). number_row code (length active) idx row) (zip [0..<length rows] rows))"
    "oc_last_active_rows (snd (compute_official_rows_with_cache code marker elapsed entries cache)) =
       fold (\<lambda>row m. hm_insert (or_car_id row) row m) active []"
    "oc_archived_dnf_rows (snd (compute_official_rows_with_cache code marker elapsed entries cache)) =
       dnf_rows code marker elapsed entries cache"
    "oc_session_marker (snd (compute_official_rows_with_cache code marker elapsed entries cache)) = Some marker"
    "oc_last_race_elapsed_ms (snd (compute_official_rows_with_cache code marker elapsed entries cache)) = Some elapsed"
proof -
  define c1 where "c1 = fresh_cache marker elapsed cache"
  define n where "n = normalize_active_progress_from_start c1 entries (map car_of entries)"
  define ss where "ss = sort_active_entries (fst n)"
  define c3 where "c3 = update_car_trajectories (snd n) elapsed ss (map car_of entries)"
  define a where "a = compute_active_rows elapsed ss c3"
  have samples: "ss = sorted_samples marker elapsed entries cache"
    by (simp add: ss_def n_def sorted_samples_def normalized_def c1_def)
  obtain gaps where gaps: "snd a = c3\<lparr>oc_last_computed_gap_ms := gaps\<rparr>"
    unfolding a_def using compute_active_rows_cache by blast
  have kept: "oc_last_active_rows (snd a) = oc_last_active_rows c1" "oc_archived_dnf_rows (snd a) = oc_archived_dnf_rows c1"
    "oc_session_marker (snd a) = Some marker" "oc_last_race_elapsed_ms (snd a) = Some elapsed"
    using fresh_cache_abs [of marker elapsed cache]
    by (simp_all add: gaps c3_def update_car_trajectories_def n_def normalize_active_progress_from_start_def
        case_prod_beta Let_def c1_def table_abs_def table_request_def)
  have parts: "compute_official_rows_with_cache code marker elapsed entries cache =
      (let archived = dnf_rows code marker elapsed entries cache;
           rows = fst a @ sort_by (\<lambda>l r. cmp_u64 (or_car_id l) (or_car_id r)) (hm_values archived)
       in (map (\<lambda>(idx, row). number_row code (length (fst a)) idx row) (zip [0..<length rows] rows),
           (snd a)\<lparr>oc_last_computed_gap_ms := hm_retain (\<lambda>c. c \<in> set (map car_of entries)) (oc_last_computed_gap_ms (snd a)),
                   oc_car_start_progress_m := hm_retain (\<lambda>c. c \<in> set (map car_of entries)) (oc_car_start_progress_m (snd a)),
                   oc_archived_dnf_rows := archived,
                   oc_last_active_rows := fold (\<lambda>row m. hm_insert (or_car_id row) row m) (fst a) []\<rparr>))"
    by (simp add: compute_official_rows_with_cache_def case_prod_beta Let_def dnf_rows_def kept(1, 2) [unfolded c1_def]
        flip: c1_def [unfolded fresh_cache_def] n_def ss_def c3_def a_def)
  have "list_all2 (row_of_sample (hd (sorted_samples marker elapsed entries cache)))
      (sorted_samples marker elapsed entries cache) (fst a)"
    by (simp add: a_def compute_active_rows_of_samples samples)
  thus thesis by (rule that [of "fst a"]) (simp_all add: parts kept Let_def)
qed

lemma sorted_samples_facts:
  "sorted_wrt ahead (sorted_samples marker elapsed entries cache)"
  "mset (sorted_samples marker elapsed entries cache) = mset (normalized (fresh_cache marker elapsed cache) entries)"
  "mset (map car_of (sorted_samples marker elapsed entries cache)) = mset (map car_of entries)"
proof -
  let ?n = "normalized (fresh_cache marker elapsed cache) entries"
  have nan: "\<forall>s\<in>set ?n. as_progress_total_m s \<noteq> NaN" using normalized_progress by blast
  show "sorted_wrt ahead (sorted_samples marker elapsed entries cache)"
    and m: "mset (sorted_samples marker elapsed entries cache) = mset ?n"
    unfolding sorted_samples_def using sorted_standings [OF nan] by blast+
  show "mset (map car_of (sorted_samples marker elapsed entries cache)) = mset (map car_of entries)"
    using m normalized_cars by (metis mset_map)
qed

lemma number_row_keeps [simp]:
  "or_car_id (number_row code n idx row) = or_car_id row" "or_team (number_row code n idx row) = or_team row"
  "or_laps_behind (number_row code n idx row) = or_laps_behind row"
  "or_gap_to_leader_ms (number_row code n idx row) = or_gap_to_leader_ms row"
  by (simp_all add: number_row_def Let_def)

lemma row_of_sample_numbered [simp]: "row_of_sample leader s (number_row code n idx row) = row_of_sample leader s row"
  by (simp add: row_of_sample_def)

lemma numbered_rows:
  "map or_car_id (map (\<lambda>(idx, row). number_row code n idx row) (zip [k..<k + length rows] rows)) = map or_car_id rows"
  by (rule nth_equalityI) simp_all

lemma inserted_rows:
  assumes "keyed m"
  shows "keyed (fold (\<lambda>row m. hm_insert (or_car_id row) row m) rows m) \<and>
    set (hm_keys (fold (\<lambda>row m. hm_insert (or_car_id row) row m) rows m)) = set (map or_car_id rows) \<union> set (hm_keys m)"
  using assms by (induction rows arbitrary: m) (simp_all add: keyed_insert)

lemma dnf_rows_facts:
  assumes "rows_keyed cache"
  shows "keyed (dnf_rows code marker elapsed entries cache)"
    and "set (hm_keys (dnf_rows code marker elapsed entries cache)) =
      snd (snd (table_request marker elapsed {} (table_abs cache))) - set (map car_of entries)"
  using archive_rows_keyed fresh_cache_keyed [OF assms, of marker elapsed] fresh_cache_abs [of marker elapsed cache, symmetric]
  by (simp_all add: dnf_rows_def Let_def rows_keyed_def table_abs_def)

text \<open>A request refines the abstract one.\<close>

lemma compute_refines:
  assumes "rows_keyed cache"
    and "cache' = snd (compute_official_rows_with_cache code marker elapsed entries cache)"
  shows "rows_keyed cache'"
    and "table_abs cache' = table_request marker elapsed (set (map car_of entries)) (table_abs cache)"
proof -
  obtain active where parts:
    "list_all2 (row_of_sample (hd (sorted_samples marker elapsed entries cache))) (sorted_samples marker elapsed entries cache) active"
    "oc_last_active_rows cache' = fold (\<lambda>row m. hm_insert (or_car_id row) row m) active []"
    "oc_archived_dnf_rows cache' = dnf_rows code marker elapsed entries cache"
    "oc_session_marker cache' = Some marker" "oc_last_race_elapsed_ms cache' = Some elapsed"
    unfolding assms(2) by (rule compute_parts [of marker elapsed entries cache code])
  have cars: "set (map or_car_id active) = set (map car_of entries)"
    using rows_of_samples_cars [OF parts(1)] sorted_samples_facts(3) mset_eq_setD by metis
  note active = inserted_rows [OF keyed_Nil, of active, unfolded cars]
  show "rows_keyed cache'" using active dnf_rows_facts(1) [OF assms(1)] by (simp add: rows_keyed_def parts)
  have "set (hm_keys (oc_last_active_rows cache')) = set (map car_of entries)" using active by (simp add: parts(2))
  thus "table_abs cache' = table_request marker elapsed (set (map car_of entries)) (table_abs cache)"
    using dnf_rows_facts(2) [OF assms(1), of code marker elapsed entries]
    by (auto simp: table_abs_def [of cache'] parts table_request_def)
qed

lemma compute_rows:
  assumes "rows_keyed cache" "distinct (map car_of entries)"
  obtains active dnf where
    "fst (compute_official_rows_with_cache code marker elapsed entries cache) =
       map (\<lambda>(idx, row). number_row code (length entries) idx row) (zip [0..<length (active @ dnf)] (active @ dnf))"
    "list_all2 (row_of_sample (hd (sorted_samples marker elapsed entries cache)))
       (sorted_samples marker elapsed entries cache) active"
    "length active = length entries" "set (map or_car_id active) = set (map car_of entries)"
    "set (map or_car_id dnf) = snd (snd (table_request marker elapsed {} (table_abs cache))) - set (map car_of entries)"
    "distinct (map or_car_id (active @ dnf))" "sorted (map or_car_id dnf)"
proof -
  let ?ss = "sorted_samples marker elapsed entries cache" and ?m = "dnf_rows code marker elapsed entries cache"
  obtain active where parts: "list_all2 (row_of_sample (hd ?ss)) ?ss active"
    "fst (compute_official_rows_with_cache code marker elapsed entries cache) =
       (let rows = active @ sort_by (\<lambda>l r. cmp_u64 (or_car_id l) (or_car_id r)) (hm_values ?m)
        in map (\<lambda>(idx, row). number_row code (length active) idx row) (zip [0..<length rows] rows))"
    by (rule compute_parts [of marker elapsed entries cache code])
  define dnf where "dnf = sort_by (\<lambda>l r. cmp_u64 (or_car_id l) (or_car_id r)) (hm_values ?m)"
  have cars: "mset (map or_car_id active) = mset (map car_of entries)"
    using rows_of_samples_cars [OF parts(1)] sorted_samples_facts(3) by metis
  hence active: "length active = length entries" "set (map or_car_id active) = set (map car_of entries)"
    "distinct (map or_car_id active)"
    using assms(2) mset_eq_setD mset_eq_length mset_eq_imp_distinct_iff by (metis length_map)+
  note keyed = dnf_rows_facts [OF assms(1), of code marker elapsed entries]
  have "mset (map or_car_id dnf) = mset (map or_car_id (hm_values ?m))" by (simp add: dnf_def)
  hence dnf: "set (map or_car_id dnf) = set (hm_keys ?m)" "distinct (map or_car_id dnf)"
    using keyed_values [OF keyed(1)] keyed(1) mset_eq_setD mset_eq_imp_distinct_iff
    by (metis, metis keyed_def hm_wf_def)
  have "sorted (map or_car_id dnf)"
    using by_id.sort_by_sorted [of "hm_values ?m"] by (simp add: dnf_def sorted_map)
  moreover have "distinct (map or_car_id (active @ dnf))" using active dnf keyed(2) by auto
  ultimately show thesis
    by (intro that [OF _ parts(1) active(1, 2) dnf(1) [unfolded keyed(2)]])
       (simp_all add: parts(2) Let_def active(1) flip: dnf_def)
qed

section \<open>Trajectories grow\<close>

definition before :: "trajectory_sample \<Rightarrow> trajectory_sample \<Rightarrow> bool" where
  "before p q \<longleftrightarrow> fp_lt (tr_progress_total_m p) (tr_progress_total_m q) \<and> tr_race_elapsed_ms p < tr_race_elapsed_ms q"

definition grows :: "trajectory_sample list \<Rightarrow> bool" where
  "grows t \<longleftrightarrow> t \<noteq> [] \<and> sorted_wrt before t \<and>
     (\<forall>p\<in>set t. tr_progress_total_m p \<noteq> NaN \<and> fp_le (Fin 0) (tr_progress_total_m p))"

lemma before_trans: "before p q \<Longrightarrow> before q r \<Longrightarrow> before p r"
  by (auto simp: before_def intro: fp_lt_trans)

lemma drop_old_increasing: "grows t \<Longrightarrow> grows (drop_old min_keep t)"
  by (induction min_keep t rule: drop_old.induct) (auto simp: grows_def)

lemma append_increasing:
  assumes "sorted_wrt before t" "\<forall>p\<in>set t. tr_progress_total_m p \<noteq> NaN" "t \<noteq> []" "before (last t) q"
  shows "sorted_wrt before (t @ [q])"
proof -
  have "before p q" if "p \<in> set t" for p
  proof -
    have "p = last t \<or> before p (last t)"
      using that assms(1, 3) by (metis append_butlast_last_id in_set_conv_decomp_last last_in_set
          sorted_wrt_append set_ConsD list.set_intros(1) Un_iff set_append empty_iff list.set(1))
    thus ?thesis using assms(4) before_trans by blast
  qed
  thus ?thesis using assms(1) by (simp add: sorted_wrt_append)
qed

lemma update_trajectory_increasing:
  assumes "t = [] \<or> grows t" "progress \<noteq> NaN" "fp_le (Fin 0) progress"
  shows "grows (update_trajectory min_keep elapsed progress t)"
proof -
  let ?q = "\<lparr>tr_progress_total_m = progress, tr_race_elapsed_ms = elapsed\<rparr>"
  define t1 where "t1 = (if backtracked progress t then [] else t)"
  have t1: "t1 = [] \<or> grows t1" using assms(1) by (simp add: t1_def)
  have "grows (if should_append elapsed progress t1 then t1 @ [?q] else t1)"
  proof (cases "should_append elapsed progress t1")
    case True
    show ?thesis
    proof (cases "t1 = []")
      case True thus ?thesis using assms(2, 3) by (simp add: grows_def should_append_def)
    next
      case False
      hence inc: "grows t1" using t1 by simp
      hence "tr_progress_total_m (last t1) \<noteq> NaN" by (simp add: grows_def)
      hence "before (last t1) ?q"
        using True False assms(2) by (auto simp: should_append_def before_def fp_le_def)
      thus ?thesis using inc True assms append_increasing [of t1 ?q] by (auto simp: grows_def)
    qed
  next
    case False
    hence "t1 \<noteq> []" by (auto simp: should_append_def)
    thus ?thesis using False t1 by simp
  qed
  thus ?thesis by (simp add: update_trajectory_def Let_def drop_old_increasing flip: t1_def)
qed

definition trajectories_increase :: "official_cache \<Rightarrow> bool" where
  "trajectories_increase cache \<longleftrightarrow> (\<forall>car t. hm_get (oc_car_trajectories cache) car = Some t \<longrightarrow> grows t)"

lemma update_trajectories_increase:
  assumes "trajectories_increase cache"
    and "\<forall>s\<in>set ss. as_progress_total_m s \<noteq> NaN \<and> fp_le (Fin 0) (as_progress_total_m s)"
  shows "trajectories_increase (update_car_trajectories cache elapsed ss ids)"
proof -
  let ?k = "sat_sub elapsed TRAJECTORY_MAX_AGE_MS_OFFICIAL"
  define f where "f = (\<lambda>s ts. hm_insert (car_of s) (update_trajectory ?k elapsed (as_progress_total_m s)
    (case hm_get ts (car_of s) of None \<Rightarrow> [] | Some t \<Rightarrow> t)) ts)"
  have all: "\<forall>car t. hm_get (fold f ss ts) car = Some t \<longrightarrow> grows t"
    if "\<forall>car t. hm_get ts car = Some t \<longrightarrow> grows t" for ts
    using that assms(2)
  proof (induction ss arbitrary: ts)
    case (Cons s ss)
    have "grows (update_trajectory ?k elapsed (as_progress_total_m s)
        (case hm_get ts (car_of s) of None \<Rightarrow> [] | Some t \<Rightarrow> t))"
      using Cons.prems by (intro update_trajectory_increasing) (auto split: option.split)
    hence "\<forall>car t. hm_get (f s ts) car = Some t \<longrightarrow> grows t" using Cons.prems(1) by (simp add: f_def)
    thus ?case using Cons.IH [of "f s ts"] Cons.prems(2) by simp
  qed simp
  have "\<forall>car t. hm_get (hm_retain (\<lambda>c. c \<in> set ids) (oc_car_trajectories cache)) car = Some t \<longrightarrow> grows t"
    using assms(1) by (auto simp: trajectories_increase_def split: if_splits)
  from all [OF this] show ?thesis by (simp add: trajectories_increase_def update_car_trajectories_def Let_def f_def)
qed

lemma compute_active_rows_trajectories [simp]:
  "oc_car_trajectories (snd (compute_active_rows e ss cache)) = oc_car_trajectories cache"
  using compute_active_rows_cache [of e ss cache] by auto

lemma fresh_cache_trajectories: "trajectories_increase cache \<Longrightarrow> trajectories_increase (fresh_cache marker elapsed cache)"
  by (auto simp: trajectories_increase_def reset_defs Let_def split: option.split)

lemma compute_trajectories_increase:
  assumes "trajectories_increase cache"
  shows "trajectories_increase (snd (compute_official_rows_with_cache code marker elapsed entries cache))"
proof -
  define n where "n = normalize_active_progress_from_start (fresh_cache marker elapsed cache) entries (map car_of entries)"
  have "set (sort_active_entries (fst n)) = set (normalized (fresh_cache marker elapsed cache) entries)"
    by (simp add: sort_active_entries_def n_def normalized_def)
  moreover have "trajectories_increase (snd n)"
    using fresh_cache_trajectories [OF assms]
    by (simp add: n_def normalize_active_progress_from_start_def case_prod_beta Let_def trajectories_increase_def)
  ultimately have "trajectories_increase (update_car_trajectories (snd n) elapsed (sort_active_entries (fst n)) (map car_of entries))"
    using normalized_progress by (intro update_trajectories_increase) auto
  thus ?thesis
    by (simp add: compute_official_rows_with_cache_def case_prod_beta Let_def trajectories_increase_def
        flip: fresh_cache_def n_def)
qed

lemma compute_has_trajectory:
  assumes "car \<in> set (map car_of entries)"
  shows "\<exists>t. hm_get (oc_car_trajectories (snd (compute_official_rows_with_cache code marker elapsed entries cache))) car = Some t"
proof -
  have kept: "hm_get (fold (\<lambda>s ts. hm_insert (car_of s) (g s ts) ts) ss ts) car \<noteq> None"
    if "car \<in> car_of ` set ss \<or> hm_get ts car \<noteq> None" for g ss and ts :: "(u64, trajectory_sample list) hmap"
    using that by (induction ss arbitrary: ts) (fastforce split: if_splits)+
  define n where "n = normalize_active_progress_from_start (fresh_cache marker elapsed cache) entries (map car_of entries)"
  have "car_of ` set (sort_active_entries (fst n)) = set (map car_of (normalized (fresh_cache marker elapsed cache) entries))"
    by (simp add: sort_active_entries_def n_def normalized_def)
  hence "car \<in> car_of ` set (sort_active_entries (fst n))" using assms unfolding normalized_cars by simp
  hence "hm_get (oc_car_trajectories (update_car_trajectories (snd n) elapsed (sort_active_entries (fst n)) (map car_of entries))) car \<noteq> None"
    unfolding update_car_trajectories_def Let_def by (simp add: kept del: not_None_eq)
  thus ?thesis by (simp add: compute_official_rows_with_cache_def case_prod_beta Let_def flip: fresh_cache_def n_def)
qed

section \<open>The binary search\<close>

text \<open>The index a linear scan finds: of the first point that is not below the distance.\<close>

definition first_not_below :: "trajectory_sample list \<Rightarrow> fp \<Rightarrow> nat" where
  "first_not_below t progress = length (takeWhile (\<lambda>p. fp_lt (tr_progress_total_m p) progress) t)"

lemma below_iff:
  assumes "sorted_wrt before t" "i < length t"
  shows "fp_lt (tr_progress_total_m (t ! i)) progress \<longleftrightarrow> i < first_not_below t progress"
proof
  assume "i < first_not_below t progress"
  thus "fp_lt (tr_progress_total_m (t ! i)) progress"
    using assms(2) by (metis first_not_below_def nth_mem set_takeWhileD takeWhile_nth)
next
  assume lt: "fp_lt (tr_progress_total_m (t ! i)) progress"
  show "i < first_not_below t progress"
  proof (rule ccontr)
    define k where "k = first_not_below t progress"
    assume "\<not> i < first_not_below t progress"
    hence k: "k \<le> i" "k < length t" using assms(2) by (simp_all add: k_def)
    hence "\<not> fp_lt (tr_progress_total_m (t ! k)) progress"
      unfolding k_def first_not_below_def using nth_length_takeWhile by fastforce
    moreover have "k = i \<or> fp_lt (tr_progress_total_m (t ! k)) (tr_progress_total_m (t ! i))"
      using k(1) assms(2) sorted_wrt_nth_less [OF assms(1), of k i]
      by (cases "k < i") (auto simp: before_def)
    ultimately show False using lt fp_lt_trans by blast
  qed
qed

lemma search_upper_scan:
  assumes "sorted_wrt before t" "lo \<le> first_not_below t progress" "first_not_below t progress \<le> hi" "hi < length t"
  shows "search_upper t progress lo hi = Some (first_not_below t progress)"
  using assms(2-4)
proof (induction "hi - lo" arbitrary: lo hi rule: less_induct)
  case less
  show ?case
  proof (cases "lo < hi")
    case False thus ?thesis using less.prems by simp
  next
    case True
    define mid where "mid = lo + (hi - lo) div 2"
    have mid: "lo \<le> mid" "mid < hi" using True by (auto simp: mid_def)
    hence get: "get_at t mid = Some (t ! mid)" using less.prems(3) by (simp add: get_at_def)
    show ?thesis
    proof (cases "fp_lt (tr_progress_total_m (t ! mid)) progress")
      case True
      hence "mid + 1 \<le> first_not_below t progress" using below_iff [OF assms(1), of mid] mid less.prems(3) by simp
      hence "search_upper t progress (mid + 1) hi = Some (first_not_below t progress)"
        using mid less.prems by (intro less.hyps) auto
      thus ?thesis using \<open>lo < hi\<close> True get by (subst search_upper.simps) (simp add: mid_def Let_def)
    next
      case False
      hence "first_not_below t progress \<le> mid" using below_iff [OF assms(1), of mid] mid less.prems(3) by simp
      hence "search_upper t progress lo mid = Some (first_not_below t progress)"
        using mid less.prems by (intro less.hyps) auto
      thus ?thesis using \<open>lo < hi\<close> False get by (subst search_upper.simps) (simp add: mid_def Let_def)
    qed
  qed
qed

section \<open>Interpolation\<close>

definition metres :: "fp \<Rightarrow> bool" where
  "metres x \<longleftrightarrow> (\<exists>q. x = Fin q \<and> 0 \<le> q \<and> q \<le> 2 ^ 64)"

lemma int_exact:
  assumes "0 \<le> n" "n \<le> 2 ^ 53"
  shows "fp_of_int binary64 n = Fin (of_int n)"
proof -
  have "(of_int n :: rat) \<le> of_int (2 ^ 53)" using assms(2) by (rule of_int_le_iff [THEN iffD2])
  hence "\<bar>of_int n :: rat\<bar> \<le> 2 ^ 53" using assms(1) by simp
  also have "(2 :: rat) ^ 53 \<le> 2 ^ 1023" by (rule power_increasing) simp_all
  finally have "f64 (of_int n) = Fin (round_rat binary64 (of_int n))" by (rule double_round_Fin)
  thus ?thesis using double.rnd_small_int [of n] assms by (simp add: fp_of_int_def)
qed

lemma small_round:
  assumes "\<bar>x\<bar> \<le> 2 ^ 64" shows "f64 x = Fin (round_rat binary64 x)"
proof (rule double_round_Fin)
  have "(2 :: rat) ^ 64 \<le> 2 ^ 1023" by (rule power_increasing) simp_all
  with assms show "\<bar>x\<bar> \<le> 2 ^ 1023" by (rule order_trans)
qed

lemma epsilon_pos: "fp_le (Fin 0) TRAJECTORY_PROGRESS_EPSILON_M"
  using small_round [of "1 / 1000"] double.rnd_nonneg [of "1 / 1000"] by (simp add: TRAJECTORY_PROGRESS_EPSILON_M_def)

text \<open>Adding a part of the time between two points.\<close>

lemma scaled_time:
  assumes "0 \<le> ta" "ta \<le> tb" "tb \<le> 2 ^ 53" "0 \<le> x" "x \<le> of_int (tb - ta)"
  shows "\<exists>r. fp_add binary64 (Fin (of_int ta)) (f64 x) = Fin r \<and> of_int ta \<le> r \<and> r \<le> of_int tb"
proof -
  let ?r = "round_rat binary64"
  have big: "(of_int tb :: rat) \<le> of_int (2 ^ 53)" using assms(3) by (rule of_int_le_iff [THEN iffD2])
  have "x \<le> of_int tb" using assms(1, 5) by linarith
  hence "\<bar>x\<bar> \<le> 2 ^ 64" using big assms(4) by simp
  hence x: "f64 x = Fin (?r x)" by (rule small_round)
  have part: "0 \<le> ?r x" "?r x \<le> of_int (tb - ta)"
    using double.rnd_nonneg [OF assms(4)] double.rnd_le_int [OF _ assms(5)] assms(1-3) by auto
  hence sum: "of_int ta \<le> of_int ta + ?r x" "of_int ta + ?r x \<le> of_int tb" by auto
  hence "\<bar>of_int ta + ?r x\<bar> \<le> 2 ^ 64" using big assms(1) by simp
  hence "f64 (of_int ta + ?r x) = Fin (?r (of_int ta + ?r x))" by (rule small_round)
  moreover have "of_int ta \<le> ?r (of_int ta + ?r x)" "?r (of_int ta + ?r x) \<le> of_int tb"
    using double.rnd_ge_int [OF _ sum(1)] double.rnd_le_int [OF _ sum(2)] assms(1-3) by auto
  ultimately show ?thesis by (simp add: x)
qed

text \<open>
  Between two points of a trajectory, rounding included, the interpolated time is between
  their times: the differences round monotonically, so the ratio is at most one, and whole
  milliseconds below \<open>2^53\<close> are exact.
\<close>

lemma interpolate_between_bounds:
  assumes "tr_progress_total_m lower = Fin l" "tr_progress_total_m upper = Fin u"
    and "0 \<le> l" "l \<le> p" "p \<le> u" "u \<le> 2 ^ 64"
    and "tr_race_elapsed_ms lower \<le> tr_race_elapsed_ms upper" "uint (tr_race_elapsed_ms upper) \<le> 2 ^ 53"
  shows "\<exists>r. interpolate_between lower upper (Fin p) = Fin r \<and>
    of_int (uint (tr_race_elapsed_ms lower)) \<le> r \<and> r \<le> of_int (uint (tr_race_elapsed_ms upper))"
proof -
  let ?r = "round_rat binary64"
  define ta tb where "ta = uint (tr_race_elapsed_ms lower)" and "tb = uint (tr_race_elapsed_ms upper)"
  have t: "0 \<le> ta" "ta \<le> tb" "tb \<le> 2 ^ 53" using assms(7, 8) by (simp_all add: ta_def tb_def word_le_def)
  have "\<bar>u - l\<bar> \<le> 2 ^ 64" "\<bar>p - l\<bar> \<le> 2 ^ 64" using assms(3-6) by linarith+
  hence delta: "fp_sub binary64 (Fin u) (Fin l) = Fin (?r (u - l))" "fp_sub binary64 (Fin p) (Fin l) = Fin (?r (p - l))"
    by (simp_all only: fp_sub_def fp_neg.simps fp_add.simps add_uminus_conv_diff small_round)
  have sub: "uint (sat_sub (tr_race_elapsed_ms upper) (tr_race_elapsed_ms lower)) = tb - ta"
  proof -
    have "unat (tr_race_elapsed_ms lower) \<le> unat (tr_race_elapsed_ms upper)"
      using assms(7) by (simp add: word_le_nat_alt)
    thus ?thesis by (simp only: ta_def tb_def uint_nat unat_sat_sub of_nat_diff)
  qed
  show ?thesis
  proof (cases "fp_le (Fin (?r (u - l))) TRAJECTORY_PROGRESS_EPSILON_M")
    case True
    thus ?thesis using t int_exact [of tb]
      by (simp add: interpolate_between_def assms(1, 2) delta elapsed_fp_def flip: ta_def tb_def)
  next
    case False
    have "0 \<le> ?r (p - l)" "?r (p - l) \<le> ?r (u - l)" using assms(4, 5) double.rnd_nonneg double.rnd_mono by auto
    moreover have "0 < ?r (u - l)" using False epsilon_pos calculation by (cases "?r (u - l) = 0") auto
    ultimately have unit: "0 \<le> ?r (p - l) / ?r (u - l)" "?r (p - l) / ?r (u - l) \<le> 1" "?r (u - l) \<noteq> 0"
      by (auto simp: divide_le_eq)
    define ratio where "ratio = ?r (?r (p - l) / ?r (u - l))"
    have ratio: "0 \<le> ratio" "ratio \<le> 1" unfolding ratio_def using double.rnd_unit [OF unit(1, 2)] by auto
    have "f64 (?r (p - l) / ?r (u - l)) = Fin ratio"
      unfolding ratio_def by (rule small_round) (use unit in simp)
    hence clamped: "fp_clamp (Fin 0) (Fin 1) (fp_div binary64 (Fin (?r (p - l))) (Fin (?r (u - l)))) = Fin ratio"
      using unit(3) ratio by (simp add: fp_clamp_id)
    have "0 \<le> ratio * of_int (tb - ta)" "ratio * of_int (tb - ta) \<le> of_int (tb - ta)"
      using ratio t by (auto simp: mult_left_le_one_le)
    from scaled_time [OF t this] show ?thesis
      using False clamped t int_exact [of ta] int_exact [of "tb - ta"]
      by (simp add: interpolate_between_def assms(1, 2) delta elapsed_fp_def sub Let_def flip: ta_def tb_def)
  qed
qed

lemma elapsed_mono:
  assumes "sorted_wrt before t" "i \<le> j" "j < length t"
  shows "tr_race_elapsed_ms (t ! i) \<le> tr_race_elapsed_ms (t ! j)"
  using assms sorted_wrt_nth_less [OF assms(1), of i j] by (cases "i = j") (auto simp: before_def)

lemma first_not_below_bound:
  assumes "sorted_wrt before t" "t \<noteq> []" "\<not> fp_lt (tr_progress_total_m (last t)) p"
  shows "first_not_below t p < length t"
proof -
  have "first_not_below t p \<le> length t - 1"
    using below_iff [OF assms(1), of "length t - 1" p] assms(2, 3) by (simp add: last_conv_nth not_less)
  moreover have "0 < length t" using assms(2) by simp
  ultimately show ?thesis by linarith
qed

text \<open>The interpolation once the index is known.\<close>

definition leader_time_at :: "trajectory_sample list \<Rightarrow> nat \<Rightarrow> fp \<Rightarrow> fp" where
  "leader_time_at t k p =
     (if fp_le (fp_abs (fp_sub binary64 (tr_progress_total_m (t ! k)) p)) TRAJECTORY_PROGRESS_EPSILON_M \<or> k = 0
      then elapsed_fp (tr_race_elapsed_ms (t ! k)) else interpolate_between (t ! (k - 1)) (t ! k) p)"

lemma interpolate_at:
  assumes "t \<noteq> []" "k < length t" "search_upper t p 0 (length t - 1) = Some k"
    and "fp_le (tr_progress_total_m (hd t)) p" "fp_le p (tr_progress_total_m (last t))"
  shows "interpolate_leader_time_ms t p = Some (leader_time_at t k p)"
  using assms by (auto simp: interpolate_leader_time_ms_def leader_time_at_def get_at_def fp_le_def simp del: search_upper.simps)

lemma leader_time_bounds:
  assumes "sorted_wrt before t" "k < length t" "metres p"
    and "\<forall>s\<in>set t. metres (tr_progress_total_m s) \<and> uint (tr_race_elapsed_ms s) \<le> 2 ^ 53"
    and "\<And>i. i < length t \<Longrightarrow> fp_lt (tr_progress_total_m (t ! i)) p \<longleftrightarrow> i < k"
  shows "\<exists>r. leader_time_at t k p = Fin r \<and>
    of_int (uint (tr_race_elapsed_ms (t ! (k - 1)))) \<le> r \<and> r \<le> of_int (uint (tr_race_elapsed_ms (t ! k)))"
proof -
  have k1: "k - 1 < length t" using assms(2) by linarith
  obtain q l u where q: "p = Fin q" and l: "tr_progress_total_m (t ! (k - 1)) = Fin l" "0 \<le> l"
      and u: "tr_progress_total_m (t ! k) = Fin u" "u \<le> 2 ^ 64"
    using assms(3, 4) nth_mem [OF k1] nth_mem [OF assms(2)] unfolding metres_def by blast
  have qu: "q \<le> u" using assms(5) [OF assms(2)] q u by simp
  have time: "uint (tr_race_elapsed_ms (t ! k)) \<le> 2 ^ 53" using assms(2, 4) nth_mem by blast
  have le: "tr_race_elapsed_ms (t ! (k - 1)) \<le> tr_race_elapsed_ms (t ! k)" using elapsed_mono [OF assms(1) _ assms(2)] by simp
  hence "of_int (uint (tr_race_elapsed_ms (t ! (k - 1)))) \<le> (of_int (uint (tr_race_elapsed_ms (t ! k))) :: rat)"
    by (simp only: word_le_def of_int_le_iff)
  moreover have "elapsed_fp (tr_race_elapsed_ms (t ! k)) = Fin (of_int (uint (tr_race_elapsed_ms (t ! k))))"
    using int_exact [OF _ time] by (simp add: elapsed_fp_def)
  moreover have "\<exists>r. interpolate_between (t ! (k - 1)) (t ! k) p = Fin r \<and>
      of_int (uint (tr_race_elapsed_ms (t ! (k - 1)))) \<le> r \<and> r \<le> of_int (uint (tr_race_elapsed_ms (t ! k)))"
    if "k \<noteq> 0"
  proof -
    have "l \<le> q" using assms(5) [OF k1] that q l by simp
    thus ?thesis unfolding q using interpolate_between_bounds [OF l(1) u(1) l(2) _ qu u(2) le time] by blast
  qed
  ultimately show ?thesis by (auto simp: leader_time_at_def)
qed

section \<open>Reachable caches\<close>

inductive table_reachable :: "(entry_status \<Rightarrow> i32) \<Rightarrow> official_cache \<Rightarrow> bool" for code where
  no_request: "table_reachable code official_cache_default"
| request: "table_reachable code cache \<Longrightarrow>
    compute_official_rows_with_cache code marker elapsed entries cache = (rows, cache') \<Longrightarrow> table_reachable code cache'"

lemma reachable_rows_keyed: "table_reachable code cache \<Longrightarrow> rows_keyed cache"
proof (induction rule: table_reachable.induct)
  case no_request show ?case by (simp add: rows_keyed_def official_cache_default_def)
next
  case request thus ?case using compute_refines(1) by (metis snd_conv)
qed

lemma reachable_trajectories: "table_reachable code cache \<Longrightarrow> trajectories_increase cache"
proof (induction rule: table_reachable.induct)
  case no_request show ?case by (simp add: trajectories_increase_def official_cache_default_def)
next
  case request thus ?case using compute_trajectories_increase by (metis snd_conv)
qed

section \<open>Distances since a car was first seen\<close>

text \<open>
  What a request sees of the official race: the cars of the frame that drive there and have
  metrics, and the distance of each from the start line of its first lap.
\<close>

definition race_cars :: "runtime_frame \<Rightarrow> (car_frame \<times> vehicle_race_metrics) list" where
  "race_cars frame = List.map_filter (\<lambda>car. if cf_target car = TargetOfficialRace
     then map_option (Pair car) (cf_race_metrics car) else None) (hm_values (fr_cars frame))"

definition car_id_of :: "car_frame \<times> vehicle_race_metrics \<Rightarrow> u64" where
  "car_id_of x = cf_public_car_id (fst x)"

definition race_distance :: "runtime_frame \<Rightarrow> car_frame \<times> vehicle_race_metrics \<Rightarrow> fp" where
  "race_distance frame x =
     fp_add binary64
       (fp_mul binary64 (fp_of_int binary64 (uint (completed_laps (snd x))))
         (fp_convert binary64 (fp_max (case fr_official_lap_length_m frame of None \<Rightarrow> Fin 1 | Some l \<Rightarrow> l) (Fin 1))))
       (fp_convert binary64 (fp_max (lap_progress_m (snd x)) (Fin 0)))"

text \<open>
  The requests made so far, the newest first, each with the session, the clock of the race and
  the distances of the cars. A car's reference distance is the one it had in the first request
  of the session since which it has been in every request.
\<close>

type_synonym table_log = "(string \<times> u64 \<times> (u64 \<times> fp) list) list"

fun continues :: "string \<Rightarrow> u64 \<Rightarrow> table_log \<Rightarrow> bool" where
  "continues marker elapsed [] = False"
| "continues marker elapsed ((marker', elapsed', _) # _) = (marker' = marker \<and> \<not> elapsed + 100 < elapsed')"

fun first_seen :: "u64 \<Rightarrow> table_log \<Rightarrow> fp option" where
  "first_seen c [] = None"
| "first_seen c ((marker, elapsed, distances) # older) =
     (case map_of distances c of
        None \<Rightarrow> None
      | Some d \<Rightarrow>
          (if continues marker elapsed older \<and> first_seen c older \<noteq> None then first_seen c older else Some d))"

definition log_entry :: "runtime_state \<times> runtime_frame \<Rightarrow> string \<times> u64 \<times> (u64 \<times> fp) list" where
  "log_entry x = (''official-race:'' @ rt_map_id (fst x), race_elapsed_of (fr_official_race_duration_s (snd x)),
     map (\<lambda>car. (car_id_of car, race_distance (snd x) car)) (race_cars (snd x)))"

definition covered :: "table_log \<Rightarrow> runtime_frame \<Rightarrow> car_frame \<times> vehicle_race_metrics \<Rightarrow> fp" where
  "covered requests frame car =
     (case first_seen (car_id_of car) requests of
        None \<Rightarrow> Fin 0
      | Some d \<Rightarrow> fp_max (fp_sub binary64 (race_distance frame car) d) (Fin 0))"

inductive table_served :: "(entry_status \<Rightarrow> i32) \<Rightarrow> (runtime_state \<times> runtime_frame) list \<Rightarrow> official_cache \<Rightarrow> bool"
  for code where
  nothing_served: "table_served code [] official_cache_default"
| snapshot_served: "table_served code requests cache \<Longrightarrow>
    build_official_race_snapshot code rt frame cache = (snap, cache') \<Longrightarrow>
    table_served code ((rt, frame) # requests) cache'"

definition official_entry :: "(entry_status \<Rightarrow> i32) \<Rightarrow> runtime_frame \<Rightarrow> car_frame \<times> vehicle_race_metrics \<Rightarrow> active_sample" where
  "official_entry code frame x = sample_to_official_entry code (cf_public_car_id (fst x)) (snd x)
     (lap_length_of (fr_official_lap_length_m frame)) (cf_identity (fst x))
     (has_zone (vs_pitstop_state (cf_state (fst x))) ZoneFix)"

lemma official_entry_simps [simp]:
  "car_of (official_entry code frame x) = car_id_of x"
  "as_progress_total_m (official_entry code frame x) = race_distance frame x"
  "as_completed_laps (official_entry code frame x) = completed_laps (snd x)"
  "as_hide_gap_to_leader (official_entry code frame x) = fp_lt (lap_progress_m (snd x)) (Fin 0)"
  by (simp_all add: official_entry_def sample_to_official_entry_def car_id_of_def race_distance_def progress_total_def
      lap_length_of_def)

lemma collect_entries:
  "collect_official_active_entries code frame (lap_length_of (fr_official_lap_length_m frame)) =
     map (official_entry code frame) (race_cars frame)"
proof -
  have "List.map_filter (\<lambda>car. if cf_target car \<noteq> TargetOfficialRace then None
        else map_option (\<lambda>metrics. sample_to_official_entry code (cf_public_car_id car) metrics
               (lap_length_of (fr_official_lap_length_m frame)) (cf_identity car)
               (has_zone (vs_pitstop_state (cf_state car)) ZoneFix)) (cf_race_metrics car)) cars =
     map (official_entry code frame) (List.map_filter (\<lambda>car. if cf_target car = TargetOfficialRace
       then map_option (Pair car) (cf_race_metrics car) else None) cars)" for cars
    by (induction cars) (auto simp: List.map_filter_simps official_entry_def split: option.split)
  thus ?thesis by (simp add: collect_official_active_entries_def race_cars_def)
qed

lemma normalize_samples_starts:
  "hm_get (snd (normalize_samples ss starts)) c =
     (case hm_get starts c of None \<Rightarrow> map_of (map (\<lambda>s. (car_of s, as_progress_total_m s)) ss) c | Some d \<Rightarrow> Some d)"
  by (induction ss starts rule: normalize_samples.induct)
     (auto simp: Let_def case_prod_beta split: option.split)

lemma normalize_samples_from_start:
  "fst (normalize_samples ss starts) =
     map (\<lambda>s. s\<lparr>as_progress_total_m := fp_max (fp_sub binary64 (as_progress_total_m s)
       (case hm_get (snd (normalize_samples ss starts)) (car_of s) of None \<Rightarrow> as_progress_total_m s | Some d \<Rightarrow> d)) (Fin 0)\<rparr>) ss"
proof (induction ss starts rule: normalize_samples.induct)
  case (2 s ss starts)
  show ?case using 2 [OF refl refl]
    by (auto simp: Let_def case_prod_beta normalize_samples_starts split: option.split)
qed simp

text \<open>The normalised samples of a request carry the covered distances.\<close>

lemma served_reachable: "table_served code requests cache \<Longrightarrow> table_reachable code cache"
proof (induction rule: table_served.induct)
  case (snapshot_served requests cache rt frame snap cache')
  thus ?case
    by (auto simp: build_official_race_snapshot_def Let_def case_prod_beta intro: table_reachable.request [OF _ prod.collapse [symmetric]])
qed (rule table_reachable.no_request)

definition remembers :: "official_cache \<Rightarrow> table_log \<Rightarrow> bool" where
  "remembers cache requests \<longleftrightarrow>
     (\<forall>c. hm_get (oc_car_start_progress_m cache) c = first_seen c requests) \<and>
     (case requests of
        [] \<Rightarrow> oc_session_marker cache = None
      | (marker, elapsed, _) # _ \<Rightarrow> oc_session_marker cache = Some marker \<and> oc_last_race_elapsed_ms cache = Some elapsed)"

lemma fresh_cache_starts:
  assumes "remembers cache requests"
  shows "hm_get (oc_car_start_progress_m (fresh_cache marker elapsed cache)) c =
    (if continues marker elapsed requests then first_seen c requests else None)"
  using assms by (cases requests) (auto simp: remembers_def reset_defs Let_def hm_get_def split: option.splits)

lemma starts_after:
  assumes "remembers cache requests" "marker = fst x" "elapsed = fst (snd x)"
    and "snd (snd x) = map (\<lambda>s. (car_of s, as_progress_total_m s)) entries"
  shows "hm_get (snd (normalize_samples entries (hm_retain (\<lambda>c. c \<in> car_of ` set entries)
      (oc_car_start_progress_m (fresh_cache marker elapsed cache))))) c = first_seen c (x # requests)"
proof -
  have "c \<in> car_of ` set entries \<longleftrightarrow> map_of (map (\<lambda>s. (car_of s, as_progress_total_m s)) entries) c \<noteq> None"
    by (simp add: map_of_eq_None_iff image_image)
  thus ?thesis using assms(2-)
    by (cases x) (auto simp: normalize_samples_starts fresh_cache_starts [OF assms(1)] split: option.splits)
qed

lemma log_distances: "snd (snd (log_entry (rt, frame))) =
    map (\<lambda>s. (car_of s, as_progress_total_m s)) (map (official_entry code frame) (race_cars frame))"
  by (simp add: log_entry_def comp_def)

lemma log_marks:
  "''official-race:'' @ rt_map_id rt = fst (log_entry (rt, frame))"
  "race_elapsed_of (fr_official_race_duration_s frame) = fst (snd (log_entry (rt, frame)))"
  by (simp_all add: log_entry_def)

lemma compute_starts:
  "oc_car_start_progress_m (snd (compute_official_rows_with_cache code marker elapsed entries cache)) =
     hm_retain (\<lambda>c. c \<in> car_of ` set entries) (snd (normalize_samples entries (hm_retain (\<lambda>c. c \<in> car_of ` set entries)
       (oc_car_start_progress_m (fresh_cache marker elapsed cache)))))"
proof -
  have rows: "oc_car_start_progress_m (snd (compute_active_rows e ss c)) = oc_car_start_progress_m c" for e ss c
    using compute_active_rows_cache [of e ss c] by force
  show ?thesis
    by (simp add: compute_official_rows_with_cache_def case_prod_beta Let_def rows update_car_trajectories_def
        normalize_active_progress_from_start_def fresh_cache_def)
qed

lemma served_remembers: "table_served code requests cache \<Longrightarrow> remembers cache (map log_entry requests)"
proof (induction rule: table_served.induct)
  case nothing_served
  show ?case by (simp add: remembers_def official_cache_default_def hm_get_def)
next
  case (snapshot_served requests cache rt frame snap cache')
  let ?m = "''official-race:'' @ rt_map_id rt" and ?e = "race_elapsed_of (fr_official_race_duration_s frame)"
  let ?entries = "map (official_entry code frame) (race_cars frame)"
  have c: "cache' = snd (compute_official_rows_with_cache code ?m ?e ?entries cache)"
    using snapshot_served(2) by (simp add: build_official_race_snapshot_def Let_def case_prod_beta collect_entries prod_eq_iff)
  have marks: "oc_session_marker cache' = Some ?m" "oc_last_race_elapsed_ms cache' = Some ?e"
    unfolding c by (rule compute_parts [of ?m ?e ?entries cache code]; simp)+
  have "first_seen x (map log_entry ((rt, frame) # requests)) = None" if "x \<notin> car_of ` set ?entries" for x
  proof -
    have "map_of (snd (snd (log_entry (rt, frame)))) x = None"
      using that unfolding log_distances [of _ _ code] by (auto simp: map_of_eq_None_iff image_image)
    thus ?thesis by (simp add: log_entry_def)
  qed
  moreover have "hm_get (snd (normalize_samples ?entries (hm_retain (\<lambda>c. c \<in> car_of ` set ?entries)
      (oc_car_start_progress_m (fresh_cache ?m ?e cache))))) x = first_seen x (map log_entry ((rt, frame) # requests))" for x
    using starts_after [OF snapshot_served.IH log_marks log_distances [where code = code], where c = x] by simp
  ultimately have "hm_get (oc_car_start_progress_m cache') x = first_seen x (map log_entry ((rt, frame) # requests))" for x
    unfolding c compute_starts by auto
  moreover obtain m e ds where l: "log_entry (rt, frame) = (m, e, ds)" by (metis prod_cases3)
  moreover have "m = ?m" "e = ?e" using log_marks [where rt = rt and frame = frame] by (simp_all add: l)
  ultimately show ?case using marks by (simp add: remembers_def del: first_seen.simps)
qed

definition rebased :: "(entry_status \<Rightarrow> i32) \<Rightarrow> runtime_frame \<Rightarrow> table_log \<Rightarrow> car_frame \<times> vehicle_race_metrics \<Rightarrow> active_sample" where
  "rebased code frame requests x = (official_entry code frame x)\<lparr>as_progress_total_m := covered requests frame x\<rparr>"

lemma rebased_simps [simp]:
  "as_row (rebased code frame requests x) = as_row (official_entry code frame x)"
  "as_progress_total_m (rebased code frame requests x) = covered requests frame x"
  "as_completed_laps (rebased code frame requests x) = completed_laps (snd x)"
  "as_hide_gap_to_leader (rebased code frame requests x) = fp_lt (lap_progress_m (snd x)) (Fin 0)"
  by (simp_all add: rebased_def)

lemma first_seen_present:
  assumes "x \<in> set (race_cars frame)"
  shows "first_seen (car_id_of x) (map log_entry ((rt, frame) # requests)) \<noteq> None"
proof -
  have "map_of (map (\<lambda>car. (car_id_of car, race_distance frame car)) (race_cars frame)) (car_id_of x) \<noteq> None"
    using assms by (simp add: map_of_eq_None_iff image_image)
  thus ?thesis by (auto simp: log_entry_def)
qed

lemma normalized_covered:
  assumes "table_served code requests cache"
  shows "normalized (fresh_cache (''official-race:'' @ rt_map_id rt)
      (race_elapsed_of (fr_official_race_duration_s frame)) cache) (map (official_entry code frame) (race_cars frame)) =
    map (rebased code frame (map log_entry ((rt, frame) # requests))) (race_cars frame)"
proof -
  let ?m = "''official-race:'' @ rt_map_id rt" and ?e = "race_elapsed_of (fr_official_race_duration_s frame)"
  let ?entries = "map (official_entry code frame) (race_cars frame)"
  let ?log = "map log_entry ((rt, frame) # requests)"
  have s: "hm_get (snd (normalize_samples ?entries (hm_retain (\<lambda>c. c \<in> car_of ` set ?entries)
      (oc_car_start_progress_m (fresh_cache ?m ?e cache))))) c = first_seen c ?log" for c
    using starts_after [OF served_remembers [OF assms] log_marks log_distances [where code = code], where c = c] by simp
  have "(official_entry code frame x)\<lparr>as_progress_total_m := fp_max (fp_sub binary64 (race_distance frame x)
       (case first_seen (car_id_of x) ?log of None \<Rightarrow> as_progress_total_m (official_entry code frame x) | Some d \<Rightarrow> d)) (Fin 0)\<rparr> = rebased code frame ?log x"
    if "x \<in> set (race_cars frame)" for x
    using first_seen_present [OF that, of rt requests] by (auto simp: rebased_def covered_def simp del: list.map first_seen.simps)
  thus ?thesis
    unfolding normalized_samples normalize_samples_from_start s by (simp del: list.map first_seen.simps)
qed

lemma mset_map_split:
  assumes "mset ys = mset (map f xs)"
  obtains zs where "mset zs = mset xs" "ys = map f zs"
proof -
  have "\<exists>zs. mset zs = mset xs \<and> ys = map f zs" using assms
  proof (induction ys arbitrary: xs)
    case (Cons y ys)
    have "y \<in> f ` set xs" using Cons.prems by (metis list.set_intros(1) list.set_map mset_eq_setD)
    then obtain x where x: "x \<in> set xs" "y = f x" by blast
    hence m: "mset xs = add_mset x (mset (remove1 x xs))" by simp
    have "add_mset (f x) (mset ys) = image_mset f (mset xs)" using Cons.prems x by simp
    hence "mset ys = mset (map f (remove1 x xs))" unfolding m by simp
    then obtain zs where "mset zs = mset (remove1 x xs)" "ys = map f zs" using Cons.IH by blast
    thus ?case using x by (intro exI [of _ "x # zs"]) simp
  qed simp
  thus thesis using that by blast
qed

text \<open>The order of two cars, and how a car is shown behind the leader.\<close>

definition in_front :: "table_log \<Rightarrow> runtime_frame \<Rightarrow> car_frame \<times> vehicle_race_metrics
    \<Rightarrow> car_frame \<times> vehicle_race_metrics \<Rightarrow> bool" where
  "in_front requests frame l r \<longleftrightarrow> fp_lt (covered requests frame r) (covered requests frame l) \<or>
     covered requests frame l = covered requests frame r \<and> car_id_of l \<le> car_id_of r"

definition shown_as :: "car_frame \<times> vehicle_race_metrics \<Rightarrow> car_frame \<times> vehicle_race_metrics \<Rightarrow> official_row \<Rightarrow> bool" where
  "shown_as leader x row \<longleftrightarrow> or_car_id row = car_id_of x \<and>
     (if car_id_of x = car_id_of leader then or_laps_behind row = 0 \<and> or_gap_to_leader_ms row = Some 0
      else unat (or_laps_behind row) = unat (completed_laps (snd leader)) - unat (completed_laps (snd x)) \<and>
        (fp_lt (lap_progress_m (snd x)) (Fin 0) \<or> 1 < or_laps_behind row \<longrightarrow> or_gap_to_leader_ms row = None))"

lemma row_of_rebased: "row_of_sample (rebased code frame requests leader) (rebased code frame requests x) row \<Longrightarrow>
    shown_as leader x row"
  by (auto simp: row_of_sample_def shown_as_def sat_simps official_entry_def sample_to_official_entry_def car_id_of_def
      split: if_splits)

section \<open>Properties\<close>

text \<open>
  C17. The table of the official race lists every car of the session exactly once. The cars of
  the session are those seen since it began, where another map or a race clock that runs back
  by more than 100 ms begins a new one. The active cars come first, the others follow in the
  order of their identifiers, marked as not finished and out of the pit, and the positions
  count from one. The cache of any sequence of requests carries exactly this set on.
\<close>

theorem official_table_lists_session_once:
  assumes "table_reachable code cache" "distinct (map car_of entries)"
    and "compute_official_rows_with_cache code marker elapsed entries cache = (rows, cache')"
  shows "table_abs cache' = table_request marker elapsed (set (map car_of entries)) (table_abs cache) \<and>
    distinct (map or_car_id rows) \<and> set (map or_car_id rows) = snd (snd (table_abs cache')) \<and>
    set (map or_car_id (take (length entries) rows)) = set (map car_of entries) \<and>
    sorted (map or_car_id (drop (length entries) rows)) \<and>
    (\<forall>i < length rows. or_position (rows ! i) = of_nat (i + 1) \<and>
       or_status (rows ! i) = code (if i < length entries then EntryActive else EntryDnf) \<and>
       (length entries \<le> i \<longrightarrow> \<not> or_in_pit (rows ! i)))"
proof -
  have keyed: "rows_keyed cache" by (rule reachable_rows_keyed [OF assms(1)])
  have abs: "table_abs cache' = table_request marker elapsed (set (map car_of entries)) (table_abs cache)"
    using compute_refines(2) [OF keyed refl, of code marker elapsed entries] assms(3) by simp
  obtain active dnf where r:
    "rows = map (\<lambda>(idx, row). number_row code (length entries) idx row) (zip [0..<length (active @ dnf)] (active @ dnf))"
    "length active = length entries" "set (map or_car_id active) = set (map car_of entries)"
    "set (map or_car_id dnf) = snd (snd (table_request marker elapsed {} (table_abs cache))) - set (map car_of entries)"
    "distinct (map or_car_id (active @ dnf))" "sorted (map or_car_id dnf)"
    by (rule compute_rows [OF keyed assms(2), where code = code and marker = marker and elapsed = elapsed])
       (use assms(3) in auto)
  have cars: "map or_car_id rows = map or_car_id active @ map or_car_id dnf"
    using numbered_rows [of code "length entries" 0 "active @ dnf"] by (simp only: r(1) add_0 map_append)
  have "set (map or_car_id rows) = snd (snd (table_abs cache'))"
    unfolding cars abs using r(3, 4) by (auto simp: table_request_def)
  moreover have "map or_car_id (take (length entries) rows) = map or_car_id active"
    "map or_car_id (drop (length entries) rows) = map or_car_id dnf"
    using cars r(2) by (simp_all flip: take_map drop_map)
  moreover have "or_position (rows ! i) = of_nat (i + 1) \<and>
       or_status (rows ! i) = code (if i < length entries then EntryActive else EntryDnf) \<and>
       (length entries \<le> i \<longrightarrow> \<not> or_in_pit (rows ! i))" if "i < length rows" for i
    using that by (auto simp: r(1) number_row_def Let_def)
  ultimately show ?thesis using abs r(3, 5, 6) cars by simp
qed

definition status_code_of :: "entry_status \<Rightarrow> i32" where
  "status_code_of s = (case s of EntryActive \<Rightarrow> 1 | EntryDnf \<Rightarrow> 2)"

definition sample_entry :: "u64 \<Rightarrow> rat \<Rightarrow> active_sample" where
  "sample_entry car at_m = sample_to_official_entry status_code_of car
     \<lparr>completed_laps = 0, lap_progress_m = Fin at_m, current_lap_time_ms = 0, last_lap_time_ms = None\<rparr> (Fin 100) None False"

definition first_request :: "official_row list \<times> official_cache" where
  "first_request = compute_official_rows_with_cache status_code_of ''m'' 1000 [sample_entry 5 10, sample_entry 3 10]
     official_cache_default"

definition second_request :: "official_row list \<times> official_cache" where
  "second_request = compute_official_rows_with_cache status_code_of ''m'' 2000 [sample_entry 5 30] (snd first_request)"

lemma sample_entry_car [simp]: "car_of (sample_entry car at_m) = car"
  by (simp add: sample_entry_def sample_to_official_entry_def)

lemma first_request_reachable: "table_reachable status_code_of (snd first_request)"
  by (rule table_reachable.request [OF table_reachable.no_request, of _ "''m''" 1000 "[sample_entry 5 10, sample_entry 3 10]"
        "fst first_request"]) (simp add: first_request_def)

theorem official_table_lists_session_once_witness:
  "set (map or_car_id (fst second_request)) = {3, 5} \<and> distinct (map or_car_id (fst second_request)) \<and>
   or_car_id ` set (take 1 (fst second_request)) = {5}"
proof -
  have 1: "table_abs (snd first_request) = table_request ''m'' 1000 {5, 3} (table_abs official_cache_default)"
    using official_table_lists_session_once [OF table_reachable.no_request, of "[sample_entry 5 10, sample_entry 3 10]"
        status_code_of "''m''" 1000 "fst first_request" "snd first_request"] by (simp add: first_request_def)
  show ?thesis
    using official_table_lists_session_once [OF first_request_reachable, of "[sample_entry 5 30]" "''m''" 2000
        "fst second_request" "snd second_request"] 1
    by (auto simp: second_request_def table_request_def starts_over_def table_abs_def official_cache_default_def
        word_less_nat_alt)
qed

text \<open>
  C18. In the table of the official race, made from a frame that has no car twice, the active
  cars are ordered by the distance they have covered since they were first seen: the distance
  in the frame (completed laps times the length of a lap, plus the distance in the lap) less
  the one in the first request of the session since which the car has been in every request,
  in double precision and at least zero. Cars with the same distance are ordered by their identifiers. The first car is the
  leader, with gap zero and no laps behind; every other car is behind by the difference in
  completed laps, and shows no gap while its distance in the lap is negative, that is before
  the start line, or when it is more than one lap behind.
\<close>

theorem official_standings_ordered:
  assumes "table_served code requests cache" "distinct (map car_id_of (race_cars frame))"
    and "build_official_race_snapshot code rt frame cache = (OfficialSnapshot rows, cache')"
  shows "\<exists>cars. mset cars = mset (race_cars frame) \<and>
    sorted_wrt (in_front (map log_entry ((rt, frame) # requests)) frame) cars \<and>
    list_all2 (shown_as (hd cars)) cars (take (length cars) rows)"
proof -
  let ?m = "''official-race:'' @ rt_map_id rt" and ?e = "race_elapsed_of (fr_official_race_duration_s frame)"
  let ?entries = "map (official_entry code frame) (race_cars frame)"
  let ?log = "map log_entry ((rt, frame) # requests)"
  let ?ss = "sorted_samples ?m ?e ?entries cache"
  have c: "compute_official_rows_with_cache code ?m ?e ?entries cache = (rows, cache')"
    using assms(3) by (simp add: build_official_race_snapshot_def Let_def case_prod_beta collect_entries prod_eq_iff)
  have d: "distinct (map car_of ?entries)" using assms(2) by (simp add: comp_def)
  obtain active dnf where r:
    "rows = map (\<lambda>(idx, row). number_row code (length ?entries) idx row) (zip [0..<length (active @ dnf)] (active @ dnf))"
    "list_all2 (row_of_sample (hd ?ss)) ?ss active" "length active = length ?entries"
    by (rule compute_rows [OF reachable_rows_keyed [OF served_reachable [OF assms(1)]] d, where code = code and marker = ?m
          and elapsed = ?e]) (use c in auto)
  have shown: "list_all2 (row_of_sample (hd ?ss)) ?ss (take (length ?entries) rows)"
    using r(2, 3) by (auto simp: r(1) list_all2_conv_all_nth nth_append)
  have "normalized (fresh_cache ?m ?e cache) ?entries = map (rebased code frame ?log) (race_cars frame)"
    by (rule normalized_covered [OF assms(1)])
  hence "mset ?ss = mset (map (rebased code frame ?log) (race_cars frame))"
    using sorted_samples_facts(2) by simp
  then obtain cars where cars: "mset cars = mset (race_cars frame)" "?ss = map (rebased code frame ?log) cars"
    by (rule mset_map_split)
  have "sorted_wrt ahead ?ss" by (rule sorted_samples_facts(1))
  hence "sorted_wrt (in_front ?log frame) cars"
    unfolding cars(2) by (simp add: sorted_wrt_map ahead_def in_front_def [abs_def])
  moreover have "length cars = length (race_cars frame)" using cars(1) mset_eq_length by blast
  hence "list_all2 (shown_as (hd cars)) cars (take (length cars) rows)"
    using shown unfolding cars(2) list_all2_map1
    by (cases cars) (auto intro: row_of_rebased elim!: list_all2_mono)
  ultimately show ?thesis using cars(1) by blast
qed

text \<open>
  Car 5 starts 40 m behind car 3, and is listed first as soon as it has driven farther.
\<close>

definition parked_vehicle :: vehicle_state where
  "parked_vehicle =
     \<lparr>vs_vehicle_id = 1, chassis_position = \<lparr>vec_x = Fin 0, vec_y = Fin 0, vec_z = Fin 0\<rparr>,
      vehicle_orientation = quaternion_identity, vs_speed = Fin 0, engine_rpm = Fin 900, vs_gear = Neutral,
      throttle_applied = Fin 0, brake_applied = Fin 0, wheel_position = [], wheel_speeds = [],
      front_wheel_orientation_rad = [], tyre_health = [], tyre_temperature_celsius = [], tyre_slip = [],
      vs_tyre_type = Soft, are_all_wheels_on_ground = True,
      ghost_mode_runtime = \<lparr>can_collide_now = True, ghost_phase = GhostInactive, blockers_mask = 0,
        enter_delay_remaining_ms = 0, exit_delay_remaining_ms = 0\<rparr>,
      vs_pitstop_state = \<lparr>zone_mask = 0, wheels_in_pitstop = 0\<rparr>\<rparr>"

definition sample_racer :: "u64 \<Rightarrow> int \<Rightarrow> car_frame" where
  "sample_racer car at_m =
     \<lparr>cf_public_car_id = car, cf_engine_car_id = car, cf_target = TargetOfficialRace, cf_state = parked_vehicle,
      cf_race_metrics = Some \<lparr>completed_laps = 0, lap_progress_m = Fin (of_int at_m), current_lap_time_ms = 0, last_lap_time_ms = None\<rparr>,
      cf_best_lap_time_ms = None, cf_last_client_seq = 0, cf_identity = None, cf_pit_state = snapshot_default,
      cf_controls_input = control_input_default\<rparr>"

definition sample_racing_frame :: "int \<Rightarrow> int \<Rightarrow> runtime_frame" where
  "sample_racing_frame x5 x3 =
     \<lparr>fr_tick = 1, fr_server_time_ms = 0, fr_runtime_state = None,
      fr_cars = [(5, sample_racer 5 x5), (3, sample_racer 3 x3)], fr_official_race_duration_s = None,
      fr_local_race_duration_s = [], fr_sandbox_race_duration_s = [], fr_official_lap_length_m = Some (Fin 100),
      fr_local_race_lap_length_m = [], fr_sandbox_lap_length_m = []\<rparr>"

definition sample_rt :: runtime_state where "sample_rt = w_runtime (spawn_worker None :: unit worker)"

definition served_once :: "table_snapshot \<times> official_cache" where
  "served_once = build_official_race_snapshot status_code_of sample_rt (sample_racing_frame 10 50) official_cache_default"

lemma sample_served: "table_served status_code_of [(sample_rt, sample_racing_frame 10 50)] (snd served_once)"
  by (rule table_served.snapshot_served [OF table_served.nothing_served, of _ _ _ "fst served_once"])
     (simp add: served_once_def)

definition racer_of :: "u64 \<Rightarrow> int \<Rightarrow> car_frame \<times> vehicle_race_metrics" where
  "racer_of car at_m = (sample_racer car at_m, the (cf_race_metrics (sample_racer car at_m)))"

lemma sample_racing_cars: "race_cars (sample_racing_frame x y) = [racer_of 5 x, racer_of 3 y]"
  by (simp add: race_cars_def sample_racing_frame_def sample_racer_def racer_of_def hm_values_def List.map_filter_simps)

lemma racer_id [simp]: "car_id_of (racer_of car at_m) = car"
  by (simp add: car_id_of_def racer_of_def sample_racer_def)

lemma double_of_int: "\<bar>n\<bar> \<le> 2 ^ 53 \<Longrightarrow> fp_round binary64 (of_int n) = Fin (of_int n)"
proof -
  assume n: "\<bar>n\<bar> \<le> 2 ^ 53"
  have "\<bar>of_int n :: rat\<bar> = of_int \<bar>n\<bar>" by simp
  also have "\<dots> \<le> of_int (2 ^ 53)" using n by (simp only: of_int_le_iff)
  also have "\<dots> \<le> 2 ^ 1023" by simp
  finally show ?thesis
    using double_round_Fin [of "of_int n"] round_rat_small_int [OF format_ok_binary64, of n] n
    by (simp add: binary64_def)
qed

lemma racer_distance:
  assumes "0 \<le> d" "d \<le> 1000"
  shows "race_distance (sample_racing_frame x y) (racer_of car d) = Fin (of_int d)"
proof -
  have "fp_round binary64 0 = Fin 0" "fp_round binary64 100 = Fin 100"
    using double_of_int [of 0] double_of_int [of 100] by simp_all
  thus ?thesis using assms double_of_int [of d]
    by (simp add: race_distance_def racer_of_def sample_racer_def sample_racing_frame_def fp_of_int_def fp_convert_def fp_max_def)
qed

lemma sample_overtaken:
  "\<not> in_front (map log_entry [(sample_rt, sample_racing_frame 40 60), (sample_rt, sample_racing_frame 10 50)])
     (sample_racing_frame 40 60) (racer_of 3 60) (racer_of 5 40)"
proof -
  have "fp_round binary64 30 = Fin 30" "fp_round binary64 10 = Fin 10"
    using double_of_int [of 30] double_of_int [of 10] by simp_all
  moreover have "race_elapsed_of (fr_official_race_duration_s (sample_racing_frame x y)) = 0" for x y
    by (simp add: race_elapsed_of_def sample_racing_frame_def)
  ultimately show ?thesis
    by (simp add: in_front_def covered_def log_entry_def sample_racing_cars racer_distance fp_sub_def fp_max_def)
qed

theorem official_standings_ordered_witness:
  "\<exists>rows. fst (build_official_race_snapshot status_code_of sample_rt (sample_racing_frame 40 60) (snd served_once))
       = OfficialSnapshot rows \<and> map or_car_id (take 2 rows) = [5, 3]"
proof -
  let ?f = "sample_racing_frame 40 60"
  obtain rows c where b: "build_official_race_snapshot status_code_of sample_rt ?f (snd served_once) = (OfficialSnapshot rows, c)"
    by (auto simp: build_official_race_snapshot_def Let_def case_prod_beta)
  obtain cars where cars: "mset cars = mset (race_cars ?f)"
    "sorted_wrt (in_front (map log_entry [(sample_rt, ?f), (sample_rt, sample_racing_frame 10 50)]) ?f) cars"
    "list_all2 (shown_as (hd cars)) cars (take (length cars) rows)"
    using official_standings_ordered [OF sample_served _ b]
    by (auto simp: sample_racing_cars)
  have len: "length cars = 2" using mset_eq_length [OF cars(1)] by (simp add: sample_racing_cars)
  then obtain x y where xy: "cars = [x, y]" by (auto simp: length_Suc_conv numeral_2_eq_2)
  have "x \<noteq> racer_of 3 60"
    using cars(1, 2) sample_overtaken by (auto simp: xy sample_racing_cars add_eq_conv_ex)
  hence "car_id_of x = 5" "car_id_of y = 3"
    using cars(1) by (auto simp: xy sample_racing_cars add_eq_conv_ex)
  thus ?thesis using cars(3) b by (auto simp: xy shown_as_def list_all2_Cons1 numeral_2_eq_2)
qed

text \<open>
  C19. Whatever requests are made, in every order and with every clock, each cached trajectory
  is a non-empty list of points at which both the distance and the time of the race strictly
  increase; no distance is negative or not a number.
\<close>

theorem trajectories_strictly_increase:
  assumes "table_reachable code cache" "hm_get (oc_car_trajectories cache) car = Some t"
  shows "t \<noteq> [] \<and> sorted_wrt before t \<and>
    (\<forall>p\<in>set t. tr_progress_total_m p \<noteq> NaN \<and> fp_le (Fin 0) (tr_progress_total_m p))"
  using reachable_trajectories [OF assms(1)] assms(2) by (simp add: trajectories_increase_def grows_def)

theorem trajectories_strictly_increase_witness:
  "\<exists>t. hm_get (oc_car_trajectories (snd first_request)) 5 = Some t \<and> t \<noteq> [] \<and> sorted_wrt before t"
proof -
  obtain t where "hm_get (oc_car_trajectories (snd first_request)) 5 = Some t"
    using compute_has_trajectory [of 5 "[sample_entry 5 10, sample_entry 3 10]" status_code_of "''m''" 1000 official_cache_default]
    by (auto simp: first_request_def)
  thus ?thesis using trajectories_strictly_increase [OF first_request_reachable] by blast
qed

text \<open>
  C20. The binary search always ends with the index of the first point at or beyond the
  distance, as a scan from the front would, and the time that is interpolated there exists and
  lies between the times of the points around it, rounding included. The distance has to lie
  on the trajectory; distances are below \<open>2^64\<close> metres and times below \<open>2^53\<close> milliseconds.
\<close>

theorem interpolation_brackets_leader_time:
  assumes "grows t" "\<forall>s\<in>set t. metres (tr_progress_total_m s) \<and> uint (tr_race_elapsed_ms s) \<le> 2 ^ 53" "metres p"
    and "fp_le (tr_progress_total_m (hd t)) p" "fp_le p (tr_progress_total_m (last t))"
  shows "\<exists>k r. k < length t \<and> (\<forall>i < k. fp_lt (tr_progress_total_m (t ! i)) p) \<and>
    fp_le p (tr_progress_total_m (t ! k)) \<and> search_upper t p 0 (length t - 1) = Some k \<and>
    interpolate_leader_time_ms t p = Some (Fin r) \<and>
    of_int (uint (tr_race_elapsed_ms (t ! (k - 1)))) \<le> r \<and> r \<le> of_int (uint (tr_race_elapsed_ms (t ! k)))"
proof -
  have t: "t \<noteq> []" "sorted_wrt before t" using assms(1) by (simp_all add: grows_def)
  define k where "k = first_not_below t p"
  have k: "k < length t" using first_not_below_bound [OF t(2, 1)] assms(5) by (simp add: k_def fp_le_def)
  have below: "fp_lt (tr_progress_total_m (t ! i)) p \<longleftrightarrow> i < k" if "i < length t" for i
    using below_iff [OF t(2) that] by (simp add: k_def)
  have search: "search_upper t p 0 (length t - 1) = Some k"
    unfolding k_def by (rule search_upper_scan [OF t(2)]) (use k t in \<open>auto simp: k_def\<close>)
  have "\<not> fp_lt (tr_progress_total_m (t ! k)) p" "tr_progress_total_m (t ! k) \<noteq> NaN" "p \<noteq> NaN"
    using below [OF k] assms(1, 3) k by (auto simp: grows_def metres_def)
  hence "fp_le p (tr_progress_total_m (t ! k))" by (simp add: fp_le_def)
  thus ?thesis
    using leader_time_bounds [OF t(2) k assms(3, 2) below] interpolate_at [OF t(1) k search assms(4, 5)] k below search
    by (intro exI [where x = k]) auto
qed

definition sample_trajectory :: "trajectory_sample list" where
  "sample_trajectory = [\<lparr>tr_progress_total_m = Fin 0, tr_race_elapsed_ms = 1000\<rparr>,
     \<lparr>tr_progress_total_m = Fin 10, tr_race_elapsed_ms = 2000\<rparr>]"

theorem interpolation_brackets_leader_time_witness:
  "\<exists>r. interpolate_leader_time_ms sample_trajectory (Fin 5) = Some (Fin r) \<and> r \<le> 2000"
proof -
  have "grows sample_trajectory" "metres (Fin 5)"
    "\<forall>s\<in>set sample_trajectory. metres (tr_progress_total_m s) \<and> uint (tr_race_elapsed_ms s) \<le> 2 ^ 53"
    "fp_le (tr_progress_total_m (hd sample_trajectory)) (Fin 5)" "fp_le (Fin 5) (tr_progress_total_m (last sample_trajectory))"
    by (auto simp: sample_trajectory_def grows_def before_def metres_def)
  then obtain k r where "k < length sample_trajectory" "interpolate_leader_time_ms sample_trajectory (Fin 5) = Some (Fin r)"
    "r \<le> of_int (uint (tr_race_elapsed_ms (sample_trajectory ! k)))"
    using interpolation_brackets_leader_time [of sample_trajectory "Fin 5"] by blast
  moreover from this(1) have "uint (tr_race_elapsed_ms (sample_trajectory ! k)) \<le> 2000"
    by (auto simp: sample_trajectory_def less_Suc_eq)
  hence "(of_int (uint (tr_race_elapsed_ms (sample_trajectory ! k))) :: rat) \<le> of_int 2000" by (simp only: of_int_le_iff)
  ultimately show ?thesis unfolding of_int_numeral using order_trans by blast
qed

end
