(* ===== verification/Message_Mappers.thy ===== *)
theory Message_Mappers
  imports Runtime_Store Service_Status
begin

unbundle bit_operations_syntax

text \<open>
  The conversions between the engine's types and the messages of the protocol,
  game-server/src/services/mappers.rs. The protocol crate is generated: its messages are
  records with the fields the code sets, and a field that carries a member of an
  enumeration keeps the member. Integers that clients send for an enumeration are decoded by
  the parameter \<open>shift_of\<close>.
\<close>

section \<open>Messages\<close>

datatype proto_gear_shift = ProtoShiftUnspecified | ProtoShiftNone | ProtoShiftUp | ProtoShiftDown

datatype proto_tire_type = ProtoTireUnspecified | ProtoTireHard | ProtoTireSoft | ProtoTireWet

datatype proto_pit_source = ProtoBotDecision | ProtoRequested | ProtoEmergency

datatype proto_ghost_phase = ProtoGhostInactive | ProtoGhostActive | ProtoGhostPendingExit

datatype proto_ghost_blocker =
    LapsRequirementNotMet | ExitSpeedNotMet | ExitDelayRunning | VehicleOverlapActive
  | OverlapExitDelayRunning | BlockerInPit

datatype proto_ground_type = ProtoAsphalt | ProtoGrass | ProtoGravel | ProtoWall | ProtoKerb

record car_kinematics =
  kn_position :: vec3
  kn_orientation :: quaternion

record wheel_speeds_message =
  ws_front_left_radps :: fp
  ws_front_right_radps :: fp
  ws_rear_left_radps :: fp
  ws_rear_right_radps :: fp

record ghost_mode_state =
  gm_can_collide_now :: bool
  gm_phase :: proto_ghost_phase
  gm_blockers :: "proto_ghost_blocker list"
  gm_exit_delay_remaining_ms :: u32

text \<open>The messages for wear, temperature and slip have the same four fields.\<close>

record per_wheel =
  pw_front_left :: fp
  pw_front_right :: fp
  pw_rear_left :: fp
  pw_rear_right :: fp

record pit_runtime_state =
  pt_pit_request_active :: bool
  pt_emergency_lock_remaining_ms :: u32
  pt_last_pit_time_ms :: u64
  pt_last_pit_source :: proto_pit_source
  pt_last_pit_lap :: u32

record pit_history_message =
  pm_pit_time_ms :: u64
  pm_lap :: u32
  pm_source :: proto_pit_source
  pm_tire_type_after :: proto_tire_type
  pm_tire_type_before :: proto_tire_type
  pm_tire_wear_before_repair :: per_wheel
  pm_tire_temperature_before_celsius :: per_wheel
  pm_tire_temperature_after_celsius :: per_wheel
  pm_bot_slot_before :: u32
  pm_bot_slot_after :: u32

record command_cooldown_state =
  cc_back_to_track_remaining_ms :: u32
  cc_emergency_pitstop_remaining_ms :: u32

record car_participant_state =
  cp_last_applied_client_seq :: u64
  cp_speed_mps :: fp
  cp_engine_rpm :: fp
  cp_gear :: i32
  cp_ghost_mode :: ghost_mode_state
  cp_pitstop_zone_flags :: u32
  cp_wheels_in_pitstop :: u32
  cp_tire_type :: proto_tire_type
  cp_tire_wear :: "per_wheel option"
  cp_tire_temperature_celsius :: "per_wheel option"
  cp_pit_runtime :: pit_runtime_state
  cp_pit_history :: "pit_history_message list"
  cp_next_pit_tire_type :: proto_tire_type
  cp_tire_slip :: "per_wheel option"
  cp_command_cooldowns :: command_cooldown_state

record car_render_state =
  cr_wheel_speeds :: wheel_speeds_message
  cr_front_left_wheel_orientation_rad :: fp
  cr_front_right_wheel_orientation_rad :: fp

record frontend_car_full_state =
  ff_car_id :: u64
  ff_kinematics :: car_kinematics
  ff_telemetry :: car_participant_state
  ff_render :: car_render_state
  ff_input_throttle :: fp
  ff_input_brake :: fp
  ff_current_brake_balancer :: fp
  ff_current_differential_lock :: fp
  ff_frontend_next_pit_tire_override :: proto_tire_type
  ff_current_lap_elapsed_ms :: "u32 option"
  ff_last_lap_time_ms :: "u32 option"
  ff_best_lap_time_ms :: "u32 option"

record participant_self_message =
  sf_car_id :: u64
  sf_kinematics :: car_kinematics
  sf_telemetry :: car_participant_state

record participant_opponent_message =
  pq_car_id :: u64
  pq_kinematics :: car_kinematics
  pq_ghost_mode :: ghost_mode_state

record ground_width_message =
  gx_width_m :: fp
  gx_ground_type :: proto_ground_type

record centerline_sample_message =
  cx_s_m :: fp
  cx_position :: vec3
  cx_tangent :: vec3
  cx_normal :: vec3
  cx_right :: vec3
  cx_left_width_m :: fp
  cx_right_width_m :: fp
  cx_curvature_1pm :: fp
  cx_grade_rad :: fp
  cx_bank_rad :: fp
  cx_max_left_width_m :: fp
  cx_max_right_width_m :: fp
  cx_left_grounds :: "ground_width_message list"
  cx_right_grounds :: "ground_width_message list"

record pitstop_data_message =
  px_enter_centerline_samples :: "centerline_sample_message list"
  px_fix_centerline_samples :: "centerline_sample_message list"
  px_exit_centerline_samples :: "centerline_sample_message list"
  px_length_m :: fp

record track_data_message =
  tx_map_id :: string
  tx_lap_length_m :: fp
  tx_centerline_samples :: "centerline_sample_message list"
  tx_pitstop_data :: pitstop_data_message

section \<open>Controls\<close>

type_synonym shift_codes = "i32 \<Rightarrow> proto_gear_shift option"

definition proto_gear_shift_to_engine :: "shift_codes \<Rightarrow> i32 \<Rightarrow> (status, gear_shift) result" where
  "proto_gear_shift_to_engine shift_of raw =
     (case shift_of raw of
        None \<Rightarrow> invalid_argument ''invalid gear_shift''
      | Some ProtoShiftUnspecified \<Rightarrow> Inr NoShift
      | Some ProtoShiftNone \<Rightarrow> Inr NoShift
      | Some ProtoShiftUp \<Rightarrow> Inr Upshift
      | Some ProtoShiftDown \<Rightarrow> Inr Downshift)"

definition controls_from_proto ::
  "shift_codes \<Rightarrow> fp \<Rightarrow> fp \<Rightarrow> fp \<Rightarrow> fp \<Rightarrow> fp \<Rightarrow> i32 \<Rightarrow> (status, controls) result" where
  "controls_from_proto shift_of throttle brake brake_balancer differential_lock steering raw_gear_shift =
     (case proto_gear_shift_to_engine shift_of raw_gear_shift of
        Inl err \<Rightarrow> Inl err
      | Inr shift \<Rightarrow> Inr (controls_new throttle brake brake_balancer differential_lock steering shift))"

record set_controls_dev_request =
  sr_target_car_id :: u64
  sr_client_seq :: u64
  sr_throttle :: fp
  sr_brake :: fp
  sr_steering :: fp
  sr_gear_shift :: i32

definition proto_dev_to_controls :: "shift_codes \<Rightarrow> set_controls_dev_request \<Rightarrow> (status, controls) result" where
  "proto_dev_to_controls shift_of req =
     controls_from_proto shift_of (sr_throttle req) (sr_brake req) (Fin (1 / 2)) (Fin 0)
       (sr_steering req) (sr_gear_shift req)"

record participant_controls =
  pc_client_seq :: u64
  pc_throttle :: fp
  pc_brake :: fp
  pc_brake_balancer :: fp
  pc_differential_lock :: fp
  pc_steering :: fp
  pc_gear_shift :: i32

datatype participant_payload =
    PayloadInit
  | PayloadControls participant_controls
  | PayloadBackToTrack u64
  | PayloadEmergencyPitstop u64
  | PayloadSetNextPitTireType u64 i32

fun proto_participant_controls_to_controls ::
  "shift_codes \<Rightarrow> participant_payload \<Rightarrow> (status, (u64 \<times> controls) option) result" where
  "proto_participant_controls_to_controls shift_of (PayloadControls v) =
     (case controls_from_proto shift_of (pc_throttle v) (pc_brake v) (pc_brake_balancer v)
             (pc_differential_lock v) (pc_steering v) (pc_gear_shift v) of
        Inl err \<Rightarrow> Inl err
      | Inr c \<Rightarrow> Inr (Some (pc_client_seq v, c)))"
| "proto_participant_controls_to_controls shift_of _ = Inr None"

fun engine_gear_shift_to_proto :: "gear_shift \<Rightarrow> proto_gear_shift" where
  "engine_gear_shift_to_proto NoShift = ProtoShiftNone"
| "engine_gear_shift_to_proto Upshift = ProtoShiftUp"
| "engine_gear_shift_to_proto Downshift = ProtoShiftDown"

section \<open>Cars\<close>

definition vec3_to_proto :: "vec3 \<Rightarrow> vec3" where
  "vec3_to_proto v = \<lparr>vec_x = vec_x v, vec_y = vec_y v, vec_z = vec_z v\<rparr>"

definition wheel_speeds_from_state :: "vehicle_state \<Rightarrow> wheel_speeds_message" where
  "wheel_speeds_from_state v =
     \<lparr>ws_front_left_radps = wheel_speeds v ! 0, ws_front_right_radps = wheel_speeds v ! 1,
      ws_rear_left_radps = wheel_speeds v ! 2, ws_rear_right_radps = wheel_speeds v ! 3\<rparr>"

definition participant_kinematics_from_state :: "vehicle_state \<Rightarrow> car_kinematics" where
  "participant_kinematics_from_state v =
     \<lparr>kn_position = vec3_to_proto (chassis_position v),
      kn_orientation = (let q = vehicle_orientation v in
        \<lparr>quat_x = quat_x q, quat_y = quat_y q, quat_z = quat_z q, quat_w = quat_w q\<rparr>)\<rparr>"

fun ghost_mode_phase_to_proto :: "ghost_mode_phase \<Rightarrow> proto_ghost_phase" where
  "ghost_mode_phase_to_proto GhostInactive = ProtoGhostInactive"
| "ghost_mode_phase_to_proto GhostPendingEnter = ProtoGhostInactive"
| "ghost_mode_phase_to_proto GhostActive = ProtoGhostActive"
| "ghost_mode_phase_to_proto GhostPendingExit = ProtoGhostPendingExit"

fun ghost_mode_blocker_bits :: "proto_ghost_blocker \<Rightarrow> u32" where
  "ghost_mode_blocker_bits LapsRequirementNotMet = 1"
| "ghost_mode_blocker_bits ExitSpeedNotMet = 2"
| "ghost_mode_blocker_bits ExitDelayRunning = 4"
| "ghost_mode_blocker_bits VehicleOverlapActive = 8"
| "ghost_mode_blocker_bits OverlapExitDelayRunning = 16"
| "ghost_mode_blocker_bits BlockerInPit = 32"

definition ghost_mode_blockers_to_proto :: "u32 \<Rightarrow> proto_ghost_blocker list" where
  "ghost_mode_blockers_to_proto blockers =
     filter (\<lambda>b. blockers AND ghost_mode_blocker_bits b \<noteq> 0)
       [LapsRequirementNotMet, ExitSpeedNotMet, ExitDelayRunning, VehicleOverlapActive,
        OverlapExitDelayRunning, BlockerInPit]"

definition ghost_mode_state_from_runtime :: "ghost_mode_runtime_state \<Rightarrow> ghost_mode_state" where
  "ghost_mode_state_from_runtime g =
     \<lparr>gm_can_collide_now = can_collide_now g, gm_phase = ghost_mode_phase_to_proto (ghost_phase g),
      gm_blockers = ghost_mode_blockers_to_proto (blockers_mask g),
      gm_exit_delay_remaining_ms = exit_delay_remaining_ms g\<rparr>"

text \<open>\<open>tire_wear_array_to_proto\<close> and \<open>tire_temperature_array_to_proto\<close>.\<close>

definition per_wheel_of :: "fp list \<Rightarrow> per_wheel" where
  "per_wheel_of values =
     \<lparr>pw_front_left = values ! 0, pw_front_right = values ! 1, pw_rear_left = values ! 2,
      pw_rear_right = values ! 3\<rparr>"

fun engine_tyre_to_proto :: "tyre_type \<Rightarrow> proto_tire_type" where
  "engine_tyre_to_proto Hard = ProtoTireHard"
| "engine_tyre_to_proto Soft = ProtoTireSoft"
| "engine_tyre_to_proto Wet = ProtoTireWet"

definition tire_telemetry_from_state ::
  "vehicle_state \<Rightarrow> proto_tire_type \<times> per_wheel option \<times> per_wheel option \<times> per_wheel option" where
  "tire_telemetry_from_state v =
     (let no_wear_signal = list_all (\<lambda>x. fp_eq x (Fin 0)) (tyre_health v);
          no_temp_signal = list_all (\<lambda>x. fp_eq x (Fin 0)) (tyre_temperature_celsius v);
          all_finite = list_all is_finite_fp (tyre_health v @ tyre_temperature_celsius v @ tyre_slip v)
      in if \<not> all_finite \<or> (no_wear_signal \<and> no_temp_signal)
         then (ProtoTireUnspecified, None, None, None)
         else (engine_tyre_to_proto (vs_tyre_type v), Some (per_wheel_of (tyre_health v)),
               Some (per_wheel_of (tyre_temperature_celsius v)), Some (per_wheel_of (tyre_slip v))))"

fun runtime_tire_type_to_proto :: "pit_tire_type \<Rightarrow> proto_tire_type" where
  "runtime_tire_type_to_proto TireUnspecified = ProtoTireUnspecified"
| "runtime_tire_type_to_proto TireHard = ProtoTireHard"
| "runtime_tire_type_to_proto TireSoft = ProtoTireSoft"
| "runtime_tire_type_to_proto TireWet = ProtoTireWet"

fun runtime_pit_source_to_proto :: "pit_entry_source \<Rightarrow> proto_pit_source" where
  "runtime_pit_source_to_proto BotDecision = ProtoBotDecision"
| "runtime_pit_source_to_proto Requested = ProtoRequested"
| "runtime_pit_source_to_proto Emergency = ProtoEmergency"

definition pit_runtime_from_snapshot :: "pit_state_snapshot \<Rightarrow> pit_runtime_state" where
  "pit_runtime_from_snapshot s =
     \<lparr>pt_pit_request_active = sn_pit_request_active s,
      pt_emergency_lock_remaining_ms = sn_emergency_lock_remaining_ms s,
      pt_last_pit_time_ms = sn_last_pit_time_ms s,
      pt_last_pit_source = runtime_pit_source_to_proto (sn_last_pit_source s),
      pt_last_pit_lap = sn_last_pit_lap s\<rparr>"

definition pit_history_from_snapshot :: "pit_state_snapshot \<Rightarrow> pit_history_message list" where
  "pit_history_from_snapshot s =
     map (\<lambda>e. \<lparr>pm_pit_time_ms = ph_pit_time_ms e, pm_lap = ph_lap e,
                pm_source = runtime_pit_source_to_proto (ph_source e),
                pm_tire_type_after = runtime_tire_type_to_proto (ph_tire_type_after e),
                pm_tire_type_before = runtime_tire_type_to_proto (ph_tire_type_before e),
                pm_tire_wear_before_repair = per_wheel_of (ph_tire_wear_before_repair e),
                pm_tire_temperature_before_celsius = per_wheel_of (ph_tire_temperature_before_celsius e),
                pm_tire_temperature_after_celsius = per_wheel_of (ph_tire_temperature_after_celsius e),
                pm_bot_slot_before = ph_bot_slot_before e, pm_bot_slot_after = ph_bot_slot_after e\<rparr>)
       (sn_history s)"

definition command_cooldowns_from_snapshot :: "pit_state_snapshot \<Rightarrow> command_cooldown_state" where
  "command_cooldowns_from_snapshot s =
     \<lparr>cc_back_to_track_remaining_ms = sn_back_to_track_remaining_ms s,
      cc_emergency_pitstop_remaining_ms = sn_emergency_pitstop_remaining_ms s\<rparr>"

definition participant_telemetry_from_state ::
  "vehicle_state \<Rightarrow> u64 \<Rightarrow> pit_state_snapshot \<Rightarrow> car_participant_state" where
  "participant_telemetry_from_state v last_applied_client_seq pit =
     (let (tire_type, wear, temperature, slip) = tire_telemetry_from_state v in
      \<lparr>cp_last_applied_client_seq = last_applied_client_seq, cp_speed_mps = vs_speed v,
       cp_engine_rpm = engine_rpm v,
       cp_gear = (case vs_gear v of Reverse \<Rightarrow> - 1 | Neutral \<Rightarrow> 0 | Forward n \<Rightarrow> uint n),
       cp_ghost_mode = ghost_mode_state_from_runtime (ghost_mode_runtime v),
       cp_pitstop_zone_flags = zone_mask (vs_pitstop_state v),
       cp_wheels_in_pitstop = ucast (wheels_in_pitstop (vs_pitstop_state v)),
       cp_tire_type = tire_type, cp_tire_wear = wear, cp_tire_temperature_celsius = temperature,
       cp_pit_runtime = pit_runtime_from_snapshot pit, cp_pit_history = pit_history_from_snapshot pit,
       cp_next_pit_tire_type = runtime_tire_type_to_proto (sn_next_pit_tire_type pit),
       cp_tire_slip = slip, cp_command_cooldowns = command_cooldowns_from_snapshot pit\<rparr>)"

definition render_state_from_state :: "vehicle_state \<Rightarrow> car_render_state" where
  "render_state_from_state v =
     \<lparr>cr_wheel_speeds = wheel_speeds_from_state v,
      cr_front_left_wheel_orientation_rad = front_wheel_orientation_rad v ! 0,
      cr_front_right_wheel_orientation_rad = front_wheel_orientation_rad v ! 1\<rparr>"

definition frontend_full_state ::
  "u64 \<Rightarrow> vehicle_state \<Rightarrow> u64 \<Rightarrow> pit_state_snapshot \<Rightarrow> control_input_snapshot \<Rightarrow> u32 option \<Rightarrow> u32 option
    \<Rightarrow> u32 option \<Rightarrow> frontend_car_full_state" where
  "frontend_full_state car_id v last_applied_client_seq pit input current_lap last_lap best_lap =
     \<lparr>ff_car_id = car_id, ff_kinematics = participant_kinematics_from_state v,
      ff_telemetry = participant_telemetry_from_state v last_applied_client_seq pit,
      ff_render = render_state_from_state v, ff_input_throttle = in_throttle input,
      ff_input_brake = in_brake input, ff_current_brake_balancer = in_brake_balancer input,
      ff_current_differential_lock = in_differential_lock input,
      ff_frontend_next_pit_tire_override =
        runtime_tire_type_to_proto (sn_frontend_next_pit_tire_override pit),
      ff_current_lap_elapsed_ms = current_lap, ff_last_lap_time_ms = last_lap,
      ff_best_lap_time_ms = best_lap\<rparr>"

definition participant_self_state ::
  "u64 \<Rightarrow> vehicle_state \<Rightarrow> u64 \<Rightarrow> pit_state_snapshot \<Rightarrow> participant_self_message" where
  "participant_self_state car_id v last_applied_client_seq pit =
     \<lparr>sf_car_id = car_id, sf_kinematics = participant_kinematics_from_state v,
      sf_telemetry = participant_telemetry_from_state v last_applied_client_seq pit\<rparr>"

definition participant_opponent_state :: "u64 \<Rightarrow> vehicle_state \<Rightarrow> participant_opponent_message" where
  "participant_opponent_state car_id v =
     \<lparr>pq_car_id = car_id, pq_kinematics = participant_kinematics_from_state v,
      pq_ghost_mode = ghost_mode_state_from_runtime (ghost_mode_runtime v)\<rparr>"

section \<open>Tracks\<close>

fun ground_type_to_proto :: "ground_type \<Rightarrow> proto_ground_type" where
  "ground_type_to_proto Asphalt = ProtoAsphalt"
| "ground_type_to_proto Grass = ProtoGrass"
| "ground_type_to_proto Sand = ProtoGravel"
| "ground_type_to_proto Gravel = ProtoGravel"
| "ground_type_to_proto Wall = ProtoWall"
| "ground_type_to_proto Kerb = ProtoKerb"

definition ground_width_to_proto :: "ground_width \<Rightarrow> ground_width_message" where
  "ground_width_to_proto g =
     \<lparr>gx_width_m = gw_width g, gx_ground_type = ground_type_to_proto (gw_ground_type g)\<rparr>"

definition centerline_sample_to_proto :: "centerline_sample \<Rightarrow> centerline_sample_message" where
  "centerline_sample_to_proto c =
     \<lparr>cx_s_m = s_m c, cx_position = vec3_to_proto (cs_position c), cx_tangent = vec3_to_proto (cs_tangent c),
      cx_normal = vec3_to_proto (cs_normal c), cx_right = vec3_to_proto (cs_right c),
      cx_left_width_m = left_width_m c, cx_right_width_m = right_width_m c,
      cx_curvature_1pm = curvature_1pm c, cx_grade_rad = grade_rad c, cx_bank_rad = bank_rad c,
      cx_max_left_width_m = max_left_width_m c, cx_max_right_width_m = max_right_width_m c,
      cx_left_grounds = map ground_width_to_proto (left_grounds c),
      cx_right_grounds = map ground_width_to_proto (right_grounds c)\<rparr>"

definition track_data_to_proto :: "track_data \<Rightarrow> track_data_message" where
  "track_data_to_proto t =
     (let pit = td_pitstop_data t in
      \<lparr>tx_map_id = td_map_id t, tx_lap_length_m = lap_length_m t,
       tx_centerline_samples = map centerline_sample_to_proto (centerline_samples t),
       tx_pitstop_data =
         \<lparr>px_enter_centerline_samples = map centerline_sample_to_proto (enter_centerline_samples pit),
          px_fix_centerline_samples = map centerline_sample_to_proto (fix_centerline_samples pit),
          px_exit_centerline_samples = map centerline_sample_to_proto (exit_centerline_samples pit),
          px_length_m = pit_length_m pit\<rparr>\<rparr>)"

section \<open>Lemmas\<close>

lemma blockers_to_proto_set:
  "set (ghost_mode_blockers_to_proto m) = {b. m AND ghost_mode_blocker_bits b \<noteq> 0}"
proof -
  have "b \<in> set [LapsRequirementNotMet, ExitSpeedNotMet, ExitDelayRunning, VehicleOverlapActive,
        OverlapExitDelayRunning, BlockerInPit]" for b
    by (cases b) simp_all
  then show ?thesis unfolding ghost_mode_blockers_to_proto_def set_filter by blast
qed

text \<open>The tyre values a message carries are complete and finite, or it carries none.\<close>

lemma per_wheel_of_finite:
  "length xs = 4 \<Longrightarrow> list_all is_finite_fp xs \<Longrightarrow>
     is_finite_fp (pw_front_left (per_wheel_of xs)) \<and> is_finite_fp (pw_front_right (per_wheel_of xs)) \<and>
     is_finite_fp (pw_rear_left (per_wheel_of xs)) \<and> is_finite_fp (pw_rear_right (per_wheel_of xs))"
  by (auto simp: per_wheel_of_def list_all_length)

lemma controls_from_proto_ok:
  "controls_from_proto shift_of t b bb dl st raw = Inr c \<Longrightarrow>
     \<exists>shift. proto_gear_shift_to_engine shift_of raw = Inr shift \<and> c = controls_new t b bb dl st shift"
  by (auto simp: controls_from_proto_def split: sum.splits)

end
