(* ===== verification/Game_Token.thy ===== *)
theory Game_Token
  imports Service_Status
begin

text \<open>
  Authentication, game-server/src/auth: the validator of game tokens against the key set of
  the authentication service (jwks.rs), the claims of a game token (game_token.rs) and the
  claims an ingress injects (auth_claims.rs).

  The token library, the JSON and base64 decoders and the answers of the authentication
  service are parameters. Instants are in milliseconds. The key cache is shared by all
  requests: \<open>other i\<close> is what they do to it before the lock number \<open>i\<close> of a request is taken,
  and \<open>now i\<close> is the clock reading number \<open>i\<close>.
\<close>

section \<open>Parameters\<close>

datatype jwt_algorithm = ES256 | OtherAlgorithm string

record jwt_header =
  jh_alg :: jwt_algorithm
  jh_kid :: "string option"

record ('key, 'claims) jwt_library =
  jl_header :: "string \<Rightarrow> jwt_header option"
  jl_key :: "string \<Rightarrow> string \<Rightarrow> 'key option"
  jl_decode :: "string \<Rightarrow> 'key \<Rightarrow> string list \<Rightarrow> string list \<Rightarrow> 'claims option"

datatype jwk_key_type = KtyEc | KtyOther
datatype jwk_ec_curve = CrvP256 | CrvOther
datatype proto_jwt_algorithm = AlgEs256 | AlgOther

record jwk_codes =
  kc_kty :: "i32 \<Rightarrow> jwk_key_type option"
  kc_crv :: "i32 \<Rightarrow> jwk_ec_curve option"
  kc_alg :: "i32 \<Rightarrow> proto_jwt_algorithm option"

record proto_jwk =
  pk_kty :: i32
  pk_crv :: i32
  pk_alg :: i32
  pk_kid :: string
  pk_x :: string
  pk_y :: string

text \<open>An answer of the service; an error carries its code and its text.\<close>

datatype fetch_answer = FetchTimeout | FetchError status_code string | FetchKeys "proto_jwk list"

section \<open>Keys\<close>

record jwk =
  jwk_kty :: string
  jwk_kid :: "string option"
  jwk_crv :: "string option"
  jwk_x :: "string option"
  jwk_y :: "string option"

record jwks_cache =
  jc_jwks :: "jwk list option"
  jc_fetched_at :: "nat option"

definition jwks_cache_new :: jwks_cache where
  "jwks_cache_new = \<lparr>jc_jwks = None, jc_fetched_at = None\<rparr>"

definition JWKS_CACHE_TTL :: nat where "JWKS_CACHE_TTL = 300000"

definition unauthenticated :: "string \<Rightarrow> (status, 'a) result" where
  "unauthenticated msg = Inl (Status CodeUnauthenticated msg)"

definition map_proto_jwk :: "jwk_codes \<Rightarrow> proto_jwk \<Rightarrow> jwk option" where
  "map_proto_jwk kc entry =
     (if kc_kty kc (pk_kty entry) \<noteq> Some KtyEc then None
      else if kc_crv kc (pk_crv entry) \<noteq> Some CrvP256 then None
      else if kc_alg kc (pk_alg entry) \<noteq> Some AlgEs256 then None
      else
        let x = trim (pk_x entry); y = trim (pk_y entry) in
        if x = [] \<or> y = [] then None
        else
          let kid = trim (pk_kid entry) in
          Some \<lparr>jwk_kty = ''EC'', jwk_kid = (if kid = [] then None else Some kid),
                jwk_crv = Some ''P-256'', jwk_x = Some x, jwk_y = Some y\<rparr>)"

definition map_jwks_fetch_error :: "status_code \<Rightarrow> string \<Rightarrow> status" where
  "map_jwks_fetch_error code display =
     (if code = CodeDeadlineExceeded then Status CodeDeadlineExceeded ''jwks fetch timed out''
      else if code = CodeUnavailable then Status CodeUnavailable ''jwks fetch unavailable''
      else Status CodeUnavailable (''jwks fetch failed: '' @ display))"

fun fetch_jwks :: "jwk_codes \<Rightarrow> fetch_answer \<Rightarrow> (status, jwk list) result" where
  "fetch_jwks kc FetchTimeout = Inl (Status CodeDeadlineExceeded ''jwks fetch timed out'')"
| "fetch_jwks kc (FetchError code display) = Inl (map_jwks_fetch_error code display)"
| "fetch_jwks kc (FetchKeys entries) =
     (let keys = List.map_filter (map_proto_jwk kc) entries in
      if keys = [] then Inl (Status CodeUnavailable ''jwks response did not contain usable keys'')
      else Inr keys)"

text \<open>The key set of a cache that is younger than the limit.\<close>

definition fresh_keys :: "nat \<Rightarrow> jwks_cache \<Rightarrow> jwk list option" where
  "fresh_keys now_ms cache =
     (case (jc_jwks cache, jc_fetched_at cache) of
        (Some keys, Some fetched_at) \<Rightarrow> if now_ms - fetched_at < JWKS_CACHE_TTL then Some keys else None
      | _ \<Rightarrow> None)"

type_synonym cache_others = "nat \<Rightarrow> jwks_cache \<Rightarrow> jwks_cache"

definition jwks ::
  "jwk_codes \<Rightarrow> cache_others \<Rightarrow> (nat \<Rightarrow> nat) \<Rightarrow> fetch_answer \<Rightarrow> jwks_cache
    \<Rightarrow> (status, jwk list) result \<times> jwks_cache" where
  "jwks kc other now fetched cache =
     (let c0 = other 0 cache in
      case fresh_keys (now 0) c0 of
        Some keys \<Rightarrow> (Inr keys, c0)
      | None \<Rightarrow>
          let c1 = other 1 c0 in
          case fresh_keys (now 1) c1 of
            Some keys \<Rightarrow> (Inr keys, c1)
          | None \<Rightarrow>
              let c2 = other 2 c1 in
              case fetch_jwks kc fetched of
                Inr keys \<Rightarrow> (Inr keys, \<lparr>jc_jwks = Some keys, jc_fetched_at = Some (now 2)\<rparr>)
              | Inl err \<Rightarrow>
                  (case jc_jwks c2 of
                     Some keys \<Rightarrow> (Inr keys, c2)
                   | None \<Rightarrow> (Inl err, c2)))"

definition jwk_to_key :: "('key, 'claims) jwt_library \<Rightarrow> jwk \<Rightarrow> (status, 'key) result" where
  "jwk_to_key lib k =
     (if jwk_kty k \<noteq> ''EC'' then unauthenticated ''unsupported jwk''
      else if jwk_crv k \<noteq> Some ''P-256'' then unauthenticated ''unsupported jwk curve''
      else case jwk_x k of
        None \<Rightarrow> unauthenticated ''invalid jwk''
      | Some x \<Rightarrow>
          (case jwk_y k of
             None \<Rightarrow> unauthenticated ''invalid jwk''
           | Some y \<Rightarrow>
               (case jl_key lib x y of
                  None \<Rightarrow> unauthenticated ''invalid jwk'' | Some key \<Rightarrow> Inr key)))"

section \<open>Tokens\<close>

record jwks_validator =
  jv_audience :: "string list"
  jv_issuers :: "string list"

definition candidate_keys :: "string option \<Rightarrow> jwk list \<Rightarrow> jwk list" where
  "candidate_keys kid keys =
     (let candidates = (case kid of None \<Rightarrow> keys | Some k \<Rightarrow> filter (\<lambda>j. jwk_kid j = Some k) keys)
      in if candidates = [] then keys else candidates)"

fun try_candidates ::
  "('key, 'claims) jwt_library \<Rightarrow> jwks_validator \<Rightarrow> string \<Rightarrow> jwk list \<Rightarrow> (status, 'claims) result" where
  "try_candidates lib v token [] = unauthenticated ''invalid jwt''"
| "try_candidates lib v token (k # ks) =
     (case jwk_to_key lib k of
        Inl _ \<Rightarrow> try_candidates lib v token ks
      | Inr key \<Rightarrow>
          (case jl_decode lib token key (jv_audience v) (jv_issuers v) of
             Some claims \<Rightarrow> Inr claims
           | None \<Rightarrow> try_candidates lib v token ks))"

definition decode_claims ::
  "('key, 'claims) jwt_library \<Rightarrow> jwk_codes \<Rightarrow> jwks_validator \<Rightarrow> cache_others \<Rightarrow> (nat \<Rightarrow> nat)
    \<Rightarrow> fetch_answer \<Rightarrow> string \<Rightarrow> jwks_cache \<Rightarrow> (status, 'claims) result \<times> jwks_cache" where
  "decode_claims lib kc v other now fetched token cache =
     (case jl_header lib token of
        None \<Rightarrow> (unauthenticated ''invalid jwt'', cache)
      | Some header \<Rightarrow>
          if jh_alg header \<noteq> ES256 then (unauthenticated ''unsupported jwt algorithm'', cache)
          else
            (case jwks kc other now fetched cache of
               (Inl err, c) \<Rightarrow> (Inl err, c)
             | (Inr keys, c) \<Rightarrow>
                 (let candidates = candidate_keys (jh_kid header) keys in
                  if candidates = [] then (unauthenticated ''no jwk keys available'', c)
                  else (try_candidates lib v token candidates, c))))"

section \<open>Claims of a game token\<close>

datatype scope_claim = Single string | Many "string list"

record game_token_claims =
  gt_sub :: string
  gt_scope :: "scope_claim option"
  gt_scp :: "scope_claim option"
  gt_instance_uuid :: "string option"
  gt_team_id :: "string option"

text \<open>\<open>str::split_whitespace\<close>.\<close>

definition at_whitespace :: "string \<Rightarrow> bool" where
  "at_whitespace s \<longleftrightarrow> list_ex (\<lambda>w. prefix w s) whitespace_encodings"

fun until_whitespace :: "string \<Rightarrow> string \<times> string" where
  "until_whitespace [] = ([], [])"
| "until_whitespace (c # cs) =
     (if at_whitespace (c # cs) then ([], c # cs)
      else let (w, rest) = until_whitespace cs in (c # w, rest))"

lemma until_whitespace_append: "until_whitespace s = (w, rest) \<Longrightarrow> s = w @ rest"
  by (induction s arbitrary: w rest) (auto split: if_splits prod.splits)

lemma strip_front_suffix: "suffix (strip_front ws s) s"
proof (induction ws s rule: strip_front.induct)
  case (1 ws s)
  show ?case
  proof (cases "find (\<lambda>w. w \<noteq> [] \<and> prefix w s) ws")
    case None
    then show ?thesis by (simp add: strip_front.simps [of ws s])
  next
    case (Some w)
    have "suffix (strip_front ws (drop (length w) s)) (drop (length w) s)" using 1 [OF Some] .
    then show ?thesis
      using Some suffix_order.trans [OF _ suffix_drop] by (simp add: strip_front.simps [of ws s])
  qed
qed

lemma after_word_shorter:
  assumes "until_whitespace (strip_front ws s) = (w, rest)" and "w \<noteq> []"
  shows "length rest < length s"
  using until_whitespace_append [OF assms(1)] suffix_length_le [OF strip_front_suffix [of ws s]] assms(2)
  by (cases w) simp_all

function split_whitespace :: "string \<Rightarrow> string list" where
  "split_whitespace s =
     (let (w, rest) = until_whitespace (strip_front whitespace_encodings s) in
      if w = [] then [] else w # split_whitespace rest)"
  by pat_completeness auto

termination
  by (relation "measure length") (auto dest!: sym [of "(_, _)"] dest: after_word_shorter)

declare split_whitespace.simps [simp del]

text \<open>The hash set of scopes as a list without repetition; its order is not specified.\<close>

definition add_scope :: "string \<Rightarrow> string list \<Rightarrow> string list" where
  "add_scope entry scopes = (if entry = [] \<or> entry \<in> set scopes then scopes else scopes @ [entry])"

fun collect_scope_claim :: "scope_claim option \<Rightarrow> string list \<Rightarrow> string list" where
  "collect_scope_claim None scopes = scopes"
| "collect_scope_claim (Some (Single value)) scopes = fold add_scope (split_whitespace value) scopes"
| "collect_scope_claim (Some (Many values)) scopes = fold add_scope values scopes"

definition extract_scopes :: "game_token_claims \<Rightarrow> string list" where
  "extract_scopes claims = collect_scope_claim (gt_scp claims) (collect_scope_claim (gt_scope claims) [])"

text \<open>
  The validator as its callers use it: the outcome of \<open>decode_claims\<close> for a token at the
  await it is called in.
\<close>

type_synonym token_oracle = "string \<Rightarrow> (status, game_token_claims) result"

definition scopes_from_token :: "token_oracle \<Rightarrow> string \<Rightarrow> (status, string list) result" where
  "scopes_from_token claims_of token = map_sum (\<lambda>e. e) extract_scopes (claims_of token)"

definition instance_uuid_from_token :: "token_oracle \<Rightarrow> string \<Rightarrow> (status, string option) result" where
  "instance_uuid_from_token claims_of token = map_sum (\<lambda>e. e) gt_instance_uuid (claims_of token)"

definition team_id_from_token :: "token_oracle \<Rightarrow> string \<Rightarrow> (status, string option) result" where
  "team_id_from_token claims_of token = map_sum (\<lambda>e. e) gt_team_id (claims_of token)"

definition subject_from_token :: "token_oracle \<Rightarrow> string \<Rightarrow> (status, string) result" where
  "subject_from_token claims_of token = map_sum (\<lambda>e. e) gt_sub (claims_of token)"

text \<open>A header of a request: absent, not readable as text, or text.\<close>

datatype header_value = HeaderAbsent | HeaderNotText | HeaderText string

fun parse_game_token :: "header_value \<Rightarrow> (status, string option) result" where
  "parse_game_token HeaderAbsent = Inr None"
| "parse_game_token HeaderNotText = unauthenticated ''invalid x-ha3-game-token header''"
| "parse_game_token (HeaderText raw) =
     (if trim raw = [] then unauthenticated ''empty x-ha3-game-token'' else Inr (Some raw))"

section \<open>Claims injected by the ingress\<close>

record token_claims =
  tc_sub :: "string option"
  tc_roles :: "string list option"
  tc_realm_access :: "string list option option"

record claims_parser =
  cp_json :: "string \<Rightarrow> token_claims option"
  cp_base64 :: "string \<Rightarrow> u8 list option"
  cp_json_bytes :: "u8 list \<Rightarrow> token_claims option"

fun claims_from_metadata :: "claims_parser \<Rightarrow> header_value \<Rightarrow> (status, token_claims option) result" where
  "claims_from_metadata cp HeaderAbsent = Inr None"
| "claims_from_metadata cp HeaderNotText = unauthenticated ''invalid x-ha3-auth-claims header''"
| "claims_from_metadata cp (HeaderText raw) =
     (if trim raw = [] then unauthenticated ''empty x-ha3-auth-claims''
      else case cp_json cp raw of
        Some claims \<Rightarrow> Inr (Some claims)
      | None \<Rightarrow>
          (case cp_base64 cp raw of
             None \<Rightarrow> unauthenticated ''invalid x-ha3-auth-claims encoding''
           | Some decoded \<Rightarrow>
               (case cp_json_bytes cp decoded of
                  None \<Rightarrow> unauthenticated ''invalid x-ha3-auth-claims payload''
                | Some claims \<Rightarrow> Inr (Some claims))))"

definition extract_roles :: "token_claims \<Rightarrow> string list" where
  "extract_roles claims =
     (let r1 = (case tc_roles claims of None \<Rightarrow> [] | Some entries \<Rightarrow> fold add_scope entries [])
      in case tc_realm_access claims of
           Some (Some entries) \<Rightarrow> fold add_scope entries r1
         | _ \<Rightarrow> r1)"

definition is_admin_role :: "string \<Rightarrow> bool" where
  "is_admin_role role \<longleftrightarrow> role \<in> set [''admin'', ''hackarena-admin'', ''hackarena3-admin'']"

definition required_claims :: "claims_parser \<Rightarrow> header_value \<Rightarrow> (status, token_claims) result" where
  "required_claims cp h =
     (case claims_from_metadata cp h of
        Inl err \<Rightarrow> Inl err
      | Inr None \<Rightarrow> unauthenticated ''missing x-ha3-auth-claims''
      | Inr (Some claims) \<Rightarrow> Inr claims)"

definition is_admin :: "claims_parser \<Rightarrow> header_value \<Rightarrow> (status, bool) result" where
  "is_admin cp h = map_sum (\<lambda>e. e) (\<lambda>claims. list_ex is_admin_role (extract_roles claims)) (required_claims cp h)"

definition subject :: "claims_parser \<Rightarrow> header_value \<Rightarrow> (status, string) result" where
  "subject cp h =
     (case required_claims cp h of
        Inl err \<Rightarrow> Inl err
      | Inr claims \<Rightarrow>
          (case map_option trim (tc_sub claims) of
             None \<Rightarrow> unauthenticated ''missing sub claim''
           | Some value \<Rightarrow> if value = [] then unauthenticated ''missing sub claim'' else Inr value))"

section \<open>What the validator accepts\<close>

text \<open>
  The cache holds what the last successful download returned: \<open>downloads kc hist cache\<close> says
  that the downloads of \<open>hist\<close>, with their instants, were written to the cache in this order.
\<close>

inductive downloads :: "jwk_codes \<Rightarrow> (nat \<times> jwk list) list \<Rightarrow> jwks_cache \<Rightarrow> bool" for kc where
  no_download: "downloads kc [] jwks_cache_new"
| download: "downloads kc hist c \<Longrightarrow> fetch_jwks kc fetched = Inr keys \<Longrightarrow>
    downloads kc (hist @ [(t, keys)]) \<lparr>jc_jwks = Some keys, jc_fetched_at = Some t\<rparr>"

inductive_cases downloads_NilE: "downloads kc [] c"

lemma downloads_last:
  "downloads kc hist c \<Longrightarrow>
     (if hist = [] then c = jwks_cache_new
      else c = \<lparr>jc_jwks = Some (snd (last hist)), jc_fetched_at = Some (fst (last hist))\<rparr>)"
  by (induction rule: downloads.induct) auto

lemma downloads_keys: "downloads kc hist c \<Longrightarrow> jc_jwks c = Some keys \<Longrightarrow> hist \<noteq> [] \<and> keys = snd (last hist)"
  using downloads_last [of kc hist c] by (auto simp: jwks_cache_new_def split: if_splits)

lemma downloads_fresh:
  assumes "downloads kc hist c" and "fresh_keys t c = Some keys"
  shows "\<exists>t'. (t', keys) \<in> set hist \<and> t - t' < JWKS_CACHE_TTL"
proof -
  have "hist \<noteq> []" using assms downloads_last [OF assms(1)]
    by (auto simp: fresh_keys_def jwks_cache_new_def split: if_splits)
  then show ?thesis using assms downloads_last [OF assms(1)] last_in_set [of hist]
    by (cases "last hist") (auto simp: fresh_keys_def split: if_splits)
qed

definition usable_jwk :: "jwk \<Rightarrow> bool" where
  "usable_jwk k \<longleftrightarrow> jwk_kty k = ''EC'' \<and> jwk_crv k = Some ''P-256'' \<and>
     (\<exists>x y. jwk_x k = Some x \<and> jwk_y k = Some y \<and> x \<noteq> [] \<and> y \<noteq> [])"

lemma fetched_usable:
  assumes "fetch_jwks kc fetched = Inr keys"
  shows "keys \<noteq> [] \<and> list_all usable_jwk keys"
proof (cases fetched)
  case (FetchKeys entries)
  have "usable_jwk k" if "map_proto_jwk kc e = Some k" for e k
    using that by (auto simp: map_proto_jwk_def Let_def usable_jwk_def split: if_splits)
  then show ?thesis using assms FetchKeys
    by (auto simp: Let_def map_filter_def list_all_iff split: if_splits)
qed (use assms in simp_all)

lemma downloads_usable: "downloads kc hist c \<Longrightarrow> (t, keys) \<in> set hist \<Longrightarrow> keys \<noteq> [] \<and> list_all usable_jwk keys"
  by (induction rule: downloads.induct) (auto dest: fetched_usable)

text \<open>A key verifies a token: the library makes a key of its coordinates that decodes the token.\<close>

definition verifies ::
  "('key, 'claims) jwt_library \<Rightarrow> jwks_validator \<Rightarrow> string \<Rightarrow> 'claims \<Rightarrow> jwk \<Rightarrow> bool" where
  "verifies lib v token claims k \<longleftrightarrow>
     (\<exists>x y key. jwk_x k = Some x \<and> jwk_y k = Some y \<and> jl_key lib x y = Some key \<and>
        jl_decode lib token key (jv_audience v) (jv_issuers v) = Some claims)"

lemma try_candidates_verifies:
  "try_candidates lib v token ks = Inr claims \<Longrightarrow> \<exists>k\<in>set ks. verifies lib v token claims k"
proof (induction ks)
  case (Cons k ks)
  show ?case
  proof (cases "try_candidates lib v token ks = Inr claims")
    case True
    then show ?thesis using Cons.IH by auto
  next
    case False
    then show ?thesis using Cons.prems
      by (fastforce simp: verifies_def jwk_to_key_def unauthenticated_def
          split: sum.splits option.splits if_splits)
  qed
qed (simp add: unauthenticated_def)

lemma try_candidates_complete:
  "list_all usable_jwk ks \<Longrightarrow> k \<in> set ks \<Longrightarrow> verifies lib v token claims k \<Longrightarrow>
     is_ok (try_candidates lib v token ks)"
  by (induction ks) (auto simp: usable_jwk_def jwk_to_key_def verifies_def unauthenticated_def split: option.splits)

lemma candidate_keys_subset: "set (candidate_keys kid keys) \<subseteq> set keys"
  by (auto simp: candidate_keys_def Let_def split: option.splits if_splits)

lemma candidate_keys_Nil [simp]: "candidate_keys kid keys = [] \<longleftrightarrow> keys = []"
  by (auto simp: candidate_keys_def Let_def split: option.splits)

text \<open>Where the key set of a request comes from.\<close>

definition trusted_keys :: "jwk_codes \<Rightarrow> (nat \<Rightarrow> nat) \<Rightarrow> fetch_answer \<Rightarrow> (nat \<times> jwk list) list \<Rightarrow> jwk list \<Rightarrow> bool" where
  "trusted_keys kc now fetched hist keys \<longleftrightarrow>
     (\<exists>t i. (t, keys) \<in> set hist \<and> i < (2::nat) \<and> now i - t < JWKS_CACHE_TTL) \<or>
     fetch_jwks kc fetched = Inr keys \<or>
     (\<not> is_ok (fetch_jwks kc fetched) \<and> hist \<noteq> [] \<and> keys = snd (last hist))"

locale cache_rely =
  fixes kc :: jwk_codes and other :: cache_others and cache :: jwks_cache
    and log0 log1 log2 :: "(nat \<times> jwk list) list"
  assumes rely0: "downloads kc log0 (other 0 cache)"
    and rely1: "downloads kc log1 (other 1 (other 0 cache))"
    and rely2: "downloads kc log2 (other 2 (other 1 (other 0 cache)))"
    and grows: "prefix log0 log1" "prefix log1 log2"
begin

lemma jwks_trusted:
  assumes "fst (jwks kc other now fetched cache) = Inr keys"
  shows "trusted_keys kc now fetched log2 keys"
proof -
  have sub: "set log0 \<subseteq> set log2" "set log1 \<subseteq> set log2"
    using set_mono_prefix [OF grows(1)] set_mono_prefix [OF grows(2)] by auto
  consider "fresh_keys (now 0) (other 0 cache) = Some keys"
    | "fresh_keys (now 1) (other 1 (other 0 cache)) = Some keys"
    | "fetch_jwks kc fetched = Inr keys"
    | err where "fetch_jwks kc fetched = Inl err" "jc_jwks (other 2 (other 1 (other 0 cache))) = Some keys"
    using assms by (auto simp: jwks_def Let_def split: option.splits sum.splits)
  then show ?thesis
  proof cases
    case 1
    then obtain t where "(t, keys) \<in> set log2" "now 0 - t < JWKS_CACHE_TTL"
      using downloads_fresh [OF rely0] sub by blast
    then show ?thesis unfolding trusted_keys_def by (intro disjI1 exI [of _ t] exI [of _ "0::nat"]) simp
  next
    case 2
    then obtain t where "(t, keys) \<in> set log2" "now 1 - t < JWKS_CACHE_TTL"
      using downloads_fresh [OF rely1] sub by blast
    then show ?thesis unfolding trusted_keys_def by (intro disjI1 exI [of _ t] exI [of _ "1::nat"]) simp
  next
    case 3
    then show ?thesis by (simp add: trusted_keys_def)
  next
    case 4
    then show ?thesis using downloads_keys [OF rely2] by (simp add: trusted_keys_def)
  qed
qed

lemma trusted_usable:
  assumes "trusted_keys kc now fetched log2 keys"
  shows "keys \<noteq> [] \<and> list_all usable_jwk keys"
proof -
  have "(fst (last log2), snd (last log2)) \<in> set log2" if "log2 \<noteq> []" using that by simp
  then show ?thesis
    using assms downloads_usable [OF rely2] fetched_usable unfolding trusted_keys_def by metis
qed

lemma accepted_verified:
  assumes "fst (decode_claims lib kc v other now fetched token cache) = Inr claims"
  shows "\<exists>header keys k. jl_header lib token = Some header \<and> jh_alg header = ES256 \<and>
     trusted_keys kc now fetched log2 keys \<and> k \<in> set keys \<and> usable_jwk k \<and> verifies lib v token claims k"
proof -
  obtain header keys where h: "jl_header lib token = Some header" "jh_alg header = ES256"
    and ks: "fst (jwks kc other now fetched cache) = Inr keys"
    and t: "try_candidates lib v token (candidate_keys (jh_kid header) keys) = Inr claims"
    using assms by (auto simp: decode_claims_def unauthenticated_def Let_def
        split: option.splits if_splits sum.splits prod.splits)
  obtain k where k: "k \<in> set keys" "verifies lib v token claims k"
    using try_candidates_verifies [OF t] candidate_keys_subset by blast
  have "trusted_keys kc now fetched log2 keys" using jwks_trusted [OF ks] .
  then have "trusted_keys kc now fetched log2 keys \<and> usable_jwk k"
    using k(1) trusted_usable by (auto simp: list_all_iff)
  then show ?thesis using h k by blast
qed

lemma verified_accepted:
  assumes "jl_header lib token = Some header" and "jh_alg header = ES256" and "jh_kid header = None"
    and "fst (jwks kc other now fetched cache) = Inr keys"
    and "k \<in> set keys" and "verifies lib v token claims k"
  shows "is_ok (fst (decode_claims lib kc v other now fetched token cache))"
proof -
  have us: "keys \<noteq> [] \<and> list_all usable_jwk keys"
    using trusted_usable [OF jwks_trusted [OF assms(4)]] .
  obtain c where j: "jwks kc other now fetched cache = (Inr keys, c)"
    using assms(4) by (metis prod.collapse)
  have "fst (decode_claims lib kc v other now fetched token cache) = try_candidates lib v token keys"
    using assms(1-3) us by (simp add: decode_claims_def j candidate_keys_def)
  then show ?thesis using try_candidates_complete [OF _ assms(5,6)] us by simp
qed

end

text \<open>
  What another request does to the cache is again a download or nothing, so requests may
  disturb each other any number of times.
\<close>

lemma jwks_downloads:
  assumes "downloads kc hist c"
  shows "\<exists>more. downloads kc (hist @ more) (snd (jwks kc (\<lambda>_ c. c) now fetched c))"
proof -
  have "snd (jwks kc (\<lambda>_ c. c) now fetched c) = c \<or>
      (\<exists>keys. fetch_jwks kc fetched = Inr keys \<and>
         snd (jwks kc (\<lambda>_ c. c) now fetched c) = \<lparr>jc_jwks = Some keys, jc_fetched_at = Some (now 2)\<rparr>)"
    by (auto simp: jwks_def Let_def split: option.split sum.split)
  then show ?thesis using assms download [OF assms] by (metis append_Nil2)
qed

text \<open>
  A server whose cache no other request touches satisfies the contract, from its start on.
\<close>

interpretation first_request: cache_rely kc "\<lambda>_ c. c" jwks_cache_new "[]" "[]" "[]" for kc
  by unfold_locales (simp_all add: no_download)

lemma undisturbed_cache: "downloads kc hist cache \<Longrightarrow> cache_rely kc (\<lambda>_ c. c) cache hist hist hist"
  by unfold_locales simp_all

text \<open>
  C24. Game tokens (auth/jwks.rs): whatever the requests that share the key cache do in
  between, a token is accepted only if its header names ES256 and a usable P-256 key decodes it
  for the configured audience and issuers; the key belongs to a key set that was downloaded
  less than 300 seconds before one of the request's two looks at the cache, or that this
  request downloaded itself, or, only when this request's own download failed, to the last one
  ever downloaded. Conversely a token without a key identifier that one of the keys decodes is
  accepted.
\<close>

theorem accepted_token_verified_by_trusted_key:
  assumes "downloads kc h0 (other 0 cache)" and "downloads kc h1 (other 1 (other 0 cache))"
    and "downloads kc h2 (other 2 (other 1 (other 0 cache)))" and "prefix h0 h1" and "prefix h1 h2"
  shows "(\<forall>claims. fst (decode_claims lib kc v other now fetched token cache) = Inr claims \<longrightarrow>
           (\<exists>header keys k. jl_header lib token = Some header \<and> jh_alg header = ES256 \<and>
              trusted_keys kc now fetched h2 keys \<and> k \<in> set keys \<and> usable_jwk k \<and>
              verifies lib v token claims k)) \<and>
         (\<forall>header keys k claims. jl_header lib token = Some header \<longrightarrow> jh_alg header = ES256 \<longrightarrow>
            jh_kid header = None \<longrightarrow> fst (jwks kc other now fetched cache) = Inr keys \<longrightarrow> k \<in> set keys \<longrightarrow>
            verifies lib v token claims k \<longrightarrow>
            is_ok (fst (decode_claims lib kc v other now fetched token cache)))"
proof -
  have rely: "cache_rely kc other cache h0 h1 h2" using assms by unfold_locales
  show ?thesis
    by (intro conjI allI impI) (blast intro: cache_rely.accepted_verified [OF rely],
        blast intro: cache_rely.verified_accepted [OF rely])
qed

definition sample_codes :: jwk_codes where
  "sample_codes = \<lparr>kc_kty = (\<lambda>n. if n = 1 then Some KtyEc else None),
     kc_crv = (\<lambda>n. if n = 1 then Some CrvP256 else None), kc_alg = (\<lambda>n. if n = 1 then Some AlgEs256 else None)\<rparr>"

text \<open>A library whose keys decode the tokens that begin with their coordinates.\<close>

definition sample_lib :: "(string, string) jwt_library" where
  "sample_lib = \<lparr>jl_header = (\<lambda>t. Some \<lparr>jh_alg = ES256, jh_kid = None\<rparr>), jl_key = (\<lambda>x y. Some (x @ y)),
     jl_decode = (\<lambda>t k _ _. if take (length k) t = k then Some (drop (length k) t) else None)\<rparr>"

definition sample_answer :: fetch_answer where
  "sample_answer = FetchKeys [\<lparr>pk_kty = 1, pk_crv = 1, pk_alg = 1, pk_kid = ''k'', pk_x = ''a'', pk_y = ''b''\<rparr>]"

definition sample_validator :: jwks_validator where
  "sample_validator = \<lparr>jv_audience = [], jv_issuers = []\<rparr>"

theorem accepted_token_verified_by_trusted_key_witness:
  "fst (decode_claims sample_lib sample_codes sample_validator (\<lambda>_ c. c) (\<lambda>_. 0) sample_answer ''abuser'' jwks_cache_new) =
     Inr ''user'' \<and>
   (\<exists>keys k. trusted_keys sample_codes (\<lambda>_. 0) sample_answer [] keys \<and> k \<in> set keys \<and> usable_jwk k \<and>
      verifies sample_lib sample_validator ''abuser'' ''user'' k)"
proof -
  have d: "fst (decode_claims sample_lib sample_codes sample_validator (\<lambda>_ c. c) (\<lambda>_. 0) sample_answer ''abuser'' jwks_cache_new) =
     Inr ''user''"
    by (simp add: decode_claims_def jwks_def fresh_keys_def jwks_cache_new_def sample_answer_def map_filter_def
        map_proto_jwk_def sample_codes_def trim_graphic graphic_def candidate_keys_def sample_lib_def
        jwk_to_key_def)
  note t = accepted_token_verified_by_trusted_key [of sample_codes "[]" "\<lambda>_ c. c" jwks_cache_new "[]" "[]" sample_lib
      sample_validator "\<lambda>_. 0" sample_answer "''abuser''"]
  have "\<exists>header keys k. jl_header sample_lib ''abuser'' = Some header \<and> jh_alg header = ES256 \<and>
      trusted_keys sample_codes (\<lambda>_. 0) sample_answer [] keys \<and> k \<in> set keys \<and> usable_jwk k \<and>
      verifies sample_lib sample_validator ''abuser'' ''user'' k"
    using t [THEN conjunct1, rule_format] no_download d by simp
  then show ?thesis using d by blast
qed

end
