(* ===== verification/Bot_Logs.thy ===== *)
theory Bot_Logs
  imports Boink_Model
begin

text \<open>
  The log file of a team's bot as the race service reads it (game-server/src/services/race.rs):
  the tail of the file that a request returns, and the lines appended since the last poll of a
  stream. A file is the list of its bytes; its size is read before its contents, and another
  process may append in between. Strings are UTF-8, so a character begins at every byte that
  is not a continuation byte.
\<close>

section \<open>Lines\<close>

definition OFFICIAL_BOT_LOG_MAX_LINES :: nat where "OFFICIAL_BOT_LOG_MAX_LINES = 5000"
definition OFFICIAL_BOT_LOG_MAX_CHARS :: nat where "OFFICIAL_BOT_LOG_MAX_CHARS = 200000"

definition is_char_start :: "char \<Rightarrow> bool" where
  "is_char_start c \<longleftrightarrow> \<not> (128 \<le> (of_char c :: nat) \<and> (of_char c :: nat) < 192)"

definition char_indices :: "string \<Rightarrow> nat list" where
  "char_indices s = filter (\<lambda>i. is_char_start (s ! i)) [0..<length s]"

definition truncate_line_tail :: "string \<Rightarrow> nat \<Rightarrow> string \<times> nat \<times> bool" where
  "truncate_line_tail line max_chars =
     (let char_count = length (char_indices line) in
      if char_count \<le> max_chars then (line, char_count, False)
      else
        let start_char_index = char_count - max_chars;
            start_byte_index = (if start_char_index < length (char_indices line)
                                then char_indices line ! start_char_index else length line)
        in (drop start_byte_index line, max_chars, True))"

definition newline :: char where "newline = char_of (10 :: nat)"
definition carriage_return :: char where "carriage_return = char_of (13 :: nat)"

definition strip_cr :: "string \<Rightarrow> string" where
  "strip_cr line = (if line \<noteq> [] \<and> last line = carriage_return then butlast line else line)"

text \<open>
  The line reader of the asynchronous runtime: lines end at a line feed, a carriage return
  before it is removed, a last line without a line feed is returned as it is, and bytes that
  are not UTF-8 are an error of the line they are in.
\<close>

datatype io_error = IoOpen string | IoInvalidData

fun read_lines :: "u8 list \<Rightarrow> u8 list \<Rightarrow> (io_error, string list) result" where
  "read_lines line [] =
     (if line = [] then Inr []
      else if utf8_valid line then Inr [string_of_bytes line] else Inl IoInvalidData)"
| "read_lines line (b # bs) =
     (if b = 10 then
        (if utf8_valid line then
           (case read_lines [] bs of
              Inl err \<Rightarrow> Inl err
            | Inr rest \<Rightarrow> Inr (strip_cr (string_of_bytes line) # rest))
         else Inl IoInvalidData)
      else read_lines (line @ [b]) bs)"

section \<open>The tail of a file\<close>

record log_file =
  lf_size_at_open :: nat
  lf_bytes :: "u8 list"

record bot_logs_snapshot =
  bl_lines :: "string list"
  bl_truncated :: bool
  bl_file_size_bytes :: nat

text \<open>The inner loop, which drops lines from the front of the window while it is too large.\<close>

fun shrink_window :: "(string \<times> nat) list \<Rightarrow> nat \<Rightarrow> bool \<Rightarrow> (string \<times> nat) list \<times> nat \<times> bool" where
  "shrink_window [] total_chars truncated = ([], total_chars, truncated)"
| "shrink_window (e # window) total_chars truncated =
     (if length (e # window) > OFFICIAL_BOT_LOG_MAX_LINES \<or> total_chars > OFFICIAL_BOT_LOG_MAX_CHARS
      then shrink_window window (total_chars - snd e) True
      else (e # window, total_chars, truncated))"

definition push_line ::
  "string \<Rightarrow> (string \<times> nat) list \<times> nat \<times> bool \<Rightarrow> (string \<times> nat) list \<times> nat \<times> bool" where
  "push_line raw_line st =
     (let (window, total_chars, truncated) = st;
          (line, line_chars, line_was_truncated) = truncate_line_tail raw_line OFFICIAL_BOT_LOG_MAX_CHARS
      in shrink_window (window @ [(line, line_chars)]) (total_chars + line_chars) (truncated \<or> line_was_truncated))"

definition read_tail_bot_logs_snapshot :: "(io_error, log_file) result \<Rightarrow> (io_error, bot_logs_snapshot) result" where
  "read_tail_bot_logs_snapshot file =
     (case file of
        Inl err \<Rightarrow> Inl err
      | Inr f \<Rightarrow>
          (case read_lines [] (lf_bytes f) of
             Inl err \<Rightarrow> Inl err
           | Inr raw_lines \<Rightarrow>
               (let (window, _, truncated) = fold push_line raw_lines ([], 0, False)
                in Inr \<lparr>bl_lines = map fst window, bl_truncated = truncated,
                        bl_file_size_bytes = lf_size_at_open f\<rparr>)))"

section \<open>Appended lines\<close>

text \<open>The loop that takes complete lines off the pending text.\<close>

function take_lines :: "string \<Rightarrow> string list \<times> string" where
  "take_lines pending =
     (if newline \<in> set pending then
        let line_end = length (takeWhile (\<lambda>c. c \<noteq> newline) pending);
            line = fst (truncate_line_tail (strip_cr (take line_end pending)) OFFICIAL_BOT_LOG_MAX_CHARS);
            (rest, tail) = take_lines (drop (line_end + 1) pending)
        in (line # rest, tail)
      else ([], pending))"
  by pat_completeness auto
termination
  by (relation "measure length") (auto simp: in_set_conv_nth)

declare take_lines.simps [simp del]

definition read_appended_bot_log_lines ::
  "(io_error, log_file) result \<Rightarrow> nat \<Rightarrow> string \<Rightarrow> (io_error, string list) result \<times> nat \<times> string" where
  "read_appended_bot_log_lines file offset pending =
     (case file of
        Inl err \<Rightarrow> (Inl err, offset, pending)
      | Inr f \<Rightarrow>
          let (offset1, pending1) = (if lf_size_at_open f < offset then (0, []) else (offset, pending));
              bytes = drop offset1 (lf_bytes f);
              offset2 = offset1 + length bytes
          in if bytes = [] then (Inr [], offset2, pending1)
             else let (lines, tail) = take_lines (pending1 @ from_utf8_lossy bytes)
                  in (Inr lines, offset2, tail))"

text \<open>
  The loop of the stream: after the snapshot, one poll per tick. An event of the loop is the
  log path the registries name for the team and the file as it is read then; the stream ends
  when the path changes or a read fails.
\<close>

datatype log_event = LogLine string | LogFailed io_error

fun log_stream :: "string \<Rightarrow> nat \<Rightarrow> string \<Rightarrow> (string option \<times> (io_error, log_file) result) list \<Rightarrow> log_event list" where
  "log_stream path offset pending [] = []"
| "log_stream path offset pending ((current, file) # ticks) =
     (if current \<noteq> Some path then []
      else case read_appended_bot_log_lines file offset pending of
        (Inl err, _, _) \<Rightarrow> [LogFailed err]
      | (Inr lines, offset', pending') \<Rightarrow> map LogLine lines @ log_stream path offset' pending' ticks)"

section \<open>The longest tail that fits\<close>

definition fits :: "(string \<times> nat) list \<Rightarrow> bool" where
  "fits w \<longleftrightarrow> length w \<le> OFFICIAL_BOT_LOG_MAX_LINES \<and> sum_list (map snd w) \<le> OFFICIAL_BOT_LOG_MAX_CHARS"

fun longest_fit :: "(string \<times> nat) list \<Rightarrow> (string \<times> nat) list" where
  "longest_fit [] = []"
| "longest_fit (e # w) = (if fits (e # w) then e # w else longest_fit w)"

lemma fits_Nil [simp]: "fits []"
  by (simp add: fits_def)

lemma fits_suffix: "fits w \<Longrightarrow> suffix w' w \<Longrightarrow> fits w'"
  by (auto simp: fits_def suffix_def)

lemma longest_fit_fits [simp]: "fits (longest_fit w)"
  by (induction w) auto

lemma longest_fit_suffix: "suffix (longest_fit w) w"
  by (induction w) (auto intro: suffix_ConsI)

lemma longest_fit_same: "longest_fit w = w \<longleftrightarrow> fits w"
proof
  assume "fits w" then show "longest_fit w = w" by (cases w) auto
next
  assume "longest_fit w = w" then show "fits w" by (metis longest_fit_fits)
qed

lemma longest_fit_greatest: "suffix w' w \<Longrightarrow> fits w' \<Longrightarrow> suffix w' (longest_fit w)"
proof (induction w)
  case (Cons e w)
  show ?case
  proof (cases "w' = e # w")
    case True
    then show ?thesis using Cons.prems(2) by simp
  next
    case False
    then have "suffix w' w" using Cons.prems(1) by (simp add: suffix_Cons)
    then show ?thesis using Cons by simp
  qed
qed simp

lemma fits_prefix: "fits (w @ w') \<Longrightarrow> fits w"
  by (simp add: fits_def)

text \<open>Dropping lines early loses nothing: what no longer fits never fits again.\<close>

lemma longest_fit_snoc: "longest_fit (w @ [e]) = longest_fit (longest_fit w @ [e])"
proof (induction w)
  case (Cons x w)
  show ?case
  proof (cases "fits (x # w)")
    case False
    then have "\<not> fits ((x # w) @ [e])" using fits_prefix by blast
    then show ?thesis using Cons.IH False by simp
  qed simp
qed simp

lemma shrink_window_longest_fit:
  "shrink_window w (sum_list (map snd w)) truncated =
     (longest_fit w, sum_list (map snd (longest_fit w)), truncated \<or> \<not> fits w)"
proof (induction w arbitrary: truncated)
  case (Cons e w)
  then show ?case by (auto simp: fits_def not_less)
qed (simp add: fits_def)

definition truncated_lines :: "string list \<Rightarrow> (string \<times> nat) list" where
  "truncated_lines raw =
     map (\<lambda>l. let (line, chars, _) = truncate_line_tail l OFFICIAL_BOT_LOG_MAX_CHARS in (line, chars)) raw"

definition line_cut :: "string \<Rightarrow> bool" where
  "line_cut l \<longleftrightarrow> snd (snd (truncate_line_tail l OFFICIAL_BOT_LOG_MAX_CHARS))"

lemma truncated_lines_snoc:
  "truncated_lines (raw @ [l]) = truncated_lines raw @
     [(fst (truncate_line_tail l OFFICIAL_BOT_LOG_MAX_CHARS), fst (snd (truncate_line_tail l OFFICIAL_BOT_LOG_MAX_CHARS)))]"
  by (simp add: truncated_lines_def case_prod_beta)

lemma fold_push_line:
  "fold push_line raw ([], 0, False) =
     (longest_fit (truncated_lines raw), sum_list (map snd (longest_fit (truncated_lines raw))),
      list_ex line_cut raw \<or> \<not> fits (truncated_lines raw))"
proof (induction raw rule: rev_induct)
  case Nil
  then show ?case by (simp add: truncated_lines_def)
next
  case (snoc l raw)
  let ?e = "(fst (truncate_line_tail l OFFICIAL_BOT_LOG_MAX_CHARS), fst (snd (truncate_line_tail l OFFICIAL_BOT_LOG_MAX_CHARS)))"
  let ?w = "longest_fit (truncated_lines raw)"
  have "fold push_line (raw @ [l]) ([], 0, False) =
      shrink_window (?w @ [?e]) (sum_list (map snd (?w @ [?e])))
        (list_ex line_cut raw \<or> \<not> fits (truncated_lines raw) \<or> line_cut l)"
    by (simp add: snoc.IH push_line_def case_prod_beta disj_assoc flip: line_cut_def)
  also have "\<dots> = (longest_fit (?w @ [?e]), sum_list (map snd (longest_fit (?w @ [?e]))),
      (list_ex line_cut raw \<or> \<not> fits (truncated_lines raw) \<or> line_cut l) \<or> \<not> fits (?w @ [?e]))"
    by (rule shrink_window_longest_fit)
  also have "longest_fit (?w @ [?e]) = longest_fit (truncated_lines (raw @ [l]))"
    by (simp add: truncated_lines_snoc longest_fit_snoc [symmetric])
  also have "((list_ex line_cut raw \<or> \<not> fits (truncated_lines raw) \<or> line_cut l) \<or> \<not> fits (?w @ [?e])) \<longleftrightarrow>
      (list_ex line_cut (raw @ [l]) \<or> \<not> fits (truncated_lines (raw @ [l])))"
  proof (cases "fits (truncated_lines raw)")
    case True
    then have "?w = truncated_lines raw" by (simp add: longest_fit_same)
    then show ?thesis using True by (auto simp: truncated_lines_snoc)
  next
    case False
    then show ?thesis using fits_prefix by (auto simp: truncated_lines_snoc)
  qed
  finally show ?case by simp
qed

lemma filter_upt_index:
  assumes "filter P [0..<n] ! k = i" and "k < length (filter P [0..<n])"
  shows "i < n \<and> P i \<and> length (filter P [0..<i]) = k"
proof -
  have "i \<in> set (filter P [0..<n])" using assms nth_mem by metis
  then have i: "i < n" "P i" by auto
  have "[0..<n] = [0..<i] @ [i..<n]" using upt_add_eq_append [of 0 i "n - i"] i(1) by simp
  then have split: "filter P [0..<n] = filter P [0..<i] @ i # filter P [Suc i..<n]"
    using i by (simp add: upt_conv_Cons)
  have "filter P [0..<n] ! length (filter P [0..<i]) = i" unfolding split by simp
  then have "length (filter P [0..<i]) = k"
    using assms distinct_filter [OF distinct_upt, of P 0 n] split
    by (metis length_append length_Cons less_add_Suc1 add_Suc_right nth_eq_iff_index_eq)
  then show ?thesis using i by simp
qed

lemma char_indices_drop:
  assumes "k < length (char_indices s)"
  shows "length (char_indices (drop (char_indices s ! k) s)) = length (char_indices s) - k"
proof -
  let ?P = "\<lambda>i. is_char_start (s ! i)" and ?n = "length s"
  obtain i where i: "char_indices s ! k = i" by simp
  have q: "i < ?n" "length (filter ?P [0..<i]) = k"
    using filter_upt_index [of ?P ?n k i] assms i by (auto simp: char_indices_def)
  have "[0..<?n] = [0..<i] @ [i..<?n]" using upt_add_eq_append [of 0 i "?n - i"] q(1) by simp
  then have "length (char_indices s) = k + length (filter ?P [i..<?n])"
    using q(2) by (simp add: char_indices_def)
  moreover have "[i..<?n] = map (\<lambda>j. j + i) [0..<?n - i]" using q(1) by (simp add: map_add_upt)
  ultimately have "length (char_indices s) = k + length (filter (\<lambda>j. ?P (j + i)) [0..<?n - i])"
    by (simp add: filter_map comp_def)
  moreover have "length (char_indices (drop i s)) = length (filter (\<lambda>j. ?P (j + i)) [0..<?n - i])"
    using q(1) by (simp add: char_indices_def add.commute)
  ultimately show ?thesis by (simp add: i)
qed

text \<open>Truncation keeps the last characters of a line and reports how many there are.\<close>

lemma truncate_line_tail_ok:
  assumes "truncate_line_tail line m = (kept, n, was_cut)"
  shows "suffix kept line \<and> n = length (char_indices kept) \<and> n = min (length (char_indices line)) m \<and>
    (was_cut \<longleftrightarrow> length (char_indices line) > m) \<and> (\<not> was_cut \<longrightarrow> kept = line)"
proof (cases "length (char_indices line) \<le> m")
  case False
  show ?thesis
  proof (cases "m = 0")
    case True
    then show ?thesis using assms False
      by (auto simp: truncate_line_tail_def Let_def char_indices_def)
  next
    case pos: False
    then have k: "length (char_indices line) - m < length (char_indices line)" using False by simp
    show ?thesis
      using assms False k char_indices_drop [OF k] suffix_drop
      by (auto simp: truncate_line_tail_def Let_def)
  qed
qed (use assms in \<open>auto simp: truncate_line_tail_def\<close>)

section \<open>Lines over several polls\<close>

lemma string_of_bytes_append [simp]: "string_of_bytes (xs @ ys) = string_of_bytes xs @ string_of_bytes ys"
  by (simp add: string_of_bytes_def)

lemma string_of_bytes_Nil [simp]: "string_of_bytes [] = []"
  by (simp add: string_of_bytes_def)

lemma take_lines_append:
  "take_lines (a @ b) =
     (let (l1, t1) = take_lines a; (l2, t2) = take_lines (t1 @ b) in (l1 @ l2, t2))"
proof (induction a rule: take_lines.induct)
  case (1 a)
  show ?case
  proof (cases "newline \<in> set a")
    case True
    then obtain ys zs where a: "a = ys @ newline # zs" "newline \<notin> set ys"
      using split_list_first by metis
    have tw: "takeWhile (\<lambda>c. c \<noteq> newline) (ys @ newline # r) = ys" for r
      using a(2) by (induction ys) auto
    have "take_lines (zs @ b) = (let (l1, t1) = take_lines zs; (l2, t2) = take_lines (t1 @ b) in (l1 @ l2, t2))"
      using 1 [OF True refl refl] a tw by simp
    then show ?thesis
      by (simp add: a take_lines.simps [of "ys @ newline # _"] tw case_prod_beta Let_def)
  next
    case False
    then show ?thesis by (simp add: take_lines.simps [of a])
  qed
qed

fun grown_file :: "string \<Rightarrow> u8 list \<Rightarrow> (nat \<times> u8 list) list \<Rightarrow> (string option \<times> (io_error, log_file) result) list" where
  "grown_file path base [] = []"
| "grown_file path base ((len, chunk) # chunks) =
     (Some path, Inr \<lparr>lf_size_at_open = len, lf_bytes = base @ chunk\<rparr>) # grown_file path (base @ chunk) chunks"

fun sizes_ok :: "nat \<Rightarrow> (nat \<times> u8 list) list \<Rightarrow> bool" where
  "sizes_ok n [] = True"
| "sizes_ok n ((len, chunk) # chunks) \<longleftrightarrow> n \<le> len \<and> len \<le> n + length chunk \<and> sizes_ok (n + length chunk) chunks"

lemma log_stream_grown:
  "sizes_ok (length base) chunks \<Longrightarrow> list_all (utf8_valid \<circ> snd) chunks \<Longrightarrow> newline \<notin> set pending \<Longrightarrow>
   log_stream path (length base) pending (grown_file path base chunks) =
     map LogLine (fst (take_lines (pending @ string_of_bytes (concat (map snd chunks)))))"
proof (induction chunks arbitrary: base pending)
  case Nil
  then show ?case by (simp add: take_lines.simps)
next
  case (Cons c chunks)
  obtain len chunk where c: "c = (len, chunk)" by fastforce
  obtain l1 t1 where t: "take_lines (pending @ string_of_bytes chunk) = (l1, t1)" by fastforce
  have "newline \<notin> set (snd (take_lines x))" for x
    by (induction x rule: take_lines.induct) (subst take_lines.simps, auto simp: case_prod_beta Let_def)
  then have nl: "newline \<notin> set t1" using t by (metis snd_conv)
  have IH: "log_stream path (length (base @ chunk)) t1 (grown_file path (base @ chunk) chunks) =
      map LogLine (fst (take_lines (t1 @ string_of_bytes (concat (map snd chunks)))))"
    using Cons.IH [of "base @ chunk" t1] Cons.prems nl c by simp
  have step: "read_appended_bot_log_lines (Inr \<lparr>lf_size_at_open = len, lf_bytes = base @ chunk\<rparr>) (length base) pending =
      (Inr l1, length base + length chunk, t1)"
  proof (cases "chunk = []")
    case True
    then have "l1 = []" "t1 = pending"
      using t Cons.prems(3) by (auto simp: take_lines.simps)
    then show ?thesis using Cons.prems c True by (simp add: read_appended_bot_log_lines_def)
  next
    case False
    then show ?thesis using Cons.prems c t
      by (simp add: read_appended_bot_log_lines_def from_utf8_lossy_valid)
  qed
  have "take_lines (pending @ string_of_bytes (concat (map snd (c # chunks)))) =
      (let (l2, t2) = take_lines (t1 @ string_of_bytes (concat (map snd chunks))) in (l1 @ l2, t2))"
    using take_lines_append [of "pending @ string_of_bytes chunk" "string_of_bytes (concat (map snd chunks))"]
    by (simp add: c t)
  then show ?case using IH step c by (simp add: case_prod_beta)
qed

section \<open>What is shown of a line\<close>

text \<open>
  The characters of a string, and what is kept of a line with more than \<open>m\<close> of them: its last
  \<open>m\<close> characters.
\<close>

definition chars :: "string \<Rightarrow> nat" where
  "chars l = length (filter is_char_start l)"

definition last_chars :: "nat \<Rightarrow> string \<Rightarrow> string \<Rightarrow> bool" where
  "last_chars m k l \<longleftrightarrow> (if chars l \<le> m then k = l else suffix k l \<and> chars k = m \<and> (k = [] \<or> is_char_start (hd k)))"

lemma char_count: "length (char_indices s) = chars s"
proof -
  have "chars s = length (filter is_char_start (map ((!) s) [0..<length s]))" by (simp add: chars_def map_nth)
  thus ?thesis by (simp add: char_indices_def filter_map comp_def)
qed

lemma truncated_last_chars:
  assumes "truncate_line_tail line m = (kept, n, was_cut)"
  shows "last_chars m kept line" "n = chars kept" "was_cut \<longleftrightarrow> m < chars line"
proof -
  note t = truncate_line_tail_ok [OF assms, unfolded char_count]
  show "n = chars kept" "was_cut \<longleftrightarrow> m < chars line" using t by simp_all
  have "kept = [] \<or> is_char_start (hd kept)" if "m < chars line"
  proof (cases "m = 0")
    case False
    let ?k = "length (char_indices line) - m"
    have k: "?k < length (char_indices line)" using that False by (simp add: char_count)
    have "char_indices line ! ?k \<in> set (char_indices line)" using k by simp
    hence "char_indices line ! ?k < length line" "is_char_start (line ! (char_indices line ! ?k))"
      by (simp_all add: char_indices_def)
    moreover have "kept = drop (char_indices line ! ?k) line"
      using assms that k by (auto simp: truncate_line_tail_def Let_def char_count)
    ultimately show ?thesis by (simp add: hd_drop_conv_nth)
  next
    case True
    thus ?thesis using assms that by (auto simp: truncate_line_tail_def Let_def char_count)
  qed
  thus "last_chars m kept line" using t by (auto simp: last_chars_def)
qed

lemma truncated_parts:
  "last_chars m (fst (truncate_line_tail line m)) line"
  "fst (snd (truncate_line_tail line m)) = chars (fst (truncate_line_tail line m))"
  "snd (snd (truncate_line_tail line m)) \<longleftrightarrow> m < chars line"
proof -
  obtain kept n was_cut where "truncate_line_tail line m = (kept, n, was_cut)" by (metis prod_cases3)
  from truncated_last_chars [OF this] this show
    "last_chars m (fst (truncate_line_tail line m)) line"
    "fst (snd (truncate_line_tail line m)) = chars (fst (truncate_line_tail line m))"
    "snd (snd (truncate_line_tail line m)) \<longleftrightarrow> m < chars line" by simp_all
qed

lemma truncated_lines_chars:
  "list_all2 (last_chars OFFICIAL_BOT_LOG_MAX_CHARS) (map fst (truncated_lines raw)) raw"
  "map snd (truncated_lines raw) = map chars (map fst (truncated_lines raw))"
  "line_cut l \<longleftrightarrow> OFFICIAL_BOT_LOG_MAX_CHARS < chars l"
  using truncated_parts
  by (simp_all add: truncated_lines_def line_cut_def list_all2_map1 list_all2_same case_prod_beta)

lemma suffix_mapD: "suffix w' (map f xs) \<Longrightarrow> \<exists>v. suffix v xs \<and> w' = map f v"
  by (auto simp: suffix_def map_eq_append_conv)

lemma fits_lines: "suffix w (truncated_lines raw) \<Longrightarrow>
    fits w \<longleftrightarrow> length w \<le> OFFICIAL_BOT_LOG_MAX_LINES \<and> sum_list (map chars (map fst w)) \<le> OFFICIAL_BOT_LOG_MAX_CHARS"
proof -
  assume "suffix w (truncated_lines raw)"
  then obtain v where v: "truncated_lines raw = v @ w" by (auto simp: suffix_def)
  hence "map snd w = map chars (map fst w)" using truncated_lines_chars(2) [of raw] by simp
  thus ?thesis unfolding fits_def by (metis length_map)
qed

text \<open>A line of the text without its line ending.\<close>

definition line_body :: "string \<Rightarrow> string \<Rightarrow> bool" where
  "line_body b l \<longleftrightarrow> l = b @ [CHR 0x0D] \<or> l = b \<and> (l = [] \<or> last l \<noteq> CHR 0x0D)"

definition delivered_as :: "log_event \<Rightarrow> string \<Rightarrow> bool" where
  "delivered_as ev l \<longleftrightarrow> (\<exists>b k. line_body b l \<and> last_chars 200000 k b \<and> ev = LogLine k)"

lemma newline_code: "newline = CHR 0x0A"
  by code_simp

lemma carriage_return_code: "carriage_return = CHR 0x0D"
  by code_simp

lemma strip_cr_body: "line_body (strip_cr l) l"
proof (cases "l \<noteq> [] \<and> last l = carriage_return")
  case True
  hence "l = butlast l @ [CHR 0x0D]" using append_butlast_last_id [of l] carriage_return_code by simp
  thus ?thesis using True by (simp add: strip_cr_def line_body_def)
qed (auto simp: strip_cr_def line_body_def carriage_return_code)

lemma take_lines_newline:
  assumes "newline \<notin> set line"
  shows "take_lines (line @ newline # rest) =
    (fst (truncate_line_tail (strip_cr line) OFFICIAL_BOT_LOG_MAX_CHARS) # fst (take_lines rest), snd (take_lines rest))"
proof -
  have "takeWhile (\<lambda>c. c \<noteq> newline) (line @ newline # rest) = line" using assms by (induction line) auto
  then show ?thesis by (simp add: take_lines.simps [of "line @ newline # rest"] case_prod_beta)
qed

lemma take_lines_split:
  "\<exists>ls rest. s = concat (map (\<lambda>l. l @ [CHR 0x0A]) ls) @ rest \<and> (\<forall>l\<in>set (rest # ls). CHR 0x0A \<notin> set l) \<and>
     list_all2 delivered_as (map LogLine (fst (take_lines s))) ls"
proof (induction s rule: take_lines.induct)
  case (1 s)
  show ?case
  proof (cases "newline \<in> set s")
    case True
    then obtain l zs where s: "s = l @ newline # zs" "newline \<notin> set l" using split_list_first by metis
    have tw: "takeWhile (\<lambda>c. c \<noteq> newline) s = l" using s by (induction l arbitrary: s) auto
    obtain ls rest where IH: "zs = concat (map (\<lambda>l. l @ [CHR 0x0A]) ls) @ rest" "\<forall>l\<in>set (rest # ls). CHR 0x0A \<notin> set l"
      "list_all2 delivered_as (map LogLine (fst (take_lines zs))) ls"
      using 1 [OF True refl refl] s tw by auto
    have "last_chars 200000 (fst (truncate_line_tail (strip_cr l) OFFICIAL_BOT_LOG_MAX_CHARS)) (strip_cr l)"
      using truncated_parts(1) [of OFFICIAL_BOT_LOG_MAX_CHARS] by (simp add: OFFICIAL_BOT_LOG_MAX_CHARS_def)
    hence "delivered_as (LogLine (fst (truncate_line_tail (strip_cr l) OFFICIAL_BOT_LOG_MAX_CHARS))) l"
      using strip_cr_body delivered_as_def by blast
    hence "list_all2 delivered_as (map LogLine (fst (take_lines s))) (l # ls)"
      using IH(3) take_lines_newline [OF s(2), of zs] by (simp add: s(1))
    moreover have "s = concat (map (\<lambda>l. l @ [CHR 0x0A]) (l # ls)) @ rest" using s(1) IH(1) newline_code by simp
    moreover have "\<forall>l'\<in>set (rest # l # ls). CHR 0x0A \<notin> set l'" using IH(2) s(2) newline_code by auto
    ultimately show ?thesis by blast
  next
    case False
    thus ?thesis using newline_code
      by (intro exI [of _ "[]"] exI [of _ s]) (simp add: take_lines.simps [of s])
  qed
qed

section \<open>Properties\<close>

text \<open>
  C25. The tail of a bot's log (\<open>read_tail_bot_logs_snapshot\<close>) whose lines are UTF-8, read in one
  pass with a window that drops lines at its front. Of each line of the file at most the last 200000 characters
  are kept, whole lines otherwise; the answer is the longest tail of the lines so kept that
  has at most 5000 lines and 200000 characters: it is such a tail, and every other such tail
  is a part of it. The answer says that it is truncated exactly when a line was left out or a
  line of the file has more than 200000 characters, and gives the size the file had when it
  was opened.
\<close>

theorem log_tail_is_longest_that_fits:
  assumes "read_lines [] (lf_bytes f) = Inr raw" and "read_tail_bot_logs_snapshot (Inr f) = Inr s"
  shows "\<exists>kept. list_all2 (last_chars 200000) kept raw \<and>
    suffix (bl_lines s) kept \<and> length (bl_lines s) \<le> 5000 \<and> sum_list (map chars (bl_lines s)) \<le> 200000 \<and>
    (\<forall>w. suffix w kept \<and> length w \<le> 5000 \<and> sum_list (map chars w) \<le> 200000 \<longrightarrow> suffix w (bl_lines s)) \<and>
    (bl_truncated s \<longleftrightarrow> length (bl_lines s) < length raw \<or> list_ex (\<lambda>l. 200000 < chars l) raw) \<and>
    bl_file_size_bytes s = lf_size_at_open f"
proof -
  let ?t = "truncated_lines raw" and ?w = "longest_fit (truncated_lines raw)"
  have s: "s = \<lparr>bl_lines = map fst ?w, bl_truncated = (list_ex line_cut raw \<or> \<not> fits ?t),
      bl_file_size_bytes = lf_size_at_open f\<rparr>"
    using assms by (simp add: read_tail_bot_logs_snapshot_def fold_push_line)
  note max = OFFICIAL_BOT_LOG_MAX_CHARS_def OFFICIAL_BOT_LOG_MAX_LINES_def
  have "suffix w (bl_lines s)" if w: "suffix w (map fst ?t)" "length w \<le> 5000" "sum_list (map chars w) \<le> 200000" for w
  proof -
    obtain v where "suffix v ?t" "w = map fst v" using suffix_mapD [OF w(1)] by blast
    moreover from this w have "fits v" using fits_lines by (simp add: max)
    ultimately show ?thesis using longest_fit_greatest [of v ?t] by (auto simp: s map_mono_suffix)
  qed
  hence longest: "\<forall>w. suffix w (map fst ?t) \<and> length w \<le> 5000 \<and> sum_list (map chars w) \<le> 200000 \<longrightarrow> suffix w (bl_lines s)"
    by blast
  have tail: "suffix (bl_lines s) (map fst ?t)" by (simp add: s map_mono_suffix longest_fit_suffix)
  have small: "length (bl_lines s) \<le> 5000" "sum_list (map chars (bl_lines s)) \<le> 200000"
    using fits_lines [OF longest_fit_suffix, of raw] by (simp_all add: s max)
  have len: "length ?t = length raw" by (simp add: truncated_lines_def)
  obtain v where v: "?t = v @ ?w" using longest_fit_suffix [of ?t] by (auto simp: suffix_def)
  have "?w = ?t \<longleftrightarrow> v = []" using v by (metis append_Nil append_self_conv2)
  hence "fits ?t \<longleftrightarrow> v = []" by (simp add: longest_fit_same)
  moreover have "length raw = length v + length (bl_lines s)"
    using arg_cong [OF v, of length] by (simp add: s len)
  moreover have "list_ex line_cut raw = list_ex (\<lambda>l. 200000 < chars l) raw"
    by (simp add: truncated_lines_chars(3) [abs_def] max)
  ultimately have cut: "bl_truncated s \<longleftrightarrow> length (bl_lines s) < length raw \<or> list_ex (\<lambda>l. 200000 < chars l) raw"
    by (auto simp: s)
  have "list_all2 (last_chars 200000) (map fst ?t) raw" using truncated_lines_chars(1) [of raw] by (simp add: max)
  moreover have "bl_file_size_bytes s = lf_size_at_open f" by (simp add: s)
  ultimately show ?thesis using tail small longest cut by blast
qed

definition sample_log :: log_file where
  "sample_log = \<lparr>lf_size_at_open = 3, lf_bytes = [97, 13, 10, 98]\<rparr>"

lemma sample_log_lines: "read_lines [] (lf_bytes sample_log) = Inr [''a'', ''b'']"
  by (simp add: sample_log_def utf8_valid.simps utf8_step_def utf8_width_def nth_byte_def string_of_bytes_def
      strip_cr_def carriage_return_def char_of_def bit_0)

theorem log_tail_is_longest_that_fits_witness:
  "\<exists>s. read_tail_bot_logs_snapshot (Inr sample_log) = Inr s \<and> bl_lines s = [''a'', ''b''] \<and> \<not> bl_truncated s"
proof -
  obtain s where s: "read_tail_bot_logs_snapshot (Inr sample_log) = Inr s"
    by (simp add: read_tail_bot_logs_snapshot_def sample_log_lines case_prod_beta)
  have one: "chars ''a'' = 1" "chars ''b'' = 1" by code_simp+
  obtain kept where k: "list_all2 (last_chars 200000) kept [''a'', ''b'']"
    "suffix (bl_lines s) kept"
    "\<forall>w. suffix w kept \<and> length w \<le> 5000 \<and> sum_list (map chars w) \<le> 200000 \<longrightarrow> suffix w (bl_lines s)"
    "bl_truncated s \<longleftrightarrow> length (bl_lines s) < length [''a'', ''b''] \<or> list_ex (\<lambda>l. 200000 < chars l) [''a'', ''b'']"
    using log_tail_is_longest_that_fits [OF sample_log_lines s] by (elim exE conjE)
  have kept: "kept = [''a'', ''b'']" using k(1) one by (auto simp: last_chars_def list_all2_Cons2)
  hence "suffix [''a'', ''b''] (bl_lines s)" using k(3) one by simp
  hence "bl_lines s = [''a'', ''b'']" using k(2) kept suffix_order.antisym by blast
  thus ?thesis using s k(4) one by simp
qed

text \<open>
  C26. The stream of a bot's log, as long as the log path stays the same, the file only grows
  and the text each poll finds ends at a character boundary. The text appended after the
  snapshot is a sequence of complete lines, each ended by a line feed, and an unfinished rest;
  the stream delivers exactly the complete lines, each once and in order, empty ones included,
  however the text is spread over the polls. A line is delivered without its line feed and
  without a carriage return before it, and of a line with more than 200000 characters only the
  last 200000 are delivered.
\<close>

theorem appended_lines_arrive_once:
  assumes "sizes_ok (length base) chunks" and "list_all (utf8_valid \<circ> snd) chunks"
  shows "\<exists>ls rest. string_of_bytes (concat (map snd chunks)) = concat (map (\<lambda>l. l @ [CHR 0x0A]) ls) @ rest \<and>
    (\<forall>l\<in>set (rest # ls). CHR 0x0A \<notin> set l) \<and>
    list_all2 delivered_as (log_stream path (length base) [] (grown_file path base chunks)) ls"
  using log_stream_grown [OF assms, of "[]" path] take_lines_split [of "string_of_bytes (concat (map snd chunks))"] by simp

theorem appended_lines_arrive_once_witness:
  "\<exists>ls rest. string_of_bytes [98, 99, 10, 100] = concat (map (\<lambda>l. l @ [CHR 0x0A]) ls) @ rest \<and>
     list_all2 delivered_as (log_stream ''p'' 1 [] (grown_file ''p'' [97] [(1, [98]), (3, [99, 10, 100])])) ls"
  using appended_lines_arrive_once [of "[97]" "[(1, [98]), (3, [99, 10, 100])]" "''p''"]
  by (auto simp: utf8_valid.simps utf8_step_def utf8_width_def nth_byte_def simp del: log_stream.simps grown_file.simps)

lemma truncate_short: "length line \<le> m \<Longrightarrow> fst (truncate_line_tail line m) = line"
  using length_filter_le [of "\<lambda>i. is_char_start (line ! i)" "[0..<length line]"]
  by (simp add: truncate_line_tail_def char_indices_def)

lemma take_lines_none: "newline \<notin> set s \<Longrightarrow> take_lines s = ([], s)"
  by (simp add: take_lines.simps)

lemma take_one_line:
  assumes "newline \<notin> set line" and "carriage_return \<notin> set line" and "length line \<le> OFFICIAL_BOT_LOG_MAX_CHARS"
  shows "take_lines (line @ [newline]) = ([line], [])"
proof -
  have "strip_cr line = line" using assms(2) last_in_set [of line] unfolding strip_cr_def by metis
  then show ?thesis
    using take_lines_newline [OF assms(1), of "[]"] truncate_short [OF assms(3)]
    by (simp add: take_lines_none)
qed

text \<open>
  A poll that ends inside a character does not wait for the rest of it: both halves are
  replaced, and the line is delivered with two replacement characters instead of the letter.
\<close>

lemma lossy_samples:
  "from_utf8_lossy [195] = [CHR 0xEF, CHR 0xBF, CHR 0xBD]"
  "from_utf8_lossy [179, 10] = [CHR 0xEF, CHR 0xBF, CHR 0xBD, CHR 0x0A]"
  "from_utf8_lossy [195, 179, 10] = [CHR 0xC3, CHR 0xB3, CHR 0x0A]"
  "from_utf8_lossy [98, 10] = [CHR 0x62, CHR 0x0A]"
  "string_of_bytes [97] = [CHR 0x61]"
  "string_of_bytes [239, 191, 189, 239, 191, 189] = [CHR 0xEF, CHR 0xBF, CHR 0xBD, CHR 0xEF, CHR 0xBF, CHR 0xBD]"
  "string_of_bytes [195, 179] = [CHR 0xC3, CHR 0xB3]"
  by code_simp+

lemma take_lines_samples:
  "take_lines [CHR 0xEF, CHR 0xBF, CHR 0xBD] = ([], [CHR 0xEF, CHR 0xBF, CHR 0xBD])"
  "take_lines [CHR 0xEF, CHR 0xBF, CHR 0xBD, CHR 0xEF, CHR 0xBF, CHR 0xBD, CHR 0x0A] =
     ([[CHR 0xEF, CHR 0xBF, CHR 0xBD, CHR 0xEF, CHR 0xBF, CHR 0xBD]], [])"
  "take_lines [CHR 0xC3, CHR 0xB3, CHR 0x0A] = ([[CHR 0xC3, CHR 0xB3]], [])"
  "take_lines [CHR 0x62, CHR 0x0A] = ([''b''], [])"
  using take_one_line [of "[CHR 0xEF, CHR 0xBF, CHR 0xBD, CHR 0xEF, CHR 0xBF, CHR 0xBD]"]
    take_one_line [of "[CHR 0xC3, CHR 0xB3]"] take_one_line [of "''b''"]
  by (simp_all add: take_lines_none newline_code carriage_return_code OFFICIAL_BOT_LOG_MAX_CHARS_def)

lemma split_character_garbled:
  "log_stream ''p'' 0 [] (grown_file ''p'' [] [(0, [195]), (1, [179, 10])]) =
     [LogLine (string_of_bytes [239, 191, 189, 239, 191, 189])]"
  "log_stream ''p'' 0 [] (grown_file ''p'' [] [(0, [195, 179, 10])]) = [LogLine (string_of_bytes [195, 179])]"
  by (simp_all add: read_appended_bot_log_lines_def lossy_samples take_lines_samples)

text \<open>
  The snapshot shows an unfinished last line, and the stream then begins after it: the
  line is never delivered whole.
\<close>

lemma unfinished_line_split:
  "map_sum (\<lambda>e. e) bl_lines (read_tail_bot_logs_snapshot (Inr \<lparr>lf_size_at_open = 1, lf_bytes = [97]\<rparr>)) = Inr [''a'']"
  "log_stream ''p'' 1 [] (grown_file ''p'' [97] [(1, [98, 10])]) = [LogLine ''b'']"
proof -
  have "read_lines [] [97] = Inr [''a'']"
    by (simp add: utf8_valid.simps utf8_step_def utf8_width_def nth_byte_def lossy_samples)
  moreover have "longest_fit (truncated_lines [''a'']) = [(''a'', 1)]"
    by (simp add: truncated_lines_def truncate_line_tail_def char_indices_def is_char_start_def fits_def
        OFFICIAL_BOT_LOG_MAX_CHARS_def OFFICIAL_BOT_LOG_MAX_LINES_def)
  ultimately show "map_sum (\<lambda>e. e) bl_lines
      (read_tail_bot_logs_snapshot (Inr \<lparr>lf_size_at_open = 1, lf_bytes = [97]\<rparr>)) = Inr [''a'']"
    using fold_push_line [of "[''a'']"] by (simp add: read_tail_bot_logs_snapshot_def)
qed (simp add: read_appended_bot_log_lines_def lossy_samples take_lines_samples)

end
