(* ===== verification/Race_Service.thy ===== *)
theory Race_Service
  imports Frame_Hub Local_Race_State Message_Mappers Game_Token Bot_Logs
begin

text \<open>
  The race service, game-server/src/services/race.rs: joining a sandbox, driving a car, the
  commands of a team for its car, the spectator stream and the logs of a team's bot.

  The service works on the worker, the runtime store, the registries of joined teams, the
  configuration of the local sandboxes and the local race. At every await other tasks may run:
  \<open>other a False\<close> is what they do just before the awaited operation and \<open>other a True\<close> what
  they do just after it, where \<open>a\<close> names the await. The answer of the token validator at the
  await \<open>a\<close> is \<open>tokens a\<close>. The build features are those of the worker's environment.
\<close>

section \<open>State\<close>

record team_sandbox_join_state =
  tj_sandbox_id :: string
  tj_slot_index :: int
  tj_public_car_id :: u64
  tj_engine_car_id :: u64
  tj_container_name :: string
  tj_container_id :: string
  tj_log_file_path :: string

record team_official_race_bot_state =
  rb_public_car_id :: u64
  rb_engine_car_id :: u64
  rb_start_position_index :: u64
  rb_slot_index :: int
  rb_container_name :: string
  rb_container_id :: string
  rb_submission_id :: string
  rb_image_ref :: string
  rb_log_file_path :: string
  rb_auto_restart_attempts :: u32

datatype spawn_mode = StartLine | RandomOnTrack | SpawnInPit | RandomStartSlot

text \<open>Of the configured local sandboxes the service reads the identifier and the spawn mode.\<close>

record 'n race_system = "'n client_system" +
  rs_store :: runtime_store
  rs_latest :: runtime_frame
  rs_joins :: "(string, team_sandbox_join_state) hmap"
  rs_race_bots :: "(string, team_official_race_bot_state) hmap"
  rs_sandboxes :: "(string \<times> spawn_mode) list"
  rs_local_race :: local_race_state
  rs_active_streams :: "(u64, unit) hmap"
  rs_next_stream_id :: u64
  rs_log_captures :: "(string, unit) hmap"
  rs_slot_updates :: "string list"

datatype race_await =
    AwaitRuntime | AwaitSpawn | AwaitSpawnConfig | AwaitPlace | AwaitSlots | AwaitDespawn | AwaitGate
  | AwaitSubject | AwaitTeam | AwaitInstance | AwaitScopes | AwaitCommand | AwaitActiveRace
  | AwaitRegister | AwaitRemove | AwaitDimensions | AwaitSend | AwaitTurn
  | AwaitRepo | AwaitToken | AwaitContainer | AwaitLogs | AwaitSwitch | AwaitTyres | AwaitLock

type_synonym 'n race_others = "race_await \<Rightarrow> bool \<Rightarrow> 'n race_system \<Rightarrow> 'n race_system"
type_synonym race_tokens = "race_await \<Rightarrow> token_oracle"

definition race_alone :: "'n race_others" where "race_alone = (\<lambda>_ _ sys. sys)"

definition race_call ::
  "'n race_others \<Rightarrow> race_await \<Rightarrow> ('n race_system \<Rightarrow> 'r \<times> 'n race_system) \<Rightarrow> 'n race_system
    \<Rightarrow> 'r \<times> 'n race_system" where
  "race_call other a f sys = (let (r, s) = f (other a False sys) in (r, other a True s))"

text \<open>Calls of the worker with its errors mapped, and reads that do not change the system.\<close>

definition worker_call ::
  "'n race_others \<Rightarrow> race_await \<Rightarrow> ('n race_system \<Rightarrow> (worker_error, 'a) result \<times> 'n race_system)
    \<Rightarrow> 'n race_system \<Rightarrow> (status, 'a) result \<times> 'n race_system" where
  "worker_call other a f sys =
     (let (r, s) = race_call other a f sys in (map_sum map_worker_err (\<lambda>v. v) r, s))"

definition race_read ::
  "'n race_others \<Rightarrow> race_await \<Rightarrow> ('n race_system \<Rightarrow> 'r) \<Rightarrow> 'n race_system \<Rightarrow> 'r \<times> 'n race_system" where
  "race_read other a f = race_call other a (\<lambda>s. (f s, s))"

definition on_store :: "(runtime_store \<Rightarrow> runtime_store) \<Rightarrow> 'n race_system \<Rightarrow> 'n race_system" where
  "on_store f sys = sys\<lparr>rs_store := f (rs_store sys)\<rparr>"

text \<open>What the service is started with, and the numbering of the protocol's enumerations.\<close>

datatype spectator_view = ViewUnspecified | ViewPublic | ViewTeam | ViewAll

record race_config =
  rc_production :: bool
  rc_simulation_hz :: u32
  rc_shift_of :: shift_codes
  rc_tire_of :: "i32 \<Rightarrow> proto_tire_type option"
  rc_view_of :: "i32 \<Rightarrow> spectator_view option"
  rc_view_code :: "spectator_view \<Rightarrow> i32"

definition not_found :: "string \<Rightarrow> (status, 'a) result" where
  "not_found msg = Inl (Status CodeNotFound msg)"

definition failed_precondition :: "string \<Rightarrow> (status, 'a) result" where
  "failed_precondition msg = Inl (Status CodeFailedPrecondition msg)"

definition unimplemented :: "string \<Rightarrow> (status, 'a) result" where
  "unimplemented msg = Inl (Status CodeUnimplemented msg)"

section \<open>Cars and targets\<close>

definition ensure_local_race_gameplay_open ::
  "features \<Rightarrow> 'n race_others \<Rightarrow> u64 \<Rightarrow> command_target \<Rightarrow> 'n race_system
    \<Rightarrow> (status, unit) result \<times> 'n race_system" where
  "ensure_local_race_gameplay_open fs other now_ms target sys =
     (if \<not> local_mode fs then (Inr (), sys)
      else case target of
        TargetLocalRace race_id \<Rightarrow>
          (let (closed, s) = race_read other AwaitGate
                 (\<lambda>s. gameplay_commands_closed now_ms race_id (rs_local_race s)) sys
           in if closed
              then (failed_precondition ''standalone local race accepts gameplay commands only while running'', s)
              else (Inr (), s))
      | _ \<Rightarrow> (Inr (), sys))"

definition target_for_car :: "u64 \<Rightarrow> 'n race_system \<Rightarrow> (status, command_target) result" where
  "target_for_car car_id sys =
     ok_or (hm_get (st_car_targets (rs_store sys)) car_id) (Status CodeNotFound ''unknown car target'')"

definition engine_car_id_for :: "u64 \<Rightarrow> 'n race_system \<Rightarrow> (status, u64) result" where
  "engine_car_id_for car_id sys =
     ok_or (hm_get (st_car_engine_ids (rs_store sys)) car_id) (Status CodeNotFound ''unknown car target'')"

definition select_quick_join_sandbox :: "runtime_state \<Rightarrow> string \<Rightarrow> (status, active_sandbox_state) result" where
  "select_quick_join_sandbox rt requested_sandbox_id =
     (if rt_active_sandboxes rt = [] then failed_precondition ''sandbox runtime is not active''
      else
        let requested = trim requested_sandbox_id in
        if requested \<noteq> [] then
          ok_or (find (\<lambda>e. sb_sandbox_id e = requested) (rt_active_sandboxes rt))
            (Status CodeNotFound (''sandbox runtime is not active for sandbox_id='' @ requested))
        else case rt_active_sandboxes rt of
          [e] \<Rightarrow> Inr e
        | _ \<Rightarrow> failed_precondition ''sandbox_id is required when multiple sandbox sessions are active'')"

section \<open>Joining a sandbox\<close>

definition local_spawn_mode_for_sandbox ::
  "'n race_others \<Rightarrow> string \<Rightarrow> 'n race_system \<Rightarrow> (status, spawn_mode) result \<times> 'n race_system" where
  "local_spawn_mode_for_sandbox other sandbox_id =
     race_read other AwaitSpawnConfig
       (\<lambda>s. ok_or (map_option snd (find (\<lambda>e. fst e = sandbox_id) (rs_sandboxes s)))
              (Status CodeNotFound (''local sandbox config not found for sandbox_id='' @ sandbox_id)))"

text \<open>The random slot between 1 and the number of slots is the argument \<open>choose_slot\<close>.\<close>

definition apply_local_spawn_mode ::
  "'n worker_env \<Rightarrow> 'n race_others \<Rightarrow> (u64 \<Rightarrow> u64) \<Rightarrow> string \<Rightarrow> command_target \<Rightarrow> u64 \<Rightarrow> 'n race_system
    \<Rightarrow> (status, unit) result \<times> 'n race_system" where
  "apply_local_spawn_mode env other choose_slot sandbox_id target car sys =
     (case local_spawn_mode_for_sandbox other sandbox_id sys of
        (Inl err, s) \<Rightarrow> (Inl err, s)
      | (Inr StartLine, s) \<Rightarrow>
          worker_call other AwaitPlace (client_set_car_before_finish_line_in env target car) s
      | (Inr RandomOnTrack, s) \<Rightarrow>
          worker_call other AwaitPlace (client_set_car_random_on_track_in env target car) s
      | (Inr SpawnInPit, s) \<Rightarrow> worker_call other AwaitPlace (client_set_car_to_pitstop_in env target car) s
      | (Inr RandomStartSlot, s) \<Rightarrow>
          (case worker_call other AwaitSlots (client_get_number_of_start_pos_in env target) s of
             (Inl err, s1) \<Rightarrow> (Inl err, s1)
           | (Inr slots, s1) \<Rightarrow>
               if slots = 0 then (failed_precondition ''no start slots available for selected map'', s1)
               else worker_call other AwaitPlace
                      (client_set_car_at_start_pos_in env target car (choose_slot slots)) s1))"

definition identity_default :: runtime_car_identity where
  "identity_default =
     \<lparr>id_subject = None, id_team_id = None, id_instance_uuid = None, id_local_bot_index = None,
      id_local_race_display_name = None, id_local_race_participant_index = None,
      id_official_race_start_position_index = None, id_active_bot_slot = None,
      id_bot_switch_in_progress = False\<rparr>"

text \<open>The claims of the token as the identity of the new car.\<close>

definition join_identity ::
  "'n race_others \<Rightarrow> race_tokens \<Rightarrow> string option \<Rightarrow> u64 \<Rightarrow> 'n race_system
    \<Rightarrow> (status, runtime_car_identity) result \<times> 'n race_system" where
  "join_identity other tokens auth car_id sys =
     (case auth of
        None \<Rightarrow> (unauthenticated ''missing x-ha3-game-token'', sys)
      | Some token \<Rightarrow>
          (case race_read other AwaitSubject (\<lambda>_. subject_from_token (tokens AwaitSubject) token) sys of
             (Inl err, s) \<Rightarrow> (Inl err, s)
           | (Inr sub, s) \<Rightarrow>
               (case race_read other AwaitTeam (\<lambda>_. team_id_from_token (tokens AwaitTeam) token) s of
                  (Inl err, s1) \<Rightarrow> (Inl err, s1)
                | (Inr team_id, s1) \<Rightarrow>
                    (case race_read other AwaitInstance
                            (\<lambda>_. instance_uuid_from_token (tokens AwaitInstance) token) s1 of
                       (Inl err, s2) \<Rightarrow> (Inl err, s2)
                     | (Inr instance_uuid, s2) \<Rightarrow>
                         (Inr (identity_default\<lparr>id_subject := Some sub, id_team_id := team_id,
                                                id_instance_uuid := instance_uuid\<rparr>),
                          case instance_uuid of
                            None \<Rightarrow> s2
                          | Some uuid \<Rightarrow> on_store (\<lambda>st. st
                              \<lparr>st_instance_cars := hm_insert uuid car_id (st_instance_cars st),
                               st_car_owners := hm_insert car_id uuid (st_car_owners st)\<rparr>) s2)))))"

definition car_name :: "u64 \<Rightarrow> string" where
  "car_name car_id = ''car-'' @ dec_nat (unat car_id)"

text \<open>The registration of the car, from the bot index to the target.\<close>

definition register_sandbox_car ::
  "string \<Rightarrow> u64 \<Rightarrow> u64 \<Rightarrow> runtime_car_identity \<Rightarrow> runtime_store \<Rightarrow> runtime_store" where
  "register_sandbox_car sandbox_id car_id engine_car_id identity st =
     (let user_id = (case id_subject identity of None \<Rightarrow> car_name car_id | Some s \<Rightarrow> s);
          (bot_index, st1) = allocate_local_bot_index sandbox_id user_id st;
          st2 = set_car_identity car_id (identity\<lparr>id_local_bot_index := Some bot_index\<rparr>) st1
      in st2\<lparr>st_known_cars := hm_insert car_id () (st_known_cars st2),
             st_last_client_seq := hm_insert car_id 0 (st_last_client_seq st2),
             st_car_engine_ids := hm_insert car_id engine_car_id (st_car_engine_ids st2),
             st_car_targets := hm_insert car_id (TargetSandbox sandbox_id) (st_car_targets st2)\<rparr>)"

record quick_join_response =
  qj_car_id :: u64
  qj_map_id :: string

definition place_spawned_car ::
  "'n worker_env \<Rightarrow> 'n race_others \<Rightarrow> (u64 \<Rightarrow> u64) \<Rightarrow> string \<Rightarrow> u64 \<Rightarrow> 'n race_system
    \<Rightarrow> (status, unit) result \<times> 'n race_system" where
  "place_spawned_car env other choose_slot sandbox_id car sys =
     (if local_mode (env_features env)
      then apply_local_spawn_mode env other choose_slot sandbox_id (TargetSandbox sandbox_id) car sys
      else worker_call other AwaitPlace
             (client_set_car_before_finish_line_in env (TargetSandbox sandbox_id) car) sys)"

definition join_sandbox ::
  "'n worker_env \<Rightarrow> 'n race_others \<Rightarrow> race_tokens \<Rightarrow> (u64 \<Rightarrow> u64) \<Rightarrow> string \<Rightarrow> string option \<Rightarrow> 'n race_system
    \<Rightarrow> (status, quick_join_response) result \<times> 'n race_system" where
  "join_sandbox env other tokens choose_slot requested_sandbox_id auth sys =
     (case worker_call other AwaitRuntime (client_runtime_state env) sys of
        (Inl err, s) \<Rightarrow> (Inl err, s)
      | (Inr rt, s) \<Rightarrow>
          (case select_quick_join_sandbox rt requested_sandbox_id of
             Inl err \<Rightarrow> (Inl err, s)
           | Inr active \<Rightarrow>
               let sandbox_id = sb_sandbox_id active; target = TargetSandbox sandbox_id in
               (case worker_call other AwaitSpawn (client_spawn_sandbox_car env sandbox_id) s of
                  (Inl err, s1) \<Rightarrow> (Inl err, s1)
                | (Inr engine_car_id, s1) \<Rightarrow>
                    (case place_spawned_car env other choose_slot sandbox_id engine_car_id s1 of
                       (Inl err, s2) \<Rightarrow>
                         (Inl err, snd (race_call other AwaitDespawn
                                          (client_despawn_car_in env target engine_car_id) s2))
                     | (Inr _, s2) \<Rightarrow>
                         let (car_id, st) = allocate_public_car_id (rs_store s2);
                             s3 = s2\<lparr>rs_store := st\<rparr>;
                             (identity, s4) = (if standalone (env_features env) then (Inr identity_default, s3)
                                               else join_identity other tokens auth car_id s3)
                         in (case identity of
                               Inl err \<Rightarrow> (Inl err, s4)
                             | Inr i \<Rightarrow>
                                 (Inr \<lparr>qj_car_id = car_id, qj_map_id = sb_map_id active\<rparr>,
                                  on_store (register_sandbox_car sandbox_id car_id engine_car_id i) s4))))))"

definition quick_join_dev ::
  "'n worker_env \<Rightarrow> race_config \<Rightarrow> 'n race_others \<Rightarrow> race_tokens \<Rightarrow> (u64 \<Rightarrow> u64) \<Rightarrow> header_value \<Rightarrow> string
    \<Rightarrow> 'n race_system \<Rightarrow> (status, quick_join_response) result \<times> 'n race_system" where
  "quick_join_dev env cfg other tokens choose_slot header sandbox_id sys =
     (if rc_production cfg
      then (failed_precondition ''quick join is available only in development/preprod'', sys)
      else if standalone (env_features env)
      then join_sandbox env other tokens choose_slot sandbox_id None sys
      else case parse_game_token header of
        Inl err \<Rightarrow> (Inl err, sys)
      | Inr None \<Rightarrow> (unauthenticated ''missing x-ha3-game-token'', sys)
      | Inr (Some token) \<Rightarrow> join_sandbox env other tokens choose_slot sandbox_id (Some token) sys)"

section \<open>Driving\<close>

record set_controls_response =
  sc_client_seq :: u64
  sc_applies_from_tick :: u64
  sc_accepted_shift :: proto_gear_shift

definition set_controls_dev ::
  "'n worker_env \<Rightarrow> race_config \<Rightarrow> 'n race_others \<Rightarrow> u64 \<Rightarrow> set_controls_dev_request \<Rightarrow> 'n race_system
    \<Rightarrow> (status, set_controls_response) result \<times> 'n race_system" where
  "set_controls_dev env cfg other now_ms req sys =
     (case proto_dev_to_controls (rc_shift_of cfg) req of
        Inl err \<Rightarrow> (Inl err, sys)
      | Inr c \<Rightarrow>
          (case target_for_car (sr_target_car_id req) sys of
             Inl err \<Rightarrow> (Inl err, sys)
           | Inr target \<Rightarrow>
               (case engine_car_id_for (sr_target_car_id req) sys of
                  Inl err \<Rightarrow> (Inl err, sys)
                | Inr engine_car_id \<Rightarrow>
                    (case ensure_local_race_gameplay_open (env_features env) other now_ms target sys of
                       (Inl err, s) \<Rightarrow> (Inl err, s)
                     | (Inr _, s) \<Rightarrow>
                         (case worker_call other AwaitCommand (client_set_controls_in env target engine_car_id c) s of
                            (Inl err, s1) \<Rightarrow> (Inl err, s1)
                          | (Inr accepted, s1) \<Rightarrow>
                              (Inr \<lparr>sc_client_seq = sr_client_seq req, sc_applies_from_tick = fr_tick (rs_latest s1),
                                    sc_accepted_shift = engine_gear_shift_to_proto (accepted_shift accepted)\<rparr>,
                               on_store (\<lambda>st. set_controls_input (sr_target_car_id req) (ctl_throttle c) (ctl_brake c)
                                 (ctl_brake_balancer c) (ctl_differential_lock c)
                                 (st\<lparr>st_last_client_seq :=
                                      hm_insert (sr_target_car_id req) (sr_client_seq req) (st_last_client_seq st)\<rparr>)) s1))))))"

section \<open>Commands of a team\<close>

datatype command_status = Accepted | Rejected

datatype reject_reason = ReasonUnspecified | CooldownActive | InPit | NotAllowed

record command_response =
  cr_status :: command_status
  cr_applies_from_tick :: u64
  cr_rejected_reason :: reject_reason

record cooldown_response = command_response +
  cr_cooldown_remaining_ms :: u32

definition team_of_token ::
  "'n race_others \<Rightarrow> race_tokens \<Rightarrow> string \<Rightarrow> 'n race_system \<Rightarrow> (status, string) result \<times> 'n race_system" where
  "team_of_token other tokens token sys =
     (let (r, s) = race_read other AwaitTeam (\<lambda>_. team_id_from_token (tokens AwaitTeam) token) sys
      in (case r of
            Inl err \<Rightarrow> Inl err
          | Inr None \<Rightarrow> unauthenticated ''missing team_id claim''
          | Inr (Some team_id) \<Rightarrow>
              if trim team_id = [] then unauthenticated ''missing team_id claim'' else Inr team_id, s))"

text \<open>The registered official cars of a team, in the order of the identities.\<close>

definition official_cars_of_team :: "string \<Rightarrow> runtime_store \<Rightarrow> (u64 \<times> u64) list" where
  "official_cars_of_team team_id st =
     List.map_filter (\<lambda>(car_id, i).
       if id_team_id i \<noteq> Some team_id then None
       else if hm_get (st_car_targets st) car_id \<noteq> Some TargetOfficialRace then None
       else map_option (\<lambda>engine_id. (car_id, engine_id)) (hm_get (st_car_engine_ids st) car_id))
       (st_car_identity st)"

definition resolve_team_official_race_car :: "string \<Rightarrow> 'n race_system \<Rightarrow> (status, u64 \<times> u64) result" where
  "resolve_team_official_race_car team_id sys =
     (case official_cars_of_team team_id (rs_store sys) of
        [] \<Rightarrow> not_found ''no active official-race car for team''
      | [car] \<Rightarrow> Inr car
      | _ \<Rightarrow> failed_precondition ''multiple active official-race cars found for team'')"

definition resolve_team_active_command_car ::
  "'n worker_env \<Rightarrow> 'n race_others \<Rightarrow> race_tokens \<Rightarrow> string \<Rightarrow> 'n race_system
    \<Rightarrow> (status, u64 \<times> u64 \<times> command_target) result \<times> 'n race_system" where
  "resolve_team_active_command_car env other tokens token sys =
     (case team_of_token other tokens token sys of
        (Inl err, s) \<Rightarrow> (Inl err, s)
      | (Inr team_id, s) \<Rightarrow>
          (case worker_call other AwaitRuntime (client_runtime_state env) s of
             (Inl err, s1) \<Rightarrow> (Inl err, s1)
           | (Inr rt, s1) \<Rightarrow>
               (case rt_activity_kind rt of
                  ActOfficialRace \<Rightarrow>
                    (map_sum (\<lambda>e. e) (\<lambda>(car_id, engine_id). (car_id, engine_id, TargetOfficialRace))
                       (resolve_team_official_race_car team_id s1), s1)
                | ActSandbox \<Rightarrow>
                    (case hm_get (rs_joins s1) team_id of
                       None \<Rightarrow> not_found ''no active official sandbox join for team''
                     | Some j \<Rightarrow>
                         if \<not> list_ex (\<lambda>e. sb_sandbox_id e = tj_sandbox_id j) (rt_active_sandboxes rt)
                         then failed_precondition ''sandbox runtime is not active for team join''
                         else Inr (tj_public_car_id j, tj_engine_car_id j, TargetSandbox (tj_sandbox_id j)), s1)
                | ActLocalRace \<Rightarrow>
                    (failed_precondition ''team command car is not available in local race'', s1)
                | ActNone \<Rightarrow> (failed_precondition ''runtime is not active'', s1))))"

text \<open>The header of a command of the official build, and the car it is for.\<close>

definition command_car ::
  "string \<Rightarrow> 'n worker_env \<Rightarrow> 'n race_others \<Rightarrow> race_tokens \<Rightarrow> header_value \<Rightarrow> 'n race_system
    \<Rightarrow> (status, u64 \<times> u64 \<times> command_target) result \<times> 'n race_system" where
  "command_car name env other tokens header sys =
     (if \<not> official (env_features env)
      then (unimplemented (name @ '' is supported only in official backend mode''), sys)
      else case parse_game_token header of
        Inl err \<Rightarrow> (Inl err, sys)
      | Inr None \<Rightarrow> (unauthenticated ''missing x-ha3-game-token'', sys)
      | Inr (Some token) \<Rightarrow> resolve_team_active_command_car env other tokens token sys)"

definition car_in_pit :: "runtime_frame \<Rightarrow> u64 \<Rightarrow> bool" where
  "car_in_pit frame car_id =
     (case hm_get (fr_cars frame) car_id of
        None \<Rightarrow> False | Some car \<Rightarrow> is_in_any_zone (vs_pitstop_state (cf_state car)))"

definition reject :: "u64 \<Rightarrow> reject_reason \<Rightarrow> u32 \<Rightarrow> cooldown_response" where
  "reject tick reason remaining =
     \<lparr>cr_status = Rejected, cr_applies_from_tick = tick, cr_rejected_reason = reason,
      cr_cooldown_remaining_ms = remaining\<rparr>"

definition accept :: "u64 \<Rightarrow> cooldown_response" where
  "accept tick =
     \<lparr>cr_status = Accepted, cr_applies_from_tick = tick, cr_rejected_reason = ReasonUnspecified,
      cr_cooldown_remaining_ms = 0\<rparr>"

definition back_to_track ::
  "'n worker_env \<Rightarrow> 'n race_others \<Rightarrow> race_tokens \<Rightarrow> header_value \<Rightarrow> 'n race_system
    \<Rightarrow> (status, cooldown_response) result \<times> 'n race_system" where
  "back_to_track env other tokens header sys =
     (case command_car ''BackToTrack'' env other tokens header sys of
        (Inl err, s) \<Rightarrow> (Inl err, s)
      | (Inr (car_id, engine_car_id, target), s) \<Rightarrow>
          let frame = rs_latest s; tick = fr_tick frame;
              remaining = back_to_track_cooldown_remaining_ms car_id (fr_server_time_ms frame) (rs_store s)
          in if remaining > 0 then (Inr (reject tick CooldownActive remaining), s)
             else if car_in_pit frame car_id then (Inr (reject tick InPit 0), s)
             else
               (case race_call other AwaitCommand (client_set_car_back_to_track_in env target engine_car_id) s of
                  (Inr _, s1) \<Rightarrow>
                    (Inr (accept tick), on_store (mark_back_to_track_applied car_id (fr_server_time_ms frame)) s1)
                | (Inl _, s1) \<Rightarrow> (Inr (reject tick NotAllowed 0), s1)))"

definition request_pitstop ::
  "'n worker_env \<Rightarrow> 'n race_others \<Rightarrow> race_tokens \<Rightarrow> header_value \<Rightarrow> bool \<Rightarrow> 'n race_system
    \<Rightarrow> (status, command_response) result \<times> 'n race_system" where
  "request_pitstop env other tokens header active sys =
     (case command_car ''RequestPitstop'' env other tokens header sys of
        (Inl err, s) \<Rightarrow> (Inl err, s)
      | (Inr (car_id, _, _), s) \<Rightarrow>
          (Inr \<lparr>cr_status = Accepted, cr_applies_from_tick = fr_tick (rs_latest s),
                cr_rejected_reason = ReasonUnspecified\<rparr>,
           on_store (set_pit_request_active car_id active) s))"

definition emergency_pitstop ::
  "'n worker_env \<Rightarrow> 'n race_others \<Rightarrow> race_tokens \<Rightarrow> header_value \<Rightarrow> 'n race_system
    \<Rightarrow> (status, cooldown_response) result \<times> 'n race_system" where
  "emergency_pitstop env other tokens header sys =
     (case command_car ''EmergencyPitstop'' env other tokens header sys of
        (Inl err, s) \<Rightarrow> (Inl err, s)
      | (Inr (car_id, engine_car_id, target), s) \<Rightarrow>
          let frame = rs_latest s; tick = fr_tick frame in
          if car_in_pit frame car_id then (Inr (reject tick InPit 0), s)
          else
            let remaining = emergency_pitstop_cooldown_remaining_ms car_id (fr_server_time_ms frame) (rs_store s)
            in if remaining > 0 then (Inr (reject tick CooldownActive remaining), s)
               else
                 (case race_call other AwaitCommand (client_set_car_to_pitstop_in env target engine_car_id) s of
                    (Inr _, s1) \<Rightarrow>
                      (Inr (accept tick),
                       on_store (mark_emergency_pitstop_requested car_id (fr_server_time_ms frame)) s1)
                  | (Inl _, s1) \<Rightarrow> (Inr (reject tick NotAllowed 0), s1)))"

definition runtime_tire_type_from_proto :: "race_config \<Rightarrow> i32 \<Rightarrow> pit_tire_type option" where
  "runtime_tire_type_from_proto cfg raw =
     (case rc_tire_of cfg raw of
        None \<Rightarrow> None
      | Some ProtoTireUnspecified \<Rightarrow> Some TireUnspecified
      | Some ProtoTireHard \<Rightarrow> Some TireHard
      | Some ProtoTireSoft \<Rightarrow> Some TireSoft
      | Some ProtoTireWet \<Rightarrow> Some TireWet)"

definition set_next_pit_tire_type ::
  "'n worker_env \<Rightarrow> race_config \<Rightarrow> 'n race_others \<Rightarrow> race_tokens \<Rightarrow> header_value \<Rightarrow> i32 \<Rightarrow> 'n race_system
    \<Rightarrow> (status, command_response) result \<times> 'n race_system" where
  "set_next_pit_tire_type env cfg other tokens header raw sys =
     (case command_car ''SetNextPitTireType'' env other tokens header sys of
        (Inl err, s) \<Rightarrow> (Inl err, s)
      | (Inr (car_id, _, _), s) \<Rightarrow>
          let tick = fr_tick (rs_latest s) in
          (case runtime_tire_type_from_proto cfg raw of
             Some tire \<Rightarrow>
               (Inr \<lparr>cr_status = Accepted, cr_applies_from_tick = tick, cr_rejected_reason = ReasonUnspecified\<rparr>,
                on_store (set_next_tire_from_frontend car_id tire) s)
           | None \<Rightarrow>
               (Inr \<lparr>cr_status = Rejected, cr_applies_from_tick = tick, cr_rejected_reason = NotAllowed\<rparr>, s)))"

section \<open>Logs of a team's bot\<close>

definition current_team_bot_log_path :: "string \<Rightarrow> 'n race_system \<Rightarrow> string option" where
  "current_team_bot_log_path team_id sys =
     (case hm_get (rs_joins sys) team_id of
        Some j \<Rightarrow> Some (tj_log_file_path j)
      | None \<Rightarrow> map_option rb_log_file_path (hm_get (rs_race_bots sys) team_id))"

text \<open>Both log requests begin alike; \<open>read_file\<close> is the file system.\<close>

definition team_log_snapshot ::
  "string \<Rightarrow> 'n worker_env \<Rightarrow> 'n race_others \<Rightarrow> race_tokens \<Rightarrow> (string \<Rightarrow> (io_error, log_file) result)
    \<Rightarrow> header_value \<Rightarrow> 'n race_system \<Rightarrow> (status, string \<times> string \<times> bot_logs_snapshot) result \<times> 'n race_system" where
  "team_log_snapshot name env other tokens read_file header sys =
     (if \<not> official (env_features env)
      then (unimplemented (name @ '' is supported only in official backend mode''), sys)
      else case parse_game_token header of
        Inl err \<Rightarrow> (Inl err, sys)
      | Inr None \<Rightarrow> (unauthenticated ''missing x-ha3-game-token'', sys)
      | Inr (Some token) \<Rightarrow>
          (case team_of_token other tokens token sys of
             (Inl err, s) \<Rightarrow> (Inl err, s)
           | (Inr team_id, s) \<Rightarrow>
               (case current_team_bot_log_path team_id s of
                  None \<Rightarrow> (not_found ''no active official bot logs for team'', s)
                | Some path \<Rightarrow>
                    (case read_tail_bot_logs_snapshot (read_file path) of
                       Inl _ \<Rightarrow> (Inl (Status CodeInternal ''failed to read official team bot logs''), s)
                     | Inr snap \<Rightarrow> (Inr (team_id, path, snap), s)))))"

definition get_official_team_bot_logs ::
  "'n worker_env \<Rightarrow> 'n race_others \<Rightarrow> race_tokens \<Rightarrow> (string \<Rightarrow> (io_error, log_file) result) \<Rightarrow> header_value
    \<Rightarrow> 'n race_system \<Rightarrow> (status, string list \<times> bool) result \<times> 'n race_system" where
  "get_official_team_bot_logs env other tokens read_file header sys =
     (case team_log_snapshot ''GetOfficialTeamBotLogs'' env other tokens read_file header sys of
        (Inl err, s) \<Rightarrow> (Inl err, s)
      | (Inr (_, _, snap), s) \<Rightarrow> (Inr (bl_lines snap, bl_truncated snap), s))"

text \<open>The stream is the snapshot followed by the lines; a tick is the system and the file then.\<close>

definition stream_official_team_bot_logs ::
  "'n worker_env \<Rightarrow> 'n race_others \<Rightarrow> race_tokens \<Rightarrow> (string \<Rightarrow> (io_error, log_file) result) \<Rightarrow> header_value
    \<Rightarrow> ('n race_system \<times> (io_error, log_file) result) list \<Rightarrow> 'n race_system
    \<Rightarrow> (status, (string list \<times> bool) \<times> log_event list) result \<times> 'n race_system" where
  "stream_official_team_bot_logs env other tokens read_file header ticks sys =
     (case team_log_snapshot ''StreamOfficialTeamBotLogs'' env other tokens read_file header sys of
        (Inl err, s) \<Rightarrow> (Inl err, s)
      | (Inr (team_id, path, snap), s) \<Rightarrow>
          (Inr ((bl_lines snap, bl_truncated snap),
                log_stream path (bl_file_size_bytes snap) []
                  (map (\<lambda>(t, file). (current_team_bot_log_path team_id t, file)) ticks)), s))"

section \<open>Spectators\<close>

datatype downgrade_reason = DowngradeNone | NotAuthorized

definition resolve_view ::
  "race_config \<Rightarrow> spectator_view \<Rightarrow> string list \<Rightarrow> spectator_view \<times> downgrade_reason" where
  "resolve_view cfg requested scopes =
     (let allowed = (if list_ex (\<lambda>s. s = ''race.read.all'') scopes then ViewAll
                     else if list_ex (\<lambda>s. s = ''race.read.team'') scopes then ViewTeam else ViewPublic)
      in if rc_view_code cfg requested \<le> rc_view_code cfg allowed then (requested, DowngradeNone)
         else (allowed, NotAuthorized))"

definition normalize_requested_view :: "race_config \<Rightarrow> i32 \<Rightarrow> spectator_view" where
  "normalize_requested_view cfg raw =
     (case rc_view_of cfg raw of
        None \<Rightarrow> ViewPublic
      | Some ViewUnspecified \<Rightarrow> ViewPublic
      | Some view \<Rightarrow> view)"

definition resolve_runtime_map_id :: "runtime_state \<Rightarrow> command_target option \<Rightarrow> string" where
  "resolve_runtime_map_id rt visible =
     (let by_target =
            (case visible of
               Some (TargetSandbox sandbox_id) \<Rightarrow>
                 map_option sb_map_id (find (\<lambda>e. sb_sandbox_id e = sandbox_id) (rt_active_sandboxes rt))
             | Some (TargetLocalRace race_id) \<Rightarrow>
                 (case rt_active_local_race rt of
                    None \<Rightarrow> None
                  | Some race \<Rightarrow> if lr_race_id race = race_id then Some (lr_map_id race) else None)
             | _ \<Rightarrow> None)
      in case by_target of
           Some map_id \<Rightarrow> map_id
         | None \<Rightarrow>
             (case (rt_activity_kind rt, rt_active_sandboxes rt) of
                (ActSandbox, [e]) \<Rightarrow> sb_map_id e
              | _ \<Rightarrow> rt_map_id rt))"

datatype spectator_target = SpectateSandbox string | SpectateOfficialRace | SpectateLocalRace string

definition resolve_stream_target ::
  "spectator_target option \<Rightarrow> runtime_state \<Rightarrow> (status, command_target option) result" where
  "resolve_stream_target requested rt =
     (case requested of
        None \<Rightarrow> invalid_argument ''spectator target must be set''
      | Some (SpectateSandbox sandbox_id) \<Rightarrow>
          if trim sandbox_id = [] then invalid_argument ''sandbox_id is required for sandbox spectator target''
          else
            (case select_quick_join_sandbox rt sandbox_id of
               Inl err \<Rightarrow> Inl err
             | Inr active \<Rightarrow> Inr (Some (TargetSandbox (sb_sandbox_id active))))
      | Some SpectateOfficialRace \<Rightarrow>
          if rt_activity_kind rt \<noteq> ActOfficialRace
          then failed_precondition ''official race runtime is not active''
          else Inr (Some TargetOfficialRace)
      | Some (SpectateLocalRace race_id0) \<Rightarrow>
          let race_id = trim race_id0 in
          if race_id = [] then invalid_argument ''race_id is required for local race spectator target''
          else if map_option lr_race_id (rt_active_local_race rt) \<noteq> Some race_id
          then failed_precondition ''local race runtime is not active''
          else Inr (Some (TargetLocalRace race_id)))"

definition DEFAULT_STREAM_HZ :: u32 where "DEFAULT_STREAM_HZ = 20"
definition MIN_STREAM_HZ :: u32 where "MIN_STREAM_HZ = 1"
definition MAX_STREAM_HZ :: u32 where "MAX_STREAM_HZ = 120"

datatype clamp_reason = ClampNone | ServerLimit

text \<open>
  \<open>clamp\<close> panics when its bounds are out of order, which is \<open>None\<close>. The last component is the
  period in seconds the code passes to \<open>Duration::from_secs_f64\<close>.
\<close>

definition resolve_stream_rate :: "u32 \<Rightarrow> u32 \<Rightarrow> (u32 \<times> u32 \<times> clamp_reason \<times> fp) option" where
  "resolve_stream_rate requested0 simulation_hz =
     (let requested = (if requested0 = 0 then DEFAULT_STREAM_HZ else requested0);
          max_hz = min MAX_STREAM_HZ simulation_hz
      in if max_hz < MIN_STREAM_HZ then None
         else
           let effective = max MIN_STREAM_HZ (min requested max_hz) in
           Some (requested, effective, if effective = requested then ClampNone else ServerLimit,
                 fp_div binary64 (Fin 1) (fp_of_int binary64 (uint effective))))"

record stream_settings =
  se_requested_hz :: u32
  se_effective_hz :: u32
  se_clamp_reason :: clamp_reason
  se_resolved_view :: spectator_view
  se_view_downgrade_reason :: downgrade_reason
  se_map_id :: string

definition build_stream_settings ::
  "u32 \<Rightarrow> u32 \<Rightarrow> clamp_reason \<Rightarrow> spectator_view \<Rightarrow> downgrade_reason \<Rightarrow> string \<Rightarrow> stream_settings" where
  "build_stream_settings requested effective reason view downgrade map_id =
     \<lparr>se_requested_hz = requested, se_effective_hz = effective, se_clamp_reason = reason,
      se_resolved_view = view, se_view_downgrade_reason = downgrade, se_map_id = map_id\<rparr>"

definition timestamp_to_unix_ms :: "timestamp option \<Rightarrow> u64 option" where
  "timestamp_to_unix_ms v =
     (case v of
        None \<Rightarrow> None
      | Some t \<Rightarrow>
          if ts_seconds t < 0 \<or> ts_nanos t < 0 then None
          else Some (sat_add (sat_mul (of_int (ts_seconds t)) 1000) (of_int (ts_nanos t div 1000000))))"

definition seconds_of_ms :: "int \<Rightarrow> fp" where
  "seconds_of_ms ms = fp_div binary32 (fp_of_int binary32 ms) (Fin 1000)"

text \<open>The clock of the local race is read at \<open>clock_ms\<close>, the frame's time is \<open>now_ms\<close>.\<close>

definition local_race_remaining_sec :: "u64 \<Rightarrow> local_race_state \<Rightarrow> string \<Rightarrow> u64 \<Rightarrow> fp option" where
  "local_race_remaining_sec clock_ms st race_id now_ms =
     (case active_race clock_ms st of
        None \<Rightarrow> None
      | Some race \<Rightarrow>
          if ri_race_id race \<noteq> race_id then None
          else
            (case timestamp_to_unix_ms (ri_planned_end_at_utc race) of
               None \<Rightarrow> None
             | Some planned_end_ms \<Rightarrow> Some (seconds_of_ms (uint (sat_sub planned_end_ms now_ms)))))"

definition i64_sat_sub :: "i64 \<Rightarrow> i64 \<Rightarrow> i64" where
  "i64_sat_sub a b = max i64_min (min i64_max (a - b))"

definition official_sandbox_pending_close_remaining_sec :: "runtime_frame \<Rightarrow> string \<Rightarrow> fp option" where
  "official_sandbox_pending_close_remaining_sec frame sandbox_id =
     (case fr_runtime_state frame of
        None \<Rightarrow> None
      | Some rt \<Rightarrow>
          let now_ms = min (uint (fr_server_time_ms frame)) i64_max;
              times = map pd_execute_at_unix_ms
                        (filter (\<lambda>p. \<not> pd_activate p \<and> pd_sandbox_id p = sandbox_id) (rt_pending rt))
          in case times of
               [] \<Rightarrow> None
             | t # ts \<Rightarrow> Some (seconds_of_ms (max (i64_sat_sub (fold min ts t) now_ms) 0)))"

record spectator_snapshot =
  ss_tick :: u64
  ss_server_time_ms :: u64
  ss_cars :: "frontend_car_full_state list"
  ss_debug :: "fp option"
  ss_runtime_elapsed_sec :: "fp option"
  ss_official_race_leader_completed_laps :: "u32 option"
  ss_race_leader_completed_laps :: "u32 option"
  ss_runtime_remaining_sec :: "fp option"

text \<open>The race of the target has ended, which ends the stream.\<close>

definition target_ended :: "command_target option \<Rightarrow> runtime_frame \<Rightarrow> bool" where
  "target_ended visible frame =
     (case visible of
        Some TargetOfficialRace \<Rightarrow>
          map_option rt_activity_kind (fr_runtime_state frame) \<noteq> Some ActOfficialRace
      | Some (TargetLocalRace race_id) \<Rightarrow>
          (case fr_runtime_state frame of
             None \<Rightarrow> True
           | Some rt \<Rightarrow> map_option lr_race_id (rt_active_local_race rt) \<noteq> Some race_id)
      | _ \<Rightarrow> False)"

definition visible_cars :: "command_target option \<Rightarrow> runtime_frame \<Rightarrow> car_frame list" where
  "visible_cars visible frame =
     sort_key cf_public_car_id
       (filter (\<lambda>c. case visible of Some t \<Rightarrow> cf_target c = t | None \<Rightarrow> True) (hm_values (fr_cars frame)))"

definition leader_laps :: "command_target option \<Rightarrow> car_frame list \<Rightarrow> u32 option" where
  "leader_laps visible cars =
     (let laps = map (\<lambda>c. case cf_race_metrics c of None \<Rightarrow> 0 | Some m \<Rightarrow> completed_laps m) cars;
          most = (case laps of [] \<Rightarrow> 0 | l # ls \<Rightarrow> fold max ls l)
      in case visible of
           Some TargetOfficialRace \<Rightarrow> Some most
         | Some (TargetLocalRace _) \<Rightarrow> Some most
         | _ \<Rightarrow> None)"

definition car_message :: "car_frame \<Rightarrow> frontend_car_full_state" where
  "car_message c =
     (let current_lap =
            (case cf_race_metrics c of
               None \<Rightarrow> None
             | Some m \<Rightarrow>
                 if completed_laps m > 0 \<or> fp_lt (Fin 0) (lap_progress_m m) \<or> current_lap_time_ms m > 0
                 then Some (current_lap_time_ms m) else None);
          last_lap = (case cf_race_metrics c of None \<Rightarrow> None | Some m \<Rightarrow> last_lap_time_ms m)
      in frontend_full_state (cf_public_car_id c) (cf_state c) (cf_last_client_seq c) (cf_pit_state c)
           (cf_controls_input c) current_lap last_lap (cf_best_lap_time_ms c))"

definition runtime_remaining ::
  "features \<Rightarrow> 'n race_others \<Rightarrow> u64 \<Rightarrow> command_target option \<Rightarrow> runtime_frame \<Rightarrow> 'n race_system
    \<Rightarrow> fp option \<times> 'n race_system" where
  "runtime_remaining fs other clock_ms visible frame sys =
     (case visible of
        Some TargetOfficialRace \<Rightarrow>
          (if official fs then official_race_remaining_sec (fr_server_time_ms frame) (rs_store sys) else None, sys)
      | Some (TargetSandbox sandbox_id) \<Rightarrow>
          (if official fs then official_sandbox_pending_close_remaining_sec frame sandbox_id else None, sys)
      | Some (TargetLocalRace race_id) \<Rightarrow>
          if local_mode fs
          then race_read other AwaitActiveRace
                 (\<lambda>s. local_race_remaining_sec clock_ms (rs_local_race s) race_id (fr_server_time_ms frame)) sys
          else (None, sys)
      | None \<Rightarrow> (None, sys))"

definition spectator_snapshot_of ::
  "bool \<Rightarrow> command_target option \<Rightarrow> runtime_frame \<Rightarrow> fp option \<Rightarrow> spectator_snapshot" where
  "spectator_snapshot_of include_debug visible frame remaining =
     (let cars = visible_cars visible frame;
          laps = leader_laps visible cars
      in \<lparr>ss_tick = fr_tick frame, ss_server_time_ms = fr_server_time_ms frame,
          ss_cars = map car_message cars,
          ss_debug =
            (if include_debug then
               (case visible of
                  Some TargetOfficialRace \<Rightarrow> fr_official_race_duration_s frame
                | Some (TargetSandbox sandbox_id) \<Rightarrow> hm_get (fr_sandbox_race_duration_s frame) sandbox_id
                | Some (TargetLocalRace race_id) \<Rightarrow> hm_get (fr_local_race_duration_s frame) race_id
                | None \<Rightarrow> None)
             else None),
          ss_runtime_elapsed_sec =
            (case visible of
               Some (TargetSandbox sandbox_id) \<Rightarrow> hm_get (fr_sandbox_race_duration_s frame) sandbox_id
             | Some (TargetLocalRace race_id) \<Rightarrow> hm_get (fr_local_race_duration_s frame) race_id
             | _ \<Rightarrow> None),
          ss_official_race_leader_completed_laps = laps, ss_race_leader_completed_laps = laps,
          ss_runtime_remaining_sec = remaining\<rparr>)"

section \<open>Cleaning up after a spectator\<close>

definition remove_instance_mapping_for_car :: "u64 \<Rightarrow> runtime_store \<Rightarrow> runtime_store" where
  "remove_instance_mapping_for_car car_id st =
     (case hm_get (st_car_owners st) car_id of
        None \<Rightarrow> st
      | Some owner \<Rightarrow>
          let st1 = st\<lparr>st_car_owners := hm_remove car_id (st_car_owners st)\<rparr> in
          if hm_get (st_instance_cars st1) owner = Some car_id
          then st1\<lparr>st_instance_cars := hm_remove owner (st_instance_cars st1)\<rparr> else st1)"

definition remove_car_state :: "u64 \<Rightarrow> runtime_store \<Rightarrow> runtime_store" where
  "remove_car_state car_id st =
     remove_instance_mapping_for_car car_id
       (st\<lparr>st_known_cars := hm_remove car_id (st_known_cars st),
           st_last_client_seq := hm_remove car_id (st_last_client_seq st),
           st_car_engine_ids := hm_remove car_id (st_car_engine_ids st),
           st_car_targets := hm_remove car_id (st_car_targets st)\<rparr>)"

definition resolve_owned_cleanup_car :: "string option \<Rightarrow> command_target option \<Rightarrow> runtime_store \<Rightarrow> u64 option" where
  "resolve_owned_cleanup_car owner target st =
     (case owner of
        None \<Rightarrow> None
      | Some uuid \<Rightarrow>
          (case (case target of
                   None \<Rightarrow> None
                 | Some t \<Rightarrow> map_option fst (find (\<lambda>(car_id, o1).
                     o1 = uuid \<and> hm_get (st_car_targets st) car_id = Some t) (st_car_owners st))) of
             Some car_id \<Rightarrow> Some car_id
           | None \<Rightarrow> hm_get (st_instance_cars st) uuid))"

definition cleanup_frontend_cars ::
  "'n worker_env \<Rightarrow> 'n race_others \<Rightarrow> command_target option \<Rightarrow> string option \<Rightarrow> 'n race_system \<Rightarrow> 'n race_system" where
  "cleanup_frontend_cars env other cleanup_target owner sys =
     (case resolve_owned_cleanup_car owner cleanup_target (rs_store sys) of
        None \<Rightarrow> sys
      | Some car_id \<Rightarrow>
          (case hm_get (st_car_targets (rs_store sys)) car_id of
             None \<Rightarrow> on_store (remove_car_state car_id) sys
           | Some target \<Rightarrow>
               (case hm_get (st_car_engine_ids (rs_store sys)) car_id of
                  None \<Rightarrow> on_store (remove_car_state car_id) sys
                | Some engine_car_id \<Rightarrow>
                    on_store (remove_car_state car_id)
                      (snd (race_call other AwaitDespawn (client_despawn_car_in env target engine_car_id) sys)))))"

section \<open>The spectator stream\<close>

text \<open>
  A tick of the stream is what the other tasks did since the last one, the clock, whether the
  client still receives, and what the other tasks do while the message is sent. The stream sends a snapshot of the latest frame per tick; when
  the client is gone it removes the car of the spectator's instance, when the race of the
  target has ended it just stops.
\<close>

record 'n stream_tick =
  sk_others :: "'n race_system \<Rightarrow> 'n race_system"
  sk_clock_ms :: u64
  sk_received :: bool
  sk_sending :: "'n race_system \<Rightarrow> 'n race_system"

fun spectator_loop ::
  "'n worker_env \<Rightarrow> 'n race_others \<Rightarrow> bool \<Rightarrow> command_target option \<Rightarrow> string option \<Rightarrow> u64
    \<Rightarrow> 'n stream_tick list \<Rightarrow> 'n race_system \<Rightarrow> spectator_snapshot list \<times> 'n race_system" where
  "spectator_loop env other include_debug visible owner stream_id [] sys = ([], sys)"
| "spectator_loop env other include_debug visible owner stream_id (k # ks) sys =
     (let s = sk_others k sys; frame = rs_latest s;
          finish = (\<lambda>s'. s'\<lparr>rs_active_streams := hm_remove stream_id (rs_active_streams s')\<rparr>)
      in if target_ended visible frame then ([], finish s)
         else
           let (remaining, s1) = runtime_remaining (env_features env) other (sk_clock_ms k) visible frame s;
               s2 = sk_sending k s1
           in if sk_received k then
                (let (later, s3) = spectator_loop env other include_debug visible owner stream_id ks s2
                 in (spectator_snapshot_of include_debug visible frame remaining # later, s3))
              else ([], finish (cleanup_frontend_cars env other visible owner s2)))"

record spectator_request =
  sq_target :: "spectator_target option"
  sq_requested_hz :: u32
  sq_requested_view :: i32
  sq_include_debug :: bool

definition spectator_claims ::
  "features \<Rightarrow> 'n race_others \<Rightarrow> race_tokens \<Rightarrow> header_value \<Rightarrow> 'n race_system
    \<Rightarrow> (status, string list \<times> string option) result \<times> 'n race_system" where
  "spectator_claims fs other tokens header sys =
     (if standalone fs then (Inr ([], None), sys)
      else case parse_game_token header of
        Inl err \<Rightarrow> (Inl err, sys)
      | Inr None \<Rightarrow> (Inr ([], None), sys)
      | Inr (Some token) \<Rightarrow>
          (case race_read other AwaitScopes (\<lambda>_. scopes_from_token (tokens AwaitScopes) token) sys of
             (Inl err, s) \<Rightarrow> (Inl err, s)
           | (Inr scopes, s) \<Rightarrow>
               (case race_read other AwaitInstance (\<lambda>_. instance_uuid_from_token (tokens AwaitInstance) token) s of
                  (Inl err, s1) \<Rightarrow> (Inl err, s1)
                | (Inr uuid, s1) \<Rightarrow> (Inr (scopes, uuid), s1))))"

text \<open>
  The settings message and the snapshots. A stream whose rate cannot be resolved panics after it
  was entered into the active streams (\<open>None\<close> settings); a client that does not take the
  settings message ends it at once.
\<close>

definition run_frontend_spectator_stream ::
  "'n worker_env \<Rightarrow> race_config \<Rightarrow> 'n race_others \<Rightarrow> spectator_request \<Rightarrow> spectator_view \<Rightarrow> downgrade_reason
    \<Rightarrow> string \<Rightarrow> command_target option \<Rightarrow> string option \<Rightarrow> bool \<Rightarrow> 'n stream_tick list \<Rightarrow> 'n race_system
    \<Rightarrow> (stream_settings option \<times> spectator_snapshot list) \<times> 'n race_system" where
  "run_frontend_spectator_stream env cfg other req view downgrade map_id visible owner settings_received ticks sys =
     (let stream_id = rs_next_stream_id sys;
          s = sys\<lparr>rs_next_stream_id := stream_id + 1,
                  rs_active_streams := hm_insert stream_id () (rs_active_streams sys)\<rparr>
      in case resolve_stream_rate (sq_requested_hz req) (rc_simulation_hz cfg) of
           None \<Rightarrow> ((None, []), s)
         | Some (requested, effective, reason, _) \<Rightarrow>
             let settings = build_stream_settings requested effective reason view downgrade map_id in
             if \<not> settings_received
             then ((Some settings, []), s\<lparr>rs_active_streams := hm_remove stream_id (rs_active_streams s)\<rparr>)
             else
               let (events, s1) = spectator_loop env other (sq_include_debug req) visible owner stream_id ticks s
               in ((Some settings, events), s1))"

definition stream_frontend_spectator ::
  "'n worker_env \<Rightarrow> race_config \<Rightarrow> 'n race_others \<Rightarrow> race_tokens \<Rightarrow> header_value \<Rightarrow> spectator_request \<Rightarrow> bool
    \<Rightarrow> 'n stream_tick list \<Rightarrow> 'n race_system
    \<Rightarrow> (status, stream_settings option \<times> spectator_snapshot list) result \<times> 'n race_system" where
  "stream_frontend_spectator env cfg other tokens header req settings_received ticks sys =
     (let requested_view = normalize_requested_view cfg (sq_requested_view req) in
      case spectator_claims (env_features env) other tokens header sys of
        (Inl err, s) \<Rightarrow> (Inl err, s)
      | (Inr (scopes, owner), s) \<Rightarrow>
          let (view, downgrade) = resolve_view cfg requested_view scopes in
          (case worker_call other AwaitRuntime (client_runtime_state env) s of
             (Inl err, s1) \<Rightarrow> (Inl err, s1)
           | (Inr rt, s1) \<Rightarrow>
               (case resolve_stream_target (sq_target req) rt of
                  Inl err \<Rightarrow> (Inl err, s1)
                | Inr visible \<Rightarrow>
                    let (events, s2) = run_frontend_spectator_stream env cfg other req view downgrade
                          (resolve_runtime_map_id rt visible) visible owner settings_received ticks s1
                    in (Inr events, s2))))"

end
