(* ===== verification/Participant_Service.thy ===== *)
theory Participant_Service
  imports Race_Service
begin

text \<open>
  The participant service, game-server/src/services/race_participant.rs, as far as every build
  has it: joining a local sandbox or a local race, finding the car of an official bot, and the
  stream over which a bot drives its car. It works on the system of the race service, and
  other tasks run at its awaits in the same way.
\<close>

section \<open>Joining\<close>

text \<open>The function repeats \<open>select_quick_join_sandbox\<close> of the race service word for word.\<close>

definition select_local_join_sandbox :: "runtime_state \<Rightarrow> string \<Rightarrow> (status, active_sandbox_state) result" where
  "select_local_join_sandbox = select_quick_join_sandbox"

definition local_sandbox_join_impl ::
  "'n worker_env \<Rightarrow> 'n race_others \<Rightarrow> race_tokens \<Rightarrow> (u64 \<Rightarrow> u64) \<Rightarrow> string \<Rightarrow> string option \<Rightarrow> 'n race_system
    \<Rightarrow> (status, quick_join_response) result \<times> 'n race_system" where
  "local_sandbox_join_impl env other tokens choose_slot requested_sandbox_id auth sys =
     (case worker_call other AwaitRuntime (client_runtime_state env) sys of
        (Inl err, s) \<Rightarrow> (Inl err, s)
      | (Inr rt, s) \<Rightarrow>
          (case select_local_join_sandbox rt requested_sandbox_id of
             Inl err \<Rightarrow> (Inl err, s)
           | Inr active \<Rightarrow>
               let sandbox_id = sb_sandbox_id active; target = TargetSandbox sandbox_id in
               (case worker_call other AwaitSpawn (client_spawn_sandbox_car env sandbox_id) s of
                  (Inl err, s1) \<Rightarrow> (Inl err, s1)
                | (Inr engine_car_id, s1) \<Rightarrow>
                    (case apply_local_spawn_mode env other choose_slot sandbox_id target engine_car_id s1 of
                       (Inl err, s2) \<Rightarrow>
                         (Inl err, snd (race_call other AwaitDespawn
                                          (client_despawn_car_in env target engine_car_id) s2))
                     | (Inr _, s2) \<Rightarrow>
                         let (car_id, st) = allocate_public_car_id (rs_store s2);
                             s3 = s2\<lparr>rs_store := st\<rparr>;
                             (identity, s4) = (if standalone (env_features env) then (Inr identity_default, s3)
                                               else join_identity other tokens auth car_id s3)
                         in (case identity of
                               Inl err \<Rightarrow> (Inl err, s4)
                             | Inr i \<Rightarrow>
                                 (Inr \<lparr>qj_car_id = car_id, qj_map_id = sb_map_id active\<rparr>,
                                  on_store (register_sandbox_car sandbox_id car_id engine_car_id i) s4))))))"

definition local_sandbox_join ::
  "'n worker_env \<Rightarrow> 'n race_others \<Rightarrow> race_tokens \<Rightarrow> (u64 \<Rightarrow> u64) \<Rightarrow> header_value \<Rightarrow> string \<Rightarrow> 'n race_system
    \<Rightarrow> (status, quick_join_response) result \<times> 'n race_system" where
  "local_sandbox_join env other tokens choose_slot header sandbox_id sys =
     (if \<not> local_mode (env_features env)
      then (unimplemented ''LocalSandboxJoin is supported only in local backend mode'', sys)
      else if standalone (env_features env)
      then local_sandbox_join_impl env other tokens choose_slot sandbox_id None sys
      else case parse_game_token header of
        Inl err \<Rightarrow> (Inl err, sys)
      | Inr None \<Rightarrow> (unauthenticated ''missing x-ha3-game-token'', sys)
      | Inr (Some token) \<Rightarrow> local_sandbox_join_impl env other tokens choose_slot sandbox_id (Some token) sys)"

text \<open>The first characters of a text, counted as characters and not as bytes.\<close>

definition first_chars :: "nat \<Rightarrow> string \<Rightarrow> string" where
  "first_chars n s = (if length (char_indices s) \<le> n then s else take (char_indices s ! n) s)"

definition local_display_name :: "string \<Rightarrow> string" where
  "local_display_name raw = (if trim raw = [] then ''Local bot'' else first_chars 64 (trim raw))"

fun map_local_race_state_err :: "local_race_error \<Rightarrow> status" where
  "map_local_race_state_err NoActiveRace = Status CodeFailedPrecondition ''local race runtime is not active''"
| "map_local_race_state_err RaceMismatch =
     Status CodeNotFound ''local race runtime is not active for requested race_id''"
| "map_local_race_state_err JoinClosed =
     Status CodeFailedPrecondition ''local race join is allowed only in staging phase''"
| "map_local_race_state_err ParticipantLimitReached =
     Status CodeResourceExhausted ''local race participant limit reached''"

record local_race_join_response =
  lj_car_id :: u64
  lj_race_id :: string
  lj_map_id :: string
  lj_participant_index :: u32

definition on_local_race ::
  "(local_race_state \<Rightarrow> 'r \<times> local_race_state) \<Rightarrow> 'n race_system \<Rightarrow> 'r \<times> 'n race_system" where
  "on_local_race f sys = (let (r, st) = f (rs_local_race sys) in (r, sys\<lparr>rs_local_race := st\<rparr>))"

definition start_slot_for :: "u32 \<Rightarrow> u64 \<Rightarrow> u64" where
  "start_slot_for participant_index slots = sat_add (sat_sub (ucast participant_index) 1 mod slots) 1"

definition register_local_racer ::
  "string \<Rightarrow> u64 \<Rightarrow> u64 \<Rightarrow> string \<Rightarrow> u32 \<Rightarrow> runtime_store \<Rightarrow> runtime_store" where
  "register_local_racer race_id car_id engine_car_id display_name participant_index st =
     (let st1 = set_car_identity car_id
            (identity_default\<lparr>id_local_race_display_name := Some display_name,
                              id_local_race_participant_index := Some participant_index\<rparr>) st
      in st1\<lparr>st_known_cars := hm_insert car_id () (st_known_cars st1),
             st_last_client_seq := hm_insert car_id 0 (st_last_client_seq st1),
             st_car_engine_ids := hm_insert car_id engine_car_id (st_car_engine_ids st1),
             st_car_targets := hm_insert car_id (TargetLocalRace race_id) (st_car_targets st1)\<rparr>)"

text \<open>The registered participant is put on the grid and the car is registered.\<close>

definition seat_local_racer ::
  "'n worker_env \<Rightarrow> 'n race_others \<Rightarrow> local_race_runtime_info \<Rightarrow> string \<Rightarrow> string \<Rightarrow> u64 \<Rightarrow> u64
    \<Rightarrow> participant_record \<Rightarrow> 'n race_system \<Rightarrow> (status, local_race_join_response) result \<times> 'n race_system" where
  "seat_local_racer env other race race_id display_name car_id engine_car_id p sys =
     (let target = TargetLocalRace race_id in
      case worker_call other AwaitSlots (client_get_number_of_start_pos_in env target) sys of
        (Inl err, s) \<Rightarrow> (Inl err, s)
      | (Inr slots, s) \<Rightarrow>
          if slots = 0 then (failed_precondition ''no start slots available for selected map'', s)
          else
            (case worker_call other AwaitPlace (client_set_car_at_start_pos_in env target engine_car_id
                    (start_slot_for (pr_participant_index p) slots)) s of
               (Inl err, s1) \<Rightarrow>
                 let s2 = snd (race_call other AwaitDespawn (client_despawn_car_in env target engine_car_id) s1)
                 in (Inl err, snd (race_call other AwaitRemove
                       (on_local_race (\<lambda>st. ((), remove_participant car_id st))) s2))
             | (Inr _, s1) \<Rightarrow>
                 (Inr \<lparr>lj_car_id = car_id, lj_race_id = race_id, lj_map_id = ri_map_id race,
                       lj_participant_index = pr_participant_index p\<rparr>,
                  on_store (register_local_racer race_id car_id engine_car_id display_name
                    (pr_participant_index p)) s1)))"

text \<open>The clock is read once per await: \<open>now a\<close> is the time at the await \<open>a\<close>.\<close>

definition local_race_join_impl ::
  "'n worker_env \<Rightarrow> 'n race_others \<Rightarrow> (race_await \<Rightarrow> u64) \<Rightarrow> string \<Rightarrow> string \<Rightarrow> 'n race_system
    \<Rightarrow> (status, local_race_join_response) result \<times> 'n race_system" where
  "local_race_join_impl env other now race_id0 display_name0 sys =
     (let race_id = trim race_id0; display_name = local_display_name display_name0 in
      if race_id = [] then (invalid_argument ''race_id must be non-empty'', sys)
      else case race_read other AwaitActiveRace (\<lambda>s. active_race (now AwaitActiveRace) (rs_local_race s)) sys of
        (None, s) \<Rightarrow> (failed_precondition ''local race runtime is not active'', s)
      | (Some race, s) \<Rightarrow>
          if ri_race_id race \<noteq> race_id
          then (not_found ''local race runtime is not active for requested race_id'', s)
          else
            (case worker_call other AwaitSpawn (client_spawn_local_race_car env race_id) s of
               (Inl err, s1) \<Rightarrow> (Inl err, s1)
             | (Inr engine_car_id, s1) \<Rightarrow>
                 let (car_id, st) = allocate_public_car_id (rs_store s1) in
                 (case race_call other AwaitRegister
                         (on_local_race (register_participant (now AwaitRegister) race_id car_id display_name))
                         (s1\<lparr>rs_store := st\<rparr>) of
                    (Inl err, s2) \<Rightarrow>
                      (Inl (map_local_race_state_err err),
                       snd (race_call other AwaitDespawn
                              (client_despawn_car_in env (TargetLocalRace race_id) engine_car_id) s2))
                  | (Inr p, s2) \<Rightarrow>
                      seat_local_racer env other race race_id display_name car_id engine_car_id p s2)))"

definition local_race_join ::
  "'n worker_env \<Rightarrow> 'n race_others \<Rightarrow> (race_await \<Rightarrow> u64) \<Rightarrow> string \<Rightarrow> string \<Rightarrow> 'n race_system
    \<Rightarrow> (status, local_race_join_response) result \<times> 'n race_system" where
  "local_race_join env other now race_id display_name sys =
     (if \<not> local_mode (env_features env)
      then (unimplemented ''LocalRaceJoin is supported only in local backend mode'', sys)
      else local_race_join_impl env other now race_id display_name sys)"

section \<open>The car of an official bot\<close>

definition required_team_id_from_token ::
  "'n race_others \<Rightarrow> race_tokens \<Rightarrow> string \<Rightarrow> 'n race_system \<Rightarrow> (status, string) result \<times> 'n race_system" where
  "required_team_id_from_token other tokens token sys =
     (let (r, s) = race_read other AwaitTeam (\<lambda>_. team_id_from_token (tokens AwaitTeam) token) sys
      in (case r of
            Inl err \<Rightarrow> Inl err
          | Inr None \<Rightarrow> unauthenticated ''missing team_id claim''
          | Inr (Some team_id) \<Rightarrow>
              if trim team_id = [] then unauthenticated ''missing team_id claim'' else Inr (trim team_id), s))"

definition find_team_official_race_car :: "string \<Rightarrow> runtime_store \<Rightarrow> (status, (u64 \<times> u64) option) result" where
  "find_team_official_race_car team_id0 st =
     (let team_id = trim team_id0 in
      if team_id = [] then unauthenticated ''missing team_id claim''
      else case official_cars_of_team team_id st of
        [] \<Rightarrow> Inr None
      | [car] \<Rightarrow> Inr (Some car)
      | _ \<Rightarrow> failed_precondition ''multiple active official-race cars found for team'')"

definition require_team_official_race_car :: "string \<Rightarrow> runtime_store \<Rightarrow> (status, u64 \<times> u64) result" where
  "require_team_official_race_car team_id st =
     (case find_team_official_race_car team_id st of
        Inl err \<Rightarrow> Inl err
      | Inr None \<Rightarrow> not_found ''no active official-race car for team''
      | Inr (Some car) \<Rightarrow> Inr car)"

definition official_map_of_frame :: "runtime_frame \<Rightarrow> string option" where
  "official_map_of_frame frame =
     (case fr_runtime_state frame of
        None \<Rightarrow> None
      | Some rt \<Rightarrow> if rt_activity_kind rt = ActOfficialRace then Some (rt_map_id rt) else None)"

definition resolve_roster_car ::
  "runtime_frame \<Rightarrow> string \<Rightarrow> team_official_race_bot_state \<Rightarrow> 'n race_system
    \<Rightarrow> (status, quick_join_response) result \<times> 'n race_system" where
  "resolve_roster_car frame team_id existing sys =
     (case (case st_official_race_public_state (rs_store sys) of
              Some p \<Rightarrow> Some (op_map_id p) | None \<Rightarrow> official_map_of_frame frame) of
        None \<Rightarrow> (failed_precondition ''official-race runtime map is not available'', sys)
      | Some map_id \<Rightarrow>
          (case require_team_official_race_car team_id (rs_store sys) of
             Inl err \<Rightarrow> (Inl err, sys)
           | Inr (car_id, _) \<Rightarrow>
               (Inr \<lparr>qj_car_id = car_id, qj_map_id = map_id\<rparr>,
                on_store (set_active_bot_slot car_id (rb_slot_index existing)) sys)))"

definition prepare_official_join ::
  "'n worker_env \<Rightarrow> 'n race_others \<Rightarrow> race_tokens \<Rightarrow> header_value \<Rightarrow> 'n race_system
    \<Rightarrow> (status, quick_join_response) result \<times> 'n race_system" where
  "prepare_official_join env other tokens header sys =
     (if \<not> official (env_features env)
      then (unimplemented ''PrepareOfficialJoin is supported only in official backend mode'', sys)
      else case parse_game_token header of
        Inl err \<Rightarrow> (Inl err, sys)
      | Inr None \<Rightarrow> (unauthenticated ''missing x-ha3-game-token'', sys)
      | Inr (Some token) \<Rightarrow>
          (case required_team_id_from_token other tokens token sys of
             (Inl err, s) \<Rightarrow> (Inl err, s)
           | (Inr team_id, s) \<Rightarrow>
               let frame = rs_latest s in
               (case hm_get (rs_race_bots s) team_id of
                  Some existing \<Rightarrow> resolve_roster_car frame team_id existing s
                | None \<Rightarrow>
                    (case hm_get (rs_joins s) team_id of
                       Some j \<Rightarrow>
                         (case Option.bind (fr_runtime_state frame)
                                 (\<lambda>rt. find (\<lambda>e. sb_sandbox_id e = tj_sandbox_id j) (rt_active_sandboxes rt)) of
                            None \<Rightarrow> failed_precondition ''sandbox runtime is not active for team join''
                          | Some e \<Rightarrow> Inr \<lparr>qj_car_id = tj_public_car_id j, qj_map_id = sb_map_id e\<rparr>, s)
                     | None \<Rightarrow>
                         (case (case fr_runtime_state frame of None \<Rightarrow> ActNone | Some rt \<Rightarrow> rt_activity_kind rt) of
                            ActOfficialRace \<Rightarrow> not_found ''team is not part of active official-race roster''
                          | ActSandbox \<Rightarrow> not_found ''no active official sandbox join for team''
                          | ActLocalRace \<Rightarrow> failed_precondition ''official join is not available in local race''
                          | ActNone \<Rightarrow> failed_precondition ''runtime is not active'', s)))))"

section \<open>Opening the stream\<close>

text \<open>
  \<open>str::parse\<close> of an unsigned 64-bit integer: digits after an optional plus sign, not more than
  the type holds.
\<close>

definition is_digit :: "char \<Rightarrow> bool" where
  "is_digit c \<longleftrightarrow> 48 \<le> (of_char c :: nat) \<and> (of_char c :: nat) \<le> 57"

definition digits_value :: "string \<Rightarrow> nat" where
  "digits_value ds = foldl (\<lambda>n c. 10 * n + (of_char c - 48)) 0 ds"

definition parse_u64 :: "string \<Rightarrow> u64 option" where
  "parse_u64 s =
     (let ds = (case s of [] \<Rightarrow> [] | c # cs \<Rightarrow> if c = CHR ''+'' then cs else c # cs)
      in if ds = [] \<or> \<not> list_all is_digit ds \<or> digits_value ds \<ge> 2 ^ 64 then None
         else Some (of_nat (digits_value ds)))"

fun parse_standalone_car_id :: "header_value \<Rightarrow> (status, u64) result" where
  "parse_standalone_car_id HeaderAbsent = invalid_argument ''missing x-ha3-car-id''"
| "parse_standalone_car_id HeaderNotText = invalid_argument ''invalid x-ha3-car-id header''"
| "parse_standalone_car_id (HeaderText raw) =
     (if trim raw = [] then invalid_argument ''x-ha3-car-id must be a valid u64''
      else case parse_u64 (trim raw) of
        None \<Rightarrow> invalid_argument ''x-ha3-car-id must be a valid u64''
      | Some car_id \<Rightarrow> Inr car_id)"

definition team_stream_car ::
  "'n worker_env \<Rightarrow> 'n race_others \<Rightarrow> race_tokens \<Rightarrow> string \<Rightarrow> 'n race_system
    \<Rightarrow> (status, u64) result \<times> 'n race_system" where
  "team_stream_car env other tokens token sys =
     (case required_team_id_from_token other tokens token sys of
        (Inl err, s) \<Rightarrow> (Inl err, s)
      | (Inr team_id, s) \<Rightarrow>
          (case worker_call other AwaitRuntime (client_runtime_state env) s of
             (Inl err, s1) \<Rightarrow> (Inl err, s1)
           | (Inr rt, s1) \<Rightarrow>
               (case rt_activity_kind rt of
                  ActOfficialRace \<Rightarrow> map_sum (\<lambda>e. e) fst (require_team_official_race_car team_id (rs_store s1))
                | ActSandbox \<Rightarrow>
                    ok_or (map_option tj_public_car_id (hm_get (rs_joins s1) team_id))
                      (Status CodeNotFound ''no active official sandbox join for team'')
                | ActLocalRace \<Rightarrow>
                    failed_precondition ''official token stream is not available for local race''
                | ActNone \<Rightarrow> failed_precondition ''runtime is not active'', s1)))"

definition participant_car_id ::
  "'n worker_env \<Rightarrow> 'n race_others \<Rightarrow> race_tokens \<Rightarrow> string \<Rightarrow> 'n race_system
    \<Rightarrow> (status, u64) result \<times> 'n race_system" where
  "participant_car_id env other tokens token sys =
     (case race_read other AwaitInstance (\<lambda>_. instance_uuid_from_token (tokens AwaitInstance) token) sys of
        (Inl err, s) \<Rightarrow> (Inl err, s)
      | (Inr (Some uuid), s) \<Rightarrow>
          (ok_or (hm_get (st_instance_cars (rs_store s)) uuid) (Status CodeNotFound ''unknown instance_uuid''), s)
      | (Inr None, s) \<Rightarrow>
          if official (env_features env) then team_stream_car env other tokens token s
          else (unauthenticated ''missing instance_uuid claim'', s))"

record stream_context =
  px_car_id :: u64
  px_engine_car_id :: u64
  px_target :: command_target
  px_scopes :: "string list"

text \<open>The request carries the token, or in the standalone build the number of the car.\<close>

definition open_participant_stream ::
  "'n worker_env \<Rightarrow> 'n race_others \<Rightarrow> race_tokens \<Rightarrow> header_value \<Rightarrow> header_value \<Rightarrow> 'n race_system
    \<Rightarrow> (status, stream_context) result \<times> 'n race_system" where
  "open_participant_stream env other tokens token_header car_header sys =
     (let fs = env_features env;
          found = (\<lambda>car_id scopes st.
            case (hm_get (st_car_targets st) car_id, hm_get (st_car_engine_ids st) car_id) of
              (Some target, Some e) \<Rightarrow>
                Inr \<lparr>px_car_id = car_id, px_engine_car_id = e, px_target = target, px_scopes = scopes\<rparr>
            | _ \<Rightarrow> not_found ''unknown car target'')
      in if standalone fs then
           (case parse_standalone_car_id car_header of
              Inl err \<Rightarrow> (Inl err, sys)
            | Inr car_id \<Rightarrow>
                (if hm_get (st_car_targets (rs_store sys)) car_id = None then not_found ''unknown x-ha3-car-id''
                 else found car_id [] (rs_store sys), sys))
         else case parse_game_token token_header of
           Inl err \<Rightarrow> (Inl err, sys)
         | Inr None \<Rightarrow> (unauthenticated ''missing x-ha3-game-token'', sys)
         | Inr (Some token) \<Rightarrow>
             (case participant_car_id env other tokens token sys of
                (Inl err, s) \<Rightarrow> (Inl err, s)
              | (Inr car_id, s) \<Rightarrow>
                  (case found car_id [] (rs_store s) of
                     Inl err \<Rightarrow> (Inl err, s)
                   | Inr ctx \<Rightarrow>
                       (case race_read other AwaitScopes (\<lambda>_. scopes_from_token (tokens AwaitScopes) token) s of
                          (Inl err, s1) \<Rightarrow> (Inl err, s1)
                        | (Inr scopes, s1) \<Rightarrow> (Inr (ctx\<lparr>px_scopes := scopes\<rparr>), s1)))))"

end
