(* ===== verification/Participant_Stream.thy ===== *)
theory Participant_Stream
  imports Participant_Service
begin

text \<open>
  The stream between a bot and the server, \<open>run_participant_stream\<close> of
  game-server/src/services/race_participant.rs: a loop whose turns are either a message of the
  bot or a tick of the stream's clock. A turn carries what its environment does: the other
  tasks at its awaits, the clock, whether the bot takes each message that is sent to it,
  whether the channel has room for a final status, and whether the despawn of a clean-up
  times out.
\<close>

section \<open>Messages to the bot\<close>

record participant_ack_message =
  ka_client_seq :: u64
  ka_applies_from_tick :: u64
  ka_accepted_shift :: proto_gear_shift

datatype participant_command_type = CommandBackToTrack | CommandEmergencyPitstop | CommandSetNextPitTireType

record participant_command_ack_message =
  kc_client_seq :: u64
  kc_command_type :: participant_command_type
  kc_status :: command_status
  kc_applies_from_tick :: u64
  kc_rejected_reason :: reject_reason
  kc_cooldown_remaining_ms :: u32

record participant_snapshot =
  kn_tick :: u64
  kn_server_time_ms :: u64
  kn_self :: participant_self_message
  kn_opponents :: "participant_opponent_message list"

datatype server_payload =
    SettingsEvent stream_settings
  | BootstrapEvent "(fp \<times> fp) option"
  | AckEvent participant_ack_message
  | CommandAckEvent participant_command_ack_message
  | SnapshotEvent participant_snapshot

record server_event =
  ev_server_seq :: u64
  ev_payload :: server_payload

definition participant_settings ::
  "u32 \<Rightarrow> u32 \<Rightarrow> clamp_reason \<Rightarrow> spectator_view \<Rightarrow> downgrade_reason \<Rightarrow> string \<Rightarrow> stream_settings" where
  "participant_settings requested effective reason view downgrade map_id =
     \<lparr>se_requested_hz = requested, se_effective_hz = effective, se_clamp_reason = reason,
      se_resolved_view = view, se_view_downgrade_reason = downgrade, se_map_id = map_id\<rparr>"

definition participant_ack :: "u64 \<Rightarrow> u64 \<Rightarrow> proto_gear_shift \<Rightarrow> participant_ack_message" where
  "participant_ack client_seq tick shift =
     \<lparr>ka_client_seq = client_seq, ka_applies_from_tick = tick, ka_accepted_shift = shift\<rparr>"

definition participant_command_ack ::
  "u64 \<Rightarrow> participant_command_type \<Rightarrow> command_status \<Rightarrow> u64 \<Rightarrow> reject_reason \<Rightarrow> u32
    \<Rightarrow> participant_command_ack_message" where
  "participant_command_ack client_seq command st tick reason remaining =
     \<lparr>kc_client_seq = client_seq, kc_command_type = command, kc_status = st, kc_applies_from_tick = tick,
      kc_rejected_reason = reason, kc_cooldown_remaining_ms = remaining\<rparr>"

definition PARTICIPANT_REQUESTED_HZ :: u32 where "PARTICIPANT_REQUESTED_HZ = 30"

definition resolve_participant_rate :: "u32 \<Rightarrow> u32 \<times> u32 \<times> clamp_reason \<times> fp" where
  "resolve_participant_rate simulation_hz =
     (let requested = PARTICIPANT_REQUESTED_HZ;
          max_hz = min MAX_STREAM_HZ (max simulation_hz 1);
          effective = max MIN_STREAM_HZ (min requested max_hz)
      in (requested, effective, if effective = requested then ClampNone else ServerLimit,
          fp_div binary64 (Fin 1) (fp_of_int binary64 (uint effective))))"

definition participant_map_id :: "runtime_frame \<Rightarrow> command_target \<Rightarrow> string" where
  "participant_map_id frame visible =
     (case fr_runtime_state frame of
        None \<Rightarrow> []
      | Some rt \<Rightarrow>
          (case (case visible of
                   TargetSandbox sandbox_id \<Rightarrow>
                     map_option sb_map_id (find (\<lambda>e. sb_sandbox_id e = sandbox_id) (rt_active_sandboxes rt))
                 | TargetLocalRace race_id \<Rightarrow>
                     (case rt_active_local_race rt of
                        None \<Rightarrow> None
                      | Some race \<Rightarrow> if lr_race_id race = race_id then Some (lr_map_id race) else None)
                 | TargetOfficialRace \<Rightarrow> None) of
             Some map_id \<Rightarrow> map_id
           | None \<Rightarrow> rt_map_id rt))"

section \<open>Cleaning up\<close>

text \<open>
  A despawn that times out was not executed when the clean-up goes on; if the worker executes
  it later, that is a step of the other tasks.
\<close>

definition despawn_with_timeout ::
  "'n worker_env \<Rightarrow> 'n race_others \<Rightarrow> bool \<Rightarrow> command_target \<Rightarrow> u64 \<Rightarrow> 'n race_system \<Rightarrow> 'n race_system" where
  "despawn_with_timeout env other timed_out target engine_car_id sys =
     (if timed_out then snd (race_read other AwaitDespawn (\<lambda>_. ()) sys)
      else snd (race_call other AwaitDespawn (client_despawn_car_in env target engine_car_id) sys))"

definition cleanup_participant_car ::
  "'n worker_env \<Rightarrow> 'n race_others \<Rightarrow> bool \<Rightarrow> stream_context \<Rightarrow> 'n race_system \<Rightarrow> 'n race_system" where
  "cleanup_participant_car env other timed_out ctx sys =
     (let car_id = px_car_id ctx; target = px_target ctx; e = px_engine_car_id ctx in
      case target of
        TargetSandbox _ \<Rightarrow>
          if official (env_features env) then
            if is_bot_switch_in_progress car_id (rs_store sys) then sys
            else despawn_with_timeout env other timed_out target e (on_store (remove_car car_id) sys)
          else on_store (remove_car car_id) (despawn_with_timeout env other timed_out target e sys)
      | TargetOfficialRace \<Rightarrow> sys
      | TargetLocalRace _ \<Rightarrow> on_store (remove_car car_id) (despawn_with_timeout env other timed_out target e sys))"

section \<open>Turns\<close>

datatype stream_input =
  ClientMessage "participant_payload option" | ClientClosed | ClientError status | StreamTick

record 'n stream_turn =
  tu_others :: "'n race_others"
  tu_clock_ms :: u64
  tu_received :: "nat \<Rightarrow> bool"
  tu_room :: bool
  tu_timed_out :: bool
  tu_input :: stream_input

record stream_state =
  sx_initialized :: bool
  sx_server_seq :: u64
  sx_self_seen_once :: bool
  sx_self_missing_ticks :: u32

definition stream_state_new :: stream_state where
  "stream_state_new =
     \<lparr>sx_initialized = False, sx_server_seq = 1, sx_self_seen_once = False, sx_self_missing_ticks = 0\<rparr>"

datatype turn_end = Continues | Ends string "status option"

type_synonym 'n turn_result = "turn_end \<times> server_event list \<times> stream_state \<times> 'n race_system"

text \<open>The stream ends: the status is offered to the channel, then the car is cleaned up.\<close>

definition finish_stream ::
  "'n worker_env \<Rightarrow> stream_context \<Rightarrow> 'n stream_turn \<Rightarrow> string \<Rightarrow> status option \<Rightarrow> server_event list \<Rightarrow> stream_state
    \<Rightarrow> 'n race_system \<Rightarrow> 'n turn_result" where
  "finish_stream env ctx turn reason error events st sys =
     (Ends reason (if tu_room turn then error else None), events, st,
      cleanup_participant_car env (tu_others turn) (tu_timed_out turn) ctx sys)"

definition send_participant_event ::
  "'n stream_turn \<Rightarrow> nat \<Rightarrow> server_payload \<Rightarrow> stream_state \<Rightarrow> 'n race_system
    \<Rightarrow> bool \<times> server_event \<times> stream_state \<times> 'n race_system" where
  "send_participant_event turn n payload st sys =
     (tu_received turn n, \<lparr>ev_server_seq = sx_server_seq st, ev_payload = payload\<rparr>,
      st\<lparr>sx_server_seq := sat_add (sx_server_seq st) 1\<rparr>,
      snd (race_read (tu_others turn) AwaitSend (\<lambda>_. ()) sys))"

definition send_or_finish ::
  "'n worker_env \<Rightarrow> stream_context \<Rightarrow> 'n stream_turn \<Rightarrow> string \<Rightarrow> server_payload \<Rightarrow> stream_state \<Rightarrow> 'n race_system
    \<Rightarrow> 'n turn_result" where
  "send_or_finish env ctx turn reason payload st sys =
     (case send_participant_event turn 0 payload st sys of
        (True, ev, st1, s) \<Rightarrow> (Continues, [ev], st1, s)
      | (False, _, st1, s) \<Rightarrow> finish_stream env ctx turn reason None [] st1 s)"

definition local_race_gameplay_closed ::
  "features \<Rightarrow> 'n stream_turn \<Rightarrow> command_target \<Rightarrow> 'n race_system \<Rightarrow> bool \<times> 'n race_system" where
  "local_race_gameplay_closed fs turn target sys =
     (case target of
        TargetLocalRace race_id \<Rightarrow>
          if local_mode fs
          then race_read (tu_others turn) AwaitGate
                 (\<lambda>s. gameplay_commands_closed (tu_clock_ms turn) race_id (rs_local_race s)) sys
          else (False, sys)
      | _ \<Rightarrow> (False, sys))"

definition on_init ::
  "'n worker_env \<Rightarrow> stream_context \<Rightarrow> stream_settings \<Rightarrow> 'n stream_turn \<Rightarrow> stream_state \<Rightarrow> 'n race_system
    \<Rightarrow> 'n turn_result" where
  "on_init env ctx settings turn st sys =
     (if sx_initialized st
      then finish_stream env ctx turn ''duplicate-init''
             (Some (Status CodeInvalidArgument ''participant init may be sent only once'')) [] st sys
      else
        case send_participant_event turn 0 (SettingsEvent settings) (st\<lparr>sx_initialized := True\<rparr>) sys of
          (False, _, st1, s1) \<Rightarrow> finish_stream env ctx turn ''initial-send-failed'' None [] st1 s1
        | (True, ev1, st1, s1) \<Rightarrow>
            let (dims, s2) = race_call (tu_others turn) AwaitDimensions
                  (client_read_car_dimensions_in env (px_target ctx) (px_engine_car_id ctx)) s1
            in (case send_participant_event turn 1 (BootstrapEvent (ok_value dims)) st1 s2 of
                  (False, _, st2, s3) \<Rightarrow> finish_stream env ctx turn ''bootstrap-send-failed'' None [ev1] st2 s3
                | (True, ev2, st2, s3) \<Rightarrow> (Continues, [ev1, ev2], st2, s3)))"

definition before_init ::
  "'n worker_env \<Rightarrow> stream_context \<Rightarrow> 'n stream_turn \<Rightarrow> string \<Rightarrow> stream_state \<Rightarrow> 'n race_system \<Rightarrow> 'n turn_result" where
  "before_init env ctx turn reason st sys =
     finish_stream env ctx turn reason
       (Some (Status CodeInvalidArgument ''first participant message must be init'')) [] st sys"

text \<open>Controls that stop the car, and what the store keeps of controls the bot sent.\<close>

definition held_controls :: controls where
  "held_controls = controls_new (Fin 0) (Fin 1) (Fin (1 / 2)) (Fin 0) (Fin 0) NoShift"

definition record_controls :: "u64 \<Rightarrow> u64 \<Rightarrow> controls \<Rightarrow> runtime_store \<Rightarrow> runtime_store" where
  "record_controls car_id client_seq c st =
     set_controls_input car_id (ctl_throttle c) (ctl_brake c) (ctl_brake_balancer c) (ctl_differential_lock c)
       (st\<lparr>st_last_client_seq := hm_insert car_id client_seq (st_last_client_seq st)\<rparr>)"

definition drive_car ::
  "'n worker_env \<Rightarrow> stream_context \<Rightarrow> 'n stream_turn \<Rightarrow> runtime_frame \<Rightarrow> u64 \<Rightarrow> controls \<Rightarrow> stream_state
    \<Rightarrow> 'n race_system \<Rightarrow> 'n turn_result" where
  "drive_car env ctx turn frame client_seq requested st sys =
     (let car_id = px_car_id ctx;
          pit = store_pit_state_snapshot car_id (fr_server_time_ms frame) (rs_store sys);
          applied = (if sn_emergency_lock_remaining_ms pit > 0 then held_controls else requested)
      in case worker_call (tu_others turn) AwaitCommand
                (client_set_controls_in env (px_target ctx) (px_engine_car_id ctx) applied) sys of
           (Inl err, s) \<Rightarrow> finish_stream env ctx turn ''set-controls-failed'' (Some err) [] st s
         | (Inr accepted, s) \<Rightarrow>
             send_or_finish env ctx turn ''ack-send-failed''
               (AckEvent (participant_ack client_seq (fr_tick frame)
                            (engine_gear_shift_to_proto (accepted_shift accepted))))
               st (on_store (record_controls car_id client_seq requested) s))"

definition on_controls ::
  "'n worker_env \<Rightarrow> race_config \<Rightarrow> stream_context \<Rightarrow> 'n stream_turn \<Rightarrow> participant_controls \<Rightarrow> stream_state
    \<Rightarrow> 'n race_system \<Rightarrow> 'n turn_result" where
  "on_controls env cfg ctx turn value st sys =
     (if \<not> sx_initialized st then before_init env ctx turn ''controls-before-init'' st sys
      else case proto_participant_controls_to_controls (rc_shift_of cfg) (PayloadControls value) of
        Inl err \<Rightarrow> finish_stream env ctx turn ''invalid-controls'' (Some err) [] st sys
      | Inr None \<Rightarrow> (Continues, [], st, sys)
      | Inr (Some (client_seq, requested)) \<Rightarrow>
          let frame = rs_latest sys;
              (closed, s) = local_race_gameplay_closed (env_features env) turn (px_target ctx) sys
          in if closed then
               send_or_finish env ctx turn ''ack-send-failed''
                 (AckEvent (participant_ack client_seq (fr_tick frame) (engine_gear_shift_to_proto NoShift)))
                 st (on_store (\<lambda>t. set_controls_input (px_car_id ctx) (Fin 0) (Fin 1) (Fin (1 / 2)) (Fin 0)
                       (t\<lparr>st_last_client_seq := hm_insert (px_car_id ctx) client_seq (st_last_client_seq t)\<rparr>)) s)
             else drive_car env ctx turn frame client_seq requested st s)"

section \<open>Commands\<close>

text \<open>A command computes its answer and the system; the answer is sent like every other.\<close>

definition send_command_ack ::
  "'n worker_env \<Rightarrow> stream_context \<Rightarrow> 'n stream_turn \<Rightarrow> stream_state
    \<Rightarrow> participant_command_ack_message \<times> 'n race_system \<Rightarrow> 'n turn_result" where
  "send_command_ack env ctx turn st answer_sys =
     send_or_finish env ctx turn ''command-ack-send-failed'' (CommandAckEvent (fst answer_sys)) st (snd answer_sys)"

definition back_to_track_answer ::
  "'n worker_env \<Rightarrow> stream_context \<Rightarrow> 'n stream_turn \<Rightarrow> u64 \<Rightarrow> 'n race_system
    \<Rightarrow> participant_command_ack_message \<times> 'n race_system" where
  "back_to_track_answer env ctx turn client_seq sys =
     (let car_id = px_car_id ctx; frame = rs_latest sys;
          answer = (\<lambda>st reason remaining.
            participant_command_ack client_seq CommandBackToTrack st (fr_tick frame) reason remaining);
          (closed, s) = local_race_gameplay_closed (env_features env) turn (px_target ctx) sys
      in if closed then (answer Rejected NotAllowed 0, s)
         else
           let remaining = back_to_track_cooldown_remaining_ms car_id (fr_server_time_ms frame) (rs_store s)
           in if remaining > 0 then (answer Rejected CooldownActive remaining, s)
              else if car_in_pit frame car_id then (answer Rejected InPit 0, s)
              else
                (case race_call (tu_others turn) AwaitCommand
                        (client_set_car_back_to_track_in env (px_target ctx) (px_engine_car_id ctx)) s of
                   (Inr _, s1) \<Rightarrow>
                     (answer Accepted ReasonUnspecified 0,
                      on_store (mark_back_to_track_applied car_id (fr_server_time_ms frame)) s1)
                 | (Inl _, s1) \<Rightarrow> (answer Rejected NotAllowed 0, s1)))"

definition emergency_pitstop_answer ::
  "'n worker_env \<Rightarrow> stream_context \<Rightarrow> 'n stream_turn \<Rightarrow> u64 \<Rightarrow> 'n race_system
    \<Rightarrow> participant_command_ack_message \<times> 'n race_system" where
  "emergency_pitstop_answer env ctx turn client_seq sys =
     (let car_id = px_car_id ctx; frame = rs_latest sys; fs = env_features env;
          answer = (\<lambda>st reason remaining.
            participant_command_ack client_seq CommandEmergencyPitstop st (fr_tick frame) reason remaining);
          (closed, s) = local_race_gameplay_closed fs turn (px_target ctx) sys
      in if closed then (answer Rejected NotAllowed 0, s)
         else if official fs \<and> car_in_pit frame car_id then (answer Rejected InPit 0, s)
         else
           let remaining = emergency_pitstop_cooldown_remaining_ms car_id (fr_server_time_ms frame) (rs_store s)
           in if official fs \<and> remaining > 0 then (answer Rejected CooldownActive remaining, s)
              else
                (case race_call (tu_others turn) AwaitCommand
                        (client_set_car_to_pitstop_in env (px_target ctx) (px_engine_car_id ctx)) s of
                   (Inr _, s1) \<Rightarrow>
                     (answer Accepted ReasonUnspecified 0,
                      if official fs
                      then on_store (mark_emergency_pitstop_requested car_id (fr_server_time_ms frame)) s1 else s1)
                 | (Inl _, s1) \<Rightarrow> (answer Rejected NotAllowed 0, s1)))"

definition set_next_tire_answer ::
  "'n worker_env \<Rightarrow> race_config \<Rightarrow> stream_context \<Rightarrow> 'n stream_turn \<Rightarrow> u64 \<Rightarrow> i32 \<Rightarrow> 'n race_system
    \<Rightarrow> participant_command_ack_message \<times> 'n race_system" where
  "set_next_tire_answer env cfg ctx turn client_seq raw sys =
     (let tick = fr_tick (rs_latest sys);
          answer = (\<lambda>st reason. participant_command_ack client_seq CommandSetNextPitTireType st tick reason 0);
          (closed, s) = local_race_gameplay_closed (env_features env) turn (px_target ctx) sys
      in if closed then (answer Rejected NotAllowed, s)
         else case runtime_tire_type_from_proto cfg raw of
           Some tire \<Rightarrow> (answer Accepted ReasonUnspecified, on_store (set_next_tire_from_bot (px_car_id ctx) tire) s)
         | None \<Rightarrow> (answer Rejected NotAllowed, s))"

definition on_command ::
  "'n worker_env \<Rightarrow> stream_context \<Rightarrow> 'n stream_turn
    \<Rightarrow> ('n race_system \<Rightarrow> participant_command_ack_message \<times> 'n race_system) \<Rightarrow> stream_state \<Rightarrow> 'n race_system
    \<Rightarrow> 'n turn_result" where
  "on_command env ctx turn answer_of st sys =
     (if \<not> sx_initialized st then before_init env ctx turn ''command-before-init'' st sys
      else send_command_ack env ctx turn st (answer_of sys))"

section \<open>Ticks\<close>

definition opponents_of :: "stream_context \<Rightarrow> runtime_frame \<Rightarrow> car_frame list" where
  "opponents_of ctx frame =
     sort_key cf_public_car_id
       (filter (\<lambda>c. cf_public_car_id c \<noteq> px_car_id ctx \<and> cf_target c = px_target ctx) (hm_values (fr_cars frame)))"

definition participant_snapshot_of :: "stream_context \<Rightarrow> runtime_frame \<Rightarrow> car_frame \<Rightarrow> participant_snapshot" where
  "participant_snapshot_of ctx frame self_car =
     \<lparr>kn_tick = fr_tick frame, kn_server_time_ms = fr_server_time_ms frame,
      kn_self = participant_self_state (px_car_id ctx) (cf_state self_car) (cf_last_client_seq self_car)
        (cf_pit_state self_car),
      kn_opponents = map (\<lambda>c. participant_opponent_state (cf_public_car_id c) (cf_state c)) (opponents_of ctx frame)\<rparr>"

definition on_tick ::
  "'n worker_env \<Rightarrow> stream_context \<Rightarrow> u32 \<Rightarrow> 'n stream_turn \<Rightarrow> stream_state \<Rightarrow> 'n race_system \<Rightarrow> 'n turn_result" where
  "on_tick env ctx effective_hz turn st sys =
     (if \<not> sx_initialized st then (Continues, [], st, sys)
      else
        let frame = rs_latest sys in
        case hm_get (fr_cars frame) (px_car_id ctx) of
          None \<Rightarrow>
            let missing = sat_add (sx_self_missing_ticks st) 1; st1 = st\<lparr>sx_self_missing_ticks := missing\<rparr> in
            if \<not> sx_self_seen_once st \<and> missing \<le> sat_mul effective_hz 3 then (Continues, [], st1, sys)
            else finish_stream env ctx turn ''self-missing''
                   (Some (Status CodeNotFound ''participant car is no longer active'')) [] st1 sys
        | Some self_car \<Rightarrow>
            let st1 = st\<lparr>sx_self_seen_once := True, sx_self_missing_ticks := 0\<rparr> in
            if cf_target self_car \<noteq> px_target ctx
            then finish_stream env ctx turn ''self-target-changed''
                   (Some (Status CodeFailedPrecondition ''participant car target changed'')) [] st1 sys
            else if cf_engine_car_id self_car \<noteq> px_engine_car_id ctx
            then finish_stream env ctx turn ''self-engine-id-changed''
                   (Some (Status CodeFailedPrecondition ''participant car engine mapping changed'')) [] st1 sys
            else send_or_finish env ctx turn ''snapshot-send-failed''
                   (SnapshotEvent (participant_snapshot_of ctx frame self_car)) st1 sys)"

section \<open>The loop\<close>

definition on_message ::
  "'n worker_env \<Rightarrow> race_config \<Rightarrow> stream_context \<Rightarrow> stream_settings \<Rightarrow> 'n stream_turn \<Rightarrow> participant_payload
    \<Rightarrow> stream_state \<Rightarrow> 'n race_system \<Rightarrow> 'n turn_result" where
  "on_message env cfg ctx settings turn payload st sys =
     (case payload of
        PayloadInit \<Rightarrow> on_init env ctx settings turn st sys
      | PayloadControls value \<Rightarrow> on_controls env cfg ctx turn value st sys
      | PayloadBackToTrack client_seq \<Rightarrow>
          on_command env ctx turn (back_to_track_answer env ctx turn client_seq) st sys
      | PayloadEmergencyPitstop client_seq \<Rightarrow>
          on_command env ctx turn (emergency_pitstop_answer env ctx turn client_seq) st sys
      | PayloadSetNextPitTireType client_seq raw \<Rightarrow>
          on_command env ctx turn (set_next_tire_answer env cfg ctx turn client_seq raw) st sys)"

definition stream_turn_step ::
  "'n worker_env \<Rightarrow> race_config \<Rightarrow> stream_context \<Rightarrow> stream_settings \<Rightarrow> 'n stream_turn \<Rightarrow> stream_state
    \<Rightarrow> 'n race_system \<Rightarrow> 'n turn_result" where
  "stream_turn_step env cfg ctx settings turn st sys0 =
     (let sys = snd (race_read (tu_others turn) AwaitTurn (\<lambda>_. ()) sys0) in
      case tu_input turn of
        ClientClosed \<Rightarrow> finish_stream env ctx turn ''disconnect'' None [] st sys
      | ClientError err \<Rightarrow> finish_stream env ctx turn ''client-stream-error'' (Some err) [] st sys
      | ClientMessage None \<Rightarrow>
          finish_stream env ctx turn ''invalid-message-empty-payload''
            (Some (Status CodeInvalidArgument ''participant message payload is required'')) [] st sys
      | ClientMessage (Some payload) \<Rightarrow> on_message env cfg ctx settings turn payload st sys
      | StreamTick \<Rightarrow> on_tick env ctx (se_effective_hz settings) turn st sys)"

fun participant_loop ::
  "'n worker_env \<Rightarrow> race_config \<Rightarrow> stream_context \<Rightarrow> stream_settings \<Rightarrow> 'n stream_turn list \<Rightarrow> stream_state
    \<Rightarrow> 'n race_system \<Rightarrow> 'n turn_result" where
  "participant_loop env cfg ctx settings [] st sys = (Continues, [], st, sys)"
| "participant_loop env cfg ctx settings (turn # turns) st sys =
     (case stream_turn_step env cfg ctx settings turn st sys of
        (Continues, events, st1, s1) \<Rightarrow>
          (let (e, later, st2, s2) = participant_loop env cfg ctx settings turns st1 s1 in (e, events @ later, st2, s2))
      | (Ends reason error, events, st1, s1) \<Rightarrow> (Ends reason error, events, st1, s1))"

definition stream_settings_of :: "race_config \<Rightarrow> stream_context \<Rightarrow> runtime_frame \<Rightarrow> stream_settings" where
  "stream_settings_of cfg ctx frame =
     (let (requested, effective, reason, _) = resolve_participant_rate (rc_simulation_hz cfg);
          (view, downgrade) = resolve_view cfg ViewTeam (px_scopes ctx)
      in participant_settings requested effective reason view downgrade
           (participant_map_id frame (px_target ctx)))"

definition run_participant_stream ::
  "'n worker_env \<Rightarrow> race_config \<Rightarrow> stream_context \<Rightarrow> 'n stream_turn list \<Rightarrow> 'n race_system \<Rightarrow> 'n turn_result" where
  "run_participant_stream env cfg ctx turns sys =
     participant_loop env cfg ctx (stream_settings_of cfg ctx (rs_latest sys)) turns stream_state_new sys"

end
