(* ===== verification/Race_Service_Contract.thy ===== *)
theory Race_Service_Contract
  imports Race_Service Runtime_Store_Contract
begin

text \<open>
  What the race service promises: the cooldown of a team's commands, the registration of a
  joined car, the view a spectator is granted and the cars a snapshot shows. The two
  commands with a cooldown satisfy one interface, the locale \<open>cooldown_command\<close>.
\<close>

section \<open>Calls\<close>

lemma race_call_alone [simp]: "race_call race_alone a f sys = f sys"
  by (simp add: race_call_def race_alone_def case_prod_beta)

lemma race_read_alone [simp]: "race_read race_alone a f sys = (f sys, sys)"
  by (simp add: race_read_def)

lemma worker_call_alone: "worker_call race_alone a f sys = (map_sum map_worker_err (\<lambda>v. v) (fst (f sys)), snd (f sys))"
  by (simp add: worker_call_def case_prod_beta)

lemma client_runtime_state_same [simp]: "snd (client_runtime_state env sys) = sys"
  by (simp add: client_results on_worker_def)

lemma worker_call_ok:
  "worker_call other a f sys = (Inr v, s) \<Longrightarrow> \<exists>s0 s1. f s0 = (Inr v, s1) \<and> s = other a True s1 \<and> s0 = other a False sys"
proof -
  assume "worker_call other a f sys = (Inr v, s)"
  then have "map_sum map_worker_err (\<lambda>v. v) (fst (f (other a False sys))) = Inr v"
    "s = other a True (snd (f (other a False sys)))"
    by (auto simp: worker_call_def race_call_def case_prod_beta)
  then show ?thesis by (cases "fst (f (other a False sys))") (auto simp: prod_eq_iff)
qed

lemma on_store_sel [simp]:
  "rs_store (on_store f sys) = f (rs_store sys)" "rs_latest (on_store f sys) = rs_latest sys"
  "sys_worker (on_store f sys) = sys_worker sys"
  by (simp_all add: on_store_def)

section \<open>Commands with a cooldown\<close>

datatype cooldown_command = BackToTrackCommand | EmergencyPitstopCommand

fun command_name :: "cooldown_command \<Rightarrow> string" where
  "command_name BackToTrackCommand = ''BackToTrack''"
| "command_name EmergencyPitstopCommand = ''EmergencyPitstop''"

fun run_command ::
  "cooldown_command \<Rightarrow> 'n worker_env \<Rightarrow> 'n race_others \<Rightarrow> race_tokens \<Rightarrow> header_value \<Rightarrow> 'n race_system
    \<Rightarrow> (status, cooldown_response) result \<times> 'n race_system" where
  "run_command BackToTrackCommand = back_to_track"
| "run_command EmergencyPitstopCommand = emergency_pitstop"

fun cooldown_remaining :: "cooldown_command \<Rightarrow> u64 \<Rightarrow> u64 \<Rightarrow> runtime_store \<Rightarrow> u32" where
  "cooldown_remaining BackToTrackCommand = back_to_track_cooldown_remaining_ms"
| "cooldown_remaining EmergencyPitstopCommand = emergency_pitstop_cooldown_remaining_ms"

fun mark_command :: "cooldown_command \<Rightarrow> u64 \<Rightarrow> u64 \<Rightarrow> runtime_store \<Rightarrow> runtime_store" where
  "mark_command BackToTrackCommand = mark_back_to_track_applied"
| "mark_command EmergencyPitstopCommand = mark_emergency_pitstop_requested"

locale cooldown_interface =
  fixes env :: "'n worker_env" and name :: string
    and run :: "'n race_others \<Rightarrow> race_tokens \<Rightarrow> header_value \<Rightarrow> 'n race_system
      \<Rightarrow> (status, cooldown_response) result \<times> 'n race_system"
    and remaining :: "u64 \<Rightarrow> u64 \<Rightarrow> runtime_store \<Rightarrow> u32"
    and mark :: "u64 \<Rightarrow> u64 \<Rightarrow> runtime_store \<Rightarrow> runtime_store"
  assumes accepted: "run other tokens h sys = (Inr r, sys') \<Longrightarrow> cr_status r = Accepted \<Longrightarrow>
      \<exists>car e target s s1. command_car name env other tokens h sys = (Inr (car, e, target), s) \<and>
        sys' = on_store (mark car (fr_server_time_ms (rs_latest s))) s1"
    and cooling: "command_car name env other tokens h sys = (Inr (car, e, target), s) \<Longrightarrow>
      remaining car (fr_server_time_ms (rs_latest s)) (rs_store s) > 0 \<Longrightarrow>
      \<exists>r. run other tokens h sys = (Inr r, s) \<and> cr_status r = Rejected \<and>
        cr_rejected_reason r \<in> {CooldownActive, InPit}"
    and lasting: "store_run fs ls (mark car t st) st' \<Longrightarrow> Removed car \<notin> set ls \<Longrightarrow> t \<le> t' \<Longrightarrow>
      unat (sat_add t COMMAND_COOLDOWN_MS) - unat t' \<le> unat (remaining car t' st')"
begin

lemma repeat_rejected:
  assumes "run other tokens h sys = (Inr r, sys')" and "cr_status r = Accepted"
    and "command_car name env other tokens h sys = (Inr (car, e, target), s)"
    and "store_run fs ls (rs_store sys') (rs_store s2)" and "Removed car \<notin> set ls"
    and "command_car name env other2 tokens2 h2 sys2 = (Inr (car, e2, target2), s2)"
    and "fr_server_time_ms (rs_latest s) \<le> fr_server_time_ms (rs_latest s2)"
    and "fr_server_time_ms (rs_latest s2) < sat_add (fr_server_time_ms (rs_latest s)) COMMAND_COOLDOWN_MS"
  shows "\<exists>r2. run other2 tokens2 h2 sys2 = (Inr r2, s2) \<and> cr_status r2 = Rejected \<and>
      cr_rejected_reason r2 \<in> {CooldownActive, InPit}"
proof -
  let ?t = "fr_server_time_ms (rs_latest s)" and ?t2 = "fr_server_time_ms (rs_latest s2)"
  obtain s1 where "sys' = on_store (mark car ?t) s1" using accepted [OF assms(1,2)] assms(3) by auto
  then have "store_run fs ls (mark car ?t (rs_store s1)) (rs_store s2)" using assms(4) by simp
  from lasting [OF this assms(5,7)] assms(8)
  have "0 < unat (remaining car ?t2 (rs_store s2))" by (simp add: word_less_nat_alt)
  then have "remaining car ?t2 (rs_store s2) > 0" by (simp add: word_less_nat_alt)
  then show ?thesis using cooling [OF assms(6)] by blast
qed

end

lemma back_to_track_lasting:
  assumes "store_run fs ls (mark_back_to_track_applied c t st) st'" "Removed c \<notin> set ls" "t \<le> t'"
  shows "unat (sat_add t COMMAND_COOLDOWN_MS) - unat t' \<le> unat (back_to_track_cooldown_remaining_ms c t' st')"
proof -
  have "sat_add t 30000 \<le> ps_back_to_track_cooldown_until_ms (pit_of c (mark_back_to_track_applied c t st))"
    by (simp add: op_states back_to_track_applied_def COMMAND_COOLDOWN_MS_def)
  also have "\<dots> \<le> ps_back_to_track_cooldown_until_ms (pit_of c st')"
    using store_run_timers [OF assms(1, 2)] by (simp add: timers_from_def)
  finally show ?thesis
    using remaining_of_deadline assms(3) by (simp add: back_to_track_remaining COMMAND_COOLDOWN_MS_def)
qed

lemma emergency_lasting:
  assumes "store_run fs ls (mark_emergency_pitstop_requested c t st) st'" "Removed c \<notin> set ls" "t \<le> t'"
  shows "unat (sat_add t COMMAND_COOLDOWN_MS) - unat t' \<le> unat (emergency_pitstop_cooldown_remaining_ms c t' st')"
proof -
  have "sat_add t 30000 \<le> ps_emergency_pitstop_cooldown_until_ms (pit_of c (mark_emergency_pitstop_requested c t st))"
    by (simp add: op_states emergency_pitstop_requested_def COMMAND_COOLDOWN_MS_def)
  also have "\<dots> \<le> ps_emergency_pitstop_cooldown_until_ms (pit_of c st')"
    using store_run_timers [OF assms(1, 2)] by (simp add: timers_from_def)
  finally show ?thesis
    using remaining_of_deadline assms(3) by (simp add: emergency_remaining COMMAND_COOLDOWN_MS_def)
qed

interpretation back_to_track_cmd: cooldown_interface env "''BackToTrack''" "back_to_track env"
    back_to_track_cooldown_remaining_ms mark_back_to_track_applied for env :: "'n worker_env"
proof
  fix other :: "'n race_others" and tokens h sys r sys'
  assume "back_to_track env other tokens h sys = (Inr r, sys')" "cr_status r = Accepted"
  then show "\<exists>car e target s s1. command_car ''BackToTrack'' env other tokens h sys = (Inr (car, e, target), s) \<and>
        sys' = on_store (mark_back_to_track_applied car (fr_server_time_ms (rs_latest s))) s1"
    by (auto simp: back_to_track_def reject_def Let_def split: prod.splits sum.splits if_splits)
next
  fix other :: "'n race_others" and tokens h sys car e target s
  assume "command_car ''BackToTrack'' env other tokens h sys = (Inr (car, e, target), s)"
    "back_to_track_cooldown_remaining_ms car (fr_server_time_ms (rs_latest s)) (rs_store s) > 0"
  then show "\<exists>r. back_to_track env other tokens h sys = (Inr r, s) \<and> cr_status r = Rejected \<and>
        cr_rejected_reason r \<in> {CooldownActive, InPit}"
    by (simp add: back_to_track_def reject_def Let_def)
qed (rule back_to_track_lasting)

interpretation emergency_cmd: cooldown_interface env "''EmergencyPitstop''" "emergency_pitstop env"
    emergency_pitstop_cooldown_remaining_ms mark_emergency_pitstop_requested for env :: "'n worker_env"
proof
  fix other :: "'n race_others" and tokens h sys r sys'
  assume "emergency_pitstop env other tokens h sys = (Inr r, sys')" "cr_status r = Accepted"
  then show "\<exists>car e target s s1. command_car ''EmergencyPitstop'' env other tokens h sys = (Inr (car, e, target), s) \<and>
        sys' = on_store (mark_emergency_pitstop_requested car (fr_server_time_ms (rs_latest s))) s1"
    by (auto simp: emergency_pitstop_def reject_def Let_def split: prod.splits sum.splits if_splits)
next
  fix other :: "'n race_others" and tokens h sys car e target s
  assume "command_car ''EmergencyPitstop'' env other tokens h sys = (Inr (car, e, target), s)"
    "emergency_pitstop_cooldown_remaining_ms car (fr_server_time_ms (rs_latest s)) (rs_store s) > 0"
  then show "\<exists>r. emergency_pitstop env other tokens h sys = (Inr r, s) \<and> cr_status r = Rejected \<and>
        cr_rejected_reason r \<in> {CooldownActive, InPit}"
    by (simp add: emergency_pitstop_def reject_def Let_def)
qed (rule emergency_lasting)

section \<open>Joining\<close>

text \<open>The steps of a successful join, whatever runs at its awaits.\<close>

lemma join_identity_subject:
  assumes "join_identity other tokens auth car_id sys = (Inr i, s)"
  shows "\<exists>token sub. auth = Some token \<and> subject_from_token (tokens AwaitSubject) token = Inr sub \<and>
    id_subject i = Some sub \<and> team_id_from_token (tokens AwaitTeam) token = Inr (id_team_id i) \<and>
    instance_uuid_from_token (tokens AwaitInstance) token = Inr (id_instance_uuid i) \<and>
    (\<forall>uuid. id_instance_uuid i = Some uuid \<longrightarrow>
       hm_get (st_car_owners (rs_store s)) car_id = Some uuid \<and> hm_get (st_instance_cars (rs_store s)) uuid = Some car_id)"
  using assms
  by (auto simp: join_identity_def race_read_def race_call_def unauthenticated_def
      split: option.splits sum.splits prod.splits)

text \<open>The states in which a join reads the runtime and in which the worker spawns the car.\<close>

definition join_reads :: "'n race_others \<Rightarrow> 'n race_system \<Rightarrow> 'n race_system" where
  "join_reads other sys = other AwaitRuntime False sys"

definition join_spawns :: "'n race_others \<Rightarrow> 'n race_system \<Rightarrow> 'n race_system" where
  "join_spawns other sys = other AwaitSpawn False (other AwaitRuntime True (join_reads other sys))"

lemma join_reads_runtime:
  assumes "worker_call other AwaitRuntime (client_runtime_state env) sys = (Inr rt, s)"
  shows "w_running (sys_worker (join_reads other sys))" "rt = w_runtime (sys_worker (join_reads other sys))"
    "s = other AwaitRuntime True (join_reads other sys)"
  using assms
  by (auto simp: worker_call_def race_call_def client_results on_worker_def join_reads_def Let_def split: if_splits)

lemma spawn_call_result:
  "worker_call other a f sys = (Inr e, s) \<Longrightarrow> fst (f (other a False sys)) = Inr e"
  by (cases "fst (f (other a False sys))") (simp_all add: worker_call_def race_call_def case_prod_beta Let_def)

lemma join_cases:
  fixes env :: "'n worker_env"
  assumes "join_sandbox env other tokens choose_slot requested auth sys = (Inr resp, sys')"
  obtains active e i s4 where
    "w_running (sys_worker (join_reads other sys))"
    "select_quick_join_sandbox (w_runtime (sys_worker (join_reads other sys))) requested = Inr active"
    "fst (client_spawn_sandbox_car env (sb_sandbox_id active) (join_spawns other sys)) = Inr e"
    "qj_map_id resp = sb_map_id active"
    "sys' = on_store (register_sandbox_car (sb_sandbox_id active) (qj_car_id resp) e i) s4"
    "standalone (env_features env) \<and> i = identity_default \<or>
     (\<exists>s3. join_identity other tokens auth (qj_car_id resp) s3 = (Inr i, s4))"
proof -
  obtain r0 s where r0: "worker_call other AwaitRuntime (client_runtime_state env) sys = (r0, s)" by fastforce
  with assms obtain rt where r: "r0 = Inr rt" by (cases r0) (simp_all add: join_sandbox_def)
  note j = assms [unfolded join_sandbox_def r0 r, simplified]
  obtain active where a: "select_quick_join_sandbox rt requested = Inr active"
    using j by (cases "select_quick_join_sandbox rt requested") simp_all
  obtain r1 s1 where r1: "worker_call other AwaitSpawn (client_spawn_sandbox_car env (sb_sandbox_id active)) s = (r1, s1)"
    by fastforce
  obtain e where e: "r1 = Inr e" using j by (cases r1) (simp_all add: a r1 Let_def)
  obtain r2 s2 where r2: "place_spawned_car env other choose_slot (sb_sandbox_id active) e s1 = (r2, s2)" by fastforce
  obtain u where p: "r2 = Inr u" using j by (cases r2) (simp_all add: a r1 e r2 Let_def)
  note reads = join_reads_runtime [OF r0 [unfolded r]]
  have sp: "fst (client_spawn_sandbox_car env (sb_sandbox_id active) (join_spawns other sys)) = Inr e"
    using spawn_call_result [OF r1 [unfolded e]] by (simp add: join_spawns_def reads(3))
  obtain car st where c: "allocate_public_car_id (rs_store s2) = (car, st)" by fastforce
  obtain r3 s4 where r3: "(if standalone (env_features env) then (Inr identity_default, s2\<lparr>rs_store := st\<rparr>)
      else join_identity other tokens auth car (s2\<lparr>rs_store := st\<rparr>)) = (r3, s4)" by fastforce
  obtain i where i: "r3 = Inr i" using j by (cases r3) (simp_all add: a r1 e r2 p c r3 Let_def)
  have res: "resp = \<lparr>qj_car_id = car, qj_map_id = sb_map_id active\<rparr>"
    "sys' = on_store (register_sandbox_car (sb_sandbox_id active) car e i) s4"
    using j by (simp_all add: a r1 e r2 p c r3 i Let_def)
  have "standalone (env_features env) \<and> i = identity_default \<or>
     (\<exists>s3. join_identity other tokens auth (qj_car_id resp) s3 = (Inr i, s4))"
    using r3 by (auto simp: i res split: if_splits)
  then show ?thesis using that [OF reads(1) a [unfolded reads(2)] sp] res by simp
qed

lemma register_sandbox_car_sel:
  assumes "st' = register_sandbox_car sandbox_id car e i st"
  shows "hm_get (st_car_targets st') c = (if c = car then Some (TargetSandbox sandbox_id) else hm_get (st_car_targets st) c)"
    "hm_get (st_car_engine_ids st') c = (if c = car then Some e else hm_get (st_car_engine_ids st) c)"
    "hm_contains (st_known_cars st') c \<longleftrightarrow> c = car \<or> hm_contains (st_known_cars st) c"
    "hm_get (st_last_client_seq st') c = (if c = car then Some 0 else hm_get (st_last_client_seq st) c)"
    "st_car_owners st' = st_car_owners st" "st_instance_cars st' = st_instance_cars st"
    "\<exists>n. car_identity c st' = (if c = car then Some (i\<lparr>id_local_bot_index := Some n\<rparr>) else car_identity c st)"
  by (auto simp: assms register_sandbox_car_def allocate_local_bot_index_def set_car_identity_def car_identity_def
      hm_contains_def Let_def)

lemma selected_sandbox:
  assumes "select_quick_join_sandbox rt requested = Inr active"
  shows "active \<in> set (rt_active_sandboxes rt)"
    "if trim requested = [] then rt_active_sandboxes rt = [active] else sb_sandbox_id active = trim requested"
  using assms
  by (auto simp: select_quick_join_sandbox_def failed_precondition_def Let_def find_Some_iff in_set_conv_nth ok_or_def
      split: if_splits list.splits option.splits)

section \<open>Views\<close>

lemma resolve_view_scopes:
  assumes "rc_view_code cfg ViewPublic < rc_view_code cfg ViewTeam" "rc_view_code cfg ViewTeam < rc_view_code cfg ViewAll"
    and "requested \<noteq> ViewUnspecified" and "resolve_view cfg requested scopes = (v, d)"
  shows "v \<noteq> ViewUnspecified \<and> (v = ViewAll \<longrightarrow> ''race.read.all'' \<in> set scopes) \<and>
    (v = ViewTeam \<longrightarrow> ''race.read.all'' \<in> set scopes \<or> ''race.read.team'' \<in> set scopes) \<and>
    (d = DowngradeNone \<longleftrightarrow> v = requested)"
  using assms by (cases requested) (auto simp: resolve_view_def Let_def list_ex_iff split: if_splits)

lemma stream_rate_bounds:
  assumes "resolve_stream_rate requested simulation_hz = Some (r, effective, reason, period)"
  shows "1 \<le> effective \<and> effective \<le> 120 \<and> effective \<le> simulation_hz \<and> (reason = ClampNone \<longleftrightarrow> effective = r)"
proof -
  let ?m = "min 120 simulation_hz"
  have e: "effective = max 1 (min r ?m)" and r: "reason = ClampNone \<longleftrightarrow> effective = r" and "\<not> ?m < 1"
    using assms by (auto simp: resolve_stream_rate_def Let_def MIN_STREAM_HZ_def MAX_STREAM_HZ_def split: if_splits)
  then have "1 \<le> ?m" by (simp only: not_less)
  then have "effective \<le> ?m" unfolding e by (simp only: max.bounded_iff min.cobounded2 simp_thms)
  moreover have "1 \<le> effective" unfolding e by (simp only: max.cobounded1)
  ultimately show ?thesis using r by (simp only: min.bounded_iff simp_thms)
qed

lemma claims_of_header:
  assumes "spectator_claims fs other tokens header sys = (Inr (scopes, owner), s)" and "x \<in> set scopes"
  shows "\<exists>token. header = HeaderText token \<and> scopes_from_token (tokens AwaitScopes) token = Inr scopes"
proof (cases header)
  case (HeaderText token)
  then show ?thesis using assms
    by (auto simp: spectator_claims_def race_read_def race_call_def unauthenticated_def
        split: if_splits sum.splits prod.splits)
qed (use assms in \<open>auto simp: spectator_claims_def unauthenticated_def split: if_splits\<close>)

lemma normalized_view: "normalize_requested_view cfg raw \<noteq> ViewUnspecified"
  by (auto simp: normalize_requested_view_def split: option.split spectator_view.split)

text \<open>
  The resolved view is announced in the settings and used nowhere else: what the stream sends
  does not depend on it.
\<close>

lemma view_does_not_filter:
  "snd (fst (run_frontend_spectator_stream env cfg other req view d map_id visible owner received ticks sys)) =
   snd (fst (run_frontend_spectator_stream env cfg other req view' d' map_id visible owner received ticks sys))"
  by (simp add: run_frontend_spectator_stream_def case_prod_beta Let_def split: option.split)

text \<open>
  The cleanup after a spectator removes less than \<open>remove_car\<close> of the store: the identity, the
  pit state and the controls of the car stay.
\<close>

lemma remove_car_state_leaves:
  "st_car_identity (remove_car_state car st) = st_car_identity st"
  "st_car_pit_state (remove_car_state car st) = st_car_pit_state st"
  "st_car_controls_input (remove_car_state car st) = st_car_controls_input st"
  "remove_car car st = (remove_car_state car st)
     \<lparr>st_car_identity := hm_remove car (st_car_identity st), st_car_pit_state := hm_remove car (st_car_pit_state st),
      st_car_controls_input := hm_remove car (st_car_controls_input st)\<rparr>"
  by (simp_all add: remove_car_state_def remove_instance_mapping_for_car_def remove_car_def Let_def split: option.split)

section \<open>Cars of a frame\<close>

text \<open>Every frame of the hub lists each car once, under its own identifier.\<close>

definition keyed :: "(u64, car_frame) hmap \<Rightarrow> bool" where
  "keyed cars \<longleftrightarrow> hm_wf cars \<and> (\<forall>(k, c) \<in> set cars. cf_public_car_id c = k)"

lemma car_keyed_insert:
  assumes "keyed cars" and "cf_public_car_id c = k"
  shows "keyed (hm_insert k c cars)"
proof -
  have "set (hm_insert k c cars) \<subseteq> insert (k, c) (set cars)"
    unfolding hm_insert_def by (induction cars) auto
  then show ?thesis using assms by (auto simp: keyed_def)
qed

lemma hub_reply_frame [simp]: "col_frame (snd (hub_call other a f c)) = col_frame c"
  by (simp add: hub_call_def case_prod_beta)

lemma hub_call_frameD: "hub_call other a f c = (r, c') \<Longrightarrow> col_frame c' = col_frame c"
  using hub_reply_frame [of other a f c] by simp

lemma put_store_frame [simp]: "col_frame (put_store st c) = col_frame c"
  by (simp add: put_store_def)

lemma reap_frame [simp]: "col_frame (reap fs car c) = col_frame c"
  by (simp add: reap_def)

lemma read_metrics_frame [simp]: "col_frame (snd (read_metrics env other car target e c)) = col_frame c"
  by (auto simp: read_metrics_def dest: hub_call_frameD split: prod.split sum.split)

lemma apply_tyre_frame [simp]: "col_frame (snd (apply_tyre env other car target e v c)) = col_frame c"
proof -
  have "col_frame (snd (case hub_call other (AwaitTyre car) (client_set_car_tyre_type_in env target e tt) c1 of
      (Inr _, c2) \<Rightarrow> (True, put_store (mark_pit_fix_tire_applied car d (col_store c2)) c2)
    | (Inl err, c2) \<Rightarrow> if err = EngineError NotFound then (False, reap (env_features env) car c2) else (True, c2))) =
      col_frame c1" for tt d c1
    by (auto dest: hub_call_frameD split: prod.split sum.split)
  then show ?thesis by (auto simp: apply_tyre_def case_prod_beta Let_def split: option.split)
qed

lemma apply_tyres_frame [simp]: "col_frame (snd (apply_tyres env other car target e v c)) = col_frame c"
  by (simp add: apply_tyres_def case_prod_beta)

lemma finish_car_keyed: "keyed (fr_cars (col_frame c)) \<Longrightarrow>
    keyed (fr_cars (col_frame (finish_car env other car target e v metrics best c)))"
  by (simp add: finish_car_def case_prod_beta Let_def car_keyed_insert)

lemma collect_car_keyed:
  assumes "keyed (fr_cars (col_frame c))"
  shows "keyed (fr_cars (col_frame (collect_car env other car c)))"
proof -
  have "keyed (fr_cars (col_frame (case hub_call other (AwaitState car) (client_read_car_state_in env target e) c of
      (Inl err, c1) \<Rightarrow> if err = EngineError NotFound \<or> is_sandbox_runtime_not_active_invalid_argument err
        then reap (env_features env) car c1 else c1
    | (Inr v, c1) \<Rightarrow> (case read_metrics env other car target e c1 of
         (None, c2) \<Rightarrow> c2
       | (Some metrics, c2) \<Rightarrow> (let (best, cache) = best_lap (env_features env) car metrics (col_cache c2);
             (there, c3) = apply_tyres env other car target e v (c2\<lparr>col_cache := cache\<rparr>)
           in if there then finish_car env other car target e v metrics best c3 else c3)))))" for target e
  proof -
    obtain r c1 where h: "hub_call other (AwaitState car) (client_read_car_state_in env target e) c = (r, c1)" by fastforce
    have c1: "col_frame c1 = col_frame c" using hub_call_frameD [OF h] .
    obtain m c2 where m: "read_metrics env other car target e c1 = (m, c2)" by fastforce
    have c2: "col_frame c2 = col_frame c" using read_metrics_frame [of env other car target e c1] m c1 by simp
    show ?thesis
      using assms c1 c2
      by (cases r; cases m) (simp_all add: h m case_prod_beta Let_def finish_car_keyed)
  qed
  then show ?thesis using assms by (auto simp: collect_car_def split: option.split)
qed

lemma collect_cars_keyed: "keyed (fr_cars (col_frame c)) \<Longrightarrow> keyed (fr_cars (col_frame (collect_cars env other c)))"
proof -
  have "keyed (fr_cars (col_frame (fold (collect_car env other) cars c)))" if "keyed (fr_cars (col_frame c))" for cars c
    using that by (induction cars arbitrary: c) (simp_all add: collect_car_keyed)
  then show "keyed (fr_cars (col_frame c)) \<Longrightarrow> ?thesis" by (simp add: collect_cars_def)
qed

lemma collect_official_cars [simp]: "fr_cars (col_frame (collect_official env other rt c)) = fr_cars (col_frame c)"
  by (simp add: collect_official_def case_prod_beta Let_def)

lemma collect_local_race_cars [simp]: "fr_cars (col_frame (collect_local_race env other rt c)) = fr_cars (col_frame c)"
  by (simp add: collect_local_race_def case_prod_beta Let_def split: option.split sum.split)

lemma collect_sandbox_cars [simp]: "fr_cars (col_frame (collect_sandbox env other sm c)) = fr_cars (col_frame c)"
  by (simp add: collect_sandbox_def case_prod_beta Let_def split: option.split sum.split)

lemma collect_sandboxes_cars [simp]: "fr_cars (col_frame (collect_sandboxes env other rt c)) = fr_cars (col_frame c)"
proof -
  have "fr_cars (col_frame (fold (collect_sandbox env other) sms c)) = fr_cars (col_frame c)" for sms c
    by (induction sms arbitrary: c) simp_all
  then show ?thesis by (simp add: collect_sandboxes_def Let_def)
qed

lemma collect_worlds_cars: "fr_cars (col_frame (collect_worlds env other c)) = fr_cars (col_frame c)"
  by (auto simp: collect_worlds_def dest: hub_call_frameD split: prod.split sum.split)

lemma collect_frame_keyed: "keyed (fr_cars (col_frame (collect_frame env other tick now_ms sys cache)))"
  unfolding collect_frame_def
  by (rule collect_cars_keyed) (simp add: collect_worlds_cars empty_frame_def keyed_def hm_wf_def hm_keys_def)

text \<open>The frame a hub that was started and made any number of turns has published.\<close>

inductive published :: "'n worker_env \<Rightarrow> 'n frame_hub \<Rightarrow> bool" for env where
  started: "published env (fst (spawn_frame_hub env other now_ms sys))"
| turned: "published env h \<Longrightarrow> published env (fst (hub_tick env other now_ms (h, sys)))"

lemma published_keyed: "published env h \<Longrightarrow> keyed (fr_cars (fh_latest h))"
  by (induction rule: published.induct)
     (simp_all add: spawn_frame_hub_def hub_tick_def case_prod_beta Let_def collect_frame_keyed)

lemma visible_cars_ids:
  assumes "keyed (fr_cars frame)"
  shows "sorted (map cf_public_car_id (visible_cars (Some target) frame))"
    "distinct (map cf_public_car_id (visible_cars (Some target) frame))"
    "set (visible_cars (Some target) frame) = {c. hm_get (fr_cars frame) (cf_public_car_id c) = Some c \<and> cf_target c = target}"
proof -
  let ?cars = "fr_cars frame" and ?f = "filter (\<lambda>c. cf_target c = target) (hm_values (fr_cars frame))"
  have ids: "map cf_public_car_id (hm_values ?cars) = hm_keys ?cars"
    using assms by (auto simp: keyed_def hm_values_def hm_keys_def)
  show "sorted (map cf_public_car_id (visible_cars (Some target) frame))"
    by (simp add: visible_cars_def)
  have "distinct (map cf_public_car_id (hm_values ?cars))" using assms ids by (simp add: keyed_def hm_wf_def)
  then have "distinct (map cf_public_car_id ?f)" by (rule distinct_map_filter)
  then show "distinct (map cf_public_car_id (visible_cars (Some target) frame))"
    by (simp add: visible_cars_def distinct_map)
  have "c \<in> set (hm_values ?cars) \<longleftrightarrow> hm_get ?cars (cf_public_car_id c) = Some c" for c
  proof
    assume "c \<in> set (hm_values ?cars)"
    then obtain k where k: "(k, c) \<in> set ?cars" by (auto simp: hm_values_def)
    then have "k = cf_public_car_id c" using assms by (auto simp: keyed_def)
    then show "hm_get ?cars (cf_public_car_id c) = Some c"
      using k assms by (simp add: keyed_def hm_wf_def hm_keys_def hm_get_def)
  qed (auto simp: hm_get_def hm_values_def dest: map_of_SomeD intro: rev_image_eqI)
  then show "set (visible_cars (Some target) frame) = {c. hm_get (fr_cars frame) (cf_public_car_id c) = Some c \<and> cf_target c = target}"
    by (auto simp: visible_cars_def)
qed

lemma leader_laps_max:
  assumes "\<And>sid. target \<noteq> TargetSandbox sid"
  shows "leader_laps (Some target) cars =
    Some (if cars = [] then 0 else Max ((\<lambda>c. case cf_race_metrics c of None \<Rightarrow> 0 | Some m \<Rightarrow> completed_laps m) ` set cars))"
proof -
  let ?laps = "map (\<lambda>c. case cf_race_metrics c of None \<Rightarrow> 0 | Some m \<Rightarrow> completed_laps m) cars"
  have "(case ?laps of [] \<Rightarrow> 0 | l # ls \<Rightarrow> fold max ls l) = (if cars = [] then 0 else Max (set ?laps))"
    by (cases cars) (simp_all add: Max.set_eq_fold [symmetric] Max_insert2 del: Max.set_eq_fold)
  then show ?thesis using assms by (cases target) (auto simp: leader_laps_def Let_def)
qed

section \<open>A small service\<close>

definition team_env :: "u64 list worker_env" where
  "team_env =
     \<lparr>env_features = \<lparr>official = True, local_mode = False, standalone = False\<rparr>, env_api = sample_api,
      env_tracks_dir = ''tracks'', env_local_tracks_cache_dir = ''cache'', env_bolids_dir = ''bolids'',
      env_debug_drawer_enabled = False, env_dt = Fin (1 / 64),
      env_is_dir = (\<lambda>_. Inr True), env_read_dir = (\<lambda>_. Inr []), env_is_file = (\<lambda>_. True)\<rparr>"

definition team_slot :: "u64 list \<Rightarrow> u64 list world_slot" where
  "team_slot race = \<lparr>slot_engine = sample_engine\<lparr>eng_race := race\<rparr>, slot_ghost_mode_settings = DEFAULT_GHOST_MODE_SETTINGS\<rparr>"

definition team_runtime :: runtime_state where
  "team_runtime = \<lparr>rt_revision = 1, rt_activity_kind = ActSandbox, rt_map_id = ''test'', rt_active_local_race = None,
     rt_active_sandboxes = [\<lparr>sb_sandbox_id = ''s1'', sb_map_id = ''m1'', sb_time_of_day_preset = TodNoon,
       sb_weather_now = None\<rparr>], rt_time_of_day_preset = TodNoon, rt_pending = []\<rparr>"

definition team_worker :: "u64 list \<Rightarrow> u64 list worker" where
  "team_worker race = (spawn_worker None)\<lparr>w_runtime := team_runtime, w_sandboxes := [(''s1'', team_slot race)]\<rparr>"

definition team_tokens :: race_tokens where
  "team_tokens = (\<lambda>_ token. Inr \<lparr>gt_sub = token, gt_scope = None, gt_scp = None, gt_instance_uuid = Some ''u1'',
     gt_team_id = Some ''red''\<rparr>)"

definition team_system :: "u64 list \<Rightarrow> u64 \<Rightarrow> runtime_store \<Rightarrow> u64 list race_system" where
  "team_system race now_ms st =
     \<lparr>sys_worker = team_worker race, rs_store = st, rs_latest = empty_frame 5 now_ms,
      rs_joins = [(''red'', \<lparr>tj_sandbox_id = ''s1'', tj_slot_index = 1, tj_public_car_id = 7, tj_engine_car_id = 1,
        tj_container_name = ''c'', tj_container_id = ''c'', tj_log_file_path = ''red.log''\<rparr>)],
      rs_race_bots = [], rs_sandboxes = [], rs_local_race = local_race_state_default, rs_active_streams = [],
      rs_next_stream_id = 1, rs_log_captures = [], rs_slot_updates = []\<rparr>"

lemma team_sel [simp]:
  "rs_store (team_system race t st) = st" "rs_latest (team_system race t st) = empty_frame 5 t"
  "sys_worker (team_system race t st) = team_worker race" "env_api team_env = sample_api"
  "env_features team_env = \<lparr>official = True, local_mode = False, standalone = False\<rparr>"
  by (simp_all add: team_system_def team_env_def)

lemma team_worker_sel:
  "w_running (team_worker race)" "w_runtime (team_worker race) = team_runtime"
  "target_slot (TargetSandbox ''s1'') (team_worker race) = Inr (team_slot race)"
  "(team_worker race)\<lparr>w_sandboxes := hm_insert ''s1'' (team_slot race') (w_sandboxes (team_worker race))\<rparr> = team_worker race'"
  by (simp_all add: team_worker_def spawn_worker_def target_slot_def ok_or_def hm_get_def hm_insert_def)

lemma same_worker: "sys_worker sys = w \<Longrightarrow> sys\<lparr>sys_worker := w\<rparr> = sys"
  by (cases sys) simp

lemma trim_red: "trim ''red'' = ''red''"
  by (simp add: trim_graphic graphic_def)

lemma trim_token: "trim ''tk'' = ''tk''"
  by (simp add: trim_graphic graphic_def)

lemma team_command_car:
  "command_car name team_env race_alone team_tokens (HeaderText ''tk'') (team_system race t st) =
     (Inr (7, 1, TargetSandbox ''s1''), team_system race t st)"
proof -
  have "client_runtime_state team_env (team_system race t st) = (Inr team_runtime, team_system race t st)"
    by (simp add: client_results on_worker_def team_worker_sel same_worker)
  then show ?thesis
    by (simp add: command_car_def trim_token resolve_team_active_command_car_def team_of_token_def team_id_from_token_def
        team_tokens_def trim_red worker_call_alone team_runtime_def team_system_def hm_get_def)
qed

lemma client_back_to_track_result:
  "client_set_car_back_to_track_in env target car =
     on_worker env (with_target_slot_mut target (on_engine (engine_set_vehicle_back_to_track (env_api env) car)))"
  by (simp add: fun_eq_iff client_defs client_call_def on_worker_def answer_def)

lemma team_back_to_track_call:
  assumes "1 \<in> set race"
  shows "client_set_car_back_to_track_in team_env (TargetSandbox ''s1'') 1 (team_system race t st) =
    (Inr (), team_system race t st)"
proof -
  have "engine_set_vehicle_back_to_track sample_api 1 (slot_engine (team_slot race)) = (Inr (), slot_engine (team_slot race))"
    using assms by (simp add: engine_set_vehicle_back_to_track_def native_unit_def status_result_def sample_api_def
        sample_on_def team_slot_def)
  then show ?thesis
    by (simp add: client_back_to_track_result on_worker_def with_target_slot_mut_def team_worker_sel on_engine_def
        engine_err_def Let_def same_worker)
qed

lemma team_idle: "back_to_track_cooldown_remaining_ms 7 t store_new = 0"
  by (simp add: back_to_track_cooldown_remaining_ms_def store_new_def)

lemma team_not_in_pit: "\<not> car_in_pit (empty_frame 5 t) car"
  by (simp add: car_in_pit_def empty_frame_def)

lemma team_accepted:
  "back_to_track team_env race_alone team_tokens (HeaderText ''tk'') (team_system [1] 1000 store_new) =
     (Inr (accept 5), on_store (mark_back_to_track_applied 7 1000) (team_system [1] 1000 store_new))"
  by (simp add: back_to_track_def team_command_car team_idle team_not_in_pit team_back_to_track_call)
     (simp add: empty_frame_def)

section \<open>Properties\<close>

text \<open>
  C21. Commands of a team (\<open>back_to_track\<close>, \<open>emergency_pitstop\<close>): once a command was accepted for
  a car in the frame of time \<open>t\<close>, a later request of the same kind that finds the car is
  rejected, for the cooldown or because the car is in the pit, and changes nothing, as long
  as its frame is younger than \<open>t\<close> plus 30 seconds; in between the other tasks may have run any
  operations of the store that do not remove the car.
\<close>

theorem repeated_command_rejected:
  assumes "run_command cmd env other tokens h sys = (Inr r, sys')" and "cr_status r = Accepted"
    and "command_car (command_name cmd) env other tokens h sys = (Inr (car, e, target), s)"
    and "store_run fs ls (rs_store sys') (rs_store s2)" and "Removed car \<notin> set ls"
    and "command_car (command_name cmd) env other2 tokens2 h2 sys2 = (Inr (car, e2, target2), s2)"
    and "fr_server_time_ms (rs_latest s) \<le> fr_server_time_ms (rs_latest s2)"
    and "fr_server_time_ms (rs_latest s2) < sat_add (fr_server_time_ms (rs_latest s)) COMMAND_COOLDOWN_MS"
  shows "\<exists>r2. run_command cmd env other2 tokens2 h2 sys2 = (Inr r2, s2) \<and> cr_status r2 = Rejected \<and>
      cr_rejected_reason r2 \<in> {CooldownActive, InPit}"
proof (cases cmd)
  case BackToTrackCommand
  show ?thesis using assms unfolding BackToTrackCommand command_name.simps run_command.simps
    by (rule back_to_track_cmd.repeat_rejected)
next
  case EmergencyPitstopCommand
  show ?thesis using assms unfolding EmergencyPitstopCommand command_name.simps run_command.simps
    by (rule emergency_cmd.repeat_rejected)
qed

theorem repeated_command_rejected_witness:
  "\<exists>r2. back_to_track team_env race_alone team_tokens (HeaderText ''tk'')
       (team_system [1] 20000 (mark_back_to_track_applied 7 1000 store_new)) =
     (Inr r2, team_system [1] 20000 (mark_back_to_track_applied 7 1000 store_new)) \<and> cr_status r2 = Rejected"
proof -
  have a: "run_command BackToTrackCommand team_env race_alone team_tokens (HeaderText ''tk'') (team_system [1] 1000 store_new) =
      (Inr (accept 5), on_store (mark_back_to_track_applied 7 1000) (team_system [1] 1000 store_new))"
    using team_accepted by simp
  have run: "store_run team_fs [] (rs_store (on_store (mark_back_to_track_applied 7 1000) (team_system [1] 1000 store_new)))
      (rs_store (team_system [1] 20000 (mark_back_to_track_applied 7 1000 store_new)))" for team_fs
    by (simp add: run_Nil)
  have t: "(1000 :: u64) \<le> 20000" "(20000 :: u64) < sat_add 1000 COMMAND_COOLDOWN_MS"
    by (simp_all add: sat_add_def COMMAND_COOLDOWN_MS_def)
  from repeated_command_rejected [OF a _ _ run, of 7 1 "TargetSandbox ''s1''" "team_system [1] 1000 store_new" race_alone team_tokens
      "HeaderText ''tk''" "team_system [1] 20000 (mark_back_to_track_applied 7 1000 store_new)" 1 "TargetSandbox ''s1''"]
  show ?thesis using t by (auto simp: accept_def team_command_car empty_frame_def)
qed

definition meanwhile :: "('n race_system \<Rightarrow> 'n race_system) \<Rightarrow> 'n race_others" where
  "meanwhile f = (\<lambda>a after s. if a = AwaitCommand \<and> \<not> after then f s else s)"

lemma race_call_meanwhile: "a \<noteq> AwaitCommand \<Longrightarrow> race_call (meanwhile f) a = race_call race_alone a"
  by (simp add: fun_eq_iff race_call_def meanwhile_def race_alone_def)

lemma meanwhile_calls:
  "worker_call (meanwhile f) AwaitRuntime = worker_call race_alone AwaitRuntime"
  "team_of_token (meanwhile f) = team_of_token race_alone"
  by (simp_all add: fun_eq_iff worker_call_def team_of_token_def race_read_def race_call_meanwhile)

lemma resolve_car_meanwhile:
  "resolve_team_active_command_car env (meanwhile f) = resolve_team_active_command_car env race_alone"
  unfolding fun_eq_iff resolve_team_active_command_car_def meanwhile_calls by simp

lemma command_car_meanwhile: "command_car name env (meanwhile f) = command_car name env race_alone"
  unfolding fun_eq_iff command_car_def resolve_car_meanwhile by simp

text \<open>
  The cooldown is not enforced between requests that overlap: it is checked before the
  command is sent to the worker and recorded after the reply, so when the second request runs
  while the first one waits, and the worker executes the command twice, both are accepted.
\<close>

theorem overlapping_commands_both_accepted:
  assumes "command_car ''BackToTrack'' env race_alone tokens h sys = (Inr (car, e, target), sys)"
    and "back_to_track_cooldown_remaining_ms car (fr_server_time_ms (rs_latest sys)) (rs_store sys) = 0"
    and "\<not> car_in_pit (rs_latest sys) car"
    and "client_set_car_back_to_track_in env target e sys = (Inr (), s1)"
    and "client_set_car_back_to_track_in env target e
           (on_store (mark_back_to_track_applied car (fr_server_time_ms (rs_latest sys))) s1) = (Inr (), s2)"
  shows "fst (back_to_track env race_alone tokens h sys) = Inr (accept (fr_tick (rs_latest sys))) \<and>
    fst (back_to_track env (meanwhile (\<lambda>s. snd (back_to_track env race_alone tokens h s))) tokens h sys) =
      Inr (accept (fr_tick (rs_latest sys)))"
proof -
  have one: "back_to_track env race_alone tokens h sys =
      (Inr (accept (fr_tick (rs_latest sys))),
       on_store (mark_back_to_track_applied car (fr_server_time_ms (rs_latest sys))) s1)"
    using assms by (simp add: back_to_track_def Let_def)
  have "race_call (meanwhile (\<lambda>s. snd (back_to_track env race_alone tokens h s))) AwaitCommand
      (client_set_car_back_to_track_in env target e) sys = (Inr (), s2)"
    using assms(5) by (simp add: race_call_def meanwhile_def one)
  then show ?thesis using assms(1-3) one by (simp add: back_to_track_def [of env "meanwhile _"] command_car_meanwhile Let_def)
qed

theorem overlapping_commands_both_accepted_witness:
  "fst (back_to_track team_env race_alone team_tokens (HeaderText ''tk'') (team_system [1] 1000 store_new)) = Inr (accept 5) \<and>
   fst (back_to_track team_env (meanwhile (\<lambda>s. snd (back_to_track team_env race_alone team_tokens (HeaderText ''tk'') s)))
     team_tokens (HeaderText ''tk'') (team_system [1] 1000 store_new)) = Inr (accept 5)"
proof -
  have "on_store f (team_system race t st) = team_system race t (f st)" for f t st race
    by (simp add: on_store_def team_system_def)
  then show ?thesis
    using overlapping_commands_both_accepted [OF team_command_car, of "[1]" 1000 store_new "team_system [1] 1000 store_new"
        "team_system [1] 1000 (mark_back_to_track_applied 7 1000 store_new)"]
    by (simp add: team_idle team_not_in_pit team_back_to_track_call) (simp add: empty_frame_def)
qed

text \<open>
  C22. A successful quick join (\<open>join_sandbox\<close>), whatever other tasks do at its awaits: the
  sandbox is active in the metadata the running worker had when the join read it, the
  requested one if one was named and otherwise the only active one; the engine identifier
  of the car is what the worker's spawn in that sandbox returned, in the state the other tasks
  had left before the join's spawn command; and the store knows the returned car with that
  engine identifier and world, client sequence 0 and an identity with a bot index. Except in
  the standalone build the identity carries the subject, team and instance of the token, and
  the instance maps to the car and back.
\<close>

theorem join_registers_spawned_car:
  fixes env :: "'n worker_env"
  assumes "join_sandbox env other tokens choose_slot requested auth sys = (Inr resp, sys')"
    and "s0 = other AwaitRuntime False sys" and "s1 = other AwaitSpawn False (other AwaitRuntime True s0)"
  shows "\<exists>active e i. w_running (sys_worker s0) \<and>
    active \<in> set (rt_active_sandboxes (w_runtime (sys_worker s0))) \<and>
    (if trim requested = [] then rt_active_sandboxes (w_runtime (sys_worker s0)) = [active]
     else sb_sandbox_id active = trim requested) \<and>
    fst (client_spawn_sandbox_car env (sb_sandbox_id active) s1) = Inr e \<and> qj_map_id resp = sb_map_id active \<and>
    hm_contains (st_known_cars (rs_store sys')) (qj_car_id resp) \<and>
    car_target (qj_car_id resp) (rs_store sys') = Some (TargetSandbox (sb_sandbox_id active)) \<and>
    car_engine_id (qj_car_id resp) (rs_store sys') = Some e \<and>
    car_last_client_seq (qj_car_id resp) (rs_store sys') = 0 \<and>
    car_identity (qj_car_id resp) (rs_store sys') = Some i \<and> id_local_bot_index i \<noteq> None \<and>
    (standalone (env_features env) \<or>
     (\<exists>token sub. auth = Some token \<and> subject_from_token (tokens AwaitSubject) token = Inr sub \<and>
        id_subject i = Some sub \<and> team_id_from_token (tokens AwaitTeam) token = Inr (id_team_id i) \<and>
        instance_uuid_from_token (tokens AwaitInstance) token = Inr (id_instance_uuid i) \<and>
        (\<forall>uuid. id_instance_uuid i = Some uuid \<longrightarrow>
           hm_get (st_car_owners (rs_store sys')) (qj_car_id resp) = Some uuid \<and>
           hm_get (st_instance_cars (rs_store sys')) uuid = Some (qj_car_id resp))))"
proof -
  have reads: "join_reads other sys = s0" "join_spawns other sys = s1"
    by (simp_all add: join_reads_def join_spawns_def assms(2, 3))
  obtain active e i0 s4 where
    run: "w_running (sys_worker s0)"
    and a: "select_quick_join_sandbox (w_runtime (sys_worker s0)) requested = Inr active"
    and e: "fst (client_spawn_sandbox_car env (sb_sandbox_id active) s1) = Inr e"
    and m: "qj_map_id resp = sb_map_id active"
    and sys': "sys' = on_store (register_sandbox_car (sb_sandbox_id active) (qj_car_id resp) e i0) s4"
    and id: "standalone (env_features env) \<and> i0 = identity_default \<or>
      (\<exists>s3. join_identity other tokens auth (qj_car_id resp) s3 = (Inr i0, s4))"
    using join_cases [OF assms(1), unfolded reads] by metis
  let ?st = "rs_store sys'"
  have st: "?st = register_sandbox_car (sb_sandbox_id active) (qj_car_id resp) e i0 (rs_store s4)"
    by (simp add: sys')
  note reg = register_sandbox_car_sel [OF st]
  obtain n where n: "car_identity (qj_car_id resp) ?st = Some (i0\<lparr>id_local_bot_index := Some n\<rparr>)"
    using reg(7) [of "qj_car_id resp"] by auto
  have claims: "standalone (env_features env) \<or>
     (\<exists>token sub. auth = Some token \<and> subject_from_token (tokens AwaitSubject) token = Inr sub \<and>
        id_subject i0 = Some sub \<and> team_id_from_token (tokens AwaitTeam) token = Inr (id_team_id i0) \<and>
        instance_uuid_from_token (tokens AwaitInstance) token = Inr (id_instance_uuid i0) \<and>
        (\<forall>uuid. id_instance_uuid i0 = Some uuid \<longrightarrow>
           hm_get (st_car_owners ?st) (qj_car_id resp) = Some uuid \<and>
           hm_get (st_instance_cars ?st) uuid = Some (qj_car_id resp)))"
    using id
  proof
    assume "\<exists>s3. join_identity other tokens auth (qj_car_id resp) s3 = (Inr i0, s4)"
    then show ?thesis using join_identity_subject by (metis reg(5) reg(6))
  qed simp
  show ?thesis
  proof (intro exI [of _ active] exI [of _ e] exI [of _ "i0\<lparr>id_local_bot_index := Some n\<rparr>"] conjI)
    show "hm_contains (st_known_cars ?st) (qj_car_id resp)"
      "car_target (qj_car_id resp) ?st = Some (TargetSandbox (sb_sandbox_id active))"
      "car_engine_id (qj_car_id resp) ?st = Some e" "car_last_client_seq (qj_car_id resp) ?st = 0"
      by (simp_all add: car_target_def car_engine_id_def car_last_client_seq_def reg(1-4))
  qed (use selected_sandbox [OF a] run e m n claims in simp_all)
qed

lemma client_finish_line_result:
  "client_set_car_before_finish_line_in env target car =
     on_worker env (with_target_slot_mut target (on_engine (engine_set_vehicle_before_finish_line (env_api env) car)))"
  by (simp add: fun_eq_iff client_defs client_call_def on_worker_def answer_def)

lemma team_runtime_call: "client_runtime_state team_env (team_system race t st) = (Inr team_runtime, team_system race t st)"
  by (simp add: client_results on_worker_def team_worker_sel same_worker)

lemma team_system_worker: "(team_system race t st)\<lparr>sys_worker := team_worker race'\<rparr> = team_system race' t st"
  by (simp add: team_system_def)

lemma team_spawn: "client_spawn_sandbox_car team_env ''s1'' (team_system [1] t st) = (Inr 2, team_system [2, 1] t st)"
proof -
  have "spawn_car_op team_env (team_slot [1]) = (Inr 2, team_slot [2, 1])"
    by (simp add: spawn_car_op_def spawn_vehicle_def engine_force_set_vehicle_tyre_type_def native_unit_def sample_api_def
        team_slot_def BOINK_OK_def sample_engine_def sample_on_def status_result_def)
  then show ?thesis
    by (simp add: client_world_defs client_results on_worker_def with_target_slot_mut_def team_worker_sel
        team_system_worker)
qed

lemma team_place:
  "client_set_car_before_finish_line_in team_env (TargetSandbox ''s1'') 2 (team_system [2, 1] t st) =
     (Inr (), team_system [2, 1] t st)"
proof -
  have "engine_set_vehicle_before_finish_line sample_api 2 (slot_engine (team_slot [2, 1])) =
      (Inr (), slot_engine (team_slot [2, 1]))"
    by (simp add: engine_set_vehicle_before_finish_line_def native_unit_def status_result_def sample_api_def
        sample_on_def team_slot_def)
  then show ?thesis
    by (simp add: client_finish_line_result on_worker_def with_target_slot_mut_def team_worker_sel on_engine_def
        engine_err_def Let_def same_worker)
qed

lemma team_select: "select_quick_join_sandbox team_runtime [] = Inr \<lparr>sb_sandbox_id = ''s1'', sb_map_id = ''m1'',
     sb_time_of_day_preset = TodNoon, sb_weather_now = None\<rparr>"
  by (simp add: select_quick_join_sandbox_def team_runtime_def trim_def)

lemma team_place_call:
  "place_spawned_car team_env race_alone choose_slot ''s1'' 2 (team_system [2, 1] t st) = (Inr (), team_system [2, 1] t st)"
  by (simp add: place_spawned_car_def worker_call_alone team_place)

lemma team_join:
  "\<exists>sys'. join_sandbox team_env race_alone team_tokens choose_slot [] (Some ''tk'') (team_system [1] t store_new) =
     (Inr \<lparr>qj_car_id = 1, qj_map_id = ''m1''\<rparr>, sys')"
  by (simp add: join_sandbox_def worker_call_alone team_runtime_call team_select team_spawn team_place_call
      allocate_public_car_id_def store_new_def join_identity_def subject_from_token_def team_id_from_token_def
      instance_uuid_from_token_def team_tokens_def case_prod_beta)

theorem join_registers_spawned_car_witness:
  "\<exists>sys' e. join_sandbox team_env race_alone team_tokens (\<lambda>n. n) [] (Some ''tk'') (team_system [1] 0 store_new) =
     (Inr \<lparr>qj_car_id = 1, qj_map_id = ''m1''\<rparr>, sys') \<and> car_engine_id 1 (rs_store sys') = Some e \<and>
     hm_get (st_instance_cars (rs_store sys')) ''u1'' = Some 1"
proof -
  obtain sys' where j: "join_sandbox team_env race_alone team_tokens (\<lambda>n. n) [] (Some ''tk'') (team_system [1] 0 store_new) =
     (Inr \<lparr>qj_car_id = 1, qj_map_id = ''m1''\<rparr>, sys')"
    using team_join by blast
  from join_registers_spawned_car [OF j refl refl]
  show ?thesis
    using j by (auto simp: instance_uuid_from_token_def team_tokens_def)
qed

text \<open>
  A quick join whose token turns out to be invalid fails, but only after the car was
  spawned and placed: the error leaves the worker exactly as it was after the placement, so
  the vehicle stays in the sandbox, while the store has no entry for it and nothing will
  remove it. A failed placement, in contrast, is followed by a despawn of the car.
\<close>

theorem failed_token_leaves_spawned_car:
  assumes "client_runtime_state env sys = (Inr rt, sys)" and "select_quick_join_sandbox rt requested = Inr active"
    and "client_spawn_sandbox_car env (sb_sandbox_id active) sys = (Inr e, s1)"
    and "place_spawned_car env race_alone choose_slot (sb_sandbox_id active) e s1 = (placed, s2)"
    and "\<not> standalone (env_features env)" and "subject_from_token (tokens AwaitSubject) token = Inl err"
  shows "case placed of
      Inr _ \<Rightarrow> fst (join_sandbox env race_alone tokens choose_slot requested (Some token) sys) = Inl err \<and>
        snd (join_sandbox env race_alone tokens choose_slot requested (Some token) sys) =
          s2\<lparr>rs_store := snd (allocate_public_car_id (rs_store s2))\<rparr>
    | Inl err1 \<Rightarrow> join_sandbox env race_alone tokens choose_slot requested (Some token) sys =
        (Inl err1, snd (client_despawn_car_in env (TargetSandbox (sb_sandbox_id active)) e s2))"
  using assms
  by (cases placed) (simp_all add: join_sandbox_def worker_call_alone join_identity_def case_prod_beta Let_def)

theorem failed_token_leaves_spawned_car_witness:
  "fst (join_sandbox team_env race_alone (\<lambda>_ _. unauthenticated ''invalid jwt'') (\<lambda>n. n) [] (Some ''tk'') (team_system [1] 0 store_new)) =
     unauthenticated ''invalid jwt'' \<and>
   snd (join_sandbox team_env race_alone (\<lambda>_ _. unauthenticated ''invalid jwt'') (\<lambda>n. n) [] (Some ''tk'') (team_system [1] 0 store_new)) =
     team_system [2, 1] 0 (snd (allocate_public_car_id store_new))"
proof -
  have "(team_system [2, 1] 0 store_new)\<lparr>rs_store := st\<rparr> = team_system [2, 1] 0 st" for st
    by (simp add: team_system_def)
  then show ?thesis
    using failed_token_leaves_spawned_car [OF team_runtime_call team_select, of "[1]" 0 store_new 2 "team_system [2, 1] 0 store_new"
        "\<lambda>n. n" "Inr ()" "team_system [2, 1] 0 store_new" "\<lambda>_ _. unauthenticated ''invalid jwt''" "''tk''"
        "Status CodeUnauthenticated ''invalid jwt''"]
    by (simp add: team_spawn team_place_call subject_from_token_def unauthenticated_def)
qed

text \<open>
  Spectators: a snapshot made from a frame the hub published shows exactly the cars of the
  frame that drive in the spectator's world, each once and in the order of their identifiers,
  and for a race the most laps any of them has completed.
\<close>

theorem snapshot_shows_target_cars:
  assumes "published env h"
  shows "let frame = fh_latest h; snap = spectator_snapshot_of dbg (Some target) frame remaining;
             cars = {c. hm_get (fr_cars frame) (cf_public_car_id c) = Some c \<and> cf_target c = target} in
    sorted (map ff_car_id (ss_cars snap)) \<and> distinct (map ff_car_id (ss_cars snap)) \<and>
    set (map ff_car_id (ss_cars snap)) = cf_public_car_id ` cars \<and>
    (case target of
       TargetSandbox _ \<Rightarrow> ss_race_leader_completed_laps snap = None
     | _ \<Rightarrow> ss_race_leader_completed_laps snap = Some (if cars = {} then 0
         else Max ((\<lambda>c. case cf_race_metrics c of None \<Rightarrow> 0 | Some m \<Rightarrow> completed_laps m) ` cars)))"
proof -
  note v = visible_cars_ids [OF published_keyed [OF assms], of target]
  let ?frame = "fh_latest h"
  have ids: "map ff_car_id (ss_cars (spectator_snapshot_of dbg (Some target) ?frame remaining)) =
      map cf_public_car_id (visible_cars (Some target) ?frame)"
    by (simp add: spectator_snapshot_of_def car_message_def frontend_full_state_def Let_def comp_def)
  have laps: "ss_race_leader_completed_laps (spectator_snapshot_of dbg (Some target) ?frame remaining) =
      leader_laps (Some target) (visible_cars (Some target) ?frame)"
    by (simp add: spectator_snapshot_of_def Let_def)
  have empty: "visible_cars (Some target) ?frame = [] \<longleftrightarrow>
      {c. hm_get (fr_cars ?frame) (cf_public_car_id c) = Some c \<and> cf_target c = target} = {}"
    using v(3) by (metis set_empty2)
  have "case target of
       TargetSandbox _ \<Rightarrow> leader_laps (Some target) (visible_cars (Some target) ?frame) = None
     | _ \<Rightarrow> leader_laps (Some target) (visible_cars (Some target) ?frame) = Some (if
         {c. hm_get (fr_cars ?frame) (cf_public_car_id c) = Some c \<and> cf_target c = target} = {} then 0
         else Max ((\<lambda>c. case cf_race_metrics c of None \<Rightarrow> 0 | Some m \<Rightarrow> completed_laps m) `
           {c. hm_get (fr_cars ?frame) (cf_public_car_id c) = Some c \<and> cf_target c = target}))"
    using leader_laps_max [of target "visible_cars (Some target) ?frame"]
    unfolding empty v(3) by (cases target) (simp_all add: leader_laps_def)
  then show ?thesis unfolding Let_def ids laps using v by simp
qed

definition team_hub :: "u64 list frame_hub" where
  "team_hub = fst (spawn_frame_hub team_env hub_alone 0 \<lparr>sys_worker = team_worker [1], hub_store = store_new\<rparr>)"

theorem snapshot_shows_target_cars_witness:
  "distinct (map ff_car_id (ss_cars (spectator_snapshot_of True (Some TargetOfficialRace) (fh_latest team_hub) None)))"
proof -
  have "published team_env team_hub" unfolding team_hub_def by (rule published.started)
  from snapshot_shows_target_cars [OF this, of True TargetOfficialRace None]
  show ?thesis by (simp add: Let_def)
qed

text \<open>
  C23. Spectators: the view a stream announces is never wider than the scopes of the token
  it was opened with: all cars only with \<open>race.read.all\<close>, the team's view only with that scope or
  \<open>race.read.team\<close>, and without a token only the public view; and the announced rate is
  between 1 and the lesser of 120 and the rate of the simulation.
\<close>

theorem spectator_view_within_scopes:
  assumes "rc_view_code cfg ViewPublic < rc_view_code cfg ViewTeam" "rc_view_code cfg ViewTeam < rc_view_code cfg ViewAll"
    and "stream_frontend_spectator env cfg other tokens header req received ticks sys = (Inr (Some settings, events), s)"
  shows "se_resolved_view settings \<noteq> ViewUnspecified \<and>
    (se_resolved_view settings \<noteq> ViewPublic \<longrightarrow>
      (\<exists>token scopes. header = HeaderText token \<and> scopes_from_token (tokens AwaitScopes) token = Inr scopes \<and>
         (''race.read.all'' \<in> set scopes \<or> se_resolved_view settings = ViewTeam \<and> ''race.read.team'' \<in> set scopes))) \<and>
    1 \<le> se_effective_hz settings \<and> se_effective_hz settings \<le> 120 \<and> se_effective_hz settings \<le> rc_simulation_hz cfg"
proof -
  let ?req = "normalize_requested_view cfg (sq_requested_view req)"
  obtain r s0 where c: "spectator_claims (env_features env) other tokens header sys = (r, s0)" by fastforce
  obtain scopes owner where r: "r = Inr (scopes, owner)"
    using assms(3) by (cases r) (auto simp: stream_frontend_spectator_def c Let_def)
  obtain v d where v: "resolve_view cfg ?req scopes = (v, d)" by fastforce
  obtain w s1 where w: "worker_call other AwaitRuntime (client_runtime_state env) s0 = (w, s1)" by fastforce
  obtain rt where rt: "w = Inr rt"
    using assms(3) by (cases w) (simp_all add: stream_frontend_spectator_def c r v w Let_def)
  obtain visible where vis: "resolve_stream_target (sq_target req) rt = Inr visible"
    using assms(3) by (cases "resolve_stream_target (sq_target req) rt") (simp_all add: stream_frontend_spectator_def c r v w rt Let_def)
  have run: "fst (fst (run_frontend_spectator_stream env cfg other req v d (resolve_runtime_map_id rt visible) visible owner
      received ticks s1)) = Some settings"
    using assms(3) by (auto simp: stream_frontend_spectator_def c r v w rt vis Let_def split: prod.splits)
  then obtain a e reason period where rate: "resolve_stream_rate (sq_requested_hz req) (rc_simulation_hz cfg) = Some (a, e, reason, period)"
    and settings: "se_resolved_view settings = v" "se_effective_hz settings = e"
    by (auto simp: run_frontend_spectator_stream_def build_stream_settings_def case_prod_beta Let_def
        split: option.splits if_splits)
  note view = resolve_view_scopes [OF assms(1,2) normalized_view v]
  have "\<exists>token. header = HeaderText token \<and> scopes_from_token (tokens AwaitScopes) token = Inr scopes" if "v \<noteq> ViewPublic"
    using claims_of_header [OF c [unfolded r]] view that by (cases v) auto
  then show ?thesis using view stream_rate_bounds [OF rate] by (cases v) (auto simp: settings)
qed

definition team_cfg :: race_config where
  "team_cfg = \<lparr>rc_production = False, rc_simulation_hz = 60, rc_shift_of = (\<lambda>_. None), rc_tire_of = (\<lambda>_. None),
     rc_view_of = (\<lambda>n. if n = 3 then Some ViewAll else None),
     rc_view_code = (\<lambda>v. case v of ViewUnspecified \<Rightarrow> 0 | ViewPublic \<Rightarrow> 1 | ViewTeam \<Rightarrow> 2 | ViewAll \<Rightarrow> 3)\<rparr>"

definition team_request :: spectator_request where
  "team_request = \<lparr>sq_target = Some (SpectateSandbox ''s1''), sq_requested_hz = 0, sq_requested_view = 3, sq_include_debug = False\<rparr>"

theorem spectator_view_within_scopes_witness:
  "\<exists>settings s. stream_frontend_spectator team_env team_cfg race_alone team_tokens HeaderAbsent team_request False []
     (team_system [1] 0 store_new) = (Inr (Some settings, []), s) \<and> se_resolved_view settings = ViewPublic"
proof -
  have "trim ''s1'' = ''s1''" by (simp add: trim_graphic graphic_def)
  then have "resolve_stream_target (sq_target team_request) team_runtime = Inr (Some (TargetSandbox ''s1''))"
    by (simp add: team_request_def resolve_stream_target_def select_quick_join_sandbox_def team_runtime_def ok_or_def Let_def)
  moreover have "\<exists>a e reason period. resolve_stream_rate (sq_requested_hz team_request) (rc_simulation_hz team_cfg) = Some (a, e, reason, period)"
    by (simp add: resolve_stream_rate_def team_cfg_def MIN_STREAM_HZ_def MAX_STREAM_HZ_def Let_def)
  ultimately obtain settings s where st: "stream_frontend_spectator team_env team_cfg race_alone team_tokens HeaderAbsent team_request False []
     (team_system [1] 0 store_new) = (Inr (Some settings, []), s)"
    by (auto simp: stream_frontend_spectator_def spectator_claims_def worker_call_alone team_runtime_call
        run_frontend_spectator_stream_def case_prod_beta Let_def)
  moreover have "se_resolved_view settings = ViewPublic"
    using spectator_view_within_scopes [OF _ _ st] by (simp add: team_cfg_def)
  ultimately show ?thesis by blast
qed

end
