(* ===== verification/Participant_Contract.thy ===== *)
theory Participant_Contract
  imports Participant_Stream Race_Service_Contract
begin

text \<open>
  What the participant service promises: the order and numbering of a stream's messages, which
  controls and commands reach the simulation, and what a join and the end of a stream leave
  behind in the store and in the local race.
\<close>

section \<open>Messages of a stream\<close>

fun numbers_from :: "u64 \<Rightarrow> nat \<Rightarrow> u64 list" where
  "numbers_from s 0 = []"
| "numbers_from s (Suc n) = s # numbers_from (sat_add s 1) n"

fun advance :: "u64 \<Rightarrow> nat \<Rightarrow> u64" where
  "advance s 0 = s"
| "advance s (Suc n) = advance (sat_add s 1) n"

lemma length_numbers_from [simp]: "length (numbers_from s n) = n"
  by (induction n arbitrary: s) simp_all

lemma numbers_from_add: "numbers_from s (m + n) = numbers_from s m @ numbers_from (advance s m) n"
  by (induction m arbitrary: s) simp_all

lemma numbers_from_nth: "i < n \<Longrightarrow> unat (numbers_from s n ! i) = min (unat s + i) (2 ^ 64 - 1)"
proof (induction n arbitrary: s i)
  case (Suc n)
  have b: "unat s \<le> 2 ^ 64 - 1" using unat_bound [of s] by simp
  show ?case
  proof (cases i)
    case (Suc j)
    then have "unat (numbers_from s (Suc n) ! i) = min (unat (sat_add s 1) + j) (2 ^ 64 - 1)"
      using Suc.IH [of j "sat_add s 1"] Suc.prems by simp
    then show ?thesis using b Suc by (simp add: unat_sat_add)
  qed (use b in simp)
qed simp

fun is_plain :: "server_payload \<Rightarrow> bool" where
  "is_plain (SettingsEvent _) = False"
| "is_plain (BootstrapEvent _) = False"
| "is_plain _ = True"

fun protocol_order :: "server_payload list \<Rightarrow> bool" where
  "protocol_order [] = True"
| "protocol_order [p] = (case p of SettingsEvent _ \<Rightarrow> True | _ \<Rightarrow> False)"
| "protocol_order (p # q # rest) =
     ((case p of SettingsEvent _ \<Rightarrow> True | _ \<Rightarrow> False) \<and> (case q of BootstrapEvent _ \<Rightarrow> True | _ \<Rightarrow> False) \<and>
      list_all is_plain rest)"

text \<open>What one turn adds to the stream, before and after the initial message.\<close>

definition turn_messages :: "stream_state \<Rightarrow> 'n turn_result \<Rightarrow> bool" where
  "turn_messages st r =
     (case r of (e, evs, st', _) \<Rightarrow>
        map ev_server_seq evs = numbers_from (sx_server_seq st) (length evs) \<and>
        (e = Continues \<longrightarrow> sx_server_seq st' = advance (sx_server_seq st) (length evs)) \<and>
        (if sx_initialized st
         then list_all (is_plain \<circ> ev_payload) evs \<and> sx_initialized st'
         else protocol_order (map ev_payload evs) \<and>
              (e = Continues \<longrightarrow> (if sx_initialized st' then length evs = 2 else evs = []))))"

lemma finish_messages: "(evs = [] \<or> \<not> sx_initialized st) \<Longrightarrow> protocol_order (map ev_payload evs) \<Longrightarrow>
    map ev_server_seq evs = numbers_from (sx_server_seq st) (length evs) \<Longrightarrow>
    (sx_initialized st \<longrightarrow> sx_initialized st') \<Longrightarrow>
    turn_messages st (finish_stream env ctx turn reason error evs st' sys)"
  by (auto simp: turn_messages_def finish_stream_def)

lemma send_messages:
  assumes "is_plain payload" and "sx_initialized st" and "sx_initialized st1" and "sx_server_seq st1 = sx_server_seq st"
  shows "turn_messages st (send_or_finish env ctx turn reason payload st1 sys)"
proof (cases "tu_received turn 0")
  case True
  then show ?thesis using assms by (simp add: send_or_finish_def send_participant_event_def turn_messages_def)
next
  case False
  then show ?thesis using assms by (simp add: send_or_finish_def send_participant_event_def finish_messages)
qed

lemma init_messages: "turn_messages st (on_init env ctx settings turn st sys)"
proof (cases "sx_initialized st \<or> \<not> tu_received turn 0")
  case True
  then show ?thesis by (auto simp: on_init_def send_participant_event_def finish_messages)
next
  case False
  then show ?thesis
    by (cases "tu_received turn 1")
       (auto simp: on_init_def send_participant_event_def turn_messages_def finish_stream_def case_prod_beta)
qed

lemma controls_messages: "turn_messages st (on_controls env cfg ctx turn value st sys)"
proof (cases "sx_initialized st")
  case True
  let ?p = "proto_participant_controls_to_controls (rc_shift_of cfg) (PayloadControls value)"
  obtain closed s where g: "local_race_gameplay_closed (env_features env) turn (px_target ctx) sys = (closed, s)" by fastforce
  have d: "turn_messages st (drive_car env ctx turn frame seq requested st s)" for frame seq requested
  proof -
    obtain r s1 where "worker_call (tu_others turn) AwaitCommand (client_set_controls_in env (px_target ctx) (px_engine_car_id ctx)
        (if sn_emergency_lock_remaining_ms (store_pit_state_snapshot (px_car_id ctx) (fr_server_time_ms frame) (rs_store s)) > 0
         then held_controls else requested)) s = (r, s1)" by fastforce
    then show ?thesis using True by (cases r) (simp_all add: drive_car_def Let_def finish_messages send_messages)
  qed
  show ?thesis
  proof (cases ?p)
    case (Inl err)
    then show ?thesis using True by (simp add: on_controls_def finish_messages)
  next
    case (Inr v)
    show ?thesis
    proof (cases v)
      case None
      then show ?thesis using True Inr by (simp add: on_controls_def turn_messages_def)
    next
      case (Some c)
      obtain seq requested where "c = (seq, requested)" by fastforce
      then show ?thesis using True Inr Some d by (simp add: on_controls_def g send_messages Let_def)
    qed
  qed
qed (simp add: on_controls_def before_init_def finish_messages)

lemma command_messages: "turn_messages st (on_command env ctx turn answer_of st sys)"
  by (simp add: on_command_def before_init_def finish_messages send_command_ack_def send_messages)

lemma tick_messages: "turn_messages st (on_tick env ctx hz turn st sys)"
proof (cases "sx_initialized st")
  case True
  then show ?thesis
    by (simp add: on_tick_def finish_messages send_messages Let_def split: option.split) (simp add: turn_messages_def)
qed (simp add: on_tick_def turn_messages_def)

lemma step_messages: "turn_messages st (stream_turn_step env cfg ctx settings turn st sys)"
  unfolding stream_turn_step_def on_message_def Let_def
  by (auto simp: finish_messages tick_messages init_messages controls_messages command_messages
      split: stream_input.split option.split participant_payload.split)

lemma loop_messages:
  assumes "participant_loop env cfg ctx settings turns st sys = (e, evs, st', sys')"
  shows "map ev_server_seq evs = numbers_from (sx_server_seq st) (length evs) \<and>
    (if sx_initialized st then list_all (is_plain \<circ> ev_payload) evs else protocol_order (map ev_payload evs))"
  using assms
proof (induction turns arbitrary: st sys e evs st' sys')
  case (Cons turn turns)
  obtain e1 evs1 st1 s1 where step: "stream_turn_step env cfg ctx settings turn st sys = (e1, evs1, st1, s1)"
    by (metis prod_cases4)
  have m: "turn_messages st (e1, evs1, st1, s1)" using step_messages step by metis
  show ?case
  proof (cases e1)
    case Continues
    obtain e2 evs2 st2 s2 where rest: "participant_loop env cfg ctx settings turns st1 s1 = (e2, evs2, st2, s2)"
      by (metis prod_cases4)
    have evs: "evs = evs1 @ evs2" using Cons.prems by (simp add: step Continues rest)
    note ih = Cons.IH [OF rest]
    have "map ev_server_seq evs = numbers_from (sx_server_seq st) (length evs)"
      using m ih by (simp add: evs turn_messages_def Continues numbers_from_add)
    moreover have "if sx_initialized st then list_all (is_plain \<circ> ev_payload) evs else protocol_order (map ev_payload evs)"
    proof (cases "sx_initialized st")
      case True
      then show ?thesis using m ih by (auto simp: evs turn_messages_def Continues)
    next
      case False
      show ?thesis
      proof (cases "sx_initialized st1")
        case True
        then have "length evs1 = 2" using m False by (simp add: turn_messages_def Continues)
        then obtain a b where ab: "evs1 = [a, b]" by (auto simp: length_Suc_conv numeral_2_eq_2)
        then show ?thesis using m ih True False by (auto simp: evs turn_messages_def Continues list.pred_map o_def)
      next
        assume "\<not> sx_initialized st1"
        then show ?thesis using m ih False by (simp add: evs turn_messages_def Continues)
      qed
    qed
    ultimately show ?thesis by blast
  next
    case (Ends reason error)
    then show ?thesis using m Cons.prems by (auto simp: step turn_messages_def)
  qed
qed simp

text \<open>Before its initial message the bot is sent nothing.\<close>

definition says_hello :: "'n stream_turn \<Rightarrow> bool" where
  "says_hello turn \<longleftrightarrow> tu_input turn = ClientMessage (Some PayloadInit)"

lemma step_before_hello:
  assumes "\<not> says_hello turn" "\<not> sx_initialized st"
    and "stream_turn_step env cfg ctx settings turn st sys = (e, evs, st', sys')"
  shows "evs = [] \<and> (e = Continues \<longrightarrow> \<not> sx_initialized st')"
  using assms
  by (auto simp: says_hello_def stream_turn_step_def on_message_def on_controls_def on_command_def on_tick_def before_init_def
      finish_stream_def Let_def split: stream_input.splits option.splits participant_payload.splits)

lemma loop_before_hello:
  assumes "list_all (\<lambda>turn. \<not> says_hello turn) turns" "\<not> sx_initialized st"
  shows "fst (snd (participant_loop env cfg ctx settings turns st sys)) = []"
  using assms
proof (induction turns arbitrary: st sys)
  case (Cons turn turns)
  obtain e evs st1 s1 where step: "stream_turn_step env cfg ctx settings turn st sys = (e, evs, st1, s1)"
    by (metis prod_cases4)
  have "evs = [] \<and> (e = Continues \<longrightarrow> \<not> sx_initialized st1)"
    using step_before_hello [OF _ Cons.prems(2) step] Cons.prems(1) by simp
  then show ?case using Cons.IH [of st1 s1] Cons.prems(1) by (cases e) (auto simp: step split: prod.split)
qed simp

section \<open>Turns without interference\<close>

text \<open>A turn of a bot that receives its messages while no other task runs.\<close>

definition quiet_turn :: "'n stream_turn \<Rightarrow> bool" where
  "quiet_turn turn \<longleftrightarrow> tu_others turn = race_alone \<and> tu_received turn 0"

lemma quiet_send:
  "quiet_turn turn \<Longrightarrow> send_or_finish env ctx turn reason payload st sys =
     (Continues, [\<lparr>ev_server_seq = sx_server_seq st, ev_payload = payload\<rparr>],
      st\<lparr>sx_server_seq := sat_add (sx_server_seq st) 1\<rparr>, sys)"
  by (simp add: quiet_turn_def send_or_finish_def send_participant_event_def)

lemma quiet_step: "quiet_turn turn \<Longrightarrow> tu_input turn = ClientMessage (Some payload) \<Longrightarrow>
    stream_turn_step env cfg ctx settings turn st sys = on_message env cfg ctx settings turn payload st sys"
  by (simp add: quiet_turn_def stream_turn_step_def)

lemma quiet_gate:
  assumes "quiet_turn turn"
  shows "local_race_gameplay_closed fs turn target sys =
    (case target of TargetLocalRace race_id \<Rightarrow>
        local_mode fs \<and> gameplay_commands_closed (tu_clock_ms turn) race_id (rs_local_race sys) | _ \<Rightarrow> False, sys)"
  using assms by (simp add: quiet_turn_def local_race_gameplay_closed_def split: command_target.split)

text \<open>Calls of the worker leave the rest of the system alone.\<close>

lemma client_call_rest [simp]:
  "rs_local_race (snd (client_call env cmd get sys)) = rs_local_race sys"
  "rs_store (snd (client_call env cmd get sys)) = rs_store sys"
  "rs_latest (snd (client_call env cmd get sys)) = rs_latest sys"
  by (simp_all add: client_call_def case_prod_beta)

section \<open>Closed races\<close>

lemma alone_gate:
  assumes "tu_others turn = race_alone"
  shows "local_race_gameplay_closed fs turn target sys =
    (case target of TargetLocalRace race_id \<Rightarrow>
        local_mode fs \<and> gameplay_commands_closed (tu_clock_ms turn) race_id (rs_local_race sys) | _ \<Rightarrow> False, sys)"
  using assms by (simp add: local_race_gameplay_closed_def split: command_target.split)









section \<open>The emergency lock\<close>

lemma emergency_lock_lasting:
  assumes "store_run fs ls (mark_emergency_pitstop_requested c t st) st'" "Removed c \<notin> set ls" "t \<le> t'"
    and "t' < sat_add t EMERGENCY_PIT_LOCK_MS"
  shows "sn_emergency_lock_remaining_ms (store_pit_state_snapshot c t' st') > 0"
proof -
  have "sat_add t 30000 \<le> ps_emergency_lock_until_ms (pit_of c (mark_emergency_pitstop_requested c t st))"
    by (simp add: op_states emergency_pitstop_requested_def EMERGENCY_PIT_LOCK_MS_def)
  also have "\<dots> \<le> ps_emergency_lock_until_ms (pit_of c st')"
    using store_run_timers [OF assms(1, 2)] by (simp add: timers_from_def)
  finally have "unat (sat_add t 30000) - unat t' \<le> unat (remaining_u32 (ps_emergency_lock_until_ms (pit_of c st')) t')"
    using remaining_of_deadline assms(3) by blast
  moreover have "0 < unat (sat_add t 30000) - unat t'"
    using assms(4) by (simp add: word_less_nat_alt EMERGENCY_PIT_LOCK_MS_def)
  ultimately have "0 < unat (remaining_u32 (ps_emergency_lock_until_ms (pit_of c st')) t')" by linarith
  then show ?thesis by (simp add: store_snapshot snapshot_def Let_def word_less_nat_alt)
qed

lemma held_controls_are: "held_controls = \<lparr>ctl_throttle = Fin 0, ctl_brake = Fin 1, ctl_brake_balancer = Fin (1 / 2),
       ctl_differential_lock = Fin 0, ctl_steer = Fin 0, ctl_gear_shift = NoShift\<rparr>"
  by (simp add: held_controls_def controls_new_def fp_clamp_def)

section \<open>The end of a stream\<close>

lemma cleanup_local_racer:
  assumes "px_target ctx = TargetLocalRace race_id"
  shows "rs_store (cleanup_participant_car env race_alone timed_out ctx sys) = remove_car (px_car_id ctx) (rs_store sys)"
    "rs_local_race (cleanup_participant_car env race_alone timed_out ctx sys) = rs_local_race sys"
  using assms
  by (simp_all add: cleanup_participant_car_def despawn_with_timeout_def client_despawn_car_in_def on_store_def Let_def)

lemma removed_car:
  "hm_get (st_car_targets (remove_car car st)) car = None" "hm_get (st_car_engine_ids (remove_car car st)) car = None"
  "\<not> hm_contains (st_known_cars (remove_car car st)) car" "hm_get (st_car_identity (remove_car car st)) car = None"
  by (simp_all add: remove_car_def hm_contains_def Let_def split: option.split)

text \<open>
  Whatever a turn does, its final system is what a clean-up made of a system with the local race
  of the start.
\<close>

definition cleans_up :: "'n worker_env \<Rightarrow> stream_context \<Rightarrow> 'n stream_turn \<Rightarrow> 'n race_system \<Rightarrow> 'n turn_result \<Rightarrow> bool" where
  "cleans_up env ctx turn sys r \<longleftrightarrow> (fst r \<noteq> Continues \<longrightarrow>
     (\<exists>s. snd (snd (snd r)) = cleanup_participant_car env (tu_others turn) (tu_timed_out turn) ctx s \<and>
          rs_local_race s = rs_local_race sys))"

lemma finish_cleans_up:
  "rs_local_race s = rs_local_race sys \<Longrightarrow> cleans_up env ctx turn sys (finish_stream env ctx turn reason error evs st s)"
  by (auto simp: cleans_up_def finish_stream_def)

lemma continues_cleans_up: "cleans_up env ctx turn sys (Continues, evs, st, s)"
  by (simp add: cleans_up_def)

lemma send_cleans_up:
  assumes "tu_others turn = race_alone" and "rs_local_race s = rs_local_race sys"
  shows "cleans_up env ctx turn sys (send_or_finish env ctx turn reason payload st s)"
  using assms
  by (cases "tu_received turn 0")
     (simp_all add: send_or_finish_def send_participant_event_def finish_cleans_up continues_cleans_up)

lemma answers_local_race:
  assumes "tu_others turn = race_alone"
  shows "rs_local_race (snd (back_to_track_answer env ctx turn n sys)) = rs_local_race sys"
    "rs_local_race (snd (emergency_pitstop_answer env ctx turn n sys)) = rs_local_race sys"
    "rs_local_race (snd (set_next_tire_answer env cfg ctx turn n raw sys)) = rs_local_race sys"
proof -
  have g: "snd (local_race_gameplay_closed fs turn target sys) = sys" for fs target
    using assms by (simp add: local_race_gameplay_closed_def split: command_target.split)
  show "rs_local_race (snd (back_to_track_answer env ctx turn n sys)) = rs_local_race sys"
    "rs_local_race (snd (emergency_pitstop_answer env ctx turn n sys)) = rs_local_race sys"
    using assms
    by (auto simp: back_to_track_answer_def emergency_pitstop_answer_def case_prod_beta Let_def g client_defs on_store_def
        split: sum.split)
  show "rs_local_race (snd (set_next_tire_answer env cfg ctx turn n raw sys)) = rs_local_race sys"
    using assms by (simp add: set_next_tire_answer_def case_prod_beta Let_def g on_store_def split: option.split)
qed

lemma message_cleans_up:
  assumes "tu_others turn = race_alone"
  shows "cleans_up env ctx turn sys (on_message env cfg ctx settings turn payload st sys)"
proof -
  have i: "cleans_up env ctx turn sys (on_init env ctx settings turn st sys)"
    using assms
    by (cases "tu_received turn 0"; cases "tu_received turn 1")
       (simp_all add: on_init_def send_participant_event_def finish_cleans_up continues_cleans_up case_prod_beta client_defs)
  have d: "cleans_up env ctx turn sys (drive_car env ctx turn frame seq requested st sys)" for frame seq requested
    using assms
    by (simp add: drive_car_def worker_call_alone Let_def client_defs finish_cleans_up send_cleans_up on_store_def
        split: sum.split)
  have g: "local_race_gameplay_closed fs turn target sys = (fst (local_race_gameplay_closed fs turn target sys), sys)" for fs target
    using assms by (simp add: local_race_gameplay_closed_def split: command_target.split)
  have c: "cleans_up env ctx turn sys (on_controls env cfg ctx turn v st sys)" for v
    using assms
    by (subst on_controls_def, subst g)
       (auto simp: before_init_def finish_cleans_up continues_cleans_up send_cleans_up d on_store_def Let_def
          split: sum.split option.split)
  show ?thesis
    using i c assms
    by (simp add: on_message_def on_command_def before_init_def finish_cleans_up send_command_ack_def send_cleans_up
        answers_local_race split: participant_payload.split)
qed

lemma step_cleans_up:
  assumes "tu_others turn = race_alone"
  shows "cleans_up env ctx turn sys (stream_turn_step env cfg ctx settings turn st sys)"
proof -
  have "cleans_up env ctx turn sys (on_tick env ctx hz turn st sys)" for hz
    using assms
    by (simp add: on_tick_def finish_cleans_up continues_cleans_up send_cleans_up Let_def split: option.split)
  then show ?thesis
    using assms
    by (auto simp: stream_turn_step_def finish_cleans_up message_cleans_up split: stream_input.split option.split)
qed

section \<open>Joining a local race\<close>

text \<open>In the local builds joining a local sandbox is the quick join of the race service.\<close>

lemma local_sandbox_join_is_quick_join:
  assumes "local_mode (env_features env)"
  shows "local_sandbox_join_impl env = join_sandbox env"
proof -
  have p: "place_spawned_car env other pick sid car = apply_local_spawn_mode env other pick sid (TargetSandbox sid) car"
    for other pick sid car
    using assms by (simp add: fun_eq_iff place_spawned_car_def)
  show ?thesis
    unfolding fun_eq_iff local_sandbox_join_impl_def join_sandbox_def select_local_join_sandbox_def p Let_def by simp
qed

lemma start_slot_bounds: "slots \<noteq> 0 \<Longrightarrow> 1 \<le> start_slot_for n slots \<and> start_slot_for n slots \<le> slots"
proof -
  assume "slots \<noteq> 0"
  then have pos: "0 < unat slots" by (simp add: unat_gt_0)
  let ?m = "sat_sub (ucast n) 1 mod slots :: u64"
  have m: "unat ?m < unat slots" using pos by (simp add: unat_mod)
  have "unat slots \<le> 2 ^ 64 - 1" using unat_bound [of slots] by simp
  then have "unat (start_slot_for n slots) = unat ?m + 1"
    using m unat_sat_add [of ?m 1] by (simp add: start_slot_for_def)
  then show ?thesis using m by (simp add: word_le_nat_alt)
qed

lemma seat_cases:
  fixes env :: "'n worker_env"
  assumes "seat_local_racer env other race race_id name car e p sys = (Inr resp, sys')"
  obtains slots s1 and s2 :: "'n race_system" where "slots \<noteq> 0"
    "fst (client_set_car_at_start_pos_in env (TargetLocalRace race_id) e (start_slot_for (pr_participant_index p) slots) s2) = Inr ()"
    "resp = \<lparr>lj_car_id = car, lj_race_id = race_id, lj_map_id = ri_map_id race, lj_participant_index = pr_participant_index p\<rparr>"
    "sys' = on_store (register_local_racer race_id car e name (pr_participant_index p)) s1"
proof -
  obtain r0 s where r0: "worker_call other AwaitSlots (client_get_number_of_start_pos_in env (TargetLocalRace race_id)) sys = (r0, s)"
    by fastforce
  obtain slots where r: "r0 = Inr slots" using assms by (cases r0) (simp_all add: seat_local_racer_def r0)
  have nz: "slots \<noteq> 0" using assms by (auto simp: seat_local_racer_def r0 r failed_precondition_def)
  obtain r1 s1 where r1: "worker_call other AwaitPlace (client_set_car_at_start_pos_in env (TargetLocalRace race_id) e
      (start_slot_for (pr_participant_index p) slots)) s = (r1, s1)" by fastforce
  obtain u where u: "r1 = Inr u" using assms nz by (cases r1) (simp_all add: seat_local_racer_def r0 r r1 Let_def)
  obtain s2 s3 :: "'n race_system" where
    "client_set_car_at_start_pos_in env (TargetLocalRace race_id) e (start_slot_for (pr_participant_index p) slots) s2 = (Inr u, s3)"
    using worker_call_ok [OF r1 [unfolded u]] by blast
  then show ?thesis using that [OF nz, of s2 s1] assms nz by (simp add: seat_local_racer_def r0 r r1 u)
qed

lemma local_join_cases:
  fixes env :: "'n worker_env"
  assumes "local_race_join_impl env other now race_id0 name0 sys = (Inr resp, sys')"
  obtains race e p s2 car lr and s0 :: "'n race_system" and lr0 where
    "ri_race_id race = trim race_id0" "trim race_id0 \<noteq> []"
    "fst (client_spawn_local_race_car env (trim race_id0) s0) = Inr e"
    "register_participant (now AwaitRegister) (trim race_id0) car (local_display_name name0) lr0 = (Inr p, lr)"
    "seat_local_racer env other race (trim race_id0) (local_display_name name0) car e p s2 = (Inr resp, sys')"
proof -
  let ?id = "trim race_id0"
  have ne: "?id \<noteq> []" using assms by (auto simp: local_race_join_impl_def invalid_argument_def)
  obtain a s where a: "race_read other AwaitActiveRace (\<lambda>s. active_race (now AwaitActiveRace) (rs_local_race s)) sys = (a, s)"
    by fastforce
  note j = assms [unfolded local_race_join_impl_def a Let_def, simplified]
  obtain race where r: "a = Some race" using j ne by (cases a) (simp_all add: failed_precondition_def)
  have id: "ri_race_id race = ?id" using j ne by (auto simp: r not_found_def split: if_splits)
  obtain r1 s1 where r1: "worker_call other AwaitSpawn (client_spawn_local_race_car env ?id) s = (r1, s1)" by fastforce
  obtain e where e: "r1 = Inr e" using j ne id by (cases r1) (simp_all add: r r1)
  obtain s0 s0' :: "'n race_system" where "client_spawn_local_race_car env ?id s0 = (Inr e, s0')"
    using worker_call_ok [OF r1 [unfolded e]] by blast
  then have sp: "fst (client_spawn_local_race_car env ?id s0) = Inr e" by simp
  obtain car st where c: "allocate_public_car_id (rs_store s1) = (car, st)" by fastforce
  let ?reg = "register_participant (now AwaitRegister) ?id car (local_display_name name0)"
  let ?s = "other AwaitRegister False (s1\<lparr>rs_store := st\<rparr>)"
  obtain r2 lr where r2: "?reg (rs_local_race ?s) = (r2, lr)" by fastforce
  then have call: "race_call other AwaitRegister (on_local_race ?reg) (s1\<lparr>rs_store := st\<rparr>) =
      (r2, other AwaitRegister True (?s\<lparr>rs_local_race := lr\<rparr>))"
    by (simp add: race_call_def on_local_race_def)
  obtain p where p: "r2 = Inr p" using j ne id by (cases r2) (simp_all add: r r1 e c call)
  show ?thesis using that [OF id ne sp r2 [unfolded p]] j ne id by (simp add: r r1 e c call p)
qed

lemma quiet_local_join:
  assumes "trim race_id0 = race_id" and "race_id \<noteq> []" and "local_mode (env_features env)"
    and "active_race (now AwaitActiveRace) (rs_local_race sys) = Some race" and "ri_race_id race = race_id"
    and "client_spawn_local_race_car env race_id sys = (Inr e, s1)" and "allocate_public_car_id (rs_store s1) = (car, st)"
    and "register_participant (now AwaitRegister) race_id car (local_display_name name0) (rs_local_race s1) = (Inr p, lr)"
  shows "local_race_join env race_alone now race_id0 name0 sys =
    seat_local_racer env race_alone race race_id (local_display_name name0) car e p (s1\<lparr>rs_store := st, rs_local_race := lr\<rparr>)"
  using assms by (simp add: local_race_join_def local_race_join_impl_def worker_call_alone on_local_race_def)

lemma register_local_racer_sel:
  assumes "st' = register_local_racer race_id car e name n st"
  shows "hm_get (st_car_targets st') car = Some (TargetLocalRace race_id)" "hm_get (st_car_engine_ids st') car = Some e"
    "hm_contains (st_known_cars st') car" "hm_get (st_last_client_seq st') car = Some 0"
    "car_identity car st' = Some (identity_default\<lparr>id_local_race_display_name := Some name,
       id_local_race_participant_index := Some n\<rparr>)"
  by (simp_all add: assms register_local_racer_def set_car_identity_def car_identity_def hm_contains_def Let_def)

section \<open>A small local race\<close>

definition racer_env :: "u64 \<Rightarrow> u64 list worker_env" where
  "racer_env slots = team_env\<lparr>env_features := \<lparr>official = False, local_mode = True, standalone = True\<rparr>,
     env_api := sample_api\<lparr>n_get_number_of_start_pos := (\<lambda>_. (BOINK_OK, slots))\<rparr>\<rparr>"

definition racer_worker :: "u64 list \<Rightarrow> u64 list worker" where
  "racer_worker race = (spawn_worker None)\<lparr>w_runtime := team_runtime\<lparr>rt_activity_kind := ActLocalRace, rt_active_sandboxes := [],
     rt_active_local_race := Some \<lparr>lr_race_id = ''r1'', lr_map_id = ''m1'', lr_time_of_day_preset = TodNoon,
       lr_weather_now = None\<rparr>\<rparr>, w_local := [(''r1'', team_slot race)]\<rparr>"

definition staged_race :: "u32 \<Rightarrow> local_race_runtime_info" where
  "staged_race limit =
     \<lparr>ri_race_id = ''r1'', ri_race_name = ''Cup'', ri_map_id = ''m1'', ri_race_duration_sec = 60, ri_time_of_day = None,
      ri_active_time_of_day_preset = ProtoNoon, ri_ghost_mode = None, ri_weather = None, ri_phase = PhaseStaging,
      ri_created_at_utc = None, ri_countdown_end_at_utc = None, ri_running_started_at_utc = None,
      ri_planned_end_at_utc = None, ri_joined_participant_count = 0, ri_max_participants = limit\<rparr>"

definition staged_state :: "(u64, participant_record) hmap \<Rightarrow> local_race_state" where
  "staged_state ps = \<lparr>ra_active = Some ((staged_race 1)\<lparr>ri_joined_participant_count := clamped_len ps\<rparr>),
     ra_participants = ps, ra_next_participant_index = of_nat (length ps + 1), ra_finish_soft_freeze_applied = False\<rparr>"

definition racer_system :: "u64 list \<Rightarrow> (u64, participant_record) hmap \<Rightarrow> runtime_store \<Rightarrow> u64 list race_system" where
  "racer_system race ps st =
     (team_system [] 0 st)\<lparr>sys_worker := racer_worker race, rs_joins := [], rs_local_race := staged_state ps\<rparr>"

definition ann :: participant_record where
  "ann = \<lparr>pr_car_id = 1, pr_display_name = ''Ann'', pr_participant_index = 1\<rparr>"

lemma trim_r1: "trim ''r1'' = ''r1''" "local_display_name ''Ann'' = ''Ann''"
proof -
  have a: "trim ''Ann'' = ''Ann''" by (simp add: trim_graphic graphic_def)
  show "trim ''r1'' = ''r1''" by (simp add: trim_graphic graphic_def)
  have "length (char_indices ''Ann'') \<le> 3" unfolding char_indices_def by (rule order_trans [OF length_filter_le]) simp
  then show "local_display_name ''Ann'' = ''Ann''" by (simp add: local_display_name_def a first_chars_def)
qed

lemma racer_sel [simp]:
  "rs_store (racer_system race ps st) = st" "sys_worker (racer_system race ps st) = racer_worker race"
  "rs_local_race (racer_system race ps st) = staged_state ps"
  "(racer_system race ps st)\<lparr>sys_worker := racer_worker race'\<rparr> = racer_system race' ps st"
  "(racer_system race ps st)\<lparr>rs_store := st'\<rparr> = racer_system race ps st'"
  "(racer_system race ps st)\<lparr>rs_local_race := staged_state ps'\<rparr> = racer_system race ps' st"
  by (simp_all add: racer_system_def team_system_def)

lemma racer_worker_sel:
  "w_running (racer_worker race)"
  "target_slot (TargetLocalRace ''r1'') (racer_worker race) = Inr (team_slot race)"
  "(racer_worker race)\<lparr>w_local := hm_insert ''r1'' (team_slot race') (w_local (racer_worker race))\<rparr> = racer_worker race'"
  by (simp_all add: racer_worker_def spawn_worker_def target_slot_def ok_or_def hm_get_def hm_insert_def blank_def trim_r1)

lemma racer_spawn:
  "client_spawn_local_race_car (racer_env n) ''r1'' (racer_system [] ps st) = (Inr 1, racer_system [1] ps st)"
proof -
  have "spawn_car_op (racer_env n) (team_slot []) = (Inr 1, team_slot [1])"
    by (simp add: spawn_car_op_def spawn_vehicle_def engine_force_set_vehicle_tyre_type_def native_unit_def sample_api_def
        team_slot_def BOINK_OK_def sample_engine_def sample_on_def status_result_def racer_env_def)
  then show ?thesis
    by (simp add: client_world_defs client_results on_worker_def with_target_slot_mut_def racer_worker_sel)
qed

lemma racer_slots:
  "client_get_number_of_start_pos_in (racer_env n) (TargetLocalRace ''r1'') (racer_system race ps st) = (Inr n, racer_system race ps st)"
proof -
  have "reading (engine_get_number_of_start_pos (env_api (racer_env n))) (team_slot race) = (Inr n, team_slot race)"
    by (simp add: reading_def engine_get_number_of_start_pos_def racer_env_def sample_api_def status_result_def BOINK_OK_def
        engine_err_def)
  then show ?thesis
    by (simp add: client_get_number_of_start_pos_in_def client_call_def answer_def with_target_slot_mut_def racer_worker_sel)
qed

lemma racer_place:
  "client_set_car_at_start_pos_in (racer_env n) (TargetLocalRace ''r1'') 1 slot (racer_system [1] ps st) =
     (Inr (), racer_system [1] ps st)"
proof -
  have "on_engine (engine_set_vehicle_at_start_pos (env_api (racer_env n)) 1 slot) (team_slot [1]) = (Inr (), team_slot [1])"
    by (simp add: on_engine_def engine_set_vehicle_at_start_pos_def native_unit_def status_result_def sample_api_def racer_env_def
        sample_on_def team_slot_def engine_err_def BOINK_OK_def)
  then show ?thesis
    by (simp add: client_set_car_at_start_pos_in_def client_call_def answer_def with_target_slot_mut_def racer_worker_sel)
qed

lemma clamped_one: "clamped_len [x] = 1"
  by (simp add: clamped_len_def unat_max_word)

lemma second_index: "sat_add (1 :: u32) 1 = 2"
  by code_simp

lemma racer_registers:
  "register_participant now ''r1'' 1 ''Ann'' (staged_state []) = (Inr ann, staged_state [(1, ann)])"
  "active_race now (staged_state []) = Some (staged_race 1)"
  by (simp_all add: register_participant_def active_race_def staged_state_def staged_race_def normalize_race_phase_at_def
      with_joined_count_def joined_count_for_race_def clamped_len_def ann_def set_stored_count_def hm_insert_def second_index Let_def)

definition quiet :: "stream_input \<Rightarrow> 'n stream_turn" where
  "quiet inp = \<lparr>tu_others = race_alone, tu_clock_ms = 0, tu_received = (\<lambda>_. True), tu_room = True, tu_timed_out = False,
     tu_input = inp\<rparr>"

lemma quiet_is_quiet: "quiet_turn (quiet inp)" "tu_others (quiet inp) = race_alone" "tu_input (quiet inp) = inp"
  by (simp_all add: quiet_turn_def quiet_def)

definition racer_context :: stream_context where
  "racer_context = \<lparr>px_car_id = 1, px_engine_car_id = 1, px_target = TargetLocalRace ''r1'', px_scopes = []\<rparr>"

lemma racer_sample:
  "px_target racer_context = TargetLocalRace ''r1''" "px_car_id racer_context = 1" "px_engine_car_id racer_context = 1"
  "local_mode (env_features (racer_env n))" "tu_clock_ms (quiet inp) = 0"
  by (simp_all add: racer_context_def racer_env_def quiet_def)

lemma racer_join_facts:
  "allocate_public_car_id (rs_store (racer_system [1] [] store_new)) = (1, snd (allocate_public_car_id store_new))"
  "(racer_system [1] [] store_new)\<lparr>rs_store := st, rs_local_race := staged_state [(1, ann)]\<rparr> = racer_system [1] [(1, ann)] st"
  "active_race ((\<lambda>_. 0) AwaitActiveRace) (rs_local_race (racer_system [] [] store_new)) = Some (staged_race 1)"
  "register_participant ((\<lambda>_. 0) AwaitRegister) ''r1'' 1 (local_display_name ''Ann'') (rs_local_race (racer_system [1] [] store_new)) =
      (Inr ann, staged_state [(1, ann)])"
  "ri_race_id (staged_race 1) = ''r1''"
  by (simp_all add: allocate_public_car_id_def store_new_def racer_registers trim_r1)
     (simp_all add: racer_system_def team_system_def staged_race_def)

section \<open>Properties\<close>

text \<open>
  C27. The messages of a participant stream, whatever the bot sends, other tasks do and
  however the stream ends: they are numbered from 1 without a gap (until the numbers are
  exhausted), the first one is the settings and the second one the bootstrap, and neither is
  ever sent again; the turns before the bot's initial message, ticks included, send nothing.
\<close>

theorem stream_messages_ordered:
  assumes "run_participant_stream env cfg ctx turns sys = (e, events, st', sys')"
  shows "protocol_order (map ev_payload events) \<and>
    (\<forall>i < length events. unat (ev_server_seq (events ! i)) = min (i + 1) (2 ^ 64 - 1)) \<and>
    fst (snd (run_participant_stream env cfg ctx
      (takeWhile (\<lambda>turn. tu_input turn \<noteq> ClientMessage (Some PayloadInit)) turns) sys)) = []"
proof -
  have "map ev_server_seq events = numbers_from 1 (length events) \<and> protocol_order (map ev_payload events)"
    using loop_messages assms [unfolded run_participant_stream_def] by (fastforce simp: stream_state_new_def)
  moreover have "ev_server_seq (events ! i) = map ev_server_seq events ! i" if "i < length events" for i
    using that by simp
  moreover have "list_all (\<lambda>turn. \<not> says_hello turn)
      (takeWhile (\<lambda>turn. tu_input turn \<noteq> ClientMessage (Some PayloadInit)) turns)"
    by (auto simp: list_all_iff says_hello_def dest: set_takeWhileD)
  ultimately show ?thesis
    by (simp add: numbers_from_nth run_participant_stream_def loop_before_hello stream_state_new_def)
qed

lemma quiet_init:
  "\<exists>a b st' s'. stream_turn_step env cfg ctx settings (quiet (ClientMessage (Some PayloadInit))) stream_state_new sys =
     (Continues, [a, b], st', s')"
  by (simp add: stream_turn_step_def quiet_def on_message_def on_init_def stream_state_new_def send_participant_event_def
      case_prod_beta)

lemma quiet_close:
  "\<exists>st' s'. stream_turn_step env cfg ctx settings (quiet ClientClosed) st sys = (Ends ''disconnect'' None, [], st', s')"
  by (simp add: stream_turn_step_def quiet_def finish_stream_def)

theorem stream_messages_ordered_witness:
  "\<forall>cfg. \<exists>e events st' sys'. run_participant_stream (racer_env 8) cfg racer_context
       [quiet (ClientMessage (Some PayloadInit)), quiet ClientClosed] (racer_system [1] [(1, ann)] store_new) =
     (e, events, st', sys') \<and> length events = 2 \<and> unat (ev_server_seq (events ! 1)) = 2"
proof
  fix cfg
  let ?run = "run_participant_stream (racer_env 8) cfg racer_context
       [quiet (ClientMessage (Some PayloadInit)), quiet ClientClosed] (racer_system [1] [(1, ann)] store_new)"
  obtain e events st' sys' where r: "?run = (e, events, st', sys')" by (metis prod_cases4)
  let ?settings = "stream_settings_of cfg racer_context (rs_latest (racer_system [1] [(1, ann)] store_new))"
  obtain a b st1 and s1 :: "u64 list race_system" where i: "stream_turn_step (racer_env 8) cfg racer_context ?settings
      (quiet (ClientMessage (Some PayloadInit))) stream_state_new (racer_system [1] [(1, ann)] store_new) = (Continues, [a, b], st1, s1)"
    using quiet_init by blast
  obtain st2 and s2 :: "u64 list race_system" where
    "stream_turn_step (racer_env 8) cfg racer_context ?settings (quiet ClientClosed) st1 s1 = (Ends ''disconnect'' None, [], st2, s2)"
    using quiet_close by blast
  then have "length events = 2" using r by (auto simp: run_participant_stream_def i)
  then show "\<exists>e events st' sys'. ?run = (e, events, st', sys') \<and> length events = 2 \<and> unat (ev_server_seq (events ! 1)) = 2"
    using stream_messages_ordered [OF r] r by auto
qed



text \<open>
  C29. An emergency stop overrules the driver: while the 30 s lock of a stop requested at \<open>t\<close> lasts,
  whatever valid controls the bot asks for, the worker receives the controls that hold
  the car: no throttle, full brake, brake balance one half, differential open, steering
  straight and no gear shift. Between the stop and the message any operations of the store may
  have run that do not remove the car; during the turn no other task runs, the bot takes the
  answer, and if the car drives in a local race, that race is running. If the worker accepts the controls, the store keeps
  what the bot asked for and the bot is told the gear shift the simulation accepted; if it
  refuses them, the stream ends with the worker's error.
\<close>

theorem emergency_stop_overrules_driver:
  assumes "store_run fs ls (mark_emergency_pitstop_requested (px_car_id ctx) t st0) (rs_store sys)"
    and "Removed (px_car_id ctx) \<notin> set ls"
    and "t \<le> fr_server_time_ms (rs_latest sys)" and "fr_server_time_ms (rs_latest sys) < sat_add t 30000"
    and "tu_others turn = race_alone" "tu_received turn 0" and "tu_input turn = ClientMessage (Some (PayloadControls v))" and "sx_initialized st"
    and "proto_participant_controls_to_controls (rc_shift_of cfg) (PayloadControls v) = Inr (Some (seq, requested))"
    and "case px_target ctx of TargetLocalRace race_id \<Rightarrow> \<not> gameplay_commands_closed (tu_clock_ms turn) race_id (rs_local_race sys)
         | _ \<Rightarrow> True"
  shows "case client_set_controls_in env (px_target ctx) (px_engine_car_id ctx)
      \<lparr>ctl_throttle = Fin 0, ctl_brake = Fin 1, ctl_brake_balancer = Fin (1 / 2),
       ctl_differential_lock = Fin 0, ctl_steer = Fin 0, ctl_gear_shift = NoShift\<rparr> sys of
      (Inr accepted, s1) \<Rightarrow> stream_turn_step env cfg ctx settings turn st sys =
        (Continues, [\<lparr>ev_server_seq = sx_server_seq st,
            ev_payload = AckEvent (participant_ack seq (fr_tick (rs_latest sys))
              (engine_gear_shift_to_proto (accepted_shift accepted)))\<rparr>],
         st\<lparr>sx_server_seq := sat_add (sx_server_seq st) 1\<rparr>, on_store (record_controls (px_car_id ctx) seq requested) s1)
    | (Inl err, s1) \<Rightarrow> \<exists>st' sys'. stream_turn_step env cfg ctx settings turn st sys =
        (Ends ''set-controls-failed'' (if tu_room turn then Some (map_worker_err err) else None), [], st', sys')"
proof -
  have quiet: "quiet_turn turn" using assms(5,6) by (simp add: quiet_turn_def)
  have lock: "sn_emergency_lock_remaining_ms
      (store_pit_state_snapshot (px_car_id ctx) (fr_server_time_ms (rs_latest sys)) (rs_store sys)) > 0"
    using emergency_lock_lasting [OF assms(1-3)] assms(4) by (simp add: EMERGENCY_PIT_LOCK_MS_def)
  have gate: "local_race_gameplay_closed (env_features env) turn (px_target ctx) sys = (False, sys)"
    using assms(5,10) by (simp add: alone_gate split: command_target.splits)
  have step: "stream_turn_step env cfg ctx settings turn st sys = drive_car env ctx turn (rs_latest sys) seq requested st sys"
    unfolding quiet_step [OF quiet assms(7)] on_message_def on_controls_def
    by (simp only: participant_payload.case assms(8,9) not_True_eq_False if_False sum.case option.case prod.case Let_def gate)
  obtain r s1 where r: "client_set_controls_in env (px_target ctx) (px_engine_car_id ctx) held_controls sys = (r, s1)" by fastforce
  have call: "worker_call (tu_others turn) AwaitCommand (client_set_controls_in env (px_target ctx) (px_engine_car_id ctx)
      (if sn_emergency_lock_remaining_ms (store_pit_state_snapshot (px_car_id ctx) (fr_server_time_ms (rs_latest sys)) (rs_store sys)) > 0
       then held_controls else requested)) sys = (map_sum map_worker_err (\<lambda>v. v) r, s1)"
    by (simp only: assms(5) worker_call_alone if_P [OF lock] r fst_conv snd_conv)
  show ?thesis
    unfolding held_controls_are [symmetric] r step drive_car_def Let_def call
    by (cases r) (simp_all add: quiet_send [OF quiet] finish_stream_def)
qed

definition full_throttle :: participant_controls where
  "full_throttle = \<lparr>pc_client_seq = 9, pc_throttle = Fin 1, pc_brake = Fin 0, pc_brake_balancer = Fin (1 / 2),
     pc_differential_lock = Fin 0, pc_steering = Fin 0, pc_gear_shift = 1\<rparr>"

definition drive_config :: race_config where
  "drive_config = \<lparr>rc_production = False, rc_simulation_hz = 60, rc_shift_of = (\<lambda>_. Some ProtoShiftNone),
     rc_tire_of = (\<lambda>_. None), rc_view_of = (\<lambda>_. None), rc_view_code = (\<lambda>_. 0)\<rparr>"

lemma team_hold:
  "client_set_controls_in team_env (TargetSandbox ''s1'') 1 held_controls (team_system [1] t st) =
     (Inr \<lparr>accepted_shift = NoShift\<rparr>, team_system [1] t st)"
proof -
  have "engine_set_controls sample_api 1 held_controls (slot_engine (team_slot [1])) =
      (Inr \<lparr>accepted_shift = NoShift\<rparr>, slot_engine (team_slot [1]))"
    by (simp add: engine_set_controls_def sample_api_def sample_on_def team_slot_def controls_as_ffi_def held_controls_def
        controls_new_def accepted_controls_try_from_def)
  then show ?thesis
    by (simp add: client_results on_worker_def with_target_slot_mut_def team_worker_sel on_engine_def engine_err_def Let_def
        same_worker)
qed

theorem emergency_stop_overrules_driver_witness:
  "\<exists>ack st' c. stream_turn_step team_env drive_config
       \<lparr>px_car_id = 7, px_engine_car_id = 1, px_target = TargetSandbox ''s1'', px_scopes = []\<rparr> (stream_settings_of drive_config racer_context (empty_frame 0 0))
       (quiet (ClientMessage (Some (PayloadControls full_throttle)))) (stream_state_new\<lparr>sx_initialized := True\<rparr>)
       (team_system [1] 20000 (mark_emergency_pitstop_requested 7 1000 store_new)) =
     (Continues, [ack], st', on_store (record_controls 7 9 c)
       (team_system [1] 20000 (mark_emergency_pitstop_requested 7 1000 store_new))) \<and> ctl_throttle c = Fin 1"
proof -
  let ?ctx = "\<lparr>px_car_id = 7, px_engine_car_id = 1, px_target = TargetSandbox ''s1'', px_scopes = []\<rparr>"
  let ?store = "mark_emergency_pitstop_requested 7 1000 store_new" and ?sys = "team_system [1] 20000 (mark_emergency_pitstop_requested 7 1000 store_new)"
  let ?c = "controls_new (Fin 1) (Fin 0) (Fin (1 / 2)) (Fin 0) (Fin 0) NoShift"
  have run: "store_run fs [] (mark_emergency_pitstop_requested (px_car_id ?ctx) 1000 store_new) (rs_store ?sys)" for fs
    by (simp add: run_Nil)
  have t: "(1000 :: u64) \<le> fr_server_time_ms (rs_latest ?sys)" "fr_server_time_ms (rs_latest ?sys) < sat_add 1000 30000"
    by (simp_all add: empty_frame_def sat_add_def)
  have c: "proto_participant_controls_to_controls (rc_shift_of drive_config) (PayloadControls full_throttle) = Inr (Some (9, ?c))"
    by (simp add: controls_from_proto_def proto_gear_shift_to_engine_def drive_config_def full_throttle_def)
  have hold: "client_set_controls_in team_env (px_target ?ctx) (px_engine_car_id ?ctx) held_controls ?sys =
      (Inr \<lparr>accepted_shift = NoShift\<rparr>, ?sys)" by (simp add: team_hold)
  have "ctl_throttle ?c = Fin 1" by (simp add: controls_new_def fp_clamp_def)
  then show ?thesis
    using emergency_stop_overrules_driver [OF run _ t quiet_is_quiet(2) _ quiet_is_quiet(3), of full_throttle "stream_state_new\<lparr>sx_initialized := True\<rparr>"
        drive_config 9 ?c team_env "stream_settings_of drive_config racer_context (empty_frame 0 0)"] c hold
    by (simp add: quiet_def held_controls_are) blast
qed

text \<open>
  The end of a stream in a local race, for whatever reason: the store forgets the car, but
  the local race keeps the bot as a participant. A race whose places are taken therefore stays
  full although the car is gone: every further join is refused until the race is replaced.
\<close>

theorem departed_racer_keeps_its_place:
  assumes "px_target ctx = TargetLocalRace race_id" and "tu_others turn = race_alone"
    and "stream_turn_step env cfg ctx settings turn st sys = (Ends reason error, events, st', sys')"
    and "ra_active (rs_local_race sys) = Some race" and "ri_race_id race = race_id"
    and "ri_phase (normalize_race_phase_at race now) = PhaseStaging"
    and "ri_max_participants race > 0" and "ri_max_participants race \<le> clamped_len (ra_participants (rs_local_race sys))"
  shows "\<not> hm_contains (st_known_cars (rs_store sys')) (px_car_id ctx) \<and>
    hm_get (st_car_targets (rs_store sys')) (px_car_id ctx) = None \<and> rs_local_race sys' = rs_local_race sys \<and>
    fst (register_participant now race_id car name (rs_local_race sys')) = Inl ParticipantLimitReached"
proof -
  obtain s where s: "sys' = cleanup_participant_car env race_alone (tu_timed_out turn) ctx s" "rs_local_race s = rs_local_race sys"
    using step_cleans_up [OF assms(2), of env ctx sys cfg settings st] assms(2,3) by (auto simp: cleans_up_def)
  have max: "ri_max_participants (normalize_race_phase_at race now) = ri_max_participants race"
    by (simp add: normalize_race_phase_at_def Let_def split: local_race_phase.split option.split)
  have "fst (register_participant now race_id car name (rs_local_race sys)) = Inl ParticipantLimitReached"
    using assms(4-8) max by (simp add: register_participant_def Let_def)
  then show ?thesis by (simp add: s cleanup_local_racer [OF assms(1)] removed_car)
qed

theorem departed_racer_keeps_its_place_witness:
  "\<forall>cfg settings. fst (register_participant 0 ''r1'' 2 ''Bob'' (rs_local_race (snd (snd (snd
     (stream_turn_step (racer_env 8) cfg racer_context settings (quiet ClientClosed) stream_state_new
       (racer_system [1] [(1, ann)] store_new))))))) = Inl ParticipantLimitReached"
proof (intro allI)
  fix cfg settings
  let ?sys = "racer_system [1] [(1, ann)] store_new"
  obtain st' and s' :: "u64 list race_system" where
    r: "stream_turn_step (racer_env 8) cfg racer_context settings (quiet ClientClosed) stream_state_new ?sys =
      (Ends ''disconnect'' None, [], st', s')"
    using quiet_close by blast
  have full: "ra_active (rs_local_race ?sys) = Some ((staged_race 1)\<lparr>ri_joined_participant_count := 1\<rparr>)"
    "clamped_len (ra_participants (rs_local_race ?sys)) = 1"
    by (simp_all add: staged_state_def clamped_one)
  have race: "ri_race_id ((staged_race 1)\<lparr>ri_joined_participant_count := 1\<rparr>) = ''r1''"
    "ri_phase (normalize_race_phase_at ((staged_race 1)\<lparr>ri_joined_participant_count := 1\<rparr>) 0) = PhaseStaging"
    "0 < ri_max_participants ((staged_race 1)\<lparr>ri_joined_participant_count := 1\<rparr>)"
    "ri_max_participants ((staged_race 1)\<lparr>ri_joined_participant_count := 1\<rparr>) \<le> clamped_len (ra_participants (rs_local_race ?sys))"
    unfolding full by (simp_all add: staged_race_def normalize_race_phase_at_def)
  show "fst (register_participant 0 ''r1'' 2 ''Bob'' (rs_local_race (snd (snd (snd
     (stream_turn_step (racer_env 8) cfg racer_context settings (quiet ClientClosed) stream_state_new ?sys)))))) =
     Inl ParticipantLimitReached"
    using departed_racer_keeps_its_place [OF racer_sample(1) quiet_is_quiet(2) r full(1) race(1-3), of 2 "''Bob''"] race(4)
    unfolding r snd_conv by blast
qed

text \<open>
  A successful join of a local race (\<open>local_race_join\<close>), whatever other tasks do at its
  awaits: the car was spawned in the named race, its driver was registered as a participant,
  and the car was put on the start slot of the participant's index, which is one of the slots
  of the map; the store knows the car with its engine identifier, the race, client sequence 0
  and the display name and index of the participant.
\<close>

theorem local_race_join_seats_participant:
  fixes env :: "'n worker_env"
  assumes "local_race_join env other now race_id0 name0 sys = (Inr resp, sys')"
  shows "\<exists>e slots p lr lr' (s0 :: 'n race_system) (s1 :: 'n race_system).
    fst (client_spawn_local_race_car env (trim race_id0) s0) = Inr e \<and>
    register_participant (now AwaitRegister) (trim race_id0) (lj_car_id resp) (local_display_name name0) lr = (Inr p, lr') \<and>
    lj_participant_index resp = pr_participant_index p \<and> lj_race_id resp = trim race_id0 \<and>
    fst (client_set_car_at_start_pos_in env (TargetLocalRace (trim race_id0)) e
      (start_slot_for (pr_participant_index p) slots) s1) = Inr () \<and>
    1 \<le> start_slot_for (pr_participant_index p) slots \<and> start_slot_for (pr_participant_index p) slots \<le> slots \<and>
    hm_contains (st_known_cars (rs_store sys')) (lj_car_id resp) \<and>
    car_target (lj_car_id resp) (rs_store sys') = Some (TargetLocalRace (trim race_id0)) \<and>
    car_engine_id (lj_car_id resp) (rs_store sys') = Some e \<and>
    car_last_client_seq (lj_car_id resp) (rs_store sys') = 0 \<and>
    car_identity (lj_car_id resp) (rs_store sys') =
      Some (identity_default\<lparr>id_local_race_display_name := Some (local_display_name name0),
                             id_local_race_participant_index := Some (pr_participant_index p)\<rparr>)"
proof -
  have j: "local_race_join_impl env other now race_id0 name0 sys = (Inr resp, sys')"
    using assms by (auto simp: local_race_join_def unimplemented_def split: if_splits)
  obtain race e p s2 car lr lr' and s0 :: "'n race_system" where
    sp: "fst (client_spawn_local_race_car env (trim race_id0) s0) = Inr e"
    and reg: "register_participant (now AwaitRegister) (trim race_id0) car (local_display_name name0) lr = (Inr p, lr')"
    and seat: "seat_local_racer env other race (trim race_id0) (local_display_name name0) car e p s2 = (Inr resp, sys')"
    using local_join_cases [OF j] by metis
  obtain slots s3 and s1 :: "'n race_system" where nz: "slots \<noteq> 0"
    and place: "fst (client_set_car_at_start_pos_in env (TargetLocalRace (trim race_id0)) e
        (start_slot_for (pr_participant_index p) slots) s1) = Inr ()"
    and resp: "resp = \<lparr>lj_car_id = car, lj_race_id = trim race_id0, lj_map_id = ri_map_id race,
        lj_participant_index = pr_participant_index p\<rparr>"
    and sys': "sys' = on_store (register_local_racer (trim race_id0) car e (local_display_name name0) (pr_participant_index p)) s3"
    using seat_cases [OF seat] by metis
  have st: "rs_store sys' = register_local_racer (trim race_id0) car e (local_display_name name0) (pr_participant_index p) (rs_store s3)"
    by (simp add: sys')
  show ?thesis
    using sp reg place resp start_slot_bounds [OF nz] register_local_racer_sel [OF st]
    by (intro exI [of _ e] exI [of _ slots] exI [of _ p] exI [of _ lr] exI [of _ lr'] exI [of _ s0] exI [of _ s1])
       (simp add: car_target_def car_engine_id_def car_last_client_seq_def)
qed

lemma racer_joins:
  "\<exists>sys'. local_race_join (racer_env 8) race_alone (\<lambda>_. 0) ''r1'' ''Ann'' (racer_system [] [] store_new) =
     (Inr \<lparr>lj_car_id = 1, lj_race_id = ''r1'', lj_map_id = ''m1'', lj_participant_index = 1\<rparr>, sys')"
proof -
  have j: "local_race_join (racer_env 8) race_alone (\<lambda>_. 0) ''r1'' ''Ann'' (racer_system [] [] store_new) =
      seat_local_racer (racer_env 8) race_alone (staged_race 1) ''r1'' (local_display_name ''Ann'') 1 1 ann
        (racer_system [1] [(1, ann)] (snd (allocate_public_car_id store_new)))"
    using quiet_local_join [OF trim_r1(1) _ racer_sample(4) racer_join_facts(3,5) racer_spawn racer_join_facts(1,4)]
    unfolding racer_join_facts(2) by blast
  have "ri_map_id (staged_race 1) = ''m1''" "pr_participant_index ann = 1" by (simp_all add: staged_race_def ann_def)
  then show ?thesis unfolding j by (simp add: seat_local_racer_def worker_call_alone racer_slots racer_place)
qed

theorem local_race_join_seats_participant_witness:
  "\<exists>sys'. local_race_join (racer_env 8) race_alone (\<lambda>_. 0) ''r1'' ''Ann'' (racer_system [] [] store_new) =
     (Inr \<lparr>lj_car_id = 1, lj_race_id = ''r1'', lj_map_id = ''m1'', lj_participant_index = 1\<rparr>, sys') \<and>
     car_target 1 (rs_store sys') = Some (TargetLocalRace ''r1'')"
proof -
  obtain sys' where j: "local_race_join (racer_env 8) race_alone (\<lambda>_. 0) ''r1'' ''Ann'' (racer_system [] [] store_new) =
     (Inr \<lparr>lj_car_id = 1, lj_race_id = ''r1'', lj_map_id = ''m1'', lj_participant_index = 1\<rparr>, sys')"
    using racer_joins by blast
  from local_race_join_seats_participant [OF j] j show ?thesis by (auto simp: trim_r1)
qed

text \<open>
  A join of a local race that finds no start slots, or cannot ask for their number, fails
  but leaves the car in the world and the driver among the participants, although the store
  has no entry for the car, so that nothing will remove either. A car that cannot be put on
  its slot, in contrast, is despawned and its driver removed.
\<close>

theorem unseated_racer_left_behind:
  assumes "trim race_id0 = race_id" and "race_id \<noteq> []" and "local_mode (env_features env)"
    and "active_race (now AwaitActiveRace) (rs_local_race sys) = Some race" and "ri_race_id race = race_id"
    and "client_spawn_local_race_car env race_id sys = (Inr e, s1)" and "allocate_public_car_id (rs_store s1) = (car, st)"
    and "register_participant (now AwaitRegister) race_id car (local_display_name name0) (rs_local_race s1) = (Inr p, lr)"
    and "client_get_number_of_start_pos_in env (TargetLocalRace race_id) (s1\<lparr>rs_store := st, rs_local_race := lr\<rparr>) = (slots, s2)"
    and "slots = Inr 0 \<or> slots = Inl err"
  shows "\<not> is_ok (fst (local_race_join env race_alone now race_id0 name0 sys)) \<and>
    snd (local_race_join env race_alone now race_id0 name0 sys) = s2 \<and>
    rs_local_race s2 = lr \<and> hm_get (ra_participants lr) car = Some p \<and> rs_store s2 = st"
proof -
  let ?s = "s1\<lparr>rs_store := st, rs_local_race := lr\<rparr>"
  have s2: "s2 = snd (client_get_number_of_start_pos_in env (TargetLocalRace race_id) ?s)" using assms(9) by simp
  have p: "hm_get (ra_participants lr) car = Some p"
    using assms(8)
    by (auto simp: register_participant_def set_stored_count_def Let_def split: option.splits if_splits)
  note quiet_local_join [OF assms(1-8)]
  moreover have "\<exists>r. \<not> is_ok r \<and> seat_local_racer env race_alone race race_id (local_display_name name0) car e p ?s = (r, s2)"
    using assms(10)
    by (elim disjE) (simp_all add: seat_local_racer_def worker_call_alone assms(9) failed_precondition_def)
  moreover have "rs_local_race s2 = lr" "rs_store s2 = st" by (simp_all add: s2 client_get_number_of_start_pos_in_def)
  ultimately show ?thesis using p by fastforce
qed

theorem unseated_racer_left_behind_witness:
  "snd (local_race_join (racer_env 0) race_alone (\<lambda>_. 0) ''r1'' ''Ann'' (racer_system [] [] store_new)) =
     racer_system [1] [(1, ann)] (snd (allocate_public_car_id store_new))"
proof -
  let ?st = "snd (allocate_public_car_id store_new)"
  have slots: "client_get_number_of_start_pos_in (racer_env 0) (TargetLocalRace ''r1'')
      ((racer_system [1] [] store_new)\<lparr>rs_store := ?st, rs_local_race := staged_state [(1, ann)]\<rparr>) =
      (Inr 0, racer_system [1] [(1, ann)] ?st)" unfolding racer_join_facts(2) by (rule racer_slots)
  from unseated_racer_left_behind [OF trim_r1(1) _ racer_sample(4) racer_join_facts(3,5) racer_spawn racer_join_facts(1,4) slots]
  show ?thesis by blast
qed

lemma digit_char:
  assumes "k < 10"
  shows "of_char (char_of (48 + k) :: char) = (48 + k :: nat)" "is_digit (char_of (48 + k))" "char_of (48 + k) \<noteq> CHR ''+''"
    "graphic (char_of (48 + k))"
proof -
  show c: "of_char (char_of (48 + k) :: char) = (48 + k :: nat)" using assms by (simp add: of_char_of)
  show "is_digit (char_of (48 + k))" using assms by (simp add: is_digit_def c)
  show "char_of (48 + k) \<noteq> CHR ''+''"
  proof
    assume "char_of (48 + k) = CHR ''+''"
    then have "(of_char (char_of (48 + k) :: char) :: nat) = of_char CHR ''+''" by (rule arg_cong)
    then have "48 + k = (43 :: nat)" unfolding c by simp
    then show False by simp
  qed
  show "graphic (char_of (48 + k))" using assms by (simp add: graphic_def c)
qed

lemma dec_nat_digits:
  "dec_nat n \<noteq> [] \<and> list_all is_digit (dec_nat n) \<and> list_all graphic (dec_nat n) \<and> hd (dec_nat n) \<noteq> CHR ''+'' \<and>
   digits_value (dec_nat n) = n"
proof (induction n rule: dec_nat.induct)
  case (1 n)
  show ?case
  proof (cases "n < 10")
    case True
    then show ?thesis using digit_char [OF True] by (simp add: dec_nat.simps [of n] digits_value_def)
  next
    case False
    have m: "n mod 10 < 10" by simp
    have n: "dec_nat n = dec_nat (n div 10) @ [char_of (48 + n mod 10)]" using False by (simp add: dec_nat.simps [of n])
    have "10 * (n div 10) + n mod 10 = n" by simp
    then show ?thesis using 1 [OF False] digit_char [OF m] by (simp add: n digits_value_def)
  qed
qed

text \<open>
  Standalone build: the identifier a join returned, written in decimal and sent back with
  the stream, names the same car.
\<close>

theorem car_id_header_roundtrip: "parse_standalone_car_id (HeaderText (dec_nat (unat car))) = Inr car"
proof -
  note d = dec_nat_digits [of "unat car"]
  have t: "trim (dec_nat (unat car)) = dec_nat (unat car)"
    using d by (intro trim_graphic) (simp add: list_all_iff)
  have "unat car < 2 ^ 64" using unat_bound [of car] by simp
  moreover have "(case dec_nat (unat car) of [] \<Rightarrow> [] | c # cs \<Rightarrow> if c = CHR ''+'' then cs else c # cs) = dec_nat (unat car)"
    using d by (cases "dec_nat (unat car)") simp_all
  ultimately have "parse_u64 (dec_nat (unat car)) = Some car" using d by (simp add: parse_u64_def Let_def)
  then show ?thesis using d by (simp add: t)
qed

end
