(* ===== verification/Bot_Artifacts.thy ===== *)
theory Bot_Artifacts
  imports Bot_Logs
begin

text \<open>
  The names, images, versions and containers of the bots: the functions of
  game-server/src/services/submission.rs that compute names and run docker, and
  services/log_redaction.rs except for its regular expressions. An error is its text. What the
  docker command answers is a parameter.
\<close>

section \<open>Text\<close>

text \<open>\<open>str::lines\<close>, \<open>split_once\<close>, \<open>rsplit_once\<close> and the trimming of one character.\<close>

fun split_on :: "char \<Rightarrow> string \<Rightarrow> string list" where
  "split_on c [] = [[]]"
| "split_on c (x # xs) =
     (if x = c then [] # split_on c xs
      else case split_on c xs of w # ws \<Rightarrow> (x # w) # ws | [] \<Rightarrow> [[x]])"

definition str_lines :: "string \<Rightarrow> string list" where
  "str_lines s =
     (let ls = split_on newline s; kept = (if last ls = [] then butlast ls else ls) in map strip_cr kept)"

definition split_once :: "char \<Rightarrow> string \<Rightarrow> (string \<times> string) option" where
  "split_once c s =
     (if c \<in> set s then Some (takeWhile (\<lambda>x. x \<noteq> c) s, tl (dropWhile (\<lambda>x. x \<noteq> c) s)) else None)"

definition rsplit_once :: "char \<Rightarrow> string \<Rightarrow> (string \<times> string) option" where
  "rsplit_once c s = map_option (\<lambda>(a, b). (rev b, rev a)) (split_once c (rev s))"

definition trim_start_char :: "char \<Rightarrow> string \<Rightarrow> string" where
  "trim_start_char c = dropWhile (\<lambda>x. x = c)"

definition trim_end_char :: "char \<Rightarrow> string \<Rightarrow> string" where
  "trim_end_char c s = rev (dropWhile (\<lambda>x. x = c) (rev s))"

definition strip_prefix :: "string \<Rightarrow> string \<Rightarrow> string option" where
  "strip_prefix p s = (if prefix p s then Some (drop (length p) s) else None)"

definition ends_with :: "string \<Rightarrow> string \<Rightarrow> bool" where
  "ends_with s e \<longleftrightarrow> suffix e s"

definition eq_ignore_ascii_case :: "string \<Rightarrow> string \<Rightarrow> bool" where
  "eq_ignore_ascii_case a b \<longleftrightarrow> to_ascii_lowercase a = to_ascii_lowercase b"

fun join_with :: "string \<Rightarrow> string list \<Rightarrow> string" where
  "join_with sep [] = []"
| "join_with sep [x] = x"
| "join_with sep (x # y # ys) = x @ sep @ join_with sep (y # ys)"

text \<open>The characters of a UTF-8 string.\<close>

function chars_of :: "string \<Rightarrow> string list" where
  "chars_of [] = []"
| "chars_of (c # s) =
     (c # takeWhile (\<lambda>x. \<not> is_char_start x) s) # chars_of (dropWhile (\<lambda>x. \<not> is_char_start x) s)"
  by pat_completeness auto
termination
  by (relation "measure length") (auto simp: less_Suc_eq_le length_dropWhile_le)

section \<open>Names\<close>

definition is_name_char :: "char \<Rightarrow> bool" where
  "is_name_char c \<longleftrightarrow> is_ascii_alphanumeric c \<or> c = CHR ''-'' \<or> c = CHR ''_''"

text \<open>Each character that is not allowed becomes one underscore, however many bytes it has.\<close>

definition sanitize_storage_component :: "string \<Rightarrow> string" where
  "sanitize_storage_component v =
     (let sanitized = map (\<lambda>ch. if length ch = 1 \<and> is_name_char (hd ch) then hd ch else CHR ''_'') (chars_of v);
          trimmed = trim_end_char CHR ''_'' (trim_start_char CHR ''_'' sanitized)
      in if trimmed = [] then ''unknown'' else trimmed)"

definition sanitize_tag_component :: "string \<Rightarrow> (string, string) result" where
  "sanitize_tag_component v0 =
     (let v = trim v0 in
      if v = [] then Inl ''tag component cannot be empty''
      else if \<not> list_all is_name_char v then Inl ''tag component contains unsupported characters''
      else Inr v)"

definition official_bot_container_name_for_team :: "string \<Rightarrow> (string, string) result" where
  "official_bot_container_name_for_team team_id =
     (case sanitize_tag_component team_id of
        Inl err \<Rightarrow> Inl err
      | Inr team \<Rightarrow> Inr (''ha3-official-bot-team-'' @ team))"

definition team_logs_dir :: "string \<Rightarrow> string \<Rightarrow> string" where
  "team_logs_dir submissions_root team_id = submissions_root @ ''/'' @ sanitize_storage_component team_id @ ''/logs''"

text \<open>
  The path of a bot's log; \<open>get(..12)\<close> cuts the identifier of the container only at a
  character boundary. The clock is an argument.
\<close>

definition is_char_boundary :: "string \<Rightarrow> nat \<Rightarrow> bool" where
  "is_char_boundary s n \<longleftrightarrow> n = length s \<or> n < length s \<and> is_char_start (s ! n)"

definition short_container_id :: "string \<Rightarrow> string" where
  "short_container_id container_id =
     (let t = trim container_id in if 12 \<le> length t \<and> is_char_boundary t 12 then take 12 t else t)"

definition build_bot_log_path ::
  "string \<Rightarrow> nat \<Rightarrow> string \<Rightarrow> string \<Rightarrow> string \<Rightarrow> int \<Rightarrow> string \<Rightarrow> string" where
  "build_bot_log_path submissions_root ts_ms team_id submission_id sandbox_id slot_index container_id =
     team_logs_dir submissions_root team_id @ ''/'' @ dec_nat ts_ms @ ''_team-'' @ sanitize_storage_component team_id @
     ''_submission-'' @ sanitize_storage_component submission_id @ ''_sandbox-'' @ sanitize_storage_component sandbox_id @ ''_slot-'' @
     dec_int slot_index @ ''_container-'' @ sanitize_storage_component (short_container_id container_id) @ ''.log''"

definition shell_escape_single :: "string \<Rightarrow> string" where
  "shell_escape_single v =
     [CHR 0x27] @ concat (map (\<lambda>c. if c = CHR 0x27 then [CHR 0x27, CHR 0x22, CHR 0x27, CHR 0x22, CHR 0x27] else [c]) v) @
     [CHR 0x27]"

section \<open>Images\<close>

definition format_image_ref :: "string \<Rightarrow> string \<Rightarrow> string \<Rightarrow> (string, string) result" where
  "format_image_ref registry0 team_id submission_id =
     (let registry = trim_end_char CHR ''/'' (trim registry0) in
      if registry = [] then Inl ''REGISTRY must be non-empty''
      else case sanitize_tag_component team_id of
        Inl err \<Rightarrow> Inl err
      | Inr team \<Rightarrow>
          (case sanitize_tag_component submission_id of
             Inl err \<Rightarrow> Inl err
           | Inr submission \<Rightarrow> Inr (registry @ ''/ha3/team-'' @ team @ '':submission-'' @ submission)))"

record parsed_image_ref =
  im_registry_host :: string
  im_repository :: string
  im_tag :: string

definition without_scheme :: "string \<Rightarrow> string" where
  "without_scheme s =
     (case strip_prefix ''http://'' s of
        Some t \<Rightarrow> t
      | None \<Rightarrow> (case strip_prefix ''https://'' s of Some t \<Rightarrow> t | None \<Rightarrow> s))"

definition parse_image_ref :: "string \<Rightarrow> (string, parsed_image_ref) result" where
  "parse_image_ref image_ref =
     (let trimmed = trim image_ref in
      if trimmed = [] then Inl ''image_ref is empty''
      else case split_once CHR ''/'' (without_scheme trimmed) of
        None \<Rightarrow> Inl ''image_ref must contain registry host and repository''
      | Some (host, repository_with_tag) \<Rightarrow>
          if trim host = [] then Inl ''image_ref registry host is empty''
          else
            (case rsplit_once CHR '':'' repository_with_tag of
               None \<Rightarrow> Inl ''image_ref must contain tag''
             | Some (repository, tag) \<Rightarrow>
                 if trim repository = [] then Inl ''image_ref repository is empty''
                 else if trim tag = [] then Inl ''image_ref tag is empty''
                 else Inr \<lparr>im_registry_host = trim host, im_repository = trim repository, im_tag = trim tag\<rparr>))"

definition registry_api_base_url :: "string \<Rightarrow> (string, string) result" where
  "registry_api_base_url registry_host =
     (let trimmed = trim_end_char CHR ''/'' (trim registry_host) in
      if trimmed = [] then Inl ''registry host is empty''
      else if prefix ''http://'' trimmed \<or> prefix ''https://'' trimmed then Inr trimmed
      else Inr (''http://'' @ trimmed))"

section \<open>Wrapper packages\<close>

definition normalize_wrapper_version :: "string \<Rightarrow> (string, string \<times> string) result" where
  "normalize_wrapper_version raw =
     (let trimmed = trim raw in
      if trimmed = [] then Inl ''wrapper_version must be non-empty''
      else
        let asset_version = trim_start_char CHR ''v'' trimmed in
        if asset_version = [] then Inl ''wrapper_version must contain version after optional `v` prefix''
        else Inr (''v'' @ asset_version, asset_version))"

definition is_csharp_asset_name_match :: "string \<Rightarrow> string \<Rightarrow> bool" where
  "is_csharp_asset_name_match asset_name asset_version0 =
     (let asset_version = to_ascii_lowercase asset_version0; name = to_ascii_lowercase asset_name in
      ends_with name ''.nupkg'' \<and>
      (prefix (''hackarena3-'' @ asset_version) name \<or>
       name = ''hackarena3.wrapper.csharp.'' @ asset_version @ ''.nupkg''))"

record github_release_asset =
  ga_id :: u64
  ga_name :: string

definition select_csharp_release_asset ::
  "github_release_asset list \<Rightarrow> string \<Rightarrow> string \<Rightarrow> (string, github_release_asset) result" where
  "select_csharp_release_asset assets asset_version release_tag =
     (case filter (\<lambda>a. is_csharp_asset_name_match (ga_name a) asset_version) assets of
        [] \<Rightarrow> Inl (''wrapper-fetch: release `'' @ release_tag @ ''` does not contain a C# package matching `hackarena3-'' @
               asset_version @ ''*.nupkg` or `HackArena3.Wrapper.CSharp.'' @ asset_version @ ''.nupkg`'')
      | [a] \<Rightarrow> Inr a
      | matches \<Rightarrow> Inl (''wrapper-fetch: release `'' @ release_tag @ ''` has multiple matching C# packages: '' @
               join_with '', '' (map ga_name matches)))"

definition select_typescript_release_asset ::
  "github_release_asset list \<Rightarrow> string \<Rightarrow> string \<Rightarrow> (string, github_release_asset) result" where
  "select_typescript_release_asset assets asset_version release_tag =
     (let expected = ''hackarena3-wrapper-ts-'' @ asset_version @ ''.tgz'' in
      case filter (\<lambda>a. eq_ignore_ascii_case (ga_name a) expected) assets of
        [] \<Rightarrow> Inl (''wrapper-fetch: release `'' @ release_tag @ ''` does not contain TypeScript package `'' @ expected @ ''`'')
      | [a] \<Rightarrow> Inr a
      | matches \<Rightarrow> Inl (''wrapper-fetch: release `'' @ release_tag @ ''` has multiple matching TypeScript packages: '' @
               join_with '', '' (map ga_name matches)))"

definition github_release_error_message :: "nat \<Rightarrow> string \<Rightarrow> string" where
  "github_release_error_message st release_tag =
     (if st = 401 \<or> st = 403 then ''wrapper-fetch: GitHub token missing or insufficient permissions''
      else if st = 404 then ''wrapper-fetch: release tag `'' @ release_tag @ ''` not found''
      else ''wrapper-fetch: GitHub release request failed with HTTP '' @ dec_nat st)"

definition github_asset_error_message :: "nat \<Rightarrow> string \<Rightarrow> string" where
  "github_asset_error_message st asset_name =
     (if st = 401 \<or> st = 403 then ''wrapper-fetch: GitHub token missing or insufficient permissions''
      else if st = 404 then ''wrapper-fetch: asset `'' @ asset_name @ ''` not found''
      else ''wrapper-fetch: GitHub asset download failed with HTTP '' @ dec_nat st)"

section \<open>Error texts\<close>

definition clip_for_error :: "string \<Rightarrow> string" where
  "clip_for_error v =
     (let trimmed = trim v; cs = chars_of trimmed in
      if trimmed = [] then ''<empty>''
      else if length cs \<le> 4000 then trimmed
      else concat (take 2200 cs) @ [newline] @ ''...[truncated '' @ dec_nat (length cs - 3800) @ '' chars]...'' @ [newline] @
           concat (rev (take 1600 (rev cs))))"

definition docker_error_hint :: "string \<Rightarrow> string option" where
  "docker_error_hint stderr =
     (let lower = to_ascii_lowercase stderr in
      if contains lower ''no such container'' then Some ''Docker container does not exist''
      else if contains lower ''cannot connect to the docker daemon''
      then Some ''Docker daemon is unavailable on backend host''
      else if contains lower ''pull access denied'' \<or> contains lower ''insufficient_scope'' \<or>
              contains lower ''requested access to the resource is denied''
      then Some ''Docker registry auth failed on backend host''
      else if contains lower ''manifest unknown'' \<or> contains lower ''not found'' \<or> contains lower ''no such image''
      then Some ''Docker image for selected slot was not found in registry''
      else None)"

definition ssh_error_hint :: "string \<Rightarrow> string option" where
  "ssh_error_hint stderr =
     (let lower = to_ascii_lowercase stderr in
      if contains lower ''permission denied (publickey)''
      then Some ''SSH auth failed: upload matching public key to builder root/.ssh/authorized_keys''
      else if contains lower ''identity file'' \<and> (contains lower ''not accessible'' \<or> contains lower ''no such file'')
      then Some ''SSH key file is missing or unreadable (BUILDER_SSH_KEY_PATH)''
      else if contains lower ''host key verification failed'' \<or> contains lower ''remote host identification has changed''
      then Some ''SSH host key verification failed (known_hosts mismatch)''
      else if contains lower ''no basic auth credentials'' \<or> contains lower ''push access denied'' \<or>
              contains lower ''authorization failed''
      then Some ''Registry auth failed on builder (docker login required on builder host)''
      else if contains lower ''could not resolve hostname'' then Some ''SSH host resolution failed for BUILDER_HOST''
      else None)"

section \<open>Containers\<close>

text \<open>
  A docker command is the list of its arguments and the variables set for it. Its answer is
  that it could not be started, did not end in time, or its exit status (none when it was
  killed) with the bytes of its output.
\<close>

record docker_call =
  dk_args :: "string list"
  dk_env :: "(string \<times> string) list"

datatype docker_answer =
  DockerTimeout | DockerNotStarted | DockerExit "int option" "8 word list" "8 word list"

type_synonym docker = "docker_call \<Rightarrow> docker_answer"

definition debug_code :: "int option \<Rightarrow> string" where
  "debug_code code = (case code of None \<Rightarrow> ''None'' | Some n \<Rightarrow> ''Some('' @ dec_int n @ '')'')"

fun run_command_capture :: "string \<Rightarrow> nat option \<Rightarrow> docker_answer \<Rightarrow> (string, string \<times> string) result" where
  "run_command_capture label timeout_s DockerTimeout =
     Inl (label @ '' timed out after '' @ dec_nat (case timeout_s of None \<Rightarrow> 0 | Some n \<Rightarrow> n) @ ''s'')"
| "run_command_capture label timeout_s DockerNotStarted = Inl (''failed to execute '' @ label)"
| "run_command_capture label timeout_s (DockerExit code out err) =
     (let stdout = trim (from_utf8_lossy out); stderr = trim (from_utf8_lossy err) in
      if code = Some 0 then Inr (stdout, stderr)
      else case docker_error_hint stderr of
        Some hint \<Rightarrow>
          Inl (label @ '' failed: '' @ hint @ '' (status: '' @ debug_code code @ '', stderr: '' @ clip_for_error stderr @ '')'')
      | None \<Rightarrow>
          Inl (label @ '' failed (status: '' @ debug_code code @ '', stdout: '' @ clip_for_error stdout @ '', stderr: '' @
               clip_for_error stderr @ '')''))"

definition last_text_line :: "string \<Rightarrow> string option" where
  "last_text_line s = find (\<lambda>l. l \<noteq> []) (rev (map trim (str_lines s)))"

definition BOT_DOCKER_TIMEOUT_S :: nat where "BOT_DOCKER_TIMEOUT_S = 60"

definition docker_command :: "string list \<Rightarrow> docker_call" where
  "docker_command args = \<lparr>dk_args = args, dk_env = []\<rparr>"

definition remove_bot_container :: "docker \<Rightarrow> string \<Rightarrow> (string, unit) result" where
  "remove_bot_container docker container_name =
     (case run_command_capture ''docker/rm'' (Some BOT_DOCKER_TIMEOUT_S)
             (docker (docker_command [''rm'', ''-f'', container_name])) of
        Inr _ \<Rightarrow> Inr ()
      | Inl err \<Rightarrow> if contains (to_ascii_lowercase err) ''no such container'' then Inr () else Inl err)"

definition pull_bot_image :: "docker \<Rightarrow> string \<Rightarrow> (string, unit) result" where
  "pull_bot_image docker image_ref =
     (case run_command_capture ''docker/pull'' (Some BOT_DOCKER_TIMEOUT_S) (docker (docker_command [''pull'', image_ref])) of
        Inl err \<Rightarrow> Inl err | Inr _ \<Rightarrow> Inr ())"

record container_request =
  cq_image_ref :: string
  cq_container_name :: string
  cq_backend_endpoint :: string
  cq_team_token :: string
  cq_wrapper_auth_token :: string
  cq_team_id :: string
  cq_submission_id :: string
  cq_sandbox_id :: string
  cq_slot_index :: int
  cq_pull_image :: bool

definition run_call :: "features \<Rightarrow> container_request \<Rightarrow> docker_call" where
  "run_call fs q =
     \<lparr>dk_args =
        [''run'', ''-d'', ''--name'', cq_container_name q, ''--label'', ''ha3.team_id='' @ cq_team_id q,
         ''--label'', ''ha3.submission_id='' @ cq_submission_id q, ''--label'', ''ha3.sandbox_id='' @ cq_sandbox_id q,
         ''--label'', ''ha3.slot_index='' @ dec_int (cq_slot_index q), ''--env'', ''HA3_WRAPPER_BACKEND_ENDPOINT'',
         ''--env'', ''HA3_WRAPPER_TEAM_TOKEN'', ''--env'', ''HA3_WRAPPER_AUTH_TOKEN'', cq_image_ref q] @
        (if official fs then [''--official''] else []),
      dk_env =
        [(''HA3_WRAPPER_BACKEND_ENDPOINT'', cq_backend_endpoint q), (''HA3_WRAPPER_TEAM_TOKEN'', cq_team_token q),
         (''HA3_WRAPPER_AUTH_TOKEN'', cq_wrapper_auth_token q)]\<rparr>"

definition start_bot_container_with_options :: "features \<Rightarrow> docker \<Rightarrow> container_request \<Rightarrow> (string, string) result" where
  "start_bot_container_with_options fs docker q =
     (case remove_bot_container docker (cq_container_name q) of
        Inl err \<Rightarrow> Inl err
      | Inr _ \<Rightarrow>
          (case (if cq_pull_image q then pull_bot_image docker (cq_image_ref q) else Inr ()) of
             Inl err \<Rightarrow> Inl err
           | Inr _ \<Rightarrow>
               (case run_command_capture ''docker/run'' (Some BOT_DOCKER_TIMEOUT_S) (docker (run_call fs q)) of
                  Inl err \<Rightarrow> Inl err
                | Inr (stdout, _) \<Rightarrow>
                    (case last_text_line stdout of
                       None \<Rightarrow> Inl ''docker/run returned empty container id''
                     | Some container_id \<Rightarrow> Inr container_id))))"

definition start_bot_container :: "features \<Rightarrow> docker \<Rightarrow> container_request \<Rightarrow> (string, string) result" where
  "start_bot_container fs docker q = start_bot_container_with_options fs docker (q\<lparr>cq_pull_image := True\<rparr>)"

text \<open>\<open>str::parse\<close> of a signed 32-bit integer.\<close>

definition parse_i32 :: "string \<Rightarrow> int option" where
  "parse_i32 s =
     (let (negative, ds) = (case s of
            [] \<Rightarrow> (False, [])
          | c # cs \<Rightarrow> if c = CHR ''-'' then (True, cs) else if c = CHR ''+'' then (False, cs) else (False, c # cs));
          digits_ok = ds \<noteq> [] \<and> list_all (\<lambda>c. 48 \<le> (of_char c :: nat) \<and> (of_char c :: nat) \<le> 57) ds;
          n = foldl (\<lambda>n c. 10 * n + (of_char c - 48)) 0 ds :: int;
          i = (if negative then - n else n)
      in if \<not> digits_ok \<or> i < - (2 ^ 31) \<or> 2 ^ 31 \<le> i then None else Some i)"

definition wait_bot_container_exit_code :: "docker \<Rightarrow> string \<Rightarrow> (string, int) result" where
  "wait_bot_container_exit_code docker container_id =
     (case run_command_capture ''docker/wait'' None (docker (docker_command [''wait'', container_id])) of
        Inl err \<Rightarrow> Inl err
      | Inr (stdout, _) \<Rightarrow>
          (case last_text_line stdout of
             None \<Rightarrow> Inl ''docker/wait did not return exit code''
           | Some raw \<Rightarrow> ok_or (parse_i32 raw) (''invalid exit code from docker/wait: `'' @ raw @ ''`'')))"

definition is_bot_container_running :: "docker \<Rightarrow> string \<Rightarrow> (string, bool) result" where
  "is_bot_container_running docker container_name =
     (case run_command_capture ''docker/inspect'' (Some BOT_DOCKER_TIMEOUT_S)
             (docker (docker_command [''inspect'', ''-f'', ''{{.State.Running}}'', container_name])) of
        Inr (stdout, _) \<Rightarrow>
          Inr (case last_text_line stdout of None \<Rightarrow> False | Some l \<Rightarrow> eq_ignore_ascii_case l ''true'')
      | Inl err \<Rightarrow>
          let lower = to_ascii_lowercase err in
          if contains lower ''no such container'' \<or> contains lower ''container does not exist'' then Inr False
          else Inl err)"

section \<open>Logs\<close>

definition is_submission_log_artifact :: "string \<Rightarrow> bool" where
  "is_submission_log_artifact file_name =
     (let lower = to_ascii_lowercase file_name in ends_with lower ''.log'' \<or> ends_with lower ''.log.tar.gz'')"

definition split_wrapping_quotes :: "string \<Rightarrow> string \<times> string \<times> string" where
  "split_wrapping_quotes v =
     (if length v < 2 then ([], v, [])
      else if hd v = last v \<and> (hd v = CHR 0x22 \<or> hd v = CHR 0x27) then ([hd v], butlast (tl v), [last v])
      else ([], v, []))"

definition stars :: string where "stars = ''***''"

definition mask_secret_value :: "string \<Rightarrow> string" where
  "mask_secret_value raw =
     (if raw = [] \<or> contains raw stars then raw
      else
        let (pre, core, post) = split_wrapping_quotes raw in
        if core = [] \<or> contains core stars then raw
        else
          let cs = chars_of core; n = length cs;
              masked = (if n = 0 then []
                        else if n \<le> 2 then stars
                        else if n \<le> 7 then cs ! 0 @ stars @ cs ! (n - 1)
                        else cs ! 0 @ cs ! 1 @ stars @ cs ! (n - 2) @ cs ! (n - 1))
          in pre @ masked @ post)"

definition is_ascii_alphabetic :: "char \<Rightarrow> bool" where
  "is_ascii_alphabetic c \<longleftrightarrow>
     (let n = (of_char c :: nat) in 65 \<le> n \<and> n \<le> 90 \<or> 97 \<le> n \<and> n \<le> 122)"

definition achievement_word :: string where "achievement_word = ''dupa''"

text \<open>The scan for the word that earns an achievement; \<open>start\<close> is where the search goes on.\<close>

definition find_from :: "string \<Rightarrow> string \<Rightarrow> nat \<Rightarrow> nat option" where
  "find_from w s start = find (\<lambda>i. prefix w (drop i s)) [start..<length s]"

function scan_word :: "string \<Rightarrow> nat \<Rightarrow> bool" where
  "scan_word lower search_start =
     (if search_start < length lower then
        (case find_from achievement_word lower search_start of
           None \<Rightarrow> False
         | Some start \<Rightarrow>
             let end_pos = start + 4;
                 left_is_letter = start > 0 \<and> is_ascii_alphabetic (lower ! (start - 1));
                 right_is_letter = end_pos < length lower \<and> is_ascii_alphabetic (lower ! end_pos)
             in if \<not> left_is_letter \<and> \<not> right_is_letter then True else scan_word lower (start + 1))
      else False)"
  by pat_completeness auto
termination
  by (relation "measure (\<lambda>(s, i). length s - i)") (auto simp: find_from_def find_Some_iff)

declare scan_word.simps [simp del]

definition contains_dupa_with_letter_boundaries_only :: "string \<Rightarrow> bool" where
  "contains_dupa_with_letter_boundaries_only line = scan_word (to_ascii_lowercase line) 0"

section \<open>Names are safe\<close>

lemma chars_of_concat: "concat (chars_of s) = s"
  by (induction s rule: chars_of.induct) simp_all

lemma trimmed_ends:
  assumes "t = trim_end_char c (trim_start_char c s)" and "t \<noteq> []"
  shows "hd t \<noteq> c" "last t \<noteq> c" "set t \<subseteq> set s"
proof -
  let ?a = "dropWhile (\<lambda>x. x = c) s"
  have t: "t = rev (dropWhile (\<lambda>x. x = c) (rev ?a))" using assms(1) by (simp add: trim_end_char_def trim_start_char_def)
  have ne: "dropWhile (\<lambda>x. x = c) (rev ?a) \<noteq> []" using assms(2) t by simp
  show "last t \<noteq> c" using hd_dropWhile [OF ne] ne by (simp add: t last_rev)
  have "\<exists>ys. ?a = t @ ys"
  proof -
    have "rev ?a = takeWhile (\<lambda>x. x = c) (rev ?a) @ dropWhile (\<lambda>x. x = c) (rev ?a)" by simp
    then have "?a = rev (dropWhile (\<lambda>x. x = c) (rev ?a)) @ rev (takeWhile (\<lambda>x. x = c) (rev ?a))"
      by (metis rev_append rev_rev_ident)
    then show ?thesis using t by blast
  qed
  then obtain ys where ys: "?a = t @ ys" by blast
  then have "hd ?a = hd t" "?a \<noteq> []" using assms(2) by auto
  then show "hd t \<noteq> c" using hd_dropWhile [of "\<lambda>x. x = c" s] by auto
  have "set t \<subseteq> set ?a" using ys by auto
  also have "\<dots> \<subseteq> set s" by (rule set_dropWhileD [THEN subsetI])
  finally show "set t \<subseteq> set s" .
qed

lemma storage_component_safe:
  "sanitize_storage_component v \<noteq> [] \<and> list_all is_name_char (sanitize_storage_component v) \<and>
   CHR ''/'' \<notin> set (sanitize_storage_component v) \<and> CHR ''.'' \<notin> set (sanitize_storage_component v)"
proof -
  let ?s = "map (\<lambda>ch. if length ch = 1 \<and> is_name_char (hd ch) then hd ch else CHR ''_'') (chars_of v)"
  let ?t = "trim_end_char CHR ''_'' (trim_start_char CHR ''_'' ?s)"
  have s: "list_all is_name_char ?s" by (auto simp: list_all_iff is_name_char_def)
  have "list_all is_name_char (sanitize_storage_component v) \<and> sanitize_storage_component v \<noteq> []"
  proof (cases "?t = []")
    case True
    then show ?thesis by (simp add: sanitize_storage_component_def is_name_char_def is_ascii_alphanumeric_def)
  next
    case False
    then have eq: "sanitize_storage_component v = ?t" by (simp add: sanitize_storage_component_def)
    have "list_all is_name_char ?t" using s trimmed_ends(3) [OF refl False] unfolding list_all_iff by blast
    then show ?thesis unfolding eq using False by (rule conjI)
  qed
  moreover have "\<not> is_name_char CHR ''/''" "\<not> is_name_char CHR ''.''"
    by (simp_all add: is_name_char_def is_ascii_alphanumeric_def)
  ultimately show ?thesis by (auto simp: list_all_iff)
qed

text \<open>Two teams may be given the same directory for their logs.\<close>

lemma teams_share_log_directory: "team_logs_dir dir ''red.1'' = team_logs_dir dir ''red_1''"
proof -
  have c: "is_char_start CHR ''r''" "is_char_start CHR ''e''" "is_char_start CHR ''d''" "is_char_start CHR ''.''"
    "is_char_start CHR ''_''" "is_char_start CHR ''1''"
    by (simp_all add: is_char_start_def)
  have "\<not> is_name_char CHR ''.''" "is_name_char CHR ''_''" by (simp_all add: is_name_char_def is_ascii_alphanumeric_def)
  then show ?thesis using c by (simp add: team_logs_dir_def sanitize_storage_component_def)
qed

section \<open>The achievement\<close>

definition bounded_word_at :: "string \<Rightarrow> nat \<Rightarrow> bool" where
  "bounded_word_at s i \<longleftrightarrow> i < length s \<and> prefix achievement_word (drop i s) \<and>
     \<not> (i > 0 \<and> is_ascii_alphabetic (s ! (i - 1))) \<and> \<not> (i + 4 < length s \<and> is_ascii_alphabetic (s ! (i + 4)))"

lemma scan_word_iff: "scan_word s start \<longleftrightarrow> (\<exists>i \<ge> start. bounded_word_at s i)"
proof (induction s start rule: scan_word.induct)
  case (1 s start)
  show ?case
  proof (cases "start < length s")
    case False
    then show ?thesis by (auto simp: scan_word.simps [of s start] bounded_word_at_def)
  next
    case True
    show ?thesis
    proof (cases "find_from achievement_word s start")
      case None
      then have "\<not> prefix achievement_word (drop i s)" if "start \<le> i" "i < length s" for i
        using that by (auto simp: find_from_def find_None_iff)
      then show ?thesis using True None by (auto simp: scan_word.simps [of s start] bounded_word_at_def)
    next
      case (Some k)
      then obtain j where j: "j < length [start..<length s]" "[start..<length s] ! j = k"
        "prefix achievement_word (drop k s)" "\<forall>j' < j. \<not> prefix achievement_word (drop ([start..<length s] ! j') s)"
        by (auto simp: find_from_def find_Some_iff)
      then have k: "start \<le> k" "k < length s" "k = start + j" by auto
      have before: "\<not> prefix achievement_word (drop i s)" if "start \<le> i" "i < k" for i
        using j(4) [rule_format, of "i - start"] k that by simp
      have after: "k < i" if "start \<le> i" "bounded_word_at s i" "i \<noteq> k" for i
        using before [of i] that by (cases "i < k") (auto simp: bounded_word_at_def)
      let ?here = "\<not> (k > 0 \<and> is_ascii_alphabetic (s ! (k - 1))) \<and> \<not> (k + 4 < length s \<and> is_ascii_alphabetic (s ! (k + 4)))"
      have here: "?here \<longleftrightarrow> bounded_word_at s k" using k j(3) by (simp add: bounded_word_at_def)
      have "(\<exists>i \<ge> start. bounded_word_at s i) \<longleftrightarrow> bounded_word_at s k \<or> (\<exists>i \<ge> k + 1. bounded_word_at s i)"
        using k(1) after by (metis Suc_eq_plus1 Suc_leD Suc_leI le_trans)
      moreover have "scan_word s start \<longleftrightarrow> ?here \<or> scan_word s (k + 1)"
        using True Some by (subst scan_word.simps) (auto simp: Let_def)
      ultimately show ?thesis using here 1 [OF True Some refl refl refl] by auto
    qed
  qed
qed

lemma achievement_word_found:
  "contains_dupa_with_letter_boundaries_only line \<longleftrightarrow> (\<exists>i. bounded_word_at (to_ascii_lowercase line) i)"
  by (simp add: contains_dupa_with_letter_boundaries_only_def scan_word_iff)

section \<open>Quoting for the shell\<close>

text \<open>
  What a POSIX shell makes of one word: single quotes take every character, double quotes all
  but the ones that expand, and outside of quotes only plain characters are words.
\<close>

datatype shell_mode = Plain | SingleQuoted | DoubleQuoted

definition shell_plain :: "char \<Rightarrow> bool" where
  "shell_plain c \<longleftrightarrow> is_ascii_alphanumeric c \<or> c \<in> set ''-_./,:+@''"

fun shell_word :: "shell_mode \<Rightarrow> string \<Rightarrow> string option" where
  "shell_word m [] = (if m = Plain then Some [] else None)"
| "shell_word Plain (c # s) =
     (if c = CHR 0x27 then shell_word SingleQuoted s
      else if c = CHR 0x22 then shell_word DoubleQuoted s
      else if shell_plain c then map_option ((#) c) (shell_word Plain s) else None)"
| "shell_word SingleQuoted (c # s) =
     (if c = CHR 0x27 then shell_word Plain s else map_option ((#) c) (shell_word SingleQuoted s))"
| "shell_word DoubleQuoted (c # s) =
     (if c = CHR 0x22 then shell_word Plain s
      else if c \<in> {CHR ''$'', CHR 0x60, CHR 0x5C} then None
      else map_option ((#) c) (shell_word DoubleQuoted s))"

lemma shell_word_quoted:
  "shell_word SingleQuoted (concat (map (\<lambda>c. if c = CHR 0x27 then [CHR 0x27, CHR 0x22, CHR 0x27, CHR 0x22, CHR 0x27] else [c]) v) @
     [CHR 0x27]) = Some v"
  by (induction v) simp_all

text \<open>
  C30. The words the server builds shell commands from (\<open>shell_escape_single\<close>): whatever the value,
  quotes and newlines included, the shell reads exactly the value.
\<close>

theorem shell_escape_roundtrip: "shell_word Plain (shell_escape_single v) = Some v"
  unfolding shell_escape_single_def by (simp add: shell_word_quoted)

section \<open>Containers and images of teams\<close>

lemma sanitized_tag: "sanitize_tag_component v = Inr t \<Longrightarrow> t = trim v \<and> t \<noteq> [] \<and> list_all is_name_char t"
  by (auto simp: sanitize_tag_component_def Let_def split: if_splits)

lemma name_char_graphic: "is_name_char c \<Longrightarrow> graphic c"
  by (auto simp: is_name_char_def is_ascii_alphanumeric_def graphic_def Let_def)

text \<open>
  Containers of teams (\<open>official_bot_container_name_for_team\<close>): teams share the name of a
  container only if they have the same identifier, up to white space around it; the name is not
  empty and consists of letters, digits, hyphens and underscores.
\<close>

theorem container_names_tell_teams_apart:
  assumes "official_bot_container_name_for_team team1 = Inr name" and "official_bot_container_name_for_team team2 = Inr name"
  shows "trim team1 = trim team2 \<and> name \<noteq> [] \<and> list_all is_name_char name"
proof -
  obtain a b where a: "sanitize_tag_component team1 = Inr a" "name = ''ha3-official-bot-team-'' @ a"
    and b: "sanitize_tag_component team2 = Inr b" "name = ''ha3-official-bot-team-'' @ b"
    using assms by (auto simp: official_bot_container_name_for_team_def split: sum.splits)
  have "list_all is_name_char ''ha3-official-bot-team-''" by (simp add: is_name_char_def is_ascii_alphanumeric_def)
  then show ?thesis using a b sanitized_tag [OF a(1)] sanitized_tag [OF b(1)] by auto
qed

lemma sample_team: "sanitize_tag_component ''red'' = Inr ''red''"
proof -
  have "trim ''red'' = ''red''" by (simp add: trim_graphic graphic_def)
  then show ?thesis by (simp add: sanitize_tag_component_def is_name_char_def is_ascii_alphanumeric_def)
qed

theorem container_names_tell_teams_apart_witness:
  "official_bot_container_name_for_team ''red'' = Inr ''ha3-official-bot-team-red'' \<and>
   list_all is_name_char ''ha3-official-bot-team-red''"
proof -
  have n: "official_bot_container_name_for_team ''red'' = Inr ''ha3-official-bot-team-red''"
    by (simp add: official_bot_container_name_for_team_def sample_team)
  then show ?thesis using container_names_tell_teams_apart [OF n n] by simp
qed

lemma split_once_append: "c \<notin> set a \<Longrightarrow> split_once c (a @ c # b) = Some (a, b)"
  by (induction a) (auto simp: split_once_def)

lemma rsplit_once_append: "c \<notin> set b \<Longrightarrow> rsplit_once c (a @ c # b) = Some (a, b)"
  by (simp add: rsplit_once_def split_once_append)

lemma no_scheme:
  "CHR ''/'' \<notin> set host \<Longrightarrow> CHR ''/'' \<notin> set p \<Longrightarrow> prefix (p @ ''//'') (host @ ''/'' @ x # rest) \<Longrightarrow> x = CHR ''/''"
proof (induction p arbitrary: host)
  case Nil
  then show ?case by (cases host) (auto simp: prefix_def)
next
  case (Cons y p)
  then show ?case by (cases host) (auto simp: prefix_def)
qed

lemma trim_all_graphic: "list_all graphic s \<Longrightarrow> trim s = s"
  by (rule trim_graphic) (auto simp: list_all_iff)

text \<open>
  Images of teams: the reference \<open>format_image_ref\<close> makes for a registry is taken apart by
  \<open>parse_image_ref\<close> into the registry, the repository of the team and the tag of the
  submission, if the registry is a host (with a port) of printable characters.
\<close>

theorem image_ref_roundtrip:
  assumes "format_image_ref registry team_id submission_id = Inr img"
    and "list_all graphic registry" and "CHR ''/'' \<notin> set registry"
  shows "parse_image_ref img = Inr \<lparr>im_registry_host = registry, im_repository = ''ha3/team-'' @ trim team_id,
    im_tag = ''submission-'' @ trim submission_id\<rparr>"
proof -
  have "dropWhile (\<lambda>x. x = CHR ''/'') (rev registry) = rev registry"
    using assms(3) by (cases "rev registry") (auto simp: dropWhile_eq_self_iff)
  then have r: "trim_end_char CHR ''/'' (trim registry) = registry"
    by (simp add: trim_all_graphic [OF assms(2)] trim_end_char_def)
  obtain t n where t: "sanitize_tag_component team_id = Inr t" and n: "sanitize_tag_component submission_id = Inr n"
    and ne: "registry \<noteq> []" and img: "img = registry @ ''/ha3/team-'' @ t @ '':submission-'' @ n"
    using assms(1) r by (auto simp: format_image_ref_def split: if_splits sum.splits)
  note tag = sanitized_tag [OF t] sanitized_tag [OF n]
  have g: "list_all graphic t" "list_all graphic n" using tag name_char_graphic by (auto simp: list_all_iff)
  have gs: "list_all graphic ''/ha3/team-''" "list_all graphic '':submission-''" "list_all graphic ''ha3/team-''"
    "list_all graphic ''submission-''" by (simp_all add: graphic_def)
  have trims: "trim img = img" "trim registry = registry" "trim (''ha3/team-'' @ t) = ''ha3/team-'' @ t"
    "trim (''submission-'' @ n) = ''submission-'' @ n"
    using assms(2) g gs by (simp_all only: img trim_all_graphic list_all_append simp_thms)
  have "\<not> prefix (''http:'' @ ''//'') img" "\<not> prefix (''https:'' @ ''//'') img"
    using no_scheme [OF assms(3), of "''http:''" "CHR ''h''"] no_scheme [OF assms(3), of "''https:''" "CHR ''h''"]
    by (auto simp: img)
  then have w: "without_scheme img = registry @ CHR ''/'' # ''ha3/team-'' @ t @ '':submission-'' @ n"
    by (simp add: without_scheme_def strip_prefix_def img)
  have "CHR '':'' \<notin> set (''submission-'' @ n)"
    using tag(2) by (auto simp: list_all_iff is_name_char_def is_ascii_alphanumeric_def)
  from rsplit_once_append [OF this, of "''ha3/team-'' @ t"]
  have "rsplit_once CHR '':'' (''ha3/team-'' @ t @ '':submission-'' @ n) = Some (''ha3/team-'' @ t, ''submission-'' @ n)"
    by simp
  then show ?thesis
    using ne trims tag by (simp add: parse_image_ref_def w split_once_append [OF assms(3)]) (simp add: img)
qed

theorem image_ref_roundtrip_witness:
  "\<exists>img. format_image_ref ''registry:5000'' ''red'' ''red'' = Inr img \<and>
   parse_image_ref img = Inr \<lparr>im_registry_host = ''registry:5000'', im_repository = ''ha3/team-red'',
     im_tag = ''submission-red''\<rparr>"
proof -
  have g: "list_all graphic ''registry:5000''" by (simp add: graphic_def)
  have f: "format_image_ref ''registry:5000'' ''red'' ''red'' = Inr ''registry:5000/ha3/team-red:submission-red''"
    by (simp add: format_image_ref_def sample_team trim_all_graphic [OF g] trim_end_char_def)
  have "trim ''red'' = ''red''" by (simp add: trim_graphic graphic_def)
  then show ?thesis using f image_ref_roundtrip [OF f g] by simp
qed

end
