(* ===== verification/Official_Session.thy ===== *)
theory Official_Session
  imports Race_Service Bot_Artifacts Race_Config_Domain
begin

text \<open>
  The sessions of the official race, the official part of
  game-server/src/services/race_participant.rs: launching the bots of the teams on the roster,
  restarting a bot whose container exits, switching the slot of a team, recording the results,
  and the launcher that is driven by two signal files.

  As in the race service, \<open>other\<close> is what other tasks do at an await. The database, docker, the
  token services and the clock answer as the record \<open>session_services\<close> says; in a loop the
  \<open>k\<close>-th round has its own answers. The task that holds the cars on the grid during a launch
  is one of the other tasks, as are the monitors a function spawns: those are in its result.
\<close>

section \<open>Services\<close>

record slot_submission =
  ss_submission_id :: string
  ss_image_ref :: "string option"

record session_services =
  sv_docker :: docker
  sv_team_bot_token :: "string \<Rightarrow> (status, string) result"
  sv_wrapper_auth_token :: "(status, string) result"
  sv_slot_submission :: "string \<Rightarrow> int \<Rightarrow> (string, slot_submission option) result"
  sv_persisted_slot :: "string \<Rightarrow> (string, int option) result"
  sv_filled_slots :: "string \<Rightarrow> (string, int list) result"
  sv_backend_endpoint :: string
  sv_now_ms :: nat
  sv_follows_logs :: bool

definition OFFICIAL_RACE_BOT_AUTO_RESTART_MAX_ATTEMPTS :: u32 where
  "OFFICIAL_RACE_BOT_AUTO_RESTART_MAX_ATTEMPTS = 12"

definition OFFICIAL_RACE_BOT_AUTO_RESTART_BASE_DELAY_MS :: u64 where
  "OFFICIAL_RACE_BOT_AUTO_RESTART_BASE_DELAY_MS = 500"

definition OFFICIAL_RACE_BOT_PRESTART_RESTART_DELAY_MS :: u64 where
  "OFFICIAL_RACE_BOT_PRESTART_RESTART_DELAY_MS = 1000"

definition SUBMISSIONS_ROOT :: string where "SUBMISSIONS_ROOT = ''.submissions''"

definition internal :: "string \<Rightarrow> (status, 'a) result" where
  "internal msg = Inl (Status CodeInternal msg)"

section \<open>Shared steps\<close>

definition announce_slot :: "string \<Rightarrow> 'n race_system \<Rightarrow> 'n race_system" where
  "announce_slot team_id sys = sys\<lparr>rs_slot_updates := rs_slot_updates sys @ [team_id]\<rparr>"

definition put_race_bot :: "string \<Rightarrow> team_official_race_bot_state \<Rightarrow> 'n race_system \<Rightarrow> 'n race_system" where
  "put_race_bot team_id racer sys = sys\<lparr>rs_race_bots := hm_insert team_id racer (rs_race_bots sys)\<rparr>"

definition drop_race_bot :: "string \<Rightarrow> 'n race_system \<Rightarrow> 'n race_system" where
  "drop_race_bot team_id sys = sys\<lparr>rs_race_bots := hm_remove team_id (rs_race_bots sys)\<rparr>"

definition build_official_race_bot_log_path :: "nat \<Rightarrow> string \<Rightarrow> string \<Rightarrow> int \<Rightarrow> string \<Rightarrow> string" where
  "build_official_race_bot_log_path ts_ms team_id submission_id slot_index container_id =
     team_logs_dir SUBMISSIONS_ROOT team_id @ ''/'' @ dec_nat ts_ms @ ''_team-'' @ sanitize_storage_component team_id @
     ''_submission-'' @ sanitize_storage_component submission_id @ ''_sandbox-official-race_slot-'' @
     dec_int slot_index @ ''_container-'' @ sanitize_storage_component (short_container_id container_id) @ ''.log''"

text \<open>
  The capture is registered if the file could be written and the process that follows the
  log was started; the path is the result in any case.
\<close>

definition start_official_race_bot_log_capture ::
  "'n race_others \<Rightarrow> session_services \<Rightarrow> string \<Rightarrow> string \<Rightarrow> int \<Rightarrow> string \<Rightarrow> 'n race_system \<Rightarrow> string \<times> 'n race_system" where
  "start_official_race_bot_log_capture other sv team_id submission_id slot_index container_id =
     race_call other AwaitLogs (\<lambda>s.
       (build_official_race_bot_log_path (sv_now_ms sv) team_id submission_id slot_index container_id,
        if sv_follows_logs sv then s\<lparr>rs_log_captures := hm_insert team_id () (rs_log_captures s)\<rparr> else s))"

definition stop_official_race_log_capture_for_team :: "'n race_others \<Rightarrow> string \<Rightarrow> 'n race_system \<Rightarrow> 'n race_system" where
  "stop_official_race_log_capture_for_team other team_id sys =
     (if hm_contains (rs_log_captures sys) team_id
      then snd (race_read other AwaitLogs (\<lambda>_. ()) (sys\<lparr>rs_log_captures := hm_remove team_id (rs_log_captures sys)\<rparr>))
      else sys)"

definition LOG_TAIL_CHARS :: nat where "LOG_TAIL_CHARS = 4000"

definition OFFICIAL_RACE_BOT_EXIT_LOG_TAIL_LINES :: nat where "OFFICIAL_RACE_BOT_EXIT_LOG_TAIL_LINES = 40"

definition read_bot_container_logs_tail :: "docker \<Rightarrow> string \<Rightarrow> nat \<Rightarrow> string option" where
  "read_bot_container_logs_tail docker container_id tail_lines =
     (case docker (docker_command [''logs'', ''--tail'', dec_nat tail_lines, container_id]) of
        DockerExit _ out err \<Rightarrow>
          (let stdout = trim (from_utf8_lossy out); stderr = trim (from_utf8_lossy err);
               combined = (if stderr = [] then stdout else if stdout = [] then stderr else stdout @ [newline] @ stderr);
               cs = chars_of combined
           in if stdout = [] \<and> stderr = [] then None
              else if length cs \<le> LOG_TAIL_CHARS then Some combined
              else Some (''...'' @ concat (drop (length cs - LOG_TAIL_CHARS) cs)))
      | _ \<Rightarrow> None)"

definition bot_tokens ::
  "'n race_others \<Rightarrow> session_services \<Rightarrow> string \<Rightarrow> 'n race_system \<Rightarrow> (status, string \<times> string) result \<times> 'n race_system" where
  "bot_tokens other sv team_id sys =
     (case race_read other AwaitToken (\<lambda>_. sv_team_bot_token sv team_id) sys of
        (Inl err, s) \<Rightarrow> (Inl err, s)
      | (Inr team_bot_token, s) \<Rightarrow>
          (case race_read other AwaitToken (\<lambda>_. sv_wrapper_auth_token sv) s of
             (Inl err, s1) \<Rightarrow> (Inl err, s1)
           | (Inr wrapper_auth_token, s1) \<Rightarrow> (Inr (team_bot_token, wrapper_auth_token), s1)))"

definition official_container_request ::
  "session_services \<Rightarrow> string \<Rightarrow> string \<Rightarrow> string \<times> string \<Rightarrow> string \<Rightarrow> string \<Rightarrow> int \<Rightarrow> container_request" where
  "official_container_request sv image_ref container_name tokens team_id submission_id slot_index =
     \<lparr>cq_image_ref = image_ref, cq_container_name = container_name, cq_backend_endpoint = sv_backend_endpoint sv,
      cq_team_token = fst tokens, cq_wrapper_auth_token = snd tokens, cq_team_id = team_id,
      cq_submission_id = submission_id, cq_sandbox_id = ''official-race'', cq_slot_index = slot_index,
      cq_pull_image = False\<rparr>"

text \<open>A bot with its new container: the registry, the slot of its car and the announcement.\<close>

definition bot_running ::
  "string \<Rightarrow> team_official_race_bot_state \<Rightarrow> 'n race_system \<Rightarrow> 'n race_system" where
  "bot_running team_id racer sys =
     announce_slot team_id (on_store (set_active_bot_slot (rb_public_car_id racer) (rb_slot_index racer))
       (put_race_bot team_id racer sys))"

definition despawn_official_car :: "'n worker_env \<Rightarrow> 'n race_others \<Rightarrow> u64 \<Rightarrow> 'n race_system \<Rightarrow> 'n race_system" where
  "despawn_official_car env other engine_car_id sys =
     snd (race_call other AwaitDespawn (client_despawn_car_in env TargetOfficialRace engine_car_id) sys)"

definition cleanup_spawned_official_race_car ::
  "'n worker_env \<Rightarrow> 'n race_others \<Rightarrow> u64 \<Rightarrow> u64 \<Rightarrow> 'n race_system \<Rightarrow> 'n race_system" where
  "cleanup_spawned_official_race_car env other public_car_id engine_car_id sys =
     on_store (remove_car public_car_id) (despawn_official_car env other engine_car_id sys)"

text \<open>The container is removed; a failure is only logged.\<close>

definition discard_container :: "'n race_others \<Rightarrow> session_services \<Rightarrow> string \<Rightarrow> 'n race_system \<Rightarrow> 'n race_system" where
  "discard_container other sv container_name sys =
     snd (race_read other AwaitRemove (\<lambda>_. remove_bot_container (sv_docker sv) container_name) sys)"

definition runs_official_race :: "team_official_race_bot_state \<Rightarrow> runtime_store \<Rightarrow> bool" where
  "runs_official_race racer st \<longleftrightarrow>
     car_target (rb_public_car_id racer) st = Some TargetOfficialRace \<and>
     car_engine_id (rb_public_car_id racer) st = Some (rb_engine_car_id racer)"

section \<open>Restarting a bot\<close>

definition restart_container ::
  "'n worker_env \<Rightarrow> 'n race_others \<Rightarrow> session_services \<Rightarrow> string \<Rightarrow> string \<Rightarrow> team_official_race_bot_state
    \<Rightarrow> 'n race_system \<Rightarrow> (status, string) result \<times> 'n race_system" where
  "restart_container env other sv failure team_id current sys =
     (case bot_tokens other sv team_id sys of
        (Inl err, s) \<Rightarrow> (Inl err, s)
      | (Inr tokens, s) \<Rightarrow>
          (case race_read other AwaitContainer (\<lambda>_. start_bot_container_with_options (env_features env) (sv_docker sv)
                  (official_container_request sv (rb_image_ref current) (rb_container_name current) tokens team_id
                     (rb_submission_id current) (rb_slot_index current))) s of
             (Inl err, s1) \<Rightarrow> (internal (failure @ err), s1)
           | (Inr container_id, s1) \<Rightarrow> (Inr container_id, s1)))"

definition restarted_bot ::
  "'n race_others \<Rightarrow> session_services \<Rightarrow> string \<Rightarrow> team_official_race_bot_state \<Rightarrow> string \<Rightarrow> u32 \<Rightarrow> 'n race_system
    \<Rightarrow> 'n race_system" where
  "restarted_bot other sv team_id current container_id attempts sys =
     (let (log_file_path, s) = start_official_race_bot_log_capture other sv team_id (rb_submission_id current)
            (rb_slot_index current) container_id sys
      in bot_running team_id (current\<lparr>rb_container_id := container_id, rb_log_file_path := log_file_path,
           rb_auto_restart_attempts := attempts\<rparr>) s)"

definition try_restart_official_race_bot_after_exit_locked ::
  "'n worker_env \<Rightarrow> 'n race_others \<Rightarrow> session_services \<Rightarrow> string \<Rightarrow> team_official_race_bot_state \<Rightarrow> 'n race_system
    \<Rightarrow> (status, string option) result \<times> 'n race_system" where
  "try_restart_official_race_bot_after_exit_locked env other sv team_id current sys =
     (let race_started = st_official_race_started (rs_store sys) in
      if race_started \<and> rb_auto_restart_attempts current \<ge> OFFICIAL_RACE_BOT_AUTO_RESTART_MAX_ATTEMPTS
      then (Inr None, sys)
      else case worker_call other AwaitRuntime (client_runtime_state env) sys of
        (Inl err, s) \<Rightarrow> (Inl err, s)
      | (Inr rt, s) \<Rightarrow>
          if rt_activity_kind rt \<noteq> ActOfficialRace then (Inr None, s)
          else
            (case restart_container env other sv ''failed to restart official-race bot container after exit: ''
                    team_id current s of
               (Inl err, s1) \<Rightarrow> (Inl err, s1)
             | (Inr container_id, s1) \<Rightarrow>
                 (Inr (Some container_id),
                  restarted_bot other sv team_id current container_id
                    (if race_started then sat_add (rb_auto_restart_attempts current) 1 else 0) s1)))"

text \<open>Before the start every bot gets a fresh container; the result counts successes and failures.\<close>

definition refresh_official_race_bot ::
  "'n worker_env \<Rightarrow> 'n race_others \<Rightarrow> session_services \<Rightarrow> string \<Rightarrow> team_official_race_bot_state \<Rightarrow> 'n race_system
    \<Rightarrow> (status, string) result \<times> 'n race_system" where
  "refresh_official_race_bot env other sv team_id current sys =
     (case restart_container env other sv ''failed to refresh official-race bot container for start: ''
             team_id current sys of
        (Inl err, s) \<Rightarrow> (Inl err, s)
      | (Inr container_id, s) \<Rightarrow> (Inr container_id, restarted_bot other sv team_id current container_id 0 s))"

type_synonym monitors = "(string \<times> string) list"

fun refresh_bots ::
  "'n worker_env \<Rightarrow> 'n race_others \<Rightarrow> (nat \<Rightarrow> session_services) \<Rightarrow> nat \<Rightarrow> (string \<times> team_official_race_bot_state) list
    \<Rightarrow> 'n race_system \<Rightarrow> (nat \<times> nat \<times> monitors) \<times> 'n race_system" where
  "refresh_bots env other sv k [] sys = ((0, 0, []), sys)"
| "refresh_bots env other sv k ((team_id, current) # bots) sys =
     (case refresh_official_race_bot env other (sv k) team_id current sys of
        (Inl err, s) \<Rightarrow>
          (let ((restarted, failed, ms), s1) = refresh_bots env other sv (Suc k) bots s
           in ((restarted, Suc failed, ms), s1))
      | (Inr container_id, s) \<Rightarrow>
          (let ((restarted, failed, ms), s1) = refresh_bots env other sv (Suc k) bots s
           in ((Suc restarted, failed, (team_id, container_id) # ms), s1)))"

definition refresh_official_race_bots_before_start_locked ::
  "'n worker_env \<Rightarrow> 'n race_others \<Rightarrow> (nat \<Rightarrow> session_services) \<Rightarrow> 'n race_system
    \<Rightarrow> (nat \<times> nat \<times> monitors) \<times> 'n race_system" where
  "refresh_official_race_bots_before_start_locked env other sv sys =
     refresh_bots env other sv 0 (rs_race_bots sys) sys"

fun force_hard_tyres ::
  "'n worker_env \<Rightarrow> 'n race_others \<Rightarrow> (string \<times> team_official_race_bot_state) list \<Rightarrow> 'n race_system
    \<Rightarrow> (nat \<times> nat) \<times> 'n race_system" where
  "force_hard_tyres env other [] sys = ((0, 0), sys)"
| "force_hard_tyres env other ((team_id, racer) # bots) sys =
     (case race_call other AwaitTyres (client_force_set_car_tyre_type_in env TargetOfficialRace (rb_engine_car_id racer) Hard) sys of
        (Inr _, s) \<Rightarrow>
          (let ((forced, failed), s1) = force_hard_tyres env other bots
                 (on_store (set_next_tire_from_frontend (rb_public_car_id racer) TireHard) s)
           in ((Suc forced, failed), s1))
      | (Inl _, s) \<Rightarrow>
          (let ((forced, failed), s1) = force_hard_tyres env other bots s in ((forced, Suc failed), s1)))"

definition force_official_race_hard_tyres ::
  "'n worker_env \<Rightarrow> 'n race_others \<Rightarrow> 'n race_system \<Rightarrow> (nat \<times> nat) \<times> 'n race_system" where
  "force_official_race_hard_tyres env other sys = force_hard_tyres env other (rs_race_bots sys) sys"

section \<open>A container that exits\<close>

definition awaiting_slot_switch :: "runtime_frame \<Rightarrow> string" where
  "awaiting_slot_switch frame = ''awaiting-slot-switch-'' @ dec_nat (unat (fr_server_time_ms frame))"

definition handle_unrecoverable_official_race_bot_exit ::
  "'n worker_env \<Rightarrow> 'n race_others \<Rightarrow> session_services \<Rightarrow> string \<Rightarrow> team_official_race_bot_state \<Rightarrow> string \<Rightarrow> 'n race_system
    \<Rightarrow> bool \<times> 'n race_system" where
  "handle_unrecoverable_official_race_bot_exit env other sv team_id current exited_container_id sys =
     (if \<not> st_official_race_started (rs_store sys) then (False, sys)
      else if \<not> runs_official_race current (rs_store sys) then (False, sys)
      else case hm_get (rs_race_bots sys) team_id of
        None \<Rightarrow> (True, sys)
      | Some entry \<Rightarrow>
          if rb_container_id entry \<noteq> exited_container_id then (True, sys)
          else
            let s1 = put_race_bot team_id (entry\<lparr>rb_container_id := awaiting_slot_switch (rs_latest sys),
                       rb_auto_restart_attempts := 0\<rparr>) sys;
                s2 = stop_official_race_log_capture_for_team other team_id s1;
                s3 = discard_container other sv (rb_container_name current) s2;
                now_ms = fr_server_time_ms (rs_latest s3);
                s4 = (case race_call other AwaitCommand
                             (client_set_car_to_pitstop_in env TargetOfficialRace (rb_engine_car_id current)) s3 of
                        (Inr _, s) \<Rightarrow> on_store (mark_emergency_pitstop_requested (rb_public_car_id current) now_ms) s
                      | (Inl _, s) \<Rightarrow> s)
            in (True, announce_slot team_id (on_store (clear_active_bot_slot (rb_public_car_id current)) s4)))"

definition current_bot :: "string \<Rightarrow> string \<Rightarrow> 'n race_system \<Rightarrow> team_official_race_bot_state option" where
  "current_bot team_id container_id sys =
     (case hm_get (rs_race_bots sys) team_id of
        None \<Rightarrow> None
      | Some racer \<Rightarrow> if rb_container_id racer = container_id then Some racer else None)"

definition restart_delay_ms :: "bool \<Rightarrow> u32 \<Rightarrow> u64" where
  "restart_delay_ms race_started attempts =
     (if race_started then sat_mul OFFICIAL_RACE_BOT_AUTO_RESTART_BASE_DELAY_MS (push_bit (unat (min attempts 4)) 1)
      else OFFICIAL_RACE_BOT_PRESTART_RESTART_DELAY_MS)"

definition remove_exited_bot ::
  "'n worker_env \<Rightarrow> 'n race_others \<Rightarrow> string \<Rightarrow> team_official_race_bot_state \<Rightarrow> 'n race_system \<Rightarrow> 'n race_system" where
  "remove_exited_bot env other team_id current sys =
     (let s1 = drop_race_bot team_id (stop_official_race_log_capture_for_team other team_id sys);
          s2 = announce_slot team_id (on_store (clear_active_bot_slot (rb_public_car_id current)) s1)
      in on_store (remove_car (rb_public_car_id current)) (despawn_official_car env other (rb_engine_car_id current) s2))"

text \<open>
  The monitor of a container: how long it slept before it tried a restart, if it did, and the
  container it monitors next, if it restarted the bot. The tail of the log is only logged.
\<close>

definition official_race_bot_exit_monitor ::
  "'n worker_env \<Rightarrow> 'n race_others \<Rightarrow> session_services \<Rightarrow> string \<Rightarrow> string \<Rightarrow> 'n race_system
    \<Rightarrow> (u64 option \<times> string option) \<times> 'n race_system" where
  "official_race_bot_exit_monitor env other sv team_id container_id sys =
     (case race_read other AwaitContainer (\<lambda>_. wait_bot_container_exit_code (sv_docker sv) container_id) sys of
        (Inl err, s) \<Rightarrow> ((None, None), s)
      | (Inr exit_code, s) \<Rightarrow>
          let s1 = (if exit_code \<noteq> 0
                    then snd (race_read other AwaitLogs (\<lambda>_. read_bot_container_logs_tail (sv_docker sv) container_id
                           OFFICIAL_RACE_BOT_EXIT_LOG_TAIL_LINES) s)
                    else s)
          in case current_bot team_id container_id s1 of
               None \<Rightarrow> ((None, None), s1)
             | Some racer \<Rightarrow>
                 let delay_ms = restart_delay_ms (st_official_race_started (rs_store s1)) (rb_auto_restart_attempts racer);
                     s2 = snd (race_read other AwaitTurn (\<lambda>_. ()) s1)
                 in case current_bot team_id container_id s2 of
                      None \<Rightarrow> ((Some delay_ms, None), s2)
                    | Some current \<Rightarrow>
                        (case try_restart_official_race_bot_after_exit_locked env other sv team_id current s2 of
                           (Inr (Some restarted), s3) \<Rightarrow> ((Some delay_ms, Some restarted), s3)
                         | (_, s3) \<Rightarrow>
                             (case handle_unrecoverable_official_race_bot_exit env other sv team_id current container_id s3 of
                                (True, s4) \<Rightarrow> ((Some delay_ms, None), s4)
                              | (False, s4) \<Rightarrow>
                                  ((Some delay_ms, None),
                                   case current_bot team_id container_id s4 of
                                     None \<Rightarrow> s4
                                   | Some current \<Rightarrow> remove_exited_bot env other team_id current s4))))"

section \<open>Slots of running bots\<close>

definition reconcile_official_race_bot_liveness ::
  "'n race_others \<Rightarrow> session_services \<Rightarrow> string \<Rightarrow> 'n race_system \<Rightarrow> 'n race_system" where
  "reconcile_official_race_bot_liveness other sv team_id sys =
     (case hm_get (rs_race_bots sys) team_id of
        None \<Rightarrow> sys
      | Some current \<Rightarrow>
          if runs_official_race current (rs_store sys) then sys
          else
            let s1 = drop_race_bot team_id (stop_official_race_log_capture_for_team other team_id sys);
                s2 = discard_container other sv (rb_container_name current) s1
            in announce_slot team_id (on_store (clear_active_bot_slot (rb_public_car_id current)) s2))"

definition resolve_selected_slot_index :: "session_services \<Rightarrow> string \<Rightarrow> int option \<Rightarrow> (string, int) result" where
  "resolve_selected_slot_index sv team_id loaded_slot =
     (case sv_persisted_slot sv team_id of
        Inl err \<Rightarrow> Inl err
      | Inr persisted \<Rightarrow>
          (case sv_filled_slots sv team_id of
             Inl err \<Rightarrow> Inl err
           | Inr filled_slots \<Rightarrow>
               let fallback = (case loaded_slot of
                     Some slot \<Rightarrow> slot
                   | None \<Rightarrow> (case filled_slots of slot # _ \<Rightarrow> slot | [] \<Rightarrow> 1))
               in Inr (case persisted of
                     None \<Rightarrow> fallback
                   | Some slot \<Rightarrow>
                       if 1 \<le> slot \<and> slot \<le> 3 \<and> (slot \<in> set filled_slots \<or> Some slot = loaded_slot) then slot
                       else fallback)))"

definition resolve_selected_slot_for_team ::
  "'n race_others \<Rightarrow> session_services \<Rightarrow> string \<Rightarrow> 'n race_system \<Rightarrow> (status, int) result \<times> 'n race_system" where
  "resolve_selected_slot_for_team other sv team_id sys =
     (let loaded_slot = map_option rb_slot_index (hm_get (rs_race_bots sys) team_id)
      in case race_read other AwaitRepo (\<lambda>_. resolve_selected_slot_index sv team_id loaded_slot) sys of
           (Inl err, s) \<Rightarrow> (internal (''failed to resolve selected slot: '' @ err), s)
         | (Inr slot, s) \<Rightarrow> (Inr slot, s))"

definition runnable_image :: "slot_submission \<Rightarrow> string option" where
  "runnable_image submission =
     (case ss_image_ref submission of
        None \<Rightarrow> None
      | Some r \<Rightarrow> if trim r = [] then None else Some (trim r))"

definition resolve_slot_submission_image ::
  "'n race_others \<Rightarrow> session_services \<Rightarrow> string \<Rightarrow> int \<Rightarrow> 'n race_system
    \<Rightarrow> (status, string \<times> string) result \<times> 'n race_system" where
  "resolve_slot_submission_image other sv team_id slot_index sys =
     (case race_read other AwaitRepo (\<lambda>_. sv_slot_submission sv team_id slot_index) sys of
        (Inl err, s) \<Rightarrow> (internal (''failed to resolve slot submission: '' @ err), s)
      | (Inr None, s) \<Rightarrow> (failed_precondition ''selected slot does not contain succeeded submission'', s)
      | (Inr (Some submission), s) \<Rightarrow>
          (case runnable_image submission of
             None \<Rightarrow> (failed_precondition ''selected slot submission is missing image_ref'', s)
           | Some image_ref \<Rightarrow> (Inr (ss_submission_id submission, image_ref), s)))"

text \<open>The container for another slot; while the tokens are there, the old container counts as replaced.\<close>

definition switch_container ::
  "'n worker_env \<Rightarrow> 'n race_others \<Rightarrow> session_services \<Rightarrow> string \<Rightarrow> team_official_race_bot_state \<Rightarrow> int \<Rightarrow> string \<Rightarrow> string
    \<Rightarrow> 'n race_system \<Rightarrow> (status, string) result \<times> 'n race_system" where
  "switch_container env other sv team_id racer selected_slot submission_id image_ref sys =
     (case bot_tokens other sv team_id sys of
        (Inl err, s) \<Rightarrow> (Inl err, s)
      | (Inr tokens, s) \<Rightarrow>
          let switching = ''switching-'' @ dec_nat (unat (fr_server_time_ms (rs_latest s)));
              s1 = (case hm_get (rs_race_bots s) team_id of
                      None \<Rightarrow> s
                    | Some entry \<Rightarrow> put_race_bot team_id (entry\<lparr>rb_container_id := switching\<rparr>) s)
          in case race_read other AwaitSwitch (\<lambda>_. start_bot_container (env_features env) (sv_docker sv)
                    (official_container_request sv image_ref (rb_container_name racer) tokens team_id submission_id
                       selected_slot)) s1 of
               (Inl err, s2) \<Rightarrow> (internal (''failed to restart official-race bot container for selected slot: '' @ err), s2)
             | (Inr container_id, s2) \<Rightarrow> (Inr container_id, s2))"

text \<open>The result carries the container of the new slot, which gets a monitor.\<close>

definition try_apply_pending_selected_slot_for_team ::
  "'n worker_env \<Rightarrow> 'n race_others \<Rightarrow> session_services \<Rightarrow> string \<Rightarrow> 'n race_system
    \<Rightarrow> (status, string option) result \<times> 'n race_system" where
  "try_apply_pending_selected_slot_for_team env other sv team_id sys0 =
     (let sys = snd (race_read other AwaitLock (\<lambda>_. ()) sys0)
      in case hm_get (rs_race_bots sys) team_id of
           None \<Rightarrow> (Inr None, sys)
         | Some racer \<Rightarrow>
             if \<not> store_is_in_stationary_fix (rb_public_car_id racer) (rs_store sys) then (Inr None, sys)
             else
               (case resolve_selected_slot_for_team other sv team_id sys of
                  (Inl err, s) \<Rightarrow> (Inl err, s)
                | (Inr selected_slot, s) \<Rightarrow>
                    if selected_slot = rb_slot_index racer then (Inr None, s)
                    else
                      (case resolve_slot_submission_image other sv team_id selected_slot s of
                         (Inl err, s1) \<Rightarrow> (Inl err, s1)
                       | (Inr (submission_id, image_ref), s1) \<Rightarrow>
                           let (r, s2) = switch_container env other sv team_id racer selected_slot submission_id image_ref
                                 (on_store (set_bot_switch_in_progress (rb_public_car_id racer) True) s1);
                               s3 = on_store (set_bot_switch_in_progress (rb_public_car_id racer) False) s2
                           in case r of
                                Inl err \<Rightarrow> (Inl err, s3)
                              | Inr container_id \<Rightarrow>
                                  (let (log_file_path, s4) = start_official_race_bot_log_capture other sv team_id
                                         submission_id selected_slot container_id s3
                                   in (Inr (Some container_id),
                                       bot_running team_id (racer\<lparr>rb_slot_index := selected_slot,
                                         rb_container_id := container_id, rb_submission_id := submission_id,
                                         rb_image_ref := image_ref, rb_log_file_path := log_file_path,
                                         rb_auto_restart_attempts := 0\<rparr>) s4)))))"

text \<open>One round of the poller, with the monitors it spawned.\<close>

fun poll_teams ::
  "'n worker_env \<Rightarrow> 'n race_others \<Rightarrow> (nat \<Rightarrow> session_services) \<Rightarrow> nat \<Rightarrow> string list \<Rightarrow> 'n race_system
    \<Rightarrow> monitors \<times> 'n race_system" where
  "poll_teams env other sv k [] sys = ([], sys)"
| "poll_teams env other sv k (team_id # team_ids) sys =
     (let s = reconcile_official_race_bot_liveness other (sv k) team_id sys in
      if hm_get (rs_race_bots s) team_id = None then poll_teams env other sv (Suc k) team_ids s
      else
        let (r, s1) = try_apply_pending_selected_slot_for_team env other (sv k) team_id s;
            (ms, s2) = poll_teams env other sv (Suc k) team_ids s1
        in (case r of Inr (Some container_id) \<Rightarrow> (team_id, container_id) # ms | _ \<Rightarrow> ms, s2))"

definition slot_switch_poll ::
  "'n worker_env \<Rightarrow> 'n race_others \<Rightarrow> (nat \<Rightarrow> session_services) \<Rightarrow> 'n race_system \<Rightarrow> monitors \<times> 'n race_system" where
  "slot_switch_poll env other sv sys = poll_teams env other sv 0 (map fst (rs_race_bots sys)) sys"

section \<open>Launching a session\<close>

datatype start_outcome =
    Started | SkippedGridOverflow | SkippedDuplicateTeam | SkippedMissingSubmission
  | SkippedRuntimeError | SkippedTokenError | SkippedContainerError

fun start_status :: "start_outcome \<Rightarrow> string" where
  "start_status Started = ''started''"
| "start_status SkippedGridOverflow = ''skipped_grid_overflow''"
| "start_status SkippedDuplicateTeam = ''skipped_duplicate_team''"
| "start_status SkippedMissingSubmission = ''skipped_missing_submission''"
| "start_status SkippedRuntimeError = ''skipped_runtime_error''"
| "start_status SkippedTokenError = ''skipped_token_error''"
| "start_status SkippedContainerError = ''skipped_container_error''"

record start_stats =
  sa_total_listed :: nat
  sa_started :: nat
  sa_skipped_grid_overflow :: nat
  sa_skipped_duplicate_team :: nat
  sa_skipped_missing_submission :: nat
  sa_skipped_runtime_error :: nat
  sa_skipped_token_error :: nat
  sa_skipped_container_error :: nat

definition start_stats_default :: start_stats where
  "start_stats_default =
     \<lparr>sa_total_listed = 0, sa_started = 0, sa_skipped_grid_overflow = 0, sa_skipped_duplicate_team = 0,
      sa_skipped_missing_submission = 0, sa_skipped_runtime_error = 0, sa_skipped_token_error = 0,
      sa_skipped_container_error = 0\<rparr>"

fun count_outcome :: "start_outcome \<Rightarrow> start_stats \<Rightarrow> start_stats" where
  "count_outcome Started s = s\<lparr>sa_started := Suc (sa_started s)\<rparr>"
| "count_outcome SkippedGridOverflow s = s\<lparr>sa_skipped_grid_overflow := Suc (sa_skipped_grid_overflow s)\<rparr>"
| "count_outcome SkippedDuplicateTeam s = s\<lparr>sa_skipped_duplicate_team := Suc (sa_skipped_duplicate_team s)\<rparr>"
| "count_outcome SkippedMissingSubmission s = s\<lparr>sa_skipped_missing_submission := Suc (sa_skipped_missing_submission s)\<rparr>"
| "count_outcome SkippedRuntimeError s = s\<lparr>sa_skipped_runtime_error := Suc (sa_skipped_runtime_error s)\<rparr>"
| "count_outcome SkippedTokenError s = s\<lparr>sa_skipped_token_error := Suc (sa_skipped_token_error s)\<rparr>"
| "count_outcome SkippedContainerError s = s\<lparr>sa_skipped_container_error := Suc (sa_skipped_container_error s)\<rparr>"

record team_result_entry =
  te_team_id :: string
  te_roster_index :: u32
  te_start_status :: string
  te_slot_index :: "int option"
  te_submission_id :: "string option"
  te_car_id :: "u64 option"
  te_container_id :: "string option"
  te_completed_laps :: u32
  te_current_lap_distance_m :: "fp option"
  te_total_distance_m :: "fp option"
  te_last_lap_time_ms :: "u32 option"
  te_best_lap_time_ms :: "u32 option"
  te_lap_times_ms :: "u32 list"
  te_has_started_moving :: bool
  te_last_recorded_completed_laps :: u32
  te_initial_lap_progress_m :: "fp option"

definition entry_new ::
  "string \<Rightarrow> u32 \<Rightarrow> start_outcome \<Rightarrow> (int \<times> string) option \<Rightarrow> u64 option \<Rightarrow> string option \<Rightarrow> team_result_entry" where
  "entry_new team_id roster_index outcome slot car_id container_id =
     \<lparr>te_team_id = team_id, te_roster_index = roster_index, te_start_status = start_status outcome,
      te_slot_index = map_option fst slot, te_submission_id = map_option snd slot, te_car_id = car_id,
      te_container_id = container_id, te_completed_laps = 0, te_current_lap_distance_m = None,
      te_total_distance_m = None, te_last_lap_time_ms = None, te_best_lap_time_ms = None, te_lap_times_ms = [],
      te_has_started_moving = False, te_last_recorded_completed_laps = 0, te_initial_lap_progress_m = None\<rparr>"

definition register_official_race_runtime_car :: "string \<Rightarrow> u64 \<Rightarrow> u64 \<Rightarrow> u64 \<Rightarrow> runtime_store \<Rightarrow> runtime_store" where
  "register_official_race_runtime_car team_id public_car_id engine_car_id start_position_index st =
     (let st1 = set_car_identity public_car_id (identity_default\<lparr>id_team_id := Some team_id,
            id_official_race_start_position_index := Some start_position_index\<rparr>) st
      in st1\<lparr>st_known_cars := hm_insert public_car_id () (st_known_cars st1),
             st_last_client_seq := hm_insert public_car_id 0 (st_last_client_seq st1),
             st_car_engine_ids := hm_insert public_car_id engine_car_id (st_car_engine_ids st1),
             st_car_targets := hm_insert public_car_id TargetOfficialRace (st_car_targets st1)\<rparr>)"

fun lowest_runnable_slot ::
  "'n race_others \<Rightarrow> session_services \<Rightarrow> string \<Rightarrow> int list \<Rightarrow> 'n race_system
    \<Rightarrow> (status, (int \<times> string \<times> string) option) result \<times> 'n race_system" where
  "lowest_runnable_slot other sv team_id [] sys = (Inr None, sys)"
| "lowest_runnable_slot other sv team_id (slot_index # slots) sys =
     (case race_read other AwaitRepo (\<lambda>_. sv_slot_submission sv team_id slot_index) sys of
        (Inl err, s) \<Rightarrow> (internal (''failed to resolve slot submission for team '' @ team_id @ '': '' @ err), s)
      | (Inr None, s) \<Rightarrow> lowest_runnable_slot other sv team_id slots s
      | (Inr (Some submission), s) \<Rightarrow>
          (case runnable_image submission of
             None \<Rightarrow> lowest_runnable_slot other sv team_id slots s
           | Some image_ref \<Rightarrow> (Inr (Some (slot_index, ss_submission_id submission, image_ref)), s)))"

definition resolve_lowest_runnable_slot_submission ::
  "'n race_others \<Rightarrow> session_services \<Rightarrow> string \<Rightarrow> 'n race_system
    \<Rightarrow> (status, (int \<times> string \<times> string) option) result \<times> 'n race_system" where
  "resolve_lowest_runnable_slot_submission other sv team_id = lowest_runnable_slot other sv team_id [1, 2, 3]"

text \<open>A bot with its container, from the log to the announcement; the selected slot is saved in between.\<close>

definition register_started_bot ::
  "'n race_others \<Rightarrow> session_services \<Rightarrow> string \<Rightarrow> team_official_race_bot_state \<Rightarrow> 'n race_system \<Rightarrow> 'n race_system" where
  "register_started_bot other sv team_id racer sys =
     (let (log_file_path, s) = start_official_race_bot_log_capture other sv team_id (rb_submission_id racer)
            (rb_slot_index racer) (rb_container_id racer) sys;
          s1 = on_store (set_active_bot_slot (rb_public_car_id racer) (rb_slot_index racer))
                 (put_race_bot team_id (racer\<lparr>rb_log_file_path := log_file_path\<rparr>) s);
          s2 = snd (race_read other AwaitRepo (\<lambda>_. ()) s1)
      in announce_slot team_id s2)"

text \<open>The container of a car on the grid; its outcome, the container and the monitor that is spawned for it.\<close>

definition start_seated_bot ::
  "'n worker_env \<Rightarrow> 'n race_others \<Rightarrow> session_services \<Rightarrow> string \<Rightarrow> u64 \<Rightarrow> int \<times> string \<times> string \<Rightarrow> u64 \<Rightarrow> u64 \<Rightarrow> 'n race_system
    \<Rightarrow> (start_outcome \<times> string option \<times> monitors) \<times> 'n race_system" where
  "start_seated_bot env other sv team_id position slot public_car_id engine_car_id sys =
     (let (slot_index, submission_id, image_ref) = slot;
          roll_back = cleanup_spawned_official_race_car env other public_car_id engine_car_id
      in case bot_tokens other sv team_id sys of
           (Inl _, s) \<Rightarrow> ((SkippedTokenError, None, []), roll_back s)
         | (Inr tokens, s) \<Rightarrow>
             (case official_bot_container_name_for_team team_id of
                Inl _ \<Rightarrow> ((SkippedRuntimeError, None, []), roll_back s)
              | Inr container_name \<Rightarrow>
                  (case race_read other AwaitContainer (\<lambda>_. start_bot_container (env_features env) (sv_docker sv)
                          (official_container_request sv image_ref container_name tokens team_id submission_id slot_index)) s of
                     (Inl _, s1) \<Rightarrow> ((SkippedContainerError, None, []), roll_back (discard_container other sv container_name s1))
                   | (Inr container_id, s1) \<Rightarrow>
                       ((Started, Some container_id, [(team_id, container_id)]),
                        register_started_bot other sv team_id
                          \<lparr>rb_public_car_id = public_car_id, rb_engine_car_id = engine_car_id,
                           rb_start_position_index = position, rb_slot_index = slot_index,
                           rb_container_name = container_name, rb_container_id = container_id,
                           rb_submission_id = submission_id, rb_image_ref = image_ref, rb_log_file_path = [],
                           rb_auto_restart_attempts = 0\<rparr> s1))))"

definition start_team_bot ::
  "'n worker_env \<Rightarrow> 'n race_others \<Rightarrow> session_services \<Rightarrow> string \<Rightarrow> u64 \<Rightarrow> int \<times> string \<times> string \<Rightarrow> 'n race_system
    \<Rightarrow> (start_outcome \<times> u64 option \<times> string option \<times> monitors) \<times> 'n race_system" where
  "start_team_bot env other sv team_id position slot sys =
     (case race_call other AwaitSpawn (client_spawn_car env) sys of
        (Inl _, s) \<Rightarrow> ((SkippedRuntimeError, None, None, []), s)
      | (Inr engine_car_id, s) \<Rightarrow>
          let (public_car_id, st) = allocate_public_car_id (rs_store s);
              s1 = s\<lparr>rs_store := register_official_race_runtime_car team_id public_car_id engine_car_id position st\<rparr>
          in case race_call other AwaitPlace
                    (client_set_car_at_start_pos_in env TargetOfficialRace engine_car_id position) s1 of
               (Inl _, s2) \<Rightarrow>
                 ((SkippedRuntimeError, Some public_car_id, None, []),
                  cleanup_spawned_official_race_car env other public_car_id engine_car_id s2)
             | (Inr _, s2) \<Rightarrow>
                 (let ((outcome, container_id, ms), s3) = start_seated_bot env other sv team_id position slot public_car_id
                        engine_car_id s2
                  in ((outcome, Some public_car_id, container_id, ms), s3)))"

text \<open>One team of the roster; \<open>index\<close> counts from 0 and \<open>seen\<close> are the teams before it that fit the grid.\<close>

definition launch_team ::
  "'n worker_env \<Rightarrow> 'n race_others \<Rightarrow> session_services \<Rightarrow> u64 \<Rightarrow> nat \<Rightarrow> string list \<Rightarrow> string \<Rightarrow> 'n race_system
    \<Rightarrow> (status, start_outcome \<times> team_result_entry \<times> monitors) result \<times> 'n race_system" where
  "launch_team env other sv start_slots index seen team_id sys =
     (if index + 1 \<ge> 2 ^ 32 then (internal ''official race roster index overflow'', sys)
      else
        let roster_index = of_nat (index + 1) :: u32; position = of_nat (index + 1) :: u64;
            entry = entry_new team_id roster_index in
        if position > start_slots
        then (Inr (SkippedGridOverflow, entry SkippedGridOverflow None None None, []), sys)
        else if team_id \<in> set seen
        then (Inr (SkippedDuplicateTeam, entry SkippedDuplicateTeam None None None, []), sys)
        else
          (case resolve_lowest_runnable_slot_submission other sv team_id sys of
             (Inl err, s) \<Rightarrow> (Inl err, s)
           | (Inr None, s) \<Rightarrow> (Inr (SkippedMissingSubmission, entry SkippedMissingSubmission None None None, []), s)
           | (Inr (Some slot), s) \<Rightarrow>
               (let ((outcome, car_id, container_id, ms), s1) = start_team_bot env other sv team_id position slot s
                in (Inr (outcome, entry outcome (Some (fst slot, fst (snd slot))) car_id container_id, ms), s1))))"

record launch_result =
  la_stats :: start_stats
  la_teams :: "team_result_entry list"

fun launch_teams ::
  "'n worker_env \<Rightarrow> 'n race_others \<Rightarrow> (nat \<Rightarrow> session_services) \<Rightarrow> u64 \<Rightarrow> nat \<Rightarrow> string list \<Rightarrow> launch_result \<Rightarrow> monitors
    \<Rightarrow> string list \<Rightarrow> 'n race_system \<Rightarrow> ((status, launch_result) result \<times> monitors) \<times> 'n race_system" where
  "launch_teams env other sv start_slots index seen res ms [] sys = ((Inr res, ms), sys)"
| "launch_teams env other sv start_slots index seen res ms (team_id # team_ids) sys =
     (case launch_team env other (sv index) start_slots index seen team_id sys of
        (Inl err, s) \<Rightarrow> ((Inl err, ms), s)
      | (Inr (outcome, entry, spawned), s) \<Rightarrow>
          launch_teams env other sv start_slots (Suc index)
            (if of_nat (index + 1) > start_slots then seen else team_id # seen)
            \<lparr>la_stats = count_outcome outcome ((la_stats res)\<lparr>sa_total_listed := Suc (sa_total_listed (la_stats res))\<rparr>),
             la_teams = la_teams res @ [entry]\<rparr>
            (ms @ spawned) team_ids s)"

fun drop_bots ::
  "'n worker_env \<Rightarrow> 'n race_others \<Rightarrow> (nat \<Rightarrow> session_services) \<Rightarrow> nat \<Rightarrow> (string \<times> team_official_race_bot_state) list
    \<Rightarrow> 'n race_system \<Rightarrow> 'n race_system" where
  "drop_bots env other sv k [] sys = sys"
| "drop_bots env other sv k ((team_id, racer) # bots) sys =
     (let s1 = drop_race_bot team_id (stop_official_race_log_capture_for_team other team_id sys);
          s2 = despawn_official_car env other (rb_engine_car_id racer)
                 (discard_container other (sv k) (rb_container_name racer) s1);
          s3 = on_store (\<lambda>st. remove_car (rb_public_car_id racer) (clear_active_bot_slot (rb_public_car_id racer) st)) s2
      in drop_bots env other sv (Suc k) bots (announce_slot team_id s3))"

fun drop_stale_cars :: "'n worker_env \<Rightarrow> 'n race_others \<Rightarrow> u64 list \<Rightarrow> 'n race_system \<Rightarrow> 'n race_system" where
  "drop_stale_cars env other [] sys = sys"
| "drop_stale_cars env other (car # cars) sys =
     (let team_id = (case hm_get (st_car_identity (rs_store sys)) car of None \<Rightarrow> None | Some i \<Rightarrow> id_team_id i);
          s1 = (case hm_get (st_car_engine_ids (rs_store sys)) car of
                  None \<Rightarrow> sys
                | Some engine_car_id \<Rightarrow> despawn_official_car env other engine_car_id sys);
          s2 = on_store (\<lambda>st. remove_car car (clear_active_bot_slot car st)) s1
      in drop_stale_cars env other cars (case team_id of None \<Rightarrow> s2 | Some t \<Rightarrow> announce_slot t s2))"

definition official_cars :: "runtime_store \<Rightarrow> u64 list" where
  "official_cars st = map fst (filter (\<lambda>(_, target). target = TargetOfficialRace) (st_car_targets st))"

definition cleanup_official_race_session_locked ::
  "'n worker_env \<Rightarrow> 'n race_others \<Rightarrow> (nat \<Rightarrow> session_services) \<Rightarrow> 'n race_system \<Rightarrow> 'n race_system" where
  "cleanup_official_race_session_locked env other sv sys =
     (let s1 = on_store clear_official_race_session sys;
          s2 = drop_bots env other sv 0 (rs_race_bots s1) s1
      in drop_stale_cars env other (official_cars (rs_store s2)) s2)"

definition close_official_race_session_locked ::
  "'n worker_env \<Rightarrow> 'n race_others \<Rightarrow> (nat \<Rightarrow> session_services) \<Rightarrow> 'n race_system \<Rightarrow> 'n race_system" where
  "close_official_race_session_locked env other sv sys =
     cleanup_official_race_session_locked env other sv
       (case race_call other AwaitRuntime (client_runtime_state env) sys of
          (Inl _, s) \<Rightarrow> s
        | (Inr rt, s) \<Rightarrow>
            if rt_activity_kind rt = ActOfficialRace
            then snd (race_call other AwaitSwitch (client_switch_runtime env (rt_revision rt) ActNone (rt_map_id rt) None
                        (Some (rt_time_of_day_preset rt)) None) s)
            else s)"

text \<open>The stored configuration of a race, as far as a session reads it.\<close>

fun race_time_of_day_preset_to_engine :: "race_time_of_day_preset \<Rightarrow> time_of_day" where
  "race_time_of_day_preset_to_engine Morning = TodMorning"
| "race_time_of_day_preset_to_engine Noon = TodNoon"
| "race_time_of_day_preset_to_engine Evening = TodEvening"
| "race_time_of_day_preset_to_engine Night = TodNight"
| "race_time_of_day_preset_to_engine TimeOfDayUnspecified = TodUnspecified"

record race_config_record =
  rg_race_id :: string
  rg_race_name :: string
  rg_map_id :: string
  rg_race_duration_sec :: u32
  rg_time_of_day_preset :: race_time_of_day_preset

definition launch_official_race_session_locked ::
  "'n worker_env \<Rightarrow> 'n race_others \<Rightarrow> (nat \<Rightarrow> session_services) \<Rightarrow> (nat \<Rightarrow> session_services) \<Rightarrow> race_config_record
    \<Rightarrow> string list \<Rightarrow> ghost_mode_settings option \<Rightarrow> 'n race_system
    \<Rightarrow> ((status, launch_result) result \<times> monitors) \<times> 'n race_system" where
  "launch_official_race_session_locked env other sv_cleanup sv cfg team_ids ghost_mode_settings sys =
     (let s0 = cleanup_official_race_session_locked env other sv_cleanup sys
      in case worker_call other AwaitRuntime (client_runtime_state env) s0 of
           (Inl err, s) \<Rightarrow> ((Inl err, []), s)
         | (Inr rt, s) \<Rightarrow>
             (case worker_call other AwaitSwitch (client_switch_runtime env (rt_revision rt) ActOfficialRace (rg_map_id cfg) None
                     (Some (race_time_of_day_preset_to_engine (rg_time_of_day_preset cfg))) ghost_mode_settings) s of
                (Inl err, s1) \<Rightarrow> ((Inl err, []), s1)
              | (Inr _, s1) \<Rightarrow>
                  (case worker_call other AwaitSlots (client_get_number_of_start_pos_in env TargetOfficialRace) s1 of
                     (Inl err, s2) \<Rightarrow> ((Inl err, []), s2)
                   | (Inr start_slots, s2) \<Rightarrow>
                       if start_slots = 0
                       then ((failed_precondition ''official race map has no start slots'', []), s2)
                       else launch_teams env other sv start_slots 0 []
                              \<lparr>la_stats = start_stats_default, la_teams = []\<rparr> [] team_ids s2)))"

fun pin_cars :: "'n worker_env \<Rightarrow> 'n race_others \<Rightarrow> (u64 \<times> u64) list \<Rightarrow> 'n race_system \<Rightarrow> 'n race_system" where
  "pin_cars env other [] sys = sys"
| "pin_cars env other ((engine_car_id, position) # cars) sys =
     pin_cars env other cars
       (snd (race_call other AwaitPlace (client_set_car_at_start_pos_in env TargetOfficialRace engine_car_id position) sys))"

definition grid_cars :: "runtime_store \<Rightarrow> (u64 \<times> u64) list" where
  "grid_cars st = List.map_filter (\<lambda>car.
     case hm_get (st_car_engine_ids st) car of
       None \<Rightarrow> None
     | Some engine_car_id \<Rightarrow>
         (case hm_get (st_car_identity st) car of
            None \<Rightarrow> None
          | Some i \<Rightarrow> map_option (\<lambda>position. (engine_car_id, position)) (id_official_race_start_position_index i)))
     (official_cars st)"

definition keep_official_race_grid_positions_locked ::
  "'n worker_env \<Rightarrow> 'n race_others \<Rightarrow> 'n race_system \<Rightarrow> 'n race_system" where
  "keep_official_race_grid_positions_locked env other sys = pin_cars env other (grid_cars (rs_store sys)) sys"

section \<open>Results\<close>

record results_file =
  rf_session_id :: string
  rf_race_id :: string
  rf_race_name :: string
  rf_map_id :: string
  rf_started_at_unix_ms :: u64
  rf_finalized_at_unix_ms :: "u64 option"
  rf_status :: string
  rf_teams :: "team_result_entry list"

record results_recorder =
  rr_session_file_path :: string
  rr_latest_file_path :: string
  rr_next_write_after_ms :: u64
  rr_data :: results_file

definition session_id_of :: "u64 \<Rightarrow> string \<Rightarrow> string" where
  "session_id_of now_ms rid =
     dec_nat (unat now_ms) @ ''_'' @
     map (\<lambda>ch. if length ch = 1 \<and> is_name_char (hd ch) then hd ch else CHR ''_'') (chars_of rid)"

definition recorder_new :: "string \<Rightarrow> race_config_record \<Rightarrow> launch_result \<Rightarrow> u64 \<Rightarrow> results_recorder" where
  "recorder_new assets_dir cfg launch now_ms =
     (let results_dir = assets_dir @ ''/official-race-results''; session_id = session_id_of now_ms (rg_race_id cfg) in
      \<lparr>rr_session_file_path = results_dir @ ''/'' @ session_id @ ''.json'',
       rr_latest_file_path = results_dir @ ''/latest.json'', rr_next_write_after_ms = now_ms,
       rr_data = \<lparr>rf_session_id = session_id, rf_race_id = rg_race_id cfg, rf_race_name = rg_race_name cfg,
         rf_map_id = rg_map_id cfg, rf_started_at_unix_ms = now_ms, rf_finalized_at_unix_ms = None,
         rf_status = ''running'', rf_teams = la_teams launch\<rparr>\<rparr>)"

definition record_metrics :: "fp \<Rightarrow> vehicle_race_metrics \<Rightarrow> u32 option \<Rightarrow> team_result_entry \<Rightarrow> team_result_entry" where
  "record_metrics lap_length metrics best_ms team =
     (let progress = fp_max (lap_progress_m metrics) (Fin 0); laps = completed_laps metrics;
          baseline = (case te_initial_lap_progress_m team of None \<Rightarrow> progress | Some v \<Rightarrow> v);
          moved = fp_lt (Fin 1) (fp_abs (fp_sub binary32 progress baseline));
          moving = (te_has_started_moving team \<or> laps > 0 \<or> moved);
          counted = laps > te_last_recorded_completed_laps team
      in team
         \<lparr>te_completed_laps := laps, te_initial_lap_progress_m := Some baseline, te_has_started_moving := moving,
          te_current_lap_distance_m := (if moving then Some progress else None),
          te_total_distance_m :=
            (if moving then Some (fp_add binary32 (fp_mul binary32 (fp_of_int binary32 (uint laps)) lap_length) progress)
             else None),
          te_last_lap_time_ms := last_lap_time_ms metrics, te_best_lap_time_ms := best_ms,
          te_lap_times_ms :=
            (case last_lap_time_ms metrics of
               Some t \<Rightarrow> if counted then te_lap_times_ms team @ [t] else te_lap_times_ms team
             | None \<Rightarrow> te_lap_times_ms team),
          te_last_recorded_completed_laps := (if counted then laps else te_last_recorded_completed_laps team)\<rparr>)"

definition refresh_team :: "runtime_frame \<Rightarrow> team_result_entry \<Rightarrow> team_result_entry" where
  "refresh_team frame team =
     (case te_car_id team of
        None \<Rightarrow> team
      | Some car_id \<Rightarrow>
          (case hm_get (fr_cars frame) car_id of
             None \<Rightarrow> team
           | Some car \<Rightarrow>
               if cf_target car \<noteq> TargetOfficialRace then team
               else case cf_race_metrics car of
                 None \<Rightarrow> team
               | Some metrics \<Rightarrow>
                   record_metrics
                     (fp_max (case fr_official_lap_length_m frame of None \<Rightarrow> Fin 0 | Some l \<Rightarrow> l) (Fin 0))
                     metrics (cf_best_lap_time_ms car) team))"

definition refresh_from_runtime :: "runtime_frame \<Rightarrow> results_recorder \<Rightarrow> results_recorder" where
  "refresh_from_runtime frame r =
     r\<lparr>rr_data := (rr_data r)\<lparr>rf_teams := map (refresh_team frame) (rf_teams (rr_data r))\<rparr>\<rparr>"

text \<open>A write that fails is only logged, so an operation yields the snapshots it writes.\<close>

definition recorder_tick :: "runtime_frame \<Rightarrow> u64 \<Rightarrow> results_recorder \<Rightarrow> results_recorder \<times> results_file list" where
  "recorder_tick frame now_ms r =
     (let r1 = refresh_from_runtime frame r in
      if now_ms \<ge> rr_next_write_after_ms r1
      then (r1\<lparr>rr_next_write_after_ms := sat_add now_ms 1000\<rparr>, [rr_data r1])
      else (r1, []))"

definition recorder_finalize :: "u64 \<Rightarrow> results_recorder \<Rightarrow> results_recorder \<times> results_file list" where
  "recorder_finalize now_ms r =
     (let r1 = r\<lparr>rr_data := (rr_data r)\<lparr>rf_status := ''finalized'', rf_finalized_at_unix_ms := Some now_ms\<rparr>\<rparr>
      in (r1, [rr_data r1]))"

section \<open>Preparing a race\<close>

text \<open>
  What one preparation reads: the stored races, the roster, the settings of the ghost mode as
  the JSON library reads them, and whether the first snapshot could be written.
\<close>

record prepare_inputs =
  pi_races :: "(string, race_config_record list) result"
  pi_roster :: "(string, string) result"
  pi_ghost_exists :: "(string, bool) result"
  pi_ghost_content :: "(string, string) result"
  pi_ghost_json :: "string \<Rightarrow> (string, ghost_mode_settings) result"
  pi_cleanup_services :: "nat \<Rightarrow> session_services"
  pi_services :: "nat \<Rightarrow> session_services"
  pi_now_ms :: u64
  pi_first_write :: "(string, unit) result"

definition team_ids_of :: "string \<Rightarrow> string list" where
  "team_ids_of content = filter (\<lambda>line. line \<noteq> [] \<and> \<not> prefix ''#'' line) (map trim (str_lines content))"

definition read_official_race_team_ids ::
  "'n race_others \<Rightarrow> string \<Rightarrow> prepare_inputs \<Rightarrow> 'n race_system \<Rightarrow> (status, string list) result \<times> 'n race_system" where
  "read_official_race_team_ids other path inp sys =
     (case race_read other AwaitRepo (\<lambda>_. pi_roster inp) sys of
        (Inl err, s) \<Rightarrow> (internal (''failed to read official race team roster file '' @ path @ '': '' @ err), s)
      | (Inr content, s) \<Rightarrow> (Inr (team_ids_of content), s))"

definition ghost_settings_valid :: "ghost_mode_settings \<Rightarrow> bool" where
  "ghost_settings_valid g \<longleftrightarrow>
     \<not> (\<not> is_finite_fp (enter_speed_max_mps g) \<or> \<not> is_finite_fp (exit_speed_min_mps g) \<or>
        fp_lt (enter_speed_max_mps g) (Fin 0) \<or> fp_lt (exit_speed_min_mps g) (Fin 0) \<or>
        fp_lt (exit_speed_min_mps g) (enter_speed_max_mps g))"

definition read_official_race_ghost_mode_settings ::
  "'n race_others \<Rightarrow> string \<Rightarrow> prepare_inputs \<Rightarrow> 'n race_system
    \<Rightarrow> (status, ghost_mode_settings option) result \<times> 'n race_system" where
  "read_official_race_ghost_mode_settings other assets_dir inp sys =
     (let path = assets_dir @ ''/official-race-ghost-mode.json'' in
      case race_read other AwaitRepo (\<lambda>_. pi_ghost_exists inp) sys of
        (Inl err, s) \<Rightarrow> (internal (''failed to check official race ghost-mode settings file '' @ path @ '': '' @ err), s)
      | (Inr False, s) \<Rightarrow> (Inr None, s)
      | (Inr True, s) \<Rightarrow>
          (case race_read other AwaitRepo (\<lambda>_. pi_ghost_content inp) s of
             (Inl err, s1) \<Rightarrow> (internal (''failed to read official race ghost-mode settings file '' @ path @ '': '' @ err), s1)
           | (Inr content, s1) \<Rightarrow>
               (case pi_ghost_json inp content of
                  Inl err \<Rightarrow> (Inl (Status CodeInvalidArgument
                    (''invalid official race ghost-mode settings JSON '' @ path @ '': '' @ err)), s1)
                | Inr parsed \<Rightarrow>
                    if ghost_settings_valid parsed then (Inr (Some parsed), s1)
                    else (Inl (Status CodeInvalidArgument (''invalid ghost mode settings in '' @ path @
                      '': require finite non-negative speeds and enter_speed_max_mps <= exit_speed_min_mps'')), s1))))"

definition handle_official_race_prepare_signal ::
  "'n worker_env \<Rightarrow> 'n race_others \<Rightarrow> string \<Rightarrow> string \<Rightarrow> prepare_inputs \<Rightarrow> 'n race_system
    \<Rightarrow> ((status, results_recorder) result \<times> monitors) \<times> 'n race_system" where
  "handle_official_race_prepare_signal env other teams_file assets_dir inp sys =
     (case race_read other AwaitRepo (\<lambda>_. pi_races inp) sys of
        (Inl err, s) \<Rightarrow> ((internal (''failed to load race configs: '' @ err), []), s)
      | (Inr [], s) \<Rightarrow> ((failed_precondition ''official race launcher: no race config available'', []), s)
      | (Inr (cfg # _), s) \<Rightarrow>
          (case read_official_race_team_ids other teams_file inp s of
             (Inl err, s1) \<Rightarrow> ((Inl err, []), s1)
           | (Inr team_ids, s1) \<Rightarrow>
               (case read_official_race_ghost_mode_settings other assets_dir inp s1 of
                  (Inl err, s2) \<Rightarrow> ((Inl err, []), s2)
                | (Inr ghost, s2) \<Rightarrow>
                    (case launch_official_race_session_locked env other (pi_cleanup_services inp) (pi_services inp) cfg team_ids
                            ghost (snd (race_read other AwaitLock (\<lambda>_. ()) s2)) of
                       ((Inl err, ms), s3) \<Rightarrow> ((Inl err, ms), s3)
                     | ((Inr launch, ms), s3) \<Rightarrow>
                         let s4 = on_store (set_official_race_prepared (rg_race_name cfg) (rg_map_id cfg)
                                    (rg_race_duration_sec cfg) (pi_now_ms inp)) s3
                         in (case race_read other AwaitLogs (\<lambda>_. pi_first_write inp) s4 of
                               (Inl err, s5) \<Rightarrow> ((internal (''failed to write initial race results snapshot: '' @ err), ms), s5)
                             | (Inr _, s5) \<Rightarrow> ((Inr (recorder_new assets_dir cfg launch (pi_now_ms inp)), ms), s5))))))"

section \<open>The launcher\<close>

record launcher_state =
  ls_prepare_prev :: bool
  ls_start_prev :: bool
  ls_prepared :: bool
  ls_started :: bool
  ls_recorder :: "results_recorder option"

definition launcher_new :: launcher_state where
  "launcher_new = \<lparr>ls_prepare_prev = False, ls_start_prev = False, ls_prepared = False, ls_started = False,
     ls_recorder = None\<rparr>"

text \<open>One turn: the signal files, what a preparation reads (on the signal, or implied by a start), and the others.\<close>

record 'n launcher_turn =
  lt_prepare_signal :: bool
  lt_start_signal :: bool
  lt_prepare :: prepare_inputs
  lt_implicit_prepare :: prepare_inputs
  lt_refresh_services :: "nat \<Rightarrow> session_services"
  lt_close_services :: "nat \<Rightarrow> session_services"
  lt_now_ms :: u64
  lt_others :: "'n race_others"

type_synonym launcher_effects = "monitors \<times> results_file list"

definition drop_recorder :: "u64 \<Rightarrow> launcher_state \<Rightarrow> launcher_state \<times> results_file list" where
  "drop_recorder now_ms la =
     (la\<lparr>ls_recorder := None\<rparr>,
      case ls_recorder la of None \<Rightarrow> [] | Some r \<Rightarrow> snd (recorder_finalize now_ms r))"

definition on_prepare_signal ::
  "'n worker_env \<Rightarrow> string \<Rightarrow> string \<Rightarrow> 'n launcher_turn \<Rightarrow> launcher_state \<Rightarrow> 'n race_system
    \<Rightarrow> (launcher_state \<times> launcher_effects) \<times> 'n race_system" where
  "on_prepare_signal env teams_file assets_dir turn la sys =
     (let (la1, files) = drop_recorder (lt_now_ms turn) la
      in case handle_official_race_prepare_signal env (lt_others turn) teams_file assets_dir (lt_prepare turn) sys of
           ((Inr r, ms), s) \<Rightarrow>
             ((la1\<lparr>ls_recorder := Some r, ls_prepared := True, ls_started := False\<rparr>, (ms, files)), s)
         | ((Inl _, ms), s) \<Rightarrow> ((la1\<lparr>ls_prepared := False, ls_started := False\<rparr>, (ms, files)), s))"

definition implicit_prepare ::
  "'n worker_env \<Rightarrow> string \<Rightarrow> string \<Rightarrow> 'n launcher_turn \<Rightarrow> launcher_state \<Rightarrow> 'n race_system
    \<Rightarrow> (launcher_state \<times> launcher_effects) \<times> 'n race_system" where
  "implicit_prepare env teams_file assets_dir turn la sys =
     (let (la1, files) = drop_recorder (lt_now_ms turn) la
      in case handle_official_race_prepare_signal env (lt_others turn) teams_file assets_dir (lt_implicit_prepare turn) sys of
           ((Inr r, ms), s) \<Rightarrow>
             ((la1\<lparr>ls_recorder := Some r, ls_prepared := True, ls_started := False\<rparr>, (ms, files)), s)
         | ((Inl _, ms), s) \<Rightarrow> ((la1, (ms, files)), s))"

definition on_start_signal ::
  "'n worker_env \<Rightarrow> string \<Rightarrow> string \<Rightarrow> 'n launcher_turn \<Rightarrow> launcher_state \<Rightarrow> 'n race_system
    \<Rightarrow> (launcher_state \<times> launcher_effects) \<times> 'n race_system" where
  "on_start_signal env teams_file assets_dir turn la sys =
     (let ((la1, (ms, files)), s) = (if ls_prepared la then ((la, ([], [])), sys)
                                     else implicit_prepare env teams_file assets_dir turn la sys)
      in if ls_prepared la1 \<and> \<not> ls_started la1
         then
           (let ((_, _, ms1), s1) = refresh_official_race_bots_before_start_locked env (lt_others turn)
                  (lt_refresh_services turn) s;
                (_, s2) = force_official_race_hard_tyres env (lt_others turn) s1
            in ((la1\<lparr>ls_started := True\<rparr>, (ms @ ms1, files)),
                on_store (mark_official_race_started (fr_server_time_ms (rs_latest s2))) s2))
         else ((la1, (ms, files)), s))"

definition race_elapsed :: "'n race_system \<Rightarrow> bool" where
  "race_elapsed sys =
     (case official_race_remaining_sec (fr_server_time_ms (rs_latest sys)) (rs_store sys) of
        None \<Rightarrow> False | Some v \<Rightarrow> fp_le v (Fin 0))"

text \<open>The running session; the flag says that the turn ends here.\<close>

definition watch_session ::
  "'n worker_env \<Rightarrow> 'n launcher_turn \<Rightarrow> launcher_state \<Rightarrow> 'n race_system
    \<Rightarrow> (bool \<times> launcher_state \<times> results_file list) \<times> 'n race_system" where
  "watch_session env turn la sys =
     (case ls_recorder la of
        None \<Rightarrow> ((False, la, []), sys)
      | Some r \<Rightarrow>
          let other = lt_others turn;
              s = (if ls_prepared la \<and> \<not> ls_started la then keep_official_race_grid_positions_locked env other sys else sys)
          in if ls_started la \<and> race_elapsed s
             then ((True, la\<lparr>ls_recorder := None, ls_prepared := False, ls_started := False\<rparr>,
                    snd (recorder_finalize (lt_now_ms turn) r)),
                   close_official_race_session_locked env other (lt_close_services turn)
                     (snd (race_read other AwaitLock (\<lambda>_. ()) s)))
             else
               let (r1, files) = recorder_tick (rs_latest s) (lt_now_ms turn) r;
                   s1 = snd (race_read other AwaitLogs (\<lambda>_. ()) s);
                   activity = map_option rt_activity_kind (fr_runtime_state (rs_latest s1))
               in if activity \<noteq> Some ActOfficialRace
                  then ((False, la\<lparr>ls_recorder := None, ls_prepared := False, ls_started := False\<rparr>,
                         files @ snd (recorder_finalize (lt_now_ms turn) r1)),
                        on_store clear_official_race_session s1)
                  else ((False, la\<lparr>ls_recorder := Some r1\<rparr>, files), s1))"

definition launcher_tick ::
  "'n worker_env \<Rightarrow> string \<Rightarrow> string \<Rightarrow> 'n launcher_turn \<Rightarrow> launcher_state \<Rightarrow> 'n race_system
    \<Rightarrow> (launcher_state \<times> launcher_effects) \<times> 'n race_system" where
  "launcher_tick env teams_file assets_dir turn la sys =
     (let s0 = snd (race_read (lt_others turn) AwaitTurn (\<lambda>_. ()) sys);
          ((la1, (ms1, files1)), s1) =
            (if lt_prepare_signal turn \<and> \<not> ls_prepare_prev la
             then on_prepare_signal env teams_file assets_dir turn la s0 else ((la, ([], [])), s0));
          ((la2, (ms2, files2)), s2) =
            (if lt_start_signal turn \<and> \<not> ls_start_prev la1
             then on_start_signal env teams_file assets_dir turn la1 s1 else ((la1, ([], [])), s1));
          ((elapsed, la3, files3), s3) = watch_session env turn la2 s2
      in ((if elapsed then la3
           else la3\<lparr>ls_prepare_prev := lt_prepare_signal turn, ls_start_prev := lt_start_signal turn\<rparr>,
           (ms1 @ ms2, files1 @ files2 @ files3)), s3))"

definition launcher_start :: "'n race_system \<Rightarrow> launcher_state \<times> 'n race_system" where
  "launcher_start sys = (launcher_new, on_store clear_official_race_session sys)"

definition launcher_shutdown :: "u64 \<Rightarrow> launcher_state \<Rightarrow> 'n race_system \<Rightarrow> results_file list \<times> 'n race_system" where
  "launcher_shutdown now_ms la sys = (snd (drop_recorder now_ms la), on_store clear_official_race_session sys)"

end
