(* ===== verification/Official_Session_Contract.thy ===== *)
theory Official_Session_Contract
  imports Official_Session Engine_Worker_Contract
begin

text \<open>
  Properties of the sessions of the official race: what a launch reports of the roster, what
  it leaves in the registry, how often a bot is restarted, the states of the launcher, and
  two ways in which signals go wrong.
\<close>

section \<open>Quiet calls\<close>

text \<open>Without other tasks a read only reads and a call of the worker changes the worker only.\<close>

lemma quiet_read: "race_read race_alone a f sys = (f sys, sys)"
  by (simp add: race_read_def race_call_def race_alone_def)

lemma quiet_call: "race_call race_alone a f sys = f sys"
  by (simp add: race_call_def race_alone_def case_prod_beta)

lemma quiet_worker: "worker_call race_alone a f sys = (map_sum map_worker_err (\<lambda>v. v) (fst (f sys)), snd (f sys))"
  by (simp add: worker_call_def quiet_call case_prod_beta)

lemmas quiet_calls = quiet_read quiet_call quiet_worker

lemma client_call_keeps:
  "rs_store (snd (client_call env cmd get sys)) = rs_store sys"
  "rs_latest (snd (client_call env cmd get sys)) = rs_latest sys"
  "rs_race_bots (snd (client_call env cmd get sys)) = rs_race_bots sys"
  "rs_log_captures (snd (client_call env cmd get sys)) = rs_log_captures sys"
  by (simp_all add: client_call_def case_prod_beta)

lemma step_sel [simp]:
  "rs_race_bots (announce_slot t sys) = rs_race_bots sys" "rs_store (announce_slot t sys) = rs_store sys"
  "rs_latest (announce_slot t sys) = rs_latest sys"
  "rs_race_bots (put_race_bot t b sys) = hm_insert t b (rs_race_bots sys)" "rs_store (put_race_bot t b sys) = rs_store sys"
  "rs_latest (put_race_bot t b sys) = rs_latest sys"
  "rs_race_bots (drop_race_bot t sys) = hm_remove t (rs_race_bots sys)" "rs_store (drop_race_bot t sys) = rs_store sys"
  "rs_latest (drop_race_bot t sys) = rs_latest sys"
  "rs_race_bots (on_store f sys) = rs_race_bots sys" "rs_store (on_store f sys) = f (rs_store sys)"
  "rs_latest (on_store f sys) = rs_latest sys"
  by (simp_all add: announce_slot_def put_race_bot_def drop_race_bot_def on_store_def)

lemma quiet_steps [simp]:
  "rs_race_bots (despawn_official_car env race_alone e sys) = rs_race_bots sys"
  "rs_store (despawn_official_car env race_alone e sys) = rs_store sys"
  "rs_latest (despawn_official_car env race_alone e sys) = rs_latest sys"
  "discard_container race_alone sv name sys = sys"
  "rs_race_bots (stop_official_race_log_capture_for_team race_alone t sys) = rs_race_bots sys"
  "rs_store (stop_official_race_log_capture_for_team race_alone t sys) = rs_store sys"
  "rs_latest (stop_official_race_log_capture_for_team race_alone t sys) = rs_latest sys"
  "rs_race_bots (snd (start_official_race_bot_log_capture race_alone sv t sub slot c sys)) = rs_race_bots sys"
  "rs_store (snd (start_official_race_bot_log_capture race_alone sv t sub slot c sys)) = rs_store sys"
  "rs_latest (snd (start_official_race_bot_log_capture race_alone sv t sub slot c sys)) = rs_latest sys"
  by (simp_all add: despawn_official_car_def discard_container_def stop_official_race_log_capture_for_team_def
      start_official_race_bot_log_capture_def quiet_calls client_defs client_call_keeps)

lemma quiet_tokens: "snd (bot_tokens race_alone sv team_id sys) = sys"
  by (simp add: bot_tokens_def quiet_calls split: sum.split)

section \<open>The roster\<close>

lemma start_status_inj: "start_status a = start_status b \<longleftrightarrow> a = b"
  by (cases a; cases b) simp_all

text \<open>The monitors that are spawned, one for the container of a bot that was started.\<close>

definition monitored :: "monitors \<Rightarrow> (string \<times> string option) list" where
  "monitored ms = map (\<lambda>(team_id, container_id). (team_id, Some container_id)) ms"

lemma monitored_simps [simp]:
  "monitored [] = []" "monitored (m # ms) = (fst m, Some (snd m)) # monitored ms"
  "monitored (ms @ ms') = monitored ms @ monitored ms'"
  by (simp_all add: monitored_def case_prod_beta)

lemma seated_outcome:
  "start_seated_bot env other sv t p slot car e sys = ((outcome, c, ms), s) \<Longrightarrow>
     (outcome = Started \<longleftrightarrow> c \<noteq> None) \<and> monitored ms = (if outcome = Started then [(t, c)] else [])"
  by (auto simp: start_seated_bot_def Let_def split: prod.splits sum.splits)

lemma team_outcome:
  assumes "start_team_bot env other sv t p slot sys = ((outcome, car, c, ms), s)"
  shows "outcome = Started \<longleftrightarrow> c \<noteq> None" "c \<noteq> None \<Longrightarrow> car \<noteq> None"
    "monitored ms = (if outcome = Started then [(t, c)] else [])"
  using assms by (auto simp: start_team_bot_def Let_def split: prod.splits sum.splits if_splits dest!: seated_outcome)

definition started_entry :: "team_result_entry \<Rightarrow> bool" where
  "started_entry e \<longleftrightarrow> te_start_status e = start_status Started"

definition entry_of :: "u64 \<Rightarrow> nat \<Rightarrow> string \<Rightarrow> start_outcome \<Rightarrow> team_result_entry \<Rightarrow> bool" where
  "entry_of start_slots index team_id outcome e \<longleftrightarrow>
     te_team_id e = team_id \<and> unat (te_roster_index e) = index + 1 \<and> te_start_status e = start_status outcome \<and>
     (outcome = Started \<longleftrightarrow> te_container_id e \<noteq> None) \<and>
     (outcome = Started \<longrightarrow> te_car_id e \<noteq> None \<and> index < unat start_slots)"

lemma index_words:
  assumes "index + 1 < 2 ^ 32"
  shows "unat (of_nat (index + 1) :: u32) = index + 1" "unat (of_nat (index + 1) :: u64) = index + 1"
  using assms by (simp_all only: unat_of_nat) simp_all

lemma launch_team_entry:
  assumes "launch_team env other sv start_slots index seen team_id sys = (Inr (outcome, e, spawned), s)"
  shows "entry_of start_slots index team_id outcome e" "outcome = Started \<Longrightarrow> team_id \<notin> set seen"
    "outcome = Started \<Longrightarrow> \<not> of_nat (index + 1) > start_slots"
    "monitored spawned = (if outcome = Started then [(team_id, te_container_id e)] else [])"
proof -
  have b: "index + 1 < 2 ^ 32" using assms by (auto simp: launch_team_def internal_def split: if_splits)
  note w = index_words [OF b]
  have grid: "index < unat start_slots" if "\<not> (of_nat (index + 1) :: u64) > start_slots"
    using that w(2) by (simp add: not_less word_le_nat_alt)
  show "entry_of start_slots index team_id outcome e" "outcome = Started \<Longrightarrow> team_id \<notin> set seen"
    "outcome = Started \<Longrightarrow> \<not> of_nat (index + 1) > start_slots"
    using assms b w grid
    by (auto simp: launch_team_def entry_of_def entry_new_def Let_def team_outcome(1)
        split: if_splits prod.splits sum.splits option.splits dest: team_outcome(2))
  show "monitored spawned = (if outcome = Started then [(team_id, te_container_id e)] else [])"
    using assms b
    by (auto simp: launch_team_def entry_new_def Let_def dest!: team_outcome(3)
        split: if_splits prod.splits sum.splits option.splits)
qed

fun stat_of :: "start_outcome \<Rightarrow> start_stats \<Rightarrow> nat" where
  "stat_of Started = sa_started"
| "stat_of SkippedGridOverflow = sa_skipped_grid_overflow"
| "stat_of SkippedDuplicateTeam = sa_skipped_duplicate_team"
| "stat_of SkippedMissingSubmission = sa_skipped_missing_submission"
| "stat_of SkippedRuntimeError = sa_skipped_runtime_error"
| "stat_of SkippedTokenError = sa_skipped_token_error"
| "stat_of SkippedContainerError = sa_skipped_container_error"

text \<open>What holds of a roster that has been worked off up to \<open>index\<close>.\<close>

definition roster_report :: "u64 \<Rightarrow> string list \<Rightarrow> string list \<Rightarrow> launch_result \<Rightarrow> monitors \<Rightarrow> bool" where
  "roster_report start_slots handled seen res ms \<longleftrightarrow>
     (\<exists>outs. length outs = length handled \<and> length (la_teams res) = length handled \<and>
       (\<forall>i < length handled. entry_of start_slots i (handled ! i) (outs ! i) (la_teams res ! i)) \<and>
       sa_total_listed (la_stats res) = length handled \<and>
       (\<forall>o'. stat_of o' (la_stats res) = count_list outs o') \<and>
       distinct (map te_team_id (filter started_entry (la_teams res))) \<and>
       set (map te_team_id (filter started_entry (la_teams res))) \<subseteq> set seen \<and>
       monitored ms = map (\<lambda>e. (te_team_id e, te_container_id e)) (filter started_entry (la_teams res)))"

lemma count_outcome_sel:
  "stat_of o' (count_outcome out st) = stat_of o' st + (if out = o' then 1 else 0)"
  "sa_total_listed (count_outcome out st) = sa_total_listed st"
  by (cases out; cases o'; simp)+

lemma stat_of_total [simp]: "stat_of o' (st\<lparr>sa_total_listed := n\<rparr>) = stat_of o' st"
  by (cases o') simp_all

lemma report_step:
  assumes "roster_report start_slots handled seen res ms"
    and "launch_team env other sv start_slots (length handled) seen team_id sys = (Inr (outcome, e, spawned), s)"
  shows "roster_report start_slots (handled @ [team_id])
    (if of_nat (length handled + 1) > start_slots then seen else team_id # seen)
    \<lparr>la_stats = count_outcome outcome ((la_stats res)\<lparr>sa_total_listed := Suc (sa_total_listed (la_stats res))\<rparr>),
     la_teams = la_teams res @ [e]\<rparr> (ms @ spawned)"
proof -
  note e = launch_team_entry [OF assms(2)]
  from assms(1) obtain outs where o: "length outs = length handled" "length (la_teams res) = length handled"
    "\<forall>i < length handled. entry_of start_slots i (handled ! i) (outs ! i) (la_teams res ! i)"
    "sa_total_listed (la_stats res) = length handled" "\<forall>o'. stat_of o' (la_stats res) = count_list outs o'"
    "distinct (map te_team_id (filter started_entry (la_teams res)))"
    "set (map te_team_id (filter started_entry (la_teams res))) \<subseteq> set seen"
    "monitored ms = map (\<lambda>e. (te_team_id e, te_container_id e)) (filter started_entry (la_teams res))"
    unfolding roster_report_def by blast
  have "te_start_status e = start_status outcome" and team: "te_team_id e = team_id"
    using e(1) by (simp_all add: entry_of_def)
  then have started: "started_entry e \<longleftrightarrow> outcome = Started" by (simp only: started_entry_def start_status_inj)
  show ?thesis
    unfolding roster_report_def
  proof (intro exI [of _ "outs @ [outcome]"] conjI)
    show "\<forall>i < length (handled @ [team_id]). entry_of start_slots i ((handled @ [team_id]) ! i)
       ((outs @ [outcome]) ! i) (la_teams \<lparr>la_stats = count_outcome outcome
          ((la_stats res)\<lparr>sa_total_listed := Suc (sa_total_listed (la_stats res))\<rparr>), la_teams = la_teams res @ [e]\<rparr> ! i)"
      using o(1-3) e(1) by (auto simp: nth_append less_Suc_eq)
    show "\<forall>o'. stat_of o' (la_stats \<lparr>la_stats = count_outcome outcome
       ((la_stats res)\<lparr>sa_total_listed := Suc (sa_total_listed (la_stats res))\<rparr>), la_teams = la_teams res @ [e]\<rparr>) =
       count_list (outs @ [outcome]) o'"
      using o(5) by (simp add: count_outcome_sel)
  qed (use o(1,2,4,6,7,8) started team e(2,3,4) in \<open>auto simp: count_outcome_sel\<close>)
qed

lemma launch_teams_report:
  assumes "launch_teams env other sv start_slots (length handled) seen res ms team_ids sys = ((Inr res', ms'), sys')"
    and "roster_report start_slots handled seen res ms"
  shows "\<exists>seen'. roster_report start_slots (handled @ team_ids) seen' res' ms'"
  using assms
proof (induction team_ids arbitrary: handled seen res ms sys)
  case Nil
  then show ?case by auto
next
  case (Cons team_id team_ids)
  from Cons.prems(1) obtain outcome e spawned s where
    l: "launch_team env other (sv (length handled)) start_slots (length handled) seen team_id sys = (Inr (outcome, e, spawned), s)"
    by (auto split: prod.splits sum.splits)
  show ?case
    using Cons.IH [of "handled @ [team_id]", OF _ report_step [OF Cons.prems(2) l]] Cons.prems(1) l by simp
qed

lemma report_start: "roster_report start_slots [] [] \<lparr>la_stats = start_stats_default, la_teams = []\<rparr> []"
  unfolding roster_report_def
proof (intro exI [of _ "[]"] conjI)
  show "\<forall>o'. stat_of o' (la_stats \<lparr>la_stats = start_stats_default, la_teams = []\<rparr>) = count_list [] o'"
  proof
    fix o'
    show "stat_of o' (la_stats \<lparr>la_stats = start_stats_default, la_teams = []\<rparr>) = count_list [] o'"
      by (cases o') (simp_all add: start_stats_default_def)
  qed
qed (simp_all add: start_stats_default_def)

text \<open>Nothing but the loop over the roster succeeds.\<close>

text \<open>The states of a launch: when it reads the runtime, its switch of the map, and when it asks for the start slots.\<close>

definition launch_reads :: "'n worker_env \<Rightarrow> 'n race_others \<Rightarrow> (nat \<Rightarrow> session_services) \<Rightarrow> 'n race_system \<Rightarrow> 'n race_system" where
  "launch_reads env other svc sys = other AwaitRuntime False (cleanup_official_race_session_locked env other svc sys)"

definition launch_switch ::
  "'n worker_env \<Rightarrow> 'n race_others \<Rightarrow> race_config_record \<Rightarrow> ghost_mode_settings option \<Rightarrow> 'n race_system
    \<Rightarrow> (worker_error, runtime_state) result \<times> 'n race_system" where
  "launch_switch env other cfg ghost s0 =
     client_switch_runtime env (rt_revision (w_runtime (sys_worker s0))) ActOfficialRace (rg_map_id cfg) None
       (Some (race_time_of_day_preset_to_engine (rg_time_of_day_preset cfg))) ghost
       (other AwaitSwitch False (other AwaitRuntime True s0))"

lemma call_result:
  "worker_call other a f sys = (Inr v, s) \<Longrightarrow> fst (f (other a False sys)) = Inr v \<and> s = other a True (snd (f (other a False sys)))"
  by (cases "fst (f (other a False sys))") (simp_all add: worker_call_def race_call_def case_prod_beta Let_def)

lemma launch_cases:
  fixes env :: "'n worker_env"
  assumes "launch_official_race_session_locked env other svc sv cfg team_ids ghost sys = ((Inr res, ms), sys')"
    and "s0 = launch_reads env other svc sys" "sw = launch_switch env other cfg ghost s0"
  obtains rt slots s2 where "fst sw = Inr rt" "slots \<noteq> 0"
    "fst (client_get_number_of_start_pos_in env TargetOfficialRace (other AwaitSlots False (other AwaitSwitch True (snd sw)))) = Inr slots"
    "launch_teams env other sv slots 0 [] \<lparr>la_stats = start_stats_default, la_teams = []\<rparr> [] team_ids s2 = ((Inr res, ms), sys')"
proof -
  let ?c = "cleanup_official_race_session_locked env other svc sys"
  obtain r1 s1 where r1: "worker_call other AwaitRuntime (client_runtime_state env) ?c = (r1, s1)" by fastforce
  note l = assms(1) [unfolded launch_official_race_session_locked_def Let_def r1]
  obtain rt0 where rt0: "r1 = Inr rt0" using l by (cases r1) simp_all
  have "fst (client_runtime_state env s0) = Inr rt0" "s1 = other AwaitRuntime True s0"
    using call_result [OF r1 [unfolded rt0]] by (simp_all add: assms(2) launch_reads_def client_results on_worker_def)
  hence reads: "rt0 = w_runtime (sys_worker s0)" "s1 = other AwaitRuntime True s0"
    by (simp_all add: client_results on_worker_def split: if_splits)
  obtain r2 s3 where r2: "worker_call other AwaitSwitch (client_switch_runtime env (rt_revision rt0) ActOfficialRace (rg_map_id cfg) None
      (Some (race_time_of_day_preset_to_engine (rg_time_of_day_preset cfg))) ghost) s1 = (r2, s3)" by fastforce
  obtain rt where rt: "r2 = Inr rt" using l rt0 r2 by (cases r2) simp_all
  have sw: "fst sw = Inr rt" "s3 = other AwaitSwitch True (snd sw)"
    using call_result [OF r2 [unfolded rt]] by (simp_all add: assms(3) launch_switch_def reads)
  obtain r3 s4 where r3: "worker_call other AwaitSlots (client_get_number_of_start_pos_in env TargetOfficialRace) s3 = (r3, s4)"
    by fastforce
  obtain slots where slots: "r3 = Inr slots" using l rt0 r2 rt r3 by (cases r3) simp_all
  have "slots \<noteq> 0" "launch_teams env other sv slots 0 [] \<lparr>la_stats = start_stats_default, la_teams = []\<rparr> [] team_ids s4 = ((Inr res, ms), sys')"
    using l by (auto simp: rt0 r2 rt r3 slots failed_precondition_def split: if_splits)
  thus ?thesis using that [OF sw(1)] call_result [OF r3 [unfolded slots]] by (simp add: sw(2))
qed

section \<open>The registry after a launch\<close>

lemma quiet_drop_bots: "rs_race_bots (drop_bots env race_alone sv k bots sys) =
    filter (\<lambda>(t, _). t \<notin> fst ` set bots) (rs_race_bots sys)"
  by (induction bots arbitrary: k sys) (force simp: hm_remove_def case_prod_beta Let_def intro!: filter_cong)+

lemma quiet_drop_stale: "rs_race_bots (drop_stale_cars env race_alone cars sys) = rs_race_bots sys"
  by (induction cars arbitrary: sys) (simp_all add: Let_def split: option.split)

lemma quiet_cleanup_bots: "rs_race_bots (cleanup_official_race_session_locked env race_alone sv sys) = []"
  by (auto simp: cleanup_official_race_session_locked_def Let_def quiet_drop_stale quiet_drop_bots filter_empty_conv
      intro: rev_image_eqI)

text \<open>The bots in the registry are those of the started entries.\<close>

definition bot_of_entry :: "team_result_entry \<Rightarrow> team_official_race_bot_state \<Rightarrow> bool" where
  "bot_of_entry e b \<longleftrightarrow>
     te_car_id e = Some (rb_public_car_id b) \<and> te_container_id e = Some (rb_container_id b) \<and>
     te_slot_index e = Some (rb_slot_index b) \<and> te_submission_id e = Some (rb_submission_id b) \<and>
     unat (rb_start_position_index b) = unat (te_roster_index e) \<and> rb_auto_restart_attempts b = 0 \<and>
     official_bot_container_name_for_team (te_team_id e) = Inr (rb_container_name b)"

definition registry_matches :: "team_result_entry list \<Rightarrow> (string, team_official_race_bot_state) hmap \<Rightarrow> bool" where
  "registry_matches entries bots \<longleftrightarrow>
     (\<forall>e \<in> set entries. started_entry e \<longrightarrow> (\<exists>b. hm_get bots (te_team_id e) = Some b \<and> bot_of_entry e b)) \<and>
     (\<forall>t b. hm_get bots t = Some b \<longrightarrow> (\<exists>e \<in> set entries. started_entry e \<and> te_team_id e = t))"

lemma quiet_register:
  "rs_race_bots (register_started_bot race_alone sv t b sys) =
     hm_insert t (b\<lparr>rb_log_file_path := build_official_race_bot_log_path (sv_now_ms sv) t (rb_submission_id b) (rb_slot_index b)
       (rb_container_id b)\<rparr>) (rs_race_bots sys)"
  by (simp add: register_started_bot_def start_official_race_bot_log_capture_def Let_def quiet_calls)

definition registers ::
  "string \<Rightarrow> u64 \<Rightarrow> int \<Rightarrow> string \<Rightarrow> start_outcome \<times> u64 option \<times> string option \<Rightarrow> (string, team_official_race_bot_state) hmap
    \<Rightarrow> (string, team_official_race_bot_state) hmap \<Rightarrow> bool" where
  "registers t p slot sub result bots bots' \<longleftrightarrow>
     (case result of
        (Started, car, c) \<Rightarrow> \<exists>b. bots' = hm_insert t b bots \<and> car = Some (rb_public_car_id b) \<and> c = Some (rb_container_id b) \<and>
          rb_slot_index b = slot \<and> rb_submission_id b = sub \<and> rb_start_position_index b = p \<and>
          rb_auto_restart_attempts b = 0 \<and> official_bot_container_name_for_team t = Inr (rb_container_name b)
      | _ \<Rightarrow> bots' = bots)"

lemma quiet_seated:
  assumes "start_seated_bot env race_alone sv t p (slot, sub, img) car e sys = ((outcome, c, ms), s)"
  shows "registers t p slot sub (outcome, Some car, c) (rs_race_bots sys) (rs_race_bots s)"
proof -
  obtain r where tok: "bot_tokens race_alone sv t sys = (r, sys)" by (metis quiet_tokens surjective_pairing)
  show ?thesis
    using assms
    by (auto simp: start_seated_bot_def tok quiet_calls quiet_register cleanup_spawned_official_race_car_def Let_def registers_def
        split: sum.splits)
qed

lemma quiet_team:
  assumes "start_team_bot env race_alone sv t p (slot, sub, img) sys = ((outcome, car, c, ms), s)"
  shows "registers t p slot sub (outcome, car, c) (rs_race_bots sys) (rs_race_bots s)"
proof -
  obtain r s1 where spawn: "client_spawn_car env sys = (r, s1)" by fastforce
  then have bots: "rs_race_bots s1 = rs_race_bots sys"
    by (metis client_call_keeps(3) client_spawn_car_in_def client_spawn_car_def snd_conv)
  show ?thesis
  proof (cases r)
    case (Inl err)
    then show ?thesis using assms bots by (auto simp: start_team_bot_def quiet_calls spawn registers_def)
  next
    case (Inr e)
    let ?car = "st_next_public_car_id (rs_store s1)"
    let ?s1 = "s1\<lparr>rs_store := register_official_race_runtime_car t ?car e p (snd (allocate_public_car_id (rs_store s1)))\<rparr>"
    obtain r2 s2 where place: "client_set_car_at_start_pos_in env TargetOfficialRace e p ?s1 = (r2, s2)" by fastforce
    then have "rs_race_bots s2 = rs_race_bots ?s1" by (metis client_call_keeps(3) client_set_car_at_start_pos_in_def snd_conv)
    then have bots2: "rs_race_bots s2 = rs_race_bots sys" using bots by simp
    obtain o' c' ms' s3 where seat: "start_seated_bot env race_alone sv t p (slot, sub, img) ?car e s2 = ((o', c', ms'), s3)"
      by (metis prod.exhaust)
    note pl = place [unfolded allocate_public_car_id_def snd_conv]
    show ?thesis
    proof (cases r2)
      case (Inl err)
      then show ?thesis
        using assms bots2 by (auto simp: start_team_bot_def quiet_calls spawn Inr allocate_public_car_id_def pl
            cleanup_spawned_official_race_car_def registers_def)
    next
      case (Inr u)
      then show ?thesis
        using assms bots2 quiet_seated [OF seat]
        by (auto simp: start_team_bot_def quiet_calls spawn \<open>r = Inr e\<close> allocate_public_car_id_def pl seat)
    qed
  qed
qed

lemma quiet_lowest: "snd (lowest_runnable_slot race_alone sv t slots sys) = sys"
  by (induction slots) (simp_all add: quiet_calls split: sum.split option.split)

lemma launch_team_registers:
  assumes "launch_team env race_alone sv start_slots index seen t sys = (Inr (outcome, e, spawned), s)"
  shows "if outcome = Started then \<exists>b. rs_race_bots s = hm_insert t b (rs_race_bots sys) \<and> bot_of_entry e b
    else rs_race_bots s = rs_race_bots sys"
proof -
  have b: "index + 1 < 2 ^ 32" using assms by (auto simp: launch_team_def internal_def split: if_splits)
  note w = index_words [OF b]
  obtain r where low: "resolve_lowest_runnable_slot_submission race_alone sv t sys = (r, sys)"
    by (metis quiet_lowest resolve_lowest_runnable_slot_submission_def surjective_pairing)
  show ?thesis
    using assms b w
    by (auto simp: launch_team_def low Let_def entry_new_def bot_of_entry_def registers_def
        split: if_splits sum.splits option.splits prod.splits start_outcome.splits dest!: quiet_team) metis
qed

lemma registry_step:
  assumes "registry_matches entries (rs_race_bots sys)" and "set (map te_team_id (filter started_entry entries)) \<subseteq> set seen"
    and "launch_team env race_alone sv start_slots index seen t sys = (Inr (outcome, e, spawned), s)"
  shows "registry_matches (entries @ [e]) (rs_race_bots s)"
proof -
  note e = launch_team_entry [OF assms(3)]
  have "te_start_status e = start_status outcome" and t: "te_team_id e = t" using e(1) by (simp_all add: entry_of_def)
  then have started: "started_entry e \<longleftrightarrow> outcome = Started" by (simp only: started_entry_def start_status_inj)
  show ?thesis
  proof (cases "outcome = Started")
    case True
    then obtain b where b: "rs_race_bots s = hm_insert t b (rs_race_bots sys)" "bot_of_entry e b"
      using launch_team_registers [OF assms(3)] by auto
    have "te_team_id e' \<noteq> t" if "e' \<in> set entries" "started_entry e'" for e'
      using that assms(2) e(2) [OF True] by auto
    then show ?thesis using assms(1) b t started True unfolding registry_matches_def by (auto simp: hm_get_insert split: if_splits)
  next
    case False
    then show ?thesis using launch_team_registers [OF assms(3)] assms(1) started unfolding registry_matches_def by auto
  qed
qed

lemma launch_teams_registry:
  assumes "launch_teams env race_alone sv start_slots (length handled) seen res ms team_ids sys = ((Inr res', ms'), sys')"
    and "roster_report start_slots handled seen res ms" and "registry_matches (la_teams res) (rs_race_bots sys)"
  shows "registry_matches (la_teams res') (rs_race_bots sys')"
  using assms
proof (induction team_ids arbitrary: handled seen res ms sys)
  case Nil
  then show ?case by auto
next
  case (Cons team_id team_ids)
  from Cons.prems(1) obtain outcome e spawned s where
    l: "launch_team env race_alone (sv (length handled)) start_slots (length handled) seen team_id sys = (Inr (outcome, e, spawned), s)"
    by (auto split: prod.splits sum.splits)
  have "set (map te_team_id (filter started_entry (la_teams res))) \<subseteq> set seen"
    using Cons.prems(2) unfolding roster_report_def by blast
  from registry_step [OF Cons.prems(3) this l] Cons.prems(1) l show ?case
    using Cons.IH [of "handled @ [team_id]", OF _ report_step [OF Cons.prems(2) l]] by simp
qed

section \<open>What a launch reports\<close>

lemma count_status: "count_list outs out = length (filter (\<lambda>x. x = start_status out) (map start_status outs))"
  by (induction outs) (simp_all add: start_status_inj)

lemma report_facts:
  assumes "roster_report start_slots team_ids seen res ms"
  shows "map te_team_id (la_teams res) = team_ids"
    "map (unat \<circ> te_roster_index) (la_teams res) = [1..<length team_ids + 1]"
    "stat_of out (la_stats res) = length (filter (\<lambda>e. te_start_status e = start_status out) (la_teams res))"
    "\<forall>e \<in> set (la_teams res). started_entry e \<longrightarrow> unat (te_roster_index e) \<le> unat start_slots"
proof -
  from assms obtain outs where o: "length outs = length team_ids" "length (la_teams res) = length team_ids"
    "\<forall>i < length team_ids. entry_of start_slots i (team_ids ! i) (outs ! i) (la_teams res ! i)"
    "\<forall>o'. stat_of o' (la_stats res) = count_list outs o'"
    unfolding roster_report_def by blast
  show "map te_team_id (la_teams res) = team_ids" using o(2,3) by (auto simp: entry_of_def intro: nth_equalityI)
  show "map (unat \<circ> te_roster_index) (la_teams res) = [1..<length team_ids + 1]"
    using o(2,3) by (auto simp: entry_of_def simp del: upt_Suc intro: nth_equalityI)
  have "map start_status outs = map te_start_status (la_teams res)"
    using o(1-3) by (auto simp: entry_of_def intro!: nth_equalityI)
  then have "count_list outs out = length (filter (\<lambda>x. x = start_status out) (map te_start_status (la_teams res)))"
    by (metis count_status)
  then show "stat_of out (la_stats res) = length (filter (\<lambda>e. te_start_status e = start_status out) (la_teams res))"
    using o(4) by (simp add: filter_map comp_def)
  show "\<forall>e \<in> set (la_teams res). started_entry e \<longrightarrow> unat (te_roster_index e) \<le> unat start_slots"
  proof (intro ballI impI)
    fix e assume "e \<in> set (la_teams res)" and st: "started_entry e"
    then obtain i where i: "i < length team_ids" "e = la_teams res ! i" by (metis in_set_conv_nth o(2))
    then have "entry_of start_slots i (team_ids ! i) (outs ! i) e" using o(3) by simp
    then show "unat (te_roster_index e) \<le> unat start_slots"
      using st by (auto simp: entry_of_def started_entry_def start_status_inj simp del: start_status.simps)
  qed
qed

lemma outcomes_sum:
  "length outs = count_list outs Started + count_list outs SkippedGridOverflow + count_list outs SkippedDuplicateTeam +
     count_list outs SkippedMissingSubmission + count_list outs SkippedRuntimeError + count_list outs SkippedTokenError +
     count_list outs SkippedContainerError"
proof (induction outs)
  case (Cons out outs)
  then show ?case by (cases out) simp_all
qed simp

section \<open>A small session\<close>

definition session_docker :: docker where
  "session_docker = (\<lambda>_. DockerExit (Some 0) [99, 49] [])"

definition session_sv :: session_services where
  "session_sv =
     \<lparr>sv_docker = session_docker, sv_team_bot_token = (\<lambda>_. Inr ''t''), sv_wrapper_auth_token = Inr ''w'',
      sv_slot_submission = (\<lambda>_ slot. Inr (if slot = 2 then Some \<lparr>ss_submission_id = ''s'', ss_image_ref = Some ''red''\<rparr> else None)),
      sv_persisted_slot = (\<lambda>_. Inr None), sv_filled_slots = (\<lambda>_. Inr [2]), sv_backend_endpoint = ''b'', sv_now_ms = 0,
      sv_follows_logs = False\<rparr>"

definition session_config :: race_config_record where
  "session_config = \<lparr>rg_race_id = ''r1'', rg_race_name = ''Cup'', rg_map_id = ''m1'', rg_race_duration_sec = 60,
     rg_time_of_day_preset = Noon\<rparr>"

definition session_system :: "u64 list worker \<Rightarrow> runtime_store \<Rightarrow> (string, team_official_race_bot_state) hmap \<Rightarrow> u64 list race_system" where
  "session_system w st bots =
     \<lparr>sys_worker = w, rs_store = st, rs_latest = empty_frame 5 9000, rs_joins = [], rs_race_bots = bots, rs_sandboxes = [],
      rs_local_race = local_race_state_default, rs_active_streams = [], rs_next_stream_id = 1, rs_log_captures = [],
      rs_slot_updates = []\<rparr>"

lemma trim_samples: "trim ''c1'' = ''c1''" "trim ''red'' = ''red''"
  by (simp_all add: trim_graphic graphic_def)

lemma session_lossy: "from_utf8_lossy [99, 49] = ''c1''" "from_utf8_lossy [] = []"
  by code_simp+

lemma session_capture: "run_command_capture label timeout_s (session_docker call) = Inr (''c1'', [])"
  by (simp add: session_docker_def session_lossy trim_samples trim_graphic)

lemma session_line: "last_text_line ''c1'' = Some ''c1''"
proof -
  have "str_lines ''c1'' = [''c1'']" by code_simp
  then show ?thesis by (simp add: last_text_line_def trim_samples)
qed

lemma session_container:
  "start_bot_container fs session_docker q = Inr ''c1''" "start_bot_container_with_options fs session_docker q = Inr ''c1''"
  by (simp_all add: start_bot_container_def start_bot_container_with_options_def remove_bot_container_def pull_bot_image_def
      session_capture session_line)

lemma session_build:
  "\<exists>e. build_world sample_env ''m1'' DEFAULT_GHOST_MODE_SETTINGS None =
     (Inr \<lparr>slot_engine = e, slot_ghost_mode_settings = DEFAULT_GHOST_MODE_SETTINGS\<rparr>, Some (Inr False)) \<and> eng_race e = []"
  using sample_map_ok
  by (simp add: car_model_valid [simplified] build_world_def build_engine_def sample_init vehicle_mesh_load_def sample_path engine_build_def
      with_debug_drawer_def engine_builder_new_def engine_new_def engine_err_def
      engine_set_ghost_mode_settings_def DEFAULT_GHOST_MODE_SETTINGS_def native_unit_def status_result_def)

lemma session_sel [simp]:
  "rs_store (session_system w st bots) = st" "sys_worker (session_system w st bots) = w"
  "rs_race_bots (session_system w st bots) = bots" "rs_latest (session_system w st bots) = empty_frame 5 9000"
  "rs_log_captures (session_system w st bots) = []"
  "(session_system w st bots)\<lparr>sys_worker := w'\<rparr> = session_system w' st bots"
  "(session_system w st bots)\<lparr>rs_store := st'\<rparr> = session_system w st' bots"
  "(session_system w st bots)\<lparr>rs_race_bots := bots'\<rparr> = session_system w st bots'"
  by (simp_all add: session_system_def)

definition official_slot :: "u64 list engine \<Rightarrow> u64 list world_slot" where
  "official_slot e = \<lparr>slot_engine = e, slot_ghost_mode_settings = DEFAULT_GHOST_MODE_SETTINGS\<rparr>"

definition official_runtime :: runtime_state where
  "official_runtime = \<lparr>rt_revision = 1, rt_activity_kind = ActOfficialRace, rt_map_id = ''m1'', rt_active_local_race = None,
     rt_active_sandboxes = [], rt_time_of_day_preset = TodNoon, rt_pending = []\<rparr>"

definition official_worker :: "u64 list engine \<Rightarrow> u64 list worker" where
  "official_worker e = (spawn_worker None)\<lparr>w_runtime := official_runtime, w_official := Some (official_slot e),
     w_init := Some (Inr False)\<rparr>"

lemma official_worker_sel:
  "w_running (official_worker e)" "w_runtime (official_worker e) = official_runtime"
  "target_slot TargetOfficialRace (official_worker e) = Inr (official_slot e)"
  "(official_worker e)\<lparr>w_official := Some (official_slot e')\<rparr> = official_worker e'"
  by (simp_all add: official_worker_def spawn_worker_def target_slot_def ok_or_def official_runtime_def)

lemma session_runtime:
  "client_runtime_state sample_env (session_system (spawn_worker None) st bots) =
     (Inr (w_runtime (spawn_worker None :: u64 list worker)), session_system (spawn_worker None) st bots)"
  "client_runtime_state sample_env (session_system (official_worker e) st bots) =
     (Inr official_runtime, session_system (official_worker e) st bots)"
  by (simp_all add: client_runtime_state_def client_call_def official_worker_sel) (simp_all add: spawn_worker_def)

lemma session_switch:
  "\<exists>e rt. client_switch_runtime sample_env 0 ActOfficialRace ''m1'' None (Some TodNoon) None
      (session_system (spawn_worker None) st bots) = (Inr rt, session_system (official_worker e) st bots) \<and> eng_race e = []"
proof -
  obtain e where b: "build_world sample_env ''m1'' DEFAULT_GHOST_MODE_SETTINGS None =
     (Inr (official_slot e), Some (Inr False))" "eng_race e = []" using session_build unfolding official_slot_def by blast
  have "sat_add 0 1 = (1 :: u64)" by code_simp
  then show ?thesis using b
    by (auto simp: client_switch_runtime_def client_call_def spawn_worker_def switch_runtime_def committed_def answer_def
        sample_map_ok [simplified] next_revision_def Let_def DEFAULT_MAP_ID_def official_worker_def official_runtime_def)
qed

lemma session_slots:
  "client_get_number_of_start_pos_in sample_env TargetOfficialRace (session_system (official_worker e) st bots) =
     (Inr 8, session_system (official_worker e) st bots)"
proof -
  have "reading (engine_get_number_of_start_pos (env_api sample_env)) (official_slot e) = (Inr 8, official_slot e)"
    by (simp add: reading_def engine_get_number_of_start_pos_def sample_api_def status_result_def BOINK_OK_def engine_err_def)
  then show ?thesis
    by (simp add: client_get_number_of_start_pos_in_def client_call_def answer_def with_target_slot_mut_def official_worker_sel)
qed

lemma session_spawn:
  assumes "eng_race e = []"
  shows "client_spawn_car sample_env (session_system (official_worker e) st bots) =
     (Inr 1, session_system (official_worker (e\<lparr>eng_race := [1]\<rparr>)) st bots)"
proof -
  have "spawn_car_op sample_env (official_slot e) = (Inr 1, official_slot (e\<lparr>eng_race := [1]\<rparr>))"
    using assms by (simp add: spawn_car_op_def spawn_vehicle_def engine_force_set_vehicle_tyre_type_def native_unit_def sample_api_def
        official_slot_def BOINK_OK_def sample_on_def status_result_def)
  then show ?thesis
    by (simp add: client_spawn_car_def client_spawn_car_in_def client_call_def answer_def with_target_slot_mut_def official_worker_sel)
qed

lemma session_place:
  assumes "eng_race e = [1]"
  shows "client_set_car_at_start_pos_in sample_env TargetOfficialRace 1 p (session_system (official_worker e) st bots) =
     (Inr (), session_system (official_worker e) st bots)"
proof -
  have "on_engine (engine_set_vehicle_at_start_pos (env_api sample_env) 1 p) (official_slot e) = (Inr (), official_slot e)"
    using assms by (simp add: on_engine_def engine_set_vehicle_at_start_pos_def native_unit_def status_result_def sample_api_def
        sample_on_def official_slot_def engine_err_def BOINK_OK_def)
  then show ?thesis
    by (simp add: client_set_car_at_start_pos_in_def client_call_def answer_def with_target_slot_mut_def official_worker_sel)
qed

lemma session_lowest:
  "resolve_lowest_runnable_slot_submission race_alone session_sv t sys = (Inr (Some (2, ''s'', ''red'')), sys)"
  by (simp add: resolve_lowest_runnable_slot_submission_def quiet_calls session_sv_def runnable_image_def trim_samples)

lemma session_tokens: "bot_tokens race_alone session_sv t sys = (Inr (''t'', ''w''), sys)" "sv_docker session_sv = session_docker"
  by (simp_all add: bot_tokens_def quiet_calls session_sv_def)

lemma session_seated:
  "\<exists>s. start_seated_bot sample_env race_alone session_sv ''red'' p (2, ''s'', ''red'') car e sys = ((Started, Some ''c1'', [(''red'', ''c1'')]), s)"
  by (simp add: start_seated_bot_def session_tokens quiet_calls session_container official_bot_container_name_for_team_def sample_team
      Let_def)

lemma session_cleanup:
  "cleanup_official_race_session_locked env race_alone sv (session_system w store_new []) = session_system w store_new []"
  by (simp add: cleanup_official_race_session_locked_def official_cars_def on_store_def clear_official_race_session_def store_new_def)

lemma session_launch:
  "\<exists>res ms sys'. launch_official_race_session_locked sample_env race_alone (\<lambda>_. session_sv) (\<lambda>_. session_sv) session_config
      [''red''] None (session_system (spawn_worker None) store_new []) = ((Inr res, ms), sys') \<and>
     map te_start_status (la_teams res) = [start_status Started] \<and> ms = [(''red'', ''c1'')]"
proof -
  obtain e rt where sw: "client_switch_runtime sample_env 0 ActOfficialRace ''m1'' None (Some TodNoon) None
      (session_system (spawn_worker None) store_new []) = (Inr rt, session_system (official_worker e) store_new [])"
    "eng_race e = []" using session_switch by blast
  let ?s0 = "session_system (spawn_worker None) store_new []" and ?s1 = "session_system (official_worker e) store_new []"
  let ?rt = "w_runtime (spawn_worker None :: u64 list worker)"
  have runtime: "worker_call race_alone AwaitRuntime (client_runtime_state sample_env) ?s0 = (Inr ?rt, ?s0)"
    by (simp add: quiet_calls session_runtime)
  have "rt_revision ?rt = 0" by (simp add: spawn_worker_def)
  then have switch: "worker_call race_alone AwaitSwitch (client_switch_runtime sample_env (rt_revision ?rt) ActOfficialRace
      (rg_map_id session_config) None (Some (race_time_of_day_preset_to_engine (rg_time_of_day_preset session_config))) None) ?s0 =
      (Inr rt, ?s1)"
    by (simp add: quiet_calls sw(1) session_config_def)
  have slots: "worker_call race_alone AwaitSlots (client_get_number_of_start_pos_in sample_env TargetOfficialRace) ?s1 = (Inr 8, ?s1)"
    by (simp add: quiet_calls session_slots)
  obtain s where seat: "start_seated_bot sample_env race_alone session_sv ''red'' 1 (2, ''s'', ''red'') 1 1
      (session_system (official_worker (e\<lparr>eng_race := [1]\<rparr>))
        (register_official_race_runtime_car ''red'' 1 1 1 (store_new\<lparr>st_next_public_car_id := 2\<rparr>)) []) = ((Started, Some ''c1'', [(''red'', ''c1'')]), s)"
    using session_seated by blast
  have bot: "start_team_bot sample_env race_alone session_sv ''red'' 1 (2, ''s'', ''red'') ?s1 = ((Started, Some 1, Some ''c1'', [(''red'', ''c1'')]), s)"
    using seat by (simp add: start_team_bot_def quiet_calls session_spawn [OF sw(2)] session_place allocate_public_car_id_def store_new_def)
  have team: "launch_team sample_env race_alone session_sv 8 0 [] ''red'' ?s1 =
      (Inr (Started, entry_new ''red'' 1 Started (Some (2, ''s'')) (Some 1) (Some ''c1''), [(''red'', ''c1'')]), s)"
    using bot by (simp add: launch_team_def session_lowest)
  show ?thesis
    unfolding launch_official_race_session_locked_def Let_def session_cleanup runtime
    by (simp add: switch slots team entry_new_def)
qed

lemma launch_report:
  fixes env :: "'n worker_env"
  assumes "launch_official_race_session_locked env other svc sv cfg team_ids ghost sys = ((Inr res, ms), sys')"
    and "s0 = launch_reads env other svc sys" "sw = launch_switch env other cfg ghost s0"
  obtains rt slots seen where "fst sw = Inr rt"
    "fst (client_get_number_of_start_pos_in env TargetOfficialRace (other AwaitSlots False (other AwaitSwitch True (snd sw)))) = Inr slots"
    "roster_report slots team_ids seen res ms"
proof -
  obtain rt slots s2 where s: "fst sw = Inr rt"
    "fst (client_get_number_of_start_pos_in env TargetOfficialRace (other AwaitSlots False (other AwaitSwitch True (snd sw)))) = Inr slots"
    "launch_teams env other sv slots 0 [] \<lparr>la_stats = start_stats_default, la_teams = []\<rparr> [] team_ids s2 = ((Inr res, ms), sys')"
    by (rule launch_cases [OF assms])
  have "\<exists>seen. roster_report slots ([] @ team_ids) seen res ms"
    by (rule launch_teams_report [OF _ report_start]) (use s(3) in simp)
  then obtain seen where "roster_report slots team_ids seen res ms" by auto
  with s(1,2) show ?thesis by (rule that)
qed

section \<open>The properties of a launch\<close>

text \<open>
  C31. What a successful launch of the official race reports
  (\<open>launch_official_race_session_locked\<close>), whatever the other tasks do meanwhile: the entries are
  the teams of the roster in its order, numbered from 1; every counter of the statistics is the
  number of entries with its status, and they add up to the teams listed; no team is started
  twice; a monitor was spawned for exactly the entries with the status started, in their order
  and for the container the entry names; and a started entry's number is within the start
  slots that the worker reported after this launch had switched it to the map of the race.
\<close>

theorem launch_accounts_for_roster:
  fixes env :: "'n worker_env"
  assumes "launch_official_race_session_locked env other svc sv cfg team_ids ghost sys = ((Inr res, ms), sys')"
    and "s0 = other AwaitRuntime False (cleanup_official_race_session_locked env other svc sys)"
    and "sw = client_switch_runtime env (rt_revision (w_runtime (sys_worker s0))) ActOfficialRace (rg_map_id cfg) None
       (Some (race_time_of_day_preset_to_engine (rg_time_of_day_preset cfg))) ghost
       (other AwaitSwitch False (other AwaitRuntime True s0))"
  shows "map te_team_id (la_teams res) = team_ids \<and>
    map (unat \<circ> te_roster_index) (la_teams res) = [1..<length team_ids + 1] \<and>
    (\<forall>out. stat_of out (la_stats res) = length (filter (\<lambda>e. te_start_status e = start_status out) (la_teams res))) \<and>
    sa_total_listed (la_stats res) = length team_ids \<and>
    sa_total_listed (la_stats res) = sa_started (la_stats res) + sa_skipped_grid_overflow (la_stats res) +
      sa_skipped_duplicate_team (la_stats res) + sa_skipped_missing_submission (la_stats res) +
      sa_skipped_runtime_error (la_stats res) + sa_skipped_token_error (la_stats res) + sa_skipped_container_error (la_stats res) \<and>
    distinct (map te_team_id (filter (\<lambda>e. te_start_status e = ''started'') (la_teams res))) \<and>
    map (\<lambda>(team_id, container_id). (team_id, Some container_id)) ms =
      map (\<lambda>e. (te_team_id e, te_container_id e)) (filter (\<lambda>e. te_start_status e = ''started'') (la_teams res)) \<and>
    (\<exists>rt slots. fst sw = Inr rt \<and>
      fst (client_get_number_of_start_pos_in env TargetOfficialRace
        (other AwaitSlots False (other AwaitSwitch True (snd sw)))) = Inr slots \<and>
      (\<forall>e \<in> set (la_teams res). te_start_status e = ''started'' \<longrightarrow> unat (te_roster_index e) \<le> unat slots))"
proof -
  have states: "s0 = launch_reads env other svc sys" "sw = launch_switch env other cfg ghost s0"
    by (simp_all add: assms(2,3) launch_reads_def launch_switch_def)
  obtain rt slots seen where s: "fst sw = Inr rt"
    "fst (client_get_number_of_start_pos_in env TargetOfficialRace (other AwaitSlots False (other AwaitSwitch True (snd sw)))) = Inr slots"
    and r: "roster_report slots team_ids seen res ms" by (rule launch_report [OF assms(1) states])
  note facts = report_facts [OF r]
  have started: "started_entry = (\<lambda>e. te_start_status e = ''started'')" by (simp add: fun_eq_iff started_entry_def)
  from r obtain outs where o: "length outs = length team_ids" "sa_total_listed (la_stats res) = length team_ids"
    "\<forall>o'. stat_of o' (la_stats res) = count_list outs o'" "distinct (map te_team_id (filter started_entry (la_teams res)))"
    "monitored ms = map (\<lambda>e. (te_team_id e, te_container_id e)) (filter started_entry (la_teams res))"
    unfolding roster_report_def by blast
  have "sa_total_listed (la_stats res) = sa_started (la_stats res) + sa_skipped_grid_overflow (la_stats res) +
      sa_skipped_duplicate_team (la_stats res) + sa_skipped_missing_submission (la_stats res) +
      sa_skipped_runtime_error (la_stats res) + sa_skipped_token_error (la_stats res) + sa_skipped_container_error (la_stats res)"
    using o(1,2) outcomes_sum [of outs] by (simp add: o(3) [rule_format, symmetric])
  then show ?thesis using facts o(2,4,5) s unfolding started monitored_def by blast
qed

theorem launch_accounts_for_roster_witness:
  "\<exists>res ms sys'. launch_official_race_session_locked sample_env race_alone (\<lambda>_. session_sv) (\<lambda>_. session_sv) session_config
      [''red''] None (session_system (spawn_worker None) store_new []) = ((Inr res, ms), sys') \<and>
     map te_team_id (la_teams res) = [''red''] \<and> sa_started (la_stats res) = 1"
proof -
  obtain res ms sys' where l: "launch_official_race_session_locked sample_env race_alone (\<lambda>_. session_sv) (\<lambda>_. session_sv)
      session_config [''red''] None (session_system (spawn_worker None) store_new []) = ((Inr res, ms), sys')"
    "map te_start_status (la_teams res) = [start_status Started]"
    using session_launch by (elim exE conjE)
  have "stat_of Started (la_stats res) = length (filter (\<lambda>e. te_start_status e = start_status Started) (la_teams res))"
    and "map te_team_id (la_teams res) = [''red'']"
    using launch_accounts_for_roster [OF l(1) refl refl] by blast+
  moreover from l(2) obtain e where "la_teams res = [e]" "te_start_status e = start_status Started" by auto
  ultimately show ?thesis using l(1) by simp
qed

text \<open>
  C32. The registry after a launch without other tasks: a team is registered exactly if its entry
  says that it was started, with the car, container, slot and submission of the entry, the
  start position of its place on the roster, the container name of the team and no restart counted.
\<close>

theorem quiet_launch_registers_started:
  assumes "launch_official_race_session_locked env race_alone svc sv cfg team_ids ghost sys = ((Inr res, ms), sys')"
  shows "registry_matches (la_teams res) (rs_race_bots sys')"
proof -
  let ?s0 = "cleanup_official_race_session_locked env race_alone svc sys"
  have keep: "rs_race_bots s1 = rs_race_bots s" if "worker_call race_alone a (client_call env cmd get) s = (r, s1)" for a cmd get s s1 r
    using that by (auto simp: quiet_calls client_call_keeps)
  obtain slots s2 where l: "launch_teams env race_alone sv slots 0 [] \<lparr>la_stats = start_stats_default, la_teams = []\<rparr> [] team_ids s2 =
      ((Inr res, ms), sys')" and bots: "rs_race_bots s2 = rs_race_bots ?s0"
    using assms unfolding launch_official_race_session_locked_def Let_def client_runtime_state_def client_switch_runtime_def
      client_get_number_of_start_pos_in_def
    by (auto split: prod.splits sum.splits if_splits dest!: keep simp: failed_precondition_def)
  have "registry_matches [] (rs_race_bots s2)" by (simp add: bots quiet_cleanup_bots registry_matches_def hm_get_def)
  with launch_teams_registry [of env sv slots "[]", OF _ report_start] l show ?thesis by simp
qed

theorem quiet_launch_registers_started_witness:
  "\<exists>res ms sys'. launch_official_race_session_locked sample_env race_alone (\<lambda>_. session_sv) (\<lambda>_. session_sv) session_config
      [''red''] None (session_system (spawn_worker None) store_new []) = ((Inr res, ms), sys') \<and>
     la_teams res \<noteq> [] \<and> registry_matches (la_teams res) (rs_race_bots sys')"
proof -
  obtain res ms sys' where l: "launch_official_race_session_locked sample_env race_alone (\<lambda>_. session_sv) (\<lambda>_. session_sv)
      session_config [''red''] None (session_system (spawn_worker None) store_new []) = ((Inr res, ms), sys')"
    "map te_start_status (la_teams res) = [start_status Started]"
    using session_launch by (elim exE conjE)
  from quiet_launch_registers_started [OF l(1)] l show ?thesis by auto
qed

section \<open>Restarts\<close>

text \<open>The monitors of one bot, one after the other: the delay and the container of every restart.\<close>

fun monitor_chain ::
  "'n worker_env \<Rightarrow> session_services list \<Rightarrow> string \<Rightarrow> string \<Rightarrow> 'n race_system \<Rightarrow> (u64 option \<times> string) list \<times> 'n race_system" where
  "monitor_chain env [] t c sys = ([], sys)"
| "monitor_chain env (sv # svs) t c sys =
     (case official_race_bot_exit_monitor env race_alone sv t c sys of
        ((delay, Some c'), s) \<Rightarrow> (let (rest, s1) = monitor_chain env svs t c' s in ((delay, c') # rest, s1))
      | ((_, None), s) \<Rightarrow> ([], s))"

lemma delay_doubles: "unat (restart_delay_ms True n) = 500 * 2 ^ min (unat n) 4"
proof -
  have k: "unat (min n 4) = min (unat n) 4" by (simp add: min_def word_le_nat_alt)
  have "min (unat n) 4 \<in> {0, 1, 2, 3, 4}" by auto
  moreover have "unat (sat_mul (500 :: u64) (push_bit 0 1)) = 500" "unat (sat_mul (500 :: u64) (push_bit 1 1)) = 1000"
    "unat (sat_mul (500 :: u64) (push_bit 2 1)) = 2000" "unat (sat_mul (500 :: u64) (push_bit 3 1)) = 4000"
    "unat (sat_mul (500 :: u64) (push_bit 4 1)) = 8000" by code_simp+
  ultimately show ?thesis
    by (auto simp: restart_delay_ms_def k OFFICIAL_RACE_BOT_AUTO_RESTART_BASE_DELAY_MS_def)
qed

lemma quiet_restart_container: "snd (restart_container env race_alone sv msg t b sys) = sys"
proof -
  obtain r where tok: "bot_tokens race_alone sv t sys = (r, sys)" by (metis quiet_tokens surjective_pairing)
  show ?thesis by (simp add: restart_container_def tok quiet_calls internal_def split: sum.split)
qed

lemma set_active_bot_slot_started [simp]:
  "st_official_race_started (set_active_bot_slot car slot st) = st_official_race_started st"
  by (simp add: set_active_bot_slot_def with_identity_def split: option.split)

lemma quiet_restarted_bot:
  "\<exists>b'. current_bot t c (restarted_bot race_alone sv t b c n sys) = Some b' \<and> rb_auto_restart_attempts b' = n"
  "st_official_race_started (rs_store (restarted_bot race_alone sv t b c n sys)) = st_official_race_started (rs_store sys)"
  by (auto simp: restarted_bot_def bot_running_def current_bot_def case_prod_beta hm_get_insert)

lemma quiet_try_restart:
  assumes "try_restart_official_race_bot_after_exit_locked env race_alone sv t b sys = (Inr (Some c), s)"
    and "st_official_race_started (rs_store sys)"
  shows "rb_auto_restart_attempts b < 12" "st_official_race_started (rs_store s)"
    "\<exists>b'. current_bot t c s = Some b' \<and> rb_auto_restart_attempts b' = sat_add (rb_auto_restart_attempts b) 1"
proof -
  obtain r s1 where rt: "client_runtime_state env sys = (r, s1)" "rs_store s1 = rs_store sys"
    using client_call_keeps(1) [of env GetRuntimeState runtime_reply sys] by (cases "client_runtime_state env sys")
      (simp add: client_runtime_state_def)
  obtain q where rc: "restart_container env race_alone sv ''failed to restart official-race bot container after exit: '' t b s1 = (q, s1)"
    by (metis quiet_restart_container surjective_pairing)
  show "rb_auto_restart_attempts b < 12" "st_official_race_started (rs_store s)"
    "\<exists>b'. current_bot t c s = Some b' \<and> rb_auto_restart_attempts b' = sat_add (rb_auto_restart_attempts b) 1"
    using assms rt(2)
    by (auto simp: quiet_restarted_bot try_restart_official_race_bot_after_exit_locked_def quiet_calls rt(1) rc OFFICIAL_RACE_BOT_AUTO_RESTART_MAX_ATTEMPTS_def
        Let_def not_le split: if_splits sum.splits)
qed

lemma monitor_restarts:
  assumes "official_race_bot_exit_monitor env race_alone sv t c sys = ((delay, Some c'), s)"
    and "st_official_race_started (rs_store sys)"
  obtains b b' where "current_bot t c sys = Some b" "rb_auto_restart_attempts b < 12"
    "delay = Some (restart_delay_ms True (rb_auto_restart_attempts b))" "current_bot t c' s = Some b'"
    "rb_auto_restart_attempts b' = sat_add (rb_auto_restart_attempts b) 1" "st_official_race_started (rs_store s)"
proof -
  obtain b where b: "current_bot t c sys = Some b" "delay = Some (restart_delay_ms True (rb_auto_restart_attempts b))"
    "try_restart_official_race_bot_after_exit_locked env race_alone sv t b sys = (Inr (Some c'), s)"
    using assms
    by (auto simp: official_race_bot_exit_monitor_def quiet_calls Let_def split: sum.splits option.splits prod.splits if_splits bool.splits)
  from quiet_try_restart [OF b(3) assms(2)] b that show ?thesis by blast
qed

lemma next_attempt: "n < 12 \<Longrightarrow> unat (sat_add (n :: u32) 1) = unat n + 1"
  by (simp add: unat_sat_add word_less_nat_alt)

text \<open>
  C33. Restarts of a bot during the race (the chain of monitors of its containers, without other
  tasks): there are at most twelve, less those already counted, however often the container
  exits; the delay before them doubles from half a second to eight seconds.
\<close>

theorem restarts_bounded:
  assumes "st_official_race_started (rs_store sys)" and "current_bot t c sys = Some b"
    and "monitor_chain env svs t c sys = (restarts, sys')"
  shows "length restarts \<le> 12 - unat (rb_auto_restart_attempts b) \<and>
    (\<forall>i < length restarts. \<exists>delay. fst (restarts ! i) = Some delay \<and>
       unat delay = 500 * 2 ^ min (unat (rb_auto_restart_attempts b) + i) 4)"
  using assms
proof (induction svs arbitrary: t c b sys restarts)
  case Nil
  then show ?case by simp
next
  case (Cons sv svs)
  obtain delay next_c s where m: "official_race_bot_exit_monitor env race_alone sv t c sys = ((delay, next_c), s)"
    by (metis prod.exhaust)
  show ?case
  proof (cases next_c)
    case None
    then show ?thesis using Cons.prems m by simp
  next
    case (Some c')
    from monitor_restarts [OF m [unfolded Some] Cons.prems(1)] Cons.prems(2) obtain b' where
      b: "rb_auto_restart_attempts b < 12" "delay = Some (restart_delay_ms True (rb_auto_restart_attempts b))"
      "current_bot t c' s = Some b'" "rb_auto_restart_attempts b' = sat_add (rb_auto_restart_attempts b) 1"
      "st_official_race_started (rs_store s)" by auto
    obtain rest where rest: "monitor_chain env svs t c' s = (rest, sys')" "restarts = (delay, c') # rest"
      using Cons.prems(3) m Some by (auto split: prod.splits)
    note n = next_attempt [OF b(1)]
    note IH = Cons.IH [OF b(5,3) rest(1), unfolded b(4) n]
    have "unat (rb_auto_restart_attempts b) < 12" using b(1) by (simp add: word_less_nat_alt)
    with IH show ?thesis using b(2) delay_doubles by (auto simp: rest(2) nth_Cons split: nat.split)
  qed
qed

definition racing_bot :: "u32 \<Rightarrow> team_official_race_bot_state" where
  "racing_bot n = \<lparr>rb_public_car_id = 1, rb_engine_car_id = 1, rb_start_position_index = 1, rb_slot_index = 2,
     rb_container_name = ''ha3-official-bot-team-red'', rb_container_id = ''c1'', rb_submission_id = ''s'', rb_image_ref = ''red'',
     rb_log_file_path = [], rb_auto_restart_attempts = n\<rparr>"

definition racing_system :: "u32 \<Rightarrow> u64 list race_system" where
  "racing_system n = session_system (spawn_worker None) (mark_official_race_started 5 store_new) [(''red'', racing_bot n)]"

theorem restarts_bounded_witness:
  "current_bot ''red'' ''c1'' (racing_system 11) = Some (racing_bot 11) \<and>
   length (fst (monitor_chain sample_env [session_sv, session_sv] ''red'' ''c1'' (racing_system 11))) \<le> 1"
proof -
  have b: "current_bot ''red'' ''c1'' (racing_system 11) = Some (racing_bot 11)"
    by (simp add: current_bot_def racing_system_def hm_get_def racing_bot_def)
  have "st_official_race_started (rs_store (racing_system 11))" by (simp add: racing_system_def mark_official_race_started_def)
  from restarts_bounded [OF this b surjective_pairing, of sample_env "[session_sv, session_sv]"]
  have "length (fst (monitor_chain sample_env [session_sv, session_sv] ''red'' ''c1'' (racing_system 11))) \<le>
      12 - unat (rb_auto_restart_attempts (racing_bot 11))" by blast
  moreover have "12 - unat (rb_auto_restart_attempts (racing_bot 11)) = 1" by (simp add: racing_bot_def)
  ultimately show ?thesis using b by simp
qed

section \<open>The launcher\<close>

definition keeps_race_flag :: "'n race_others \<Rightarrow> bool" where
  "keeps_race_flag other \<longleftrightarrow>
     (\<forall>a b sys. st_official_race_started (rs_store (other a b sys)) = st_official_race_started (rs_store sys))"

lemma flag_read:
  "keeps_race_flag other \<Longrightarrow>
     st_official_race_started (rs_store (snd (race_read other a f sys))) = st_official_race_started (rs_store sys)"
  by (simp add: keeps_race_flag_def race_read_def race_call_def)

text \<open>
  The states the launcher reaches while nobody else starts or ends the official race: turns of
  its own, and other tasks in between.
\<close>

inductive launcher_reachable ::
  "'n worker_env \<Rightarrow> string \<Rightarrow> string \<Rightarrow> launcher_state \<Rightarrow> 'n race_system \<Rightarrow> bool" for env teams_file assets_dir where
  launched: "launcher_start sys = (la, s) \<Longrightarrow> launcher_reachable env teams_file assets_dir la s"
| ticked: "launcher_reachable env teams_file assets_dir la sys \<Longrightarrow> keeps_race_flag (lt_others turn) \<Longrightarrow>
    launcher_tick env teams_file assets_dir turn la sys = ((la', effects), s) \<Longrightarrow>
    launcher_reachable env teams_file assets_dir la' s"
| others: "launcher_reachable env teams_file assets_dir la sys \<Longrightarrow>
    st_official_race_started (rs_store s) = st_official_race_started (rs_store sys) \<Longrightarrow>
    launcher_reachable env teams_file assets_dir la s"

definition recorder_running :: "results_recorder \<Rightarrow> bool" where
  "recorder_running r \<longleftrightarrow> rf_status (rr_data r) = ''running'' \<and> rf_finalized_at_unix_ms (rr_data r) = None"

definition launcher_ok :: "launcher_state \<Rightarrow> 'n race_system \<Rightarrow> bool" where
  "launcher_ok la sys \<longleftrightarrow>
     (ls_started la \<longrightarrow> ls_prepared la \<and> st_official_race_started (rs_store sys)) \<and>
     (ls_prepared la \<longleftrightarrow> ls_recorder la \<noteq> None) \<and> pred_option recorder_running (ls_recorder la)"

lemma prepared_recorder:
  "handle_official_race_prepare_signal env other tf ad inp sys = ((Inr r, ms), s) \<Longrightarrow> recorder_running r"
  by (auto simp: handle_official_race_prepare_signal_def recorder_running_def recorder_new_def Let_def internal_def
      failed_precondition_def split: sum.splits prod.splits list.splits)

lemma ticking_recorder: "recorder_tick frame now r = (r', files) \<Longrightarrow> recorder_running r \<Longrightarrow> recorder_running r'"
  by (auto simp: recorder_tick_def refresh_from_runtime_def recorder_running_def Let_def split: if_splits)

lemma prepare_ok:
  "on_prepare_signal env tf ad turn la sys = ((la', fx), s) \<Longrightarrow> launcher_ok la' s"
  by (auto simp: on_prepare_signal_def drop_recorder_def launcher_ok_def prepared_recorder split: prod.splits sum.splits)

lemma implicit_ok:
  assumes "implicit_prepare env tf ad turn la sys = ((la', fx), s)" and "launcher_ok la sys" and "\<not> ls_prepared la"
  shows "launcher_ok la' s \<and> \<not> ls_started la'"
  using assms by (auto simp: implicit_prepare_def drop_recorder_def launcher_ok_def prepared_recorder split: prod.splits sum.splits)

lemma start_ok:
  assumes "on_start_signal env tf ad turn la sys = ((la', fx), s)" and "launcher_ok la sys"
  shows "launcher_ok la' s"
proof -
  obtain la1 fx1 s1 where i: "(if ls_prepared la then ((la, ([], [])), sys) else implicit_prepare env tf ad turn la sys) = ((la1, fx1), s1)"
    by (metis prod.exhaust)
  then have "launcher_ok la1 s1" using assms(2) by (auto split: if_splits dest: implicit_ok [THEN conjunct1])
  then show ?thesis
    using assms(1) i
    by (auto simp: on_start_signal_def launcher_ok_def mark_official_race_started_def split: prod.splits if_splits)
qed

lemma watch_ok:
  assumes "watch_session env turn la sys = ((b, la', files), s)" and "launcher_ok la sys" and "keeps_race_flag (lt_others turn)"
  shows "launcher_ok la' s"
  using assms
  by (auto simp: watch_session_def launcher_ok_def Let_def flag_read
      split: option.splits if_splits prod.splits dest: ticking_recorder)

lemma tick_ok:
  assumes "launcher_tick env tf ad turn la sys = ((la', fx), s)" and "launcher_ok la sys" and "keeps_race_flag (lt_others turn)"
  shows "launcher_ok la' s"
proof -
  let ?s0 = "snd (race_read (lt_others turn) AwaitTurn (\<lambda>_. ()) sys)"
  have 0: "launcher_ok la ?s0" using assms(2,3) by (auto simp: launcher_ok_def flag_read)
  obtain la1 fx1 s1 where 1: "(if lt_prepare_signal turn \<and> \<not> ls_prepare_prev la then on_prepare_signal env tf ad turn la ?s0
      else ((la, ([], [])), ?s0)) = ((la1, fx1), s1)" by (metis prod.exhaust)
  then have ok1: "launcher_ok la1 s1" using 0 by (auto split: if_splits dest: prepare_ok)
  obtain la2 fx2 s2 where 2: "(if lt_start_signal turn \<and> \<not> ls_start_prev la1 then on_start_signal env tf ad turn la1 s1
      else ((la1, ([], [])), s1)) = ((la2, fx2), s2)" by (metis prod.exhaust)
  then have ok2: "launcher_ok la2 s2" using ok1 by (auto split: if_splits dest: start_ok)
  obtain b la3 files s3 where 3: "watch_session env turn la2 s2 = ((b, la3, files), s3)" by (metis prod.exhaust)
  have "launcher_ok la3 s3" by (rule watch_ok [OF 3 ok2 assms(3)])
  then show ?thesis
    using assms(1) 1 2 3 by (auto simp: launcher_tick_def launcher_ok_def Let_def split: prod.splits if_splits)
qed

text \<open>
  C34. The launcher, as long as no other task starts or ends the official race: a race that counts
  as started was prepared and is started in the runtime store, results are recorded exactly
  while a race is prepared, and what is recorded has not been finalized.
\<close>

theorem launcher_states_consistent:
  assumes "launcher_reachable env teams_file assets_dir la sys"
  shows "launcher_ok la sys"
  using assms
proof (induction rule: launcher_reachable.induct)
  case (launched sys la s)
  then show ?case by (auto simp: launcher_start_def launcher_new_def launcher_ok_def)
next
  case (ticked la sys turn la' fx s)
  then show ?case by (blast intro: tick_ok)
next
  case (others la sys s)
  then show ?case by (auto simp: launcher_ok_def)
qed

definition idle_services :: prepare_inputs where
  "idle_services = \<lparr>pi_races = Inr [], pi_roster = Inr [], pi_ghost_exists = Inr False, pi_ghost_content = Inr [],
     pi_ghost_json = (\<lambda>_. Inl []), pi_cleanup_services = (\<lambda>_. session_sv), pi_services = (\<lambda>_. session_sv), pi_now_ms = 0,
     pi_first_write = Inr ()\<rparr>"

definition quiet_launcher_turn :: "bool \<Rightarrow> bool \<Rightarrow> prepare_inputs \<Rightarrow> u64 list launcher_turn" where
  "quiet_launcher_turn prepare start inp =
     \<lparr>lt_prepare_signal = prepare, lt_start_signal = start, lt_prepare = inp, lt_implicit_prepare = inp,
      lt_refresh_services = (\<lambda>_. session_sv), lt_close_services = (\<lambda>_. session_sv), lt_now_ms = 2000, lt_others = race_alone\<rparr>"

theorem launcher_states_consistent_witness:
  "\<exists>la effects sys. launcher_tick sample_env ''teams'' ''assets'' (quiet_launcher_turn True False idle_services) launcher_new
      (session_system (spawn_worker None) (clear_official_race_session store_new) []) = ((la, effects), sys) \<and> launcher_ok la sys"
proof -
  let ?s = "session_system (spawn_worker None) (clear_official_race_session store_new) []"
  obtain la fx sys where t: "launcher_tick sample_env ''teams'' ''assets'' (quiet_launcher_turn True False idle_services) launcher_new
      ?s = ((la, fx), sys)" by (metis prod.exhaust)
  have "launcher_start (session_system (spawn_worker None) store_new []) = (launcher_new, ?s)"
    by (simp add: launcher_start_def on_store_def)
  then have "launcher_reachable sample_env ''teams'' ''assets'' launcher_new ?s" by (rule launcher_reachable.launched)
  from launcher_reachable.ticked [OF this _ t]
  have "launcher_reachable sample_env ''teams'' ''assets'' la sys" by (simp add: quiet_launcher_turn_def keeps_race_flag_def race_alone_def)
  from launcher_states_consistent [OF this] t show ?thesis by blast
qed

section \<open>Signals that go wrong\<close>

lemma quiet_tick:
  assumes "lt_others turn = race_alone"
  shows "launcher_tick env tf ad turn la sys =
    (let ((la1, (ms1, files1)), s1) = (if lt_prepare_signal turn \<and> \<not> ls_prepare_prev la
            then on_prepare_signal env tf ad turn la sys else ((la, ([], [])), sys));
         ((la2, (ms2, files2)), s2) = (if lt_start_signal turn \<and> \<not> ls_start_prev la1
            then on_start_signal env tf ad turn la1 s1 else ((la1, ([], [])), s1));
         ((elapsed, la3, files3), s3) = watch_session env turn la2 s2
     in ((if elapsed then la3 else la3\<lparr>ls_prepare_prev := lt_prepare_signal turn, ls_start_prev := lt_start_signal turn\<rparr>,
          (ms1 @ ms2, files1 @ files2 @ files3)), s3))"
  using assms by (simp add: launcher_tick_def quiet_calls)

text \<open>Turns of the launcher with the frames of the hub in between.\<close>

fun launcher_turns ::
  "'n worker_env \<Rightarrow> string \<Rightarrow> string \<Rightarrow> (runtime_frame \<times> 'n launcher_turn) list \<Rightarrow> launcher_state \<Rightarrow> 'n race_system
    \<Rightarrow> launcher_state \<times> 'n race_system" where
  "launcher_turns env tf ad [] la sys = (la, sys)"
| "launcher_turns env tf ad ((frame, turn) # turns) la sys =
     (let ((la1, _), s) = launcher_tick env tf ad turn la (sys\<lparr>rs_latest := frame\<rparr>) in launcher_turns env tf ad turns la1 s)"

definition same_signals :: "'n launcher_turn \<Rightarrow> runtime_frame \<times> 'n launcher_turn \<Rightarrow> bool" where
  "same_signals turn ft \<longleftrightarrow> lt_others (snd ft) = race_alone \<and> lt_prepare_signal (snd ft) = lt_prepare_signal turn \<and>
     lt_start_signal (snd ft) = lt_start_signal turn"

lemma idle_turns:
  assumes "ls_recorder la = None" and "ls_prepare_prev la = lt_prepare_signal turn" and "ls_start_prev la = lt_start_signal turn"
    and "list_all (same_signals turn) turns"
  shows "rs_store (snd (launcher_turns env tf ad turns la sys)) = rs_store sys \<and>
    sys_worker (snd (launcher_turns env tf ad turns la sys)) = sys_worker sys"
  using assms
proof (induction turns arbitrary: la sys)
  case (Cons ft turns)
  obtain frame t where ft: "ft = (frame, t)" by fastforce
  have t: "lt_others t = race_alone" "lt_prepare_signal t = lt_prepare_signal turn" "lt_start_signal t = lt_start_signal turn"
    using Cons.prems(4) ft by (simp_all add: same_signals_def)
  have "launcher_tick env tf ad t la (sys\<lparr>rs_latest := frame\<rparr>) = ((la, ([], [])), sys\<lparr>rs_latest := frame\<rparr>)"
    using Cons.prems(1-3) t(2,3) unfolding quiet_tick [OF t(1)] by (simp add: watch_session_def)
  then show ?case using Cons.IH [of la "sys\<lparr>rs_latest := frame\<rparr>"] Cons.prems ft by simp
qed simp

text \<open>The ways in which a preparation fails before it launches anything.\<close>

definition prepare_fails_early :: "prepare_inputs \<Rightarrow> bool" where
  "prepare_fails_early inp \<longleftrightarrow>
     (case pi_races inp of Inl _ \<Rightarrow> True | Inr races \<Rightarrow> races = []) \<or>
     \<not> is_ok (pi_roster inp) \<or>
     (case pi_ghost_exists inp of
        Inl _ \<Rightarrow> True
      | Inr exists \<Rightarrow> exists \<and>
          (case pi_ghost_content inp of
             Inl _ \<Rightarrow> True
           | Inr content \<Rightarrow>
               (case pi_ghost_json inp content of Inl _ \<Rightarrow> True | Inr settings \<Rightarrow> \<not> ghost_settings_valid settings)))"

lemma early_failure:
  assumes "prepare_fails_early inp"
  shows "\<exists>err. handle_official_race_prepare_signal env race_alone tf ad inp sys = ((Inl err, []), sys)"
proof -
  have roster: "read_official_race_team_ids race_alone tf inp sys =
      (case pi_roster inp of
         Inl err \<Rightarrow> internal (''failed to read official race team roster file '' @ tf @ '': '' @ err)
       | Inr content \<Rightarrow> Inr (team_ids_of content), sys)"
    by (simp add: read_official_race_team_ids_def quiet_calls split: sum.split)
  have ghost: "\<exists>r. read_official_race_ghost_mode_settings race_alone ad inp sys = (r, sys)"
    by (simp add: read_official_race_ghost_mode_settings_def quiet_calls Let_def split: sum.split bool.split)
  then obtain r where r: "read_official_race_ghost_mode_settings race_alone ad inp sys = (r, sys)" by blast
  have "\<not> is_ok r" if "case pi_ghost_exists inp of
        Inl _ \<Rightarrow> True
      | Inr exists \<Rightarrow> exists \<and>
          (case pi_ghost_content inp of
             Inl _ \<Rightarrow> True
           | Inr content \<Rightarrow>
               (case pi_ghost_json inp content of Inl _ \<Rightarrow> True | Inr settings \<Rightarrow> \<not> ghost_settings_valid settings))"
    using that r
    by (auto simp: read_official_race_ghost_mode_settings_def quiet_calls internal_def Let_def split: sum.splits bool.splits if_splits)
  then show ?thesis
    using assms
    by (auto simp: prepare_fails_early_def handle_official_race_prepare_signal_def quiet_calls roster r internal_def
        failed_precondition_def split: sum.splits list.splits)
qed

text \<open>
  C35. A new prepare signal, without a new start signal, while a race runs whose results are
  recorded, when its preparation fails before the launch: the races cannot be loaded or there
  is none, the roster cannot be read, or the file with the ghost settings cannot be checked,
  read or parsed or has invalid settings. If no other task runs during the turn, the turn
  writes exactly one snapshot of the results, the recorded ones marked as finalized at the
  time of the turn, and spawns no monitor; the launcher forgets the race, but the race goes on
  in the runtime store and in the worker. As long as the signal files stay as they are and no
  other task acts but the hub with its frames, no later turn ends it, whatever time the frames
  show, also after its duration.
\<close>

theorem failed_prepare_abandons_race:
  assumes "lt_others turn = race_alone" and "lt_prepare_signal turn" and "\<not> ls_prepare_prev la"
    and "lt_start_signal turn \<longrightarrow> ls_start_prev la" and "prepare_fails_early (lt_prepare turn)"
    and "ls_recorder la = Some r" and "st_official_race_started (rs_store sys)"
    and "launcher_tick env tf ad turn la sys = ((la', effects), sys')"
    and "list_all (same_signals turn) turns"
  shows "effects = ([], [(rr_data r)\<lparr>rf_status := ''finalized'', rf_finalized_at_unix_ms := Some (lt_now_ms turn)\<rparr>]) \<and>
    ls_recorder la' = None \<and> \<not> ls_prepared la' \<and> \<not> ls_started la' \<and>
    rs_store (snd (launcher_turns env tf ad turns la' sys')) = rs_store sys \<and>
    st_official_race_started (rs_store (snd (launcher_turns env tf ad turns la' sys'))) \<and>
    sys_worker (snd (launcher_turns env tf ad turns la' sys')) = sys_worker sys"
proof -
  obtain err where h: "handle_official_race_prepare_signal env race_alone tf ad (lt_prepare turn) sys = ((Inl err, []), sys)"
    using early_failure [OF assms(5)] by blast
  have la': "la' = la\<lparr>ls_recorder := None, ls_prepared := False, ls_started := False, ls_prepare_prev := True,
      ls_start_prev := lt_start_signal turn\<rparr>"
    and s': "sys' = sys"
    and fx: "effects = ([], [(rr_data r)\<lparr>rf_status := ''finalized'', rf_finalized_at_unix_ms := Some (lt_now_ms turn)\<rparr>])"
    using assms(8) assms(2-4,6) h unfolding quiet_tick [OF assms(1)]
    by (auto simp: on_prepare_signal_def drop_recorder_def recorder_finalize_def assms(1) watch_session_def Let_def)
  have "rs_store (snd (launcher_turns env tf ad turns la' sys')) = rs_store sys' \<and>
      sys_worker (snd (launcher_turns env tf ad turns la' sys')) = sys_worker sys'"
    by (rule idle_turns [OF _ _ _ assms(9)]) (use la' assms(2) in simp_all)
  then show ?thesis using la' s' fx assms(7) by simp
qed

definition racing_launcher :: launcher_state where
  "racing_launcher = \<lparr>ls_prepare_prev = False, ls_start_prev = True, ls_prepared = True, ls_started = True,
     ls_recorder = Some (recorder_new ''assets'' session_config \<lparr>la_stats = start_stats_default, la_teams = []\<rparr> 5)\<rparr>"

theorem failed_prepare_abandons_race_witness:
  "\<exists>la file sys. launcher_tick sample_env ''teams'' ''assets'' (quiet_launcher_turn True True idle_services) racing_launcher
      (racing_system 0) = ((la, ([], [file])), sys) \<and> rf_status file = ''finalized'' \<and> \<not> ls_started la \<and>
     st_official_race_started (rs_store sys)"
proof -
  let ?turn = "quiet_launcher_turn True True idle_services"
  obtain la fx sys where t: "launcher_tick sample_env ''teams'' ''assets'' ?turn racing_launcher (racing_system 0) = ((la, fx), sys)"
    by (metis prod.exhaust)
  obtain r where r: "ls_recorder racing_launcher = Some r" by (simp add: racing_launcher_def)
  have "st_official_race_started (rs_store (racing_system 0))" by (simp add: racing_system_def mark_official_race_started_def)
  then have "fx = ([], [(rr_data r)\<lparr>rf_status := ''finalized'', rf_finalized_at_unix_ms := Some (lt_now_ms ?turn)\<rparr>])"
    "\<not> ls_started la" "st_official_race_started (rs_store (snd (launcher_turns sample_env ''teams'' ''assets'' [] la sys)))"
    using failed_prepare_abandons_race [of ?turn racing_launcher r "racing_system 0" sample_env "''teams''" "''assets''" la fx sys "[]"] t r
    by (simp_all add: quiet_launcher_turn_def racing_launcher_def idle_services_def prepare_fails_early_def)
  then show ?thesis using t by simp
qed

text \<open>
  A start signal in the turn in which the race ends is not remembered: the turn closes the
  session and ends before the signals are noted. The next turn takes the same file for a new
  signal, prepares a race that nobody asked for and launches the bots of the roster again.
\<close>

theorem start_signal_survives_race_end:
  assumes "lt_others turn = race_alone" and "\<not> lt_prepare_signal turn" and "lt_start_signal turn" and "\<not> ls_start_prev la"
    and "ls_recorder la = Some r" and "ls_prepared la" and "ls_started la" and "race_elapsed sys"
    and "launcher_tick env tf ad turn la sys = ((la1, effects), s1)"
    and "lt_others turn2 = race_alone" and "\<not> lt_prepare_signal turn2" and "lt_start_signal turn2"
    and "handle_official_race_prepare_signal env race_alone tf ad (lt_implicit_prepare turn2) s1 = ((Inr r2, ms), s2)"
    and "launcher_tick env tf ad turn2 la1 s1 = ((la2, (ms2, files)), s3)"
  shows "ls_recorder la1 = None \<and> \<not> ls_started la1 \<and> \<not> ls_start_prev la1 \<and> prefix ms ms2"
proof -
  have la1: "la1 = la\<lparr>ls_recorder := None, ls_prepared := False, ls_started := False\<rparr>"
    using assms(2-9) unfolding quiet_tick [OF assms(1)]
    by (auto simp: on_start_signal_def watch_session_def Let_def)
  obtain lb fx sb where st: "on_start_signal env tf ad turn2 la1 s1 = ((lb, fx), sb)" by (metis prod.exhaust)
  have "prefix ms (fst fx)"
    using st assms(10,13) la1
    by (auto simp: on_start_signal_def implicit_prepare_def drop_recorder_def split: prod.splits if_splits)
  moreover have "ms2 = fst fx"
    using assms(11,12,14) la1 st assms(4) unfolding quiet_tick [OF assms(10)] by (auto split: prod.splits)
  ultimately show ?thesis using la1 assms(4) by simp
qed

definition session_inputs :: prepare_inputs where
  "session_inputs = idle_services\<lparr>pi_races := Inr [session_config], pi_roster := Inr ''red''\<rparr>"

lemma session_prepare:
  "\<exists>r s. handle_official_race_prepare_signal sample_env race_alone tf ad session_inputs
      (session_system (spawn_worker None) store_new []) = ((Inr r, [(''red'', ''c1'')]), s)"
proof -
  let ?sys = "session_system (spawn_worker None) store_new []"
  obtain res ms sys' where l: "launch_official_race_session_locked sample_env race_alone (\<lambda>_. session_sv) (\<lambda>_. session_sv)
      session_config [''red''] None ?sys = ((Inr res, ms), sys')" "ms = [(''red'', ''c1'')]"
    using session_launch by (elim exE conjE)
  have "str_lines ''red'' = [''red'']" by code_simp
  then have ids: "team_ids_of ''red'' = [''red'']" by (simp add: team_ids_of_def trim_samples)
  show ?thesis
    by (simp add: handle_official_race_prepare_signal_def quiet_calls session_inputs_def idle_services_def read_official_race_team_ids_def
        read_official_race_ghost_mode_settings_def ids l)
qed

lemma session_ends:
  defines "sys \<equiv> session_system (spawn_worker None) (mark_official_race_started 5 (set_official_race_prepared ''Cup'' ''m1'' 1 5 store_new)) []"
  shows "race_elapsed sys"
    "close_official_race_session_locked sample_env race_alone sv sys = session_system (spawn_worker None) store_new []"
proof -
  have "sat_sub (sat_add 5 (sat_mul 1 1000)) (9000 :: u64) = 0"
    and "fp_le (fp_div binary32 (fp_of_int binary32 0) (Fin 1000)) (Fin 0)" by code_simp+
  then show "race_elapsed sys"
    by (simp add: race_elapsed_def sys_def official_race_remaining_sec_def mark_official_race_started_def
        set_official_race_prepared_def empty_frame_def Let_def)
  have "rt_activity_kind (w_runtime (spawn_worker None :: u64 list worker)) \<noteq> ActOfficialRace" by (simp add: spawn_worker_def)
  then show "close_official_race_session_locked sample_env race_alone sv sys = session_system (spawn_worker None) store_new []"
    by (simp add: close_official_race_session_locked_def quiet_calls sys_def session_runtime cleanup_official_race_session_locked_def
        official_cars_def on_store_def clear_official_race_session_def mark_official_race_started_def set_official_race_prepared_def
        store_new_def)
qed

theorem start_signal_survives_race_end_witness:
  "\<exists>la1 effects s1 la2 ms2 files s3.
     launcher_tick sample_env ''teams'' ''assets'' (quiet_launcher_turn False True session_inputs)
       (racing_launcher\<lparr>ls_start_prev := False\<rparr>) (session_system (spawn_worker None)
         (mark_official_race_started 5 (set_official_race_prepared ''Cup'' ''m1'' 1 5 store_new)) []) = ((la1, effects), s1) \<and>
     launcher_tick sample_env ''teams'' ''assets'' (quiet_launcher_turn False True session_inputs) la1 s1 = ((la2, (ms2, files)), s3) \<and>
     \<not> ls_started la1 \<and> ms2 \<noteq> []"
proof -
  let ?turn = "quiet_launcher_turn False True session_inputs" and ?la = "racing_launcher\<lparr>ls_start_prev := False\<rparr>"
  let ?sys = "session_system (spawn_worker None) (mark_official_race_started 5 (set_official_race_prepared ''Cup'' ''m1'' 1 5 store_new)) []"
  let ?tick = "launcher_tick sample_env ''teams'' ''assets'' ?turn"
  have turn: "lt_others ?turn = race_alone" "\<not> lt_prepare_signal ?turn" "lt_start_signal ?turn" "lt_implicit_prepare ?turn = session_inputs"
    by (simp_all add: quiet_launcher_turn_def)
  have la: "\<not> ls_start_prev ?la" "ls_prepared ?la" "ls_started ?la" by (simp_all add: racing_launcher_def)
  obtain r where r: "ls_recorder ?la = Some r" by (simp add: racing_launcher_def)
  obtain la1 fx s1 where t1: "?tick ?la ?sys = ((la1, fx), s1)" by (metis prod.exhaust)
  have s1: "s1 = session_system (spawn_worker None) store_new []"
    using t1 turn la r session_ends unfolding quiet_tick [OF turn(1)]
    by (auto simp: on_start_signal_def watch_session_def quiet_calls)
  obtain r2 s2 where p: "handle_official_race_prepare_signal sample_env race_alone ''teams'' ''assets'' (lt_implicit_prepare ?turn) s1 =
      ((Inr r2, [(''red'', ''c1'')]), s2)" unfolding s1 turn(4) using session_prepare by blast
  obtain la2 ms2 files s3 where t2: "?tick la1 s1 = ((la2, (ms2, files)), s3)" by (metis prod.exhaust)
  from start_signal_survives_race_end [OF turn(1-3) la(1) r la(2,3) session_ends(1) t1 turn(1-3) p t2]
  have "\<not> ls_started la1 \<and> ms2 \<noteq> []" by auto
  then show ?thesis using t1 t2 by blast
qed

end
