(* ===== verification/Local_Sandbox_Store.thy ===== *)
theory Local_Sandbox_Store
  imports Race_Service Local_Race_Admin Weather_Domain
begin

text \<open>
  The store of the configured local sandboxes: game-server/src/local/sandbox_config_store/
  (model.rs, mappers.rs, error.rs, store.rs). A configuration is checked when it arrives and
  when it is stored; every change of the store takes the revision its caller has seen, changes
  the state under the write lock and then writes the whole state to the file.

  The serialisation of the state and the file system are parameters: \<open>si_encode\<close> and
  \<open>si_decode\<close> stand for the JSON library, and the outcome of every write is an argument. The
  integers of the protocol's enumerations are the fields of \<open>sandbox_codes\<close>. As in the
  administration of the local race, \<open>other i\<close> is what other tasks do at await number \<open>i\<close>.
\<close>

section \<open>Data\<close>

datatype time_of_day_mode_record = RecFixedPreset | RecAutoByLocalTime

datatype time_of_day_preset_record = RecMorning | RecNoon | RecEvening | RecNight

datatype weather_type_record = RecClear | RecPartlyCloudy | RecOvercast | RecLightRain | RecMediumRain | RecHeavyRain

record time_of_day_settings_record =
  tr_mode :: time_of_day_mode_record
  tr_fixed_preset :: time_of_day_preset_record

record weather_settings_record =
  wr_weather_type :: weather_type_record
  wr_temperature_c :: i32

record ghost_mode_record =
  gr_enabled :: bool
  gr_enter_speed_max_mps :: fp
  gr_exit_speed_min_mps :: fp
  gr_enter_delay_ms :: u32
  gr_exit_delay_ms :: u32
  gr_until_completed_laps :: u32
  gr_vehicle_overlap_exit_delay_ms :: u32

text \<open>The spawn modes of a record are the constructors of \<open>spawn_mode\<close>.\<close>

record sandbox_config_input_record =
  si_sandbox_name :: string
  si_map_id :: string
  si_time_of_day :: time_of_day_settings_record
  si_ghost_mode :: "ghost_mode_record option"
  si_weather :: weather_settings_record
  si_spawn_mode :: spawn_mode

record sandbox_config_record =
  sr_sandbox_id :: string
  sr_config :: sandbox_config_input_record

record config_state =
  cs_revision :: u64
  cs_sandboxes :: "sandbox_config_record list"

datatype store_error =
    StoreIo string
  | StoreSerde string
  | StoreRevisionMismatch u64 u64
  | StoreAlreadyExists string
  | StoreNotFound string
  | StoreInvalidConfig string

fun store_error_text :: "store_error \<Rightarrow> string" where
  "store_error_text (StoreIo e) = ''io error: '' @ e"
| "store_error_text (StoreSerde e) = ''json error: '' @ e"
| "store_error_text (StoreRevisionMismatch expected actual) =
     ''revision mismatch: expected '' @ dec_nat (unat expected) @ '', actual '' @ dec_nat (unat actual)"
| "store_error_text (StoreAlreadyExists sandbox_id) = ''local sandbox config already exists: '' @ sandbox_id"
| "store_error_text (StoreNotFound sandbox_id) = ''local sandbox config not found: '' @ sandbox_id"
| "store_error_text (StoreInvalidConfig message) = ''invalid local sandbox config: '' @ message"

definition MAX_SANDBOX_NAME_LEN_CHARS :: nat where "MAX_SANDBOX_NAME_LEN_CHARS = 64"
definition MAX_GHOST_DELAY_MS :: u32 where "MAX_GHOST_DELAY_MS = 600000"
definition MAX_GHOST_UNTIL_COMPLETED_LAPS :: u32 where "MAX_GHOST_UNTIL_COMPLETED_LAPS = 100000"

section \<open>Checks\<close>

text \<open>The characters of a string in UTF-8: the bytes that do not continue a character.\<close>

definition chars_count :: "string \<Rightarrow> nat" where
  "chars_count s = length (filter (\<lambda>c. let n = (of_char c :: nat) in \<not> (128 \<le> n \<and> n < 192)) s)"

definition validate_time_of_day_settings :: "time_of_day_settings_record \<Rightarrow> (store_error, unit) result" where
  "validate_time_of_day_settings settings =
     (if tr_mode settings = RecFixedPreset \<and>
         \<not> (case tr_fixed_preset settings of RecMorning \<Rightarrow> True | RecNoon \<Rightarrow> True | RecEvening \<Rightarrow> True | RecNight \<Rightarrow> True)
      then Inl (StoreInvalidConfig ''time_of_day.fixed_preset must be specified for fixed mode'')
      else Inr ())"

definition validate_local_weather_settings :: "weather_settings_record \<Rightarrow> (store_error, unit) result" where
  "validate_local_weather_settings settings =
     (if \<not> (1 \<le> wr_temperature_c settings \<and> wr_temperature_c settings \<le> 30)
      then Inl (StoreInvalidConfig ''weather.temperature_c must be in range 1..=30'') else Inr ())"

text \<open>The check of the speeds, which the store's check and the conversion both make.\<close>

definition check_ghost_speeds :: "ghost_mode_record \<Rightarrow> (store_error, unit) result" where
  "check_ghost_speeds ghost =
     (if \<not> is_finite_fp (gr_enter_speed_max_mps ghost) \<or> fp_lt (gr_enter_speed_max_mps ghost) (Fin 0)
      then Inl (StoreInvalidConfig ''ghost_mode.enter_speed_max_mps must be finite and >= 0'')
      else if \<not> is_finite_fp (gr_exit_speed_min_mps ghost) \<or> fp_lt (gr_exit_speed_min_mps ghost) (Fin 0)
      then Inl (StoreInvalidConfig ''ghost_mode.exit_speed_min_mps must be finite and >= 0'')
      else if fp_lt (gr_exit_speed_min_mps ghost) (gr_enter_speed_max_mps ghost)
      then Inl (StoreInvalidConfig ''ghost_mode.enter_speed_max_mps must be <= ghost_mode.exit_speed_min_mps'')
      else Inr ())"

definition check_ghost_limits :: "ghost_mode_record \<Rightarrow> (store_error, unit) result" where
  "check_ghost_limits ghost =
     (if gr_enter_delay_ms ghost > MAX_GHOST_DELAY_MS
      then Inl (StoreInvalidConfig ''ghost_mode.enter_delay_ms must be <= 600000'')
      else if gr_exit_delay_ms ghost > MAX_GHOST_DELAY_MS
      then Inl (StoreInvalidConfig ''ghost_mode.exit_delay_ms must be <= 600000'')
      else if gr_vehicle_overlap_exit_delay_ms ghost > MAX_GHOST_DELAY_MS
      then Inl (StoreInvalidConfig ''ghost_mode.vehicle_overlap_exit_delay_ms must be <= 600000'')
      else if gr_until_completed_laps ghost > MAX_GHOST_UNTIL_COMPLETED_LAPS
      then Inl (StoreInvalidConfig ''ghost_mode.until_completed_laps must be <= 100000'')
      else Inr ())"

definition valid_map_chars :: "features \<Rightarrow> string \<Rightarrow> bool" where
  "valid_map_chars fs map_id =
     (if standalone fs then list_all is_ascii_alphanumeric map_id
      else list_all (\<lambda>c. is_ascii_alphanumeric c \<or> c = CHR ''-'' \<or> c = CHR ''_'') map_id)"

definition validate_local_sandbox_config_input ::
  "features \<Rightarrow> sandbox_config_input_record \<Rightarrow> (store_error, unit) result" where
  "validate_local_sandbox_config_input fs input =
     (let sandbox_name = trim (si_sandbox_name input); map_id = trim (si_map_id input) in
      if sandbox_name = [] then Inl (StoreInvalidConfig ''sandbox_name must be non-empty'')
      else if chars_count sandbox_name > MAX_SANDBOX_NAME_LEN_CHARS
      then Inl (StoreInvalidConfig ''sandbox_name must be at most 64 characters'')
      else if map_id = [] then Inl (StoreInvalidConfig ''map_id must be non-empty'')
      else if \<not> valid_map_chars fs map_id then Inl (StoreInvalidConfig ''map_id contains invalid characters'')
      else case validate_time_of_day_settings (si_time_of_day input) of
        Inl err \<Rightarrow> Inl err
      | Inr _ \<Rightarrow>
          (case validate_local_weather_settings (si_weather input) of
             Inl err \<Rightarrow> Inl err
           | Inr _ \<Rightarrow>
               (case si_ghost_mode input of
                  None \<Rightarrow> Inr ()
                | Some ghost \<Rightarrow>
                    (case check_ghost_speeds ghost of
                       Inl err \<Rightarrow> Inl err
                     | Inr _ \<Rightarrow> check_ghost_limits ghost))))"

section \<open>Conversions\<close>

datatype proto_spawn_mode =
  ProtoSpawnUnspecified | ProtoStartLine | ProtoRandomOnTrack | ProtoInPit | ProtoRandomStartSlot

record sandbox_codes = proto_codes +
  sc_weather :: "i32 \<Rightarrow> weather_type option"
  sc_weather_code :: "weather_type \<Rightarrow> i32"
  sc_spawn :: "i32 \<Rightarrow> proto_spawn_mode option"
  sc_spawn_code :: "proto_spawn_mode \<Rightarrow> i32"

record sandbox_config_input =
  pi_sandbox_name :: string
  pi_map_id :: string
  pi_time_of_day :: "local_time_of_day_settings option"
  pi_ghost_mode :: "ghost_mode_settings option"
  pi_weather :: "local_weather_settings option"
  pi_spawn_mode :: i32

record sandbox_config =
  ps_sandbox_id :: string
  ps_config :: "sandbox_config_input option"

definition enum_from_i32 :: "(i32 \<Rightarrow> 'e option) \<Rightarrow> i32 \<Rightarrow> string \<Rightarrow> (store_error, 'e) result" where
  "enum_from_i32 decode v field =
     (case decode v of None \<Rightarrow> Inl (StoreInvalidConfig (''invalid '' @ field)) | Some e \<Rightarrow> Inr e)"

fun mode_record :: "time_of_day_mode \<Rightarrow> (store_error, time_of_day_mode_record) result" where
  "mode_record ModeFixedPreset = Inr RecFixedPreset"
| "mode_record ModeAutoByLocalTime = Inr RecAutoByLocalTime"
| "mode_record ModeUnspecified = Inl (StoreInvalidConfig ''time_of_day.mode must be specified'')"

fun preset_record :: "proto_time_of_day \<Rightarrow> (store_error, time_of_day_preset_record) result" where
  "preset_record ProtoMorning = Inr RecMorning"
| "preset_record ProtoNoon = Inr RecNoon"
| "preset_record ProtoEvening = Inr RecEvening"
| "preset_record ProtoNight = Inr RecNight"
| "preset_record ProtoUnspecified = Inl (StoreInvalidConfig ''time_of_day.fixed_preset must be specified'')"

fun weather_record :: "weather_type \<Rightarrow> (store_error, weather_type_record) result" where
  "weather_record Clear = Inr RecClear"
| "weather_record PartlyCloudy = Inr RecPartlyCloudy"
| "weather_record Overcast = Inr RecOvercast"
| "weather_record LightRain = Inr RecLightRain"
| "weather_record MediumRain = Inr RecMediumRain"
| "weather_record HeavyRain = Inr RecHeavyRain"
| "weather_record WeatherUnspecified = Inl (StoreInvalidConfig ''weather.weather_type must be specified'')"

fun spawn_record :: "proto_spawn_mode \<Rightarrow> (store_error, spawn_mode) result" where
  "spawn_record ProtoStartLine = Inr StartLine"
| "spawn_record ProtoRandomOnTrack = Inr RandomOnTrack"
| "spawn_record ProtoInPit = Inr SpawnInPit"
| "spawn_record ProtoRandomStartSlot = Inr RandomStartSlot"
| "spawn_record ProtoSpawnUnspecified = Inl (StoreInvalidConfig ''spawn_mode must be specified'')"

fun mode_to_proto :: "time_of_day_mode_record \<Rightarrow> time_of_day_mode" where
  "mode_to_proto RecFixedPreset = ModeFixedPreset"
| "mode_to_proto RecAutoByLocalTime = ModeAutoByLocalTime"

fun preset_to_proto :: "time_of_day_preset_record \<Rightarrow> proto_time_of_day" where
  "preset_to_proto RecMorning = ProtoMorning"
| "preset_to_proto RecNoon = ProtoNoon"
| "preset_to_proto RecEvening = ProtoEvening"
| "preset_to_proto RecNight = ProtoNight"

fun weather_type_to_proto :: "weather_type_record \<Rightarrow> weather_type" where
  "weather_type_to_proto RecClear = Clear"
| "weather_type_to_proto RecPartlyCloudy = PartlyCloudy"
| "weather_type_to_proto RecOvercast = Overcast"
| "weather_type_to_proto RecLightRain = LightRain"
| "weather_type_to_proto RecMediumRain = MediumRain"
| "weather_type_to_proto RecHeavyRain = HeavyRain"

fun spawn_mode_to_proto :: "spawn_mode \<Rightarrow> proto_spawn_mode" where
  "spawn_mode_to_proto StartLine = ProtoStartLine"
| "spawn_mode_to_proto RandomOnTrack = ProtoRandomOnTrack"
| "spawn_mode_to_proto SpawnInPit = ProtoInPit"
| "spawn_mode_to_proto RandomStartSlot = ProtoRandomStartSlot"

definition store_time_of_day_from_proto ::
  "sandbox_codes \<Rightarrow> local_time_of_day_settings \<Rightarrow> (store_error, time_of_day_settings_record) result" where
  "store_time_of_day_from_proto sc p =
     (case enum_from_i32 (pc_mode sc) (lt_mode p) ''time_of_day.mode'' of
        Inl err \<Rightarrow> Inl err
      | Inr m \<Rightarrow>
          (case mode_record m of
             Inl err \<Rightarrow> Inl err
           | Inr mode \<Rightarrow>
               (case enum_from_i32 (pc_preset sc) (lt_fixed_preset p) ''time_of_day.fixed_preset'' of
                  Inl err \<Rightarrow> Inl err
                | Inr preset_proto \<Rightarrow>
                    (case (mode, preset_proto) of
                       (RecFixedPreset, ProtoUnspecified) \<Rightarrow>
                         Inl (StoreInvalidConfig ''time_of_day.fixed_preset must be specified for fixed mode'')
                     | (_, ProtoUnspecified) \<Rightarrow> Inr \<lparr>tr_mode = mode, tr_fixed_preset = RecNoon\<rparr>
                     | (_, v) \<Rightarrow>
                         (case preset_record v of
                            Inl err \<Rightarrow> Inl err
                          | Inr preset \<Rightarrow> Inr \<lparr>tr_mode = mode, tr_fixed_preset = preset\<rparr>)))))"

definition store_time_of_day_to_proto :: "sandbox_codes \<Rightarrow> time_of_day_settings_record \<Rightarrow> local_time_of_day_settings" where
  "store_time_of_day_to_proto sc s =
     \<lparr>lt_mode = pc_mode_code sc (mode_to_proto (tr_mode s)),
      lt_fixed_preset = pc_preset_code sc (preset_to_proto (tr_fixed_preset s))\<rparr>"

definition store_weather_from_proto ::
  "sandbox_codes \<Rightarrow> local_weather_settings \<Rightarrow> (store_error, weather_settings_record) result" where
  "store_weather_from_proto sc p =
     (case enum_from_i32 (sc_weather sc) (lw_weather_type p) ''weather.weather_type'' of
        Inl err \<Rightarrow> Inl err
      | Inr w \<Rightarrow>
          (case weather_record w of
             Inl err \<Rightarrow> Inl err
           | Inr wt \<Rightarrow> Inr \<lparr>wr_weather_type = wt, wr_temperature_c = lw_temperature_c p\<rparr>))"

definition store_weather_to_proto :: "sandbox_codes \<Rightarrow> weather_settings_record \<Rightarrow> local_weather_settings" where
  "store_weather_to_proto sc s =
     \<lparr>lw_weather_type = sc_weather_code sc (weather_type_to_proto (wr_weather_type s)),
      lw_temperature_c = wr_temperature_c s\<rparr>"

definition store_ghost_mode_from_proto :: "ghost_mode_settings \<Rightarrow> (store_error, ghost_mode_record) result" where
  "store_ghost_mode_from_proto p =
     (let ghost = \<lparr>gr_enabled = ghost_enabled p, gr_enter_speed_max_mps = enter_speed_max_mps p,
                   gr_exit_speed_min_mps = exit_speed_min_mps p, gr_enter_delay_ms = enter_delay_ms p,
                   gr_exit_delay_ms = exit_delay_ms p, gr_until_completed_laps = until_completed_laps p,
                   gr_vehicle_overlap_exit_delay_ms = vehicle_overlap_exit_delay_ms p\<rparr>
      in case check_ghost_speeds ghost of Inl err \<Rightarrow> Inl err | Inr _ \<Rightarrow> Inr ghost)"

definition store_ghost_mode_to_proto :: "ghost_mode_record \<Rightarrow> ghost_mode_settings" where
  "store_ghost_mode_to_proto g =
     \<lparr>ghost_enabled = gr_enabled g, enter_speed_max_mps = gr_enter_speed_max_mps g,
      exit_speed_min_mps = gr_exit_speed_min_mps g, enter_delay_ms = gr_enter_delay_ms g,
      exit_delay_ms = gr_exit_delay_ms g, until_completed_laps = gr_until_completed_laps g,
      vehicle_overlap_exit_delay_ms = gr_vehicle_overlap_exit_delay_ms g\<rparr>"

definition local_sandbox_input_from_proto ::
  "features \<Rightarrow> sandbox_codes \<Rightarrow> sandbox_config_input \<Rightarrow> (store_error, sandbox_config_input_record) result" where
  "local_sandbox_input_from_proto fs sc input =
     (case pi_time_of_day input of
        None \<Rightarrow> Inl (StoreInvalidConfig ''time_of_day is required'')
      | Some t \<Rightarrow>
          (case store_time_of_day_from_proto sc t of
             Inl err \<Rightarrow> Inl err
           | Inr time_of_day \<Rightarrow>
               (case pi_weather input of
                  None \<Rightarrow> Inl (StoreInvalidConfig ''weather is required'')
                | Some w \<Rightarrow>
                    (case store_weather_from_proto sc w of
                       Inl err \<Rightarrow> Inl err
                     | Inr weather \<Rightarrow>
                         (case enum_from_i32 (sc_spawn sc) (pi_spawn_mode input) ''spawn_mode'' of
                            Inl err \<Rightarrow> Inl err
                          | Inr s \<Rightarrow>
                              (case spawn_record s of
                                 Inl err \<Rightarrow> Inl err
                               | Inr spawn_mode \<Rightarrow>
                                   (case (case pi_ghost_mode input of
                                            None \<Rightarrow> Inr None
                                          | Some g \<Rightarrow>
                                              (case store_ghost_mode_from_proto g of
                                                 Inl err \<Rightarrow> Inl err | Inr ghost \<Rightarrow> Inr (Some ghost))) of
                                      Inl err \<Rightarrow> Inl err
                                    | Inr ghost_mode \<Rightarrow>
                                        (let record = \<lparr>si_sandbox_name = pi_sandbox_name input, si_map_id = pi_map_id input,
                                                       si_time_of_day = time_of_day, si_ghost_mode = ghost_mode,
                                                       si_weather = weather, si_spawn_mode = spawn_mode\<rparr>
                                         in case validate_local_sandbox_config_input fs record of
                                              Inl err \<Rightarrow> Inl err | Inr _ \<Rightarrow> Inr record)))))))) "

definition local_sandbox_input_to_proto :: "sandbox_codes \<Rightarrow> sandbox_config_input_record \<Rightarrow> sandbox_config_input" where
  "local_sandbox_input_to_proto sc input =
     \<lparr>pi_sandbox_name = si_sandbox_name input, pi_map_id = si_map_id input,
      pi_time_of_day = Some (store_time_of_day_to_proto sc (si_time_of_day input)),
      pi_ghost_mode = map_option store_ghost_mode_to_proto (si_ghost_mode input),
      pi_weather = Some (store_weather_to_proto sc (si_weather input)),
      pi_spawn_mode = sc_spawn_code sc (spawn_mode_to_proto (si_spawn_mode input))\<rparr>"

definition local_sandbox_to_proto :: "sandbox_codes \<Rightarrow> sandbox_config_record \<Rightarrow> sandbox_config" where
  "local_sandbox_to_proto sc r =
     \<lparr>ps_sandbox_id = sr_sandbox_id r, ps_config = Some (local_sandbox_input_to_proto sc (sr_config r))\<rparr>"

section \<open>The store\<close>

text \<open>A file that is absent, or its bytes; a write that fails may leave any bytes behind.\<close>

datatype write_outcome = Written | DirFailed string | WriteFailed string "string option"

record store_io =
  si_encode :: "config_state \<Rightarrow> (string, string) result"
  si_decode :: "string \<Rightarrow> (string, config_state) result"

record config_store =
  st_state :: config_state
  st_file :: "string option"

definition config_state_default :: config_state where
  "config_state_default = \<lparr>cs_revision = 0, cs_sandboxes = []\<rparr>"

definition persist :: "store_io \<Rightarrow> write_outcome \<Rightarrow> config_store \<Rightarrow> (store_error, unit) result \<times> config_store" where
  "persist io out st =
     (case si_encode io (st_state st) of
        Inl e \<Rightarrow> (Inl (StoreSerde e), st)
      | Inr raw \<Rightarrow>
          (case out of
             DirFailed e \<Rightarrow> (Inl (StoreIo e), st)
           | WriteFailed e left \<Rightarrow> (Inl (StoreIo e), st\<lparr>st_file := left\<rparr>)
           | Written \<Rightarrow> (Inr (), st\<lparr>st_file := Some raw\<rparr>)))"

text \<open>
  Loading: \<open>found\<close> and \<open>content\<close> are the answers of the file system to the two reads.
\<close>

definition load_or_create ::
  "store_io \<Rightarrow> (string, bool) result \<Rightarrow> (string, string) result \<Rightarrow> write_outcome \<Rightarrow> string option
    \<Rightarrow> (store_error, config_store) result" where
  "load_or_create io found content out file =
     (case found of
        Inl e \<Rightarrow> Inl (StoreIo e)
      | Inr exists \<Rightarrow>
          (case (if exists
                 then case content of
                        Inl e \<Rightarrow> Inl (StoreIo e)
                      | Inr raw \<Rightarrow>
                          if raw = [] then Inr config_state_default
                          else (case si_decode io raw of Inl e \<Rightarrow> Inl (StoreSerde e) | Inr s \<Rightarrow> Inr s)
                 else Inr config_state_default) of
             Inl err \<Rightarrow> Inl err
           | Inr state \<Rightarrow>
               (let store = \<lparr>st_state = state, st_file = file\<rparr> in
                if exists then Inr store
                else (case persist io out store of
                        (Inl err, _) \<Rightarrow> Inl err
                      | (Inr _, store') \<Rightarrow> Inr store'))))"

definition ensure_expected_revision :: "u64 \<Rightarrow> u64 \<Rightarrow> (store_error, unit) result" where
  "ensure_expected_revision expected current =
     (if expected = current then Inr () else Inl (StoreRevisionMismatch expected current))"

type_synonym config_change = "config_state \<Rightarrow> (store_error, u64) result \<times> config_state"

text \<open>The end of every change under the write lock: the revision advances and is returned.\<close>

definition bumped :: "sandbox_config_record list \<Rightarrow> config_change" where
  "bumped sandboxes st =
     (let v = sat_add (cs_revision st) 1 in (Inr v, st\<lparr>cs_sandboxes := sandboxes, cs_revision := v\<rparr>))"

definition create_change :: "u64 \<Rightarrow> sandbox_config_record \<Rightarrow> config_change" where
  "create_change expected sandbox st =
     (case ensure_expected_revision expected (cs_revision st) of
        Inl err \<Rightarrow> (Inl err, st)
      | Inr _ \<Rightarrow>
          if list_ex (\<lambda>e. sr_sandbox_id e = sr_sandbox_id sandbox) (cs_sandboxes st)
          then (Inl (StoreAlreadyExists (sr_sandbox_id sandbox)), st)
          else bumped (cs_sandboxes st @ [sandbox]) st)"

text \<open>The updates look the entry up, change it in place and bump the revision.\<close>

definition update_change ::
  "u64 \<Rightarrow> string \<Rightarrow> (sandbox_config_record \<Rightarrow> sandbox_config_record) \<Rightarrow> config_change" where
  "update_change expected sandbox_id f st =
     (case ensure_expected_revision expected (cs_revision st) of
        Inl err \<Rightarrow> (Inl err, st)
      | Inr _ \<Rightarrow>
          if \<not> list_ex (\<lambda>e. sr_sandbox_id e = sandbox_id) (cs_sandboxes st)
          then (Inl (StoreNotFound sandbox_id), st)
          else bumped (update_first (\<lambda>e. sr_sandbox_id e = sandbox_id) f (cs_sandboxes st)) st)"

definition delete_change :: "u64 \<Rightarrow> string \<Rightarrow> config_change" where
  "delete_change expected sandbox_id st =
     (case ensure_expected_revision expected (cs_revision st) of
        Inl err \<Rightarrow> (Inl err, st)
      | Inr _ \<Rightarrow>
          (let kept = filter (\<lambda>e. sr_sandbox_id e \<noteq> sandbox_id) (cs_sandboxes st) in
           if length kept = length (cs_sandboxes st) then (Inl (StoreNotFound sandbox_id), st)
           else bumped kept st))"

section \<open>The service around the store\<close>

datatype local_weather_event_kind = WeatherUpdated | WeatherDeactivated

record local_weather_event =
  we_sandbox_id :: string
  we_kind :: local_weather_event_kind

record 'n sandbox_system = "'n local_system" +
  sys_configs :: config_store
  sys_started :: "(string, timestamp) hmap"
  sys_weather_events :: "local_weather_event list"

type_synonym 'n sandbox_others = "nat \<Rightarrow> 'n sandbox_system \<Rightarrow> 'n sandbox_system"

definition sandbox_alone :: "'n sandbox_others" where "sandbox_alone = (\<lambda>_ sys. sys)"

text \<open>
  A change of the store: at await \<open>i\<close> it gets the write lock, makes the change, releases the lock
  and at await \<open>Suc i\<close> gets the read lock, which it holds while it writes the file.
\<close>

definition store_op ::
  "store_io \<Rightarrow> write_outcome \<Rightarrow> 'n sandbox_others \<Rightarrow> nat \<Rightarrow> config_change \<Rightarrow> 'n sandbox_system
    \<Rightarrow> (store_error, u64) result \<times> 'n sandbox_system" where
  "store_op io out other i change sys =
     (let sys1 = other i sys in
      case change (st_state (sys_configs sys1)) of
        (Inl err, _) \<Rightarrow> (Inl err, sys1)
      | (Inr v, st) \<Rightarrow>
          (let sys2 = other (Suc i) (sys1\<lparr>sys_configs := (sys_configs sys1)\<lparr>st_state := st\<rparr>\<rparr>) in
           case persist io out (sys_configs sys2) of
             (Inl err, cfg) \<Rightarrow> (Inl err, sys2\<lparr>sys_configs := cfg\<rparr>)
           | (Inr _, cfg) \<Rightarrow> (Inr v, sys2\<lparr>sys_configs := cfg\<rparr>)))"

definition get_snapshot :: "'n sandbox_system \<Rightarrow> config_state" where
  "get_snapshot sys = st_state (sys_configs sys)"

type_synonym 'n store_call =
  "'n sandbox_others \<Rightarrow> nat \<Rightarrow> 'n sandbox_system \<Rightarrow> (store_error, u64) result \<times> 'n sandbox_system"

definition create_config ::
  "features \<Rightarrow> store_io \<Rightarrow> write_outcome \<Rightarrow> u64 \<Rightarrow> sandbox_config_record \<Rightarrow> 'n store_call" where
  "create_config fs io out expected sandbox other i sys =
     (case validate_local_sandbox_config_input fs (sr_config sandbox) of
        Inl err \<Rightarrow> (Inl err, sys)
      | Inr _ \<Rightarrow> store_op io out other i (create_change expected sandbox) sys)"

definition update_config ::
  "features \<Rightarrow> store_io \<Rightarrow> write_outcome \<Rightarrow> u64 \<Rightarrow> sandbox_config_record \<Rightarrow> 'n store_call" where
  "update_config fs io out expected sandbox other i sys =
     (case validate_local_sandbox_config_input fs (sr_config sandbox) of
        Inl err \<Rightarrow> (Inl err, sys)
      | Inr _ \<Rightarrow> store_op io out other i (update_change expected (sr_sandbox_id sandbox) (\<lambda>_. sandbox)) sys)"

definition delete_config :: "store_io \<Rightarrow> write_outcome \<Rightarrow> u64 \<Rightarrow> string \<Rightarrow> 'n store_call" where
  "delete_config io out expected sandbox_id other i sys =
     store_op io out other i (delete_change expected sandbox_id) sys"

definition update_time_of_day ::
  "store_io \<Rightarrow> write_outcome \<Rightarrow> u64 \<Rightarrow> string \<Rightarrow> time_of_day_settings_record \<Rightarrow> 'n store_call" where
  "update_time_of_day io out expected sandbox_id time_of_day other i sys =
     store_op io out other i (update_change expected sandbox_id
       (\<lambda>e. e\<lparr>sr_config := (sr_config e)\<lparr>si_time_of_day := time_of_day\<rparr>\<rparr>)) sys"

definition update_weather ::
  "store_io \<Rightarrow> write_outcome \<Rightarrow> u64 \<Rightarrow> string \<Rightarrow> weather_settings_record \<Rightarrow> 'n store_call" where
  "update_weather io out expected sandbox_id weather other i sys =
     (case validate_local_weather_settings weather of
        Inl err \<Rightarrow> (Inl err, sys)
      | Inr _ \<Rightarrow> store_op io out other i (update_change expected sandbox_id
          (\<lambda>e. e\<lparr>sr_config := (sr_config e)\<lparr>si_weather := weather\<rparr>\<rparr>)) sys)"

definition update_spawn_mode ::
  "store_io \<Rightarrow> write_outcome \<Rightarrow> u64 \<Rightarrow> string \<Rightarrow> spawn_mode \<Rightarrow> 'n store_call" where
  "update_spawn_mode io out expected sandbox_id spawn_mode other i sys =
     store_op io out other i (update_change expected sandbox_id
       (\<lambda>e. e\<lparr>sr_config := (sr_config e)\<lparr>si_spawn_mode := spawn_mode\<rparr>\<rparr>)) sys"

end
