(* ===== verification/Local_Sandbox_Admin.thy ===== *)
theory Local_Sandbox_Admin
  imports Local_Sandbox_Store
begin

text \<open>
  The requests of the local sandbox administration: game-server/src/services/
  local_sandbox_admin.rs with its helpers.rs and mappers.rs, and the event hub of
  services/weather/local_events.rs (its events in the order they were published). The lifecycle
  tick of the same service is in \<open>Local_Race_Admin\<close>.

  Parameters: \<open>sync\<close> is the synchronisation of map assets, absent when it is not configured, with
  the answer of its network request; \<open>uuid5\<close> is the identifier library; \<open>now\<close> the clock readings
  (seconds and nanoseconds since the epoch).
\<close>

section \<open>Helpers\<close>

definition utc_now_timestamp :: "u64 \<times> u32 \<Rightarrow> timestamp" where
  "utc_now_timestamp now = \<lparr>ts_seconds = sint (fst now), ts_nanos = sint (snd now)\<rparr>"

definition local_sandbox_id_v5 ::
  "sandbox_codes \<Rightarrow> (string \<Rightarrow> string) \<Rightarrow> nat \<Rightarrow> sandbox_config_input_record \<Rightarrow> u64 \<Rightarrow> string" where
  "local_sandbox_id_v5 sc uuid5 ts_ns config expected_revision =
     uuid5 (''expected_revision='' @ dec_nat (unat expected_revision) @
            '';sandbox_name='' @ si_sandbox_name config @
            '';map_id='' @ si_map_id config @
            '';mode='' @ dec_int (pc_mode_code sc (mode_to_proto (tr_mode (si_time_of_day config)))) @
            '';spawn_mode='' @ dec_int (sc_spawn_code sc (spawn_mode_to_proto (si_spawn_mode config))) @
            '';ts_ns='' @ dec_nat ts_ns)"

fun store_error_code :: "store_error \<Rightarrow> status_code" where
  "store_error_code (StoreRevisionMismatch _ _) = CodeFailedPrecondition"
| "store_error_code (StoreAlreadyExists _) = CodeAlreadyExists"
| "store_error_code (StoreNotFound _) = CodeNotFound"
| "store_error_code (StoreInvalidConfig _) = CodeInvalidArgument"
| "store_error_code (StoreIo _) = CodeInternal"
| "store_error_code (StoreSerde _) = CodeInternal"

definition map_store_err :: "store_error \<Rightarrow> status" where
  "map_store_err err = Status (store_error_code err) (store_error_text err)"

definition find_local_sandbox_by_id :: "sandbox_config_record list \<Rightarrow> string \<Rightarrow> sandbox_config_record option" where
  "find_local_sandbox_by_id sandboxes sandbox_id = find (\<lambda>e. sr_sandbox_id e = sandbox_id) sandboxes"

section \<open>Conversions\<close>

fun local_time_of_day_mode_from_proto :: "time_of_day_mode \<Rightarrow> (status, time_of_day_mode_record) result" where
  "local_time_of_day_mode_from_proto ModeFixedPreset = Inr RecFixedPreset"
| "local_time_of_day_mode_from_proto ModeAutoByLocalTime = Inr RecAutoByLocalTime"
| "local_time_of_day_mode_from_proto ModeUnspecified = invalid_argument ''time_of_day.mode must be specified''"

fun local_time_of_day_mode_to_proto :: "time_of_day_mode_record \<Rightarrow> time_of_day_mode" where
  "local_time_of_day_mode_to_proto RecFixedPreset = ModeFixedPreset"
| "local_time_of_day_mode_to_proto RecAutoByLocalTime = ModeAutoByLocalTime"

fun runtime_time_of_day_preset_record_from_proto ::
  "proto_time_of_day \<Rightarrow> (status, time_of_day_preset_record) result" where
  "runtime_time_of_day_preset_record_from_proto ProtoMorning = Inr RecMorning"
| "runtime_time_of_day_preset_record_from_proto ProtoNoon = Inr RecNoon"
| "runtime_time_of_day_preset_record_from_proto ProtoEvening = Inr RecEvening"
| "runtime_time_of_day_preset_record_from_proto ProtoNight = Inr RecNight"
| "runtime_time_of_day_preset_record_from_proto ProtoUnspecified =
     invalid_argument ''time_of_day.fixed_preset must be specified''"

fun runtime_time_of_day_preset_record_to_proto :: "time_of_day_preset_record \<Rightarrow> proto_time_of_day" where
  "runtime_time_of_day_preset_record_to_proto RecMorning = ProtoMorning"
| "runtime_time_of_day_preset_record_to_proto RecNoon = ProtoNoon"
| "runtime_time_of_day_preset_record_to_proto RecEvening = ProtoEvening"
| "runtime_time_of_day_preset_record_to_proto RecNight = ProtoNight"

fun runtime_time_of_day_preset_record_to_engine :: "time_of_day_preset_record \<Rightarrow> time_of_day" where
  "runtime_time_of_day_preset_record_to_engine RecMorning = TodMorning"
| "runtime_time_of_day_preset_record_to_engine RecNoon = TodNoon"
| "runtime_time_of_day_preset_record_to_engine RecEvening = TodEvening"
| "runtime_time_of_day_preset_record_to_engine RecNight = TodNight"

definition resolve_runtime_time_of_day_preset :: "time_of_day_settings_record \<Rightarrow> time_of_day" where
  "resolve_runtime_time_of_day_preset t = runtime_time_of_day_preset_record_to_engine (tr_fixed_preset t)"

fun sandbox_time_of_day_preset_to_proto :: "time_of_day \<Rightarrow> proto_time_of_day" where
  "sandbox_time_of_day_preset_to_proto TodUnspecified = ProtoUnspecified"
| "sandbox_time_of_day_preset_to_proto TodMorning = ProtoMorning"
| "sandbox_time_of_day_preset_to_proto TodNoon = ProtoNoon"
| "sandbox_time_of_day_preset_to_proto TodEvening = ProtoEvening"
| "sandbox_time_of_day_preset_to_proto TodNight = ProtoNight"

fun weather_type_record_from_proto :: "weather_type \<Rightarrow> (status, weather_type_record) result" where
  "weather_type_record_from_proto Clear = Inr RecClear"
| "weather_type_record_from_proto PartlyCloudy = Inr RecPartlyCloudy"
| "weather_type_record_from_proto Overcast = Inr RecOvercast"
| "weather_type_record_from_proto LightRain = Inr RecLightRain"
| "weather_type_record_from_proto MediumRain = Inr RecMediumRain"
| "weather_type_record_from_proto HeavyRain = Inr RecHeavyRain"
| "weather_type_record_from_proto WeatherUnspecified = invalid_argument ''weather.weather_type must be specified''"

fun weather_type_record_to_proto :: "weather_type_record \<Rightarrow> weather_type" where
  "weather_type_record_to_proto RecClear = Clear"
| "weather_type_record_to_proto RecPartlyCloudy = PartlyCloudy"
| "weather_type_record_to_proto RecOvercast = Overcast"
| "weather_type_record_to_proto RecLightRain = LightRain"
| "weather_type_record_to_proto RecMediumRain = MediumRain"
| "weather_type_record_to_proto RecHeavyRain = HeavyRain"

fun weather_type_record_to_runtime :: "weather_type_record \<Rightarrow> runtime_weather_type" where
  "weather_type_record_to_runtime RecClear = RtClear"
| "weather_type_record_to_runtime RecPartlyCloudy = RtPartlyCloudy"
| "weather_type_record_to_runtime RecOvercast = RtOvercast"
| "weather_type_record_to_runtime RecLightRain = RtLightRain"
| "weather_type_record_to_runtime RecMediumRain = RtMediumRain"
| "weather_type_record_to_runtime RecHeavyRain = RtHeavyRain"

fun local_spawn_mode_from_proto :: "proto_spawn_mode \<Rightarrow> (status, spawn_mode) result" where
  "local_spawn_mode_from_proto ProtoStartLine = Inr StartLine"
| "local_spawn_mode_from_proto ProtoRandomOnTrack = Inr RandomOnTrack"
| "local_spawn_mode_from_proto ProtoInPit = Inr SpawnInPit"
| "local_spawn_mode_from_proto ProtoRandomStartSlot = Inr RandomStartSlot"
| "local_spawn_mode_from_proto ProtoSpawnUnspecified = invalid_argument ''spawn_mode must be specified''"

fun local_spawn_mode_to_proto :: "spawn_mode \<Rightarrow> proto_spawn_mode" where
  "local_spawn_mode_to_proto StartLine = ProtoStartLine"
| "local_spawn_mode_to_proto RandomOnTrack = ProtoRandomOnTrack"
| "local_spawn_mode_to_proto SpawnInPit = ProtoInPit"
| "local_spawn_mode_to_proto RandomStartSlot = ProtoRandomStartSlot"

definition local_time_of_day_from_proto ::
  "sandbox_codes \<Rightarrow> local_time_of_day_settings \<Rightarrow> (status, time_of_day_settings_record) result" where
  "local_time_of_day_from_proto sc p =
     (case pc_mode sc (lt_mode p) of
        None \<Rightarrow> invalid_argument ''invalid time_of_day.mode''
      | Some m \<Rightarrow>
          (case local_time_of_day_mode_from_proto m of
             Inl err \<Rightarrow> Inl err
           | Inr mode \<Rightarrow>
               (case pc_preset sc (lt_fixed_preset p) of
                  None \<Rightarrow> invalid_argument ''invalid time_of_day.fixed_preset''
                | Some preset_proto \<Rightarrow>
                    (case (mode, preset_proto) of
                       (RecFixedPreset, ProtoUnspecified) \<Rightarrow>
                         invalid_argument ''time_of_day.fixed_preset must be specified for fixed mode''
                     | (_, ProtoUnspecified) \<Rightarrow> Inr \<lparr>tr_mode = mode, tr_fixed_preset = RecNoon\<rparr>
                     | (_, v) \<Rightarrow>
                         (case runtime_time_of_day_preset_record_from_proto v of
                            Inl err \<Rightarrow> Inl err
                          | Inr preset \<Rightarrow> Inr \<lparr>tr_mode = mode, tr_fixed_preset = preset\<rparr>)))))"

definition local_time_of_day_to_proto :: "sandbox_codes \<Rightarrow> time_of_day_settings_record \<Rightarrow> local_time_of_day_settings" where
  "local_time_of_day_to_proto sc r =
     \<lparr>lt_mode = pc_mode_code sc (local_time_of_day_mode_to_proto (tr_mode r)),
      lt_fixed_preset = pc_preset_code sc (runtime_time_of_day_preset_record_to_proto (tr_fixed_preset r))\<rparr>"

definition local_weather_from_proto ::
  "sandbox_codes \<Rightarrow> local_weather_settings \<Rightarrow> (status, weather_settings_record) result" where
  "local_weather_from_proto sc p =
     (case sc_weather sc (lw_weather_type p) of
        None \<Rightarrow> invalid_argument ''invalid weather.weather_type''
      | Some w \<Rightarrow>
          (case weather_type_record_from_proto w of
             Inl err \<Rightarrow> Inl err
           | Inr wt \<Rightarrow> Inr \<lparr>wr_weather_type = wt, wr_temperature_c = lw_temperature_c p\<rparr>))"

definition local_weather_to_proto :: "sandbox_codes \<Rightarrow> weather_settings_record \<Rightarrow> local_weather_settings" where
  "local_weather_to_proto sc r =
     \<lparr>lw_weather_type = sc_weather_code sc (weather_type_record_to_proto (wr_weather_type r)),
      lw_temperature_c = wr_temperature_c r\<rparr>"

definition local_spawn_mode_from_proto_value :: "sandbox_codes \<Rightarrow> i32 \<Rightarrow> (status, spawn_mode) result" where
  "local_spawn_mode_from_proto_value sc v =
     (case sc_spawn sc v of
        None \<Rightarrow> invalid_argument ''invalid spawn_mode''
      | Some m \<Rightarrow> local_spawn_mode_from_proto m)"

definition weather_params_from_local :: "weather_settings_record \<Rightarrow> weather_params" where
  "weather_params_from_local w =
     (let params = engine_params_for_weather_type (weather_type_record_to_proto (wr_weather_type w)) in
      \<lparr>wp_cloudiness = cloudiness params, wp_temperature_c = fp_of_int binary32 (wr_temperature_c w),
       wp_rain_intensity = rain_intensity params\<rparr>)"

definition runtime_weather_now_from_local :: "weather_settings_record \<Rightarrow> runtime_weather_now" where
  "runtime_weather_now_from_local w =
     \<lparr>rw_weather_type = weather_type_record_to_runtime (wr_weather_type w), rw_temperature_c = wr_temperature_c w\<rparr>"

definition engine_ghost_mode_settings_from_local_record :: "ghost_mode_record option \<Rightarrow> ghost_mode_settings" where
  "engine_ghost_mode_settings_from_local_record r =
     (case r of
        None \<Rightarrow>
          \<lparr>ghost_enabled = False, enter_speed_max_mps = Fin 0, exit_speed_min_mps = Fin 0, enter_delay_ms = 0,
           exit_delay_ms = 0, until_completed_laps = 0, vehicle_overlap_exit_delay_ms = 0\<rparr>
      | Some g \<Rightarrow>
          \<lparr>ghost_enabled = gr_enabled g, enter_speed_max_mps = gr_enter_speed_max_mps g,
           exit_speed_min_mps = gr_exit_speed_min_mps g, enter_delay_ms = gr_enter_delay_ms g,
           exit_delay_ms = gr_exit_delay_ms g, until_completed_laps = gr_until_completed_laps g,
           vehicle_overlap_exit_delay_ms = gr_vehicle_overlap_exit_delay_ms g\<rparr>)"

definition local_ghost_mode_to_proto :: "ghost_mode_record \<Rightarrow> ghost_mode_settings" where
  "local_ghost_mode_to_proto g =
     \<lparr>ghost_enabled = gr_enabled g, enter_speed_max_mps = gr_enter_speed_max_mps g,
      exit_speed_min_mps = gr_exit_speed_min_mps g, enter_delay_ms = gr_enter_delay_ms g,
      exit_delay_ms = gr_exit_delay_ms g, until_completed_laps = gr_until_completed_laps g,
      vehicle_overlap_exit_delay_ms = gr_vehicle_overlap_exit_delay_ms g\<rparr>"

section \<open>Steps of the requests\<close>

text \<open>The parameters of the service, those of its constructor and its environment.\<close>

record 'n sandbox_service =
  sv_env :: "'n worker_env"
  sv_io :: store_io
  sv_codes :: sandbox_codes
  sv_uuid5 :: "string \<Rightarrow> string"
  sv_max_active_sandboxes :: u32
  sv_sync :: "(string \<Rightarrow> (status, unit) result) option"

definition ensure_map_ready :: "'n sandbox_service \<Rightarrow> string \<Rightarrow> (status, unit) result" where
  "ensure_map_ready sv map_id = (case sv_sync sv of None \<Rightarrow> Inr () | Some cached \<Rightarrow> cached map_id)"

definition sandbox_listed :: "runtime_state \<Rightarrow> string \<Rightarrow> bool" where
  "sandbox_listed rt sandbox_id = list_ex (\<lambda>e. sb_sandbox_id e = sandbox_id) (rt_active_sandboxes rt)"

definition require_sandbox_not_active ::
  "'n sandbox_service \<Rightarrow> string \<Rightarrow> 'n sandbox_system \<Rightarrow> (status, unit) result \<times> 'n sandbox_system" where
  "require_sandbox_not_active sv sandbox_id sys =
     (case client_runtime_state (sv_env sv) sys of
        (Inl err, sys1) \<Rightarrow> (Inl (map_worker_err err), sys1)
      | (Inr runtime, sys1) \<Rightarrow>
          if sandbox_listed runtime sandbox_id
          then (Inl (Status CodeFailedPrecondition ''active sandbox cannot be modified''), sys1)
          else (Inr (), sys1))"

definition apply_time_of_day_if_active ::
  "'n sandbox_service \<Rightarrow> 'n sandbox_others \<Rightarrow> nat \<Rightarrow> string \<Rightarrow> time_of_day_settings_record
    \<Rightarrow> 'n sandbox_system \<Rightarrow> 'n sandbox_system" where
  "apply_time_of_day_if_active sv other i sandbox_id time_of_day sys =
     (case client_runtime_state (sv_env sv) (other i sys) of
        (Inl _, sys1) \<Rightarrow> sys1
      | (Inr runtime_before, sys1) \<Rightarrow>
          if \<not> sandbox_listed runtime_before sandbox_id then sys1
          else snd (client_set_runtime_time_of_day (sv_env sv) (rt_revision runtime_before) (Some sandbox_id)
                      (resolve_runtime_time_of_day_preset time_of_day) (other (Suc i) sys1)))"

definition apply_weather_if_active ::
  "'n sandbox_service \<Rightarrow> 'n sandbox_others \<Rightarrow> nat \<Rightarrow> string \<Rightarrow> weather_settings_record
    \<Rightarrow> 'n sandbox_system \<Rightarrow> bool \<times> 'n sandbox_system" where
  "apply_weather_if_active sv other i sandbox_id weather sys =
     (case client_runtime_state (sv_env sv) (other i sys) of
        (Inl _, sys1) \<Rightarrow> (False, sys1)
      | (Inr runtime_before, sys1) \<Rightarrow>
          if \<not> sandbox_listed runtime_before sandbox_id then (False, sys1)
          else (case client_set_sandbox_weather (sv_env sv) sandbox_id (weather_params_from_local weather)
                       (runtime_weather_now_from_local weather) (other (Suc i) sys1) of
                  (Inl _, sys2) \<Rightarrow> (False, sys2)
                | (Inr _, sys2) \<Rightarrow> (True, sys2)))"

definition publish_weather :: "local_weather_event_kind \<Rightarrow> string \<Rightarrow> 'n sandbox_system \<Rightarrow> 'n sandbox_system" where
  "publish_weather kind sandbox_id sys =
     sys\<lparr>sys_weather_events := sys_weather_events sys @ [\<lparr>we_sandbox_id = sandbox_id, we_kind = kind\<rparr>]\<rparr>"

definition publish_weather_updated :: "string \<Rightarrow> 'n sandbox_system \<Rightarrow> 'n sandbox_system" where
  "publish_weather_updated = publish_weather WeatherUpdated"

definition publish_weather_deactivated :: "string \<Rightarrow> 'n sandbox_system \<Rightarrow> 'n sandbox_system" where
  "publish_weather_deactivated = publish_weather WeatherDeactivated"

section \<open>Requests that change configurations\<close>

definition get_local_sandbox_configs :: "sandbox_codes \<Rightarrow> 'n sandbox_system \<Rightarrow> u64 \<times> sandbox_config list" where
  "get_local_sandbox_configs sc sys =
     (let snapshot = get_snapshot sys
      in (cs_revision snapshot, map (local_sandbox_to_proto sc) (cs_sandboxes snapshot)))"

definition request_config ::
  "'n sandbox_service \<Rightarrow> sandbox_config_input option \<Rightarrow> (status, sandbox_config_input_record) result" where
  "request_config sv config =
     (case config of
        None \<Rightarrow> invalid_argument ''config is required''
      | Some cfg \<Rightarrow>
          (case local_sandbox_input_from_proto (env_features (sv_env sv)) (sv_codes sv) cfg of
             Inl err \<Rightarrow> Inl (map_store_err err)
           | Inr r \<Rightarrow> Inr r))"

definition create_local_sandbox_config ::
  "'n sandbox_service \<Rightarrow> write_outcome \<Rightarrow> nat \<Rightarrow> 'n sandbox_others \<Rightarrow> u64 \<Rightarrow> sandbox_config_input option
    \<Rightarrow> 'n sandbox_system \<Rightarrow> (status, u64 \<times> sandbox_config) result \<times> 'n sandbox_system" where
  "create_local_sandbox_config sv out ts_ns other expected_revision config sys =
     (case request_config sv config of
        Inl err \<Rightarrow> (Inl err, sys)
      | Inr config \<Rightarrow>
          (let sandbox = \<lparr>sr_sandbox_id = local_sandbox_id_v5 (sv_codes sv) (sv_uuid5 sv) ts_ns config expected_revision,
                          sr_config = config\<rparr>;
               sys1 = other 0 sys
           in case ensure_map_ready sv (si_map_id (sr_config sandbox)) of
                Inl err \<Rightarrow> (Inl err, sys1)
              | Inr _ \<Rightarrow>
                  (case create_config (env_features (sv_env sv)) (sv_io sv) out expected_revision sandbox other 1 sys1 of
                     (Inl err, sys2) \<Rightarrow> (Inl (map_store_err err), sys2)
                   | (Inr revision, sys2) \<Rightarrow> (Inr (revision, local_sandbox_to_proto (sv_codes sv) sandbox), sys2))))"

definition update_local_sandbox_config ::
  "'n sandbox_service \<Rightarrow> write_outcome \<Rightarrow> 'n sandbox_others \<Rightarrow> u64 \<Rightarrow> string \<Rightarrow> sandbox_config_input option
    \<Rightarrow> 'n sandbox_system \<Rightarrow> (status, u64 \<times> sandbox_config) result \<times> 'n sandbox_system" where
  "update_local_sandbox_config sv out other expected_revision sandbox_id config sys =
     (if blank sandbox_id then (invalid_argument ''sandbox_id must be non-empty'', sys)
      else case require_sandbox_not_active sv sandbox_id (other 0 sys) of
        (Inl err, sys1) \<Rightarrow> (Inl err, sys1)
      | (Inr _, sys1) \<Rightarrow>
          (case request_config sv config of
             Inl err \<Rightarrow> (Inl err, sys1)
           | Inr config \<Rightarrow>
               (let sandbox = \<lparr>sr_sandbox_id = sandbox_id, sr_config = config\<rparr>; sys2 = other 1 sys1
                in case ensure_map_ready sv (si_map_id (sr_config sandbox)) of
                     Inl err \<Rightarrow> (Inl err, sys2)
                   | Inr _ \<Rightarrow>
                       (case update_config (env_features (sv_env sv)) (sv_io sv) out expected_revision sandbox other 2 sys2 of
                          (Inl err, sys3) \<Rightarrow> (Inl (map_store_err err), sys3)
                        | (Inr revision, sys3) \<Rightarrow>
                            (Inr (revision, local_sandbox_to_proto (sv_codes sv) sandbox), sys3)))))"

definition delete_local_sandbox_config ::
  "'n sandbox_service \<Rightarrow> write_outcome \<Rightarrow> 'n sandbox_others \<Rightarrow> u64 \<Rightarrow> string
    \<Rightarrow> 'n sandbox_system \<Rightarrow> (status, u64 \<times> string) result \<times> 'n sandbox_system" where
  "delete_local_sandbox_config sv out other expected_revision sandbox_id sys =
     (if blank sandbox_id then (invalid_argument ''sandbox_id must be non-empty'', sys)
      else case require_sandbox_not_active sv sandbox_id (other 0 sys) of
        (Inl err, sys1) \<Rightarrow> (Inl err, sys1)
      | (Inr _, sys1) \<Rightarrow>
          (case delete_config (sv_io sv) out expected_revision sandbox_id other 1 sys1 of
             (Inl err, sys2) \<Rightarrow> (Inl (map_store_err err), sys2)
           | (Inr revision, sys2) \<Rightarrow>
               (let sys3 = other 3 sys2
                in (Inr (revision, sandbox_id), sys3\<lparr>sys_started := hm_remove sandbox_id (sys_started sys3)\<rparr>))))"

definition update_local_sandbox_time_of_day ::
  "'n sandbox_service \<Rightarrow> write_outcome \<Rightarrow> 'n sandbox_others \<Rightarrow> u64 \<Rightarrow> string \<Rightarrow> local_time_of_day_settings option
    \<Rightarrow> 'n sandbox_system \<Rightarrow> (status, u64 \<times> string \<times> local_time_of_day_settings) result \<times> 'n sandbox_system" where
  "update_local_sandbox_time_of_day sv out other expected_revision sandbox_id time_of_day sys =
     (if blank sandbox_id then (invalid_argument ''sandbox_id must be non-empty'', sys)
      else case (case time_of_day of
                   None \<Rightarrow> invalid_argument ''time_of_day is required''
                 | Some t \<Rightarrow> local_time_of_day_from_proto (sv_codes sv) t) of
        Inl err \<Rightarrow> (Inl err, sys)
      | Inr t \<Rightarrow>
          (case update_time_of_day (sv_io sv) out expected_revision sandbox_id t other 0 sys of
             (Inl err, sys1) \<Rightarrow> (Inl (map_store_err err), sys1)
           | (Inr revision, sys1) \<Rightarrow>
               (Inr (revision, sandbox_id, local_time_of_day_to_proto (sv_codes sv) t),
                apply_time_of_day_if_active sv other 2 sandbox_id t sys1)))"

definition update_local_sandbox_weather ::
  "'n sandbox_service \<Rightarrow> write_outcome \<Rightarrow> 'n sandbox_others \<Rightarrow> u64 \<Rightarrow> string \<Rightarrow> local_weather_settings option
    \<Rightarrow> 'n sandbox_system \<Rightarrow> (status, u64 \<times> string \<times> local_weather_settings) result \<times> 'n sandbox_system" where
  "update_local_sandbox_weather sv out other expected_revision sandbox_id weather sys =
     (if blank sandbox_id then (invalid_argument ''sandbox_id must be non-empty'', sys)
      else case (case weather of
                   None \<Rightarrow> invalid_argument ''weather is required''
                 | Some w \<Rightarrow> local_weather_from_proto (sv_codes sv) w) of
        Inl err \<Rightarrow> (Inl err, sys)
      | Inr w \<Rightarrow>
          (case update_weather (sv_io sv) out expected_revision sandbox_id w other 0 sys of
             (Inl err, sys1) \<Rightarrow> (Inl (map_store_err err), sys1)
           | (Inr revision, sys1) \<Rightarrow>
               (case apply_weather_if_active sv other 2 sandbox_id w sys1 of
                  (applied, sys2) \<Rightarrow>
                    (Inr (revision, sandbox_id, local_weather_to_proto (sv_codes sv) w),
                     if applied then publish_weather_updated sandbox_id sys2 else sys2))))"

definition update_local_sandbox_spawn_mode ::
  "'n sandbox_service \<Rightarrow> write_outcome \<Rightarrow> 'n sandbox_others \<Rightarrow> u64 \<Rightarrow> string \<Rightarrow> i32
    \<Rightarrow> 'n sandbox_system \<Rightarrow> (status, u64 \<times> string \<times> i32) result \<times> 'n sandbox_system" where
  "update_local_sandbox_spawn_mode sv out other expected_revision sandbox_id spawn_mode sys =
     (if blank sandbox_id then (invalid_argument ''sandbox_id must be non-empty'', sys)
      else case local_spawn_mode_from_proto_value (sv_codes sv) spawn_mode of
        Inl err \<Rightarrow> (Inl err, sys)
      | Inr m \<Rightarrow>
          (case update_spawn_mode (sv_io sv) out expected_revision sandbox_id m other 0 sys of
             (Inl err, sys1) \<Rightarrow> (Inl (map_store_err err), sys1)
           | (Inr revision, sys1) \<Rightarrow>
               (Inr (revision, sandbox_id, sc_spawn_code (sv_codes sv) (local_spawn_mode_to_proto m)), sys1)))"

section \<open>Activation\<close>

record activation_response =
  ar_revision :: u64
  ar_activate :: bool
  ar_sandbox_id :: string

text \<open>The number of active sandboxes is cast to \<open>u32\<close> before it is compared with the limit.\<close>

definition limit_reached :: "'n sandbox_service \<Rightarrow> runtime_state \<Rightarrow> bool" where
  "limit_reached sv rt =
     ((of_nat (length (rt_active_sandboxes rt)) :: u32) \<ge> sv_max_active_sandboxes sv)"

definition activation_limit_text :: "'n sandbox_service \<Rightarrow> string" where
  "activation_limit_text sv =
     ''active sandbox limit reached ('' @ dec_nat (unat (sv_max_active_sandboxes sv)) @ '')''"

definition activate_sandbox_with ::
  "'n sandbox_service \<Rightarrow> (nat \<Rightarrow> u64 \<times> u32) \<Rightarrow> 'n sandbox_others \<Rightarrow> u64 \<Rightarrow> sandbox_config_record
    \<Rightarrow> 'n sandbox_system \<Rightarrow> (status, activation_response) result \<times> 'n sandbox_system" where
  "activate_sandbox_with sv now other expected_revision sandbox sys =
     (let sid = sr_sandbox_id sandbox; config = sr_config sandbox in
      case client_switch_runtime (sv_env sv) expected_revision ActSandbox (si_map_id config) (Some sid)
             (Some (resolve_runtime_time_of_day_preset (si_time_of_day config)))
             (Some (engine_ghost_mode_settings_from_local_record (si_ghost_mode config))) (other 3 sys) of
        (Inl err, sys1) \<Rightarrow> (Inl (map_worker_err err), sys1)
      | (Inr runtime_after, sys1) \<Rightarrow>
          (case client_set_sandbox_weather (sv_env sv) sid (weather_params_from_local (si_weather config))
                  (runtime_weather_now_from_local (si_weather config)) (other 4 sys1) of
             (Inl _, sys2) \<Rightarrow>
               (Inl (Status CodeInternal ''failed to apply local sandbox weather during activation''),
                snd (client_deactivate_sandbox (sv_env sv) (rt_revision runtime_after) sid (other 5 sys2)))
           | (Inr _, sys2) \<Rightarrow>
               (let sys3 = other 6 sys2
                in (Inr \<lparr>ar_revision = rt_revision runtime_after, ar_activate = True, ar_sandbox_id = sid\<rparr>,
                    publish_weather_updated sid
                      (sys3\<lparr>sys_started := hm_insert sid (utc_now_timestamp (now 0)) (sys_started sys3)\<rparr>)))))"

definition set_local_sandbox_activation ::
  "'n sandbox_service \<Rightarrow> (nat \<Rightarrow> u64 \<times> u32) \<Rightarrow> 'n sandbox_others \<Rightarrow> u64 \<Rightarrow> string \<Rightarrow> bool
    \<Rightarrow> 'n sandbox_system \<Rightarrow> (status, activation_response) result \<times> 'n sandbox_system" where
  "set_local_sandbox_activation sv now other expected_revision sandbox_id activate sys =
     (if blank sandbox_id then (invalid_argument ''sandbox_id must be non-empty'', sys)
      else if activate then
        (let sys1 = other 0 sys in
         case find_local_sandbox_by_id (cs_sandboxes (get_snapshot sys1)) sandbox_id of
           None \<Rightarrow> (Inl (Status CodeNotFound (''local sandbox config not found: '' @ sandbox_id)), sys1)
         | Some sandbox \<Rightarrow>
             (let sys2 = other 1 sys1 in
              case ensure_map_ready sv (si_map_id (sr_config sandbox)) of
                Inl err \<Rightarrow> (Inl err, sys2)
              | Inr _ \<Rightarrow>
                  (case client_runtime_state (sv_env sv) (other 2 sys2) of
                     (Inl err, sys3) \<Rightarrow> (Inl (map_worker_err err), sys3)
                   | (Inr runtime_before, sys3) \<Rightarrow>
                       if rt_revision runtime_before \<noteq> expected_revision
                       then (Inl (Status CodeFailedPrecondition
                               (revision_mismatch_text expected_revision (rt_revision runtime_before))), sys3)
                       else if \<not> sandbox_listed runtime_before (sr_sandbox_id sandbox) \<and> limit_reached sv runtime_before
                       then (Inl (Status CodeFailedPrecondition (activation_limit_text sv)), sys3)
                       else activate_sandbox_with sv now other expected_revision sandbox sys3)))
      else
        (case client_deactivate_sandbox (sv_env sv) expected_revision sandbox_id (other 0 sys) of
           (Inl err, sys1) \<Rightarrow> (Inl (map_worker_err err), sys1)
         | (Inr runtime_after, sys1) \<Rightarrow>
             (let sys2 = other 1 sys1
              in (Inr \<lparr>ar_revision = rt_revision runtime_after, ar_activate = False, ar_sandbox_id = sandbox_id\<rparr>,
                  publish_weather_deactivated sandbox_id
                    (sys2\<lparr>sys_started := hm_remove sandbox_id (sys_started sys2)\<rparr>)))))"

section \<open>The runtime state and its stream\<close>

record active_sandbox_info =
  ai_sandbox_id :: string
  ai_sandbox_name :: string
  ai_map_id :: string
  ai_active_time_of_day_preset :: i32
  ai_time_of_day :: "local_time_of_day_settings option"
  ai_ghost_mode :: "ghost_mode_settings option"
  ai_weather :: "local_weather_settings option"
  ai_spawn_mode :: i32
  ai_started_at_utc :: "timestamp option"
  ai_active_player_count :: u32

record local_runtime_state =
  ls_revision :: u64
  ls_server_time_utc :: "timestamp option"
  ls_active_sandboxes :: "active_sandbox_info list"
  ls_active_race :: "local_race_runtime_info option"

definition active_sandbox_info_of ::
  "sandbox_codes \<Rightarrow> (string, timestamp) hmap \<Rightarrow> (string, u32) hmap \<Rightarrow> sandbox_config_record \<Rightarrow> active_sandbox_state
    \<Rightarrow> active_sandbox_info" where
  "active_sandbox_info_of sc started_at counts r active =
     \<lparr>ai_sandbox_id = sr_sandbox_id r, ai_sandbox_name = si_sandbox_name (sr_config r),
      ai_map_id = si_map_id (sr_config r),
      ai_active_time_of_day_preset =
        pc_preset_code sc (sandbox_time_of_day_preset_to_proto (sb_time_of_day_preset active)),
      ai_time_of_day = Some (local_time_of_day_to_proto sc (si_time_of_day (sr_config r))),
      ai_ghost_mode = map_option local_ghost_mode_to_proto (si_ghost_mode (sr_config r)),
      ai_weather = Some (local_weather_to_proto sc (si_weather (sr_config r))),
      ai_spawn_mode = sc_spawn_code sc (local_spawn_mode_to_proto (si_spawn_mode (sr_config r))),
      ai_started_at_utc = hm_get started_at (sr_sandbox_id r),
      ai_active_player_count = (case hm_get counts (sr_sandbox_id r) of None \<Rightarrow> 0 | Some n \<Rightarrow> n)\<rparr>"

definition build_runtime_state ::
  "'n sandbox_service \<Rightarrow> (nat \<Rightarrow> u64 \<times> u32) \<Rightarrow> u64 \<Rightarrow> 'n sandbox_others \<Rightarrow> 'n sandbox_system
    \<Rightarrow> (status, local_runtime_state) result \<times> 'n sandbox_system" where
  "build_runtime_state sv now now_ms other sys =
     (case client_runtime_state (sv_env sv) (other 0 sys) of
        (Inl err, sys1) \<Rightarrow> (Inl (map_worker_err err), sys1)
      | (Inr runtime, sys1) \<Rightarrow>
          (let sys2 = other 1 sys1; snapshot = get_snapshot sys2;
               sys3 = other 2 sys2; started_at = sys_started sys3;
               counts = active_car_counts_by_sandbox (sys_store sys3);
               race_counts = active_car_counts_by_local_race (sys_store sys3);
               infos = List.map_filter (\<lambda>active.
                         map_option (\<lambda>r. active_sandbox_info_of (sv_codes sv) started_at counts r active)
                           (find_local_sandbox_by_id (cs_sandboxes snapshot) (sb_sandbox_id active)))
                         (rt_active_sandboxes runtime);
               sys4 = other 3 sys3;
               race = map_option (\<lambda>race. race\<lparr>ri_joined_participant_count :=
                          (case hm_get race_counts (ri_race_id race) of
                             None \<Rightarrow> ri_joined_participant_count race | Some n \<Rightarrow> n)\<rparr>)
                        (active_race now_ms (sys_race sys4))
           in (Inr \<lparr>ls_revision = rt_revision runtime, ls_server_time_utc = Some (utc_now_timestamp (now 0)),
                    ls_active_sandboxes = infos, ls_active_race = race\<rparr>, sys4)))"

definition get_local_runtime_state ::
  "'n sandbox_service \<Rightarrow> (nat \<Rightarrow> u64 \<times> u32) \<Rightarrow> u64 \<Rightarrow> 'n sandbox_others \<Rightarrow> 'n sandbox_system
    \<Rightarrow> (status, local_runtime_state option) result \<times> 'n sandbox_system" where
  "get_local_runtime_state sv now now_ms other sys =
     (case build_runtime_state sv now now_ms other sys of
        (Inl err, sys1) \<Rightarrow> (Inl err, sys1)
      | (Inr state, sys1) \<Rightarrow> (Inr (Some state), sys1))"

text \<open>
  The stream: what a turn of the poll sees (whether the receiver has closed the channel, the state
  that was built, whether the send is taken), the state sent last, and the messages sent.
\<close>

record runtime_poll =
  tn_closed :: bool
  tn_built :: "(status, local_runtime_state) result"
  tn_sent :: bool

definition comparable_state :: "local_runtime_state \<Rightarrow> local_runtime_state" where
  "comparable_state state = state\<lparr>ls_server_time_utc := None\<rparr>"

fun stream_local_runtime_state ::
  "local_runtime_state option \<Rightarrow> runtime_poll list \<Rightarrow> (status, local_runtime_state) result list" where
  "stream_local_runtime_state last_state [] = []"
| "stream_local_runtime_state last_state (t # turns) =
     (if tn_closed t then []
      else case tn_built t of
        Inl status \<Rightarrow> (if tn_sent t then [Inl status] else [])
      | Inr state \<Rightarrow>
          if last_state = Some (comparable_state state) then stream_local_runtime_state last_state turns
          else if \<not> tn_sent t then []
          else Inr state # stream_local_runtime_state (Some (comparable_state state)) turns)"

end
