(* ===== verification/Local_Sandbox_Contract.thy ===== *)
theory Local_Sandbox_Contract
  imports Local_Sandbox_Admin Engine_Worker_Contract
begin

text \<open>
  The contract of the local sandbox administration. The store behaves as a finite map from
  identifiers to checked configurations behind a revision; what the protocol carries is read
  back unchanged; activating a sandbox shows its configuration in the worker or leaves the
  active sandboxes as they were.
\<close>

section \<open>The store as a map\<close>

definition config_valid :: "features \<Rightarrow> sandbox_config_input_record \<Rightarrow> bool" where
  "config_valid fs c \<longleftrightarrow> validate_local_sandbox_config_input fs c = Inr ()"

definition ids_distinct :: "config_state \<Rightarrow> bool" where
  "ids_distinct st \<longleftrightarrow> distinct (map sr_sandbox_id (cs_sandboxes st))"

definition store_wf :: "features \<Rightarrow> config_state \<Rightarrow> bool" where
  "store_wf fs st \<longleftrightarrow> ids_distinct st \<and> (\<forall>e \<in> set (cs_sandboxes st). config_valid fs (sr_config e))"

definition entry_pair :: "sandbox_config_record \<Rightarrow> string \<times> sandbox_config_input_record" where
  "entry_pair e = (sr_sandbox_id e, sr_config e)"

definition config_map :: "config_state \<Rightarrow> string \<rightharpoonup> sandbox_config_input_record" where
  "config_map st = map_of (map entry_pair (cs_sandboxes st))"

datatype config_op =
    OpCreate string sandbox_config_input_record
  | OpReplace string sandbox_config_input_record
  | OpDelete string
  | OpTimeOfDay string time_of_day_settings_record
  | OpWeather string weather_settings_record
  | OpSpawnMode string spawn_mode

text \<open>What the operations promise, on the map.\<close>

definition map_update_spec ::
  "string \<Rightarrow> (sandbox_config_input_record \<Rightarrow> sandbox_config_input_record) \<Rightarrow> (string \<rightharpoonup> sandbox_config_input_record)
    \<Rightarrow> (store_error, string \<rightharpoonup> sandbox_config_input_record) result" where
  "map_update_spec k f m = (case m k of None \<Rightarrow> Inl (StoreNotFound k) | Some c \<Rightarrow> Inr (m(k \<mapsto> f c)))"

fun op_spec ::
  "config_op \<Rightarrow> (string \<rightharpoonup> sandbox_config_input_record)
    \<Rightarrow> (store_error, string \<rightharpoonup> sandbox_config_input_record) result" where
  "op_spec (OpCreate k c) m = (case m k of None \<Rightarrow> Inr (m(k \<mapsto> c)) | Some _ \<Rightarrow> Inl (StoreAlreadyExists k))"
| "op_spec (OpReplace k c) m = map_update_spec k (\<lambda>_. c) m"
| "op_spec (OpDelete k) m = (case m k of None \<Rightarrow> Inl (StoreNotFound k) | Some _ \<Rightarrow> Inr (m(k := None)))"
| "op_spec (OpTimeOfDay k t) m = map_update_spec k (si_time_of_day_update (\<lambda>_. t)) m"
| "op_spec (OpWeather k w) m = map_update_spec k (si_weather_update (\<lambda>_. w)) m"
| "op_spec (OpSpawnMode k s) m = map_update_spec k (si_spawn_mode_update (\<lambda>_. s)) m"

fun op_check :: "features \<Rightarrow> config_op \<Rightarrow> (store_error, unit) result" where
  "op_check fs (OpCreate k c) = validate_local_sandbox_config_input fs c"
| "op_check fs (OpReplace k c) = validate_local_sandbox_config_input fs c"
| "op_check fs (OpWeather k w) = validate_local_weather_settings w"
| "op_check fs _ = Inr ()"

text \<open>The same operations as the store makes them.\<close>

fun op_change :: "config_op \<Rightarrow> u64 \<Rightarrow> config_change" where
  "op_change (OpCreate k c) e = create_change e \<lparr>sr_sandbox_id = k, sr_config = c\<rparr>"
| "op_change (OpReplace k c) e = update_change e k (\<lambda>_. \<lparr>sr_sandbox_id = k, sr_config = c\<rparr>)"
| "op_change (OpDelete k) e = delete_change e k"
| "op_change (OpTimeOfDay k t) e = update_change e k (\<lambda>r. r\<lparr>sr_config := (sr_config r)\<lparr>si_time_of_day := t\<rparr>\<rparr>)"
| "op_change (OpWeather k w) e = update_change e k (\<lambda>r. r\<lparr>sr_config := (sr_config r)\<lparr>si_weather := w\<rparr>\<rparr>)"
| "op_change (OpSpawnMode k s) e = update_change e k (\<lambda>r. r\<lparr>sr_config := (sr_config r)\<lparr>si_spawn_mode := s\<rparr>\<rparr>)"

fun store_request :: "features \<Rightarrow> store_io \<Rightarrow> write_outcome \<Rightarrow> config_op \<Rightarrow> u64 \<Rightarrow> 'n store_call" where
  "store_request fs io out (OpCreate k c) e = create_config fs io out e \<lparr>sr_sandbox_id = k, sr_config = c\<rparr>"
| "store_request fs io out (OpReplace k c) e = update_config fs io out e \<lparr>sr_sandbox_id = k, sr_config = c\<rparr>"
| "store_request fs io out (OpDelete k) e = delete_config io out e k"
| "store_request fs io out (OpTimeOfDay k t) e = update_time_of_day io out e k t"
| "store_request fs io out (OpWeather k w) e = update_weather io out e k w"
| "store_request fs io out (OpSpawnMode k s) e = update_spawn_mode io out e k s"

lemmas store_request_defs = create_config_def update_config_def delete_config_def update_time_of_day_def
  update_weather_def update_spawn_mode_def

lemma store_request_eq:
  "store_request fs io out op e other i sys =
     (case op_check fs op of
        Inl err \<Rightarrow> (Inl err, sys)
      | Inr _ \<Rightarrow> store_op io out other i (op_change op e) sys)"
  by (cases op) (simp_all add: store_request_defs split: sum.split)

lemma config_map_None: "config_map st k = None \<longleftrightarrow> \<not> list_ex (\<lambda>e. sr_sandbox_id e = k) (cs_sandboxes st)"
  by (auto simp: config_map_def map_of_eq_None_iff list_ex_iff entry_pair_def image_iff)

lemma map_of_append_new:
  "\<not> list_ex (\<lambda>e. sr_sandbox_id e = sr_sandbox_id r) xs \<Longrightarrow>
   map_of (map entry_pair (xs @ [r])) = (map_of (map entry_pair xs))(sr_sandbox_id r \<mapsto> sr_config r)"
  by (induction xs) (auto simp: entry_pair_def fun_eq_iff)

lemma map_of_update_first:
  assumes "list_ex (\<lambda>e. sr_sandbox_id e = k) xs"
    and "\<And>e. sr_sandbox_id e = k \<Longrightarrow> sr_sandbox_id (f e) = k \<and> sr_config (f e) = g (sr_config e)"
  shows "map_of (map entry_pair (update_first (\<lambda>e. sr_sandbox_id e = k) f xs)) =
         (map_of (map entry_pair xs))(k \<mapsto> g (the (map_of (map entry_pair xs) k)))"
  using assms by (induction xs) (auto simp: entry_pair_def fun_eq_iff)

lemma map_of_filter_id:
  "distinct (map sr_sandbox_id xs) \<Longrightarrow>
   map_of (map entry_pair (filter (\<lambda>e. sr_sandbox_id e \<noteq> k) xs)) = (map_of (map entry_pair xs))(k := None)"
  by (induction xs) (auto simp: entry_pair_def fun_eq_iff)

lemma length_filter_id:
  "length (filter (\<lambda>e. sr_sandbox_id e \<noteq> k) xs) = length xs \<longleftrightarrow> \<not> list_ex (\<lambda>e. sr_sandbox_id e = k) xs"
  by (metis (mono_tags, lifting) filter_True length_filter_less list_ex_iff nless_le)

lemma distinct_map_filter_id: "distinct (map f xs) \<Longrightarrow> distinct (map f (filter P xs))"
  by (simp add: distinct_map_filter)

lemma update_first_ids:
  "(\<And>e. sr_sandbox_id e = k \<Longrightarrow> sr_sandbox_id (f e) = k) \<Longrightarrow>
   map sr_sandbox_id (update_first (\<lambda>e. sr_sandbox_id e = k) f xs) = map sr_sandbox_id xs"
  by (rule map_update_first) simp

text \<open>The contract of a change under the lock, for any operation.\<close>

definition meets_spec :: "u64 \<Rightarrow> config_state \<Rightarrow>
    (store_error, string \<rightharpoonup> sandbox_config_input_record) result \<Rightarrow> (store_error, u64) result \<times> config_state \<Rightarrow> bool" where
  "meets_spec e st spec res \<longleftrightarrow>
     (if e \<noteq> cs_revision st then res = (Inl (StoreRevisionMismatch e (cs_revision st)), st)
      else case spec of
        Inl err \<Rightarrow> res = (Inl err, st)
      | Inr m \<Rightarrow> fst res = Inr (sat_add e 1) \<and> cs_revision (snd res) = sat_add e 1
                 \<and> config_map (snd res) = m \<and> ids_distinct (snd res))"

lemma update_change_meets:
  assumes "ids_distinct st"
    and f: "\<And>r. sr_sandbox_id r = k \<Longrightarrow> sr_sandbox_id (f r) = k \<and> sr_config (f r) = g (sr_config r)"
  shows "meets_spec e st (map_update_spec k g (config_map st)) (update_change e k f st)"
proof (cases "config_map st k")
  case None
  then have "\<not> list_ex (\<lambda>e. sr_sandbox_id e = k) (cs_sandboxes st)" by (simp add: config_map_None)
  with None show ?thesis
    by (simp add: meets_spec_def map_update_spec_def update_change_def ensure_expected_revision_def)
next
  case (Some c)
  then have ex: "list_ex (\<lambda>e. sr_sandbox_id e = k) (cs_sandboxes st)"
    by (metis config_map_None option.distinct(1))
  have ids: "map sr_sandbox_id (update_first (\<lambda>e. sr_sandbox_id e = k) f (cs_sandboxes st)) =
      map sr_sandbox_id (cs_sandboxes st)"
    by (rule update_first_ids) (simp add: f)
  have upd: "map_of (map entry_pair (update_first (\<lambda>e. sr_sandbox_id e = k) f (cs_sandboxes st))) =
      (config_map st)(k \<mapsto> g c)"
    using map_of_update_first [OF ex, of f g] f Some by (simp add: config_map_def)
  show ?thesis
    using ex Some assms(1) upd
    by (simp add: meets_spec_def map_update_spec_def update_change_def ensure_expected_revision_def
        bumped_def Let_def config_map_def ids_distinct_def ids)
qed

lemma create_change_meets:
  assumes "ids_distinct st"
  shows "meets_spec e st (op_spec (OpCreate k c) (config_map st))
           (create_change e \<lparr>sr_sandbox_id = k, sr_config = c\<rparr> st)"
proof (cases "config_map st k")
  case None
  then have ex: "\<not> list_ex (\<lambda>e. sr_sandbox_id e = k) (cs_sandboxes st)" by (simp add: config_map_None)
  then have "k \<notin> sr_sandbox_id ` set (cs_sandboxes st)" by (auto simp: list_ex_iff)
  with ex assms show ?thesis
    using None map_of_append_new [of "\<lparr>sr_sandbox_id = k, sr_config = c\<rparr>" "cs_sandboxes st"]
    by (simp add: meets_spec_def create_change_def ensure_expected_revision_def bumped_def Let_def
        config_map_def ids_distinct_def)
next
  case (Some d)
  then have "list_ex (\<lambda>e. sr_sandbox_id e = k) (cs_sandboxes st)"
    by (metis config_map_None option.distinct(1))
  with Some show ?thesis
    by (simp add: meets_spec_def create_change_def ensure_expected_revision_def)
qed

lemma delete_change_meets:
  assumes "ids_distinct st"
  shows "meets_spec e st (op_spec (OpDelete k) (config_map st)) (delete_change e k st)"
proof (cases "config_map st k")
  case None
  then have "\<not> list_ex (\<lambda>e. sr_sandbox_id e = k) (cs_sandboxes st)" by (simp add: config_map_None)
  with None show ?thesis
    by (simp add: meets_spec_def delete_change_def ensure_expected_revision_def length_filter_id)
next
  case (Some c)
  then have "list_ex (\<lambda>e. sr_sandbox_id e = k) (cs_sandboxes st)"
    by (metis config_map_None option.distinct(1))
  with Some assms show ?thesis
    using map_of_filter_id [of "cs_sandboxes st" k]
    by (simp add: meets_spec_def delete_change_def ensure_expected_revision_def length_filter_id bumped_def
        Let_def config_map_def ids_distinct_def distinct_map_filter_id)
qed

lemma op_change_meets:
  "ids_distinct st \<Longrightarrow> meets_spec e st (op_spec op (config_map st)) (op_change op e st)"
  by (cases op) (auto intro!: update_change_meets delete_change_meets create_change_meets
      simp del: op_spec.simps(1,3) simp: fun_eq_iff)

lemma op_change_cases:
  assumes "ids_distinct st"
  obtains (Mismatch) "e \<noteq> cs_revision st" "op_change op e st = (Inl (StoreRevisionMismatch e (cs_revision st)), st)"
  | (Refused) err where "e = cs_revision st" "op_spec op (config_map st) = Inl err" "op_change op e st = (Inl err, st)"
  | (Done) m st' where "e = cs_revision st" "op_spec op (config_map st) = Inr m"
      "op_change op e st = (Inr (sat_add e 1), st')" "cs_revision st' = sat_add e 1" "config_map st' = m"
      "ids_distinct st'"
proof -
  note spec = op_change_meets [OF assms, of e op, unfolded meets_spec_def]
  show thesis
  proof (cases "e = cs_revision st")
    case False
    with spec Mismatch show thesis by simp
  next
    case True
    show thesis
    proof (cases "op_spec op (config_map st)")
      case (Inl err)
      with spec True Refused show thesis by simp
    next
      case (Inr m)
      obtain r st' where o: "op_change op e st = (r, st')" by (metis prod.exhaust)
      with spec True Inr Done [of m st'] show thesis by simp
    qed
  qed
qed

definition written_back :: "store_io \<Rightarrow> write_outcome \<Rightarrow> 'r \<Rightarrow> 'n sandbox_system \<Rightarrow> (store_error, 'r) result \<times> 'n sandbox_system" where
  "written_back io out r sys =
     (case si_encode io (get_snapshot sys) of
        Inl e \<Rightarrow> (Inl (StoreSerde e), sys)
      | Inr raw \<Rightarrow>
          (case out of
             DirFailed e \<Rightarrow> (Inl (StoreIo e), sys)
           | WriteFailed e left \<Rightarrow> (Inl (StoreIo e), sys\<lparr>sys_configs := (sys_configs sys)\<lparr>st_file := left\<rparr>\<rparr>)
           | Written \<Rightarrow> (Inr r, sys\<lparr>sys_configs := (sys_configs sys)\<lparr>st_file := Some raw\<rparr>\<rparr>)))"

lemma store_op_eq:
  "store_op io out other i change sys =
     (case change (get_snapshot (other i sys)) of
        (Inl err, _) \<Rightarrow> (Inl err, other i sys)
      | (Inr v, st) \<Rightarrow> written_back io out v
          (other (Suc i) ((other i sys)\<lparr>sys_configs := (sys_configs (other i sys))\<lparr>st_state := st\<rparr>\<rparr>)))"
  by (auto simp: store_op_def get_snapshot_def written_back_def persist_def Let_def
      split: sum.split prod.split write_outcome.split)

text \<open>
  C36. The store of the local sandboxes refines a map from identifiers to configurations behind a
  revision, whatever other tasks do before the request gets the lock and before it writes the
  file. A request whose configuration fails the check changes nothing. Otherwise it is applied to
  the state it finds: with another revision it is refused and names both; an identifier that is
  taken or unknown is refused; else the map changes exactly as the operation says and the revision
  advances. Then the state of that moment is written to the file as a whole, and the request
  answers with the new revision exactly if the write succeeds.
\<close>

theorem store_requests_refine_map:
  assumes "ids_distinct (get_snapshot (other i sys))"
  shows "case op_check fs op of
      Inl err \<Rightarrow> store_request fs io out op e other i sys = (Inl err, sys)
    | Inr _ \<Rightarrow>
        (let sys1 = other i sys; st = get_snapshot sys1 in
         if e \<noteq> cs_revision st
         then store_request fs io out op e other i sys = (Inl (StoreRevisionMismatch e (cs_revision st)), sys1)
         else case op_spec op (config_map st) of
           Inl err \<Rightarrow> store_request fs io out op e other i sys = (Inl err, sys1)
         | Inr m \<Rightarrow>
             (\<exists>st'. cs_revision st' = sat_add e 1 \<and> config_map st' = m \<and> ids_distinct st' \<and>
                store_request fs io out op e other i sys =
                  written_back io out (sat_add e 1)
                    (other (Suc i) (sys1\<lparr>sys_configs := (sys_configs sys1)\<lparr>st_state := st'\<rparr>\<rparr>))))"
proof (cases "op_check fs op")
  case (Inl err)
  then show ?thesis by (simp add: store_request_eq)
next
  case (Inr u)
  from assms show ?thesis
  proof (cases rule: op_change_cases [where e = e and op = op])
    case Mismatch
    with Inr show ?thesis by (simp add: store_request_eq store_op_eq Let_def)
  next
    case (Refused err)
    with Inr show ?thesis by (simp add: store_request_eq store_op_eq Let_def)
  next
    case (Done m st')
    then show ?thesis
      by (simp add: Inr store_request_eq store_op_eq Let_def) (rule exI [of _ st'], simp)
  qed
qed

section \<open>Requests and the configurations\<close>

datatype sandbox_request =
    CreateSandbox write_outcome nat u64 "sandbox_config_input option"
  | UpdateSandbox write_outcome u64 string "sandbox_config_input option"
  | DeleteSandbox write_outcome u64 string
  | UpdateTimeOfDay write_outcome u64 string "local_time_of_day_settings option"
  | UpdateWeather write_outcome u64 string "local_weather_settings option"
  | UpdateSpawnMode write_outcome u64 string i32
  | SetActivation u64 string bool

fun serve ::
  "'n sandbox_service \<Rightarrow> (nat \<Rightarrow> u64 \<times> u32) \<Rightarrow> 'n sandbox_others \<Rightarrow> sandbox_request
    \<Rightarrow> 'n sandbox_system \<Rightarrow> 'n sandbox_system" where
  "serve sv now other (CreateSandbox out ts e cfg) sys = snd (create_local_sandbox_config sv out ts other e cfg sys)"
| "serve sv now other (UpdateSandbox out e k cfg) sys = snd (update_local_sandbox_config sv out other e k cfg sys)"
| "serve sv now other (DeleteSandbox out e k) sys = snd (delete_local_sandbox_config sv out other e k sys)"
| "serve sv now other (UpdateTimeOfDay out e k t) sys = snd (update_local_sandbox_time_of_day sv out other e k t sys)"
| "serve sv now other (UpdateWeather out e k w) sys = snd (update_local_sandbox_weather sv out other e k w sys)"
| "serve sv now other (UpdateSpawnMode out e k m) sys = snd (update_local_sandbox_spawn_mode sv out other e k m sys)"
| "serve sv now other (SetActivation e k b) sys = snd (set_local_sandbox_activation sv now other e k b sys)"

definition serve_all ::
  "'n sandbox_service \<Rightarrow> (nat \<Rightarrow> u64 \<times> u32) \<Rightarrow> sandbox_request list \<Rightarrow> 'n sandbox_system \<Rightarrow> 'n sandbox_system" where
  "serve_all sv now reqs sys = fold (serve sv now sandbox_alone) reqs sys"

lemma get_snapshot_upd [simp]:
  "get_snapshot (sys\<lparr>sys_worker := w\<rparr>) = get_snapshot sys"
  "get_snapshot (sys\<lparr>sys_started := m\<rparr>) = get_snapshot sys"
  "get_snapshot (sys\<lparr>sys_weather_events := ev\<rparr>) = get_snapshot sys"
  "get_snapshot (sys\<lparr>sys_configs := cfg\<rparr>) = st_state cfg"
  by (simp_all add: get_snapshot_def)

lemma get_snapshot_client [simp]: "get_snapshot (snd (client_call env cmd get sys)) = get_snapshot sys"
  by (simp add: client_call_def Let_def case_prod_beta)

lemma get_snapshot_clientD: "client_call env cmd get sys = (r, sys') \<Longrightarrow> get_snapshot sys' = get_snapshot sys"
  by (metis get_snapshot_client snd_conv)

lemma get_snapshot_publish [simp]:
  "get_snapshot (publish_weather_updated k sys) = get_snapshot sys"
  "get_snapshot (publish_weather_deactivated k sys) = get_snapshot sys"
  by (simp_all add: publish_weather_updated_def publish_weather_deactivated_def publish_weather_def)

lemma get_snapshot_written_back [simp]: "get_snapshot (snd (written_back io out r sys)) = get_snapshot sys"
  by (simp add: written_back_def get_snapshot_def split: sum.split write_outcome.split)

text \<open>
  A property of the configurations that every checked operation keeps, and that the other tasks keep
  at every await, is kept by every request.
\<close>

locale config_rely =
  fixes fs :: features and P :: "config_state \<Rightarrow> bool" and other :: "'n sandbox_others"
  assumes op_keeps: "op_check fs op = Inr () \<Longrightarrow> op_change op e st = (Inr v, st') \<Longrightarrow> P st \<Longrightarrow> P st'"
    and other_keeps: "P (get_snapshot sys) \<Longrightarrow> P (get_snapshot (other i sys))"
begin

lemma request_keeps: "P (get_snapshot sys) \<Longrightarrow> P (get_snapshot (snd (store_request fs io out op e other i sys)))"
  by (auto simp: store_request_eq store_op_eq other_keeps op_keeps split: sum.split prod.split)

lemmas store_keeps = request_keeps [where op = "OpCreate k c" for k c, unfolded store_request.simps]
  request_keeps [where op = "OpReplace k c" for k c, unfolded store_request.simps]
  request_keeps [where op = "OpDelete k" for k, unfolded store_request.simps]
  request_keeps [where op = "OpTimeOfDay k t" for k t, unfolded store_request.simps]
  request_keeps [where op = "OpWeather k w" for k w, unfolded store_request.simps]
  request_keeps [where op = "OpSpawnMode k m" for k m, unfolded store_request.simps]

lemmas keeps = other_keeps store_keeps client_defs Let_def case_prod_beta invalid_argument_def
  require_sandbox_not_active_def

lemma create_keeps:
  "env_features (sv_env sv) = fs \<Longrightarrow> P (get_snapshot sys) \<Longrightarrow>
   P (get_snapshot (snd (create_local_sandbox_config sv out ts other e cfg sys)))"
  by (simp add: create_local_sandbox_config_def keeps split: sum.split)

lemma update_keeps:
  "env_features (sv_env sv) = fs \<Longrightarrow> P (get_snapshot sys) \<Longrightarrow>
   P (get_snapshot (snd (update_local_sandbox_config sv out other e k cfg sys)))"
  by (simp add: update_local_sandbox_config_def keeps split: sum.split)

lemma delete_keeps:
  "P (get_snapshot sys) \<Longrightarrow> P (get_snapshot (snd (delete_local_sandbox_config sv out other e k sys)))"
  by (simp add: delete_local_sandbox_config_def keeps split: sum.split)

lemma apply_time_keeps:
  "P (get_snapshot sys) \<Longrightarrow> P (get_snapshot (apply_time_of_day_if_active sv other i k t sys))"
  by (simp add: apply_time_of_day_if_active_def keeps split: sum.split)

lemma time_keeps:
  "P (get_snapshot sys) \<Longrightarrow> P (get_snapshot (snd (update_local_sandbox_time_of_day sv out other e k t sys)))"
  by (simp add: update_local_sandbox_time_of_day_def keeps apply_time_keeps split: sum.split option.split)

lemma apply_weather_keeps:
  "P (get_snapshot sys) \<Longrightarrow> P (get_snapshot (snd (apply_weather_if_active sv other i k w sys)))"
  by (simp add: apply_weather_if_active_def keeps split: sum.split)

lemma weather_keeps:
  "P (get_snapshot sys) \<Longrightarrow> P (get_snapshot (snd (update_local_sandbox_weather sv out other e k w sys)))"
  by (simp add: update_local_sandbox_weather_def keeps apply_weather_keeps split: sum.split option.split)

lemma spawn_keeps:
  "P (get_snapshot sys) \<Longrightarrow> P (get_snapshot (snd (update_local_sandbox_spawn_mode sv out other e k m sys)))"
  by (simp add: update_local_sandbox_spawn_mode_def keeps split: sum.split)

lemma activate_keeps:
  "P (get_snapshot sys) \<Longrightarrow> P (get_snapshot (snd (activate_sandbox_with sv now other e r sys)))"
  by (simp add: activate_sandbox_with_def keeps split: sum.split)

lemma activation_keeps:
  "P (get_snapshot sys) \<Longrightarrow> P (get_snapshot (snd (set_local_sandbox_activation sv now other e k b sys)))"
  by (simp add: set_local_sandbox_activation_def keeps activate_keeps split: sum.split option.split)

lemma serve_keeps:
  "env_features (sv_env sv) = fs \<Longrightarrow> P (get_snapshot sys) \<Longrightarrow> P (get_snapshot (serve sv now other req sys))"
  by (cases req) (simp_all add: create_keeps update_keeps delete_keeps time_keeps weather_keeps spawn_keeps
      activation_keeps)

end

lemma validate_time_of_day_ok [simp]: "validate_time_of_day_settings t = Inr ()"
  by (cases "tr_fixed_preset t") (simp_all add: validate_time_of_day_settings_def)

lemma config_valid_iff:
  "config_valid fs c \<longleftrightarrow>
     trim (si_sandbox_name c) \<noteq> [] \<and> chars_count (trim (si_sandbox_name c)) \<le> MAX_SANDBOX_NAME_LEN_CHARS \<and>
     trim (si_map_id c) \<noteq> [] \<and> valid_map_chars fs (trim (si_map_id c)) \<and>
     validate_local_weather_settings (si_weather c) = Inr () \<and>
     (case si_ghost_mode c of
        None \<Rightarrow> True | Some g \<Rightarrow> check_ghost_speeds g = Inr () \<and> check_ghost_limits g = Inr ())"
  unfolding config_valid_def validate_local_sandbox_config_input_def Let_def
  by (cases "validate_local_weather_settings (si_weather c)"; cases "si_ghost_mode c")
     (simp_all split: sum.split)

lemma config_valid_updates:
  "config_valid fs c \<Longrightarrow> config_valid fs (c\<lparr>si_time_of_day := t\<rparr>)"
  "config_valid fs c \<Longrightarrow> config_valid fs (c\<lparr>si_spawn_mode := m\<rparr>)"
  "config_valid fs c \<Longrightarrow> validate_local_weather_settings w = Inr () \<Longrightarrow> config_valid fs (c\<lparr>si_weather := w\<rparr>)"
  by (simp_all add: config_valid_iff)

lemma store_wf_iff_map:
  assumes "ids_distinct st"
  shows "store_wf fs st \<longleftrightarrow> (\<forall>k c. config_map st k = Some c \<longrightarrow> config_valid fs c)"
proof
  assume wf: "store_wf fs st"
  show "\<forall>k c. config_map st k = Some c \<longrightarrow> config_valid fs c"
    using wf by (auto simp: config_map_def store_wf_def entry_pair_def dest!: map_of_SomeD)
next
  assume all: "\<forall>k c. config_map st k = Some c \<longrightarrow> config_valid fs c"
  have "config_map st (sr_sandbox_id e) = Some (sr_config e)" if "e \<in> set (cs_sandboxes st)" for e
    using that assms unfolding config_map_def ids_distinct_def
    by (intro map_of_is_SomeI) (auto simp: comp_def entry_pair_def)
  with all assms show "store_wf fs st" by (auto simp: store_wf_def)
qed

lemma op_spec_valid:
  assumes "op_check fs op = Inr ()" "op_spec op m = Inr m'" "\<And>k c. m k = Some c \<Longrightarrow> config_valid fs c"
    and "m' k = Some c"
  shows "config_valid fs c"
  using assms
  by (cases op) (auto simp: map_update_spec_def config_valid_updates config_valid_def [symmetric]
      split: option.splits if_splits)

definition configs_ok :: "features \<Rightarrow> u64 \<Rightarrow> config_state \<Rightarrow> bool" where
  "configs_ok fs v st \<longleftrightarrow> store_wf fs st \<and> v \<le> cs_revision st"

lemma op_keeps_configs_ok:
  assumes "op_check fs op = Inr ()" "op_change op e st = (Inr r, st')" "configs_ok fs v st"
  shows "configs_ok fs v st'"
proof -
  have d: "ids_distinct st" using assms(3) by (simp add: configs_ok_def store_wf_def)
  from d show ?thesis
  proof (cases rule: op_change_cases [where e = e and op = op])
    case (Done m st1)
    with assms(2) have [simp]: "st1 = st'" by simp
    have "\<And>k c. config_map st k = Some c \<Longrightarrow> config_valid fs c"
      using assms(3) store_wf_iff_map [OF d] by (auto simp: configs_ok_def)
    with op_spec_valid [OF assms(1)] Done have "store_wf fs st'"
      using store_wf_iff_map [of st' fs] by (metis \<open>st1 = st'\<close>)
    moreover have "v \<le> cs_revision st'"
      using assms(3) Done sat_add_ge [of "cs_revision st" 1] by (auto simp: configs_ok_def intro: order_trans)
    ultimately show ?thesis by (simp add: configs_ok_def)
  qed (use assms(2) in simp_all)
qed

text \<open>
  The steps of the configurations are the checked operations that succeed. Other tasks that only
  make such steps, at any await and in any number, are an environment in which everything the
  operations keep is kept; what a request adds is again steps.
\<close>

inductive config_step :: "features \<Rightarrow> config_state \<Rightarrow> config_state \<Rightarrow> bool" for fs where
  checked: "op_check fs op = Inr () \<Longrightarrow> op_change op e st = (Inr v, st') \<Longrightarrow> config_step fs st st'"

locale config_tasks =
  fixes fs :: features and other :: "'n sandbox_others"
  assumes tasks_step: "(config_step fs)\<^sup>*\<^sup>* (get_snapshot sys) (get_snapshot (other i sys))"

sublocale config_tasks \<subseteq> from_configs: config_rely fs "(config_step fs)\<^sup>*\<^sup>* st0" other for st0
  by unfold_locales (blast intro: config_step.checked rtranclp.rtrancl_into_rtrancl rtranclp_trans tasks_step)+

context config_tasks
begin

lemma serve_steps: "env_features (sv_env sv) = fs \<Longrightarrow>
    (config_step fs)\<^sup>*\<^sup>* (get_snapshot sys) (get_snapshot (serve sv now other req sys))"
  by (rule from_configs.serve_keeps) simp_all

end

interpretation alone_cfg: config_tasks fs sandbox_alone for fs
  by unfold_locales (simp add: sandbox_alone_def)

lemma serve_all_steps:
  "(config_step (env_features (sv_env sv)))\<^sup>*\<^sup>* (get_snapshot sys) (get_snapshot (serve_all sv now reqs sys))"
proof (induction reqs arbitrary: sys)
  case (Cons r reqs)
  show ?case using rtranclp_trans [OF alone_cfg.serve_steps [OF refl] Cons.IH] by (simp add: serve_all_def)
qed (simp add: serve_all_def)

interpretation queued_cfg: config_tasks "env_features (sv_env sv)" "\<lambda>i. serve_all sv now (reqs i)" for sv now reqs
  by unfold_locales (rule serve_all_steps)

lemma config_steps_ok: "(config_step fs)\<^sup>*\<^sup>* st st' \<Longrightarrow> configs_ok fs v st \<Longrightarrow> configs_ok fs v st'"
  by (induction rule: rtranclp_induct) (auto elim!: config_step.cases intro: op_keeps_configs_ok)

text \<open>What a configuration has to be, in plain terms.\<close>

definition acceptable :: "features \<Rightarrow> sandbox_config_input_record \<Rightarrow> bool" where
  "acceptable fs c \<longleftrightarrow>
     trim (si_sandbox_name c) \<noteq> [] \<and> chars_count (trim (si_sandbox_name c)) \<le> 64 \<and>
     trim (si_map_id c) \<noteq> [] \<and>
     (\<forall>ch \<in> set (trim (si_map_id c)). is_ascii_alphanumeric ch \<or> \<not> standalone fs \<and> ch \<in> {CHR ''-'', CHR ''_''}) \<and>
     1 \<le> wr_temperature_c (si_weather c) \<and> wr_temperature_c (si_weather c) \<le> 30 \<and>
     (\<forall>g. si_ghost_mode c = Some g \<longrightarrow>
        (\<exists>a b. gr_enter_speed_max_mps g = Fin a \<and> gr_exit_speed_min_mps g = Fin b \<and> 0 \<le> a \<and> a \<le> b) \<and>
        gr_enter_delay_ms g \<le> 600000 \<and> gr_exit_delay_ms g \<le> 600000 \<and>
        gr_vehicle_overlap_exit_delay_ms g \<le> 600000 \<and> gr_until_completed_laps g \<le> 100000)"

lemma ghost_speeds_iff: "check_ghost_speeds g = Inr () \<longleftrightarrow>
    (\<exists>a b. gr_enter_speed_max_mps g = Fin a \<and> gr_exit_speed_min_mps g = Fin b \<and> 0 \<le> a \<and> a \<le> b)"
  by (cases "gr_enter_speed_max_mps g"; cases "gr_exit_speed_min_mps g")
     (auto simp: check_ghost_speeds_def)

lemma ghost_limits_iff: "check_ghost_limits g = Inr () \<longleftrightarrow>
    gr_enter_delay_ms g \<le> 600000 \<and> gr_exit_delay_ms g \<le> 600000 \<and>
    gr_vehicle_overlap_exit_delay_ms g \<le> 600000 \<and> gr_until_completed_laps g \<le> 100000"
  by (auto simp: check_ghost_limits_def MAX_GHOST_DELAY_MS_def MAX_GHOST_UNTIL_COMPLETED_LAPS_def)

lemma acceptable_iff: "config_valid fs c \<longleftrightarrow> acceptable fs c"
proof -
  have "valid_map_chars fs m \<longleftrightarrow>
      (\<forall>ch \<in> set m. is_ascii_alphanumeric ch \<or> \<not> standalone fs \<and> ch \<in> {CHR ''-'', CHR ''_''})" for m
    by (auto simp: valid_map_chars_def list_all_iff)
  moreover have "validate_local_weather_settings w = Inr () \<longleftrightarrow> 1 \<le> wr_temperature_c w \<and> wr_temperature_c w \<le> 30" for w
    by (simp add: validate_local_weather_settings_def)
  ultimately show ?thesis
    unfolding config_valid_iff acceptable_def MAX_SANDBOX_NAME_LEN_CHARS_def ghost_speeds_iff ghost_limits_iff
    by (auto split: option.split)
qed

text \<open>
  C37. A request of the sandbox administration, the failing ones and those whose file cannot be
  written included, may be interrupted at every await by other tasks that change the
  configurations by any number of the store's checked operations, be they whole requests or parts
  of requests that overlap with this one. Then the whole effect on the configurations is again a
  sequence of such operations, so overlapping requests are such an environment for each other.
  If the identifiers are distinct and every configuration is acceptable before, they are so
  afterwards: a name that is not blank, of at most 64 characters without the blanks around it; a
  map that is not blank and, without the blanks around it, of ASCII letters and digits (and - and _
  except in the standalone build); a temperature of 1 to 30 degrees; ghost-mode speeds that are
  finite, not negative and in order, delays of at most 600000 ms and at most 100000 laps. The
  revision never goes back.
\<close>

theorem requests_keep_configurations_valid:
  fixes sv :: "'n sandbox_service"
  assumes "fs = env_features (sv_env sv)"
    and "\<forall>i s. (config_step fs)\<^sup>*\<^sup>* (get_snapshot s) (get_snapshot (other i s))"
    and "distinct (map sr_sandbox_id (cs_sandboxes (get_snapshot sys)))"
    and "\<forall>e \<in> set (cs_sandboxes (get_snapshot sys)). acceptable fs (sr_config e)"
  shows "let st' = get_snapshot (serve sv now other req sys)
         in (config_step fs)\<^sup>*\<^sup>* (get_snapshot sys) st' \<and>
            distinct (map sr_sandbox_id (cs_sandboxes st')) \<and>
            (\<forall>e \<in> set (cs_sandboxes st'). acceptable fs (sr_config e)) \<and>
            cs_revision (get_snapshot sys) \<le> cs_revision st'"
proof -
  have "config_tasks fs other" using assms(2) by unfold_locales blast
  then have steps: "(config_step fs)\<^sup>*\<^sup>* (get_snapshot sys) (get_snapshot (serve sv now other req sys))"
    by (rule config_tasks.serve_steps) (simp add: assms(1))
  have "configs_ok fs (cs_revision (get_snapshot sys)) (get_snapshot sys)"
    using assms(3,4) by (simp add: configs_ok_def store_wf_def ids_distinct_def acceptable_iff)
  from config_steps_ok [OF steps this] steps show ?thesis
    by (simp add: configs_ok_def store_wf_def ids_distinct_def acceptable_iff Let_def)
qed

section \<open>The configuration in the protocol\<close>

text \<open>What the generated code of the protocol's enumerations guarantees: a code is read back.\<close>

definition codes_ok :: "sandbox_codes \<Rightarrow> bool" where
  "codes_ok sc \<longleftrightarrow>
     (\<forall>m. pc_mode sc (pc_mode_code sc m) = Some m) \<and> (\<forall>p. pc_preset sc (pc_preset_code sc p) = Some p) \<and>
     (\<forall>w. sc_weather sc (sc_weather_code sc w) = Some w) \<and> (\<forall>m. sc_spawn sc (sc_spawn_code sc m) = Some m)"

lemma conversion_roundtrips [simp]:
  "mode_record (mode_to_proto m) = Inr m"
  "preset_record (preset_to_proto p) = Inr p"
  "weather_record (weather_type_to_proto w) = Inr w"
  "spawn_record (spawn_mode_to_proto s) = Inr s"
proof -
  show "mode_record (mode_to_proto m) = Inr m" by (cases m) simp_all
  show "preset_record (preset_to_proto p) = Inr p" by (cases p) simp_all
  show "weather_record (weather_type_to_proto w) = Inr w" by (cases w) simp_all
  show "spawn_record (spawn_mode_to_proto s) = Inr s" by (cases s) simp_all
qed

lemma store_time_of_day_roundtrip:
  "codes_ok sc \<Longrightarrow> store_time_of_day_from_proto sc (store_time_of_day_to_proto sc t) = Inr t"
  by (cases "tr_fixed_preset t"; cases "tr_mode t")
     (simp_all add: codes_ok_def store_time_of_day_from_proto_def store_time_of_day_to_proto_def enum_from_i32_def)

lemma store_weather_roundtrip:
  "codes_ok sc \<Longrightarrow> store_weather_from_proto sc (store_weather_to_proto sc w) = Inr w"
  by (simp add: codes_ok_def store_weather_from_proto_def store_weather_to_proto_def enum_from_i32_def)

lemma store_ghost_roundtrip:
  "check_ghost_speeds g = Inr () \<Longrightarrow> store_ghost_mode_from_proto (store_ghost_mode_to_proto g) = Inr g"
  by (cases g) (simp add: store_ghost_mode_from_proto_def store_ghost_mode_to_proto_def Let_def)

lemma config_valid_ghost: "config_valid fs c \<Longrightarrow> si_ghost_mode c = Some g \<Longrightarrow> check_ghost_speeds g = Inr ()"
  by (simp add: config_valid_iff)

lemma from_proto_valid: "local_sandbox_input_from_proto fs sc p = Inr r \<Longrightarrow> config_valid fs r"
  unfolding local_sandbox_input_from_proto_def config_valid_def
  by (auto simp: Let_def split: option.splits sum.splits)

lemma from_proto_to_proto:
  assumes "codes_ok sc" "config_valid fs c"
  shows "local_sandbox_input_from_proto fs sc (local_sandbox_input_to_proto sc c) = Inr c"
proof -
  have g: "(case map_option store_ghost_mode_to_proto (si_ghost_mode c) of
              None \<Rightarrow> Inr None
            | Some g \<Rightarrow> (case store_ghost_mode_from_proto g of Inl err \<Rightarrow> Inl err | Inr ghost \<Rightarrow> Inr (Some ghost)))
      = Inr (si_ghost_mode c)"
    using config_valid_ghost [OF assms(2)]
    by (cases "si_ghost_mode c") (simp_all add: store_ghost_roundtrip)
  have r: "\<lparr>si_sandbox_name = si_sandbox_name c, si_map_id = si_map_id c, si_time_of_day = si_time_of_day c,
      si_ghost_mode = si_ghost_mode c, si_weather = si_weather c, si_spawn_mode = si_spawn_mode c\<rparr> = c"
    by (cases c) simp
  show ?thesis
    using assms g
    by (simp add: r local_sandbox_input_from_proto_def local_sandbox_input_to_proto_def Let_def
        store_time_of_day_roundtrip store_weather_roundtrip enum_from_i32_def codes_ok_def config_valid_def)
qed

text \<open>
  C38. What a client reads of the configurations it can send back: every configuration that is listed
  (get_local_sandbox_configs) names the identifier of an entry of the store, and sent as the
  configuration of an update it is accepted and read as exactly the configuration of that entry.
  Conversely every configuration a request carries that is accepted passes the check of the store,
  and is read back unchanged when it is listed.
\<close>

theorem listed_configuration_reads_back:
  assumes "codes_ok sc" "store_wf fs (get_snapshot sys)"
  shows "list_all2 (\<lambda>p e. ps_sandbox_id p = sr_sandbox_id e \<and>
             (\<exists>cfg. ps_config p = Some cfg \<and> local_sandbox_input_from_proto fs sc cfg = Inr (sr_config e)))
           (snd (get_local_sandbox_configs sc sys)) (cs_sandboxes (get_snapshot sys)) \<and>
         (\<forall>cfg c. local_sandbox_input_from_proto fs sc cfg = Inr c \<longrightarrow>
            config_valid fs c \<and>
            local_sandbox_input_from_proto fs sc (local_sandbox_input_to_proto sc c) = Inr c)"
proof
  have v: "config_valid fs (sr_config e)" if "e \<in> set (cs_sandboxes (get_snapshot sys))" for e
    using that assms(2) by (simp add: store_wf_def)
  show "list_all2 (\<lambda>p e. ps_sandbox_id p = sr_sandbox_id e \<and>
             (\<exists>cfg. ps_config p = Some cfg \<and> local_sandbox_input_from_proto fs sc cfg = Inr (sr_config e)))
           (snd (get_local_sandbox_configs sc sys)) (cs_sandboxes (get_snapshot sys))"
    by (auto simp: get_local_sandbox_configs_def Let_def local_sandbox_to_proto_def list_all2_conv_all_nth
        from_proto_to_proto [OF assms(1) v])
  show "\<forall>cfg c. local_sandbox_input_from_proto fs sc cfg = Inr c \<longrightarrow>
            config_valid fs c \<and>
            local_sandbox_input_from_proto fs sc (local_sandbox_input_to_proto sc c) = Inr c"
    using from_proto_valid from_proto_to_proto [OF assms(1)] by blast
qed

text \<open>The service's copies of the conversions agree with those of the store, but for the texts of errors.\<close>

fun code_of_status :: "status \<Rightarrow> status_code" where
  "code_of_status (Status code _) = code"

definition same_outcome :: "(store_error, 'a) result \<Rightarrow> (status, 'a) result \<Rightarrow> bool" where
  "same_outcome a b \<longleftrightarrow>
     (case (a, b) of (Inr x, Inr y) \<Rightarrow> x = y | (Inl e, Inl st) \<Rightarrow> store_error_code e = code_of_status st | _ \<Rightarrow> False)"

lemma conversions_agree:
  "same_outcome (store_time_of_day_from_proto sc t) (local_time_of_day_from_proto sc t)"
  "same_outcome (store_weather_from_proto sc w) (local_weather_from_proto sc w)"
  "store_time_of_day_to_proto = local_time_of_day_to_proto"
  "store_weather_to_proto = local_weather_to_proto"
  "store_ghost_mode_to_proto = local_ghost_mode_to_proto"
proof -
  note defs = same_outcome_def store_time_of_day_from_proto_def local_time_of_day_from_proto_def
    store_weather_from_proto_def local_weather_from_proto_def enum_from_i32_def invalid_argument_def
  show "same_outcome (store_time_of_day_from_proto sc t) (local_time_of_day_from_proto sc t)"
  proof (cases "pc_mode sc (lt_mode t)")
    case (Some m)
    then show ?thesis
      by (cases m; cases "pc_preset sc (lt_fixed_preset t)"; cases "the (pc_preset sc (lt_fixed_preset t))")
         (simp_all add: defs)
  qed (simp add: defs)
  show "same_outcome (store_weather_from_proto sc w) (local_weather_from_proto sc w)"
    by (cases "sc_weather sc (lw_weather_type w)"; cases "the (sc_weather sc (lw_weather_type w))")
       (simp_all add: defs)
  have "mode_to_proto = local_time_of_day_mode_to_proto"
    by (rule ext) (case_tac x; simp)
  moreover have "preset_to_proto = runtime_time_of_day_preset_record_to_proto"
    by (rule ext) (case_tac x; simp)
  ultimately show "store_time_of_day_to_proto = local_time_of_day_to_proto"
    by (simp add: fun_eq_iff store_time_of_day_to_proto_def local_time_of_day_to_proto_def)
  have "weather_type_to_proto = weather_type_record_to_proto"
    by (rule ext) (case_tac x; simp)
  then show "store_weather_to_proto = local_weather_to_proto"
    by (simp add: fun_eq_iff store_weather_to_proto_def local_weather_to_proto_def)
  show "store_ghost_mode_to_proto = local_ghost_mode_to_proto"
    by (simp add: fun_eq_iff store_ghost_mode_to_proto_def local_ghost_mode_to_proto_def)
qed

section \<open>Activation\<close>

lemma activation_client_results:
  "client_switch_runtime env e kind m k (Some t) g = on_worker env (switch_runtime env kind m k t g e)"
  "client_set_sandbox_weather env s p n = on_worker env (set_weather_command env s p n)"
  by (simp_all add: fun_eq_iff client_defs client_call_def on_worker_def answer_def)

lemma set_weather_Inl:
  assumes "set_weather_command env k p n w = (Inl err, w')"
  shows "w_runtime w' = w_runtime w \<and> w_running w' = w_running w \<and>
         hm_remove k (w_sandboxes w') = hm_remove k (w_sandboxes w)"
proof -
  have [simp]: "hm_remove k (hm_insert k slot m) = hm_remove k m" for slot and m :: "(string, 'n world_slot) hmap"
    by (induction m) (auto simp: hm_remove_def hm_insert_def)
  show ?thesis
    using assms by (auto simp: set_weather_command_def with_target_slot_mut_def Let_def
        split: sum.splits prod.splits if_splits)
qed

lemma set_weather_Inr:
  assumes "set_weather_command env k p n w = (Inr u, w')"
  shows "w_runtime w' = (w_runtime w)\<lparr>rt_active_sandboxes := update_first (\<lambda>e. sb_sandbox_id e = k)
             (\<lambda>e. e\<lparr>sb_weather_now := Some n\<rparr>) (rt_active_sandboxes (w_runtime w))\<rparr>"
  using assms by (auto simp: set_weather_command_def with_target_slot_mut_def Let_def
      split: sum.splits prod.splits if_splits)

abbreviation active_of :: "'n sandbox_system \<Rightarrow> active_sandbox_state list" where
  "active_of sys \<equiv> rt_active_sandboxes (w_runtime (sys_worker sys))"

definition same_sandboxes :: "'n sandbox_system \<Rightarrow> 'n sandbox_system \<Rightarrow> bool" where
  "same_sandboxes sys sys' \<longleftrightarrow>
     active_of sys' = active_of sys \<and> w_sandboxes (sys_worker sys') = w_sandboxes (sys_worker sys) \<and>
     sys_started sys' = sys_started sys \<and> sys_weather_events sys' = sys_weather_events sys \<and>
     sys_configs sys' = sys_configs sys"

definition shown_sandbox :: "sandbox_config_record \<Rightarrow> active_sandbox_state" where
  "shown_sandbox r =
     \<lparr>sb_sandbox_id = sr_sandbox_id r, sb_map_id = si_map_id (sr_config r),
      sb_time_of_day_preset = resolve_runtime_time_of_day_preset (si_time_of_day (sr_config r)),
      sb_weather_now = Some (runtime_weather_now_from_local (si_weather (sr_config r)))\<rparr>"

definition sandbox_shown ::
  "(nat \<Rightarrow> u64 \<times> u32) \<Rightarrow> u64 \<Rightarrow> sandbox_config_record \<Rightarrow> 'n sandbox_system \<Rightarrow> 'n sandbox_system
    \<Rightarrow> activation_response \<Rightarrow> bool" where
  "sandbox_shown now e r sys sys' resp \<longleftrightarrow>
     resp = \<lparr>ar_revision = sat_add e 1, ar_activate = True, ar_sandbox_id = sr_sandbox_id r\<rparr> \<and>
     rt_revision (w_runtime (sys_worker sys')) = sat_add e 1 \<and>
     active_of sys' = active_of sys @ [shown_sandbox r] \<and>
     sr_sandbox_id r \<notin> sb_sandbox_id ` set (active_of sys) \<and>
     sys_started sys' = hm_insert (sr_sandbox_id r) (utc_now_timestamp (now 0)) (sys_started sys) \<and>
     sys_weather_events sys' = sys_weather_events sys @ [\<lparr>we_sandbox_id = sr_sandbox_id r, we_kind = WeatherUpdated\<rparr>] \<and>
     sys_configs sys' = sys_configs sys"

lemma update_first_appended:
  "\<forall>x \<in> set xs. \<not> P x \<Longrightarrow> update_first P f (xs @ [y]) = xs @ (if P y then [f y] else [y])"
  by (induction xs) auto

lemma hm_remove_new: "k \<notin> set (hm_keys m) \<Longrightarrow> hm_remove k (hm_insert k v m) = m"
  by (induction m) (auto simp: hm_remove_def hm_insert_def hm_keys_def)

text \<open>An activation that runs alone, from the switch of the worker on.\<close>

lemma rollback_restores:
  assumes ok: "worker_ok w"
    and sw: "switch_runtime env ActSandbox m (Some k) t g e w = (Inr rt, w1)"
    and we: "set_weather_command env k p n w1 = (Inl err, w2)"
  shows "\<exists>rt' w3. deactivate_sandbox k (rt_revision rt) w2 = (Inr rt', w3) \<and>
     rt_active_sandboxes (w_runtime w3) = rt_active_sandboxes (w_runtime w) \<and> w_sandboxes w3 = w_sandboxes w"
proof -
  obtain slot cell where new: "k \<notin> set (sandbox_ids (w_runtime w))" "\<not> blank k"
    and w1: "w1 = w\<lparr>w_sandboxes := hm_insert k slot (w_sandboxes w), w_init := cell, w_runtime := rt\<rparr>"
    and rt: "rt_active_sandboxes rt = rt_active_sandboxes (w_runtime w) @
       [\<lparr>sb_sandbox_id = k, sb_map_id = m, sb_time_of_day_preset = t, sb_weather_now = None\<rparr>]"
    using switch_runtime_Sandbox [OF sw] by auto
  note w2 = set_weather_Inl [OF we]
  have "rt_revision (w_runtime w2) = rt_revision rt" using w2 w1 by simp
  with new(2) obtain rt' w3 where de: "deactivate_sandbox k (rt_revision rt) w2 = (Inr rt', w3)"
    by (cases "deactivate_sandbox k (rt_revision rt) w2")
       (auto simp: deactivate_sandbox_def committed_def Let_def split: if_splits)
  have "worker_ok w1" by (rule switch_runtime_ok [OF ok sw])
  then have "distinct (sandbox_ids (w_runtime w2))" using w2 by (simp add: worker_ok_def sandboxes_ok_def)
  note d = deactivate_sandbox_Inr [OF de this]
  have old: "filter (\<lambda>e. sb_sandbox_id e \<noteq> k) (rt_active_sandboxes (w_runtime w)) = rt_active_sandboxes (w_runtime w)"
    using new(1) by (auto simp: sandbox_ids_def intro!: filter_True)
  have "k \<notin> set (hm_keys (w_sandboxes w))"
    using ok new(1) by (simp add: worker_ok_def sandboxes_ok_def)
  then have "hm_remove k (w_sandboxes w2) = w_sandboxes w"
    using w2 w1 by (simp add: hm_remove_new)
  with de d w2 w1 rt old show ?thesis by simp
qed

lemma activate_alone:
  assumes ok: "worker_ok (sys_worker sys)"
    and run: "activate_sandbox_with sv now sandbox_alone e r sys = (res, sys')"
  shows "case res of Inl _ \<Rightarrow> same_sandboxes sys sys' | Inr resp \<Rightarrow>
           rt_revision (w_runtime (sys_worker sys)) = e \<and> sandbox_shown now e r sys sys' resp"
proof (cases "w_running (sys_worker sys)")
  case False
  with run show ?thesis
    by (auto simp: activate_sandbox_with_def activation_client_results on_worker_def sandbox_alone_def
        same_sandboxes_def Let_def)
next
  case True
  let ?k = "sr_sandbox_id r" and ?c = "sr_config r" and ?w = "sys_worker sys" and ?env = "sv_env sv"
  let ?t = "resolve_runtime_time_of_day_preset (si_time_of_day ?c)"
  let ?g = "Some (engine_ghost_mode_settings_from_local_record (si_ghost_mode ?c))"
  let ?p = "weather_params_from_local (si_weather ?c)" and ?n = "runtime_weather_now_from_local (si_weather ?c)"
  obtain r1 w1 where sw: "switch_runtime ?env ActSandbox (si_map_id ?c) (Some ?k) ?t ?g e ?w = (r1, w1)"
    by (metis prod.exhaust)
  have run1: "w_running w1" if "r1 = Inr rt" for rt
    using switch_runtime_Sandbox [OF sw [unfolded that]] True by auto
  obtain r2 w2 where we: "set_weather_command ?env ?k ?p ?n w1 = (r2, w2)" by (metis prod.exhaust)
  note eqs = activate_sandbox_with_def activation_client_results client_results on_worker_def sandbox_alone_def
    Let_def sw we True
  show ?thesis
  proof (cases r1)
    case (Inl err)
    with run have "res = Inl (map_worker_err err)" "sys' = sys\<lparr>sys_worker := w1\<rparr>"
      by (simp_all add: eqs)
    moreover have "w1 = ?w\<lparr>w_init := w_init w1\<rparr>" by (rule switch_runtime_Inl [OF sw [unfolded Inl]])
    then have "w_runtime w1 = w_runtime ?w" "w_sandboxes w1 = w_sandboxes ?w"
      by (metis worker.select_convs worker.surjective worker.update_convs(5))+
    ultimately show ?thesis by (simp add: same_sandboxes_def)
  next
    case (Inr rt)
    show ?thesis
    proof (cases r2)
      case (Inl err)
      note rolled = rollback_restores [OF ok sw [unfolded Inr] we [unfolded Inl]]
      have "w_running w2" using set_weather_Inl [OF we [unfolded Inl]] run1 [OF Inr] by simp
      with rolled run Inr Inl run1 [OF Inr] show ?thesis
        by (auto simp: eqs same_sandboxes_def)
    next
      case (Inr u)
      note sb = switch_runtime_Sandbox [OF sw [unfolded \<open>r1 = Inr rt\<close>]]
      have e: "rt_revision (w_runtime ?w) = e" using sw \<open>r1 = Inr rt\<close> by (metis sw.matched)
      have "?k \<notin> set (sandbox_ids (w_runtime ?w))" using sb by auto
      then have nk: "\<forall>x \<in> set (active_of sys). \<not> sb_sandbox_id x = ?k"
        by (metis image_eqI sandbox_ids_def set_map)
      have rt: "rt_active_sandboxes rt = active_of sys @ [\<lparr>sb_sandbox_id = ?k, sb_map_id = si_map_id ?c,
          sb_time_of_day_preset = ?t, sb_weather_now = None\<rparr>]" using sb by auto
      have "update_first (\<lambda>e. sb_sandbox_id e = ?k) (\<lambda>e. e\<lparr>sb_weather_now := Some ?n\<rparr>) (rt_active_sandboxes rt) =
          active_of sys @ [shown_sandbox r]"
        unfolding rt update_first_appended [OF nk] by (simp add: shown_sandbox_def)
      with sb e set_weather_Inr [OF we [unfolded Inr]] run Inr \<open>r1 = Inr rt\<close> run1 [OF \<open>r1 = Inr rt\<close>] show ?thesis
        by (auto simp: eqs sandbox_shown_def publish_weather_updated_def publish_weather_def sandbox_ids_def)
    qed
  qed
qed

lemma limit_not_reached:
  assumes "length (rt_active_sandboxes rt) \<le> unat (sv_max_active_sandboxes sv)" "\<not> limit_reached sv rt"
  shows "length (rt_active_sandboxes rt) < unat (sv_max_active_sandboxes sv)"
proof -
  have "length (rt_active_sandboxes rt) < 2 ^ 32"
    using assms(1) unat_bound [of "sv_max_active_sandboxes sv"] by simp
  then have "unat (of_nat (length (rt_active_sandboxes rt)) :: u32) = length (rt_active_sandboxes rt)"
    by (simp add: unat_of_nat)
  with assms(2) show ?thesis by (simp add: limit_reached_def not_le word_less_nat_alt)
qed

lemma activation_reaches_switch:
  assumes "set_local_sandbox_activation sv now sandbox_alone e k True sys = (res, sys')"
  obtains (Early) err where "res = Inl err" "sys' = sys"
  | (Switch) r where "find_local_sandbox_by_id (cs_sandboxes (get_snapshot sys)) k = Some r"
      "sandbox_listed (w_runtime (sys_worker sys)) (sr_sandbox_id r) \<or> \<not> limit_reached sv (w_runtime (sys_worker sys))"
      "activate_sandbox_with sv now sandbox_alone e r sys = (res, sys')"
proof -
  have alone: "sandbox_alone i s = s" for i and s :: "'a sandbox_system" by (simp add: sandbox_alone_def)
  show thesis
    using assms Early Switch unfolding set_local_sandbox_activation_def alone client_results on_worker_def
    by (auto simp: Let_def invalid_argument_def split: if_splits option.splits sum.splits)
qed

text \<open>
  C39. Activating a configured sandbox is all or nothing, when no other task interferes. If it answers
  with an error, also when the worker refuses the weather and the activation is rolled back, the active
  sandboxes with their worlds, the recorded start times, the published events and the configurations
  are those of before. If it succeeds, the request carried the revision of the worker, the sandbox was
  not active, and it is now listed last with the map, the time of day and the weather of its
  configuration, its start is recorded and its weather announced; and the number of active sandboxes
  stays within the limit.
\<close>

theorem activation_all_or_nothing:
  assumes "worker_ok (sys_worker sys)" "length (active_of sys) \<le> unat (sv_max_active_sandboxes sv)"
  shows "case set_local_sandbox_activation sv now sandbox_alone e k True sys of
      (Inl _, sys') \<Rightarrow> same_sandboxes sys sys'
    | (Inr resp, sys') \<Rightarrow>
        (\<exists>r. find_local_sandbox_by_id (cs_sandboxes (get_snapshot sys)) k = Some r \<and>
           rt_revision (w_runtime (sys_worker sys)) = e \<and> sandbox_shown now e r sys sys' resp \<and>
           length (active_of sys') \<le> unat (sv_max_active_sandboxes sv))"
proof -
  obtain res sys' where run: "set_local_sandbox_activation sv now sandbox_alone e k True sys = (res, sys')"
    by (metis prod.exhaust)
  then show ?thesis
  proof (cases rule: activation_reaches_switch)
    case (Early err)
    with run show ?thesis by (simp add: same_sandboxes_def)
  next
    case (Switch r)
    note act = activate_alone [OF assms(1) Switch(3)]
    show ?thesis
    proof (cases res)
      case (Inl err)
      with act run show ?thesis by simp
    next
      case (Inr resp)
      with act have sh: "sandbox_shown now e r sys sys' resp" "rt_revision (w_runtime (sys_worker sys)) = e"
        by simp_all
      then have "\<not> sandbox_listed (w_runtime (sys_worker sys)) (sr_sandbox_id r)"
        by (auto simp: sandbox_shown_def sandbox_listed_def list_ex_iff image_iff)
      with Switch(2) limit_not_reached [OF assms(2)]
      have "length (active_of sys) < unat (sv_max_active_sandboxes sv)" by blast
      with sh Switch(1) run Inr show ?thesis by (auto simp: sandbox_shown_def)
    qed
  qed
qed

lemma sat_add_1_exact:
  fixes v :: u64
  assumes "v \<noteq> - 1"
  shows "sat_add v 1 = v + 1"
proof -
  have "1 + v \<noteq> 0" using assms by (metis add.commute eq_neg_iff_add_eq_0)
  then have s: "unat (1 + v) = Suc (unat v)" by (rule unatSuc)
  have b: "unat v + 1 \<le> 2 ^ LENGTH(64) - 1" using unat_bound [of "1 + v"] s by (metis Suc_eq_plus1)
  have "unat (sat_add v 1) = unat v + 1" by (simp only: unat_sat_add unat_1 min_absorb1 [OF b])
  with s show ?thesis by (metis Suc_eq_plus1 add.commute word_unat_eq_iff)
qed

lemma written_back_fails:
  "out \<noteq> Written \<Longrightarrow> \<exists>err sys'. written_back io out v sys = (Inl err, sys') \<and> store_error_code err = CodeInternal"
  by (cases "si_encode io (get_snapshot sys)"; cases out) (simp_all add: written_back_def)

text \<open>
  C40. A change whose file cannot be written stays: the request answers with an internal error, but the
  configurations have changed as if it had succeeded and the revision has advanced, so the same
  request sent again is refused for its revision.
\<close>

theorem failed_write_keeps_change:
  assumes "ids_distinct (get_snapshot sys)" "op_check fs op = Inr ()" "e = cs_revision (get_snapshot sys)"
    and "op_spec op (config_map (get_snapshot sys)) = Inr m" "out \<noteq> Written" "e \<noteq> - 1"
  shows "\<exists>err sys'. store_request fs io out op e sandbox_alone i sys = (Inl err, sys') \<and>
      store_error_code err = CodeInternal \<and> config_map (get_snapshot sys') = m \<and>
      cs_revision (get_snapshot sys') = e + 1 \<and>
      store_request fs io out' op e sandbox_alone j sys' = (Inl (StoreRevisionMismatch e (e + 1)), sys')"
proof -
  from assms(1) obtain st' where ch: "op_change op e (get_snapshot sys) = (Inr (sat_add e 1), st')"
    and st': "cs_revision st' = sat_add e 1" "config_map st' = m" "ids_distinct st'"
    using assms(3,4) by (cases rule: op_change_cases [where e = e and op = op]) auto
  have plus: "sat_add e 1 = e + 1" by (rule sat_add_1_exact [OF assms(6)])
  let ?sys1 = "sys\<lparr>sys_configs := (sys_configs sys)\<lparr>st_state := st'\<rparr>\<rparr>"
  have first: "store_request fs io out op e sandbox_alone i sys = written_back io out (e + 1) ?sys1"
    using ch by (simp add: store_request_eq store_op_eq assms(2) sandbox_alone_def plus)
  obtain err sys' where w: "written_back io out (e + 1) ?sys1 = (Inl err, sys')" "store_error_code err = CodeInternal"
    using written_back_fails [OF assms(5), of io "e + 1" ?sys1] by (elim exE conjE)
  have snap: "get_snapshot sys' = st'"
    using get_snapshot_written_back [of io out "e + 1" ?sys1] w(1) by simp
  have "e \<noteq> e + 1" by simp
  with op_change_meets [OF st'(3), of e op] st'(1) plus
  have "op_change op e st' = (Inl (StoreRevisionMismatch e (e + 1)), st')" by (simp add: meets_spec_def)
  then have "store_request fs io out' op e sandbox_alone j sys' = (Inl (StoreRevisionMismatch e (e + 1)), sys')"
    using snap by (simp add: store_request_eq store_op_eq assms(2) sandbox_alone_def)
  with first w snap st' plus show ?thesis by auto
qed

section \<open>Configurations that cannot be activated, interrupted deletions\<close>

text \<open>
  The checks of the store trim the map identifier and then store it as it came; the worker does not
  trim. A configuration with white space around its map passes the checks, and no activation of it
  ever succeeds.
\<close>

lemma alnum_graphic: "is_ascii_alphanumeric c \<or> c = CHR ''-'' \<or> c = CHR ''_'' \<Longrightarrow> graphic c"
  by (auto simp: is_ascii_alphanumeric_def graphic_def Let_def)

lemma worker_map_id_trimmed: "validate_map_id fs m = Inr u \<Longrightarrow> trim m = m"
  by (cases "m = []")
     (auto simp: validate_map_id_def list_all_iff alnum_graphic intro!: trim_graphic split: if_splits)

lemma switch_sandbox_map: "switch_runtime env ActSandbox m k t g e w = (Inr rt, w') \<Longrightarrow> trim m = m"
  by (auto simp: switch_runtime_def Let_def intro: worker_map_id_trimmed split: if_splits option.splits sum.splits)

theorem padded_map_never_activates:
  fixes other :: "'n sandbox_others"
  assumes "find_local_sandbox_by_id (cs_sandboxes (get_snapshot (other 0 sys))) k = Some r"
    and "trim (si_map_id (sr_config r)) \<noteq> si_map_id (sr_config r)"
  shows "fst (set_local_sandbox_activation sv now other e k True sys) \<noteq> Inr resp"
proof -
  have "fst (switch_runtime env ActSandbox (si_map_id (sr_config r)) k' t g e w) \<noteq> Inr rt"
    for env k' t g rt and w :: "'n worker"
    using assms(2) switch_sandbox_map by (metis prod.collapse)
  then have "fst (on_worker env (switch_runtime env ActSandbox (si_map_id (sr_config r)) k' t g e) s) \<noteq> Inr rt"
    for env k' t g rt and s :: "'n sandbox_system"
    by (simp add: on_worker_def)
  then have "fst (activate_sandbox_with sv now other e r s) \<noteq> Inr resp" for s
    by (simp add: activate_sandbox_with_def activation_client_results Let_def case_prod_beta split: sum.split)
  then show ?thesis
    by (auto simp: set_local_sandbox_activation_def assms(1) Let_def invalid_argument_def
        case_prod_beta split: sum.splits)
qed

text \<open>
  A deletion looks at the active sandboxes once, before it changes the store. A sandbox that is
  activated in between stays active without a configuration, and the runtime state does not show it.
\<close>

theorem deleted_while_activated:
  assumes "\<not> blank k" "w_running (sys_worker sys)" "\<not> sandbox_listed (w_runtime (sys_worker sys)) k"
    and "ids_distinct (get_snapshot busy)" "cs_revision (get_snapshot busy) = e"
    and "config_map (get_snapshot busy) k = Some c" "\<And>st. \<exists>raw. si_encode (sv_io sv) st = Inr raw"
  shows "\<exists>sys'. delete_local_sandbox_config sv Written (\<lambda>i s. if i = 1 then busy else s) e k sys =
      (Inr (sat_add e 1, k), sys') \<and> config_map (get_snapshot sys') k = None \<and> sys_worker sys' = sys_worker busy"
proof -
  let ?other = "\<lambda>i s. if i = (1::nat) then busy else s"
  obtain st' where ch: "delete_change e k (get_snapshot busy) = (Inr (sat_add e 1), st')" "config_map st' k = None"
    using assms(4-6) delete_change_meets [OF assms(4), of e k]
    by (cases "delete_change e k (get_snapshot busy)") (auto simp: meets_spec_def)
  let ?b = "busy\<lparr>sys_configs := (sys_configs busy)\<lparr>st_state := st'\<rparr>\<rparr>"
  obtain sys2 where w: "written_back (sv_io sv) Written (sat_add e 1) ?b = (Inr (sat_add e 1), sys2)"
    "get_snapshot sys2 = st'" "sys_worker sys2 = sys_worker busy"
    using assms(7) [of st'] by (auto simp: written_back_def get_snapshot_def)
  have "delete_config (sv_io sv) Written e k ?other 1 s = (Inr (sat_add e 1), sys2)" for s
    using ch w by (simp add: delete_config_def store_op_eq)
  then show ?thesis
    using assms(1-3) ch w
    by (auto simp: delete_local_sandbox_config_def require_sandbox_not_active_def client_results on_worker_def
        Let_def get_snapshot_def)
qed

section \<open>The stream of the runtime state\<close>

text \<open>The stream never repeats itself: neighbouring states differ in more than the server's time.\<close>

definition announces_change :: "(status, local_runtime_state) result \<Rightarrow> (status, local_runtime_state) result \<Rightarrow> bool" where
  "announces_change a b \<longleftrightarrow>
     (case (a, b) of (Inr x, Inr y) \<Rightarrow> comparable_state x \<noteq> comparable_state y | _ \<Rightarrow> True)"

lemma announces_change_simps [simp]:
  "announces_change (Inr x) (Inr y) \<longleftrightarrow> comparable_state x \<noteq> comparable_state y"
  "announces_change (Inl e) b" "announces_change a (Inl e)"
  by (simp_all add: announces_change_def split: sum.split)

lemma comparable_idem [simp]: "comparable_state (comparable_state x) = comparable_state x"
  by (simp add: comparable_state_def)

lemma stream_never_repeats:
  "successively announces_change (stream_local_runtime_state last_state turns) \<and>
   (case (last_state, stream_local_runtime_state last_state turns) of
      (Some x, Inr y # _) \<Rightarrow> x \<noteq> comparable_state y | _ \<Rightarrow> True)"
proof (induction last_state turns rule: stream_local_runtime_state.induct)
  case (2 last_state t turns)
  show ?case
  proof (cases "tn_built t")
    case (Inr state)
    with 2 show ?thesis
      by (cases "last_state = Some (comparable_state state)";
          cases "stream_local_runtime_state (Some (comparable_state state)) turns")
         (auto split: option.splits sum.splits)
  qed (auto split: option.splits)
qed (auto split: option.splits)

section \<open>A small service\<close>

definition sample_sandbox_codes :: sandbox_codes where
  "sample_sandbox_codes =
     \<lparr>pc_mode = (\<lambda>i. if i = 0 then Some ModeUnspecified else if i = 1 then Some ModeFixedPreset else if i = 2 then Some ModeAutoByLocalTime else None),
      pc_mode_code = (\<lambda>m. case m of ModeUnspecified \<Rightarrow> 0 | ModeFixedPreset \<Rightarrow> 1 | ModeAutoByLocalTime \<Rightarrow> 2),
      pc_preset = (\<lambda>i. if i = 0 then Some ProtoUnspecified else if i = 1 then Some ProtoMorning else if i = 2 then Some ProtoNoon
                      else if i = 3 then Some ProtoEvening else if i = 4 then Some ProtoNight else None),
      pc_preset_code = (\<lambda>p. case p of ProtoUnspecified \<Rightarrow> 0 | ProtoMorning \<Rightarrow> 1 | ProtoNoon \<Rightarrow> 2 | ProtoEvening \<Rightarrow> 3 | ProtoNight \<Rightarrow> 4),
      pc_weather_clear = 1,
      sc_weather = (\<lambda>i. if i = 0 then Some WeatherUnspecified else if i = 1 then Some Clear else if i = 2 then Some PartlyCloudy
                      else if i = 3 then Some Overcast else if i = 4 then Some LightRain else if i = 5 then Some MediumRain
                      else if i = 6 then Some HeavyRain else None),
      sc_weather_code = (\<lambda>w. case w of WeatherUnspecified \<Rightarrow> 0 | Clear \<Rightarrow> 1 | PartlyCloudy \<Rightarrow> 2 | Overcast \<Rightarrow> 3 | LightRain \<Rightarrow> 4
                                     | MediumRain \<Rightarrow> 5 | HeavyRain \<Rightarrow> 6),
      sc_spawn = (\<lambda>i. if i = 0 then Some ProtoSpawnUnspecified else if i = 1 then Some ProtoStartLine else if i = 2 then Some ProtoRandomOnTrack
                      else if i = 3 then Some ProtoInPit else if i = 4 then Some ProtoRandomStartSlot else None),
      sc_spawn_code = (\<lambda>m. case m of ProtoSpawnUnspecified \<Rightarrow> 0 | ProtoStartLine \<Rightarrow> 1 | ProtoRandomOnTrack \<Rightarrow> 2 | ProtoInPit \<Rightarrow> 3
                                   | ProtoRandomStartSlot \<Rightarrow> 4)\<rparr>"

lemma sample_sandbox_codes_ok: "codes_ok sample_sandbox_codes"
  by (simp add: codes_ok_def sample_sandbox_codes_def
      split: time_of_day_mode.split proto_time_of_day.split weather_type.split proto_spawn_mode.split)

definition sample_service :: "u64 list sandbox_service" where
  "sample_service =
     \<lparr>sv_env = sample_env, sv_io = \<lparr>si_encode = (\<lambda>_. Inr ''state''), si_decode = (\<lambda>_. Inl ''unreadable'')\<rparr>,
      sv_codes = sample_sandbox_codes, sv_uuid5 = (\<lambda>s. s), sv_max_active_sandboxes = 2, sv_sync = None\<rparr>"

definition sample_sandbox_config :: sandbox_config_input_record where
  "sample_sandbox_config =
     \<lparr>si_sandbox_name = ''demo'', si_map_id = ''m1'',
      si_time_of_day = \<lparr>tr_mode = RecFixedPreset, tr_fixed_preset = RecNoon\<rparr>, si_ghost_mode = None,
      si_weather = \<lparr>wr_weather_type = RecClear, wr_temperature_c = 20\<rparr>, si_spawn_mode = StartLine\<rparr>"

definition sample_sandbox_system :: "sandbox_config_record list \<Rightarrow> u64 list sandbox_system" where
  "sample_sandbox_system entries =
     \<lparr>sys_worker = spawn_worker None, sys_race = local_race_state_default, sys_store = store_new,
      sys_configs = \<lparr>st_state = \<lparr>cs_revision = 0, cs_sandboxes = entries\<rparr>, st_file = None\<rparr>,
      sys_started = [], sys_weather_events = []\<rparr>"

abbreviation sample_config_entry :: sandbox_config_record where
  "sample_config_entry \<equiv> \<lparr>sr_sandbox_id = ''s1'', sr_config = sample_sandbox_config\<rparr>"

lemma sample_config_valid: "config_valid (env_features sample_env) sample_sandbox_config"
  by (simp add: config_valid_iff sample_sandbox_config_def trim_graphic graphic_def valid_map_chars_def
      is_ascii_alphanumeric_def validate_local_weather_settings_def chars_count_def MAX_SANDBOX_NAME_LEN_CHARS_def Let_def)

lemma sample_system_facts [simp]:
  "get_snapshot (sample_sandbox_system es) = \<lparr>cs_revision = 0, cs_sandboxes = es\<rparr>"
  "sys_worker (sample_sandbox_system es) = spawn_worker None"
  "sandbox_alone i sys = sys" "env_features (sv_env sample_service) = env_features sample_env"
  "sv_max_active_sandboxes sample_service = 2"
  by (simp_all add: sample_sandbox_system_def get_snapshot_def sandbox_alone_def sample_service_def)

lemma sample_store_wf: "store_wf (env_features sample_env) \<lparr>cs_revision = 0, cs_sandboxes = [sample_config_entry]\<rparr>"
  using sample_config_valid by (simp add: store_wf_def ids_distinct_def)

theorem store_requests_refine_map_witness:
  "\<exists>st'. cs_revision st' = 1 \<and> config_map st' = [''s1'' \<mapsto> sample_sandbox_config] \<and> ids_distinct st' \<and>
     store_request (env_features sample_env) (sv_io sample_service) Written (OpCreate ''s1'' sample_sandbox_config) 0
       sandbox_alone 0 (sample_sandbox_system []) =
     written_back (sv_io sample_service) Written 1
       ((sample_sandbox_system [])\<lparr>sys_configs := (sys_configs (sample_sandbox_system []))\<lparr>st_state := st'\<rparr>\<rparr>)"
proof -
  have d: "ids_distinct (get_snapshot (sandbox_alone 0 (sample_sandbox_system [])))"
    by (simp add: ids_distinct_def)
  have c: "op_check (env_features sample_env) (OpCreate ''s1'' sample_sandbox_config) = Inr ()"
    using sample_config_valid by (simp add: config_valid_def)
  have "sat_add 0 1 = (1 :: u64)" by code_simp
  then show ?thesis
    using store_requests_refine_map [where other = sandbox_alone and i = 0 and sys = "sample_sandbox_system []"
        and fs = "env_features sample_env" and op = "OpCreate ''s1'' sample_sandbox_config"
        and io = "sv_io sample_service" and out = Written and e = 0, OF d] c
    by (simp add: config_map_def Let_def del: op_check.simps store_request.simps sample_env_sel)
qed

text \<open>While a sandbox is created, a deletion that overlaps has made its change but not yet written the file.\<close>

definition sample_deletion :: "u64 list sandbox_others" where
  "sample_deletion i sys = sys\<lparr>sys_configs := (sys_configs sys)\<lparr>st_state := snd (delete_change 0 ''s1'' (get_snapshot sys))\<rparr>\<rparr>"

lemma sample_deletion_steps: "\<forall>i s. (config_step fs)\<^sup>*\<^sup>* (get_snapshot s) (get_snapshot (sample_deletion i s))"
proof (intro allI)
  fix i and s :: "u64 list sandbox_system"
  obtain r st' where d: "delete_change 0 ''s1'' (get_snapshot s) = (r, st')" by fastforce
  show "(config_step fs)\<^sup>*\<^sup>* (get_snapshot s) (get_snapshot (sample_deletion i s))"
  proof (cases r)
    case (Inl err)
    then show ?thesis using d by (auto simp: sample_deletion_def delete_change_def bumped_def get_snapshot_def Let_def split: if_splits sum.splits)
  next
    case (Inr v)
    have "config_step fs (get_snapshot s) st'"
      by (rule config_step.checked [where op = "OpDelete ''s1''" and e = 0 and v = v]) (simp_all add: d Inr)
    then show ?thesis by (simp add: sample_deletion_def d r_into_rtranclp)
  qed
qed

theorem requests_keep_configurations_valid_witness:
  "let sys = sample_sandbox_system [sample_config_entry];
       st' = get_snapshot (serve sample_service (\<lambda>_. (0, 0)) sample_deletion
         (CreateSandbox (WriteFailed ''disk full'' None) 5 1
           (Some (local_sandbox_input_to_proto sample_sandbox_codes sample_sandbox_config))) sys)
   in distinct (map sr_sandbox_id (cs_sandboxes st')) \<and> cs_revision (get_snapshot sys) \<le> cs_revision st'"
  using requests_keep_configurations_valid [OF refl sample_deletion_steps, of "sample_sandbox_system [sample_config_entry]" sample_service]
    sample_config_valid
  by (simp add: acceptable_iff Let_def del: serve.simps sample_env_sel)

theorem listed_configuration_reads_back_witness:
  "local_sandbox_input_from_proto (env_features sample_env) sample_sandbox_codes
     (local_sandbox_input_to_proto sample_sandbox_codes sample_sandbox_config) = Inr sample_sandbox_config"
  using listed_configuration_reads_back [OF sample_sandbox_codes_ok, of "env_features sample_env"
      "sample_sandbox_system [sample_config_entry]"] sample_store_wf
  by (simp add: get_local_sandbox_configs_def local_sandbox_to_proto_def Let_def del: sample_env_sel)

theorem activation_all_or_nothing_witness:
  "worker_ok (sys_worker (sample_sandbox_system [sample_config_entry])) \<and>
   (case set_local_sandbox_activation sample_service (\<lambda>_. (0, 0)) sandbox_alone 0 ''s1'' True
           (sample_sandbox_system [sample_config_entry]) of
      (Inl _, sys') \<Rightarrow> same_sandboxes (sample_sandbox_system [sample_config_entry]) sys'
    | (Inr resp, sys') \<Rightarrow>
        sandbox_shown (\<lambda>_. (0, 0)) 0 sample_config_entry (sample_sandbox_system [sample_config_entry]) sys' resp \<and>
        length (active_of sys') \<le> 2)"
proof -
  have ok: "worker_ok (sys_worker (sample_sandbox_system [sample_config_entry]))" by (simp add: worker_ok_spawn)
  have len: "length (active_of (sample_sandbox_system [sample_config_entry])) \<le> unat (sv_max_active_sandboxes sample_service)"
    by (simp add: spawn_worker_def)
  have found: "find_local_sandbox_by_id (cs_sandboxes (get_snapshot (sample_sandbox_system [sample_config_entry]))) ''s1'' =
      Some sample_config_entry" by (simp add: find_local_sandbox_by_id_def)
  show ?thesis
    using activation_all_or_nothing [OF ok len, where now = "\<lambda>_. (0, 0)" and e = 0 and k = "''s1''"] ok found
    by (simp split: prod.splits sum.splits)
qed

theorem failed_write_keeps_change_witness:
  "\<exists>err sys'. store_request (env_features sample_env) (sv_io sample_service) (WriteFailed ''disk full'' None)
       (OpCreate ''s1'' sample_sandbox_config) 0 sandbox_alone 0 (sample_sandbox_system []) = (Inl err, sys') \<and>
     store_error_code err = CodeInternal \<and> config_map (get_snapshot sys') = [''s1'' \<mapsto> sample_sandbox_config] \<and>
     cs_revision (get_snapshot sys') = 1 \<and>
     store_request (env_features sample_env) (sv_io sample_service) Written
       (OpCreate ''s1'' sample_sandbox_config) 0 sandbox_alone 0 sys' = (Inl (StoreRevisionMismatch 0 1), sys')"
proof -
  have d: "ids_distinct (get_snapshot (sample_sandbox_system []))" by (simp add: ids_distinct_def)
  have c: "op_check (env_features sample_env) (OpCreate ''s1'' sample_sandbox_config) = Inr ()"
    using sample_config_valid by (simp add: config_valid_def)
  have m: "op_spec (OpCreate ''s1'' sample_sandbox_config) (config_map (get_snapshot (sample_sandbox_system []))) =
      Inr [''s1'' \<mapsto> sample_sandbox_config]" by (simp add: config_map_def)
  show ?thesis
    using failed_write_keeps_change [OF d c _ m, where e = 0 and out = "WriteFailed ''disk full'' None"
        and io = "sv_io sample_service" and i = 0 and out' = Written and j = 0]
    by simp
qed

lemma padded_config_accepted:
  "config_valid (env_features sample_env) (sample_sandbox_config\<lparr>si_map_id := '' m1''\<rparr>)"
  "trim '' m1'' \<noteq> '' m1''"
proof -
  have t: "trim '' m1'' = ''m1''" by code_simp
  then show "trim '' m1'' \<noteq> '' m1''" by simp
  show "config_valid (env_features sample_env) (sample_sandbox_config\<lparr>si_map_id := '' m1''\<rparr>)"
    using sample_config_valid t
    by (simp add: config_valid_iff valid_map_chars_def sample_sandbox_config_def is_ascii_alphanumeric_def Let_def)
qed

end
