(* ===== verification/Spec2Isabelle.thy ===== *)
theory Spec2Isabelle
  imports Race_Config_Domain Engine_Worker_Contract Local_Race_Contract Frame_Hub_Contract Race_Table_Contract
    Participant_Contract Official_Session_Contract Local_Sandbox_Contract
begin

text \<open>
  \<^bold>\<open>The HackArena game server.\<close>
  The program is a gRPC server around a native racing simulation. One task, the engine
  worker (game-server/src/runtime/engine_worker.rs), owns every simulation world: the official
  race, a standalone local race and any number of sandboxes. It receives commands through a
  channel, guards changes of its metadata by a revision the caller must know, executes
  scheduled sandbox activations and feeds scheduled weather to the worlds. The worlds are
  handles of the native library, wrapped by the crate game-engine/boink, which validates what
  it passes to the library and checks what it gets back. The services
  (game-server/src/services) translate requests into commands and keep the state the worker
  does not have: which cars exist, their pit stops, tyres and cooldowns
  (services/race/runtime_store.rs), and the local race with its participants and phases
  (local/local_race_state.rs). The frame hub (services/race/frame_hub.rs) reads the worker and
  the store once per tick and publishes a frame; the race table (services/race_table.rs) makes
  the standings from it. The domain modules (domain/weather.rs, domain/race_config.rs)
  are pure functions on schedules.

  \<^bold>\<open>The theories\<close>, in the order of their imports:

  \<^item> \<open>Prelude\<close>: the integers of the code (saturating and wrapping 32- and 64-bit arithmetic
    on words, signed 64-bit integers with their wrap-around), results as sums, the string
    functions the code uses, hash maps as association lists with distinct keys, the interface
    \<open>hash_map\<close> they satisfy, and the build features.
  \<^item> \<open>Ieee\<close>: IEEE 754 single and double precision as rational numbers with infinities and
    NaN, rounding to nearest even, the operations and comparisons the code uses. Zeros are
    not signed; the code never observes the sign of a zero.
  \<^item> \<open>Weather_Domain\<close>: domain/weather.rs. Lookup in a schedule, rain probability, dominant
    type and average temperature of a window, validation, forecast. The window functions are
    proved against definitions that sum over every millisecond of the window.
  \<^item> \<open>Race_Config_Domain\<close>: domain/race_config.rs. Validation of race schedules, proved
    equivalent to the conditions it stands for, with the first error in the code's order.
  \<^item> \<open>Boink_Model\<close>, \<open>Boink_Engine\<close>: the wrapper crate. Conversions between the native
    structures and the safe ones, errors, versions, the engine with all its operations. The
    native library is the parameter record \<open>native\<close>, one field per imported function.
  \<^item> \<open>Engine_Worker\<close>: the worker with all its commands, ticks and per-world loops as events.
    \<open>Engine_Worker_Safety\<close> proves the invariant of its reachable states,
    \<open>Engine_Worker_Contract\<close> the compare-and-swap discipline of the guarded commands (the
    locales \<open>cas_guard\<close> and \<open>cas_op\<close>, interpreted on all eight of them), the execution of
    due activations and the separation of worlds.
  \<^item> \<open>Engine_Client\<close>: the methods of \<open>EngineClient\<close>, by which the services send a command to
    the worker and await its reply. They act on every record that extends \<open>client_system\<close>, so
    each service has its own system around the same worker.
  \<^item> \<open>Runtime_Store\<close>, \<open>Runtime_Store_Contract\<close>: services/race/runtime_store.rs. Every
    operation changes the pit state of one car only (locale \<open>pit_operation\<close>, interpreted on every
    operation), so cars do not interfere through the store; cooldowns, tyre changes and the pit history are properties of that machine.
  \<^item> \<open>Local_Race_State\<close>, \<open>Local_Race_Admin\<close>, \<open>Local_Race_Contract\<close>: the local race, its
    administration (services/local_race_admin.rs and the lifecycle tick of
    services/local_sandbox_admin.rs) over the worker and the store. Requests may be
    interleaved with other tasks at every await; the locale \<open>race_rely\<close> carries what every
    elementary update of the race keeps, and \<open>race_tasks\<close> shows that a request among tasks that
    only make such updates only makes such updates itself, so requests may overlap in any way.
    \<open>worker_rely\<close> does the same for what every command of the worker keeps.
  \<^item> \<open>Local_Sandbox_Store\<close>, \<open>Local_Sandbox_Admin\<close>, \<open>Local_Sandbox_Contract\<close>: the configured
    local sandboxes (local/sandbox_config_store/) and their administration
    (services/local_sandbox_admin.rs) over the worker. The store refines a map behind a
    revision; the locales \<open>config_rely\<close> and \<open>config_tasks\<close> carry what every checked change keeps
    through the requests and their interleavings; an activation is all or nothing. The JSON library, the
    outcome of a write and the download of map assets are parameters.
  \<^item> \<open>Frame_Hub\<close>, \<open>Frame_Hub_Contract\<close>: one frame of the hub over the worker and the store, and
    its loop. The locale \<open>hub_rely\<close> says that the other tasks run operations of the store at
    the awaits; under it a frame is a run of the store, which carries the properties of the
    store's cars over to the frames: cars in an emergency stop are held, best laps are the
    fastest reported. The locale \<open>stale_rely\<close> is about cars of stopped sandboxes.
  \<^item> \<open>Race_Table\<close>, \<open>Race_Table_Contract\<close>: the standings. The cache of the official table refines
    the set of cars of the session, the rows are sorted, by a comparison that satisfies the
    locale \<open>cmp_order\<close>, by the distance since the first request of the log that saw the car,
    trajectories strictly increase, and the binary search that
    interpolates the time of the leader finds what a scan finds, with the result bracketed by
    the neighbouring points under IEEE rounding.

  \<^item> \<open>Service_Status\<close>: the gRPC status a service answers with, and the translation of the worker's
    and the engine's errors into one.
  \<^item> \<open>Game_Token\<close>: auth/jwks.rs, auth/game_token.rs and auth/auth_claims.rs. The download and
    cache of the key set, which requests share, and the verification of a token. The locale
    \<open>cache_rely\<close> says that other requests only write downloads to the cache.
  \<^item> \<open>Message_Mappers\<close>: services/mappers.rs, the conversions between the wrapper's data and the
    protocol messages.
  \<^item> \<open>Bot_Logs\<close>: the tail of a bot's log file and the stream of what is appended to it, proved
    against the lines of the file.
  \<^item> \<open>Race_Service\<close>, \<open>Race_Service_Contract\<close>: services/race.rs. Joining a sandbox, controls,
    the commands of a team with their cooldowns (locale \<open>cooldown_interface\<close>, interpreted on
    both of them), bot logs, spectators and clean-up, over the worker, the store and the
    frames of the hub, with other tasks running at every await.
  \<^item> \<open>Participant_Service\<close>, \<open>Participant_Stream\<close>, \<open>Participant_Contract\<close>:
    services/race_participant.rs, the joins of bots and their streams. A stream is a sequence
    of turns, each one message or tick, with the answers sent and the system after it; other
    tasks run at every await. The numbers and the order of the messages, the hold of a stopped
    car and the gate of a local race are proved of every turn.
  \<^item> \<open>Bot_Artifacts\<close>: the names, image references, versions, error texts and containers of
    the bots (services/submission.rs) and the masking of secrets (services/log_redaction.rs).
    The answers of docker are a parameter.
  \<^item> \<open>Official_Session\<close>, \<open>Official_Session_Contract\<close>: the sessions of the official race in
    services/race_participant.rs. Launching the teams of a roster with the roll-back of every
    failure, restarts and slot switches of their bots, the results, and the launcher that two
    signal files drive. A launch accounts for every team of the roster whatever other tasks
    do; restarts are bounded; the flags of the launcher agree with the store.

  \<^bold>\<open>Conventions.\<close> A struct is a record, an enum a datatype with the constructors of the code,
  a method a function that returns the new state with its result; an error is the left
  injection of a sum. The clock, random numbers, the file system and the rows of the
  database are arguments. Concurrent maps are association lists whose order is the order of
  iteration. Loops are recursive functions with termination proofs; there is no fuel. What
  comes from outside the repository is a parameter: the native library, the numbering of
  the protocol's enumerations (the protocol crate is generated) and file access. Logging is
  left out.

  \<^bold>\<open>Not modelled.\<close> Input and output (gRPC transport, files, database access, process start-up,
  shutdown, logging), the uploads and builds of the bot submission pipeline
  (services/submission.rs), assets and the weather services around the schedule.
  The manifest lists each part with the reason.
\<close>

end
